(* ===== verification/Prelude.thy ===== *)
theory Prelude
  imports Main "HOL-Library.Sublist"
begin

text \<open>
  Shared base of the library: the named collections of simplification rules the component
  theories extend, the ordered string-keyed objects that stand for JavaScript objects and
  \<open>Map\<close>s (with the locale that states what the clients of such a store rely on), the
  reachability predicate and the locale for invariants of step relations, and the
  selection locale shared by the multi-select editors.
\<close>

section \<open>Collections\<close>

named_theorems js_string_simps \<open>equations of the string operations\<close>
named_theorems endpoint_defs \<open>definitions of the API endpoints\<close>

section \<open>Ordered objects\<close>

text \<open>
  A JavaScript object with string keys (and a \<open>Map\<close>) iterates its entries in insertion
  order; writing an existing key keeps its position. (Integer-like keys, which objects
  iterate first, do not occur: the keys of the modelled code are UUIDs and counters used
  in a \<open>Map\<close>.)
\<close>

type_synonym ('k, 'v) obj = "('k \<times> 'v) list"

definition obj_get :: "('k, 'v) obj \<Rightarrow> 'k \<Rightarrow> 'v option" where
  "obj_get o1 k = map_of o1 k"

fun obj_set :: "'k \<Rightarrow> 'v \<Rightarrow> ('k, 'v) obj \<Rightarrow> ('k, 'v) obj" where
  "obj_set k v [] = [(k, v)]"
| "obj_set k v ((k', v') # o1) =
     (if k = k' then (k, v) # o1 else (k', v') # obj_set k v o1)"

definition obj_delete :: "'k \<Rightarrow> ('k, 'v) obj \<Rightarrow> ('k, 'v) obj" where
  "obj_delete k o1 = filter (\<lambda>e. fst e \<noteq> k) o1"

abbreviation obj_keys :: "('k, 'v) obj \<Rightarrow> 'k list" where
  "obj_keys o1 \<equiv> map fst o1"

abbreviation obj_values :: "('k, 'v) obj \<Rightarrow> 'v list" where
  "obj_values o1 \<equiv> map snd o1"

definition obj_ok :: "('k, 'v) obj \<Rightarrow> bool" where
  "obj_ok o1 = distinct (obj_keys o1)"

text \<open>What a client of a keyed store relies on.\<close>

locale keyed_store =
  fixes empty :: 'm
    and get :: "'m \<Rightarrow> 'k \<Rightarrow> 'v option"
    and put :: "'k \<Rightarrow> 'v \<Rightarrow> 'm \<Rightarrow> 'm"
    and del :: "'k \<Rightarrow> 'm \<Rightarrow> 'm"
    and keys :: "'m \<Rightarrow> 'k list"
    and ok :: "'m \<Rightarrow> bool"
  assumes get_empty: "get empty k = None"
    and get_put: "get (put k v m) k' = (if k' = k then Some v else get m k')"
    and get_del: "get (del k m) k' = (if k' = k then None else get m k')"
    and keys_get: "k \<in> set (keys m) \<longleftrightarrow> get m k \<noteq> None"
    and keys_put: "keys (put k v m) = (if k \<in> set (keys m) then keys m else keys m @ [k])"
    and keys_del: "keys (del k m) = filter (\<lambda>k'. k' \<noteq> k) (keys m)"
    and ok_empty: "ok empty"
    and ok_put: "ok m \<Longrightarrow> ok (put k v m)"
    and ok_del: "ok m \<Longrightarrow> ok (del k m)"
    and ok_keys: "ok m \<Longrightarrow> distinct (keys m)"
begin

lemma put_put: "get (put k v (put k v' m)) = get (put k v m)"
  by (rule ext) (simp add: get_put)

lemma put_swap: "k1 \<noteq> k2 \<Longrightarrow> get (put k1 v1 (put k2 v2 m)) = get (put k2 v2 (put k1 v1 m))"
  by (rule ext) (simp add: get_put)

lemma del_put: "get m k = None \<Longrightarrow> get (del k (put k v m)) = get m"
  by (rule ext) (simp add: get_put get_del)

lemma keys_put_same: "k \<in> set (keys m) \<Longrightarrow> keys (put k v m) = keys m"
  by (simp add: keys_put)

lemma set_keys_put: "set (keys (put k v m)) = insert k (set (keys m))"
  by (auto simp: keys_put)

lemma set_keys_del: "set (keys (del k m)) = set (keys m) - {k}"
  by (auto simp: keys_del)

lemma ok_fold_put: "ok m \<Longrightarrow> ok (fold (\<lambda>x. put (f x) (g x)) xs m)"
  by (induction xs arbitrary: m) (simp_all add: ok_put)

lemma set_keys_fold_put:
  "set (keys (fold (\<lambda>x. put (f x) (g x)) xs m)) = set (keys m) \<union> f ` set xs"
  by (induction xs arbitrary: m) (auto simp: set_keys_put)

lemma get_fold_put_notin:
  "k \<notin> f ` set xs \<Longrightarrow> get (fold (\<lambda>x. put (f x) (g x)) xs m) k = get m k"
  by (induction xs arbitrary: m) (auto simp: get_put)

lemma get_fold_put:
  assumes "distinct (map f xs)" and "x \<in> set xs"
  shows "get (fold (\<lambda>x. put (f x) (g x)) xs m) (f x) = Some (g x)"
  using assms
proof (induction xs arbitrary: m)
  case Nil
  then show ?case by simp
next
  case (Cons y ys)
  show ?case
  proof (cases "x = y")
    case True
    with Cons.prems have "f x \<notin> f ` set ys" by auto
    with True show ?thesis by (simp add: get_fold_put_notin get_put)
  next
    case False
    with Cons.prems have "x \<in> set ys" and "distinct (map f ys)" by auto
    then show ?thesis using Cons.IH by simp
  qed
qed

lemma keys_fold_put:
  assumes "distinct (map f xs)" and "f ` set xs \<inter> set (keys m) = {}"
  shows "keys (fold (\<lambda>x. put (f x) (g x)) xs m) = keys m @ map f xs"
  using assms
proof (induction xs arbitrary: m)
  case Nil
  then show ?case by simp
next
  case (Cons y ys)
  then have "f ` set ys \<inter> set (keys (put (f y) (g y) m)) = {}"
    by (auto simp: set_keys_put)
  with Cons show ?case by (simp add: keys_put)
qed

end

lemma obj_get_set: "obj_get (obj_set k v o1) k' = (if k' = k then Some v else obj_get o1 k')"
  by (induction o1) (auto simp: obj_get_def)

lemma obj_keys_set:
  "obj_keys (obj_set k v o1) = (if k \<in> set (obj_keys o1) then obj_keys o1 else obj_keys o1 @ [k])"
  by (induction o1) (force split: if_splits)+

lemma obj_get_delete: "obj_get (obj_delete k o1) k' = (if k' = k then None else obj_get o1 k')"
  by (induction o1) (auto simp: obj_get_def obj_delete_def)

lemma obj_set_new: "k \<notin> set (obj_keys m) \<Longrightarrow> obj_set k v m = m @ [(k, v)]"
  by (induction m) auto

lemma obj_keys_delete: "obj_keys (obj_delete k o1) = filter (\<lambda>k'. k' \<noteq> k) (obj_keys o1)"
  by (induction o1) (auto simp: obj_delete_def)

interpretation js_obj: keyed_store "[]" obj_get obj_set obj_delete obj_keys obj_ok
proof
  show "obj_get [] k = None" for k :: 'a by (simp add: obj_get_def)
  show "k \<in> set (obj_keys m) \<longleftrightarrow> obj_get m k \<noteq> None" for k and m :: "('a, 'b) obj"
    by (force simp: obj_get_def map_of_eq_None_iff)
  show "obj_ok []" by (simp add: obj_ok_def)
  show "obj_ok m \<Longrightarrow> obj_ok (obj_set k v m)" for k v and m :: "('a, 'b) obj"
    by (simp add: obj_ok_def obj_keys_set)
  show "obj_ok m \<Longrightarrow> obj_ok (obj_delete k m)" for k and m :: "('a, 'b) obj"
    by (simp add: obj_ok_def obj_keys_delete)
  show "obj_ok m \<Longrightarrow> distinct (obj_keys m)" for m :: "('a, 'b) obj"
    by (simp add: obj_ok_def)
qed (fact obj_get_set obj_get_delete obj_keys_set obj_keys_delete)+

lemma obj_entry_get: "obj_ok o1 \<Longrightarrow> (k, v) \<in> set o1 \<longleftrightarrow> obj_get o1 k = Some v"
  by (simp add: obj_ok_def obj_get_def)

lemma obj_length_keys: "length (obj_keys o1) = length o1"
  by simp

section \<open>Step relations and their invariants\<close>

inductive reachable :: "('s \<Rightarrow> bool) \<Rightarrow> ('s \<Rightarrow> 's \<Rightarrow> bool) \<Rightarrow> 's \<Rightarrow> bool"
  for init :: "'s \<Rightarrow> bool" and trans :: "'s \<Rightarrow> 's \<Rightarrow> bool" where
  reachable_init: "init s \<Longrightarrow> reachable init trans s"
| reachable_step: "reachable init trans s \<Longrightarrow> trans s t \<Longrightarrow> reachable init trans t"

text \<open>
  The contract of every component that is a state machine: an invariant that holds
  initially and is kept by every transition holds in every reachable state.
\<close>

locale step_invariant =
  fixes init :: "'s \<Rightarrow> bool"
    and trans :: "'s \<Rightarrow> 's \<Rightarrow> bool"
    and inv :: "'s \<Rightarrow> bool"
  assumes inv_init: "init s \<Longrightarrow> inv s"
    and inv_step: "trans s t \<Longrightarrow> inv s \<Longrightarrow> inv t"
begin

lemma reachable_inv: "reachable init trans s \<Longrightarrow> inv s"
  by (induction rule: reachable.induct) (auto intro: inv_init inv_step)

lemma rtranclp_inv: "trans\<^sup>*\<^sup>* s t \<Longrightarrow> inv s \<Longrightarrow> inv t"
  by (induction rule: rtranclp_induct) (auto intro: inv_step)

end

text \<open>A deterministic machine driven by a list of events.\<close>

locale event_machine =
  fixes step :: "'s \<Rightarrow> 'e \<Rightarrow> 's"
    and inv :: "'s \<Rightarrow> bool"
  assumes inv_event: "inv s \<Longrightarrow> inv (step s e)"
begin

lemma inv_run: "inv s \<Longrightarrow> inv (foldl step s es)"
  by (induction es arbitrary: s) (simp_all add: inv_event)

end

text \<open>An event machine is a transition system whose invariant holds of every reachable state.\<close>

sublocale event_machine \<subseteq> steps: step_invariant inv "\<lambda>s t. \<exists>e. t = step s e" inv
  by unfold_locales (auto intro: inv_event)

section \<open>Selections\<close>

text \<open>
  Several editors keep a list of selected ids and flip one id at a time. The law is that
  the flipped id changes side and nothing else does, without introducing duplicates.
\<close>

locale selection =
  fixes flip :: "'a \<Rightarrow> 'a list \<Rightarrow> 'a list"
  assumes set_flip: "set (flip x xs) = (if x \<in> set xs then set xs - {x} else insert x (set xs))"
    and distinct_flip: "distinct xs \<Longrightarrow> distinct (flip x xs)"
begin

lemma flip_flip: "set (flip x (flip x xs)) = set xs"
  by (auto simp: set_flip)

lemma flip_other: "y \<noteq> x \<Longrightarrow> y \<in> set (flip x xs) \<longleftrightarrow> y \<in> set xs"
  by (auto simp: set_flip)

lemma distinct_flips: "distinct xs \<Longrightarrow> distinct (fold flip ys xs)"
  by (induction ys arbitrary: xs) (simp_all add: distinct_flip)

end

section \<open>Generic list facts\<close>

lemma set_filter_neq: "set (filter (\<lambda>y. y \<noteq> x) xs) = set xs - {x}"
  by auto

lemma sum_list_map_snd_pos:
  "(\<And>x. x \<in> set xs \<Longrightarrow> 0 \<le> f x) \<Longrightarrow> (0::int) \<le> (\<Sum>x\<leftarrow>xs. f x)"
  by (induction xs) auto

lemma find_SomeD: "List.find P xs = Some x \<Longrightarrow> P x \<and> x \<in> set xs"
  by (induction xs) (auto split: if_splits)

lemma find_None: "List.find P xs = None \<longleftrightarrow> (\<forall>x\<in>set xs. \<not> P x)"
  by (induction xs) auto

end
