(* ===== verification/Js_Runtime.thy ===== *)
theory Js_Runtime
  imports Complex_Main Prelude
begin

text \<open>
  The part of the JavaScript language and its standard library the modelled code uses:
  strings, numbers, values, \<open>JSON.parse\<close>, the reading of a value that \<open>JSON.stringify\<close>
  puts on the wire, \<open>Number(s)\<close>, \<open>String(n)\<close>, \<open>Math.round\<close>, \<open>toFixed\<close> and ISO dates.

  A string is a list of UTF-16 code units; the model covers the strings whose units are
  below 256 (Latin-1), so that \<open>char\<close> is a code unit and length, slicing and trimming are
  exact. A finite number is an exact rational: rounding of doubles is not modelled, the
  special values are.
\<close>

section \<open>Strings\<close>

definition code_of :: "char \<Rightarrow> nat" where
  "code_of c = of_char c"

definition is_ws :: "char \<Rightarrow> bool" where
  "is_ws c = (let n = code_of c in (9 \<le> n \<and> n \<le> 13) \<or> n = 32 \<or> n = 160)"

definition trim :: "string \<Rightarrow> string" where
  "trim s = rev (dropWhile is_ws (rev (dropWhile is_ws s)))"

definition lower_char :: "char \<Rightarrow> char" where
  "lower_char c = (let n = code_of c in
     if (65 \<le> n \<and> n \<le> 90) \<or> (192 \<le> n \<and> n \<le> 222 \<and> n \<noteq> 215) then char_of (n + 32) else c)"

definition toLowerCase :: "string \<Rightarrow> string" where
  "toLowerCase s = map lower_char s"

definition startsWith :: "string \<Rightarrow> string \<Rightarrow> bool" where
  "startsWith s p = prefix p s"

definition endsWith :: "string \<Rightarrow> string \<Rightarrow> bool" where
  "endsWith s p = suffix p s"

fun str_includes :: "string \<Rightarrow> string \<Rightarrow> bool" where
  "str_includes [] t = (t = [])"
| "str_includes (c # s) t = (startsWith (c # s) t \<or> str_includes s t)"

fun split_on :: "char \<Rightarrow> string \<Rightarrow> string list" where
  "split_on d [] = [[]]"
| "split_on d (c # s) =
     (if c = d then [] # split_on d s
      else (case split_on d s of [] \<Rightarrow> [[c]] | p # ps \<Rightarrow> (c # p) # ps))"

fun join :: "string \<Rightarrow> string list \<Rightarrow> string" where
  "join sep [] = []"
| "join sep [s] = s"
| "join sep (s # t # ss) = s @ sep @ join sep (t # ss)"

lemma split_on_nonempty: "split_on d s \<noteq> []"
  by (induction s) (auto split: list.splits)

lemma split_on_pieces: "p \<in> set (split_on d s) \<Longrightarrow> d \<notin> set p"
  by (induction s arbitrary: p) (auto split: if_splits list.splits)

lemma split_on_none [js_string_simps]: "d \<notin> set s \<Longrightarrow> split_on d s = [s]"
  by (induction s) auto

lemma split_on_sep [js_string_simps]:
  "d \<notin> set s \<Longrightarrow> split_on d (s @ d # t) = s # split_on d t"
  by (induction s) auto

lemma split_join:
  assumes "ss \<noteq> []" and "\<And>s. s \<in> set ss \<Longrightarrow> d \<notin> set s"
  shows "split_on d (join [d] ss) = ss"
  using assms
proof (induction ss rule: induct_list012)
  case (3 s t ss)
  then have "split_on d (join [d] (t # ss)) = t # ss" and "d \<notin> set s" by auto
  then show ?case by (simp add: split_on_sep)
qed (auto simp: split_on_none)

lemma includes_sublist: "str_includes s t \<longleftrightarrow> sublist t s"
  by (induction s) (auto simp: startsWith_def sublist_Cons_right)

lemma trim_no_ws: "s \<noteq> [] \<Longrightarrow> \<not> is_ws (hd s) \<Longrightarrow> \<not> is_ws (last s) \<Longrightarrow> trim s = s"
proof -
  assume s: "s \<noteq> []" "\<not> is_ws (hd s)" "\<not> is_ws (last s)"
  have "dropWhile is_ws s = s" using s(1,2) by (cases s) auto
  moreover have "dropWhile is_ws (rev s) = rev s"
    using s(1,3) by (cases "rev s") (auto simp: last_rev [symmetric])
  ultimately show ?thesis by (simp add: trim_def)
qed

lemma trim_empty [simp]: "trim [] = []"
  by (simp add: trim_def)

lemma trim_last: "trim s \<noteq> [] \<Longrightarrow> \<not> is_ws (last (trim s))"
proof -
  let ?t = "dropWhile is_ws (rev (dropWhile is_ws s))"
  assume "trim s \<noteq> []"
  then have "?t \<noteq> []" by (simp add: trim_def)
  then show ?thesis using hd_dropWhile [of is_ws] by (simp add: trim_def last_rev)
qed

lemma trim_hd: "trim s \<noteq> [] \<Longrightarrow> \<not> is_ws (hd (trim s))"
proof -
  let ?d = "dropWhile is_ws s"
  assume ne: "trim s \<noteq> []"
  have "prefix (trim s) ?d"
    by (metis rev_rev_ident suffix_dropWhile suffix_to_prefix trim_def)
  then obtain zs where "?d = trim s @ zs" by (auto elim: prefixE)
  with ne have "hd (trim s) = hd ?d" and "?d \<noteq> []"
    by (metis hd_append2) (metis \<open>?d = trim s @ zs\<close> ne append_is_Nil_conv)
  then show ?thesis using hd_dropWhile [of is_ws s] by simp
qed

lemma trim_trim [simp]: "trim (trim s) = trim s"
  by (cases "trim s = []") (simp_all add: trim_no_ws trim_hd trim_last)

section \<open>Numbers\<close>

datatype jsnum = Num rat | NaN | Infinity | MinusInfinity

definition math_round :: "rat \<Rightarrow> int" where
  "math_round x = \<lfloor>x + 1 / 2\<rfloor>"

definition math_trunc :: "rat \<Rightarrow> int" where
  "math_trunc x = (if x < 0 then \<lceil>x\<rceil> else \<lfloor>x\<rfloor>)"

definition is_digit :: "char \<Rightarrow> bool" where
  "is_digit c = (48 \<le> code_of c \<and> code_of c \<le> 57)"

definition digit_val :: "char \<Rightarrow> nat" where
  "digit_val c = code_of c - 48"

fun show_nat :: "nat \<Rightarrow> string" where
  "show_nat n = (if n < 10 then [char_of (48 + n)] else show_nat (n div 10) @ [char_of (48 + n mod 10)])"

declare show_nat.simps [simp del]

definition show_int :: "int \<Rightarrow> string" where
  "show_int i = (if i < 0 then CHR ''-'' # show_nat (nat (- i)) else show_nat (nat i))"

definition read_nat :: "string \<Rightarrow> nat" where
  "read_nat s = foldl (\<lambda>n c. 10 * n + digit_val c) 0 s"

lemma code_of_char_of [simp]: "n < 256 \<Longrightarrow> code_of (char_of n) = n"
  by (simp add: code_of_def)

lemma show_nat_digits: "c \<in> set (show_nat n) \<Longrightarrow> is_digit c"
proof (induction n arbitrary: c rule: show_nat.induct)
  case (1 n)
  then show ?case
    by (subst (asm) (2) show_nat.simps)
      (auto simp: is_digit_def split: if_splits)
qed

lemma show_nat_nonempty: "show_nat n \<noteq> []"
  by (subst show_nat.simps) simp

lemma read_show_nat: "read_nat (show_nat n) = n"
proof (induction n rule: show_nat.induct)
  case (1 n)
  show ?case
  proof (cases "n < 10")
    case True
    then show ?thesis
      by (subst show_nat.simps) (simp add: read_nat_def digit_val_def)
  next
    case False
    with 1 have "read_nat (show_nat (n div 10)) = n div 10" by simp
    then have "foldl (\<lambda>m c. 10 * m + digit_val c) 0 (show_nat (n div 10)) = n div 10"
      by (simp add: read_nat_def)
    with False show ?thesis
      by (subst show_nat.simps) (simp add: read_nat_def digit_val_def)
  qed
qed

text \<open>\<open>x.toFixed(d)\<close> for a finite \<open>x\<close>: the nearest multiple of \<open>10^-d\<close>, ties upwards in magnitude.\<close>

fun pad_left :: "nat \<Rightarrow> string \<Rightarrow> string" where
  "pad_left n s = replicate (n - length s) (CHR ''0'') @ s"

definition to_fixed :: "nat \<Rightarrow> rat \<Rightarrow> string" where
  "to_fixed d x =
     (let m = nat (math_round (\<bar>x\<bar> * 10 ^ d));
          s = (if x < 0 then ''-'' else [])
      in if d = 0 then s @ show_nat m
         else s @ show_nat (m div 10 ^ d) @ ''.'' @ pad_left d (show_nat (m mod 10 ^ d)))"

text \<open>Scanning a decimal literal: integer digits, fraction, exponent.\<close>

definition scan_digits :: "string \<Rightarrow> string \<times> string" where
  "scan_digits s = (takeWhile is_digit s, dropWhile is_digit s)"

definition scan_fraction :: "string \<Rightarrow> string \<times> string" where
  "scan_fraction s = (case s of
       c # t \<Rightarrow> if c = CHR ''.'' then scan_digits t else ([], s)
     | [] \<Rightarrow> ([], []))"

definition scan_exponent :: "string \<Rightarrow> (int \<times> string) option" where
  "scan_exponent s = (case s of
       [] \<Rightarrow> Some (0, [])
     | c # t \<Rightarrow>
         if c = CHR ''e'' \<or> c = CHR ''E'' then
           (let (neg, u) = (case t of
                [] \<Rightarrow> (False, [])
              | d # v \<Rightarrow> if d = CHR ''-'' then (True, v) else if d = CHR ''+'' then (False, v) else (False, t));
                (ds, r) = scan_digits u
            in if ds = [] then None
               else Some (if neg then - int (read_nat ds) else int (read_nat ds), r))
         else Some (0, s))"

definition decimal_value :: "string \<Rightarrow> string \<Rightarrow> int \<Rightarrow> rat" where
  "decimal_value ip fp e =
     (of_nat (read_nat (ip @ fp)) / 10 ^ length fp) *
     (if e < 0 then 1 / 10 ^ nat (- e) else 10 ^ nat e)"

text \<open>\<open>Number(s)\<close>; the radix prefixes (\<open>0x\<close>, \<open>0o\<close>, \<open>0b\<close>) are read as hexadecimal, octal and binary.\<close>

definition hex_val :: "char \<Rightarrow> nat option" where
  "hex_val c = (let n = code_of c in
     if 48 \<le> n \<and> n \<le> 57 then Some (n - 48)
     else if 65 \<le> n \<and> n \<le> 70 then Some (n - 55)
     else if 97 \<le> n \<and> n \<le> 102 then Some (n - 87) else None)"

fun read_radix :: "nat \<Rightarrow> nat \<Rightarrow> string \<Rightarrow> nat option" where
  "read_radix b acc [] = Some acc"
| "read_radix b acc (c # s) = (case hex_val c of
       Some d \<Rightarrow> if d < b then read_radix b (b * acc + d) s else None
     | None \<Rightarrow> None)"

definition radix_of :: "char \<Rightarrow> nat option" where
  "radix_of c = (if c = CHR ''x'' \<or> c = CHR ''X'' then Some 16
     else if c = CHR ''o'' \<or> c = CHR ''O'' then Some 8
     else if c = CHR ''b'' \<or> c = CHR ''B'' then Some 2 else None)"

definition unsigned_decimal :: "string \<Rightarrow> jsnum" where
  "unsigned_decimal s =
     (if s = ''Infinity'' then Infinity else
      let (ip, r1) = scan_digits s; (fp, r2) = scan_fraction r1 in
      if ip = [] \<and> fp = [] then NaN
      else (case scan_exponent r2 of
              Some (e, []) \<Rightarrow> Num (decimal_value ip fp e)
            | _ \<Rightarrow> NaN))"

fun negate_num :: "jsnum \<Rightarrow> jsnum" where
  "negate_num (Num q) = Num (- q)"
| "negate_num NaN = NaN"
| "negate_num Infinity = MinusInfinity"
| "negate_num MinusInfinity = Infinity"

definition Number :: "string \<Rightarrow> jsnum" where
  "Number str = (case trim str of
       [] \<Rightarrow> Num 0
     | c # s \<Rightarrow>
         if c = CHR ''-'' then negate_num (unsigned_decimal s)
         else if c = CHR ''+'' then unsigned_decimal s
         else (case (c, s) of
             (z, x # d # ds) \<Rightarrow>
               (case (if z = CHR ''0'' then radix_of x else None) of
                  Some b \<Rightarrow> (case read_radix b 0 (d # ds) of Some n \<Rightarrow> Num (of_nat n) | None \<Rightarrow> NaN)
                | None \<Rightarrow> unsigned_decimal (c # s))
           | _ \<Rightarrow> unsigned_decimal (c # s)))"

text \<open>\<open>x || 0\<close>: the fallback every numeric form field uses; it also replaces \<open>NaN\<close>.\<close>

definition or_zero :: "jsnum \<Rightarrow> jsnum" where
  "or_zero x = (if x = NaN then Num 0 else x)"

lemma or_zero_not_NaN [simp]: "or_zero x \<noteq> NaN"
  by (simp add: or_zero_def)

text \<open>\<open>x || d\<close> for a number \<open>d\<close>.\<close>

definition num_or :: "jsnum \<Rightarrow> jsnum \<Rightarrow> jsnum" where
  "num_or x d = (if x = NaN \<or> x = Num 0 then d else x)"

text \<open>A printed integer is read back.\<close>

lemma digit_not:
  "\<not> is_digit (CHR ''-'')" "\<not> is_digit (CHR ''+'')" "\<not> is_digit (CHR ''I'')" "\<not> is_digit (CHR ''x'')"
  "\<not> is_digit (CHR ''X'')" "\<not> is_digit (CHR ''o'')" "\<not> is_digit (CHR ''O'')" "\<not> is_digit (CHR ''b'')"
  "\<not> is_digit (CHR ''B'')"
  by (simp_all add: is_digit_def code_of_def)

lemma digit_chars:
  assumes "is_digit c"
  shows "\<not> is_ws c" and "c \<noteq> CHR ''-''" and "c \<noteq> CHR ''+''" and "radix_of c = None" and "c \<noteq> CHR ''I''"
proof -
  have "48 \<le> code_of c" "code_of c \<le> 57" using assms by (simp_all add: is_digit_def)
  then show "\<not> is_ws c" by (auto simp: is_ws_def)
  show "c \<noteq> CHR ''-''" "c \<noteq> CHR ''+''" "c \<noteq> CHR ''I''" using assms digit_not by metis+
  have "c \<notin> {CHR ''x'', CHR ''X'', CHR ''o'', CHR ''O'', CHR ''b'', CHR ''B''}" using assms digit_not by blast
  then show "radix_of c = None" by (simp add: radix_of_def)
qed

lemma unsigned_decimal_digits:
  assumes "s \<noteq> []" and "\<And>c. c \<in> set s \<Longrightarrow> is_digit c"
  shows "unsigned_decimal s = Num (of_nat (read_nat s))"
proof -
  have "s \<noteq> ''Infinity''" using assms(2) [of "CHR ''I''"] digit_not(3) by auto
  moreover have "scan_digits s = (s, [])"
    using assms(2) by (simp add: scan_digits_def takeWhile_eq_all_conv)
  ultimately show ?thesis
    using assms(1) by (simp add: unsigned_decimal_def scan_fraction_def scan_exponent_def decimal_value_def)
qed

lemma Number_show_nat: "Number (show_nat n) = Num (of_nat n)"
proof -
  let ?s = "show_nat n"
  have d: "c \<in> set ?s \<Longrightarrow> is_digit c" for c by (rule show_nat_digits)
  have "trim ?s = ?s"
    using d digit_chars show_nat_nonempty [of n] by (intro trim_no_ws) (meson hd_in_set last_in_set)+
  moreover have "unsigned_decimal ?s = Num (of_nat n)"
    using unsigned_decimal_digits [OF show_nat_nonempty d] read_show_nat by simp
  moreover obtain c cs where s: "?s = c # cs" using show_nat_nonempty [of n] by (cases ?s) auto
  moreover have "is_digit c" "\<And>x. x \<in> set cs \<Longrightarrow> radix_of x = None"
    using d s digit_chars by auto
  ultimately show ?thesis
    using digit_chars [of c] by (auto simp: Number_def split: list.split)
qed

lemma Number_show_int [simp]: "Number (show_int i) = Num (of_int i)"
proof (cases "i < 0")
  case True
  let ?s = "show_nat (nat (- i))"
  have d: "c \<in> set ?s \<Longrightarrow> is_digit c" for c by (rule show_nat_digits)
  have "\<not> is_ws (last ?s)" using d digit_chars show_nat_nonempty by (meson last_in_set)
  moreover have "\<not> is_ws (CHR ''-'')" by (simp add: is_ws_def code_of_def)
  ultimately have "trim (CHR ''-'' # ?s) = CHR ''-'' # ?s"
    using show_nat_nonempty by (intro trim_no_ws) simp_all
  moreover have "unsigned_decimal ?s = Num (of_nat (nat (- i)))"
    using unsigned_decimal_digits [OF show_nat_nonempty d] read_show_nat by simp
  ultimately show ?thesis using True by (simp add: show_int_def Number_def)
next
  case False
  then show ?thesis using Number_show_nat [of "nat i"] by (simp add: show_int_def)
qed

section \<open>Values\<close>

datatype js =
    JUndefined
  | JNull
  | JBool bool
  | JNum jsnum
  | JStr string
  | JArr "js list"
  | JObj "(string \<times> js) list"

fun truthy :: "js \<Rightarrow> bool" where
  "truthy JUndefined = False"
| "truthy JNull = False"
| "truthy (JBool b) = b"
| "truthy (JNum x) = (x \<noteq> Num 0 \<and> x \<noteq> NaN)"
| "truthy (JStr s) = (s \<noteq> [])"
| "truthy (JArr vs) = True"
| "truthy (JObj fs) = True"

text \<open>\<open>typeof v === "object"\<close>, which holds of \<open>null\<close> and of arrays as well.\<close>

fun is_object :: "js \<Rightarrow> bool" where
  "is_object JNull = True"
| "is_object (JArr vs) = True"
| "is_object (JObj fs) = True"
| "is_object v = False"

text \<open>\<open>k in v\<close> and \<open>v[k]\<close> for a name \<open>k\<close> that is not an array index.\<close>

fun has_prop :: "js \<Rightarrow> string \<Rightarrow> bool" where
  "has_prop (JObj fs) k = (obj_get fs k \<noteq> None)"
| "has_prop v k = False"

fun get_prop :: "js \<Rightarrow> string \<Rightarrow> js" where
  "get_prop (JObj fs) k = (case obj_get fs k of Some v \<Rightarrow> v | None \<Rightarrow> JUndefined)"
| "get_prop v k = JUndefined"

fun as_string :: "js \<Rightarrow> string option" where
  "as_string (JStr s) = Some s"
| "as_string v = None"

text \<open>
  What \<open>JSON.stringify(v)\<close> denotes on the wire: \<open>undefined\<close> members are dropped,
  \<open>undefined\<close> elements and non-finite numbers become \<open>null\<close>; the text itself is
  represented by the value it denotes.
\<close>

fun wire :: "js \<Rightarrow> js" where
  "wire JUndefined = JNull"
| "wire (JNum x) = (case x of Num q \<Rightarrow> JNum (Num q) | _ \<Rightarrow> JNull)"
| "wire (JArr vs) = JArr (map wire vs)"
| "wire (JObj fs) = JObj (map (\<lambda>(k, v). (k, wire v)) (filter (\<lambda>(k, v). v \<noteq> JUndefined) fs))"
| "wire v = v"

definition jstr_opt :: "string option \<Rightarrow> js" where
  "jstr_opt s = (case s of Some t \<Rightarrow> JStr t | None \<Rightarrow> JUndefined)"

definition jstr_null :: "string option \<Rightarrow> js" where
  "jstr_null s = (case s of Some t \<Rightarrow> JStr t | None \<Rightarrow> JNull)"

text \<open>A member that may be absent or \<open>null\<close>.\<close>

definition jstr_opt_null :: "string option option \<Rightarrow> js" where
  "jstr_opt_null s = (case s of Some t \<Rightarrow> jstr_null t | None \<Rightarrow> JUndefined)"

definition jint :: "int \<Rightarrow> js" where
  "jint i = JNum (Num (of_int i))"

definition jint_opt :: "int option \<Rightarrow> js" where
  "jint_opt i = (case i of Some n \<Rightarrow> jint n | None \<Rightarrow> JUndefined)"

definition jbool_opt :: "bool option \<Rightarrow> js" where
  "jbool_opt b = (case b of Some x \<Rightarrow> JBool x | None \<Rightarrow> JUndefined)"

definition jstrs :: "string list \<Rightarrow> js" where
  "jstrs ss = JArr (map JStr ss)"

definition jstrs_opt :: "string list option \<Rightarrow> js" where
  "jstrs_opt ss = (case ss of Some xs \<Rightarrow> jstrs xs | None \<Rightarrow> JUndefined)"

lemmas js_field_defs = jstr_opt_def jstr_null_def jstr_opt_null_def jint_def jint_opt_def jbool_opt_def
  jstrs_def jstrs_opt_def

text \<open>No \<open>undefined\<close> and no non-finite number survives on the wire.\<close>

fun wire_clean :: "js \<Rightarrow> bool" where
  "wire_clean JUndefined = False"
| "wire_clean (JNum x) = (\<exists>q. x = Num q)"
| "wire_clean (JArr vs) = (\<forall>v\<in>set vs. wire_clean v)"
| "wire_clean (JObj fs) = (\<forall>e\<in>set fs. wire_clean (snd e))"
| "wire_clean v = True"

lemma wire_clean_wire: "wire_clean (wire v)"
  by (induction v rule: wire.induct) (force split: jsnum.splits)+

lemma wire_id: "wire_clean v \<Longrightarrow> wire v = v"
proof (induction v rule: wire.induct)
  case (4 fs)
  then have "filter (\<lambda>(k, v). v \<noteq> JUndefined) fs = fs"
    by (auto simp: filter_id_conv)
  moreover have "map (\<lambda>(k, v). (k, wire v)) fs = fs"
    using 4 by (intro map_idI) (force simp: split_beta)
  ultimately show ?case by simp
qed (auto simp: map_idI)

lemma wire_wire: "wire (wire v) = wire v"
  by (simp add: wire_id wire_clean_wire)

end
