(* ===== verification/Js_Json.thy ===== *)
theory Js_Json
  imports Js_Runtime
begin

text \<open>
  \<open>JSON.parse\<close>: a recursive-descent reader of the JSON grammar, with the fuel a text of a
  given length needs and the proof that more fuel never changes the answer, so that
  \<open>None\<close> means a syntax error. (Escapes denoting code units above 255 are outside the
  modelled strings.) Also \<open>new Date(s).getTime()\<close> on the RFC 3339 timestamps the API emits.
\<close>

section \<open>Lexical parts\<close>

definition json_ws :: "char \<Rightarrow> bool" where
  "json_ws c = (c = CHR '' '' \<or> code_of c = 9 \<or> code_of c = 10 \<or> code_of c = 13)"

abbreviation skip_ws :: "string \<Rightarrow> string" where
  "skip_ws s \<equiv> dropWhile json_ws s"

definition escape_of :: "char \<Rightarrow> char option" where
  "escape_of c =
     (if c = CHR ''b'' then Some (char_of (8::nat))
      else if c = CHR ''f'' then Some (char_of (12::nat))
      else if c = CHR ''n'' then Some (char_of (10::nat))
      else if c = CHR ''r'' then Some (char_of (13::nat))
      else if c = CHR ''t'' then Some (char_of (9::nat))
      else if code_of c = 34 \<or> code_of c = 92 \<or> code_of c = 47 then Some c
      else None)"

definition unicode_unit :: "char \<Rightarrow> char \<Rightarrow> char \<Rightarrow> char \<Rightarrow> char option" where
  "unicode_unit a b c d =
     (case read_radix 16 0 [a, b, c, d] of
        Some n \<Rightarrow> if n < 256 then Some (char_of n) else None
      | None \<Rightarrow> None)"

fun read_chars :: "string \<Rightarrow> (string \<times> string) option" where
  "read_chars [] = None"
| "read_chars (c # s) =
     (if code_of c = 34 then Some ([], s)
      else if code_of c = 92 then
        (case s of
           [] \<Rightarrow> None
         | e # t \<Rightarrow>
             if e = CHR ''u'' then
               (case t of
                  h1 # h2 # h3 # h4 # r \<Rightarrow>
                    (case unicode_unit h1 h2 h3 h4 of
                       Some x \<Rightarrow> map_option (\<lambda>(p, q). (x # p, q)) (read_chars r)
                     | None \<Rightarrow> None)
                | _ \<Rightarrow> None)
             else
               (case escape_of e of
                  Some x \<Rightarrow> map_option (\<lambda>(p, q). (x # p, q)) (read_chars t)
                | None \<Rightarrow> None))
      else if code_of c < 32 then None
      else map_option (\<lambda>(p, q). (c # p, q)) (read_chars s))"

definition read_number :: "string \<Rightarrow> (js \<times> string) option" where
  "read_number s =
     (let (neg, u) = (case s of c # t \<Rightarrow> if c = CHR ''-'' then (True, t) else (False, s) | [] \<Rightarrow> (False, []));
          (ip, r1) = scan_digits u
      in if ip = [] \<or> (hd ip = CHR ''0'' \<and> tl ip \<noteq> []) then None
         else let (fp, r2) = scan_fraction r1 in
           if fp = [] \<and> r1 \<noteq> r2 then None
           else (case scan_exponent r2 of
                   None \<Rightarrow> None
                 | Some (e, r3) \<Rightarrow>
                     (let q = decimal_value ip fp e in
                      Some (JNum (Num (if neg then - q else q)), r3))))"

definition read_word :: "string \<Rightarrow> js \<Rightarrow> string \<Rightarrow> (js \<times> string) option" where
  "read_word w v s = (if startsWith s w then Some (v, drop (length w) s) else None)"

section \<open>Values\<close>

fun read_value :: "nat \<Rightarrow> string \<Rightarrow> (js \<times> string) option"
  and read_elems :: "nat \<Rightarrow> string \<Rightarrow> (js list \<times> string) option"
  and read_members :: "nat \<Rightarrow> string \<Rightarrow> (string, js) obj \<Rightarrow> ((string, js) obj \<times> string) option"
where
  "read_value 0 s = None"
| "read_value (Suc n) s =
     (case skip_ws s of
        [] \<Rightarrow> None
      | c # r \<Rightarrow>
          if code_of c = 34 then map_option (\<lambda>(p, q). (JStr p, q)) (read_chars r)
          else if c = CHR ''['' then
            (case skip_ws r of
               d # r' \<Rightarrow> if d = CHR '']'' then Some (JArr [], r')
                         else map_option (\<lambda>(p, q). (JArr p, q)) (read_elems n r)
             | [] \<Rightarrow> None)
          else if c = CHR ''{'' then
            (case skip_ws r of
               d # r' \<Rightarrow> if d = CHR ''}'' then Some (JObj [], r')
                         else map_option (\<lambda>(p, q). (JObj p, q)) (read_members n r [])
             | [] \<Rightarrow> None)
          else if c = CHR ''t'' then read_word ''true'' (JBool True) (c # r)
          else if c = CHR ''f'' then read_word ''false'' (JBool False) (c # r)
          else if c = CHR ''n'' then read_word ''null'' JNull (c # r)
          else read_number (c # r))"
| "read_elems 0 s = None"
| "read_elems (Suc n) s =
     (case read_value n s of
        None \<Rightarrow> None
      | Some (v, r) \<Rightarrow>
          (case skip_ws r of
             [] \<Rightarrow> None
           | d # r' \<Rightarrow>
               if d = CHR '','' then map_option (\<lambda>(p, q). (v # p, q)) (read_elems n r')
               else if d = CHR '']'' then Some ([v], r') else None))"
| "read_members 0 s acc = None"
| "read_members (Suc n) s acc =
     (case skip_ws s of
        [] \<Rightarrow> None
      | c # r \<Rightarrow>
          if code_of c \<noteq> 34 then None
          else (case read_chars r of
             None \<Rightarrow> None
           | Some (k, r1) \<Rightarrow>
               (case skip_ws r1 of
                  [] \<Rightarrow> None
                | d # r2 \<Rightarrow>
                    if d \<noteq> CHR '':'' then None
                    else (case read_value n r2 of
                       None \<Rightarrow> None
                     | Some (v, r3) \<Rightarrow>
                         (case skip_ws r3 of
                            [] \<Rightarrow> None
                          | e # r4 \<Rightarrow>
                              if e = CHR '','' then read_members n r4 (obj_set k v acc)
                              else if e = CHR ''}'' then Some (obj_set k v acc, r4)
                              else None)))))"

definition json_fuel :: "string \<Rightarrow> nat" where
  "json_fuel s = 2 * length s + 2"

definition JSON_parse :: "string \<Rightarrow> js option" where
  "JSON_parse s = (case read_value (json_fuel s) s of
       Some (v, r) \<Rightarrow> if skip_ws r = [] then Some v else None
     | None \<Rightarrow> None)"

text \<open>\<open>safeJson\<close> of both API clients: a parse error is \<open>undefined\<close>.\<close>

definition safeJson :: "string \<Rightarrow> js" where
  "safeJson t = (case JSON_parse t of Some v \<Rightarrow> v | None \<Rightarrow> JUndefined)"

section \<open>Enough fuel\<close>

lemma skip_ws_length: "skip_ws s = c # r \<Longrightarrow> length r < length s"
  by (metis length_Cons length_dropWhile_le less_eq_Suc_le)

lemma read_chars_length: "read_chars s = Some (p, r) \<Longrightarrow> length r < length s"
proof (induction s arbitrary: p r rule: read_chars.induct)
  case (2 c s)
  then show ?case
    by (fastforce split: if_splits list.splits option.splits)
qed simp

lemma scan_exponent_length: "scan_exponent s = Some (e, r) \<Longrightarrow> length r \<le> length s"
  by (fastforce simp: scan_exponent_def scan_digits_def Let_def
      split: list.splits if_splits
      dest: arg_cong [where f = length] intro: le_trans [OF length_dropWhile_le])

lemma scan_fraction_length: "scan_fraction s = (f, r) \<Longrightarrow> length r \<le> length s"
  by (auto simp: scan_fraction_def scan_digits_def split: list.splits if_splits
      intro: le_trans [OF length_dropWhile_le])

lemma scan_digits_length: "scan_digits s = (d, r) \<Longrightarrow> length s = length d + length r"
  by (auto simp: scan_digits_def simp flip: length_append)

lemma read_number_length: "read_number s = Some (v, r) \<Longrightarrow> length r < length s"
proof -
  assume h: "read_number s = Some (v, r)"
  obtain neg u where u: "(case s of c # t \<Rightarrow> if c = CHR ''-'' then (True, t) else (False, s) | [] \<Rightarrow> (False, [])) = (neg, u)"
    by fastforce
  then have lu: "length u \<le> length s" by (auto split: list.splits if_splits)
  obtain ip r1 where d: "scan_digits u = (ip, r1)" by fastforce
  obtain fp r2 where f: "scan_fraction r1 = (fp, r2)" by fastforce
  from h u d f obtain e r3 where "ip \<noteq> []" and x: "scan_exponent r2 = Some (e, r3)" and "r = r3"
    by (auto simp: read_number_def Let_def split: if_splits option.splits)
  then have "length r \<le> length r2" "length r2 \<le> length r1" "length u = length ip + length r1"
    using scan_exponent_length scan_fraction_length f scan_digits_length [OF d] by auto
  with lu \<open>ip \<noteq> []\<close> show ?thesis by (cases ip) auto
qed

lemma read_word_length: "read_word w v s = Some (x, r) \<Longrightarrow> w \<noteq> [] \<Longrightarrow> length r < length s"
  by (auto simp: read_word_def startsWith_def prefix_def split: if_splits)

lemma read_lengths_all:
  "(\<forall>s v r. read_value n s = Some (v, r) \<longrightarrow> length r < length s) \<and>
   (\<forall>s v r. read_elems n s = Some (v, r) \<longrightarrow> length r < length s) \<and>
   (\<forall>s acc v r. read_members n s acc = Some (v, r) \<longrightarrow> length r < length s)"
proof (induction n)
  case (Suc m)
  have "length r < length s" if h: "read_value (Suc m) s = Some (v, r)" for s v r
  proof -
    from h obtain c t where c: "skip_ws s = c # t" by (auto split: list.splits)
    with h have "length r < length (c # t)"
      using Suc by (fastforce split: if_splits list.splits
          dest: read_chars_length read_word_length read_number_length skip_ws_length)
    with skip_ws_length [OF c] show ?thesis by simp
  qed
  moreover have "length r < length s" if h: "read_elems (Suc m) s = Some (v, r)" for s v r
  proof -
    from h obtain x u where x: "read_value m s = Some (x, u)" by (auto split: option.splits)
    with h obtain d t where d: "skip_ws u = d # t" by (auto split: list.splits)
    from x d have "length t < length s" using Suc skip_ws_length by (metis less_trans)
    moreover have "r = t \<or> length r < length t" using h x d Suc by (auto split: if_splits)
    ultimately show ?thesis by auto
  qed
  moreover have "length r < length s" if h: "read_members (Suc m) s acc = Some (v, r)" for s acc v r
  proof -
    from h obtain c t where c: "skip_ws s = c # t" and "code_of c = 34" by (auto split: list.splits if_splits)
    with h obtain k r1 where k: "read_chars t = Some (k, r1)" by (auto split: option.splits)
    with h c obtain r2 where d: "skip_ws r1 = CHR '':'' # r2" by (auto split: list.splits if_splits)
    with h c k obtain x r3 where x: "read_value m r2 = Some (x, r3)"
      by (auto split: option.splits if_splits)
    with h c k d obtain e r4 where e: "skip_ws r3 = e # r4" by (auto split: list.splits if_splits)
    have "length r4 < length s"
      using skip_ws_length [OF c] read_chars_length [OF k] skip_ws_length [OF d] skip_ws_length [OF e]
        Suc x by (metis less_trans)
    moreover have "r = r4 \<or> length r < length r4"
      using h c k d x e Suc by (auto split: if_splits)
    ultimately show ?thesis by auto
  qed
  ultimately show ?case by blast
qed simp

lemma read_value_length: "read_value n s = Some (v, r) \<Longrightarrow> length r < length s"
  using read_lengths_all by blast

lemma read_fuel_step:
  "(\<forall>s. 2 * length s < n \<longrightarrow> read_value (Suc n) s = read_value n s) \<and>
   (\<forall>s. 2 * length s + 1 < n \<longrightarrow> read_elems (Suc n) s = read_elems n s) \<and>
   (\<forall>s acc. 2 * length s + 1 < n \<longrightarrow> read_members (Suc n) s acc = read_members n s acc)"
proof (induction n)
  case (Suc m)
  have v: "read_value (Suc (Suc m)) s = read_value (Suc m) s" if "2 * length s < Suc m" for s
  proof (cases "skip_ws s")
    case (Cons c r)
    then have "2 * length r + 1 < m" using that skip_ws_length [of s c r] by auto
    then have "read_elems (Suc m) r = read_elems m r" "read_members (Suc m) r [] = read_members m r []"
      using Suc by auto
    then show ?thesis using Cons by (simp only: read_value.simps(2) list.case)
  next
    case Nil
    then show ?thesis by (simp only: read_value.simps(2) list.case)
  qed
  have e: "read_elems (Suc (Suc m)) s = read_elems (Suc m) s" if len: "2 * length s + 1 < Suc m" for s
  proof -
    have step: "read_value (Suc m) s = read_value m s" using len Suc by auto
    have tail: "read_elems (Suc m) r' = read_elems m r'"
      if "read_value m s = Some (x, r)" "skip_ws r = d # r'" for x r d r'
      using Suc len read_value_length [OF that(1)] skip_ws_length [OF that(2)] by auto
    show ?thesis
    proof (cases "read_value m s")
      case (Some xr)
      obtain x r where xr: "xr = (x, r)" by fastforce
      show ?thesis
        using tail [OF Some [unfolded xr]]
        by (cases "skip_ws r") (simp_all only: read_elems.simps(2) step Some xr option.case prod.case list.case)
    qed (simp only: read_elems.simps(2) step option.case)
  qed
  have "read_members (Suc (Suc m)) s acc = read_members (Suc m) s acc"
    if len: "2 * length s + 1 < Suc m" for s acc
  proof -
    have sub: "length r2 < length s"
      if "skip_ws s = c # r" "read_chars r = Some (k, r1)" "skip_ws r1 = d # r2" for c r k r1 d r2
      using skip_ws_length [OF that(1)] read_chars_length [OF that(2)] skip_ws_length [OF that(3)]
      by linarith
    have step: "read_value (Suc m) r2 = read_value m r2" if "length r2 < length s" for r2
      using len Suc that by auto
    have tail: "read_members (Suc m) r4 acc' = read_members m r4 acc'"
      if "length r2 < length s" "read_value m r2 = Some (x, r3)" "skip_ws r3 = d # r4" for r2 x r3 d r4 acc'
      using Suc len that(1) read_value_length [OF that(2)] skip_ws_length [OF that(3)] by auto
    show ?thesis
    proof (cases "skip_ws s")
      case c: (Cons c r)
      show ?thesis
      proof (cases "read_chars r")
        case (Some kr)
        obtain k r1 where k: "kr = (k, r1)" by fastforce
        show ?thesis
        proof (cases "skip_ws r1")
          case d: (Cons d r2)
          note len2 = sub [OF c Some [unfolded k] d]
          show ?thesis
          proof (cases "read_value m r2")
            case v: (Some vr)
            obtain x r3 where vr: "vr = (x, r3)" by fastforce
            show ?thesis
              using tail [OF len2 v [unfolded vr]]
              by (cases "skip_ws r3")
                (simp_all only: read_members.simps(2) c Some k d step [OF len2] v vr option.case prod.case list.case)
          qed (simp only: read_members.simps(2) c Some k d step [OF len2] option.case prod.case list.case)
        qed (simp only: read_members.simps(2) c Some k option.case prod.case list.case)
      qed (simp only: read_members.simps(2) c option.case list.case)
    qed (simp only: read_members.simps(2) list.case)
  qed
  with v e show ?case by blast
qed simp

lemma read_value_fuel: "json_fuel s \<le> n \<Longrightarrow> read_value n s = read_value (json_fuel s) s"
proof (induction n rule: dec_induct)
  case (step n)
  then have "2 * length s < n" by (simp add: json_fuel_def)
  with step show ?case using read_fuel_step [of n] by metis
qed simp

end
