(* ===== verification/Http_Client.thy ===== *)
theory Http_Client
  imports Js_Json
begin

text \<open>
  What every HTTP wrapper of the repository shares: the arguments given to \<open>fetch\<close>, the
  response it yields, the exceptions a call can raise, and the contract the callers of a
  wrapper rely on (\<open>http_client\<close>). \<open>fetch\<close> itself is a parameter: a function from its
  arguments to a network failure or a response. Also the error envelope the API writes
  (\<open>internal/api/respond\<close>).
\<close>

record fetch_args =
  fa_url :: string
  fa_method :: string
  fa_headers :: "(string, string) obj"
  fa_body :: "js option"
  fa_credentials :: string
  fa_cache :: string

record response =
  res_status :: nat
  res_statusText :: string
  res_text :: string

definition res_ok :: "response \<Rightarrow> bool" where
  "res_ok r = (200 \<le> res_status r \<and> res_status r \<le> 299)"

text \<open>
  A thrown value: the wrapper's own error class with status, message and optional code, or
  any other exception (a failed fetch, a syntax error) with its message.
\<close>

datatype failure = ApiError nat string "string option" | OtherError string

type_synonym 'a result = "failure + 'a"

type_synonym fetch = "fetch_args \<Rightarrow> string + response"

record endpoint =
  ep_method :: string
  ep_path :: string
  ep_body :: js

text \<open>\<open>err instanceof ApiError ? err.message : fallback\<close>, the idiom of the mutation handlers.\<close>

fun error_text :: "failure \<Rightarrow> string \<Rightarrow> string" where
  "error_text (ApiError st msg c) fb = msg"
| "error_text (OtherError m) fb = fb"

section \<open>The error envelope of the API\<close>

text \<open>\<open>http.StatusText\<close> on the codes the handlers use.\<close>

definition http_status_text :: "nat \<Rightarrow> string" where
  "http_status_text st =
     (if st = 400 then ''Bad Request'' else if st = 401 then ''Unauthorized''
      else if st = 403 then ''Forbidden'' else if st = 404 then ''Not Found''
      else if st = 409 then ''Conflict'' else if st = 410 then ''Gone''
      else if st = 422 then ''Unprocessable Entity'' else if st = 429 then ''Too Many Requests''
      else if st = 500 then ''Internal Server Error'' else if st = 502 then ''Bad Gateway''
      else if st = 503 then ''Service Unavailable'' else [])"

definition respond_Error :: "nat \<Rightarrow> string \<Rightarrow> js" where
  "respond_Error st msg =
     JObj ((''error'', JStr (http_status_text st)) #
           (if msg = [] then [] else [(''message'', JStr msg)]))"

section \<open>The contract of a wrapper\<close>

locale http_client =
  fixes send :: "fetch \<Rightarrow> endpoint \<Rightarrow> js result"
    and args :: "endpoint \<Rightarrow> fetch_args"
  assumes send_net: "fetch (args ep) = Inl m \<Longrightarrow> send fetch ep = Inl (OtherError m)"
    and send_204: "fetch (args ep) = Inr r \<Longrightarrow> res_status r = 204 \<Longrightarrow> send fetch ep = Inr JUndefined"
    and send_value: "fetch (args ep) = Inr r \<Longrightarrow> res_ok r \<Longrightarrow> res_status r \<noteq> 204 \<Longrightarrow>
        JSON_parse (res_text r) = Some v \<Longrightarrow> v \<noteq> JNull \<Longrightarrow> send fetch ep = Inr v"
    and send_error: "fetch (args ep) = Inr r \<Longrightarrow> \<not> res_ok r \<Longrightarrow>
        JSON_parse (res_text r) \<noteq> Some JNull \<Longrightarrow>
        \<exists>msg code. send fetch ep = Inl (ApiError (res_status r) msg code)"
begin

text \<open>A result is only ever produced by a successful response.\<close>

lemma send_Inr_ok:
  assumes "send fetch ep = Inr v" and "\<And>r. fetch (args ep) = Inr r \<Longrightarrow> JSON_parse (res_text r) \<noteq> Some JNull"
  obtains r where "fetch (args ep) = Inr r" and "res_ok r"
proof (cases "fetch (args ep)")
  case (Inl m)
  with assms(1) send_net show ?thesis by simp
next
  case (Inr r)
  with assms have "res_ok r" using send_error [of fetch ep r] by fastforce
  with Inr that show ?thesis by blast
qed

lemma send_status:
  assumes "fetch (args ep) = Inr r" and "\<not> res_ok r" and "JSON_parse (res_text r) \<noteq> Some JNull"
    and "send fetch ep = Inl (ApiError st msg code)"
  shows "st = res_status r"
  using send_error [of fetch ep r] assms by auto

end

end
