(* ===== verification/Api_Client.thy ===== *)
theory Api_Client
  imports Http_Client
begin

text \<open>
  The browser wrapper \<open>apps/web-v2/lib/api.ts\<close>: \<open>ApiError\<close>, \<open>request\<close> and the five verbs of
  \<open>api\<close>. \<open>request\<close> builds the arguments of \<open>fetch\<close>, spreads the caller's \<open>init\<close> over them,
  and turns the response into a value or an \<open>ApiError\<close>.
\<close>

definition BASE :: string where
  "BASE = ''/api/v1''"

record request_init =
  ri_method :: "string option"
  ri_headers :: "(string, string) obj option"
  ri_body :: "js option option"
  ri_credentials :: "string option"
  ri_cache :: "string option"

definition obj_spread :: "('k, 'v) obj \<Rightarrow> ('k, 'v) obj \<Rightarrow> ('k, 'v) obj" where
  "obj_spread base over = fold (\<lambda>e. obj_set (fst e) (snd e)) over base"

definition request_headers :: "js \<Rightarrow> request_init option \<Rightarrow> (string, string) obj" where
  "request_headers body init =
     obj_spread (if truthy body then [(''Content-Type'', ''application/json'')] else [])
       (case init of None \<Rightarrow> [] | Some i \<Rightarrow> (case ri_headers i of None \<Rightarrow> [] | Some h \<Rightarrow> h))"

definition request_args :: "string \<Rightarrow> string \<Rightarrow> js \<Rightarrow> request_init option \<Rightarrow> fetch_args" where
  "request_args method path body init =
     (let a = \<lparr>fa_url = BASE @ path, fa_method = method, fa_headers = request_headers body init,
               fa_body = (if body \<noteq> JUndefined then Some (wire body) else None),
               fa_credentials = ''include'', fa_cache = ''no-store''\<rparr>
      in case init of None \<Rightarrow> a
         | Some i \<Rightarrow>
             \<lparr>fa_url = fa_url a,
              fa_method = (case ri_method i of Some m \<Rightarrow> m | None \<Rightarrow> fa_method a),
              fa_headers = (case ri_headers i of Some h \<Rightarrow> h | None \<Rightarrow> fa_headers a),
              fa_body = (case ri_body i of Some b \<Rightarrow> b | None \<Rightarrow> fa_body a),
              fa_credentials = (case ri_credentials i of Some c \<Rightarrow> c | None \<Rightarrow> fa_credentials a),
              fa_cache = (case ri_cache i of Some c \<Rightarrow> c | None \<Rightarrow> fa_cache a)\<rparr>)"

text \<open>\<open>data && typeof data === "object" && k in data && typeof data[k] === "string" ? data[k] : undefined\<close>\<close>

definition string_member :: "js \<Rightarrow> string \<Rightarrow> string option" where
  "string_member v k = (if truthy v \<and> is_object v \<and> has_prop v k then as_string (get_prop v k) else None)"

definition or_string :: "string option \<Rightarrow> string \<Rightarrow> string" where
  "or_string a b = (case a of Some s \<Rightarrow> if s = [] then b else s | None \<Rightarrow> b)"

definition error_message :: "js \<Rightarrow> string \<Rightarrow> string" where
  "error_message data statusText =
     or_string (string_member data ''error'')
       (or_string (string_member data ''message'')
         (or_string (Some statusText) ''Request failed''))"

definition response_data :: "response \<Rightarrow> js" where
  "response_data r = (if res_text r \<noteq> [] then safeJson (res_text r) else JUndefined)"

text \<open>\<open>data ?? undefined\<close>\<close>

definition nullish_to_undefined :: "js \<Rightarrow> js" where
  "nullish_to_undefined v = (if v = JNull then JUndefined else v)"

definition handle_response :: "response \<Rightarrow> js result" where
  "handle_response r =
     (if res_status r = 204 then Inr JUndefined
      else let data = response_data r in
        if \<not> res_ok r
        then Inl (ApiError (res_status r) (error_message data (res_statusText r)) (string_member data ''code''))
        else Inr (nullish_to_undefined data))"

definition request :: "fetch \<Rightarrow> string \<Rightarrow> string \<Rightarrow> js \<Rightarrow> request_init option \<Rightarrow> js result" where
  "request fetch method path body init =
     (case fetch (request_args method path body init) of
        Inl m \<Rightarrow> Inl (OtherError m)
      | Inr r \<Rightarrow> handle_response r)"

section \<open>The verbs\<close>

definition api_get :: "string \<Rightarrow> endpoint" where
  "api_get p = \<lparr>ep_method = ''GET'', ep_path = p, ep_body = JUndefined\<rparr>"

definition api_post :: "string \<Rightarrow> js \<Rightarrow> endpoint" where
  "api_post p b = \<lparr>ep_method = ''POST'', ep_path = p, ep_body = b\<rparr>"

definition api_put :: "string \<Rightarrow> js \<Rightarrow> endpoint" where
  "api_put p b = \<lparr>ep_method = ''PUT'', ep_path = p, ep_body = b\<rparr>"

definition api_patch :: "string \<Rightarrow> js \<Rightarrow> endpoint" where
  "api_patch p b = \<lparr>ep_method = ''PATCH'', ep_path = p, ep_body = b\<rparr>"

definition api_delete :: "string \<Rightarrow> endpoint" where
  "api_delete p = \<lparr>ep_method = ''DELETE'', ep_path = p, ep_body = JUndefined\<rparr>"

lemmas api_verbs = api_get_def api_post_def api_put_def api_patch_def api_delete_def

definition call_args :: "endpoint \<Rightarrow> fetch_args" where
  "call_args ep = request_args (ep_method ep) (ep_path ep) (ep_body ep) None"

definition call :: "fetch \<Rightarrow> endpoint \<Rightarrow> js result" where
  "call fetch ep = request fetch (ep_method ep) (ep_path ep) (ep_body ep) None"

section \<open>Facts\<close>

lemma error_message_nonempty: "error_message d s \<noteq> []"
  by (auto simp: error_message_def or_string_def split: option.splits)

lemma response_data_parse: "JSON_parse (res_text r) = Some v \<Longrightarrow> response_data r = v"
proof -
  assume h: "JSON_parse (res_text r) = Some v"
  moreover have "JSON_parse [] = None" by (simp add: JSON_parse_def json_fuel_def numeral_2_eq_2)
  ultimately show ?thesis by (auto simp: response_data_def safeJson_def)
qed

interpretation browser: http_client call call_args
proof
  fix fetch :: fetch and ep r v
  assume *: "fetch (call_args ep) = Inr r"
  show "res_status r = 204 \<Longrightarrow> call fetch ep = Inr JUndefined"
    using * by (simp add: call_def request_def call_args_def handle_response_def)
  show "res_ok r \<Longrightarrow> res_status r \<noteq> 204 \<Longrightarrow> JSON_parse (res_text r) = Some v \<Longrightarrow> v \<noteq> JNull \<Longrightarrow>
      call fetch ep = Inr v"
    using * by (simp add: call_def request_def call_args_def handle_response_def
        response_data_parse nullish_to_undefined_def)
  show "\<not> res_ok r \<Longrightarrow> \<exists>msg code. call fetch ep = Inl (ApiError (res_status r) msg code)"
    using * by (auto simp: call_def request_def call_args_def handle_response_def res_ok_def Let_def)
qed (simp add: call_def request_def call_args_def)

lemma request_args_plain:
  "request_args m p b None = \<lparr>fa_url = ''/api/v1'' @ p, fa_method = m,
     fa_headers = (if truthy b then [(''Content-Type'', ''application/json'')] else []),
     fa_body = (if b \<noteq> JUndefined then Some (wire b) else None),
     fa_credentials = ''include'', fa_cache = ''no-store''\<rparr>"
  by (simp add: request_args_def request_headers_def obj_spread_def BASE_def)

lemma handle_response_error:
  "(\<exists>st msg c. handle_response r = Inl (ApiError st msg c)) \<longleftrightarrow> \<not> res_ok r"
  by (auto simp: handle_response_def Let_def res_ok_def)

text \<open>
  C29: A call raises an \<open>ApiError\<close> exactly when a response arrived whose status is not a success; the error
  carries that status and a message that is never empty. A failure of the network is never reported as
  an \<open>ApiError\<close>.
\<close>

lemma request_error_iff:
  "(\<exists>st msg c. request fetch m p b init = Inl (ApiError st msg c)) =
     (\<exists>r. fetch (request_args m p b init) = Inr r \<and> \<not> res_ok r) \<and>
   (case request fetch m p b init of
      Inl (ApiError st msg c) \<Rightarrow> msg \<noteq> [] \<and> map_sum id res_status (fetch (request_args m p b init)) = Inr st
    | Inl (OtherError e) \<Rightarrow> fetch (request_args m p b init) = Inl e
    | Inr v \<Rightarrow> v \<noteq> JNull)"
proof (cases "fetch (request_args m p b init)")
  case (Inl e)
  then show ?thesis by (simp add: request_def)
next
  case (Inr r)
  have "case handle_response r of
      Inl (ApiError st msg c) \<Rightarrow> msg \<noteq> [] \<and> res_status r = st
    | Inl (OtherError e) \<Rightarrow> False | Inr v \<Rightarrow> v \<noteq> JNull"
    by (simp add: handle_response_def Let_def error_message_nonempty nullish_to_undefined_def)
  then show ?thesis
    using Inr handle_response_error [of r] by (simp add: request_def split: sum.splits failure.splits)
qed

text \<open>
  Headers passed in \<open>init\<close> replace the wrapper's own instead of joining them: a request with a JSON body
  and, say, a tracing header is sent without its content type, although the merged headers were computed.
\<close>

lemma init_headers_replace:
  assumes "ri_headers i = Some h" and "truthy b" and "obj_get h ''Content-Type'' = None"
  shows "obj_get (request_headers b (Some i)) ''Content-Type'' = Some ''application/json'' \<and>
    obj_get (fa_headers (request_args m p b (Some i))) ''Content-Type'' = None"
proof -
  have "''Content-Type'' \<notin> set (obj_keys h)"
    using assms(3) js_obj.keys_get [of "''Content-Type''" h] by simp
  then have "''Content-Type'' \<notin> fst ` set h" by simp
  then have "obj_get (fold (\<lambda>e. obj_set (fst e) (snd e)) h [(''Content-Type'', ''application/json'')]) ''Content-Type'' =
      obj_get [(''Content-Type'', ''application/json'')] ''Content-Type''"
    by (rule js_obj.get_fold_put_notin)
  then show ?thesis using assms by (simp add: request_headers_def obj_spread_def request_args_def obj_get_def Let_def)
qed

lemma init_headers_replace_witness:
  "let i = \<lparr>ri_method = None, ri_headers = Some [(''X-Trace'', ''1'')], ri_body = None, ri_credentials = None, ri_cache = None\<rparr>
   in obj_get (fa_headers (request_args ''POST'' ''/x'' (JObj []) (Some i))) ''Content-Type'' = None"
  using init_headers_replace [of "\<lparr>ri_method = None, ri_headers = Some [(''X-Trace'', ''1'')], ri_body = None,
      ri_credentials = None, ri_cache = None\<rparr>" "[(''X-Trace'', ''1'')]" "JObj []" "''POST''" "''/x''"]
  by (simp add: obj_get_def Let_def)

end
