(* ===== verification/Model_Types.thy ===== *)
theory Model_Types
  imports Js_Runtime
begin

text \<open>
  The data model shared by the console: one record per interface of
  \<open>apps/web-v2/lib/types.ts\<close>, with the interface's name as a prefix of its fields, and one
  datatype per closed union of string literals (an open union, \<open>... | string\<close>, is a
  \<open>string\<close>). An optional or nullable member is an \<open>option\<close>; the code never distinguishes
  the two. Counters, ports, sizes and byte counts are \<open>int\<close>, metric values and thresholds
  \<open>rat\<close>; opaque JSON members are values of type \<open>js\<close>.
\<close>

section \<open>Closed unions\<close>

datatype Role = Role_owner | Role_admin | Role_member

datatype ServerStatus =
    Server_online | Server_offline | Server_degraded | Server_provisioning | Server_unknown

datatype ServerRole = Role_worker | Role_edge | Role_both

datatype ProvisioningJobStatus = Job_pending | Job_running | Job_completed | Job_failed

datatype ProvisioningStepStatus = Step_pending | Step_running | Step_succeeded | Step_failed

datatype ProvisioningComponent =
    C_docker | C_traefik | C_edge_lb | C_nixpacks | C_buildpacks | C_railpack | C_agent

datatype MetricRange = R_5m | R_1h | R_24h | R_7d | R_30d

text \<open>The literals of the unions, as they appear in JSON bodies and query strings.\<close>

fun role_str :: "Role \<Rightarrow> string" where
  "role_str Role_owner = ''owner''"
| "role_str Role_admin = ''admin''"
| "role_str Role_member = ''member''"

fun server_role_str :: "ServerRole \<Rightarrow> string" where
  "server_role_str Role_worker = ''worker''"
| "server_role_str Role_edge = ''edge''"
| "server_role_str Role_both = ''both''"

fun component_str :: "ProvisioningComponent \<Rightarrow> string" where
  "component_str C_docker = ''docker''"
| "component_str C_traefik = ''traefik''"
| "component_str C_edge_lb = ''edge-lb''"
| "component_str C_nixpacks = ''nixpacks''"
| "component_str C_buildpacks = ''buildpacks''"
| "component_str C_railpack = ''railpack''"
| "component_str C_agent = ''agent''"

fun range_str :: "MetricRange \<Rightarrow> string" where
  "range_str R_5m = ''5m''"
| "range_str R_1h = ''1h''"
| "range_str R_24h = ''24h''"
| "range_str R_7d = ''7d''"
| "range_str R_30d = ''30d''"

lemma component_str_inj: "component_str a = component_str b \<Longrightarrow> a = b"
  by (cases a; cases b) simp_all

section \<open>Interfaces\<close>

record User =
  User_id :: string
  User_email :: string
  User_name :: string
  User_email_verified :: "bool option"
  User_created_at :: "string option"
  User_updated_at :: "string option"

record Team =
  Team_id :: string
  Team_name :: string
  Team_slug :: string
  Team_created_at :: string
  Team_updated_at :: string

record TeamMember =
  TeamMember_id :: string
  TeamMember_team_id :: string
  TeamMember_user_id :: string
  TeamMember_role :: Role
  TeamMember_email :: string
  TeamMember_user_name :: string
  TeamMember_created_at :: string

record TeamInvite =
  TeamInvite_id :: string
  TeamInvite_team_id :: string
  TeamInvite_email :: string
  TeamInvite_role :: Role
  TeamInvite_inviter_name :: "string option"
  TeamInvite_expires_at :: string
  TeamInvite_created_at :: string

record ApiToken =
  ApiToken_id :: string
  ApiToken_team_id :: string
  ApiToken_user_id :: string
  ApiToken_name :: string
  ApiToken_scopes :: "string list"
  ApiToken_last_used_at :: "string option"
  ApiToken_expires_at :: "string option"
  ApiToken_created_at :: string
  ApiToken_token :: "string option"

record AuditLog =
  AuditLog_id :: string
  AuditLog_team_id :: string
  AuditLog_actor_id :: "string option"
  AuditLog_actor_type :: string
  AuditLog_actor_name :: "string option"
  AuditLog_actor_email :: "string option"
  AuditLog_action :: string
  AuditLog_resource_type :: string
  AuditLog_resource_id :: "string option"
  AuditLog_metadata :: js
  AuditLog_ip_address :: string
  AuditLog_created_at :: string

record Server =
  Server_id :: string
  Server_team_id :: string
  Server_agent_id :: "string option"
  Server_name :: string
  Server_hostname :: string
  Server_public_ip :: string
  Server_ssh_port :: int
  Server_ssh_user :: string
  Server_os :: "string option"
  Server_os_version :: "string option"
  Server_arch :: "string option"
  Server_status :: ServerStatus
  Server_role :: ServerRole
  Server_last_seen_at :: "string option"
  Server_created_at :: string
  Server_updated_at :: string

record ServerTag =
  ServerTag_id :: "string option"
  ServerTag_server_id :: "string option"
  ServerTag_key :: string
  ServerTag_value :: string
  ServerTag_created_at :: "string option"

record ServerResources =
  ServerResources_server_id :: string
  ServerResources_cpu_model :: "string option"
  ServerResources_cpu_cores :: "int option"
  ServerResources_memory_total :: "int option"
  ServerResources_memory_available :: "int option"
  ServerResources_kernel_version :: "string option"
  ServerResources_docker_version :: "string option"
  ServerResources_disks :: js
  ServerResources_network_interfaces :: js
  ServerResources_updated_at :: string

record ServerDetail = Server +
  ServerDetail_resources :: "ServerResources option"

record ServerMetric =
  ServerMetric_server_id :: string
  ServerMetric_cpu_percent :: rat
  ServerMetric_memory_total :: int
  ServerMetric_memory_used :: int
  ServerMetric_memory_percent :: rat
  ServerMetric_updated_at :: string
  ServerMetric_fresh :: bool

record ProvisioningStep =
  ProvisioningStep_component :: string
  ProvisioningStep_status :: ProvisioningStepStatus
  ProvisioningStep_started_at :: "string option"
  ProvisioningStep_completed_at :: "string option"
  ProvisioningStep_error :: "string option"

record ProvisioningJob =
  ProvisioningJob_id :: string
  ProvisioningJob_server_id :: string
  ProvisioningJob_components :: "ProvisioningComponent list"
  ProvisioningJob_status :: ProvisioningJobStatus
  ProvisioningJob_logs :: string
  ProvisioningJob_started_at :: "string option"
  ProvisioningJob_completed_at :: "string option"
  ProvisioningJob_error :: "string option"
  ProvisioningJob_created_at :: string
  ProvisioningJob_steps :: "ProvisioningStep list"

record SshKey =
  SshKey_id :: string
  SshKey_team_id :: string
  SshKey_name :: string
  SshKey_public_key :: string
  SshKey_key_type :: string
  SshKey_fingerprint :: string
  SshKey_created_at :: string
  SshKey_updated_at :: "string option"
  SshKey_private_key :: "string option"

record Cluster =
  Cluster_id :: string
  Cluster_team_id :: string
  Cluster_name :: string
  Cluster_slug :: string
  Cluster_description :: string
  Cluster_region :: string
  Cluster_cidr :: string
  Cluster_status :: string
  Cluster_created_at :: string
  Cluster_updated_at :: string

record ClusterMember =
  ClusterMember_id :: string
  ClusterMember_cluster_id :: string
  ClusterMember_server_id :: string
  ClusterMember_wireguard_ip :: string
  ClusterMember_public_key :: "string option"
  ClusterMember_status :: string
  ClusterMember_server_name :: "string option"
  ClusterMember_server_hostname :: "string option"
  ClusterMember_created_at :: string

record MeshPeer =
  MeshPeer_id :: string
  MeshPeer_member_id :: string
  MeshPeer_peer_member_id :: string
  MeshPeer_status :: string
  MeshPeer_last_handshake_at :: "string option"
  MeshPeer_last_check_at :: "string option"
  MeshPeer_rtt_ms :: "rat option"
  MeshPeer_created_at :: string
  MeshPeer_from_ip :: string
  MeshPeer_from_server_name :: string
  MeshPeer_to_ip :: string
  MeshPeer_to_server_name :: string

record Project =
  Project_id :: string
  Project_team_id :: string
  Project_cluster_id :: string
  Project_name :: string
  Project_slug :: string
  Project_description :: string
  Project_status :: string
  Project_created_at :: string
  Project_updated_at :: string
  Project_cluster_name :: "string option"

record Environment =
  Environment_id :: string
  Environment_project_id :: string
  Environment_name :: string
  Environment_slug :: string
  Environment_is_production :: bool
  Environment_created_at :: string

record AppEnvVar =
  AppEnvVar_id :: string
  AppEnvVar_app_id :: string
  AppEnvVar_environment_id :: string
  AppEnvVar_key :: string
  AppEnvVar_created_at :: string
  AppEnvVar_updated_at :: string

record GithubInstallation =
  GithubInstallation_id :: string
  GithubInstallation_github_app_id :: string
  GithubInstallation_installation_id :: int
  GithubInstallation_account_login :: string
  GithubInstallation_account_type :: string
  GithubInstallation_target_type :: string
  GithubInstallation_suspended_at :: "string option"
  GithubInstallation_created_at :: string
  GithubInstallation_updated_at :: string

record GithubRepo =
  GithubRepo_id :: int
  GithubRepo_name :: string
  GithubRepo_full_name :: string
  GithubRepo_private :: bool
  GithubRepo_default_branch :: string
  GithubRepo_clone_url :: string

record GithubApp =
  GithubApp_id :: string
  GithubApp_app_id :: int
  GithubApp_app_name :: string
  GithubApp_app_slug :: string
  GithubApp_html_url :: string
  GithubApp_created_at :: string

record RegistryCredential =
  RegistryCredential_id :: string
  RegistryCredential_team_id :: string
  RegistryCredential_name :: string
  RegistryCredential_registry_type :: string
  RegistryCredential_registry_url :: string
  RegistryCredential_username :: string
  RegistryCredential_region :: "string option"
  RegistryCredential_validated_at :: "string option"
  RegistryCredential_created_at :: string
  RegistryCredential_updated_at :: string

record DockerHubImage =
  DockerHubImage_name :: string
  DockerHubImage_description :: string
  DockerHubImage_is_official :: bool
  DockerHubImage_star_count :: int
  DockerHubImage_pull_count :: "int option"

record DockerHubTag =
  DockerHubTag_name :: string
  DockerHubTag_size :: "int option"
  DockerHubTag_last_updated :: "string option"

record App =
  App_id :: string
  App_project_id :: string
  App_name :: string
  App_slug :: string
  App_source_type :: string
  App_github_installation_id :: "string option"
  App_repo_full_name :: "string option"
  App_branch :: "string option"
  App_root_path :: "string option"
  App_auto_deploy :: "bool option"
  App_docker_image :: "string option"
  App_registry_credential_id :: "string option"
  App_builder :: "string option"
  App_dockerfile_path :: "string option"
  App_port :: "int option"
  App_health_check_path :: "string option"
  App_replicas :: "int option"
  App_placement_strategy :: "string option"
  App_placement_constraints :: "js option"
  App_pinned_server_ids :: "(string list) option"
  App_status :: string
  App_resource_cpu_millicores :: "int option"
  App_resource_memory_mb :: "int option"
  App_cpu_limit_millicores :: "int option"
  App_memory_limit_mb :: "int option"
  App_custom_domain :: "string option"
  App_custom_domain_verified :: "bool option"
  App_created_at :: string
  App_updated_at :: string

record Build =
  Build_id :: string
  Build_app_id :: string
  Build_environment_id :: string
  Build_trigger_type :: string
  Build_commit_sha :: string
  Build_commit_message :: "string option"
  Build_branch :: "string option"
  Build_builder :: "string option"
  Build_image_tag :: "string option"
  Build_server_id :: "string option"
  Build_status :: string
  Build_logs :: "string option"
  Build_started_at :: "string option"
  Build_completed_at :: "string option"
  Build_created_at :: string

record Deployment =
  Deployment_id :: string
  Deployment_app_id :: string
  Deployment_environment_id :: string
  Deployment_build_id :: string
  Deployment_strategy :: string
  Deployment_replicas_desired :: int
  Deployment_replicas_ready :: int
  Deployment_status :: string
  Deployment_started_at :: "string option"
  Deployment_completed_at :: "string option"
  Deployment_error :: "string option"
  Deployment_platform_domain :: "string option"
  Deployment_created_at :: string

record DeploymentTarget =
  DeploymentTarget_id :: string
  DeploymentTarget_deployment_id :: string
  DeploymentTarget_server_id :: string
  DeploymentTarget_container_id :: "string option"
  DeploymentTarget_status :: string
  DeploymentTarget_health_check_attempts :: "int option"
  DeploymentTarget_started_at :: "string option"
  DeploymentTarget_healthy_at :: "string option"
  DeploymentTarget_stopped_at :: "string option"
  DeploymentTarget_error :: "string option"
  DeploymentTarget_host_port :: "int option"
  DeploymentTarget_bind_address :: "string option"
  DeploymentTarget_server_name :: "string option"
  DeploymentTarget_public_ip :: "string option"

record ProvisionLogEntry =
  ProvisionLogEntry_step :: string
  ProvisionLogEntry_level :: string
  ProvisionLogEntry_message :: string
  ProvisionLogEntry_terminal :: "bool option"
  ProvisionLogEntry_success :: "bool option"
  ProvisionLogEntry_at :: string

record Database =
  Database_id :: string
  Database_team_id :: string
  Database_project_id :: string
  Database_cluster_id :: string
  Database_server_id :: string
  Database_volume_id :: "string option"
  Database_template_slug :: string
  Database_version :: string
  Database_name :: string
  Database_container_name :: string
  Database_status :: string
  Database_port :: int
  Database_dns_record :: "string option"
  Database_superuser_secret_id :: "string option"
  Database_appuser_secret_id :: "string option"
  Database_resource_cpu_millicores :: int
  Database_resource_memory_mb :: int
  Database_backup_schedule :: "string option"
  Database_backup_retention_days :: "int option"
  Database_backup_storage_type :: "string option"
  Database_provision_log :: "ProvisionLogEntry list"
  Database_error_message :: "string option"
  Database_created_at :: string
  Database_updated_at :: string

record DatabaseProvisionResult =
  DatabaseProvisionResult_database :: Database
  DatabaseProvisionResult_superuser_password :: string
  DatabaseProvisionResult_appuser_password :: string

record TemplateVersion =
  TemplateVersion_version :: string
  TemplateVersion_image :: string
  TemplateVersion_default :: "bool option"

record TemplateDefaultResources =
  TemplateDefaultResources_milli_cpu :: int
  TemplateDefaultResources_memory_mb :: int

record TemplateVolumeSpec =
  TemplateVolumeSpec_mount_path :: string
  TemplateVolumeSpec_default_gib :: "int option"

record TemplateHealthCheck =
  TemplateHealthCheck_command :: string
  TemplateHealthCheck_interval :: "int option"
  TemplateHealthCheck_timeout :: "int option"
  TemplateHealthCheck_retries :: "int option"

record Template =
  Template_slug :: string
  Template_name :: string
  Template_category :: string
  Template_description :: "string option"
  Template_versions :: "TemplateVersion list"
  Template_default_resources :: TemplateDefaultResources
  Template_volume_spec :: TemplateVolumeSpec
  Template_ports :: "int list"
  Template_health_check :: TemplateHealthCheck
  Template_conn_string_fmt :: string
  Template_env_template :: "(string, string) obj"
  Template_credential_policy :: string
  Template_shell_command :: string
  Template_command :: "string option"

record DatabaseLink =
  DatabaseLink_id :: string
  DatabaseLink_database_id :: string
  DatabaseLink_app_id :: string
  DatabaseLink_env_prefix :: string
  DatabaseLink_created_at :: string

record DatabaseCredentialRotation =
  DatabaseCredentialRotation_id :: string
  DatabaseCredentialRotation_database_id :: string
  DatabaseCredentialRotation_rotated_by :: string
  DatabaseCredentialRotation_old_secret_id :: "string option"
  DatabaseCredentialRotation_new_secret_id :: "string option"
  DatabaseCredentialRotation_status :: string
  DatabaseCredentialRotation_linked_apps_restarted :: int
  DatabaseCredentialRotation_error :: "string option"
  DatabaseCredentialRotation_created_at :: string
  DatabaseCredentialRotation_completed_at :: "string option"

record RotateCredentialsResponse =
  RotateCredentialsResponse_new_password :: string
  RotateCredentialsResponse_rotation_id :: string

record DatabaseBackup =
  DatabaseBackup_id :: string
  DatabaseBackup_database_id :: string
  DatabaseBackup_type :: string
  DatabaseBackup_status :: string
  DatabaseBackup_size_bytes :: "int option"
  DatabaseBackup_storage_type :: string
  DatabaseBackup_storage_path :: "string option"
  DatabaseBackup_backup_tool :: string
  DatabaseBackup_triggered_by :: "string option"
  DatabaseBackup_started_at :: string
  DatabaseBackup_completed_at :: "string option"
  DatabaseBackup_error :: "string option"

record RestoreResult =
  RestoreResult_database :: Database
  RestoreResult_restart_required :: bool
  RestoreResult_note :: "string option"

record Volume =
  Volume_id :: string
  Volume_team_id :: string
  Volume_cluster_id :: string
  Volume_server_id :: string
  Volume_name :: string
  Volume_size_gb :: int
  Volume_used_bytes :: int
  Volume_filesystem :: string
  Volume_mount_path :: "string option"
  Volume_container_name :: "string option"
  Volume_status :: string
  Volume_host_path :: string
  Volume_created_at :: string
  Volume_updated_at :: string

record VolumeSnapshot =
  VolumeSnapshot_id :: string
  VolumeSnapshot_volume_id :: string
  VolumeSnapshot_size_bytes :: int
  VolumeSnapshot_storage_type :: string
  VolumeSnapshot_storage_path :: string
  VolumeSnapshot_created_at :: string

record SchemaList =
  SchemaList_schemas :: "string list"

record TableInfo =
  TableInfo_name :: string
  TableInfo_row_count :: int

record TableList =
  TableList_tables :: "TableInfo list"

record QueryColumn =
  QueryColumn_name :: string
  QueryColumn_type_name :: "string option"

record QueryRow =
  QueryRow_values :: "string list"
  QueryRow_nulls :: "bool list"

record QueryResult =
  QueryResult_success :: bool
  QueryResult_error :: "string option"
  QueryResult_execution_time_ms :: int
  QueryResult_columns :: "(QueryColumn list) option"
  QueryResult_rows :: "(QueryRow list) option"
  QueryResult_affected_rows :: "int option"
  QueryResult_raw_text :: "string option"
  QueryResult_query_history_id :: string

record RowPage =
  RowPage_columns :: "QueryColumn list"
  RowPage_rows :: "QueryRow list"
  RowPage_page :: int
  RowPage_limit :: int
  RowPage_total :: int

record QueryHistoryEntry =
  QueryHistoryEntry_id :: string
  QueryHistoryEntry_user_id :: string
  QueryHistoryEntry_database_id :: string
  QueryHistoryEntry_query_text :: string
  QueryHistoryEntry_write_mode :: bool
  QueryHistoryEntry_execution_time_ms :: "int option"
  QueryHistoryEntry_row_count :: "int option"
  QueryHistoryEntry_error :: "string option"
  QueryHistoryEntry_created_at :: string

record NotificationChannel =
  NotificationChannel_id :: string
  NotificationChannel_team_id :: string
  NotificationChannel_name :: string
  NotificationChannel_type :: string
  NotificationChannel_target :: string
  NotificationChannel_enabled :: bool
  NotificationChannel_created_at :: string
  NotificationChannel_updated_at :: string

record AlertRule =
  AlertRule_id :: string
  AlertRule_team_id :: string
  AlertRule_scope_type :: string
  AlertRule_scope_id :: string
  AlertRule_name :: string
  AlertRule_metric_name :: string
  AlertRule_comparison :: string
  AlertRule_threshold :: rat
  AlertRule_duration_seconds :: int
  AlertRule_severity :: string
  AlertRule_enabled :: bool
  AlertRule_notification_channels :: "string list"
  AlertRule_last_state :: string
  AlertRule_last_value :: "rat option"
  AlertRule_last_evaluated_at :: "string option"
  AlertRule_state_changed_at :: "string option"
  AlertRule_created_at :: string
  AlertRule_updated_at :: string

record MetricSample =
  MetricSample_id :: "int option"
  MetricSample_scope_type :: string
  MetricSample_scope_id :: string
  MetricSample_metric_name :: string
  MetricSample_value :: rat
  MetricSample_labels :: "js option"
  MetricSample_sampled_at :: string

record AlertEvent =
  AlertEvent_id :: string
  AlertEvent_rule_id :: string
  AlertEvent_team_id :: string
  AlertEvent_scope_type :: string
  AlertEvent_scope_id :: string
  AlertEvent_state :: string
  AlertEvent_metric_value :: "rat option"
  AlertEvent_threshold :: rat
  AlertEvent_message :: string
  AlertEvent_notified_at :: "string option"
  AlertEvent_created_at :: string

record Replica =
  Replica_target_id :: string
  Replica_container_id :: "string option"
  Replica_server_id :: string
  Replica_server_name :: string
  Replica_agent_id :: "string option"

record PlacementConstraints =
  PlacementConstraints_must_have :: "(string, string) obj"
  PlacementConstraints_must_not_have :: "(string, string) obj"

record ScalingEvent =
  ScalingEvent_id :: string
  ScalingEvent_app_id :: string
  ScalingEvent_environment_id :: "string option"
  ScalingEvent_deployment_id :: "string option"
  ScalingEvent_actor_id :: "string option"
  ScalingEvent_actor_type :: string
  ScalingEvent_event_type :: string
  ScalingEvent_from_replicas :: int
  ScalingEvent_to_replicas :: int
  ScalingEvent_placement_strategy :: string
  ScalingEvent_metric_name :: "string option"
  ScalingEvent_metric_value :: "rat option"
  ScalingEvent_rule_name :: "string option"
  ScalingEvent_message :: string
  ScalingEvent_metadata :: "js option"
  ScalingEvent_created_at :: string

record ScaleResult =
  ScaleResult_app :: App
  ScaleResult_event :: ScalingEvent
  ScaleResult_deployment :: "Deployment option"

record VerifyDomainResult =
  VerifyDomainResult_domain :: string
  VerifyDomainResult_verified :: bool
  VerifyDomainResult_target :: string

record TrafficRoute =
  TrafficRoute_id :: string
  TrafficRoute_app_id :: string
  TrafficRoute_environment_id :: string
  TrafficRoute_domain :: string
  TrafficRoute_mode :: string
  TrafficRoute_status :: string
  TrafficRoute_created_at :: string
  TrafficRoute_updated_at :: string

record TrafficBackend =
  TrafficBackend_id :: string
  TrafficBackend_route_id :: string
  TrafficBackend_deployment_id :: string
  TrafficBackend_label :: string
  TrafficBackend_weight :: int
  TrafficBackend_status :: string
  TrafficBackend_created_at :: string
  TrafficBackend_updated_at :: string
  TrafficBackend_deployment_status :: string
  TrafficBackend_replicas_ready :: int
  TrafficBackend_replicas_desired :: int
  TrafficBackend_commit_sha :: string
  TrafficBackend_image_tag :: string

record TrafficEvent =
  TrafficEvent_id :: string
  TrafficEvent_route_id :: string
  TrafficEvent_actor_id :: "string option"
  TrafficEvent_actor_type :: string
  TrafficEvent_event_type :: string
  TrafficEvent_message :: string
  TrafficEvent_metadata :: "js option"
  TrafficEvent_created_at :: string

record TrafficView =
  TrafficView_route :: "TrafficRoute option"
  TrafficView_backends :: "TrafficBackend list"
  TrafficView_events :: "TrafficEvent list"

record AutoscalingRule =
  AutoscalingRule_id :: string
  AutoscalingRule_app_id :: string
  AutoscalingRule_name :: string
  AutoscalingRule_metric_name :: string
  AutoscalingRule_comparison :: string
  AutoscalingRule_threshold :: rat
  AutoscalingRule_duration_seconds :: int
  AutoscalingRule_action_type :: string
  AutoscalingRule_action_value :: int
  AutoscalingRule_min_replicas :: int
  AutoscalingRule_max_replicas :: int
  AutoscalingRule_cooldown_up_seconds :: int
  AutoscalingRule_cooldown_down_seconds :: int
  AutoscalingRule_enabled :: bool
  AutoscalingRule_last_triggered_at :: "string option"
  AutoscalingRule_created_at :: string
  AutoscalingRule_updated_at :: string

record AutoscaleEvaluation =
  AutoscaleEvaluation_rule_id :: string
  AutoscaleEvaluation_rule_name :: string
  AutoscaleEvaluation_metric_name :: string
  AutoscaleEvaluation_metric_value :: rat
  AutoscaleEvaluation_triggered :: bool
  AutoscaleEvaluation_message :: string
  AutoscaleEvaluation_event :: "ScalingEvent option"

record Secret =
  Secret_id :: string
  Secret_team_id :: string
  Secret_environment :: string
  Secret_key :: string
  Secret_version :: int
  Secret_revealed_at :: "string option"
  Secret_created_at :: string
  Secret_updated_at :: string

section \<open>Catalogues\<close>

record CatalogEntry =
  CatalogEntry_id :: ProvisioningComponent
  CatalogEntry_label :: string
  CatalogEntry_description :: string

definition PROVISIONING_COMPONENTS :: "CatalogEntry list" where
  "PROVISIONING_COMPONENTS = [
    \<lparr>CatalogEntry_id = C_docker, CatalogEntry_label = ''Docker'',
     CatalogEntry_description = ''Container runtime used to run apps and managed databases.''\<rparr>,
    \<lparr>CatalogEntry_id = C_traefik, CatalogEntry_label = ''Traefik (per-node)'',
     CatalogEntry_description = ''Per-node proxy via Docker labels + file provider. Pick this for worker or single-node servers.''\<rparr>,
    \<lparr>CatalogEntry_id = C_edge_lb, CatalogEntry_label = ''Edge LB'',
     CatalogEntry_description = ''Front-of-cluster Traefik on host network. Route public traffic to workers over the mesh. Pick this on dedicated edge nodes.''\<rparr>,
    \<lparr>CatalogEntry_id = C_nixpacks, CatalogEntry_label = ''Nixpacks'',
     CatalogEntry_description = ''Auto-detect builder for source-based deploys (Railway-style).''\<rparr>,
    \<lparr>CatalogEntry_id = C_buildpacks, CatalogEntry_label = ''Cloud Native Buildpacks'',
     CatalogEntry_description = ''Optional pack CLI for buildpack-based image production.''\<rparr>,
    \<lparr>CatalogEntry_id = C_railpack, CatalogEntry_label = ''Railpack'',
     CatalogEntry_description = ''Alternative source builder.''\<rparr>,
    \<lparr>CatalogEntry_id = C_agent, CatalogEntry_label = ''Nixway agent'',
     CatalogEntry_description = ''Always installed last. Re-run on its own to upgrade the binary.''\<rparr>]"

abbreviation all_components :: "ProvisioningComponent list" where
  "all_components \<equiv> map CatalogEntry_id PROVISIONING_COMPONENTS"

lemma all_components_eq:
  "all_components = [C_docker, C_traefik, C_edge_lb, C_nixpacks, C_buildpacks, C_railpack, C_agent]"
  by (simp add: PROVISIONING_COMPONENTS_def)

lemma all_components_complete: "c \<in> set all_components"
  by (cases c) (simp_all add: PROVISIONING_COMPONENTS_def)

end
