(* ===== verification/Api_Inputs.thy ===== *)
theory Api_Inputs
  imports Api_Client Model_Types
begin

text \<open>
  The request payloads of \<open>apps/web-v2/lib/api.ts\<close>: one record per input interface, and
  \<open>X_js\<close>, the object literal handed to \<open>JSON.stringify\<close>, members in the interface's order. An
  absent optional member is \<open>undefined\<close>, which \<open>wire\<close> drops; a nullable one (\<open>string | null\<close>)
  is sent as \<open>null\<close>.
\<close>

definition PlacementConstraints_js :: "PlacementConstraints \<Rightarrow> js" where
  "PlacementConstraints_js p = JObj [
    (''must_have'', JObj (map (\<lambda>(k, v). (k, JStr v)) (PlacementConstraints_must_have p))),
    (''must_not_have'', JObj (map (\<lambda>(k, v). (k, JStr v)) (PlacementConstraints_must_not_have p)))]"

record CreateTokenInput =
  CreateTokenInput_name :: string
  CreateTokenInput_scopes :: "string list"
  CreateTokenInput_expires_in :: "string option"

definition CreateTokenInput_js :: "CreateTokenInput \<Rightarrow> js" where
  "CreateTokenInput_js i = JObj [
    (''name'', JStr (CreateTokenInput_name i)),
    (''scopes'', jstrs (CreateTokenInput_scopes i)),
    (''expires_in'', jstr_opt (CreateTokenInput_expires_in i))]"

record AuditFilters =
  AuditFilters_action :: "string option"
  AuditFilters_resource_type :: "string option"
  AuditFilters_actor_id :: "string option"
  AuditFilters_before :: "string option"
  AuditFilters_page_size :: "int option"

record CreateServerInput =
  CreateServerInput_name :: string
  CreateServerInput_hostname :: string
  CreateServerInput_public_ip :: string
  CreateServerInput_ssh_port :: "jsnum option"
  CreateServerInput_ssh_user :: "string option"
  CreateServerInput_ssh_key_id :: string

definition CreateServerInput_js :: "CreateServerInput \<Rightarrow> js" where
  "CreateServerInput_js i = JObj [
    (''name'', JStr (CreateServerInput_name i)),
    (''hostname'', JStr (CreateServerInput_hostname i)),
    (''public_ip'', JStr (CreateServerInput_public_ip i)),
    (''ssh_port'', (case CreateServerInput_ssh_port i of Some x \<Rightarrow> JNum x | None \<Rightarrow> JUndefined)),
    (''ssh_user'', jstr_opt (CreateServerInput_ssh_user i)),
    (''ssh_key_id'', JStr (CreateServerInput_ssh_key_id i))]"

record CreateSshKeyInput =
  CreateSshKeyInput_name :: string
  CreateSshKeyInput_key_type :: "string option"
  CreateSshKeyInput_public_key :: "string option"
  CreateSshKeyInput_private_key :: "string option"

definition CreateSshKeyInput_js :: "CreateSshKeyInput \<Rightarrow> js" where
  "CreateSshKeyInput_js i = JObj [
    (''name'', JStr (CreateSshKeyInput_name i)),
    (''key_type'', jstr_opt (CreateSshKeyInput_key_type i)),
    (''public_key'', jstr_opt (CreateSshKeyInput_public_key i)),
    (''private_key'', jstr_opt (CreateSshKeyInput_private_key i))]"

record CreateClusterInput =
  CreateClusterInput_name :: string
  CreateClusterInput_description :: "string option"
  CreateClusterInput_region :: "string option"

definition CreateClusterInput_js :: "CreateClusterInput \<Rightarrow> js" where
  "CreateClusterInput_js i = JObj [
    (''name'', JStr (CreateClusterInput_name i)),
    (''description'', jstr_opt (CreateClusterInput_description i)),
    (''region'', jstr_opt (CreateClusterInput_region i))]"

record UpdateClusterInput =
  UpdateClusterInput_name :: "string option"
  UpdateClusterInput_description :: "string option"
  UpdateClusterInput_region :: "string option"

definition UpdateClusterInput_js :: "UpdateClusterInput \<Rightarrow> js" where
  "UpdateClusterInput_js i = JObj [
    (''name'', jstr_opt (UpdateClusterInput_name i)),
    (''description'', jstr_opt (UpdateClusterInput_description i)),
    (''region'', jstr_opt (UpdateClusterInput_region i))]"

record CreateProjectInput =
  CreateProjectInput_name :: string
  CreateProjectInput_cluster_id :: string
  CreateProjectInput_description :: "string option"

definition CreateProjectInput_js :: "CreateProjectInput \<Rightarrow> js" where
  "CreateProjectInput_js i = JObj [
    (''name'', JStr (CreateProjectInput_name i)),
    (''cluster_id'', JStr (CreateProjectInput_cluster_id i)),
    (''description'', jstr_opt (CreateProjectInput_description i))]"

record UpdateProjectInput =
  UpdateProjectInput_name :: "string option"
  UpdateProjectInput_description :: "string option"

definition UpdateProjectInput_js :: "UpdateProjectInput \<Rightarrow> js" where
  "UpdateProjectInput_js i = JObj [
    (''name'', jstr_opt (UpdateProjectInput_name i)),
    (''description'', jstr_opt (UpdateProjectInput_description i))]"

record CreateManifestResponse =
  CreateManifestResponse_manifest :: js
  CreateManifestResponse_redirect_url :: string

record CreateRegistryInput =
  CreateRegistryInput_name :: string
  CreateRegistryInput_registry_type :: string
  CreateRegistryInput_registry_url :: "string option"
  CreateRegistryInput_username :: string
  CreateRegistryInput_password :: string
  CreateRegistryInput_region :: "string option option"
  CreateRegistryInput_aws_access_key_id :: "string option option"
  CreateRegistryInput_aws_secret_access_key :: "string option"

definition CreateRegistryInput_js :: "CreateRegistryInput \<Rightarrow> js" where
  "CreateRegistryInput_js i = JObj [
    (''name'', JStr (CreateRegistryInput_name i)),
    (''registry_type'', JStr (CreateRegistryInput_registry_type i)),
    (''registry_url'', jstr_opt (CreateRegistryInput_registry_url i)),
    (''username'', JStr (CreateRegistryInput_username i)),
    (''password'', JStr (CreateRegistryInput_password i)),
    (''region'', jstr_opt_null (CreateRegistryInput_region i)),
    (''aws_access_key_id'', jstr_opt_null (CreateRegistryInput_aws_access_key_id i)),
    (''aws_secret_access_key'', jstr_opt (CreateRegistryInput_aws_secret_access_key i))]"

record CreateAppInput =
  CreateAppInput_name :: string
  CreateAppInput_source_type :: string
  CreateAppInput_github_installation_id :: "string option"
  CreateAppInput_repo_full_name :: "string option"
  CreateAppInput_branch :: "string option"
  CreateAppInput_docker_image :: "string option"
  CreateAppInput_registry_credential_id :: "string option"
  CreateAppInput_root_path :: "string option"
  CreateAppInput_builder :: "string option"
  CreateAppInput_dockerfile_path :: "string option"
  CreateAppInput_auto_deploy :: "bool option"
  CreateAppInput_port :: "jsnum option"
  CreateAppInput_health_check_path :: "string option"
  CreateAppInput_health_check_interval :: "int option"
  CreateAppInput_health_check_timeout :: "int option"
  CreateAppInput_replicas :: "jsnum option"
  CreateAppInput_subdomain :: "string option"
  CreateAppInput_placement_strategy :: "string option"
  CreateAppInput_pinned_server_ids :: "(string list) option"

definition CreateAppInput_js :: "CreateAppInput \<Rightarrow> js" where
  "CreateAppInput_js i = JObj [
    (''name'', JStr (CreateAppInput_name i)),
    (''source_type'', JStr (CreateAppInput_source_type i)),
    (''github_installation_id'', jstr_opt (CreateAppInput_github_installation_id i)),
    (''repo_full_name'', jstr_opt (CreateAppInput_repo_full_name i)),
    (''branch'', jstr_opt (CreateAppInput_branch i)),
    (''docker_image'', jstr_opt (CreateAppInput_docker_image i)),
    (''registry_credential_id'', jstr_opt (CreateAppInput_registry_credential_id i)),
    (''root_path'', jstr_opt (CreateAppInput_root_path i)),
    (''builder'', jstr_opt (CreateAppInput_builder i)),
    (''dockerfile_path'', jstr_opt (CreateAppInput_dockerfile_path i)),
    (''auto_deploy'', jbool_opt (CreateAppInput_auto_deploy i)),
    (''port'', (case CreateAppInput_port i of Some x \<Rightarrow> JNum x | None \<Rightarrow> JUndefined)),
    (''health_check_path'', jstr_opt (CreateAppInput_health_check_path i)),
    (''health_check_interval'', jint_opt (CreateAppInput_health_check_interval i)),
    (''health_check_timeout'', jint_opt (CreateAppInput_health_check_timeout i)),
    (''replicas'', (case CreateAppInput_replicas i of Some x \<Rightarrow> JNum x | None \<Rightarrow> JUndefined)),
    (''subdomain'', jstr_opt (CreateAppInput_subdomain i)),
    (''placement_strategy'', jstr_opt (CreateAppInput_placement_strategy i)),
    (''pinned_server_ids'', jstrs_opt (CreateAppInput_pinned_server_ids i))]"

record UpdateAppInput =
  UpdateAppInput_name :: "string option"
  UpdateAppInput_branch :: "string option option"
  UpdateAppInput_root_path :: "string option"
  UpdateAppInput_auto_deploy :: "bool option"
  UpdateAppInput_builder :: "string option"
  UpdateAppInput_dockerfile_path :: "string option"
  UpdateAppInput_port :: "jsnum option"
  UpdateAppInput_health_check_path :: "string option"
  UpdateAppInput_health_check_interval :: "int option"
  UpdateAppInput_health_check_timeout :: "int option"
  UpdateAppInput_replicas :: "jsnum option"
  UpdateAppInput_subdomain :: "string option option"
  UpdateAppInput_custom_domain :: "string option option"
  UpdateAppInput_status :: "string option"
  UpdateAppInput_placement_strategy :: "string option"

definition UpdateAppInput_js :: "UpdateAppInput \<Rightarrow> js" where
  "UpdateAppInput_js i = JObj [
    (''name'', jstr_opt (UpdateAppInput_name i)),
    (''branch'', jstr_opt_null (UpdateAppInput_branch i)),
    (''root_path'', jstr_opt (UpdateAppInput_root_path i)),
    (''auto_deploy'', jbool_opt (UpdateAppInput_auto_deploy i)),
    (''builder'', jstr_opt (UpdateAppInput_builder i)),
    (''dockerfile_path'', jstr_opt (UpdateAppInput_dockerfile_path i)),
    (''port'', (case UpdateAppInput_port i of Some x \<Rightarrow> JNum x | None \<Rightarrow> JUndefined)),
    (''health_check_path'', jstr_opt (UpdateAppInput_health_check_path i)),
    (''health_check_interval'', jint_opt (UpdateAppInput_health_check_interval i)),
    (''health_check_timeout'', jint_opt (UpdateAppInput_health_check_timeout i)),
    (''replicas'', (case UpdateAppInput_replicas i of Some x \<Rightarrow> JNum x | None \<Rightarrow> JUndefined)),
    (''subdomain'', jstr_opt_null (UpdateAppInput_subdomain i)),
    (''custom_domain'', jstr_opt_null (UpdateAppInput_custom_domain i)),
    (''status'', jstr_opt (UpdateAppInput_status i)),
    (''placement_strategy'', jstr_opt (UpdateAppInput_placement_strategy i))]"

record UpdateResourcesInput =
  UpdateResourcesInput_memory_limit_mb :: jsnum
  UpdateResourcesInput_cpu_limit_millicores :: jsnum

definition UpdateResourcesInput_js :: "UpdateResourcesInput \<Rightarrow> js" where
  "UpdateResourcesInput_js i = JObj [
    (''memory_limit_mb'', JNum (UpdateResourcesInput_memory_limit_mb i)),
    (''cpu_limit_millicores'', JNum (UpdateResourcesInput_cpu_limit_millicores i))]"

record TrafficWeightInput =
  TrafficWeightInput_backend_id :: string
  TrafficWeightInput_weight :: int

definition TrafficWeightInput_js :: "TrafficWeightInput \<Rightarrow> js" where
  "TrafficWeightInput_js i = JObj [
    (''backend_id'', JStr (TrafficWeightInput_backend_id i)),
    (''weight'', jint (TrafficWeightInput_weight i))]"

record CreateAutoscalingRuleInput =
  CreateAutoscalingRuleInput_name :: "string option"
  CreateAutoscalingRuleInput_metric_name :: "string option"
  CreateAutoscalingRuleInput_comparison :: "string option"
  CreateAutoscalingRuleInput_threshold :: jsnum
  CreateAutoscalingRuleInput_duration_seconds :: "jsnum option"
  CreateAutoscalingRuleInput_action_type :: "string option"
  CreateAutoscalingRuleInput_action_value :: "jsnum option"
  CreateAutoscalingRuleInput_min_replicas :: "jsnum option"
  CreateAutoscalingRuleInput_max_replicas :: "jsnum option"
  CreateAutoscalingRuleInput_cooldown_up_seconds :: "jsnum option"
  CreateAutoscalingRuleInput_cooldown_down_seconds :: "jsnum option"
  CreateAutoscalingRuleInput_enabled :: "bool option"

definition CreateAutoscalingRuleInput_js :: "CreateAutoscalingRuleInput \<Rightarrow> js" where
  "CreateAutoscalingRuleInput_js i = JObj [
    (''name'', jstr_opt (CreateAutoscalingRuleInput_name i)),
    (''metric_name'', jstr_opt (CreateAutoscalingRuleInput_metric_name i)),
    (''comparison'', jstr_opt (CreateAutoscalingRuleInput_comparison i)),
    (''threshold'', JNum (CreateAutoscalingRuleInput_threshold i)),
    (''duration_seconds'', (case CreateAutoscalingRuleInput_duration_seconds i of Some x \<Rightarrow> JNum x | None \<Rightarrow> JUndefined)),
    (''action_type'', jstr_opt (CreateAutoscalingRuleInput_action_type i)),
    (''action_value'', (case CreateAutoscalingRuleInput_action_value i of Some x \<Rightarrow> JNum x | None \<Rightarrow> JUndefined)),
    (''min_replicas'', (case CreateAutoscalingRuleInput_min_replicas i of Some x \<Rightarrow> JNum x | None \<Rightarrow> JUndefined)),
    (''max_replicas'', (case CreateAutoscalingRuleInput_max_replicas i of Some x \<Rightarrow> JNum x | None \<Rightarrow> JUndefined)),
    (''cooldown_up_seconds'', (case CreateAutoscalingRuleInput_cooldown_up_seconds i of Some x \<Rightarrow> JNum x | None \<Rightarrow> JUndefined)),
    (''cooldown_down_seconds'', (case CreateAutoscalingRuleInput_cooldown_down_seconds i of Some x \<Rightarrow> JNum x | None \<Rightarrow> JUndefined)),
    (''enabled'', jbool_opt (CreateAutoscalingRuleInput_enabled i))]"

record ScaleInput =
  ScaleInput_replicas :: int
  ScaleInput_placement_strategy :: "string option"
  ScaleInput_placement_constraints :: "PlacementConstraints option"
  ScaleInput_pinned_server_ids :: "(string list) option"

definition ScaleInput_js :: "ScaleInput \<Rightarrow> js" where
  "ScaleInput_js i = JObj [
    (''replicas'', jint (ScaleInput_replicas i)),
    (''placement_strategy'', jstr_opt (ScaleInput_placement_strategy i)),
    (''placement_constraints'', (case ScaleInput_placement_constraints i of Some p \<Rightarrow> PlacementConstraints_js p | None \<Rightarrow> JUndefined)),
    (''pinned_server_ids'', jstrs_opt (ScaleInput_pinned_server_ids i))]"

record TriggerBuildInput =
  TriggerBuildInput_environment_id :: "string option"
  TriggerBuildInput_commit_sha :: "string option"
  TriggerBuildInput_branch :: "string option"

definition TriggerBuildInput_js :: "TriggerBuildInput \<Rightarrow> js" where
  "TriggerBuildInput_js i = JObj [
    (''environment_id'', jstr_opt (TriggerBuildInput_environment_id i)),
    (''commit_sha'', jstr_opt (TriggerBuildInput_commit_sha i)),
    (''branch'', jstr_opt (TriggerBuildInput_branch i))]"

record CreateSecretInput =
  CreateSecretInput_environment :: string
  CreateSecretInput_key :: string
  CreateSecretInput_value :: string

definition CreateSecretInput_js :: "CreateSecretInput \<Rightarrow> js" where
  "CreateSecretInput_js i = JObj [
    (''environment'', JStr (CreateSecretInput_environment i)),
    (''key'', JStr (CreateSecretInput_key i)),
    (''value'', JStr (CreateSecretInput_value i))]"

record CreateAppEnvVarInput =
  CreateAppEnvVarInput_environment :: string
  CreateAppEnvVarInput_key :: string
  CreateAppEnvVarInput_value :: string

definition CreateAppEnvVarInput_js :: "CreateAppEnvVarInput \<Rightarrow> js" where
  "CreateAppEnvVarInput_js i = JObj [
    (''environment'', JStr (CreateAppEnvVarInput_environment i)),
    (''key'', JStr (CreateAppEnvVarInput_key i)),
    (''value'', JStr (CreateAppEnvVarInput_value i))]"

record ProvisionDatabaseInput =
  ProvisionDatabaseInput_cluster_id :: string
  ProvisionDatabaseInput_server_id :: "string option"
  ProvisionDatabaseInput_template_slug :: string
  ProvisionDatabaseInput_version :: string
  ProvisionDatabaseInput_name :: string
  ProvisionDatabaseInput_size_gb :: "jsnum option"
  ProvisionDatabaseInput_cpu_millicores :: "jsnum option"
  ProvisionDatabaseInput_memory_mb :: "jsnum option"
  ProvisionDatabaseInput_backup_schedule :: "string option"
  ProvisionDatabaseInput_retention_days :: "jsnum option"

definition ProvisionDatabaseInput_js :: "ProvisionDatabaseInput \<Rightarrow> js" where
  "ProvisionDatabaseInput_js i = JObj [
    (''cluster_id'', JStr (ProvisionDatabaseInput_cluster_id i)),
    (''server_id'', jstr_opt (ProvisionDatabaseInput_server_id i)),
    (''template_slug'', JStr (ProvisionDatabaseInput_template_slug i)),
    (''version'', JStr (ProvisionDatabaseInput_version i)),
    (''name'', JStr (ProvisionDatabaseInput_name i)),
    (''size_gb'', (case ProvisionDatabaseInput_size_gb i of Some x \<Rightarrow> JNum x | None \<Rightarrow> JUndefined)),
    (''cpu_millicores'', (case ProvisionDatabaseInput_cpu_millicores i of Some x \<Rightarrow> JNum x | None \<Rightarrow> JUndefined)),
    (''memory_mb'', (case ProvisionDatabaseInput_memory_mb i of Some x \<Rightarrow> JNum x | None \<Rightarrow> JUndefined)),
    (''backup_schedule'', jstr_opt (ProvisionDatabaseInput_backup_schedule i)),
    (''retention_days'', (case ProvisionDatabaseInput_retention_days i of Some x \<Rightarrow> JNum x | None \<Rightarrow> JUndefined))]"

record LinkDatabaseInput =
  LinkDatabaseInput_app_id :: string
  LinkDatabaseInput_env_prefix :: "string option"

definition LinkDatabaseInput_js :: "LinkDatabaseInput \<Rightarrow> js" where
  "LinkDatabaseInput_js i = JObj [
    (''app_id'', JStr (LinkDatabaseInput_app_id i)),
    (''env_prefix'', jstr_opt (LinkDatabaseInput_env_prefix i))]"

record CreateVolumeInput =
  CreateVolumeInput_cluster_id :: string
  CreateVolumeInput_server_id :: string
  CreateVolumeInput_name :: string
  CreateVolumeInput_size_gb :: jsnum
  CreateVolumeInput_filesystem :: "string option"

definition CreateVolumeInput_js :: "CreateVolumeInput \<Rightarrow> js" where
  "CreateVolumeInput_js i = JObj [
    (''cluster_id'', JStr (CreateVolumeInput_cluster_id i)),
    (''server_id'', JStr (CreateVolumeInput_server_id i)),
    (''name'', JStr (CreateVolumeInput_name i)),
    (''size_gb'', JNum (CreateVolumeInput_size_gb i)),
    (''filesystem'', jstr_opt (CreateVolumeInput_filesystem i))]"

record AttachVolumeInput =
  AttachVolumeInput_container_name :: string
  AttachVolumeInput_mount_path :: string

definition AttachVolumeInput_js :: "AttachVolumeInput \<Rightarrow> js" where
  "AttachVolumeInput_js i = JObj [
    (''container_name'', JStr (AttachVolumeInput_container_name i)),
    (''mount_path'', JStr (AttachVolumeInput_mount_path i))]"

record RowsQuery =
  RowsQuery_page :: "int option"
  RowsQuery_limit :: "int option"
  RowsQuery_sort :: "string option"
  RowsQuery_order :: "string option"

record RunQueryInput =
  RunQueryInput_sql :: string
  RunQueryInput_write_mode :: "bool option"

definition RunQueryInput_js :: "RunQueryInput \<Rightarrow> js" where
  "RunQueryInput_js i = JObj [
    (''sql'', JStr (RunQueryInput_sql i)),
    (''write_mode'', jbool_opt (RunQueryInput_write_mode i))]"

record CreateChannelInput =
  CreateChannelInput_name :: string
  CreateChannelInput_type :: string
  CreateChannelInput_target :: string
  CreateChannelInput_enabled :: "bool option"

definition CreateChannelInput_js :: "CreateChannelInput \<Rightarrow> js" where
  "CreateChannelInput_js i = JObj [
    (''name'', JStr (CreateChannelInput_name i)),
    (''type'', JStr (CreateChannelInput_type i)),
    (''target'', JStr (CreateChannelInput_target i)),
    (''enabled'', jbool_opt (CreateChannelInput_enabled i))]"

record AlertRuleInput =
  AlertRuleInput_scope_type :: string
  AlertRuleInput_scope_id :: string
  AlertRuleInput_name :: string
  AlertRuleInput_metric_name :: string
  AlertRuleInput_comparison :: string
  AlertRuleInput_threshold :: jsnum
  AlertRuleInput_duration_seconds :: jsnum
  AlertRuleInput_severity :: string
  AlertRuleInput_enabled :: "bool option"
  AlertRuleInput_notification_channels :: "(string list) option"

definition AlertRuleInput_js :: "AlertRuleInput \<Rightarrow> js" where
  "AlertRuleInput_js i = JObj [
    (''scope_type'', JStr (AlertRuleInput_scope_type i)),
    (''scope_id'', JStr (AlertRuleInput_scope_id i)),
    (''name'', JStr (AlertRuleInput_name i)),
    (''metric_name'', JStr (AlertRuleInput_metric_name i)),
    (''comparison'', JStr (AlertRuleInput_comparison i)),
    (''threshold'', JNum (AlertRuleInput_threshold i)),
    (''duration_seconds'', JNum (AlertRuleInput_duration_seconds i)),
    (''severity'', JStr (AlertRuleInput_severity i)),
    (''enabled'', jbool_opt (AlertRuleInput_enabled i)),
    (''notification_channels'', jstrs_opt (AlertRuleInput_notification_channels i))]"

record AlertsScopeQuery =
  AlertsScopeQuery_scope_type :: "string option"
  AlertsScopeQuery_scope_id :: "string option"

end
