(* ===== verification/Js_Url.thy ===== *)
theory Js_Url
  imports Js_Runtime
begin

text \<open>
  \<open>encodeURIComponent\<close> and \<open>URLSearchParams\<close>, with the decoders the receiving side applies.
  Both encoders are character codecs: the locale states what one encoded character must
  satisfy and derives the round trip, injectivity and the output alphabet for strings.
\<close>

section \<open>Character codecs\<close>

locale char_codec =
  fixes enc :: "char \<Rightarrow> string"
    and dec :: "string \<Rightarrow> string option"
    and out :: "char set"
  assumes dec_nil: "dec [] = Some []"
    and dec_enc: "dec (enc c @ s) = map_option (Cons c) (dec s)"
    and enc_out: "set (enc c) \<subseteq> out"
    and enc_ne: "enc c \<noteq> []"
begin

lemma dec_encode: "dec (concat (map enc s)) = Some s"
  by (induction s) (simp_all add: dec_nil dec_enc)

lemma encode_inj: "concat (map enc s) = concat (map enc t) \<Longrightarrow> s = t"
  by (metis dec_encode option.inject)

lemma encode_out: "set (concat (map enc s)) \<subseteq> out"
  using enc_out by fastforce

lemma encode_nil_iff: "concat (map enc s) = [] \<longleftrightarrow> s = []"
  using enc_ne by (cases s) auto

end

section \<open>Percent encoding\<close>

definition hex_digit :: "nat \<Rightarrow> char" where
  "hex_digit n = (if n < 10 then char_of (48 + n) else char_of (55 + n))"

definition pct_byte :: "nat \<Rightarrow> string" where
  "pct_byte b = [CHR ''%'', hex_digit (b div 16), hex_digit (b mod 16)]"

text \<open>The UTF-8 bytes of a code unit below 256, percent-encoded.\<close>

definition pct_char :: "char \<Rightarrow> string" where
  "pct_char c = (let n = code_of c in
     if n < 128 then pct_byte n else pct_byte (192 + n div 64) @ pct_byte (128 + n mod 64))"

definition is_alnum :: "char \<Rightarrow> bool" where
  "is_alnum c = (let n = code_of c in
     (48 \<le> n \<and> n \<le> 57) \<or> (65 \<le> n \<and> n \<le> 90) \<or> (97 \<le> n \<and> n \<le> 122))"

definition uri_safe :: "char \<Rightarrow> bool" where
  "uri_safe c = (is_alnum c \<or> c \<in> set ''-_.!~*'' \<or> code_of c \<in> {39, 40, 41})"

definition form_safe :: "char \<Rightarrow> bool" where
  "form_safe c = (is_alnum c \<or> c \<in> set ''*-._'')"

definition uri_char :: "char \<Rightarrow> string" where
  "uri_char c = (if uri_safe c then [c] else pct_char c)"

definition form_char :: "char \<Rightarrow> string" where
  "form_char c = (if form_safe c then [c] else if c = CHR '' '' then ''+'' else pct_char c)"

definition encodeURIComponent :: "string \<Rightarrow> string" where
  "encodeURIComponent s = concat (map uri_char s)"

definition form_encode :: "string \<Rightarrow> string" where
  "form_encode s = concat (map form_char s)"

definition pct_value :: "char \<Rightarrow> char \<Rightarrow> nat option" where
  "pct_value a b = (case (hex_val a, hex_val b) of (Some x, Some y) \<Rightarrow> Some (16 * x + y) | _ \<Rightarrow> None)"

fun pct_decode :: "bool \<Rightarrow> string \<Rightarrow> string option" where
  "pct_decode sp [] = Some []"
| "pct_decode sp (c # s) =
     (if c = CHR ''%'' then
        (case s of
           a # b # r \<Rightarrow>
             (case pct_value a b of
                None \<Rightarrow> None
              | Some v \<Rightarrow>
                  if v < 128 then map_option (Cons (char_of v)) (pct_decode sp r)
                  else if v = 194 \<or> v = 195 then
                    (case r of
                       p # a' # b' # r' \<Rightarrow>
                         (case pct_value a' b' of
                            Some w \<Rightarrow>
                              if p = CHR ''%'' \<and> 128 \<le> w \<and> w < 192
                              then map_option (Cons (char_of ((v - 192) * 64 + (w - 128)))) (pct_decode sp r')
                              else None
                          | None \<Rightarrow> None)
                     | _ \<Rightarrow> None)
                  else None)
         | _ \<Rightarrow> None)
      else map_option (Cons (if sp \<and> c = CHR ''+'' then CHR '' '' else c)) (pct_decode sp s))"

abbreviation decodeURIComponent :: "string \<Rightarrow> string option" where
  "decodeURIComponent \<equiv> pct_decode False"

abbreviation form_decode :: "string \<Rightarrow> string option" where
  "form_decode \<equiv> pct_decode True"

definition pct_alphabet :: "char set" where
  "pct_alphabet = insert (CHR ''%'') {c. is_alnum c}"

definition uri_alphabet :: "char set" where
  "uri_alphabet = insert (CHR ''%'') {c. uri_safe c}"

definition form_alphabet :: "char set" where
  "form_alphabet = insert (CHR ''%'') (insert (CHR ''+'') {c. form_safe c})"

lemma hex_val_hex_digit [simp]: "n < 16 \<Longrightarrow> hex_val (hex_digit n) = Some n"
  by (auto simp: hex_val_def hex_digit_def Let_def)

lemma is_alnum_hex_digit: "n < 16 \<Longrightarrow> is_alnum (hex_digit n)"
  by (auto simp: is_alnum_def hex_digit_def Let_def)

lemma pct_value_byte: "b < 256 \<Longrightarrow> pct_value (hex_digit (b div 16)) (hex_digit (b mod 16)) = Some b"
  by (simp add: pct_value_def)

lemma code_of_less [simp]: "code_of c < 256"
  by (simp add: code_of_def)

lemma char_of_code_of [simp]: "char_of (code_of c) = c"
  by (simp add: code_of_def)

lemma pct_decode_low:
  "n < 128 \<Longrightarrow> pct_decode p (pct_byte n @ s) = map_option (Cons (char_of n)) (pct_decode p s)"
  by (simp add: pct_byte_def pct_value_byte)

lemma pct_decode_high:
  assumes "128 \<le> n" and "n < 256"
  shows "pct_decode p (pct_byte (192 + n div 64) @ pct_byte (128 + n mod 64) @ s) =
    map_option (Cons (char_of n)) (pct_decode p s)"
proof -
  define v w where "v = 192 + n div 64" and "w = 128 + n mod 64"
  have "v = 194 \<or> v = 195" using assms by (auto simp: v_def)
  moreover have "128 \<le> w" "w < 192" by (simp_all add: w_def)
  moreover have "(v - 192) * 64 + (w - 128) = n" by (simp add: v_def w_def)
  moreover have "pct_value (hex_digit (v div 16)) (hex_digit (v mod 16)) = Some v"
    "pct_value (hex_digit (w div 16)) (hex_digit (w mod 16)) = Some w"
    using calculation by (auto simp only: intro!: pct_value_byte)
  ultimately show ?thesis
    unfolding v_def [symmetric] w_def [symmetric]
    by (auto simp: pct_byte_def simp del: pct_decode.simps(2) simp: pct_decode.simps(2) [of p "CHR ''%''"])
qed

lemma pct_decode_char: "pct_decode p (pct_char c @ s) = map_option (Cons c) (pct_decode p s)"
proof (cases "code_of c < 128")
  case True
  then show ?thesis by (simp add: pct_char_def pct_decode_low)
next
  case False
  then show ?thesis
    using pct_decode_high [of "code_of c" p s] by (simp add: pct_char_def Let_def)
qed

lemma pct_char_alphabet: "set (pct_char c) \<subseteq> pct_alphabet"
proof -
  have "set (pct_byte b) \<subseteq> pct_alphabet" if "b < 256" for b
    using that by (auto simp: pct_byte_def pct_alphabet_def is_alnum_hex_digit)
  moreover have "192 + code_of c div 64 < 256" "128 + code_of c mod 64 < 256"
    using code_of_less [of c] by linarith+
  ultimately show ?thesis by (simp add: pct_char_def Let_def)
qed

lemma pct_char_ne: "pct_char c \<noteq> []"
  by (simp add: pct_char_def Let_def pct_byte_def)

lemma safe_not_pct: "\<not> uri_safe (CHR ''%'')" "\<not> form_safe (CHR ''%'')" "\<not> form_safe (CHR ''+'')"
  by (simp_all add: uri_safe_def form_safe_def is_alnum_def code_of_def)

interpretation uri: char_codec uri_char decodeURIComponent uri_alphabet
proof
  show "decodeURIComponent (uri_char c @ s) = map_option (Cons c) (decodeURIComponent s)" for c s
    using safe_not_pct(1) by (auto simp: uri_char_def pct_decode_char)
  show "set (uri_char c) \<subseteq> uri_alphabet" for c
    using pct_char_alphabet [of c]
    by (auto simp: uri_char_def uri_alphabet_def pct_alphabet_def uri_safe_def)
  show "uri_char c \<noteq> []" for c by (simp add: uri_char_def pct_char_ne)
qed simp

interpretation form: char_codec form_char form_decode form_alphabet
proof
  show "form_decode (form_char c @ s) = map_option (Cons c) (form_decode s)" for c s
    using safe_not_pct(2,3) by (auto simp: form_char_def pct_decode_char)
  show "set (form_char c) \<subseteq> form_alphabet" for c
    using pct_char_alphabet [of c]
    by (auto simp: form_char_def form_alphabet_def pct_alphabet_def form_safe_def)
  show "form_char c \<noteq> []" for c by (simp add: form_char_def pct_char_ne)
qed simp

lemma uri_alphabet_excludes:
  "CHR ''/'' \<notin> uri_alphabet" "CHR ''?'' \<notin> uri_alphabet" "CHR ''#'' \<notin> uri_alphabet"
  "CHR ''&'' \<notin> uri_alphabet" "CHR ''='' \<notin> uri_alphabet"
  by (simp_all add: uri_alphabet_def uri_safe_def is_alnum_def code_of_def)

lemma form_alphabet_excludes:
  "CHR ''/'' \<notin> form_alphabet" "CHR ''?'' \<notin> form_alphabet" "CHR ''#'' \<notin> form_alphabet"
  "CHR ''&'' \<notin> form_alphabet" "CHR ''='' \<notin> form_alphabet"
  by (simp_all add: form_alphabet_def form_safe_def is_alnum_def code_of_def)

lemma encodeURIComponent_no_sep [simp]:
  "CHR ''/'' \<notin> set (encodeURIComponent s)" "CHR ''?'' \<notin> set (encodeURIComponent s)"
  "CHR ''#'' \<notin> set (encodeURIComponent s)" "CHR ''&'' \<notin> set (encodeURIComponent s)"
  "CHR ''='' \<notin> set (encodeURIComponent s)"
  using uri.encode_out [of s] uri_alphabet_excludes
  by (auto simp: encodeURIComponent_def)

lemma encodeURIComponent_nil [simp]: "encodeURIComponent s = [] \<longleftrightarrow> s = []"
  by (simp only: encodeURIComponent_def uri.encode_nil_iff)

section \<open>URLSearchParams\<close>

type_synonym params = "(string, string) obj"

definition params_set :: "string \<Rightarrow> string \<Rightarrow> params \<Rightarrow> params" where
  "params_set k v ps = obj_set k v ps"

definition params_pair :: "string \<times> string \<Rightarrow> string" where
  "params_pair p = form_encode (fst p) @ ''='' @ form_encode (snd p)"

definition params_toString :: "params \<Rightarrow> string" where
  "params_toString ps = join ''&'' (map params_pair ps)"

text \<open>The query string as the receiver reads it.\<close>

definition parse_pair :: "string \<Rightarrow> (string \<times> string) option" where
  "parse_pair s =
     (let k = takeWhile (\<lambda>c. c \<noteq> CHR ''='') s; v = drop (Suc (length k)) s in
      case (form_decode k, form_decode v) of (Some a, Some b) \<Rightarrow> Some (a, b) | _ \<Rightarrow> None)"

definition parse_query :: "string \<Rightarrow> params option" where
  "parse_query s = (if s = [] then Some [] else those (map parse_pair (split_on (CHR ''&'') s)))"

lemma form_encode_out: "set (form_encode s) \<subseteq> form_alphabet"
  unfolding form_encode_def by (rule form.encode_out)

lemma form_encode_no_sep [simp]:
  "CHR ''&'' \<notin> set (form_encode s)" "CHR ''='' \<notin> set (form_encode s)"
  "CHR ''/'' \<notin> set (form_encode s)" "CHR ''?'' \<notin> set (form_encode s)"
  "CHR ''#'' \<notin> set (form_encode s)"
  using form_encode_out [of s] form_alphabet_excludes by auto

lemma form_decode_encode [simp]: "form_decode (form_encode s) = Some s"
  by (simp only: form_encode_def form.dec_encode)

lemma takeWhile_before: "c \<notin> set s \<Longrightarrow> takeWhile (\<lambda>x. x \<noteq> c) (s @ c # t) = s"
  by (induction s) auto

lemma parse_pair_pair [simp]: "parse_pair (params_pair p) = Some p"
proof -
  have "takeWhile (\<lambda>c. c \<noteq> CHR ''='') (form_encode (fst p) @ CHR ''='' # form_encode (snd p)) =
      form_encode (fst p)"
    by (rule takeWhile_before) simp
  then show ?thesis
    by (simp add: parse_pair_def params_pair_def Let_def)
qed

lemma those_map_Some: "(\<And>x. x \<in> set xs \<Longrightarrow> f x = Some (g x)) \<Longrightarrow> those (map f xs) = Some (map g xs)"
  by (induction xs) auto

lemma parse_query_toString: "parse_query (params_toString ps) = Some ps"
proof (cases ps)
  case Nil
  then show ?thesis by (simp add: parse_query_def params_toString_def)
next
  case (Cons p qs)
  have sep: "CHR ''&'' \<notin> set s" if "s \<in> set (map params_pair ps)" for s
    using that by (auto simp: params_pair_def)
  have "split_on (CHR ''&'') (params_toString ps) = map params_pair ps"
    unfolding params_toString_def using Cons sep by (intro split_join) auto
  moreover have "params_toString ps \<noteq> []"
  proof -
    have "params_toString ps = params_pair p @ (case qs of [] \<Rightarrow> [] | _ \<Rightarrow> ''&'' @ params_toString qs)"
      using Cons by (cases qs) (simp_all add: params_toString_def)
    then show ?thesis by (simp add: params_pair_def)
  qed
  moreover have "those (map (parse_pair \<circ> params_pair) ps) = Some (map id ps)"
    by (rule those_map_Some) simp
  ultimately show ?thesis by (simp add: parse_query_def)
qed

lemma params_toString_no_sep:
  "CHR ''/'' \<notin> set (params_toString ps)" "CHR ''?'' \<notin> set (params_toString ps)"
proof -
  have j: "set (join ''&'' ss) \<subseteq> insert (CHR ''&'') (\<Union> (set ` set ss))" for ss
    by (induction ss rule: induct_list012) auto
  have "set (params_pair p) \<subseteq> insert (CHR ''='') form_alphabet" for p
    using form_encode_out by (auto simp: params_pair_def)
  then have "set (params_toString ps) \<subseteq> insert (CHR ''&'') (insert (CHR ''='') form_alphabet)"
    unfolding params_toString_def using j [of "map params_pair ps"] by fastforce
  then show "CHR ''/'' \<notin> set (params_toString ps)" "CHR ''?'' \<notin> set (params_toString ps)"
    using form_alphabet_excludes by auto
qed

end
