(* ===== verification/Api_Surface.thy ===== *)
theory Api_Surface
  imports Api_Inputs Js_Url
begin

text \<open>
  The typed surface of \<open>apps/web-v2/lib/api.ts\<close>: one definition per member of \<open>authApi\<close>,
  \<open>teamsApi\<close>, ..., giving the method, path and body of the request it makes (\<open>endpoint\<close>);
  \<open>Api_Client.call\<close> sends it. A member that only builds a URL (an SSE source) is a string.
\<close>

definition or_default :: "'a option \<Rightarrow> 'a \<Rightarrow> 'a" where
  "or_default x d = (case x of Some v \<Rightarrow> v | None \<Rightarrow> d)"

text \<open>
  The query builders: \<open>if (v) qs.set(k, v)\<close>, \<open>if (n) qs.set(k, String(n))\<close>,
  \<open>if (n != null) qs.set(k, String(n))\<close> and the \<open>suffix\<close> of every list call.
\<close>

definition set_truthy :: "string \<Rightarrow> string option \<Rightarrow> params \<Rightarrow> params" where
  "set_truthy k v ps = (case v of Some s \<Rightarrow> if s = [] then ps else params_set k s ps | None \<Rightarrow> ps)"

definition set_num_truthy :: "string \<Rightarrow> int option \<Rightarrow> params \<Rightarrow> params" where
  "set_num_truthy k v ps = (case v of Some n \<Rightarrow> if n = 0 then ps else params_set k (show_int n) ps | None \<Rightarrow> ps)"

definition set_num :: "string \<Rightarrow> int option \<Rightarrow> params \<Rightarrow> params" where
  "set_num k v ps = (case v of Some n \<Rightarrow> params_set k (show_int n) ps | None \<Rightarrow> ps)"

definition query_suffix :: "params \<Rightarrow> string" where
  "query_suffix qs = (if params_toString qs = [] then [] else CHR ''?'' # params_toString qs)"

section \<open>\<open>authApi\<close>\<close>

definition authApi_me :: "endpoint" where [endpoint_defs]:
  "authApi_me = api_get (''/auth/me'')"

definition authApi_login :: "string \<Rightarrow> string \<Rightarrow> endpoint" where [endpoint_defs]:
  "authApi_login email password = api_post (''/auth/login'') (JObj [(''email'', JStr email), (''password'', JStr password)])"

definition authApi_signup :: "string \<Rightarrow> string \<Rightarrow> string \<Rightarrow> endpoint" where [endpoint_defs]:
  "authApi_signup name email password = api_post (''/auth/signup'') (JObj [(''name'', JStr name), (''email'', JStr email), (''password'', JStr password)])"

definition authApi_logout :: "endpoint" where [endpoint_defs]:
  "authApi_logout = api_post (''/auth/logout'') (JUndefined)"

definition authApi_forgotPassword :: "string \<Rightarrow> endpoint" where [endpoint_defs]:
  "authApi_forgotPassword email = api_post (''/auth/forgot-password'') (JObj [(''email'', JStr email)])"

definition authApi_resetPassword :: "string \<Rightarrow> string \<Rightarrow> endpoint" where [endpoint_defs]:
  "authApi_resetPassword token password = api_post (''/auth/reset-password'') (JObj [(''token'', JStr token), (''password'', JStr password)])"

definition authApi_verifyEmail :: "string \<Rightarrow> endpoint" where [endpoint_defs]:
  "authApi_verifyEmail token = api_post (''/auth/verify-email'') (JObj [(''token'', JStr token)])"

definition authApi_resendVerification :: "string \<Rightarrow> endpoint" where [endpoint_defs]:
  "authApi_resendVerification email = api_post (''/auth/resend-verification'') (JObj [(''email'', JStr email)])"

section \<open>\<open>teamsApi\<close>\<close>

definition teamsApi_list :: "endpoint" where [endpoint_defs]:
  "teamsApi_list = api_get (''/teams'')"

definition teamsApi_get :: "string \<Rightarrow> endpoint" where [endpoint_defs]:
  "teamsApi_get ident = api_get (''/teams/'' @ ident)"

definition teamsApi_create :: "string \<Rightarrow> endpoint" where [endpoint_defs]:
  "teamsApi_create name = api_post (''/teams'') (JObj [(''name'', JStr name)])"

definition teamsApi_update :: "string \<Rightarrow> string \<Rightarrow> endpoint" where [endpoint_defs]:
  "teamsApi_update ident name = api_put (''/teams/'' @ ident) (JObj [(''name'', JStr name)])"

definition teamsApi_remove :: "string \<Rightarrow> endpoint" where [endpoint_defs]:
  "teamsApi_remove ident = api_delete (''/teams/'' @ ident)"

section \<open>\<open>membersApi\<close>\<close>

definition membersApi_list :: "string \<Rightarrow> endpoint" where [endpoint_defs]:
  "membersApi_list teamId = api_get (''/teams/'' @ teamId @ ''/members'')"

definition membersApi_updateRole :: "string \<Rightarrow> string \<Rightarrow> Role \<Rightarrow> endpoint" where [endpoint_defs]:
  "membersApi_updateRole teamId userId role = api_put (''/teams/'' @ teamId @ ''/members/'' @ userId) (JObj [(''role'', JStr (role_str role))])"

definition membersApi_remove :: "string \<Rightarrow> string \<Rightarrow> endpoint" where [endpoint_defs]:
  "membersApi_remove teamId userId = api_delete (''/teams/'' @ teamId @ ''/members/'' @ userId)"

section \<open>\<open>invitesApi\<close>\<close>

definition invitesApi_list :: "string \<Rightarrow> endpoint" where [endpoint_defs]:
  "invitesApi_list teamId = api_get (''/teams/'' @ teamId @ ''/invites'')"

definition invitesApi_create :: "string \<Rightarrow> string \<Rightarrow> Role \<Rightarrow> endpoint" where [endpoint_defs]:
  "invitesApi_create teamId email role = api_post (''/teams/'' @ teamId @ ''/invites'') (JObj [(''email'', JStr email), (''role'', JStr (role_str role))])"

definition invitesApi_cancel :: "string \<Rightarrow> string \<Rightarrow> endpoint" where [endpoint_defs]:
  "invitesApi_cancel teamId inviteId = api_delete (''/teams/'' @ teamId @ ''/invites/'' @ inviteId)"

section \<open>\<open>tokensApi\<close>\<close>

definition tokensApi_list :: "string \<Rightarrow> endpoint" where [endpoint_defs]:
  "tokensApi_list teamId = api_get (''/teams/'' @ teamId @ ''/tokens'')"

definition tokensApi_create :: "string \<Rightarrow> CreateTokenInput \<Rightarrow> endpoint" where [endpoint_defs]:
  "tokensApi_create teamId input = api_post (''/teams/'' @ teamId @ ''/tokens'') (CreateTokenInput_js input)"

definition tokensApi_revoke :: "string \<Rightarrow> string \<Rightarrow> endpoint" where [endpoint_defs]:
  "tokensApi_revoke teamId tokenId = api_delete (''/teams/'' @ teamId @ ''/tokens/'' @ tokenId)"

section \<open>\<open>auditApi\<close>\<close>

definition auditApi_list :: "string \<Rightarrow> AuditFilters \<Rightarrow> endpoint" where [endpoint_defs]:
  "auditApi_list teamId filters = api_get (''/teams/'' @ teamId @ ''/audit-logs'' @ query_suffix (
     set_num_truthy ''page_size'' (AuditFilters_page_size filters)
       (set_truthy ''before'' (AuditFilters_before filters)
         (set_truthy ''actor_id'' (AuditFilters_actor_id filters)
           (set_truthy ''resource_type'' (AuditFilters_resource_type filters)
             (set_truthy ''action'' (AuditFilters_action filters) []))))))"

section \<open>\<open>serversApi\<close>\<close>

definition serversApi_list :: "string \<Rightarrow> endpoint" where [endpoint_defs]:
  "serversApi_list teamId = api_get (''/teams/'' @ teamId @ ''/servers'')"

definition serversApi_get :: "string \<Rightarrow> string \<Rightarrow> endpoint" where [endpoint_defs]:
  "serversApi_get teamId serverId = api_get (''/teams/'' @ teamId @ ''/servers/'' @ serverId)"

definition serversApi_create :: "string \<Rightarrow> CreateServerInput \<Rightarrow> endpoint" where [endpoint_defs]:
  "serversApi_create teamId input = api_post (''/teams/'' @ teamId @ ''/servers'') (CreateServerInput_js input)"

definition serversApi_update :: "string \<Rightarrow> string \<Rightarrow> string option \<Rightarrow> string option \<Rightarrow> string option \<Rightarrow> endpoint" where [endpoint_defs]:
  "serversApi_update teamId serverId name hostname public_ip =
     api_put (''/teams/'' @ teamId @ ''/servers/'' @ serverId)
       (JObj [(''name'', jstr_opt name), (''hostname'', jstr_opt hostname), (''public_ip'', jstr_opt public_ip)])"

definition serversApi_setRole :: "string \<Rightarrow> string \<Rightarrow> ServerRole \<Rightarrow> endpoint" where [endpoint_defs]:
  "serversApi_setRole teamId serverId role = api_put (''/teams/'' @ teamId @ ''/servers/'' @ serverId @ ''/role'') (JObj [(''role'', JStr (server_role_str role))])"

definition serversApi_remove :: "string \<Rightarrow> string \<Rightarrow> endpoint" where [endpoint_defs]:
  "serversApi_remove teamId serverId = api_delete (''/teams/'' @ teamId @ ''/servers/'' @ serverId)"

definition serversApi_cleanup :: "string \<Rightarrow> string \<Rightarrow> endpoint" where [endpoint_defs]:
  "serversApi_cleanup teamId serverId = api_post (''/teams/'' @ teamId @ ''/servers/'' @ serverId @ ''/cleanup'') (JUndefined)"

definition serversApi_metrics :: "string \<Rightarrow> string \<Rightarrow> endpoint" where [endpoint_defs]:
  "serversApi_metrics teamId serverId = api_get (''/teams/'' @ teamId @ ''/servers/'' @ serverId @ ''/metrics'')"

section \<open>\<open>serverProvisionApi\<close>\<close>

definition serverProvisionApi_status :: "string \<Rightarrow> string \<Rightarrow> endpoint" where [endpoint_defs]:
  "serverProvisionApi_status teamId serverId = api_get (''/teams/'' @ teamId @ ''/servers/'' @ serverId @ ''/provision'')"

definition serverProvisionApi_start :: "string \<Rightarrow> string \<Rightarrow> ProvisioningComponent list \<Rightarrow> endpoint" where [endpoint_defs]:
  "serverProvisionApi_start teamId serverId components = api_post (''/teams/'' @ teamId @ ''/servers/'' @ serverId @ ''/provision'') (JObj [(''components'', jstrs (map component_str components))])"

definition serverProvisionApi_retry :: "string \<Rightarrow> string \<Rightarrow> endpoint" where [endpoint_defs]:
  "serverProvisionApi_retry teamId serverId = api_post (''/teams/'' @ teamId @ ''/servers/'' @ serverId @ ''/provision/retry'') (JObj [])"

definition serverProvisionApi_logsUrl :: "string \<Rightarrow> string \<Rightarrow> string \<Rightarrow> string" where
  "serverProvisionApi_logsUrl teamId serverId jobId = ''/api/v1/teams/'' @ teamId @ ''/servers/'' @ serverId @ ''/provision/'' @ jobId @ ''/logs''"

section \<open>\<open>tagsApi\<close>\<close>

definition tagsApi_list :: "string \<Rightarrow> string \<Rightarrow> endpoint" where [endpoint_defs]:
  "tagsApi_list teamId serverId = api_get (''/teams/'' @ teamId @ ''/servers/'' @ serverId @ ''/tags'')"

definition tagsApi_set :: "string \<Rightarrow> string \<Rightarrow> string \<Rightarrow> string \<Rightarrow> endpoint" where [endpoint_defs]:
  "tagsApi_set teamId serverId key value = api_post (''/teams/'' @ teamId @ ''/servers/'' @ serverId @ ''/tags'') (JObj [(''key'', JStr key), (''value'', JStr value)])"

definition tagsApi_remove :: "string \<Rightarrow> string \<Rightarrow> string \<Rightarrow> endpoint" where [endpoint_defs]:
  "tagsApi_remove teamId serverId key = api_delete (''/teams/'' @ teamId @ ''/servers/'' @ serverId @ ''/tags/'' @ encodeURIComponent key)"

section \<open>\<open>sshKeysApi\<close>\<close>

definition sshKeysApi_list :: "string \<Rightarrow> endpoint" where [endpoint_defs]:
  "sshKeysApi_list teamId = api_get (''/teams/'' @ teamId @ ''/ssh-keys'')"

definition sshKeysApi_get :: "string \<Rightarrow> string \<Rightarrow> endpoint" where [endpoint_defs]:
  "sshKeysApi_get teamId keyId = api_get (''/teams/'' @ teamId @ ''/ssh-keys/'' @ keyId)"

definition sshKeysApi_create :: "string \<Rightarrow> CreateSshKeyInput \<Rightarrow> endpoint" where [endpoint_defs]:
  "sshKeysApi_create teamId input = api_post (''/teams/'' @ teamId @ ''/ssh-keys'') (CreateSshKeyInput_js input)"

definition sshKeysApi_remove :: "string \<Rightarrow> string \<Rightarrow> endpoint" where [endpoint_defs]:
  "sshKeysApi_remove teamId keyId = api_delete (''/teams/'' @ teamId @ ''/ssh-keys/'' @ keyId)"

section \<open>\<open>clustersApi\<close>\<close>

definition clustersApi_list :: "string \<Rightarrow> endpoint" where [endpoint_defs]:
  "clustersApi_list teamId = api_get (''/teams/'' @ teamId @ ''/clusters'')"

definition clustersApi_get :: "string \<Rightarrow> string \<Rightarrow> endpoint" where [endpoint_defs]:
  "clustersApi_get teamId clusterId = api_get (''/teams/'' @ teamId @ ''/clusters/'' @ clusterId)"

definition clustersApi_create :: "string \<Rightarrow> CreateClusterInput \<Rightarrow> endpoint" where [endpoint_defs]:
  "clustersApi_create teamId input = api_post (''/teams/'' @ teamId @ ''/clusters'') (CreateClusterInput_js input)"

definition clustersApi_update :: "string \<Rightarrow> string \<Rightarrow> UpdateClusterInput \<Rightarrow> endpoint" where [endpoint_defs]:
  "clustersApi_update teamId clusterId patch = api_put (''/teams/'' @ teamId @ ''/clusters/'' @ clusterId) (UpdateClusterInput_js patch)"

definition clustersApi_remove :: "string \<Rightarrow> string \<Rightarrow> endpoint" where [endpoint_defs]:
  "clustersApi_remove teamId clusterId = api_delete (''/teams/'' @ teamId @ ''/clusters/'' @ clusterId)"

section \<open>\<open>clusterMembersApi\<close>\<close>

definition clusterMembersApi_list :: "string \<Rightarrow> string \<Rightarrow> endpoint" where [endpoint_defs]:
  "clusterMembersApi_list teamId clusterId = api_get (''/teams/'' @ teamId @ ''/clusters/'' @ clusterId @ ''/members'')"

definition clusterMembersApi_add :: "string \<Rightarrow> string \<Rightarrow> string \<Rightarrow> endpoint" where [endpoint_defs]:
  "clusterMembersApi_add teamId clusterId serverId = api_post (''/teams/'' @ teamId @ ''/clusters/'' @ clusterId @ ''/members'') (JObj [(''server_id'', JStr serverId)])"

definition clusterMembersApi_remove :: "string \<Rightarrow> string \<Rightarrow> string \<Rightarrow> endpoint" where [endpoint_defs]:
  "clusterMembersApi_remove teamId clusterId serverId = api_delete (''/teams/'' @ teamId @ ''/clusters/'' @ clusterId @ ''/members/'' @ serverId)"

section \<open>\<open>meshApi\<close>\<close>

definition meshApi_health :: "string \<Rightarrow> string \<Rightarrow> endpoint" where [endpoint_defs]:
  "meshApi_health teamId clusterId = api_get (''/teams/'' @ teamId @ ''/clusters/'' @ clusterId @ ''/mesh'')"

definition meshApi_regenerate :: "string \<Rightarrow> string \<Rightarrow> endpoint" where [endpoint_defs]:
  "meshApi_regenerate teamId clusterId = api_post (''/teams/'' @ teamId @ ''/clusters/'' @ clusterId @ ''/mesh/regenerate'') (JUndefined)"

section \<open>\<open>projectsApi\<close>\<close>

definition projectsApi_list :: "string \<Rightarrow> endpoint" where [endpoint_defs]:
  "projectsApi_list teamId = api_get (''/teams/'' @ teamId @ ''/projects'')"

definition projectsApi_get :: "string \<Rightarrow> string \<Rightarrow> endpoint" where [endpoint_defs]:
  "projectsApi_get teamId projectId = api_get (''/teams/'' @ teamId @ ''/projects/'' @ projectId)"

definition projectsApi_create :: "string \<Rightarrow> CreateProjectInput \<Rightarrow> endpoint" where [endpoint_defs]:
  "projectsApi_create teamId input = api_post (''/teams/'' @ teamId @ ''/projects'') (CreateProjectInput_js input)"

definition projectsApi_update :: "string \<Rightarrow> string \<Rightarrow> UpdateProjectInput \<Rightarrow> endpoint" where [endpoint_defs]:
  "projectsApi_update teamId projectId patch = api_put (''/teams/'' @ teamId @ ''/projects/'' @ projectId) (UpdateProjectInput_js patch)"

definition projectsApi_remove :: "string \<Rightarrow> string \<Rightarrow> endpoint" where [endpoint_defs]:
  "projectsApi_remove teamId projectId = api_delete (''/teams/'' @ teamId @ ''/projects/'' @ projectId)"

section \<open>\<open>environmentsApi\<close>\<close>

definition environmentsApi_list :: "string \<Rightarrow> endpoint" where [endpoint_defs]:
  "environmentsApi_list projectId = api_get (''/projects/'' @ projectId @ ''/environments'')"

definition environmentsApi_create :: "string \<Rightarrow> string \<Rightarrow> endpoint" where [endpoint_defs]:
  "environmentsApi_create projectId name = api_post (''/projects/'' @ projectId @ ''/environments'') (JObj [(''name'', JStr name)])"

section \<open>\<open>githubApi\<close>\<close>

definition githubApi_getApp :: "string \<Rightarrow> endpoint" where [endpoint_defs]:
  "githubApi_getApp teamId = api_get (''/teams/'' @ teamId @ ''/github/app'')"

definition githubApi_createManifest :: "string \<Rightarrow> endpoint" where [endpoint_defs]:
  "githubApi_createManifest teamId = api_post (''/teams/'' @ teamId @ ''/github/manifest'') (JObj [])"

definition githubApi_callback :: "string \<Rightarrow> string \<Rightarrow> endpoint" where [endpoint_defs]:
  "githubApi_callback teamId code = api_post (''/teams/'' @ teamId @ ''/github/callback'') (JObj [(''code'', JStr code)])"

definition githubApi_deleteApp :: "string \<Rightarrow> endpoint" where [endpoint_defs]:
  "githubApi_deleteApp teamId = api_delete (''/teams/'' @ teamId @ ''/github/app'')"

definition githubApi_installations :: "string \<Rightarrow> endpoint" where [endpoint_defs]:
  "githubApi_installations teamId = api_get (''/teams/'' @ teamId @ ''/github/installations'')"

definition githubApi_syncInstallations :: "string \<Rightarrow> endpoint" where [endpoint_defs]:
  "githubApi_syncInstallations teamId = api_post (''/teams/'' @ teamId @ ''/github/installations/sync'') (JUndefined)"

definition githubApi_repos :: "string \<Rightarrow> int \<Rightarrow> endpoint" where [endpoint_defs]:
  "githubApi_repos teamId installationId = api_get (''/teams/'' @ teamId @ ''/github/installations/'' @ show_int installationId @ ''/repos'')"

section \<open>\<open>registriesApi\<close>\<close>

definition registriesApi_list :: "string \<Rightarrow> endpoint" where [endpoint_defs]:
  "registriesApi_list teamId = api_get (''/teams/'' @ teamId @ ''/registries'')"

definition registriesApi_create :: "string \<Rightarrow> CreateRegistryInput \<Rightarrow> endpoint" where [endpoint_defs]:
  "registriesApi_create teamId input = api_post (''/teams/'' @ teamId @ ''/registries'') (CreateRegistryInput_js input)"

definition registriesApi_update :: "string \<Rightarrow> string \<Rightarrow> CreateRegistryInput \<Rightarrow> endpoint" where [endpoint_defs]:
  "registriesApi_update teamId ident input = api_put (''/teams/'' @ teamId @ ''/registries/'' @ ident) (CreateRegistryInput_js input)"

definition registriesApi_remove :: "string \<Rightarrow> string \<Rightarrow> endpoint" where [endpoint_defs]:
  "registriesApi_remove teamId ident = api_delete (''/teams/'' @ teamId @ ''/registries/'' @ ident)"

definition registriesApi_validate :: "string \<Rightarrow> string \<Rightarrow> endpoint" where [endpoint_defs]:
  "registriesApi_validate teamId ident = api_post (''/teams/'' @ teamId @ ''/registries/'' @ ident @ ''/validate'') (JUndefined)"

section \<open>\<open>dockerHubApi\<close>\<close>

definition dockerHubApi_search :: "string \<Rightarrow> endpoint" where [endpoint_defs]:
  "dockerHubApi_search q = api_get (''/docker-hub/search?q='' @ encodeURIComponent q)"

definition dockerHubApi_tags :: "string \<Rightarrow> endpoint" where [endpoint_defs]:
  "dockerHubApi_tags img = api_get (''/docker-hub/tags?image='' @ encodeURIComponent img)"

section \<open>\<open>appsApi\<close>\<close>

definition appsApi_list :: "string \<Rightarrow> endpoint" where [endpoint_defs]:
  "appsApi_list projectId = api_get (''/projects/'' @ projectId @ ''/apps'')"

definition appsApi_get :: "string \<Rightarrow> endpoint" where [endpoint_defs]:
  "appsApi_get appId = api_get (''/apps/'' @ appId)"

definition appsApi_create :: "string \<Rightarrow> CreateAppInput \<Rightarrow> endpoint" where [endpoint_defs]:
  "appsApi_create projectId input = api_post (''/projects/'' @ projectId @ ''/apps'') (CreateAppInput_js input)"

definition appsApi_update :: "string \<Rightarrow> string \<Rightarrow> UpdateAppInput \<Rightarrow> endpoint" where [endpoint_defs]:
  "appsApi_update projectId appId patch = api_put (''/projects/'' @ projectId @ ''/apps/'' @ appId) (UpdateAppInput_js patch)"

definition appsApi_remove :: "string \<Rightarrow> string \<Rightarrow> endpoint" where [endpoint_defs]:
  "appsApi_remove projectId appId = api_delete (''/projects/'' @ projectId @ ''/apps/'' @ appId)"

definition appsApi_setRegistryCredential :: "string \<Rightarrow> string option \<Rightarrow> endpoint" where [endpoint_defs]:
  "appsApi_setRegistryCredential appId registry_credential_id = api_put (''/apps/'' @ appId @ ''/registry-credential'') (JObj [(''registry_credential_id'', jstr_null registry_credential_id)])"

definition appsApi_setDomain :: "string \<Rightarrow> string \<Rightarrow> endpoint" where [endpoint_defs]:
  "appsApi_setDomain appId custom_domain = api_post (''/apps/'' @ appId @ ''/domain'') (JObj [(''custom_domain'', JStr custom_domain)])"

definition appsApi_verifyDomain :: "string \<Rightarrow> endpoint" where [endpoint_defs]:
  "appsApi_verifyDomain appId = api_post (''/apps/'' @ appId @ ''/domain/verify'') (JUndefined)"

definition appsApi_removeDomain :: "App \<Rightarrow> endpoint" where [endpoint_defs]:
  "appsApi_removeDomain app = api_put (''/projects/'' @ App_project_id app @ ''/apps/'' @ App_id app) (JObj [
     (''name'', JStr (App_name app)),
     (''branch'', jstr_null (App_branch app)),
     (''root_path'', JStr (or_default (App_root_path app) [])),
     (''auto_deploy'', JBool (or_default (App_auto_deploy app) False)),
     (''builder'', JStr (or_default (App_builder app) [])),
     (''dockerfile_path'', JStr (or_default (App_dockerfile_path app) [])),
     (''port'', jint (or_default (App_port app) 0)),
     (''health_check_path'', JStr (or_default (App_health_check_path app) [])),
     (''replicas'', jint (or_default (App_replicas app) 1)),
     (''custom_domain'', JNull),
     (''status'', JStr (App_status app)),
     (''placement_strategy'', JStr (or_default (App_placement_strategy app) ''spread'')),
     (''pinned_server_ids'', jstrs (or_default (App_pinned_server_ids app) []))])"

definition appsApi_updateResources :: "string \<Rightarrow> UpdateResourcesInput \<Rightarrow> endpoint" where [endpoint_defs]:
  "appsApi_updateResources appId input = api_put (''/apps/'' @ appId @ ''/resources'') (UpdateResourcesInput_js input)"

definition appsApi_rollback :: "string \<Rightarrow> string option \<Rightarrow> endpoint" where [endpoint_defs]:
  "appsApi_rollback appId environment_id = api_post (''/apps/'' @ appId @ ''/rollback'')
     (case environment_id of
        Some e \<Rightarrow> if e = [] then JObj [] else JObj [(''environment_id'', JStr e)]
      | None \<Rightarrow> JObj [])"

definition appsApi_listReplicas :: "string \<Rightarrow> endpoint" where [endpoint_defs]:
  "appsApi_listReplicas appId = api_get (''/apps/'' @ appId @ ''/replicas'')"

definition appsApi_logsUrl :: "string \<Rightarrow> string option \<Rightarrow> int option \<Rightarrow> bool \<Rightarrow> string" where
  "appsApi_logsUrl appId container tail follow = ''/api/v1/apps/'' @ appId @ ''/logs'' @ query_suffix (
     (if follow then params_set ''follow'' ''true'' else id)
       (set_num_truthy ''tail'' tail (set_truthy ''container'' container [])))"

definition appsApi_scale :: "string \<Rightarrow> ScaleInput \<Rightarrow> endpoint" where [endpoint_defs]:
  "appsApi_scale appId input = api_post (''/apps/'' @ appId @ ''/scale'') (ScaleInput_js input)"

definition appsApi_listScalingEvents :: "string \<Rightarrow> int option \<Rightarrow> int option \<Rightarrow> endpoint" where [endpoint_defs]:
  "appsApi_listScalingEvents appId limit offset = api_get (''/apps/'' @ appId @ ''/scaling-events'' @ query_suffix (
     set_num ''offset'' offset (set_num ''limit'' limit [])))"

definition appsApi_getTraffic :: "string \<Rightarrow> endpoint" where [endpoint_defs]:
  "appsApi_getTraffic appId = api_get (''/apps/'' @ appId @ ''/traffic'')"

definition appsApi_updateTraffic :: "string \<Rightarrow> TrafficWeightInput list \<Rightarrow> endpoint" where [endpoint_defs]:
  "appsApi_updateTraffic appId weights = api_put (''/apps/'' @ appId @ ''/traffic'') (JObj [(''weights'', JArr (map TrafficWeightInput_js weights))])"

definition appsApi_promoteBackend :: "string \<Rightarrow> string \<Rightarrow> endpoint" where [endpoint_defs]:
  "appsApi_promoteBackend appId backendId = api_post (''/apps/'' @ appId @ ''/traffic/backends/'' @ backendId @ ''/promote'') (JUndefined)"

definition appsApi_listAutoscalingRules :: "string \<Rightarrow> endpoint" where [endpoint_defs]:
  "appsApi_listAutoscalingRules appId = api_get (''/apps/'' @ appId @ ''/autoscaling-rules'')"

definition appsApi_createAutoscalingRule :: "string \<Rightarrow> CreateAutoscalingRuleInput \<Rightarrow> endpoint" where [endpoint_defs]:
  "appsApi_createAutoscalingRule appId input = api_post (''/apps/'' @ appId @ ''/autoscaling-rules'') (CreateAutoscalingRuleInput_js input)"

definition appsApi_deleteAutoscalingRule :: "string \<Rightarrow> string \<Rightarrow> endpoint" where [endpoint_defs]:
  "appsApi_deleteAutoscalingRule appId ruleId = api_delete (''/apps/'' @ appId @ ''/autoscaling-rules/'' @ ruleId)"

definition appsApi_evaluateAutoscaling :: "string \<Rightarrow> endpoint" where [endpoint_defs]:
  "appsApi_evaluateAutoscaling appId = api_post (''/apps/'' @ appId @ ''/autoscaling/evaluate'') (JUndefined)"

section \<open>\<open>buildsApi\<close>\<close>

definition buildsApi_list :: "string \<Rightarrow> endpoint" where [endpoint_defs]:
  "buildsApi_list appId = api_get (''/apps/'' @ appId @ ''/builds'')"

definition buildsApi_get :: "string \<Rightarrow> string \<Rightarrow> endpoint" where [endpoint_defs]:
  "buildsApi_get appId buildId = api_get (''/apps/'' @ appId @ ''/builds/'' @ buildId)"

definition buildsApi_trigger :: "string \<Rightarrow> TriggerBuildInput option \<Rightarrow> endpoint" where [endpoint_defs]:
  "buildsApi_trigger appId input = api_post (''/apps/'' @ appId @ ''/builds'')
     (case input of Some i \<Rightarrow> TriggerBuildInput_js i | None \<Rightarrow> JObj [])"

definition buildsApi_logsUrl :: "string \<Rightarrow> string \<Rightarrow> string" where
  "buildsApi_logsUrl appId buildId = ''/api/v1/apps/'' @ appId @ ''/builds/'' @ buildId @ ''/logs''"

section \<open>\<open>deploymentsApi\<close>\<close>

definition deploymentsApi_list :: "string \<Rightarrow> endpoint" where [endpoint_defs]:
  "deploymentsApi_list appId = api_get (''/apps/'' @ appId @ ''/deployments'')"

definition deploymentsApi_get :: "string \<Rightarrow> string \<Rightarrow> endpoint" where [endpoint_defs]:
  "deploymentsApi_get appId deployId = api_get (''/apps/'' @ appId @ ''/deployments/'' @ deployId)"

definition deploymentsApi_targets :: "string \<Rightarrow> string \<Rightarrow> endpoint" where [endpoint_defs]:
  "deploymentsApi_targets appId deployId = api_get (''/apps/'' @ appId @ ''/deployments/'' @ deployId @ ''/targets'')"

definition deploymentsApi_logsUrl :: "string \<Rightarrow> string \<Rightarrow> string" where
  "deploymentsApi_logsUrl appId deployId = ''/api/v1/apps/'' @ appId @ ''/deployments/'' @ deployId @ ''/logs''"

section \<open>\<open>secretsApi\<close>\<close>

definition secretsApi_list :: "string \<Rightarrow> string option \<Rightarrow> endpoint" where [endpoint_defs]:
  "secretsApi_list teamId environment = api_get (''/teams/'' @ teamId @ ''/secrets'' @
     (case environment of
        Some e \<Rightarrow> if e = [] then [] else ''?environment='' @ encodeURIComponent e
      | None \<Rightarrow> []))"

definition secretsApi_get :: "string \<Rightarrow> string \<Rightarrow> endpoint" where [endpoint_defs]:
  "secretsApi_get teamId secretId = api_get (''/teams/'' @ teamId @ ''/secrets/'' @ secretId)"

definition secretsApi_create :: "string \<Rightarrow> CreateSecretInput \<Rightarrow> endpoint" where [endpoint_defs]:
  "secretsApi_create teamId input = api_post (''/teams/'' @ teamId @ ''/secrets'') (CreateSecretInput_js input)"

definition secretsApi_update :: "string \<Rightarrow> string \<Rightarrow> string \<Rightarrow> endpoint" where [endpoint_defs]:
  "secretsApi_update teamId secretId value = api_put (''/teams/'' @ teamId @ ''/secrets/'' @ secretId) (JObj [(''value'', JStr value)])"

definition secretsApi_reveal :: "string \<Rightarrow> string \<Rightarrow> endpoint" where [endpoint_defs]:
  "secretsApi_reveal teamId secretId = api_post (''/teams/'' @ teamId @ ''/secrets/'' @ secretId @ ''/reveal'') (JUndefined)"

definition secretsApi_remove :: "string \<Rightarrow> string \<Rightarrow> endpoint" where [endpoint_defs]:
  "secretsApi_remove teamId secretId = api_delete (''/teams/'' @ teamId @ ''/secrets/'' @ secretId)"

section \<open>\<open>appEnvVarsApi\<close>\<close>

definition appEnvVarsApi_list :: "string \<Rightarrow> string \<Rightarrow> endpoint" where [endpoint_defs]:
  "appEnvVarsApi_list appId environment = api_get (''/apps/'' @ appId @ ''/env-vars?environment='' @ encodeURIComponent environment)"

definition appEnvVarsApi_create :: "string \<Rightarrow> CreateAppEnvVarInput \<Rightarrow> endpoint" where [endpoint_defs]:
  "appEnvVarsApi_create appId input = api_post (''/apps/'' @ appId @ ''/env-vars'') (CreateAppEnvVarInput_js input)"

definition appEnvVarsApi_update :: "string \<Rightarrow> string \<Rightarrow> string \<Rightarrow> endpoint" where [endpoint_defs]:
  "appEnvVarsApi_update appId varId value = api_put (''/apps/'' @ appId @ ''/env-vars/'' @ varId) (JObj [(''value'', JStr value)])"

definition appEnvVarsApi_reveal :: "string \<Rightarrow> string \<Rightarrow> endpoint" where [endpoint_defs]:
  "appEnvVarsApi_reveal appId varId = api_post (''/apps/'' @ appId @ ''/env-vars/'' @ varId @ ''/reveal'') (JUndefined)"

definition appEnvVarsApi_remove :: "string \<Rightarrow> string \<Rightarrow> endpoint" where [endpoint_defs]:
  "appEnvVarsApi_remove appId varId = api_delete (''/apps/'' @ appId @ ''/env-vars/'' @ varId)"

section \<open>\<open>templatesApi\<close>\<close>

definition templatesApi_list :: "endpoint" where [endpoint_defs]:
  "templatesApi_list = api_get (''/templates'')"

definition templatesApi_get :: "string \<Rightarrow> endpoint" where [endpoint_defs]:
  "templatesApi_get slug = api_get (''/templates/'' @ slug)"

definition templatesApi_listVersions :: "string \<Rightarrow> endpoint" where [endpoint_defs]:
  "templatesApi_listVersions slug = api_get (''/templates/'' @ slug @ ''/versions'')"

section \<open>\<open>databasesApi\<close>\<close>

definition databasesApi_list :: "string \<Rightarrow> endpoint" where [endpoint_defs]:
  "databasesApi_list projectId = api_get (''/projects/'' @ projectId @ ''/databases'')"

definition databasesApi_get :: "string \<Rightarrow> string \<Rightarrow> endpoint" where [endpoint_defs]:
  "databasesApi_get projectId dbId = api_get (''/projects/'' @ projectId @ ''/databases/'' @ dbId)"

definition databasesApi_getByID :: "string \<Rightarrow> endpoint" where [endpoint_defs]:
  "databasesApi_getByID dbId = api_get (''/databases/'' @ dbId)"

definition databasesApi_provision :: "string \<Rightarrow> ProvisionDatabaseInput \<Rightarrow> endpoint" where [endpoint_defs]:
  "databasesApi_provision projectId input = api_post (''/projects/'' @ projectId @ ''/databases'') (ProvisionDatabaseInput_js input)"

definition databasesApi_provisionStreamUrl :: "string \<Rightarrow> string \<Rightarrow> string" where
  "databasesApi_provisionStreamUrl projectId dbId = ''/api/v1/projects/'' @ projectId @ ''/databases/'' @ dbId @ ''/provision-stream''"

definition databasesApi_remove :: "string \<Rightarrow> string \<Rightarrow> endpoint" where [endpoint_defs]:
  "databasesApi_remove projectId dbId = api_delete (''/projects/'' @ projectId @ ''/databases/'' @ dbId)"

definition databasesApi_start :: "string \<Rightarrow> string \<Rightarrow> endpoint" where [endpoint_defs]:
  "databasesApi_start projectId dbId = api_post (''/projects/'' @ projectId @ ''/databases/'' @ dbId @ ''/start'') (JUndefined)"

definition databasesApi_stop :: "string \<Rightarrow> string \<Rightarrow> endpoint" where [endpoint_defs]:
  "databasesApi_stop projectId dbId = api_post (''/projects/'' @ projectId @ ''/databases/'' @ dbId @ ''/stop'') (JUndefined)"

definition databasesApi_listLinks :: "string \<Rightarrow> string \<Rightarrow> endpoint" where [endpoint_defs]:
  "databasesApi_listLinks projectId dbId = api_get (''/projects/'' @ projectId @ ''/databases/'' @ dbId @ ''/links'')"

definition databasesApi_link :: "string \<Rightarrow> string \<Rightarrow> LinkDatabaseInput \<Rightarrow> endpoint" where [endpoint_defs]:
  "databasesApi_link projectId dbId input = api_post (''/projects/'' @ projectId @ ''/databases/'' @ dbId @ ''/links'') (LinkDatabaseInput_js input)"

definition databasesApi_unlink :: "string \<Rightarrow> string \<Rightarrow> string \<Rightarrow> endpoint" where [endpoint_defs]:
  "databasesApi_unlink projectId dbId linkId = api_delete (''/projects/'' @ projectId @ ''/databases/'' @ dbId @ ''/links/'' @ linkId)"

definition databasesApi_rotate :: "string \<Rightarrow> string \<Rightarrow> endpoint" where [endpoint_defs]:
  "databasesApi_rotate projectId dbId = api_post (''/projects/'' @ projectId @ ''/databases/'' @ dbId @ ''/rotate'') (JUndefined)"

definition databasesApi_listRotations :: "string \<Rightarrow> string \<Rightarrow> endpoint" where [endpoint_defs]:
  "databasesApi_listRotations projectId dbId = api_get (''/projects/'' @ projectId @ ''/databases/'' @ dbId @ ''/rotations'')"

definition databasesApi_listBackups :: "string \<Rightarrow> string \<Rightarrow> endpoint" where [endpoint_defs]:
  "databasesApi_listBackups projectId dbId = api_get (''/projects/'' @ projectId @ ''/databases/'' @ dbId @ ''/backups'')"

definition databasesApi_createBackup :: "string \<Rightarrow> string \<Rightarrow> endpoint" where [endpoint_defs]:
  "databasesApi_createBackup projectId dbId = api_post (''/projects/'' @ projectId @ ''/databases/'' @ dbId @ ''/backups'') (JUndefined)"

definition databasesApi_getBackup :: "string \<Rightarrow> string \<Rightarrow> string \<Rightarrow> endpoint" where [endpoint_defs]:
  "databasesApi_getBackup projectId dbId backupId = api_get (''/projects/'' @ projectId @ ''/databases/'' @ dbId @ ''/backups/'' @ backupId)"

definition databasesApi_removeBackup :: "string \<Rightarrow> string \<Rightarrow> string \<Rightarrow> endpoint" where [endpoint_defs]:
  "databasesApi_removeBackup projectId dbId backupId = api_delete (''/projects/'' @ projectId @ ''/databases/'' @ dbId @ ''/backups/'' @ backupId)"

definition databasesApi_restore :: "string \<Rightarrow> string \<Rightarrow> string \<Rightarrow> string \<Rightarrow> string option \<Rightarrow> endpoint" where [endpoint_defs]:
  "databasesApi_restore projectId dbId backup_id target new_name =
     api_post (''/projects/'' @ projectId @ ''/databases/'' @ dbId @ ''/restore'')
       (JObj [(''backup_id'', JStr backup_id), (''target'', JStr target), (''new_name'', jstr_opt new_name)])"

section \<open>\<open>volumesApi\<close>\<close>

definition volumesApi_list :: "string \<Rightarrow> endpoint" where [endpoint_defs]:
  "volumesApi_list teamId = api_get (''/teams/'' @ teamId @ ''/volumes'')"

definition volumesApi_get :: "string \<Rightarrow> string \<Rightarrow> endpoint" where [endpoint_defs]:
  "volumesApi_get teamId volumeId = api_get (''/teams/'' @ teamId @ ''/volumes/'' @ volumeId)"

definition volumesApi_create :: "string \<Rightarrow> CreateVolumeInput \<Rightarrow> endpoint" where [endpoint_defs]:
  "volumesApi_create teamId input = api_post (''/teams/'' @ teamId @ ''/volumes'') (CreateVolumeInput_js input)"

definition volumesApi_remove :: "string \<Rightarrow> string \<Rightarrow> endpoint" where [endpoint_defs]:
  "volumesApi_remove teamId volumeId = api_delete (''/teams/'' @ teamId @ ''/volumes/'' @ volumeId)"

definition volumesApi_attach :: "string \<Rightarrow> string \<Rightarrow> AttachVolumeInput \<Rightarrow> endpoint" where [endpoint_defs]:
  "volumesApi_attach teamId volumeId input = api_post (''/teams/'' @ teamId @ ''/volumes/'' @ volumeId @ ''/attach'') (AttachVolumeInput_js input)"

definition volumesApi_detach :: "string \<Rightarrow> string \<Rightarrow> endpoint" where [endpoint_defs]:
  "volumesApi_detach teamId volumeId = api_post (''/teams/'' @ teamId @ ''/volumes/'' @ volumeId @ ''/detach'') (JUndefined)"

definition volumesApi_move :: "string \<Rightarrow> string \<Rightarrow> string \<Rightarrow> endpoint" where [endpoint_defs]:
  "volumesApi_move teamId volumeId target_server_id = api_post (''/teams/'' @ teamId @ ''/volumes/'' @ volumeId @ ''/move'') (JObj [(''target_server_id'', JStr target_server_id)])"

definition volumesApi_resize :: "string \<Rightarrow> string \<Rightarrow> jsnum \<Rightarrow> endpoint" where [endpoint_defs]:
  "volumesApi_resize teamId volumeId new_size_gb =
     api_post (''/teams/'' @ teamId @ ''/volumes/'' @ volumeId @ ''/resize'') (JObj [(''new_size_gb'', JNum new_size_gb)])"

definition volumesApi_snapshot :: "string \<Rightarrow> string \<Rightarrow> endpoint" where [endpoint_defs]:
  "volumesApi_snapshot teamId volumeId = api_post (''/teams/'' @ teamId @ ''/volumes/'' @ volumeId @ ''/snapshot'') (JUndefined)"

definition volumesApi_listSnapshots :: "string \<Rightarrow> string \<Rightarrow> endpoint" where [endpoint_defs]:
  "volumesApi_listSnapshots teamId volumeId = api_get (''/teams/'' @ teamId @ ''/volumes/'' @ volumeId @ ''/snapshots'')"

section \<open>\<open>dbToolingApi\<close>\<close>

definition dbToolingApi_listSchemas :: "string \<Rightarrow> endpoint" where [endpoint_defs]:
  "dbToolingApi_listSchemas dbId = api_get (''/databases/'' @ dbId @ ''/schemas'')"

definition dbToolingApi_listTables :: "string \<Rightarrow> string \<Rightarrow> endpoint" where [endpoint_defs]:
  "dbToolingApi_listTables dbId schema = api_get (''/databases/'' @ dbId @ ''/schemas/'' @ encodeURIComponent schema @ ''/tables'')"

definition dbToolingApi_getTableRows :: "string \<Rightarrow> string \<Rightarrow> string \<Rightarrow> RowsQuery \<Rightarrow> endpoint" where [endpoint_defs]:
  "dbToolingApi_getTableRows dbId schema table q = api_get (''/databases/'' @ dbId @ ''/schemas/'' @
     encodeURIComponent schema @ ''/tables/'' @ encodeURIComponent table @ ''/rows'' @ query_suffix (
       set_truthy ''order'' (RowsQuery_order q)
         (set_truthy ''sort'' (RowsQuery_sort q)
           (set_num ''limit'' (RowsQuery_limit q)
             (set_num ''page'' (RowsQuery_page q) [])))))"

definition dbToolingApi_runQuery :: "string \<Rightarrow> RunQueryInput \<Rightarrow> endpoint" where [endpoint_defs]:
  "dbToolingApi_runQuery dbId input = api_post (''/databases/'' @ dbId @ ''/query'') (RunQueryInput_js input)"

definition dbToolingApi_listQueryHistory :: "string \<Rightarrow> int option \<Rightarrow> endpoint" where [endpoint_defs]:
  "dbToolingApi_listQueryHistory dbId limit =
     api_get (''/databases/'' @ dbId @ ''/query-history?limit='' @ show_int (or_default limit 50))"

section \<open>\<open>observabilityApi\<close>\<close>

definition observabilityApi_listChannels :: "string \<Rightarrow> endpoint" where [endpoint_defs]:
  "observabilityApi_listChannels teamId = api_get (''/teams/'' @ teamId @ ''/observability/channels'')"

definition observabilityApi_createChannel :: "string \<Rightarrow> CreateChannelInput \<Rightarrow> endpoint" where [endpoint_defs]:
  "observabilityApi_createChannel teamId input = api_post (''/teams/'' @ teamId @ ''/observability/channels'') (CreateChannelInput_js input)"

definition observabilityApi_listAlerts :: "string \<Rightarrow> AlertsScopeQuery \<Rightarrow> endpoint" where [endpoint_defs]:
  "observabilityApi_listAlerts teamId scope = api_get (''/teams/'' @ teamId @ ''/observability/alerts'' @ query_suffix (
     set_truthy ''scope_id'' (AlertsScopeQuery_scope_id scope)
       (set_truthy ''scope_type'' (AlertsScopeQuery_scope_type scope) [])))"

definition observabilityApi_createAlert :: "string \<Rightarrow> AlertRuleInput \<Rightarrow> endpoint" where [endpoint_defs]:
  "observabilityApi_createAlert teamId input = api_post (''/teams/'' @ teamId @ ''/observability/alerts'') (AlertRuleInput_js input)"

definition observabilityApi_updateAlert :: "string \<Rightarrow> string \<Rightarrow> AlertRuleInput \<Rightarrow> endpoint" where [endpoint_defs]:
  "observabilityApi_updateAlert teamId alertId input = api_put (''/teams/'' @ teamId @ ''/observability/alerts/'' @ alertId) (AlertRuleInput_js input)"

definition observabilityApi_deleteAlert :: "string \<Rightarrow> string \<Rightarrow> endpoint" where [endpoint_defs]:
  "observabilityApi_deleteAlert teamId alertId = api_delete (''/teams/'' @ teamId @ ''/observability/alerts/'' @ alertId)"

definition observabilityApi_evaluateAlerts :: "string \<Rightarrow> endpoint" where [endpoint_defs]:
  "observabilityApi_evaluateAlerts teamId = api_post (''/teams/'' @ teamId @ ''/observability/alerts/evaluate'') (JUndefined)"

definition observabilityApi_listEvents :: "string \<Rightarrow> int option \<Rightarrow> string option \<Rightarrow> string option \<Rightarrow> endpoint" where [endpoint_defs]:
  "observabilityApi_listEvents teamId limit scope_type scope_id =
     api_get (''/teams/'' @ teamId @ ''/observability/events'' @ query_suffix (
       set_truthy ''scope_id'' scope_id (set_truthy ''scope_type'' scope_type (set_num ''limit'' limit []))))"

definition observabilityApi_latestMetrics :: "string \<Rightarrow> string \<Rightarrow> string \<Rightarrow> endpoint" where [endpoint_defs]:
  "observabilityApi_latestMetrics teamId scope_type scope_id =
     api_get (''/teams/'' @ teamId @ ''/observability/metrics?'' @
       params_toString [(''scope_type'', scope_type), (''scope_id'', scope_id)])"

definition observabilityApi_metricRange ::
    "string \<Rightarrow> string \<Rightarrow> string \<Rightarrow> string \<Rightarrow> MetricRange option \<Rightarrow> int option \<Rightarrow> endpoint" where [endpoint_defs]:
  "observabilityApi_metricRange teamId scope_type scope_id metric rng limit =
     api_get (''/teams/'' @ teamId @ ''/observability/metrics?'' @ params_toString (
       set_num ''limit'' limit
         [(''scope_type'', scope_type), (''scope_id'', scope_id), (''metric'', metric),
          (''range'', range_str (or_default rng R_1h))]))"

section \<open>Facts\<close>

lemma params_get_set: "obj_get (params_set k v ps) k' = (if k' = k then Some v else obj_get ps k')"
  by (simp add: params_set_def obj_get_set)

lemma get_set_truthy [simp]:
  "obj_get (set_truthy k v ps) k' = (if k' = k \<and> v \<noteq> None \<and> v \<noteq> Some [] then v else obj_get ps k')"
  by (cases v) (simp_all add: set_truthy_def params_get_set)

lemma get_set_num_truthy [simp]:
  "obj_get (set_num_truthy k v ps) k' =
     (if k' = k \<and> v \<noteq> None \<and> v \<noteq> Some 0 then map_option show_int v else obj_get ps k')"
  by (cases v) (simp_all add: set_num_truthy_def params_get_set)

lemma get_set_num [simp]:
  "obj_get (set_num k v ps) k' = (if k' = k \<and> v \<noteq> None then map_option show_int v else obj_get ps k')"
  by (cases v) (simp_all add: set_num_def params_get_set)

definition nonblank :: "string option \<Rightarrow> string option" where
  "nonblank v = (if v = Some [] then None else v)"

text \<open>
  The filters of the audit log reach the API as they were set, whatever characters they contain: the
  query string of the request decodes to parameters in which each text filter that is set and not empty
  has its exact value, one that is not is absent, and the page size is the decimal number.
\<close>

lemma audit_query_roundtrip:
  "\<exists>qs ps. ep_path (auditApi_list t f) = ''/teams/'' @ t @ ''/audit-logs'' @ qs \<and>
     (qs = [] \<and> ps = [] \<or> (\<exists>q. qs = CHR ''?'' # q \<and> parse_query q = Some ps)) \<and>
     obj_get ps ''action'' = nonblank (AuditFilters_action f) \<and>
     obj_get ps ''resource_type'' = nonblank (AuditFilters_resource_type f) \<and>
     obj_get ps ''actor_id'' = nonblank (AuditFilters_actor_id f) \<and>
     obj_get ps ''before'' = nonblank (AuditFilters_before f) \<and>
     obj_get ps ''page_size'' = (if AuditFilters_page_size f = Some 0 then None else map_option show_int (AuditFilters_page_size f))"
proof -
  define ps where "ps = set_num_truthy ''page_size'' (AuditFilters_page_size f)
       (set_truthy ''before'' (AuditFilters_before f)
         (set_truthy ''actor_id'' (AuditFilters_actor_id f)
           (set_truthy ''resource_type'' (AuditFilters_resource_type f)
             (set_truthy ''action'' (AuditFilters_action f) []))))"
  have p: "ep_path (auditApi_list t f) = ''/teams/'' @ t @ ''/audit-logs'' @ query_suffix ps"
    by (simp add: auditApi_list_def api_get_def ps_def)
  have n: "params_toString ps = [] \<Longrightarrow> ps = []"
    using parse_query_toString [of ps] by (simp add: parse_query_def)
  have "query_suffix ps = [] \<and> ps = [] \<or> (\<exists>q. query_suffix ps = CHR ''?'' # q \<and> parse_query q = Some ps)"
    using n parse_query_toString [of ps] by (auto simp: query_suffix_def)
  moreover have "obj_get ps ''action'' = nonblank (AuditFilters_action f)"
    "obj_get ps ''resource_type'' = nonblank (AuditFilters_resource_type f)"
    "obj_get ps ''actor_id'' = nonblank (AuditFilters_actor_id f)"
    "obj_get ps ''before'' = nonblank (AuditFilters_before f)"
    "obj_get ps ''page_size'' = (if AuditFilters_page_size f = Some 0 then None else map_option show_int (AuditFilters_page_size f))"
    by (simp_all add: ps_def nonblank_def obj_get_def [of "[]"])
  ultimately show ?thesis using p by blast
qed

text \<open>
  Removing a custom domain re-sends the app's settings with the domain nulled, each with the value the
  app has or the documented default; but the update replaces every setting, and the sub-domain and the
  health-check interval and timeout are not among those sent.
\<close>

lemma removeDomain_fields:
  "\<exists>fs. ep_body (appsApi_removeDomain app) = JObj fs \<and>
     obj_get fs ''custom_domain'' = Some JNull \<and>
     obj_get fs ''name'' = Some (JStr (App_name app)) \<and>
     obj_get fs ''port'' = Some (jint (or_default (App_port app) 0)) \<and>
     obj_get fs ''replicas'' = Some (jint (or_default (App_replicas app) 1)) \<and>
     obj_get fs ''branch'' = Some (jstr_null (App_branch app)) \<and>
     obj_get fs ''pinned_server_ids'' = Some (jstrs (or_default (App_pinned_server_ids app) [])) \<and>
     map (obj_get fs) [''subdomain'', ''health_check_interval'', ''health_check_timeout''] = [None, None, None]"
  by (simp add: appsApi_removeDomain_def api_put_def obj_get_def)

end
