(* ===== verification/Router.thy ===== *)
theory Router
  imports Api_Surface
begin

text \<open>
  The HTTP routing of the API as \<open>NewRouter\<close> (\<open>internal/api/router.go\<close>) builds it: the public
  routes, the protected routes, and the prefixes under which the protected mux is mounted
  behind the auth middleware. All patterns begin with \<open>/api/v1\<close>, which is left out of the tables.
  A pattern is a list of segments, \<open>L s\<close> a literal and \<open>W\<close> a wildcard \<open>{name}\<close>, which matches
  one non-empty segment (\<open>net/http.ServeMux\<close>). The request the console makes is taken through
  the browser's URL parser first: query and fragment are cut, dot segments resolved.
\<close>

datatype seg = L string | W

type_synonym route = "string \<times> seg list \<times> string"

definition seg_matches :: "seg \<Rightarrow> string \<Rightarrow> bool" where
  "seg_matches p s = (case p of L l \<Rightarrow> s = l | W \<Rightarrow> s \<noteq> [])"

fun pattern_matches :: "seg list \<Rightarrow> string list \<Rightarrow> bool" where
  "pattern_matches [] [] = True"
| "pattern_matches (p # ps) (s # ss) = (seg_matches p s \<and> pattern_matches ps ss)"
| "pattern_matches _ _ = False"

definition route_matches :: "string \<Rightarrow> string list \<Rightarrow> route \<Rightarrow> bool" where
  "route_matches m segs r = (fst r = m \<and> pattern_matches (fst (snd r)) segs)"

definition public_routes :: "route list" where
  "public_routes = [
    (''POST'', [L ''auth'', L ''signup''], ''authH.Signup''),
    (''POST'', [L ''auth'', L ''login''], ''authH.Login''),
    (''POST'', [L ''auth'', L ''verify-email''], ''authH.VerifyEmail''),
    (''POST'', [L ''auth'', L ''resend-verification''], ''authH.ResendVerification''),
    (''POST'', [L ''auth'', L ''forgot-password''], ''authH.ForgotPassword''),
    (''POST'', [L ''auth'', L ''reset-password''], ''authH.ResetPassword''),
    (''POST'', [L ''webhooks'', L ''github'', W], ''webhookH.HandleGitHub''),
    (''POST'', [L ''webhooks'', L ''github'', L ''team'', W], ''webhookH.HandleGitHubTeam'')]"

definition auth_routes :: "route list" where
  "auth_routes = [
    (''POST'', [L ''auth'', L ''logout''], ''authH.Logout''),
    (''GET'', [L ''auth'', L ''me''], ''authH.Me'')]"

definition teams_routes :: "route list" where
  "teams_routes = [
    (''POST'', [L ''teams''], ''teamH.Create''),
    (''GET'', [L ''teams''], ''teamH.List''),
    (''GET'', [L ''teams'', W], ''teamH.Get''),
    (''PUT'', [L ''teams'', W], ''teamH.Update''),
    (''DELETE'', [L ''teams'', W], ''teamH.Delete'')]"

definition team_members_routes :: "route list" where
  "team_members_routes = [
    (''GET'', [L ''teams'', W, L ''members''], ''teamH.ListMembers''),
    (''PUT'', [L ''teams'', W, L ''members'', W], ''teamH.UpdateMember''),
    (''DELETE'', [L ''teams'', W, L ''members'', W], ''teamH.RemoveMember'')]"

definition team_invites_routes :: "route list" where
  "team_invites_routes = [
    (''POST'', [L ''teams'', W, L ''invites''], ''teamH.CreateInvite''),
    (''GET'', [L ''teams'', W, L ''invites''], ''teamH.ListInvites''),
    (''DELETE'', [L ''teams'', W, L ''invites'', W], ''teamH.CancelInvite'')]"

definition accept_invite_routes :: "route list" where
  "accept_invite_routes = [
    (''POST'', [L ''invites'', L ''accept''], ''teamH.AcceptInvite'')]"

definition api_tokens_routes :: "route list" where
  "api_tokens_routes = [
    (''POST'', [L ''teams'', W, L ''tokens''], ''tokenH.Create''),
    (''GET'', [L ''teams'', W, L ''tokens''], ''tokenH.List''),
    (''DELETE'', [L ''teams'', W, L ''tokens'', W], ''tokenH.Revoke'')]"

definition audit_logs_routes :: "route list" where
  "audit_logs_routes = [
    (''GET'', [L ''teams'', W, L ''audit-logs''], ''auditH.List'')]"

definition ssh_keys_routes :: "route list" where
  "ssh_keys_routes = [
    (''POST'', [L ''teams'', W, L ''ssh-keys''], ''sshKeyH.Create''),
    (''GET'', [L ''teams'', W, L ''ssh-keys''], ''sshKeyH.List''),
    (''GET'', [L ''teams'', W, L ''ssh-keys'', W], ''sshKeyH.Get''),
    (''DELETE'', [L ''teams'', W, L ''ssh-keys'', W], ''sshKeyH.Delete'')]"

definition servers_routes :: "route list" where
  "servers_routes = [
    (''POST'', [L ''teams'', W, L ''servers''], ''serverH.Create''),
    (''GET'', [L ''teams'', W, L ''servers''], ''serverH.List''),
    (''GET'', [L ''teams'', W, L ''servers'', W], ''serverH.Get''),
    (''PUT'', [L ''teams'', W, L ''servers'', W], ''serverH.Update''),
    (''PUT'', [L ''teams'', W, L ''servers'', W, L ''role''], ''serverH.SetRole''),
    (''DELETE'', [L ''teams'', W, L ''servers'', W], ''serverH.Delete''),
    (''POST'', [L ''teams'', W, L ''servers'', W, L ''cleanup''], ''serverH.Cleanup''),
    (''GET'', [L ''teams'', W, L ''servers'', W, L ''metrics''], ''serverH.Metrics'')]"

definition server_tags_routes :: "route list" where
  "server_tags_routes = [
    (''GET'', [L ''teams'', W, L ''servers'', W, L ''tags''], ''tagH.List''),
    (''POST'', [L ''teams'', W, L ''servers'', W, L ''tags''], ''tagH.Set''),
    (''DELETE'', [L ''teams'', W, L ''servers'', W, L ''tags'', W], ''tagH.Delete'')]"

definition provisioning_routes :: "route list" where
  "provisioning_routes = [
    (''POST'', [L ''teams'', W, L ''servers'', W, L ''provision''], ''provisionH.Start''),
    (''GET'', [L ''teams'', W, L ''servers'', W, L ''provision''], ''provisionH.Status''),
    (''GET'', [L ''teams'', W, L ''servers'', W, L ''provision'', W, L ''logs''], ''provisionH.StreamLogs''),
    (''POST'', [L ''teams'', W, L ''servers'', W, L ''provision'', L ''retry''], ''provisionH.Retry'')]"

definition terminal_routes :: "route list" where
  "terminal_routes = [
    (''GET'', [L ''teams'', W, L ''servers'', W, L ''terminal''], ''terminalH.Connect'')]"

definition clusters_routes :: "route list" where
  "clusters_routes = [
    (''POST'', [L ''teams'', W, L ''clusters''], ''clusterH.Create''),
    (''GET'', [L ''teams'', W, L ''clusters''], ''clusterH.List''),
    (''GET'', [L ''teams'', W, L ''clusters'', W], ''clusterH.Get''),
    (''PUT'', [L ''teams'', W, L ''clusters'', W], ''clusterH.Update''),
    (''DELETE'', [L ''teams'', W, L ''clusters'', W], ''clusterH.Delete'')]"

definition cluster_members_routes :: "route list" where
  "cluster_members_routes = [
    (''GET'', [L ''teams'', W, L ''clusters'', W, L ''members''], ''clusterH.ListMembers''),
    (''POST'', [L ''teams'', W, L ''clusters'', W, L ''members''], ''clusterH.AddMember''),
    (''DELETE'', [L ''teams'', W, L ''clusters'', W, L ''members'', W], ''clusterH.RemoveMember'')]"

definition mesh_health_events_routes :: "route list" where
  "mesh_health_events_routes = [
    (''GET'', [L ''teams'', W, L ''clusters'', W, L ''mesh''], ''clusterH.MeshHealth''),
    (''POST'', [L ''teams'', W, L ''clusters'', W, L ''mesh'', L ''regenerate''], ''clusterH.RegenerateMesh''),
    (''GET'', [L ''teams'', W, L ''clusters'', W, L ''mesh'', L ''logs''], ''clusterH.StreamMeshLogs''),
    (''GET'', [L ''teams'', W, L ''clusters'', W, L ''events''], ''clusterH.ListEvents'')]"

definition github_app_routes :: "route list" where
  "github_app_routes = [
    (''POST'', [L ''teams'', W, L ''github'', L ''manifest''], ''githubH.CreateManifest''),
    (''POST'', [L ''teams'', W, L ''github'', L ''callback''], ''githubH.HandleCallback''),
    (''GET'', [L ''teams'', W, L ''github'', L ''app''], ''githubH.GetApp''),
    (''DELETE'', [L ''teams'', W, L ''github'', L ''app''], ''githubH.DeleteApp''),
    (''GET'', [L ''teams'', W, L ''github'', L ''installations''], ''githubH.ListInstallations''),
    (''POST'', [L ''teams'', W, L ''github'', L ''installations'', L ''sync''], ''githubH.SyncInstallations''),
    (''GET'', [L ''teams'', W, L ''github'', L ''installations'', W, L ''repos''], ''githubH.ListRepos'')]"

definition docker_hub_routes :: "route list" where
  "docker_hub_routes = [
    (''GET'', [L ''docker-hub'', L ''search''], ''dockerHubH.SearchImages''),
    (''GET'', [L ''docker-hub'', L ''tags''], ''dockerHubH.ListTags'')]"

definition container_registries_routes :: "route list" where
  "container_registries_routes = [
    (''POST'', [L ''teams'', W, L ''registries''], ''registryH.Create''),
    (''GET'', [L ''teams'', W, L ''registries''], ''registryH.List''),
    (''GET'', [L ''teams'', W, L ''registries'', W], ''registryH.Get''),
    (''PUT'', [L ''teams'', W, L ''registries'', W], ''registryH.Update''),
    (''DELETE'', [L ''teams'', W, L ''registries'', W], ''registryH.Delete''),
    (''POST'', [L ''teams'', W, L ''registries'', W, L ''validate''], ''registryH.Revalidate'')]"

definition secrets_routes :: "route list" where
  "secrets_routes = [
    (''POST'', [L ''teams'', W, L ''secrets''], ''secretH.Create''),
    (''GET'', [L ''teams'', W, L ''secrets''], ''secretH.List''),
    (''GET'', [L ''teams'', W, L ''secrets'', W], ''secretH.Get''),
    (''POST'', [L ''teams'', W, L ''secrets'', W, L ''reveal''], ''secretH.Reveal''),
    (''PUT'', [L ''teams'', W, L ''secrets'', W], ''secretH.Update''),
    (''DELETE'', [L ''teams'', W, L ''secrets'', W], ''secretH.Delete'')]"

definition projects_routes :: "route list" where
  "projects_routes = [
    (''POST'', [L ''teams'', W, L ''projects''], ''projectH.Create''),
    (''GET'', [L ''teams'', W, L ''projects''], ''projectH.List''),
    (''GET'', [L ''teams'', W, L ''projects'', W], ''projectH.Get''),
    (''PUT'', [L ''teams'', W, L ''projects'', W], ''projectH.Update''),
    (''DELETE'', [L ''teams'', W, L ''projects'', W], ''projectH.Delete'')]"

definition environments_routes :: "route list" where
  "environments_routes = [
    (''POST'', [L ''projects'', W, L ''environments''], ''projectH.CreateEnvironment''),
    (''GET'', [L ''projects'', W, L ''environments''], ''projectH.ListEnvironments'')]"

definition apps_routes :: "route list" where
  "apps_routes = [
    (''POST'', [L ''projects'', W, L ''apps''], ''appH.Create''),
    (''GET'', [L ''projects'', W, L ''apps''], ''appH.List''),
    (''GET'', [L ''projects'', W, L ''apps'', W], ''appH.Get''),
    (''PUT'', [L ''projects'', W, L ''apps'', W], ''appH.Update''),
    (''DELETE'', [L ''projects'', W, L ''apps'', W], ''appH.Delete'')]"

definition app_level_environment_routes :: "route list" where
  "app_level_environment_routes = [
    (''GET'', [L ''apps'', W, L ''env-vars''], ''appEnvVarH.List''),
    (''POST'', [L ''apps'', W, L ''env-vars''], ''appEnvVarH.Create''),
    (''POST'', [L ''apps'', W, L ''env-vars'', W, L ''reveal''], ''appEnvVarH.Reveal''),
    (''PUT'', [L ''apps'', W, L ''env-vars'', W], ''appEnvVarH.Update''),
    (''DELETE'', [L ''apps'', W, L ''env-vars'', W], ''appEnvVarH.Delete'')]"

definition app_routes :: "route list" where
  "app_routes = [
    (''GET'', [L ''apps'', W], ''appH.GetDirect''),
    (''POST'', [L ''apps'', W, L ''domain''], ''appH.SetDomain''),
    (''POST'', [L ''apps'', W, L ''domain'', L ''verify''], ''appH.VerifyDomain'')]"

definition builds_routes :: "route list" where
  "builds_routes = [
    (''POST'', [L ''apps'', W, L ''builds''], ''buildH.TriggerBuild''),
    (''GET'', [L ''apps'', W, L ''builds''], ''buildH.List''),
    (''GET'', [L ''apps'', W, L ''builds'', W], ''buildH.Get''),
    (''GET'', [L ''apps'', W, L ''builds'', W, L ''logs''], ''buildH.StreamLogs'')]"

definition deployments_routes :: "route list" where
  "deployments_routes = [
    (''POST'', [L ''apps'', W, L ''deployments''], ''deployH.TriggerDeploy''),
    (''GET'', [L ''apps'', W, L ''deployments''], ''deployH.List''),
    (''GET'', [L ''apps'', W, L ''deployments'', W], ''deployH.Get''),
    (''GET'', [L ''apps'', W, L ''deployments'', W, L ''logs''], ''deployH.StreamLogs''),
    (''GET'', [L ''apps'', W, L ''deployments'', W, L ''targets''], ''deployH.ListTargets''),
    (''POST'', [L ''apps'', W, L ''rollback''], ''deployH.Rollback''),
    (''POST'', [L ''apps'', W, L ''scale''], ''deployH.ScaleApp''),
    (''GET'', [L ''apps'', W, L ''scaling-events''], ''deployH.ListScalingEvents''),
    (''POST'', [L ''apps'', W, L ''autoscaling-rules''], ''deployH.CreateAutoscalingRule''),
    (''GET'', [L ''apps'', W, L ''autoscaling-rules''], ''deployH.ListAutoscalingRules''),
    (''DELETE'', [L ''apps'', W, L ''autoscaling-rules'', W], ''deployH.DeleteAutoscalingRule''),
    (''POST'', [L ''apps'', W, L ''autoscaling'', L ''evaluate''], ''deployH.EvaluateAutoscaling''),
    (''GET'', [L ''apps'', W, L ''traffic''], ''deployH.GetTraffic''),
    (''PUT'', [L ''apps'', W, L ''traffic''], ''deployH.UpdateTraffic''),
    (''POST'', [L ''apps'', W, L ''traffic'', L ''backends'', W, L ''promote''], ''deployH.PromoteTrafficBackend''),
    (''GET'', [L ''apps'', W, L ''logs''], ''deployH.ContainerLogs''),
    (''POST'', [L ''apps'', W, L ''cleanup''], ''deployH.CleanupDeployments'')]"

definition container_lifecycle_inspect_routes :: "route list" where
  "container_lifecycle_inspect_routes = [
    (''GET'', [L ''apps'', W, L ''replicas''], ''deployH.ListReplicas''),
    (''POST'', [L ''apps'', W, L ''containers'', W, L ''restart''], ''deployH.RestartContainer''),
    (''POST'', [L ''apps'', W, L ''containers'', W, L ''stop''], ''deployH.StopContainer''),
    (''GET'', [L ''apps'', W, L ''containers'', W, L ''inspect''], ''deployH.InspectContainer'')]"

definition historical_logs_search_routes :: "route list" where
  "historical_logs_search_routes = [
    (''GET'', [L ''apps'', W, L ''logs'', L ''search''], ''deployH.SearchLogs''),
    (''GET'', [L ''apps'', W, L ''logs'', L ''history''], ''deployH.HistoricalLogs'')]"

definition resource_limits_routes :: "route list" where
  "resource_limits_routes = [
    (''PUT'', [L ''apps'', W, L ''resources''], ''appH.UpdateResources'')]"

definition registry_credential_routes :: "route list" where
  "registry_credential_routes = [
    (''PUT'', [L ''apps'', W, L ''registry-credential''], ''appH.SetRegistryCredential'')]"

definition container_terminal_routes :: "route list" where
  "container_terminal_routes = [
    (''GET'', [L ''apps'', W, L ''terminal''], ''containerTermH.Connect'')]"

definition server_logs_routes :: "route list" where
  "server_logs_routes = [
    (''GET'', [L ''teams'', W, L ''servers'', W, L ''logs''], ''deployH.ServerLogs'')]"

definition observability_routes :: "route list" where
  "observability_routes = [
    (''GET'', [L ''teams'', W, L ''observability'', L ''metrics''], ''observabilityH.Metrics''),
    (''GET'', [L ''teams'', W, L ''observability'', L ''alerts''], ''observabilityH.ListAlerts''),
    (''POST'', [L ''teams'', W, L ''observability'', L ''alerts''], ''observabilityH.CreateAlert''),
    (''PUT'', [L ''teams'', W, L ''observability'', L ''alerts'', W], ''observabilityH.UpdateAlert''),
    (''DELETE'', [L ''teams'', W, L ''observability'', L ''alerts'', W], ''observabilityH.DeleteAlert''),
    (''POST'', [L ''teams'', W, L ''observability'', L ''alerts'', L ''evaluate''], ''observabilityH.EvaluateAlerts''),
    (''GET'', [L ''teams'', W, L ''observability'', L ''events''], ''observabilityH.Events''),
    (''GET'', [L ''teams'', W, L ''observability'', L ''channels''], ''observabilityH.ListChannels''),
    (''POST'', [L ''teams'', W, L ''observability'', L ''channels''], ''observabilityH.CreateChannel''),
    (''POST'', [L ''teams'', W, L ''observability'', L ''silences''], ''observabilityH.CreateSilence''),
    (''GET'', [L ''teams'', W, L ''clusters'', W, L ''observability'', L ''scrape-config''], ''observabilityH.ClusterScrapeConfig''),
    (''POST'', [L ''teams'', W, L ''clusters'', W, L ''observability'', L ''scrape-config'', L ''sync''], ''observabilityH.SyncClusterScrapeConfig'')]"

definition service_templates_routes :: "route list" where
  "service_templates_routes = [
    (''GET'', [L ''templates''], ''templateH.List''),
    (''GET'', [L ''templates'', W], ''templateH.Get''),
    (''GET'', [L ''templates'', W, L ''versions''], ''templateH.ListVersions'')]"

definition volumes_routes :: "route list" where
  "volumes_routes = [
    (''POST'', [L ''teams'', W, L ''volumes''], ''volumeH.Create''),
    (''GET'', [L ''teams'', W, L ''volumes''], ''volumeH.List''),
    (''GET'', [L ''teams'', W, L ''volumes'', W], ''volumeH.Get''),
    (''DELETE'', [L ''teams'', W, L ''volumes'', W], ''volumeH.Delete''),
    (''POST'', [L ''teams'', W, L ''volumes'', W, L ''attach''], ''volumeH.Attach''),
    (''POST'', [L ''teams'', W, L ''volumes'', W, L ''detach''], ''volumeH.Detach''),
    (''POST'', [L ''teams'', W, L ''volumes'', W, L ''move''], ''volumeH.Move''),
    (''POST'', [L ''teams'', W, L ''volumes'', W, L ''snapshot''], ''volumeH.Snapshot''),
    (''POST'', [L ''teams'', W, L ''volumes'', W, L ''resize''], ''volumeH.Resize''),
    (''GET'', [L ''teams'', W, L ''volumes'', W, L ''snapshots''], ''volumeH.ListSnapshots'')]"

definition databases_routes :: "route list" where
  "databases_routes = [
    (''POST'', [L ''projects'', W, L ''databases''], ''databaseH.Provision''),
    (''GET'', [L ''projects'', W, L ''databases''], ''databaseH.List''),
    (''GET'', [L ''projects'', W, L ''databases'', W], ''databaseH.Get''),
    (''GET'', [L ''projects'', W, L ''databases'', W, L ''provision-stream''], ''databaseH.StreamProvisionLogs''),
    (''DELETE'', [L ''projects'', W, L ''databases'', W], ''databaseH.Delete''),
    (''POST'', [L ''projects'', W, L ''databases'', W, L ''stop''], ''databaseH.Stop''),
    (''POST'', [L ''projects'', W, L ''databases'', W, L ''start''], ''databaseH.Start''),
    (''POST'', [L ''projects'', W, L ''databases'', W, L ''rebind-volume''], ''databaseH.RebindVolume''),
    (''POST'', [L ''projects'', W, L ''databases'', W, L ''links''], ''databaseH.LinkDatabase''),
    (''GET'', [L ''projects'', W, L ''databases'', W, L ''links''], ''databaseH.ListLinks''),
    (''DELETE'', [L ''projects'', W, L ''databases'', W, L ''links'', W], ''databaseH.UnlinkDatabase''),
    (''POST'', [L ''projects'', W, L ''databases'', W, L ''rotate''], ''databaseH.RotateCredentials''),
    (''GET'', [L ''projects'', W, L ''databases'', W, L ''rotations''], ''databaseH.ListRotations'')]"

definition database_backups_restore_routes :: "route list" where
  "database_backups_restore_routes = [
    (''POST'', [L ''projects'', W, L ''databases'', W, L ''backups''], ''databaseH.CreateBackup''),
    (''GET'', [L ''projects'', W, L ''databases'', W, L ''backups''], ''databaseH.ListBackups''),
    (''GET'', [L ''projects'', W, L ''databases'', W, L ''backups'', W], ''databaseH.GetBackup''),
    (''DELETE'', [L ''projects'', W, L ''databases'', W, L ''backups'', W], ''databaseH.DeleteBackup''),
    (''POST'', [L ''projects'', W, L ''databases'', W, L ''restore''], ''databaseH.Restore'')]"

definition database_tooling_routes :: "route list" where
  "database_tooling_routes = [
    (''GET'', [L ''databases'', W], ''databaseH.GetByID''),
    (''GET'', [L ''databases'', W, L ''terminal''], ''dbToolingH.Terminal''),
    (''GET'', [L ''databases'', W, L ''schemas''], ''dbToolingH.ListSchemas''),
    (''GET'', [L ''databases'', W, L ''schemas'', W, L ''tables''], ''dbToolingH.ListTables''),
    (''GET'', [L ''databases'', W, L ''schemas'', W, L ''tables'', W, L ''rows''], ''dbToolingH.GetTableRows''),
    (''POST'', [L ''databases'', W, L ''query''], ''dbToolingH.RunQuery''),
    (''GET'', [L ''databases'', W, L ''query-history''], ''dbToolingH.ListQueryHistory''),
    (''GET'', [L ''databases'', W, L ''redis'', L ''keys''], ''dbToolingH.RedisListKeys''),
    (''GET'', [L ''databases'', W, L ''redis'', L ''key''], ''dbToolingH.RedisGetKey''),
    (''GET'', [L ''databases'', W, L ''redis'', L ''info''], ''dbToolingH.RedisInfo''),
    (''GET'', [L ''databases'', W, L ''redis'', L ''config''], ''dbToolingH.RedisConfig''),
    (''GET'', [L ''databases'', W, L ''mongo'', L ''collections''], ''dbToolingH.MongoListCollections''),
    (''GET'', [L ''databases'', W, L ''mongo'', L ''collections'', W, L ''find''], ''dbToolingH.MongoFind''),
    (''GET'', [L ''databases'', W, L ''mongo'', L ''collections'', W, L ''doc''], ''dbToolingH.MongoGetDocument''),
    (''POST'', [L ''projects'', W, L ''saved-queries''], ''dbToolingH.SaveQuery''),
    (''GET'', [L ''projects'', W, L ''saved-queries''], ''dbToolingH.ListSavedQueriesByProject'')]"

definition discovery_routes :: "route list" where
  "discovery_routes = [
    (''POST'', [L ''discover''], ''discoverH.Discover'')]"

definition platform_admin_routes :: "route list" where
  "platform_admin_routes = [
    (''GET'', [L ''admin'', L ''platform'', L ''storage'', L ''status''], ''platformStorageH.Status'')]"

definition protected_routes :: "route list" where
  "protected_routes = concat [
    auth_routes,
    teams_routes,
    team_members_routes,
    team_invites_routes,
    accept_invite_routes,
    api_tokens_routes,
    audit_logs_routes,
    ssh_keys_routes,
    servers_routes,
    server_tags_routes,
    provisioning_routes,
    terminal_routes,
    clusters_routes,
    cluster_members_routes,
    mesh_health_events_routes,
    github_app_routes,
    docker_hub_routes,
    container_registries_routes,
    secrets_routes,
    projects_routes,
    environments_routes,
    apps_routes,
    app_level_environment_routes,
    app_routes,
    builds_routes,
    deployments_routes,
    container_lifecycle_inspect_routes,
    historical_logs_search_routes,
    resource_limits_routes,
    registry_credential_routes,
    container_terminal_routes,
    server_logs_routes,
    observability_routes,
    service_templates_routes,
    volumes_routes,
    databases_routes,
    database_backups_restore_routes,
    database_tooling_routes,
    discovery_routes,
    platform_admin_routes]"

text \<open>
  The mounts: a path ending in a slash matches every path below it (\<open>True\<close>), any other only
  itself.
\<close>

definition mounts :: "(string list \<times> bool) list" where
  "mounts = [
    ([''auth'', ''logout''], False),
    ([''auth'', ''me''], False),
    ([''teams''], False),
    ([''teams''], True),
    ([''invites''], True),
    ([''projects''], True),
    ([''apps''], True),
    ([''discover''], False),
    ([''templates''], False),
    ([''templates''], True),
    ([''admin''], True),
    ([''databases''], True)]"

definition mount_matches :: "string list \<Rightarrow> string list \<times> bool \<Rightarrow> bool" where
  "mount_matches segs m =
     (if snd m then length (fst m) < length segs \<and> take (length (fst m)) segs = fst m
      else segs = fst m)"

text \<open>The handlers a request can reach: a public one, or a protected one under a mounted prefix.\<close>

definition reached :: "string \<Rightarrow> string list \<Rightarrow> string list" where
  "reached m segs =
     map (snd \<circ> snd) (filter (route_matches m segs) public_routes) @
     (if list_ex (mount_matches segs) mounts
      then map (snd \<circ> snd) (filter (route_matches m segs) protected_routes) else [])"

section \<open>The URL of a request\<close>

definition url_path :: "string \<Rightarrow> string" where
  "url_path u = takeWhile (\<lambda>c. c \<noteq> CHR ''?'' \<and> c \<noteq> CHR ''#'') u"

definition single_dot :: "string \<Rightarrow> bool" where
  "single_dot s = (toLowerCase s \<in> {''.'', ''%2e''})"

definition double_dot :: "string \<Rightarrow> bool" where
  "double_dot s = (toLowerCase s \<in> {''..'', ''.%2e'', ''%2e.'', ''%2e%2e''})"

fun resolve :: "string list \<Rightarrow> string list \<Rightarrow> string list" where
  "resolve acc [] = rev acc"
| "resolve acc (s # ss) =
     (if double_dot s then (if ss = [] then rev ([] # tl acc) else resolve (tl acc) ss)
      else if single_dot s then (if ss = [] then rev ([] # acc) else resolve acc ss)
      else resolve (s # acc) ss)"

definition url_segments :: "string \<Rightarrow> string list" where
  "url_segments u = resolve [] (tl (split_on (CHR ''/'') (url_path u)))"

definition handlers :: "endpoint \<Rightarrow> string list" where
  "handlers ep =
     (let segs = url_segments (fa_url (call_args ep)) in
      if take 2 segs = [''api'', ''v1''] then reached (fa_method (call_args ep)) (drop 2 segs) else [])"

text \<open>An identifier that stays one path segment, and a name that does once percent-encoded.\<close>

definition plain_seg :: "string \<Rightarrow> bool" where
  "plain_seg s = (s \<noteq> [] \<and> CHR ''/'' \<notin> set s \<and> CHR ''?'' \<notin> set s \<and> CHR ''#'' \<notin> set s \<and>
     \<not> single_dot s \<and> \<not> double_dot s)"

definition plain_name :: "string \<Rightarrow> bool" where
  "plain_name s = (s \<noteq> [] \<and> s \<noteq> ''.'' \<and> s \<noteq> ''..'')"

text \<open>
  The requests the typed surface can issue on well-formed identifiers, Docker Hub's two
  lookups apart, each with the API handler it is meant for.
\<close>

inductive console_call :: "endpoint \<Rightarrow> string \<Rightarrow> bool" where
  "console_call (authApi_me) ''authH.Me''"
| "console_call (authApi_login email password) ''authH.Login''"
| "console_call (authApi_signup name email password) ''authH.Signup''"
| "console_call (authApi_logout) ''authH.Logout''"
| "console_call (authApi_forgotPassword email) ''authH.ForgotPassword''"
| "console_call (authApi_resetPassword token password) ''authH.ResetPassword''"
| "console_call (authApi_verifyEmail token) ''authH.VerifyEmail''"
| "console_call (authApi_resendVerification email) ''authH.ResendVerification''"
| "console_call (teamsApi_list) ''teamH.List''"
| "plain_seg ident \<Longrightarrow> console_call (teamsApi_get ident) ''teamH.Get''"
| "console_call (teamsApi_create name) ''teamH.Create''"
| "plain_seg ident \<Longrightarrow> console_call (teamsApi_update ident name) ''teamH.Update''"
| "plain_seg ident \<Longrightarrow> console_call (teamsApi_remove ident) ''teamH.Delete''"
| "plain_seg teamId \<Longrightarrow> console_call (membersApi_list teamId) ''teamH.ListMembers''"
| "plain_seg teamId \<Longrightarrow> plain_seg userId \<Longrightarrow> console_call (membersApi_updateRole teamId userId role) ''teamH.UpdateMember''"
| "plain_seg teamId \<Longrightarrow> plain_seg userId \<Longrightarrow> console_call (membersApi_remove teamId userId) ''teamH.RemoveMember''"
| "plain_seg teamId \<Longrightarrow> console_call (invitesApi_list teamId) ''teamH.ListInvites''"
| "plain_seg teamId \<Longrightarrow> console_call (invitesApi_create teamId email role) ''teamH.CreateInvite''"
| "plain_seg teamId \<Longrightarrow> plain_seg inviteId \<Longrightarrow> console_call (invitesApi_cancel teamId inviteId) ''teamH.CancelInvite''"
| "plain_seg teamId \<Longrightarrow> console_call (tokensApi_list teamId) ''tokenH.List''"
| "plain_seg teamId \<Longrightarrow> console_call (tokensApi_create teamId input) ''tokenH.Create''"
| "plain_seg teamId \<Longrightarrow> plain_seg tokenId \<Longrightarrow> console_call (tokensApi_revoke teamId tokenId) ''tokenH.Revoke''"
| "plain_seg teamId \<Longrightarrow> console_call (auditApi_list teamId filters) ''auditH.List''"
| "plain_seg teamId \<Longrightarrow> console_call (serversApi_list teamId) ''serverH.List''"
| "plain_seg teamId \<Longrightarrow> plain_seg serverId \<Longrightarrow> console_call (serversApi_get teamId serverId) ''serverH.Get''"
| "plain_seg teamId \<Longrightarrow> console_call (serversApi_create teamId input) ''serverH.Create''"
| "plain_seg teamId \<Longrightarrow> plain_seg serverId \<Longrightarrow> console_call (serversApi_update teamId serverId name hostname public_ip) ''serverH.Update''"
| "plain_seg teamId \<Longrightarrow> plain_seg serverId \<Longrightarrow> console_call (serversApi_setRole teamId serverId role) ''serverH.SetRole''"
| "plain_seg teamId \<Longrightarrow> plain_seg serverId \<Longrightarrow> console_call (serversApi_remove teamId serverId) ''serverH.Delete''"
| "plain_seg teamId \<Longrightarrow> plain_seg serverId \<Longrightarrow> console_call (serversApi_cleanup teamId serverId) ''serverH.Cleanup''"
| "plain_seg teamId \<Longrightarrow> plain_seg serverId \<Longrightarrow> console_call (serversApi_metrics teamId serverId) ''serverH.Metrics''"
| "plain_seg teamId \<Longrightarrow> plain_seg serverId \<Longrightarrow> console_call (serverProvisionApi_status teamId serverId) ''provisionH.Status''"
| "plain_seg teamId \<Longrightarrow> plain_seg serverId \<Longrightarrow> console_call (serverProvisionApi_start teamId serverId components) ''provisionH.Start''"
| "plain_seg teamId \<Longrightarrow> plain_seg serverId \<Longrightarrow> console_call (serverProvisionApi_retry teamId serverId) ''provisionH.Retry''"
| "plain_seg teamId \<Longrightarrow> plain_seg serverId \<Longrightarrow> console_call (tagsApi_list teamId serverId) ''tagH.List''"
| "plain_seg teamId \<Longrightarrow> plain_seg serverId \<Longrightarrow> console_call (tagsApi_set teamId serverId key value) ''tagH.Set''"
| "plain_seg teamId \<Longrightarrow> plain_seg serverId \<Longrightarrow> plain_name key \<Longrightarrow> console_call (tagsApi_remove teamId serverId key) ''tagH.Delete''"
| "plain_seg teamId \<Longrightarrow> console_call (sshKeysApi_list teamId) ''sshKeyH.List''"
| "plain_seg teamId \<Longrightarrow> plain_seg keyId \<Longrightarrow> console_call (sshKeysApi_get teamId keyId) ''sshKeyH.Get''"
| "plain_seg teamId \<Longrightarrow> console_call (sshKeysApi_create teamId input) ''sshKeyH.Create''"
| "plain_seg teamId \<Longrightarrow> plain_seg keyId \<Longrightarrow> console_call (sshKeysApi_remove teamId keyId) ''sshKeyH.Delete''"
| "plain_seg teamId \<Longrightarrow> console_call (clustersApi_list teamId) ''clusterH.List''"
| "plain_seg teamId \<Longrightarrow> plain_seg clusterId \<Longrightarrow> console_call (clustersApi_get teamId clusterId) ''clusterH.Get''"
| "plain_seg teamId \<Longrightarrow> console_call (clustersApi_create teamId input) ''clusterH.Create''"
| "plain_seg teamId \<Longrightarrow> plain_seg clusterId \<Longrightarrow> console_call (clustersApi_update teamId clusterId patch) ''clusterH.Update''"
| "plain_seg teamId \<Longrightarrow> plain_seg clusterId \<Longrightarrow> console_call (clustersApi_remove teamId clusterId) ''clusterH.Delete''"
| "plain_seg teamId \<Longrightarrow> plain_seg clusterId \<Longrightarrow> console_call (clusterMembersApi_list teamId clusterId) ''clusterH.ListMembers''"
| "plain_seg teamId \<Longrightarrow> plain_seg clusterId \<Longrightarrow> console_call (clusterMembersApi_add teamId clusterId serverId) ''clusterH.AddMember''"
| "plain_seg teamId \<Longrightarrow> plain_seg clusterId \<Longrightarrow> plain_seg serverId \<Longrightarrow> console_call (clusterMembersApi_remove teamId clusterId serverId) ''clusterH.RemoveMember''"
| "plain_seg teamId \<Longrightarrow> plain_seg clusterId \<Longrightarrow> console_call (meshApi_health teamId clusterId) ''clusterH.MeshHealth''"
| "plain_seg teamId \<Longrightarrow> plain_seg clusterId \<Longrightarrow> console_call (meshApi_regenerate teamId clusterId) ''clusterH.RegenerateMesh''"
| "plain_seg teamId \<Longrightarrow> console_call (projectsApi_list teamId) ''projectH.List''"
| "plain_seg teamId \<Longrightarrow> plain_seg projectId \<Longrightarrow> console_call (projectsApi_get teamId projectId) ''projectH.Get''"
| "plain_seg teamId \<Longrightarrow> console_call (projectsApi_create teamId input) ''projectH.Create''"
| "plain_seg teamId \<Longrightarrow> plain_seg projectId \<Longrightarrow> console_call (projectsApi_update teamId projectId patch) ''projectH.Update''"
| "plain_seg teamId \<Longrightarrow> plain_seg projectId \<Longrightarrow> console_call (projectsApi_remove teamId projectId) ''projectH.Delete''"
| "plain_seg projectId \<Longrightarrow> console_call (environmentsApi_list projectId) ''projectH.ListEnvironments''"
| "plain_seg projectId \<Longrightarrow> console_call (environmentsApi_create projectId name) ''projectH.CreateEnvironment''"
| "plain_seg teamId \<Longrightarrow> console_call (githubApi_getApp teamId) ''githubH.GetApp''"
| "plain_seg teamId \<Longrightarrow> console_call (githubApi_createManifest teamId) ''githubH.CreateManifest''"
| "plain_seg teamId \<Longrightarrow> console_call (githubApi_callback teamId code) ''githubH.HandleCallback''"
| "plain_seg teamId \<Longrightarrow> console_call (githubApi_deleteApp teamId) ''githubH.DeleteApp''"
| "plain_seg teamId \<Longrightarrow> console_call (githubApi_installations teamId) ''githubH.ListInstallations''"
| "plain_seg teamId \<Longrightarrow> console_call (githubApi_syncInstallations teamId) ''githubH.SyncInstallations''"
| "plain_seg teamId \<Longrightarrow> console_call (githubApi_repos teamId installationId) ''githubH.ListRepos''"
| "plain_seg teamId \<Longrightarrow> console_call (registriesApi_list teamId) ''registryH.List''"
| "plain_seg teamId \<Longrightarrow> console_call (registriesApi_create teamId input) ''registryH.Create''"
| "plain_seg teamId \<Longrightarrow> plain_seg ident \<Longrightarrow> console_call (registriesApi_update teamId ident input) ''registryH.Update''"
| "plain_seg teamId \<Longrightarrow> plain_seg ident \<Longrightarrow> console_call (registriesApi_remove teamId ident) ''registryH.Delete''"
| "plain_seg teamId \<Longrightarrow> plain_seg ident \<Longrightarrow> console_call (registriesApi_validate teamId ident) ''registryH.Revalidate''"
| "plain_seg projectId \<Longrightarrow> console_call (appsApi_list projectId) ''appH.List''"
| "plain_seg appId \<Longrightarrow> console_call (appsApi_get appId) ''appH.GetDirect''"
| "plain_seg projectId \<Longrightarrow> console_call (appsApi_create projectId input) ''appH.Create''"
| "plain_seg projectId \<Longrightarrow> plain_seg appId \<Longrightarrow> console_call (appsApi_update projectId appId patch) ''appH.Update''"
| "plain_seg projectId \<Longrightarrow> plain_seg appId \<Longrightarrow> console_call (appsApi_remove projectId appId) ''appH.Delete''"
| "plain_seg appId \<Longrightarrow> console_call (appsApi_setRegistryCredential appId registry_credential_id) ''appH.SetRegistryCredential''"
| "plain_seg appId \<Longrightarrow> console_call (appsApi_setDomain appId custom_domain) ''appH.SetDomain''"
| "plain_seg appId \<Longrightarrow> console_call (appsApi_verifyDomain appId) ''appH.VerifyDomain''"
| "plain_seg (App_project_id app) \<Longrightarrow> plain_seg (App_id app) \<Longrightarrow> console_call (appsApi_removeDomain app) ''appH.Update''"
| "plain_seg appId \<Longrightarrow> console_call (appsApi_updateResources appId input) ''appH.UpdateResources''"
| "plain_seg appId \<Longrightarrow> console_call (appsApi_rollback appId environment_id) ''deployH.Rollback''"
| "plain_seg appId \<Longrightarrow> console_call (appsApi_listReplicas appId) ''deployH.ListReplicas''"
| "plain_seg appId \<Longrightarrow> console_call (appsApi_scale appId input) ''deployH.ScaleApp''"
| "plain_seg appId \<Longrightarrow> console_call (appsApi_listScalingEvents appId limit offset) ''deployH.ListScalingEvents''"
| "plain_seg appId \<Longrightarrow> console_call (appsApi_getTraffic appId) ''deployH.GetTraffic''"
| "plain_seg appId \<Longrightarrow> console_call (appsApi_updateTraffic appId weights) ''deployH.UpdateTraffic''"
| "plain_seg appId \<Longrightarrow> plain_seg backendId \<Longrightarrow> console_call (appsApi_promoteBackend appId backendId) ''deployH.PromoteTrafficBackend''"
| "plain_seg appId \<Longrightarrow> console_call (appsApi_listAutoscalingRules appId) ''deployH.ListAutoscalingRules''"
| "plain_seg appId \<Longrightarrow> console_call (appsApi_createAutoscalingRule appId input) ''deployH.CreateAutoscalingRule''"
| "plain_seg appId \<Longrightarrow> plain_seg ruleId \<Longrightarrow> console_call (appsApi_deleteAutoscalingRule appId ruleId) ''deployH.DeleteAutoscalingRule''"
| "plain_seg appId \<Longrightarrow> console_call (appsApi_evaluateAutoscaling appId) ''deployH.EvaluateAutoscaling''"
| "plain_seg appId \<Longrightarrow> console_call (buildsApi_list appId) ''buildH.List''"
| "plain_seg appId \<Longrightarrow> plain_seg buildId \<Longrightarrow> console_call (buildsApi_get appId buildId) ''buildH.Get''"
| "plain_seg appId \<Longrightarrow> console_call (buildsApi_trigger appId input) ''buildH.TriggerBuild''"
| "plain_seg appId \<Longrightarrow> console_call (deploymentsApi_list appId) ''deployH.List''"
| "plain_seg appId \<Longrightarrow> plain_seg deployId \<Longrightarrow> console_call (deploymentsApi_get appId deployId) ''deployH.Get''"
| "plain_seg appId \<Longrightarrow> plain_seg deployId \<Longrightarrow> console_call (deploymentsApi_targets appId deployId) ''deployH.ListTargets''"
| "plain_seg teamId \<Longrightarrow> console_call (secretsApi_list teamId environment) ''secretH.List''"
| "plain_seg teamId \<Longrightarrow> plain_seg secretId \<Longrightarrow> console_call (secretsApi_get teamId secretId) ''secretH.Get''"
| "plain_seg teamId \<Longrightarrow> console_call (secretsApi_create teamId input) ''secretH.Create''"
| "plain_seg teamId \<Longrightarrow> plain_seg secretId \<Longrightarrow> console_call (secretsApi_update teamId secretId value) ''secretH.Update''"
| "plain_seg teamId \<Longrightarrow> plain_seg secretId \<Longrightarrow> console_call (secretsApi_reveal teamId secretId) ''secretH.Reveal''"
| "plain_seg teamId \<Longrightarrow> plain_seg secretId \<Longrightarrow> console_call (secretsApi_remove teamId secretId) ''secretH.Delete''"
| "plain_seg appId \<Longrightarrow> console_call (appEnvVarsApi_list appId environment) ''appEnvVarH.List''"
| "plain_seg appId \<Longrightarrow> console_call (appEnvVarsApi_create appId input) ''appEnvVarH.Create''"
| "plain_seg appId \<Longrightarrow> plain_seg varId \<Longrightarrow> console_call (appEnvVarsApi_update appId varId value) ''appEnvVarH.Update''"
| "plain_seg appId \<Longrightarrow> plain_seg varId \<Longrightarrow> console_call (appEnvVarsApi_reveal appId varId) ''appEnvVarH.Reveal''"
| "plain_seg appId \<Longrightarrow> plain_seg varId \<Longrightarrow> console_call (appEnvVarsApi_remove appId varId) ''appEnvVarH.Delete''"
| "console_call (templatesApi_list) ''templateH.List''"
| "plain_seg slug \<Longrightarrow> console_call (templatesApi_get slug) ''templateH.Get''"
| "plain_seg slug \<Longrightarrow> console_call (templatesApi_listVersions slug) ''templateH.ListVersions''"
| "plain_seg projectId \<Longrightarrow> console_call (databasesApi_list projectId) ''databaseH.List''"
| "plain_seg projectId \<Longrightarrow> plain_seg dbId \<Longrightarrow> console_call (databasesApi_get projectId dbId) ''databaseH.Get''"
| "plain_seg dbId \<Longrightarrow> console_call (databasesApi_getByID dbId) ''databaseH.GetByID''"
| "plain_seg projectId \<Longrightarrow> console_call (databasesApi_provision projectId input) ''databaseH.Provision''"
| "plain_seg projectId \<Longrightarrow> plain_seg dbId \<Longrightarrow> console_call (databasesApi_remove projectId dbId) ''databaseH.Delete''"
| "plain_seg projectId \<Longrightarrow> plain_seg dbId \<Longrightarrow> console_call (databasesApi_start projectId dbId) ''databaseH.Start''"
| "plain_seg projectId \<Longrightarrow> plain_seg dbId \<Longrightarrow> console_call (databasesApi_stop projectId dbId) ''databaseH.Stop''"
| "plain_seg projectId \<Longrightarrow> plain_seg dbId \<Longrightarrow> console_call (databasesApi_listLinks projectId dbId) ''databaseH.ListLinks''"
| "plain_seg projectId \<Longrightarrow> plain_seg dbId \<Longrightarrow> console_call (databasesApi_link projectId dbId input) ''databaseH.LinkDatabase''"
| "plain_seg projectId \<Longrightarrow> plain_seg dbId \<Longrightarrow> plain_seg linkId \<Longrightarrow> console_call (databasesApi_unlink projectId dbId linkId) ''databaseH.UnlinkDatabase''"
| "plain_seg projectId \<Longrightarrow> plain_seg dbId \<Longrightarrow> console_call (databasesApi_rotate projectId dbId) ''databaseH.RotateCredentials''"
| "plain_seg projectId \<Longrightarrow> plain_seg dbId \<Longrightarrow> console_call (databasesApi_listRotations projectId dbId) ''databaseH.ListRotations''"
| "plain_seg projectId \<Longrightarrow> plain_seg dbId \<Longrightarrow> console_call (databasesApi_listBackups projectId dbId) ''databaseH.ListBackups''"
| "plain_seg projectId \<Longrightarrow> plain_seg dbId \<Longrightarrow> console_call (databasesApi_createBackup projectId dbId) ''databaseH.CreateBackup''"
| "plain_seg projectId \<Longrightarrow> plain_seg dbId \<Longrightarrow> plain_seg backupId \<Longrightarrow> console_call (databasesApi_getBackup projectId dbId backupId) ''databaseH.GetBackup''"
| "plain_seg projectId \<Longrightarrow> plain_seg dbId \<Longrightarrow> plain_seg backupId \<Longrightarrow> console_call (databasesApi_removeBackup projectId dbId backupId) ''databaseH.DeleteBackup''"
| "plain_seg projectId \<Longrightarrow> plain_seg dbId \<Longrightarrow> console_call (databasesApi_restore projectId dbId backup_id target new_name) ''databaseH.Restore''"
| "plain_seg teamId \<Longrightarrow> console_call (volumesApi_list teamId) ''volumeH.List''"
| "plain_seg teamId \<Longrightarrow> plain_seg volumeId \<Longrightarrow> console_call (volumesApi_get teamId volumeId) ''volumeH.Get''"
| "plain_seg teamId \<Longrightarrow> console_call (volumesApi_create teamId input) ''volumeH.Create''"
| "plain_seg teamId \<Longrightarrow> plain_seg volumeId \<Longrightarrow> console_call (volumesApi_remove teamId volumeId) ''volumeH.Delete''"
| "plain_seg teamId \<Longrightarrow> plain_seg volumeId \<Longrightarrow> console_call (volumesApi_attach teamId volumeId input) ''volumeH.Attach''"
| "plain_seg teamId \<Longrightarrow> plain_seg volumeId \<Longrightarrow> console_call (volumesApi_detach teamId volumeId) ''volumeH.Detach''"
| "plain_seg teamId \<Longrightarrow> plain_seg volumeId \<Longrightarrow> console_call (volumesApi_move teamId volumeId target_server_id) ''volumeH.Move''"
| "plain_seg teamId \<Longrightarrow> plain_seg volumeId \<Longrightarrow> console_call (volumesApi_resize teamId volumeId new_size_gb) ''volumeH.Resize''"
| "plain_seg teamId \<Longrightarrow> plain_seg volumeId \<Longrightarrow> console_call (volumesApi_snapshot teamId volumeId) ''volumeH.Snapshot''"
| "plain_seg teamId \<Longrightarrow> plain_seg volumeId \<Longrightarrow> console_call (volumesApi_listSnapshots teamId volumeId) ''volumeH.ListSnapshots''"
| "plain_seg dbId \<Longrightarrow> console_call (dbToolingApi_listSchemas dbId) ''dbToolingH.ListSchemas''"
| "plain_seg dbId \<Longrightarrow> plain_name schema \<Longrightarrow> console_call (dbToolingApi_listTables dbId schema) ''dbToolingH.ListTables''"
| "plain_seg dbId \<Longrightarrow> plain_name schema \<Longrightarrow> plain_name table \<Longrightarrow> console_call (dbToolingApi_getTableRows dbId schema table q) ''dbToolingH.GetTableRows''"
| "plain_seg dbId \<Longrightarrow> console_call (dbToolingApi_runQuery dbId input) ''dbToolingH.RunQuery''"
| "plain_seg dbId \<Longrightarrow> console_call (dbToolingApi_listQueryHistory dbId limit) ''dbToolingH.ListQueryHistory''"
| "plain_seg teamId \<Longrightarrow> console_call (observabilityApi_listChannels teamId) ''observabilityH.ListChannels''"
| "plain_seg teamId \<Longrightarrow> console_call (observabilityApi_createChannel teamId input) ''observabilityH.CreateChannel''"
| "plain_seg teamId \<Longrightarrow> console_call (observabilityApi_listAlerts teamId scope) ''observabilityH.ListAlerts''"
| "plain_seg teamId \<Longrightarrow> console_call (observabilityApi_createAlert teamId input) ''observabilityH.CreateAlert''"
| "plain_seg teamId \<Longrightarrow> plain_seg alertId \<Longrightarrow> console_call (observabilityApi_updateAlert teamId alertId input) ''observabilityH.UpdateAlert''"
| "plain_seg teamId \<Longrightarrow> plain_seg alertId \<Longrightarrow> console_call (observabilityApi_deleteAlert teamId alertId) ''observabilityH.DeleteAlert''"
| "plain_seg teamId \<Longrightarrow> console_call (observabilityApi_evaluateAlerts teamId) ''observabilityH.EvaluateAlerts''"
| "plain_seg teamId \<Longrightarrow> console_call (observabilityApi_listEvents teamId limit scope_type scope_id) ''observabilityH.Events''"
| "plain_seg teamId \<Longrightarrow> console_call (observabilityApi_latestMetrics teamId scope_type scope_id) ''observabilityH.Metrics''"
| "plain_seg teamId \<Longrightarrow> console_call (observabilityApi_metricRange teamId scope_type scope_id metric rng limit) ''observabilityH.Metrics''"

section \<open>Paths of plain segments\<close>

lemma code_of_lower_char:
  "code_of (lower_char c) =
     (let n = code_of c in
      if (65 \<le> n \<and> n \<le> 90) \<or> (192 \<le> n \<and> n \<le> 222 \<and> n \<noteq> 215) then n + 32 else n)"
  by (auto simp: lower_char_def Let_def code_of_def)

lemma lower_char_dot:
  "lower_char c = CHR ''.'' \<longleftrightarrow> c = CHR ''.''" "lower_char c = CHR ''%'' \<longleftrightarrow> c = CHR ''%''"
proof -
  have eq: "x = y \<longleftrightarrow> code_of x = code_of y" for x y
    by (metis char_of_code_of)
  show "lower_char c = CHR ''.'' \<longleftrightarrow> c = CHR ''.''" "lower_char c = CHR ''%'' \<longleftrightarrow> c = CHR ''%''"
    unfolding eq code_of_lower_char Let_def by (auto simp: code_of_def)
qed

lemma not_dot_Cons [simp]:
  assumes "c \<noteq> CHR ''.''" and "c \<noteq> CHR ''%''"
  shows "\<not> single_dot (c # s)" and "\<not> double_dot (c # s)"
  using assms by (auto simp: single_dot_def double_dot_def toLowerCase_def lower_char_dot)

lemma plain_segD [simp]:
  assumes "plain_seg s"
  shows "s \<noteq> []" "CHR ''/'' \<notin> set s" "\<not> single_dot s" "\<not> double_dot s"
  using assms by (simp_all add: plain_seg_def)

lemma url_path_Nil [simp]: "url_path [] = []"
  by (simp add: url_path_def)

lemma url_path_Cons [simp]:
  "url_path (c # u) = (if c = CHR ''?'' \<or> c = CHR ''#'' then [] else c # url_path u)"
  by (simp add: url_path_def)

lemma url_path_seg [simp]: "plain_seg s \<Longrightarrow> url_path (s @ u) = s @ url_path u"
  unfolding url_path_def plain_seg_def by (rule takeWhile_append2) auto

lemma url_path_last [simp]: "plain_seg s \<Longrightarrow> url_path s = s"
  using url_path_seg [of s "[]"] by simp

lemma url_path_suffix [simp]: "url_path (query_suffix ps) = []"
  by (simp add: query_suffix_def)

lemma url_path_optional [simp]:
  "url_path (case x of None \<Rightarrow> [] | Some e \<Rightarrow> if P e then [] else (CHR ''?'' # s) @ f e) = []"
  by (simp split: option.split)

lemma dot_cases:
  assumes "single_dot s \<or> double_dot s"
  shows "pct_decode False s \<in> {Some ''.'', Some ''..''}"
proof -
  have e: "lower_char c = CHR ''2'' \<longleftrightarrow> c = CHR ''2''" "lower_char c = CHR ''e'' \<longleftrightarrow> c = CHR ''e'' \<or> c = CHR ''E''" for c
  proof -
    have eq: "x = y \<longleftrightarrow> code_of x = code_of y" for x y
      by (metis char_of_code_of)
    show "lower_char c = CHR ''2'' \<longleftrightarrow> c = CHR ''2''" "lower_char c = CHR ''e'' \<longleftrightarrow> c = CHR ''e'' \<or> c = CHR ''E''"
      unfolding eq code_of_lower_char Let_def by (auto simp: code_of_def)
  qed
  have dot: "char_of (46::nat) = CHR ''.''"
    using char_of_code_of [of "CHR ''.''"] by (simp add: code_of_def)
  show ?thesis using assms
    by (auto simp: single_dot_def double_dot_def toLowerCase_def map_eq_Cons_conv lower_char_dot e
        pct_value_def hex_val_def code_of_def dot)
qed

lemma plain_nameD [simp]: "plain_name s \<Longrightarrow> s \<noteq> []"
  by (simp add: plain_name_def)

lemma plain_encoded [simp]:
  assumes "plain_name k"
  shows "plain_seg (encodeURIComponent k)"
proof -
  have d: "pct_decode False (encodeURIComponent k) = Some k"
    unfolding encodeURIComponent_def by (rule uri.dec_encode)
  have "\<not> (single_dot (encodeURIComponent k) \<or> double_dot (encodeURIComponent k))"
    using dot_cases [of "encodeURIComponent k"] d assms unfolding plain_name_def
    by (metis insertE option.inject singletonD)
  with assms show ?thesis unfolding plain_seg_def plain_name_def by simp
qed

lemma plain_digits:
  assumes "s \<noteq> []" and "\<And>c. c \<in> set s \<Longrightarrow> is_digit c \<or> c = CHR ''-''"
  shows "plain_seg s"
proof -
  have n: "CHR ''/'' \<notin> set s" "CHR ''?'' \<notin> set s" "CHR ''#'' \<notin> set s" "CHR ''.'' \<notin> set s" "CHR ''%'' \<notin> set s"
    using assms(2) [of "CHR ''/''"] assms(2) [of "CHR ''?''"] assms(2) [of "CHR ''#''"]
      assms(2) [of "CHR ''.''"] assms(2) [of "CHR ''%''"]
    by (auto simp: is_digit_def code_of_def)
  then obtain c cs where "s = c # cs" "c \<noteq> CHR ''.''" "c \<noteq> CHR ''%''"
    using assms(1) by (cases s) auto
  with n show ?thesis unfolding plain_seg_def by simp
qed

lemma plain_show_int [simp]: "plain_seg (show_int i)"
  by (rule plain_digits) (auto simp: show_int_def show_nat_nonempty dest: show_nat_digits split: if_splits)

lemma segs_of_plain [simp]: "plain_seg s \<Longrightarrow> split_on (CHR ''/'') s = [s]"
  by (simp add: split_on_none)

lemma segs_of_plain_app [simp]:
  "plain_seg s \<Longrightarrow> split_on (CHR ''/'') (s @ CHR ''/'' # t) = s # split_on (CHR ''/'') t"
  by (simp add: split_on_sep)

section \<open>The registered routes\<close>

named_theorems served_simps \<open>the registered routes, as facts\<close>

definition served :: "string \<Rightarrow> string list \<Rightarrow> string \<Rightarrow> bool" where
  "served m segs h = (h \<in> set (reached m segs))"

lemma served_public: "list_ex (\<lambda>r. route_matches m segs r \<and> snd (snd r) = h) public_routes \<Longrightarrow> served m segs h"
  by (force simp: served_def reached_def list_ex_iff)

lemma served_in:
  assumes "set g \<subseteq> set protected_routes" and "list_ex (mount_matches segs) mounts"
    and "list_ex (\<lambda>r. route_matches m segs r \<and> snd (snd r) = h) g"
  shows "served m segs h"
  using assms by (force simp: served_def reached_def list_ex_iff)

lemmas route_simps = mounts_def mount_matches_def route_matches_def seg_matches_def

lemma section_routes:
  "set auth_routes \<subseteq> set protected_routes"
  "set teams_routes \<subseteq> set protected_routes"
  "set team_members_routes \<subseteq> set protected_routes"
  "set team_invites_routes \<subseteq> set protected_routes"
  "set accept_invite_routes \<subseteq> set protected_routes"
  "set api_tokens_routes \<subseteq> set protected_routes"
  "set audit_logs_routes \<subseteq> set protected_routes"
  "set ssh_keys_routes \<subseteq> set protected_routes"
  "set servers_routes \<subseteq> set protected_routes"
  "set server_tags_routes \<subseteq> set protected_routes"
  "set provisioning_routes \<subseteq> set protected_routes"
  "set terminal_routes \<subseteq> set protected_routes"
  "set clusters_routes \<subseteq> set protected_routes"
  "set cluster_members_routes \<subseteq> set protected_routes"
  "set mesh_health_events_routes \<subseteq> set protected_routes"
  "set github_app_routes \<subseteq> set protected_routes"
  "set docker_hub_routes \<subseteq> set protected_routes"
  "set container_registries_routes \<subseteq> set protected_routes"
  "set secrets_routes \<subseteq> set protected_routes"
  "set projects_routes \<subseteq> set protected_routes"
  "set environments_routes \<subseteq> set protected_routes"
  "set apps_routes \<subseteq> set protected_routes"
  "set app_level_environment_routes \<subseteq> set protected_routes"
  "set app_routes \<subseteq> set protected_routes"
  "set builds_routes \<subseteq> set protected_routes"
  "set deployments_routes \<subseteq> set protected_routes"
  "set container_lifecycle_inspect_routes \<subseteq> set protected_routes"
  "set historical_logs_search_routes \<subseteq> set protected_routes"
  "set resource_limits_routes \<subseteq> set protected_routes"
  "set registry_credential_routes \<subseteq> set protected_routes"
  "set container_terminal_routes \<subseteq> set protected_routes"
  "set server_logs_routes \<subseteq> set protected_routes"
  "set observability_routes \<subseteq> set protected_routes"
  "set service_templates_routes \<subseteq> set protected_routes"
  "set volumes_routes \<subseteq> set protected_routes"
  "set databases_routes \<subseteq> set protected_routes"
  "set database_backups_restore_routes \<subseteq> set protected_routes"
  "set database_tooling_routes \<subseteq> set protected_routes"
  "set discovery_routes \<subseteq> set protected_routes"
  "set platform_admin_routes \<subseteq> set protected_routes"
  by (auto simp: protected_routes_def)

lemma served_auth_routes [served_simps]:
  "served ''POST'' [''auth'', ''logout''] ''authH.Logout''"
  "served ''GET'' [''auth'', ''me''] ''authH.Me''"
  by (simp_all add: served_in [OF section_routes(1)] auth_routes_def route_simps)

lemma served_teams_routes [served_simps]:
  "served ''POST'' [''teams''] ''teamH.Create''"
  "served ''GET'' [''teams''] ''teamH.List''"
  "x \<noteq> [] \<Longrightarrow> served ''GET'' [''teams'', x] ''teamH.Get''"
  "x \<noteq> [] \<Longrightarrow> served ''PUT'' [''teams'', x] ''teamH.Update''"
  "x \<noteq> [] \<Longrightarrow> served ''DELETE'' [''teams'', x] ''teamH.Delete''"
  by (simp_all add: served_in [OF section_routes(2)] teams_routes_def route_simps)

lemma served_team_members_routes [served_simps]:
  "x \<noteq> [] \<Longrightarrow> served ''GET'' [''teams'', x, ''members''] ''teamH.ListMembers''"
  "x \<noteq> [] \<Longrightarrow> y \<noteq> [] \<Longrightarrow> served ''PUT'' [''teams'', x, ''members'', y] ''teamH.UpdateMember''"
  "x \<noteq> [] \<Longrightarrow> y \<noteq> [] \<Longrightarrow> served ''DELETE'' [''teams'', x, ''members'', y] ''teamH.RemoveMember''"
  by (simp_all add: served_in [OF section_routes(3)] team_members_routes_def route_simps)

lemma served_team_invites_routes [served_simps]:
  "x \<noteq> [] \<Longrightarrow> served ''POST'' [''teams'', x, ''invites''] ''teamH.CreateInvite''"
  "x \<noteq> [] \<Longrightarrow> served ''GET'' [''teams'', x, ''invites''] ''teamH.ListInvites''"
  "x \<noteq> [] \<Longrightarrow> y \<noteq> [] \<Longrightarrow> served ''DELETE'' [''teams'', x, ''invites'', y] ''teamH.CancelInvite''"
  by (simp_all add: served_in [OF section_routes(4)] team_invites_routes_def route_simps)

lemma served_accept_invite_routes [served_simps]:
  "served ''POST'' [''invites'', ''accept''] ''teamH.AcceptInvite''"
  by (simp_all add: served_in [OF section_routes(5)] accept_invite_routes_def route_simps)

lemma served_api_tokens_routes [served_simps]:
  "x \<noteq> [] \<Longrightarrow> served ''POST'' [''teams'', x, ''tokens''] ''tokenH.Create''"
  "x \<noteq> [] \<Longrightarrow> served ''GET'' [''teams'', x, ''tokens''] ''tokenH.List''"
  "x \<noteq> [] \<Longrightarrow> y \<noteq> [] \<Longrightarrow> served ''DELETE'' [''teams'', x, ''tokens'', y] ''tokenH.Revoke''"
  by (simp_all add: served_in [OF section_routes(6)] api_tokens_routes_def route_simps)

lemma served_audit_logs_routes [served_simps]:
  "x \<noteq> [] \<Longrightarrow> served ''GET'' [''teams'', x, ''audit-logs''] ''auditH.List''"
  by (simp_all add: served_in [OF section_routes(7)] audit_logs_routes_def route_simps)

lemma served_ssh_keys_routes [served_simps]:
  "x \<noteq> [] \<Longrightarrow> served ''POST'' [''teams'', x, ''ssh-keys''] ''sshKeyH.Create''"
  "x \<noteq> [] \<Longrightarrow> served ''GET'' [''teams'', x, ''ssh-keys''] ''sshKeyH.List''"
  "x \<noteq> [] \<Longrightarrow> y \<noteq> [] \<Longrightarrow> served ''GET'' [''teams'', x, ''ssh-keys'', y] ''sshKeyH.Get''"
  "x \<noteq> [] \<Longrightarrow> y \<noteq> [] \<Longrightarrow> served ''DELETE'' [''teams'', x, ''ssh-keys'', y] ''sshKeyH.Delete''"
  by (simp_all add: served_in [OF section_routes(8)] ssh_keys_routes_def route_simps)

lemma served_servers_routes [served_simps]:
  "x \<noteq> [] \<Longrightarrow> served ''POST'' [''teams'', x, ''servers''] ''serverH.Create''"
  "x \<noteq> [] \<Longrightarrow> served ''GET'' [''teams'', x, ''servers''] ''serverH.List''"
  "x \<noteq> [] \<Longrightarrow> y \<noteq> [] \<Longrightarrow> served ''GET'' [''teams'', x, ''servers'', y] ''serverH.Get''"
  "x \<noteq> [] \<Longrightarrow> y \<noteq> [] \<Longrightarrow> served ''PUT'' [''teams'', x, ''servers'', y] ''serverH.Update''"
  "x \<noteq> [] \<Longrightarrow> y \<noteq> [] \<Longrightarrow> served ''PUT'' [''teams'', x, ''servers'', y, ''role''] ''serverH.SetRole''"
  "x \<noteq> [] \<Longrightarrow> y \<noteq> [] \<Longrightarrow> served ''DELETE'' [''teams'', x, ''servers'', y] ''serverH.Delete''"
  "x \<noteq> [] \<Longrightarrow> y \<noteq> [] \<Longrightarrow> served ''POST'' [''teams'', x, ''servers'', y, ''cleanup''] ''serverH.Cleanup''"
  "x \<noteq> [] \<Longrightarrow> y \<noteq> [] \<Longrightarrow> served ''GET'' [''teams'', x, ''servers'', y, ''metrics''] ''serverH.Metrics''"
  by (simp_all add: served_in [OF section_routes(9)] servers_routes_def route_simps)

lemma served_server_tags_routes [served_simps]:
  "x \<noteq> [] \<Longrightarrow> y \<noteq> [] \<Longrightarrow> served ''GET'' [''teams'', x, ''servers'', y, ''tags''] ''tagH.List''"
  "x \<noteq> [] \<Longrightarrow> y \<noteq> [] \<Longrightarrow> served ''POST'' [''teams'', x, ''servers'', y, ''tags''] ''tagH.Set''"
  "x \<noteq> [] \<Longrightarrow> y \<noteq> [] \<Longrightarrow> z \<noteq> [] \<Longrightarrow> served ''DELETE'' [''teams'', x, ''servers'', y, ''tags'', z] ''tagH.Delete''"
  by (simp_all add: served_in [OF section_routes(10)] server_tags_routes_def route_simps)

lemma served_provisioning_routes [served_simps]:
  "x \<noteq> [] \<Longrightarrow> y \<noteq> [] \<Longrightarrow> served ''POST'' [''teams'', x, ''servers'', y, ''provision''] ''provisionH.Start''"
  "x \<noteq> [] \<Longrightarrow> y \<noteq> [] \<Longrightarrow> served ''GET'' [''teams'', x, ''servers'', y, ''provision''] ''provisionH.Status''"
  "x \<noteq> [] \<Longrightarrow> y \<noteq> [] \<Longrightarrow> z \<noteq> [] \<Longrightarrow> served ''GET'' [''teams'', x, ''servers'', y, ''provision'', z, ''logs''] ''provisionH.StreamLogs''"
  "x \<noteq> [] \<Longrightarrow> y \<noteq> [] \<Longrightarrow> served ''POST'' [''teams'', x, ''servers'', y, ''provision'', ''retry''] ''provisionH.Retry''"
  by (simp_all add: served_in [OF section_routes(11)] provisioning_routes_def route_simps)

lemma served_terminal_routes [served_simps]:
  "x \<noteq> [] \<Longrightarrow> y \<noteq> [] \<Longrightarrow> served ''GET'' [''teams'', x, ''servers'', y, ''terminal''] ''terminalH.Connect''"
  by (simp_all add: served_in [OF section_routes(12)] terminal_routes_def route_simps)

lemma served_clusters_routes [served_simps]:
  "x \<noteq> [] \<Longrightarrow> served ''POST'' [''teams'', x, ''clusters''] ''clusterH.Create''"
  "x \<noteq> [] \<Longrightarrow> served ''GET'' [''teams'', x, ''clusters''] ''clusterH.List''"
  "x \<noteq> [] \<Longrightarrow> y \<noteq> [] \<Longrightarrow> served ''GET'' [''teams'', x, ''clusters'', y] ''clusterH.Get''"
  "x \<noteq> [] \<Longrightarrow> y \<noteq> [] \<Longrightarrow> served ''PUT'' [''teams'', x, ''clusters'', y] ''clusterH.Update''"
  "x \<noteq> [] \<Longrightarrow> y \<noteq> [] \<Longrightarrow> served ''DELETE'' [''teams'', x, ''clusters'', y] ''clusterH.Delete''"
  by (simp_all add: served_in [OF section_routes(13)] clusters_routes_def route_simps)

lemma served_cluster_members_routes [served_simps]:
  "x \<noteq> [] \<Longrightarrow> y \<noteq> [] \<Longrightarrow> served ''GET'' [''teams'', x, ''clusters'', y, ''members''] ''clusterH.ListMembers''"
  "x \<noteq> [] \<Longrightarrow> y \<noteq> [] \<Longrightarrow> served ''POST'' [''teams'', x, ''clusters'', y, ''members''] ''clusterH.AddMember''"
  "x \<noteq> [] \<Longrightarrow> y \<noteq> [] \<Longrightarrow> z \<noteq> [] \<Longrightarrow> served ''DELETE'' [''teams'', x, ''clusters'', y, ''members'', z] ''clusterH.RemoveMember''"
  by (simp_all add: served_in [OF section_routes(14)] cluster_members_routes_def route_simps)

lemma served_mesh_health_events_routes [served_simps]:
  "x \<noteq> [] \<Longrightarrow> y \<noteq> [] \<Longrightarrow> served ''GET'' [''teams'', x, ''clusters'', y, ''mesh''] ''clusterH.MeshHealth''"
  "x \<noteq> [] \<Longrightarrow> y \<noteq> [] \<Longrightarrow> served ''POST'' [''teams'', x, ''clusters'', y, ''mesh'', ''regenerate''] ''clusterH.RegenerateMesh''"
  "x \<noteq> [] \<Longrightarrow> y \<noteq> [] \<Longrightarrow> served ''GET'' [''teams'', x, ''clusters'', y, ''mesh'', ''logs''] ''clusterH.StreamMeshLogs''"
  "x \<noteq> [] \<Longrightarrow> y \<noteq> [] \<Longrightarrow> served ''GET'' [''teams'', x, ''clusters'', y, ''events''] ''clusterH.ListEvents''"
  by (simp_all add: served_in [OF section_routes(15)] mesh_health_events_routes_def route_simps)

lemma served_github_app_routes [served_simps]:
  "x \<noteq> [] \<Longrightarrow> served ''POST'' [''teams'', x, ''github'', ''manifest''] ''githubH.CreateManifest''"
  "x \<noteq> [] \<Longrightarrow> served ''POST'' [''teams'', x, ''github'', ''callback''] ''githubH.HandleCallback''"
  "x \<noteq> [] \<Longrightarrow> served ''GET'' [''teams'', x, ''github'', ''app''] ''githubH.GetApp''"
  "x \<noteq> [] \<Longrightarrow> served ''DELETE'' [''teams'', x, ''github'', ''app''] ''githubH.DeleteApp''"
  "x \<noteq> [] \<Longrightarrow> served ''GET'' [''teams'', x, ''github'', ''installations''] ''githubH.ListInstallations''"
  "x \<noteq> [] \<Longrightarrow> served ''POST'' [''teams'', x, ''github'', ''installations'', ''sync''] ''githubH.SyncInstallations''"
  "x \<noteq> [] \<Longrightarrow> y \<noteq> [] \<Longrightarrow> served ''GET'' [''teams'', x, ''github'', ''installations'', y, ''repos''] ''githubH.ListRepos''"
  by (simp_all add: served_in [OF section_routes(16)] github_app_routes_def route_simps)

lemma served_container_registries_routes [served_simps]:
  "x \<noteq> [] \<Longrightarrow> served ''POST'' [''teams'', x, ''registries''] ''registryH.Create''"
  "x \<noteq> [] \<Longrightarrow> served ''GET'' [''teams'', x, ''registries''] ''registryH.List''"
  "x \<noteq> [] \<Longrightarrow> y \<noteq> [] \<Longrightarrow> served ''GET'' [''teams'', x, ''registries'', y] ''registryH.Get''"
  "x \<noteq> [] \<Longrightarrow> y \<noteq> [] \<Longrightarrow> served ''PUT'' [''teams'', x, ''registries'', y] ''registryH.Update''"
  "x \<noteq> [] \<Longrightarrow> y \<noteq> [] \<Longrightarrow> served ''DELETE'' [''teams'', x, ''registries'', y] ''registryH.Delete''"
  "x \<noteq> [] \<Longrightarrow> y \<noteq> [] \<Longrightarrow> served ''POST'' [''teams'', x, ''registries'', y, ''validate''] ''registryH.Revalidate''"
  by (simp_all add: served_in [OF section_routes(18)] container_registries_routes_def route_simps)

lemma served_secrets_routes [served_simps]:
  "x \<noteq> [] \<Longrightarrow> served ''POST'' [''teams'', x, ''secrets''] ''secretH.Create''"
  "x \<noteq> [] \<Longrightarrow> served ''GET'' [''teams'', x, ''secrets''] ''secretH.List''"
  "x \<noteq> [] \<Longrightarrow> y \<noteq> [] \<Longrightarrow> served ''GET'' [''teams'', x, ''secrets'', y] ''secretH.Get''"
  "x \<noteq> [] \<Longrightarrow> y \<noteq> [] \<Longrightarrow> served ''POST'' [''teams'', x, ''secrets'', y, ''reveal''] ''secretH.Reveal''"
  "x \<noteq> [] \<Longrightarrow> y \<noteq> [] \<Longrightarrow> served ''PUT'' [''teams'', x, ''secrets'', y] ''secretH.Update''"
  "x \<noteq> [] \<Longrightarrow> y \<noteq> [] \<Longrightarrow> served ''DELETE'' [''teams'', x, ''secrets'', y] ''secretH.Delete''"
  by (simp_all add: served_in [OF section_routes(19)] secrets_routes_def route_simps)

lemma served_projects_routes [served_simps]:
  "x \<noteq> [] \<Longrightarrow> served ''POST'' [''teams'', x, ''projects''] ''projectH.Create''"
  "x \<noteq> [] \<Longrightarrow> served ''GET'' [''teams'', x, ''projects''] ''projectH.List''"
  "x \<noteq> [] \<Longrightarrow> y \<noteq> [] \<Longrightarrow> served ''GET'' [''teams'', x, ''projects'', y] ''projectH.Get''"
  "x \<noteq> [] \<Longrightarrow> y \<noteq> [] \<Longrightarrow> served ''PUT'' [''teams'', x, ''projects'', y] ''projectH.Update''"
  "x \<noteq> [] \<Longrightarrow> y \<noteq> [] \<Longrightarrow> served ''DELETE'' [''teams'', x, ''projects'', y] ''projectH.Delete''"
  by (simp_all add: served_in [OF section_routes(20)] projects_routes_def route_simps)

lemma served_environments_routes [served_simps]:
  "x \<noteq> [] \<Longrightarrow> served ''POST'' [''projects'', x, ''environments''] ''projectH.CreateEnvironment''"
  "x \<noteq> [] \<Longrightarrow> served ''GET'' [''projects'', x, ''environments''] ''projectH.ListEnvironments''"
  by (simp_all add: served_in [OF section_routes(21)] environments_routes_def route_simps)

lemma served_apps_routes [served_simps]:
  "x \<noteq> [] \<Longrightarrow> served ''POST'' [''projects'', x, ''apps''] ''appH.Create''"
  "x \<noteq> [] \<Longrightarrow> served ''GET'' [''projects'', x, ''apps''] ''appH.List''"
  "x \<noteq> [] \<Longrightarrow> y \<noteq> [] \<Longrightarrow> served ''GET'' [''projects'', x, ''apps'', y] ''appH.Get''"
  "x \<noteq> [] \<Longrightarrow> y \<noteq> [] \<Longrightarrow> served ''PUT'' [''projects'', x, ''apps'', y] ''appH.Update''"
  "x \<noteq> [] \<Longrightarrow> y \<noteq> [] \<Longrightarrow> served ''DELETE'' [''projects'', x, ''apps'', y] ''appH.Delete''"
  by (simp_all add: served_in [OF section_routes(22)] apps_routes_def route_simps)

lemma served_app_level_environment_routes [served_simps]:
  "x \<noteq> [] \<Longrightarrow> served ''GET'' [''apps'', x, ''env-vars''] ''appEnvVarH.List''"
  "x \<noteq> [] \<Longrightarrow> served ''POST'' [''apps'', x, ''env-vars''] ''appEnvVarH.Create''"
  "x \<noteq> [] \<Longrightarrow> y \<noteq> [] \<Longrightarrow> served ''POST'' [''apps'', x, ''env-vars'', y, ''reveal''] ''appEnvVarH.Reveal''"
  "x \<noteq> [] \<Longrightarrow> y \<noteq> [] \<Longrightarrow> served ''PUT'' [''apps'', x, ''env-vars'', y] ''appEnvVarH.Update''"
  "x \<noteq> [] \<Longrightarrow> y \<noteq> [] \<Longrightarrow> served ''DELETE'' [''apps'', x, ''env-vars'', y] ''appEnvVarH.Delete''"
  by (simp_all add: served_in [OF section_routes(23)] app_level_environment_routes_def route_simps)

lemma served_app_routes [served_simps]:
  "x \<noteq> [] \<Longrightarrow> served ''GET'' [''apps'', x] ''appH.GetDirect''"
  "x \<noteq> [] \<Longrightarrow> served ''POST'' [''apps'', x, ''domain''] ''appH.SetDomain''"
  "x \<noteq> [] \<Longrightarrow> served ''POST'' [''apps'', x, ''domain'', ''verify''] ''appH.VerifyDomain''"
  by (simp_all add: served_in [OF section_routes(24)] app_routes_def route_simps)

lemma served_builds_routes [served_simps]:
  "x \<noteq> [] \<Longrightarrow> served ''POST'' [''apps'', x, ''builds''] ''buildH.TriggerBuild''"
  "x \<noteq> [] \<Longrightarrow> served ''GET'' [''apps'', x, ''builds''] ''buildH.List''"
  "x \<noteq> [] \<Longrightarrow> y \<noteq> [] \<Longrightarrow> served ''GET'' [''apps'', x, ''builds'', y] ''buildH.Get''"
  "x \<noteq> [] \<Longrightarrow> y \<noteq> [] \<Longrightarrow> served ''GET'' [''apps'', x, ''builds'', y, ''logs''] ''buildH.StreamLogs''"
  by (simp_all add: served_in [OF section_routes(25)] builds_routes_def route_simps)

lemma served_deployments_routes [served_simps]:
  "x \<noteq> [] \<Longrightarrow> served ''POST'' [''apps'', x, ''deployments''] ''deployH.TriggerDeploy''"
  "x \<noteq> [] \<Longrightarrow> served ''GET'' [''apps'', x, ''deployments''] ''deployH.List''"
  "x \<noteq> [] \<Longrightarrow> y \<noteq> [] \<Longrightarrow> served ''GET'' [''apps'', x, ''deployments'', y] ''deployH.Get''"
  "x \<noteq> [] \<Longrightarrow> y \<noteq> [] \<Longrightarrow> served ''GET'' [''apps'', x, ''deployments'', y, ''logs''] ''deployH.StreamLogs''"
  "x \<noteq> [] \<Longrightarrow> y \<noteq> [] \<Longrightarrow> served ''GET'' [''apps'', x, ''deployments'', y, ''targets''] ''deployH.ListTargets''"
  "x \<noteq> [] \<Longrightarrow> served ''POST'' [''apps'', x, ''rollback''] ''deployH.Rollback''"
  "x \<noteq> [] \<Longrightarrow> served ''POST'' [''apps'', x, ''scale''] ''deployH.ScaleApp''"
  "x \<noteq> [] \<Longrightarrow> served ''GET'' [''apps'', x, ''scaling-events''] ''deployH.ListScalingEvents''"
  "x \<noteq> [] \<Longrightarrow> served ''POST'' [''apps'', x, ''autoscaling-rules''] ''deployH.CreateAutoscalingRule''"
  "x \<noteq> [] \<Longrightarrow> served ''GET'' [''apps'', x, ''autoscaling-rules''] ''deployH.ListAutoscalingRules''"
  "x \<noteq> [] \<Longrightarrow> y \<noteq> [] \<Longrightarrow> served ''DELETE'' [''apps'', x, ''autoscaling-rules'', y] ''deployH.DeleteAutoscalingRule''"
  "x \<noteq> [] \<Longrightarrow> served ''POST'' [''apps'', x, ''autoscaling'', ''evaluate''] ''deployH.EvaluateAutoscaling''"
  "x \<noteq> [] \<Longrightarrow> served ''GET'' [''apps'', x, ''traffic''] ''deployH.GetTraffic''"
  "x \<noteq> [] \<Longrightarrow> served ''PUT'' [''apps'', x, ''traffic''] ''deployH.UpdateTraffic''"
  "x \<noteq> [] \<Longrightarrow> y \<noteq> [] \<Longrightarrow> served ''POST'' [''apps'', x, ''traffic'', ''backends'', y, ''promote''] ''deployH.PromoteTrafficBackend''"
  "x \<noteq> [] \<Longrightarrow> served ''GET'' [''apps'', x, ''logs''] ''deployH.ContainerLogs''"
  "x \<noteq> [] \<Longrightarrow> served ''POST'' [''apps'', x, ''cleanup''] ''deployH.CleanupDeployments''"
  by (simp_all add: served_in [OF section_routes(26)] deployments_routes_def route_simps)

lemma served_container_lifecycle_inspect_routes [served_simps]:
  "x \<noteq> [] \<Longrightarrow> served ''GET'' [''apps'', x, ''replicas''] ''deployH.ListReplicas''"
  "x \<noteq> [] \<Longrightarrow> y \<noteq> [] \<Longrightarrow> served ''POST'' [''apps'', x, ''containers'', y, ''restart''] ''deployH.RestartContainer''"
  "x \<noteq> [] \<Longrightarrow> y \<noteq> [] \<Longrightarrow> served ''POST'' [''apps'', x, ''containers'', y, ''stop''] ''deployH.StopContainer''"
  "x \<noteq> [] \<Longrightarrow> y \<noteq> [] \<Longrightarrow> served ''GET'' [''apps'', x, ''containers'', y, ''inspect''] ''deployH.InspectContainer''"
  by (simp_all add: served_in [OF section_routes(27)] container_lifecycle_inspect_routes_def route_simps)

lemma served_historical_logs_search_routes [served_simps]:
  "x \<noteq> [] \<Longrightarrow> served ''GET'' [''apps'', x, ''logs'', ''search''] ''deployH.SearchLogs''"
  "x \<noteq> [] \<Longrightarrow> served ''GET'' [''apps'', x, ''logs'', ''history''] ''deployH.HistoricalLogs''"
  by (simp_all add: served_in [OF section_routes(28)] historical_logs_search_routes_def route_simps)

lemma served_resource_limits_routes [served_simps]:
  "x \<noteq> [] \<Longrightarrow> served ''PUT'' [''apps'', x, ''resources''] ''appH.UpdateResources''"
  by (simp_all add: served_in [OF section_routes(29)] resource_limits_routes_def route_simps)

lemma served_registry_credential_routes [served_simps]:
  "x \<noteq> [] \<Longrightarrow> served ''PUT'' [''apps'', x, ''registry-credential''] ''appH.SetRegistryCredential''"
  by (simp_all add: served_in [OF section_routes(30)] registry_credential_routes_def route_simps)

lemma served_container_terminal_routes [served_simps]:
  "x \<noteq> [] \<Longrightarrow> served ''GET'' [''apps'', x, ''terminal''] ''containerTermH.Connect''"
  by (simp_all add: served_in [OF section_routes(31)] container_terminal_routes_def route_simps)

lemma served_server_logs_routes [served_simps]:
  "x \<noteq> [] \<Longrightarrow> y \<noteq> [] \<Longrightarrow> served ''GET'' [''teams'', x, ''servers'', y, ''logs''] ''deployH.ServerLogs''"
  by (simp_all add: served_in [OF section_routes(32)] server_logs_routes_def route_simps)

lemma served_observability_routes [served_simps]:
  "x \<noteq> [] \<Longrightarrow> served ''GET'' [''teams'', x, ''observability'', ''metrics''] ''observabilityH.Metrics''"
  "x \<noteq> [] \<Longrightarrow> served ''GET'' [''teams'', x, ''observability'', ''alerts''] ''observabilityH.ListAlerts''"
  "x \<noteq> [] \<Longrightarrow> served ''POST'' [''teams'', x, ''observability'', ''alerts''] ''observabilityH.CreateAlert''"
  "x \<noteq> [] \<Longrightarrow> y \<noteq> [] \<Longrightarrow> served ''PUT'' [''teams'', x, ''observability'', ''alerts'', y] ''observabilityH.UpdateAlert''"
  "x \<noteq> [] \<Longrightarrow> y \<noteq> [] \<Longrightarrow> served ''DELETE'' [''teams'', x, ''observability'', ''alerts'', y] ''observabilityH.DeleteAlert''"
  "x \<noteq> [] \<Longrightarrow> served ''POST'' [''teams'', x, ''observability'', ''alerts'', ''evaluate''] ''observabilityH.EvaluateAlerts''"
  "x \<noteq> [] \<Longrightarrow> served ''GET'' [''teams'', x, ''observability'', ''events''] ''observabilityH.Events''"
  "x \<noteq> [] \<Longrightarrow> served ''GET'' [''teams'', x, ''observability'', ''channels''] ''observabilityH.ListChannels''"
  "x \<noteq> [] \<Longrightarrow> served ''POST'' [''teams'', x, ''observability'', ''channels''] ''observabilityH.CreateChannel''"
  "x \<noteq> [] \<Longrightarrow> served ''POST'' [''teams'', x, ''observability'', ''silences''] ''observabilityH.CreateSilence''"
  "x \<noteq> [] \<Longrightarrow> y \<noteq> [] \<Longrightarrow> served ''GET'' [''teams'', x, ''clusters'', y, ''observability'', ''scrape-config''] ''observabilityH.ClusterScrapeConfig''"
  "x \<noteq> [] \<Longrightarrow> y \<noteq> [] \<Longrightarrow> served ''POST'' [''teams'', x, ''clusters'', y, ''observability'', ''scrape-config'', ''sync''] ''observabilityH.SyncClusterScrapeConfig''"
  by (simp_all add: served_in [OF section_routes(33)] observability_routes_def route_simps)

lemma served_service_templates_routes [served_simps]:
  "served ''GET'' [''templates''] ''templateH.List''"
  "x \<noteq> [] \<Longrightarrow> served ''GET'' [''templates'', x] ''templateH.Get''"
  "x \<noteq> [] \<Longrightarrow> served ''GET'' [''templates'', x, ''versions''] ''templateH.ListVersions''"
  by (simp_all add: served_in [OF section_routes(34)] service_templates_routes_def route_simps)

lemma served_volumes_routes [served_simps]:
  "x \<noteq> [] \<Longrightarrow> served ''POST'' [''teams'', x, ''volumes''] ''volumeH.Create''"
  "x \<noteq> [] \<Longrightarrow> served ''GET'' [''teams'', x, ''volumes''] ''volumeH.List''"
  "x \<noteq> [] \<Longrightarrow> y \<noteq> [] \<Longrightarrow> served ''GET'' [''teams'', x, ''volumes'', y] ''volumeH.Get''"
  "x \<noteq> [] \<Longrightarrow> y \<noteq> [] \<Longrightarrow> served ''DELETE'' [''teams'', x, ''volumes'', y] ''volumeH.Delete''"
  "x \<noteq> [] \<Longrightarrow> y \<noteq> [] \<Longrightarrow> served ''POST'' [''teams'', x, ''volumes'', y, ''attach''] ''volumeH.Attach''"
  "x \<noteq> [] \<Longrightarrow> y \<noteq> [] \<Longrightarrow> served ''POST'' [''teams'', x, ''volumes'', y, ''detach''] ''volumeH.Detach''"
  "x \<noteq> [] \<Longrightarrow> y \<noteq> [] \<Longrightarrow> served ''POST'' [''teams'', x, ''volumes'', y, ''move''] ''volumeH.Move''"
  "x \<noteq> [] \<Longrightarrow> y \<noteq> [] \<Longrightarrow> served ''POST'' [''teams'', x, ''volumes'', y, ''snapshot''] ''volumeH.Snapshot''"
  "x \<noteq> [] \<Longrightarrow> y \<noteq> [] \<Longrightarrow> served ''POST'' [''teams'', x, ''volumes'', y, ''resize''] ''volumeH.Resize''"
  "x \<noteq> [] \<Longrightarrow> y \<noteq> [] \<Longrightarrow> served ''GET'' [''teams'', x, ''volumes'', y, ''snapshots''] ''volumeH.ListSnapshots''"
  by (simp_all add: served_in [OF section_routes(35)] volumes_routes_def route_simps)

lemma served_databases_routes [served_simps]:
  "x \<noteq> [] \<Longrightarrow> served ''POST'' [''projects'', x, ''databases''] ''databaseH.Provision''"
  "x \<noteq> [] \<Longrightarrow> served ''GET'' [''projects'', x, ''databases''] ''databaseH.List''"
  "x \<noteq> [] \<Longrightarrow> y \<noteq> [] \<Longrightarrow> served ''GET'' [''projects'', x, ''databases'', y] ''databaseH.Get''"
  "x \<noteq> [] \<Longrightarrow> y \<noteq> [] \<Longrightarrow> served ''GET'' [''projects'', x, ''databases'', y, ''provision-stream''] ''databaseH.StreamProvisionLogs''"
  "x \<noteq> [] \<Longrightarrow> y \<noteq> [] \<Longrightarrow> served ''DELETE'' [''projects'', x, ''databases'', y] ''databaseH.Delete''"
  "x \<noteq> [] \<Longrightarrow> y \<noteq> [] \<Longrightarrow> served ''POST'' [''projects'', x, ''databases'', y, ''stop''] ''databaseH.Stop''"
  "x \<noteq> [] \<Longrightarrow> y \<noteq> [] \<Longrightarrow> served ''POST'' [''projects'', x, ''databases'', y, ''start''] ''databaseH.Start''"
  "x \<noteq> [] \<Longrightarrow> y \<noteq> [] \<Longrightarrow> served ''POST'' [''projects'', x, ''databases'', y, ''rebind-volume''] ''databaseH.RebindVolume''"
  "x \<noteq> [] \<Longrightarrow> y \<noteq> [] \<Longrightarrow> served ''POST'' [''projects'', x, ''databases'', y, ''links''] ''databaseH.LinkDatabase''"
  "x \<noteq> [] \<Longrightarrow> y \<noteq> [] \<Longrightarrow> served ''GET'' [''projects'', x, ''databases'', y, ''links''] ''databaseH.ListLinks''"
  "x \<noteq> [] \<Longrightarrow> y \<noteq> [] \<Longrightarrow> z \<noteq> [] \<Longrightarrow> served ''DELETE'' [''projects'', x, ''databases'', y, ''links'', z] ''databaseH.UnlinkDatabase''"
  "x \<noteq> [] \<Longrightarrow> y \<noteq> [] \<Longrightarrow> served ''POST'' [''projects'', x, ''databases'', y, ''rotate''] ''databaseH.RotateCredentials''"
  "x \<noteq> [] \<Longrightarrow> y \<noteq> [] \<Longrightarrow> served ''GET'' [''projects'', x, ''databases'', y, ''rotations''] ''databaseH.ListRotations''"
  by (simp_all add: served_in [OF section_routes(36)] databases_routes_def route_simps)

lemma served_database_backups_restore_routes [served_simps]:
  "x \<noteq> [] \<Longrightarrow> y \<noteq> [] \<Longrightarrow> served ''POST'' [''projects'', x, ''databases'', y, ''backups''] ''databaseH.CreateBackup''"
  "x \<noteq> [] \<Longrightarrow> y \<noteq> [] \<Longrightarrow> served ''GET'' [''projects'', x, ''databases'', y, ''backups''] ''databaseH.ListBackups''"
  "x \<noteq> [] \<Longrightarrow> y \<noteq> [] \<Longrightarrow> z \<noteq> [] \<Longrightarrow> served ''GET'' [''projects'', x, ''databases'', y, ''backups'', z] ''databaseH.GetBackup''"
  "x \<noteq> [] \<Longrightarrow> y \<noteq> [] \<Longrightarrow> z \<noteq> [] \<Longrightarrow> served ''DELETE'' [''projects'', x, ''databases'', y, ''backups'', z] ''databaseH.DeleteBackup''"
  "x \<noteq> [] \<Longrightarrow> y \<noteq> [] \<Longrightarrow> served ''POST'' [''projects'', x, ''databases'', y, ''restore''] ''databaseH.Restore''"
  by (simp_all add: served_in [OF section_routes(37)] database_backups_restore_routes_def route_simps)

lemma served_database_tooling_routes [served_simps]:
  "x \<noteq> [] \<Longrightarrow> served ''GET'' [''databases'', x] ''databaseH.GetByID''"
  "x \<noteq> [] \<Longrightarrow> served ''GET'' [''databases'', x, ''terminal''] ''dbToolingH.Terminal''"
  "x \<noteq> [] \<Longrightarrow> served ''GET'' [''databases'', x, ''schemas''] ''dbToolingH.ListSchemas''"
  "x \<noteq> [] \<Longrightarrow> y \<noteq> [] \<Longrightarrow> served ''GET'' [''databases'', x, ''schemas'', y, ''tables''] ''dbToolingH.ListTables''"
  "x \<noteq> [] \<Longrightarrow> y \<noteq> [] \<Longrightarrow> z \<noteq> [] \<Longrightarrow> served ''GET'' [''databases'', x, ''schemas'', y, ''tables'', z, ''rows''] ''dbToolingH.GetTableRows''"
  "x \<noteq> [] \<Longrightarrow> served ''POST'' [''databases'', x, ''query''] ''dbToolingH.RunQuery''"
  "x \<noteq> [] \<Longrightarrow> served ''GET'' [''databases'', x, ''query-history''] ''dbToolingH.ListQueryHistory''"
  "x \<noteq> [] \<Longrightarrow> served ''GET'' [''databases'', x, ''redis'', ''keys''] ''dbToolingH.RedisListKeys''"
  "x \<noteq> [] \<Longrightarrow> served ''GET'' [''databases'', x, ''redis'', ''key''] ''dbToolingH.RedisGetKey''"
  "x \<noteq> [] \<Longrightarrow> served ''GET'' [''databases'', x, ''redis'', ''info''] ''dbToolingH.RedisInfo''"
  "x \<noteq> [] \<Longrightarrow> served ''GET'' [''databases'', x, ''redis'', ''config''] ''dbToolingH.RedisConfig''"
  "x \<noteq> [] \<Longrightarrow> served ''GET'' [''databases'', x, ''mongo'', ''collections''] ''dbToolingH.MongoListCollections''"
  "x \<noteq> [] \<Longrightarrow> y \<noteq> [] \<Longrightarrow> served ''GET'' [''databases'', x, ''mongo'', ''collections'', y, ''find''] ''dbToolingH.MongoFind''"
  "x \<noteq> [] \<Longrightarrow> y \<noteq> [] \<Longrightarrow> served ''GET'' [''databases'', x, ''mongo'', ''collections'', y, ''doc''] ''dbToolingH.MongoGetDocument''"
  "x \<noteq> [] \<Longrightarrow> served ''POST'' [''projects'', x, ''saved-queries''] ''dbToolingH.SaveQuery''"
  "x \<noteq> [] \<Longrightarrow> served ''GET'' [''projects'', x, ''saved-queries''] ''dbToolingH.ListSavedQueriesByProject''"
  by (simp_all add: served_in [OF section_routes(38)] database_tooling_routes_def route_simps)

lemma served_discovery_routes [served_simps]:
  "served ''POST'' [''discover''] ''discoverH.Discover''"
  by (simp_all add: served_in [OF section_routes(39)] discovery_routes_def route_simps)

lemma served_platform_admin_routes [served_simps]:
  "served ''GET'' [''admin'', ''platform'', ''storage'', ''status''] ''platformStorageH.Status''"
  by (simp_all add: served_in [OF section_routes(40)] platform_admin_routes_def route_simps)

lemma served_public_routes [served_simps]:
  "served ''POST'' [''auth'', ''signup''] ''authH.Signup''"
  "served ''POST'' [''auth'', ''login''] ''authH.Login''"
  "served ''POST'' [''auth'', ''verify-email''] ''authH.VerifyEmail''"
  "served ''POST'' [''auth'', ''resend-verification''] ''authH.ResendVerification''"
  "served ''POST'' [''auth'', ''forgot-password''] ''authH.ForgotPassword''"
  "served ''POST'' [''auth'', ''reset-password''] ''authH.ResetPassword''"
  by (simp_all add: served_public public_routes_def route_simps)

section \<open>The console's requests\<close>

lemma handlers_served: "h \<in> set (handlers ep) \<longleftrightarrow>
    (let segs = url_segments (''/api/v1'' @ ep_path ep) in
     take 2 segs = [''api'', ''v1''] \<and> served (ep_method ep) (drop 2 segs) h)"
  by (simp add: handlers_def call_args_def request_args_plain served_def Let_def)

lemma console_call_handled: "console_call ep h \<Longrightarrow> h \<in> set (handlers ep)"
  unfolding handlers_served
  by (cases rule: console_call.cases, assumption)
    (simp_all add: endpoint_defs api_verbs url_segments_def Let_def served_simps)

lemma console_call_handlers: "console_call ep h \<Longrightarrow> handlers ep \<noteq> []"
  using console_call_handled by fastforce

lemma tag_segments:
  assumes "plain_seg t" and "plain_seg s" and "plain_name k"
  shows "url_segments (fa_url (call_args (tagsApi_remove t s k))) =
    [''api'', ''v1'', ''teams'', t, ''servers'', s, ''tags'', encodeURIComponent k]"
  using assms by (simp add: tagsApi_remove_def api_verbs call_args_def request_args_plain url_segments_def)



text \<open>
  The two Docker Hub lookups of the create-app picker reach no handler, whatever is searched: their
  routes are registered on the protected mux, but their prefix is never mounted.
\<close>

lemma docker_hub_unserved:
  "handlers (dockerHubApi_search q) = [] \<and> handlers (dockerHubApi_tags img) = [] \<and>
   set docker_hub_routes \<subseteq> set protected_routes"
proof (intro conjI)
  show "handlers (dockerHubApi_search q) = []" "handlers (dockerHubApi_tags img) = []"
    by (simp_all add: endpoint_defs api_verbs handlers_def call_args_def request_args_plain url_segments_def
        reached_def public_routes_def route_simps)
qed (rule section_routes)

text \<open>
  Deleting a server tag addresses exactly the tag that was chosen, whatever characters its key contains
  (slashes, question marks and percent signs included): the request has one path segment for the key, and
  that segment decodes to the key; so two different keys never address the same tag.
\<close>

lemma tag_key_addressed:
  assumes "plain_seg t" and "plain_seg s" and "plain_name k" and "plain_name k'"
  shows "decodeURIComponent (last (url_segments (fa_url (call_args (tagsApi_remove t s k))))) = Some k \<and>
    length (url_segments (fa_url (call_args (tagsApi_remove t s k)))) = 8 \<and>
    (url_segments (fa_url (call_args (tagsApi_remove t s k))) = url_segments (fa_url (call_args (tagsApi_remove t s k'))) \<longrightarrow> k = k')"
proof -
  have d: "decodeURIComponent (encodeURIComponent x) = Some x" for x
    unfolding encodeURIComponent_def by (rule uri.dec_encode)
  then have "encodeURIComponent k = encodeURIComponent k' \<Longrightarrow> k = k'" by (metis option.inject)
  with d assms show ?thesis by (simp add: tag_segments)
qed

lemma tag_key_addressed_witness:
  "decodeURIComponent (last (url_segments (fa_url (call_args (tagsApi_remove ''t'' ''s'' ''a/b?c''))))) = Some ''a/b?c''"
proof -
  have p: "plain_seg ''t''" "plain_seg ''s''"
    by (simp_all add: plain_seg_def single_dot_def double_dot_def toLowerCase_def lower_char_def code_of_def)
  show ?thesis
    by (rule conjunct1 [OF tag_key_addressed [OF p, where k' = "''x''"]]) (simp_all add: plain_name_def)
qed

end
