(* ===== verification/Contracts.thy ===== *)
theory Contracts
  imports Router
begin

text \<open>
  What the API's handlers accept as a request body: \<open>respond.DecodeJSON\<close> (\<open>internal/api/respond\<close>) decodes the
  body into the handler's request struct with unknown fields refused, and the handler answers 400 when that
  fails. One definition per request struct gives its JSON fields and Go types; \<open>request_structs\<close> says which
  handler decodes which. The theorems are about the bodies the console sends (\<open>lib/api.ts\<close>).
\<close>

section \<open>Go's JSON decoder\<close>

text \<open>A pointer field is decoded as what it points to.\<close>

datatype gotype = GString | GBool | GInt nat | GFloat | GUUID | GList gotype | GMap gotype | GStruct "(string \<times> gotype) list"

text \<open>The field a member is decoded into: the one of its name, else one that differs in case only.\<close>

definition go_field :: "(string \<times> gotype) list \<Rightarrow> string \<Rightarrow> gotype option" where
  "go_field fs k =
     (case map_of fs k of
        Some t \<Rightarrow> Some t
      | None \<Rightarrow> map_option snd (find (\<lambda>f. toLowerCase (fst f) = toLowerCase k) fs))"

text \<open>
  \<open>decodes ok t v\<close>: the value \<open>v\<close> decodes into a Go value of type \<open>t\<close>; \<open>ok\<close> is the check made on the value of
  an integer or UUID. \<open>null\<close> leaves any field as it is.
\<close>

fun decodes :: "(gotype \<Rightarrow> js \<Rightarrow> bool) \<Rightarrow> gotype \<Rightarrow> js \<Rightarrow> bool" where
  "decodes ok t JNull = True"
| "decodes ok GString (JStr s) = True"
| "decodes ok GUUID (JStr s) = ok GUUID (JStr s)"
| "decodes ok GBool (JBool b) = True"
| "decodes ok (GInt n) (JNum x) = ok (GInt n) (JNum x)"
| "decodes ok GFloat (JNum x) = True"
| "decodes ok (GList t) (JArr vs) = list_all (decodes ok t) vs"
| "decodes ok (GMap t) (JObj kvs) = list_all (\<lambda>e. decodes ok t (snd e)) kvs"
| "decodes ok (GStruct fs) (JObj kvs) =
     list_all (\<lambda>e. case go_field fs (fst e) of None \<Rightarrow> False | Some t \<Rightarrow> decodes ok t (snd e)) kvs"
| "decodes ok _ _ = False"

text \<open>The check of the decoder: an integer of the field's width, or a string the UUID package parses.\<close>

fun scalar_ok :: "(string \<Rightarrow> bool) \<Rightarrow> gotype \<Rightarrow> js \<Rightarrow> bool" where
  "scalar_ok uuid (GInt n) (JNum (Num q)) = (q \<in> \<int> \<and> - (2 ^ (n - 1)) \<le> q \<and> q < 2 ^ (n - 1))"
| "scalar_ok uuid GUUID (JStr s) = uuid s"
| "scalar_ok uuid _ _ = False"

text \<open>An absent body is an end of file to the decoder.\<close>

definition DecodeJSON :: "(string \<Rightarrow> bool) \<Rightarrow> gotype \<Rightarrow> js option \<Rightarrow> bool" where
  "DecodeJSON uuid t body = (case body of None \<Rightarrow> False | Some v \<Rightarrow> decodes (scalar_ok uuid) t v)"

section \<open>The request structs\<close>

named_theorems struct_defs \<open>the request structs of the handlers\<close>

definition Constraints :: gotype where [struct_defs]:
  "Constraints = GStruct [
    (''must_have'', GMap GString),
    (''must_not_have'', GMap GString)]"

definition loginRequest :: gotype where [struct_defs]:
  "loginRequest = GStruct [
    (''email'', GString),
    (''password'', GString)]"

definition signupRequest :: gotype where [struct_defs]:
  "signupRequest = GStruct [
    (''email'', GString),
    (''name'', GString),
    (''password'', GString)]"

definition forgotPasswordRequest :: gotype where [struct_defs]:
  "forgotPasswordRequest = GStruct [
    (''email'', GString)]"

definition resetPasswordRequest :: gotype where [struct_defs]:
  "resetPasswordRequest = GStruct [
    (''token'', GString),
    (''password'', GString)]"

definition verifyEmailRequest :: gotype where [struct_defs]:
  "verifyEmailRequest = GStruct [
    (''token'', GString)]"

definition resendVerificationRequest :: gotype where [struct_defs]:
  "resendVerificationRequest = GStruct [
    (''email'', GString)]"

definition createTeamRequest :: gotype where [struct_defs]:
  "createTeamRequest = GStruct [
    (''name'', GString)]"

definition updateTeamRequest :: gotype where [struct_defs]:
  "updateTeamRequest = GStruct [
    (''name'', GString)]"

definition updateMemberRequest :: gotype where [struct_defs]:
  "updateMemberRequest = GStruct [
    (''role'', GString)]"

definition createInviteRequest :: gotype where [struct_defs]:
  "createInviteRequest = GStruct [
    (''email'', GString),
    (''role'', GString)]"

definition createTokenRequest :: gotype where [struct_defs]:
  "createTokenRequest = GStruct [
    (''name'', GString),
    (''scopes'', GList GString),
    (''expires_in'', GString)]"

definition createServerRequest :: gotype where [struct_defs]:
  "createServerRequest = GStruct [
    (''name'', GString),
    (''hostname'', GString),
    (''public_ip'', GString),
    (''ssh_port'', GInt 32),
    (''ssh_user'', GString),
    (''ssh_key_id'', GUUID)]"

definition updateServerRequest :: gotype where [struct_defs]:
  "updateServerRequest = GStruct [
    (''name'', GString),
    (''hostname'', GString),
    (''public_ip'', GString)]"

definition setServerRoleRequest :: gotype where [struct_defs]:
  "setServerRoleRequest = GStruct [
    (''role'', GString)]"

definition cleanupServerRequest :: gotype where [struct_defs]:
  "cleanupServerRequest = GStruct [
    (''remove_stopped_containers'', GBool),
    (''remove_unused_images'', GBool),
    (''remove_unused_networks'', GBool),
    (''remove_build_cache'', GBool),
    (''remove_volumes'', GBool),
    (''older_than_hours'', GInt 32)]"

definition startProvisionRequest :: gotype where [struct_defs]:
  "startProvisionRequest = GStruct [
    (''components'', GList GString)]"

definition setTagRequest :: gotype where [struct_defs]:
  "setTagRequest = GStruct [
    (''key'', GString),
    (''value'', GString)]"

definition createSSHKeyRequest :: gotype where [struct_defs]:
  "createSSHKeyRequest = GStruct [
    (''name'', GString),
    (''key_type'', GString),
    (''public_key'', GString),
    (''private_key'', GString)]"

definition createClusterRequest :: gotype where [struct_defs]:
  "createClusterRequest = GStruct [
    (''name'', GString),
    (''description'', GString),
    (''region'', GString)]"

definition updateClusterRequest :: gotype where [struct_defs]:
  "updateClusterRequest = GStruct [
    (''name'', GString),
    (''description'', GString),
    (''region'', GString)]"

definition addMemberRequest :: gotype where [struct_defs]:
  "addMemberRequest = GStruct [
    (''server_id'', GUUID)]"

definition createProjectRequest :: gotype where [struct_defs]:
  "createProjectRequest = GStruct [
    (''cluster_id'', GString),
    (''name'', GString),
    (''description'', GString)]"

definition updateProjectRequest :: gotype where [struct_defs]:
  "updateProjectRequest = GStruct [
    (''name'', GString),
    (''description'', GString),
    (''status'', GString)]"

definition createEnvironmentRequest :: gotype where [struct_defs]:
  "createEnvironmentRequest = GStruct [
    (''name'', GString)]"

definition callbackRequest :: gotype where [struct_defs]:
  "callbackRequest = GStruct [
    (''code'', GString)]"

definition createRegistryRequest :: gotype where [struct_defs]:
  "createRegistryRequest = GStruct [
    (''name'', GString),
    (''registry_type'', GString),
    (''registry_url'', GString),
    (''username'', GString),
    (''password'', GString),
    (''region'', GString),
    (''aws_access_key_id'', GString),
    (''aws_secret_access_key'', GString)]"

definition createAppRequest :: gotype where [struct_defs]:
  "createAppRequest = GStruct [
    (''name'', GString),
    (''source_type'', GString),
    (''github_installation_id'', GString),
    (''repo_full_name'', GString),
    (''branch'', GString),
    (''root_path'', GString),
    (''auto_deploy'', GBool),
    (''docker_image'', GString),
    (''registry_credential_id'', GString),
    (''builder'', GString),
    (''dockerfile_path'', GString),
    (''port'', GInt 32),
    (''health_check_path'', GString),
    (''health_check_interval'', GInt 32),
    (''health_check_timeout'', GInt 32),
    (''replicas'', GInt 32),
    (''subdomain'', GString),
    (''placement_strategy'', GString),
    (''placement_constraints'', Constraints),
    (''pinned_server_ids'', GList GString)]"

definition updateAppRequest :: gotype where [struct_defs]:
  "updateAppRequest = GStruct [
    (''name'', GString),
    (''branch'', GString),
    (''root_path'', GString),
    (''auto_deploy'', GBool),
    (''builder'', GString),
    (''dockerfile_path'', GString),
    (''port'', GInt 32),
    (''health_check_path'', GString),
    (''health_check_interval'', GInt 32),
    (''health_check_timeout'', GInt 32),
    (''replicas'', GInt 32),
    (''subdomain'', GString),
    (''custom_domain'', GString),
    (''status'', GString),
    (''placement_strategy'', GString),
    (''placement_constraints'', Constraints),
    (''pinned_server_ids'', GList GString)]"

definition setRegistryCredentialRequest :: gotype where [struct_defs]:
  "setRegistryCredentialRequest = GStruct [
    (''registry_credential_id'', GString)]"

definition setDomainRequest :: gotype where [struct_defs]:
  "setDomainRequest = GStruct [
    (''custom_domain'', GString)]"

definition updateResourcesRequest :: gotype where [struct_defs]:
  "updateResourcesRequest = GStruct [
    (''memory_limit_mb'', GInt 32),
    (''cpu_limit_millicores'', GInt 32)]"

definition rollbackRequest :: gotype where [struct_defs]:
  "rollbackRequest = GStruct [
    (''environment_id'', GString)]"

definition scaleAppRequest :: gotype where [struct_defs]:
  "scaleAppRequest = GStruct [
    (''replicas'', GInt 32),
    (''placement_strategy'', GString),
    (''placement_constraints'', Constraints),
    (''pinned_server_ids'', GList GString)]"

definition updateTrafficRequest :: gotype where [struct_defs]:
  "updateTrafficRequest = GStruct [
    (''weights'', GList (GStruct [(''backend_id'', GString), (''weight'', GInt 32)]))]"

definition createAutoscalingRuleRequest :: gotype where [struct_defs]:
  "createAutoscalingRuleRequest = GStruct [
    (''name'', GString),
    (''metric_name'', GString),
    (''comparison'', GString),
    (''threshold'', GFloat),
    (''duration_seconds'', GInt 32),
    (''action_type'', GString),
    (''action_value'', GInt 32),
    (''min_replicas'', GInt 32),
    (''max_replicas'', GInt 32),
    (''cooldown_up_seconds'', GInt 32),
    (''cooldown_down_seconds'', GInt 32),
    (''enabled'', GBool)]"

definition triggerBuildRequest :: gotype where [struct_defs]:
  "triggerBuildRequest = GStruct [
    (''environment_id'', GString),
    (''commit_sha'', GString),
    (''branch'', GString)]"

definition createSecretRequest :: gotype where [struct_defs]:
  "createSecretRequest = GStruct [
    (''environment'', GString),
    (''key'', GString),
    (''value'', GString)]"

definition updateSecretRequest :: gotype where [struct_defs]:
  "updateSecretRequest = GStruct [
    (''value'', GString)]"

definition setAppEnvVarRequest :: gotype where [struct_defs]:
  "setAppEnvVarRequest = GStruct [
    (''environment'', GString),
    (''key'', GString),
    (''value'', GString)]"

definition updateAppEnvVarRequest :: gotype where [struct_defs]:
  "updateAppEnvVarRequest = GStruct [
    (''value'', GString)]"

definition provisionDatabaseRequest :: gotype where [struct_defs]:
  "provisionDatabaseRequest = GStruct [
    (''cluster_id'', GUUID),
    (''server_id'', GUUID),
    (''template_slug'', GString),
    (''version'', GString),
    (''name'', GString),
    (''size_gb'', GInt 64),
    (''cpu_millicores'', GInt 64),
    (''memory_mb'', GInt 64),
    (''backup_schedule'', GString),
    (''retention_days'', GInt 64)]"

definition linkDatabaseRequest :: gotype where [struct_defs]:
  "linkDatabaseRequest = GStruct [
    (''app_id'', GUUID),
    (''env_prefix'', GString)]"

definition restoreRequest :: gotype where [struct_defs]:
  "restoreRequest = GStruct [
    (''backup_id'', GUUID),
    (''target'', GString),
    (''new_name'', GString)]"

definition createVolumeRequest :: gotype where [struct_defs]:
  "createVolumeRequest = GStruct [
    (''cluster_id'', GUUID),
    (''server_id'', GUUID),
    (''name'', GString),
    (''size_gb'', GInt 32),
    (''filesystem'', GString)]"

definition attachVolumeRequest :: gotype where [struct_defs]:
  "attachVolumeRequest = GStruct [
    (''container_name'', GString),
    (''mount_path'', GString)]"

definition moveVolumeRequest :: gotype where [struct_defs]:
  "moveVolumeRequest = GStruct [
    (''target_server_id'', GUUID)]"

definition resizeVolumeRequest :: gotype where [struct_defs]:
  "resizeVolumeRequest = GStruct [
    (''new_size_gb'', GInt 32)]"

definition runQueryRequest :: gotype where [struct_defs]:
  "runQueryRequest = GStruct [
    (''sql'', GString),
    (''write_mode'', GBool)]"

definition notificationChannelRequest :: gotype where [struct_defs]:
  "notificationChannelRequest = GStruct [
    (''name'', GString),
    (''type'', GString),
    (''target'', GString),
    (''enabled'', GBool)]"

definition alertRuleRequest :: gotype where [struct_defs]:
  "alertRuleRequest = GStruct [
    (''scope_type'', GString),
    (''scope_id'', GUUID),
    (''name'', GString),
    (''metric_name'', GString),
    (''comparison'', GString),
    (''threshold'', GFloat),
    (''duration_seconds'', GInt 32),
    (''severity'', GString),
    (''enabled'', GBool),
    (''notification_channels'', GList GUUID)]"

definition request_structs :: "(string \<times> gotype) list" where
  "request_structs = [
    (''authH.Login'', loginRequest),
    (''authH.Signup'', signupRequest),
    (''authH.ForgotPassword'', forgotPasswordRequest),
    (''authH.ResetPassword'', resetPasswordRequest),
    (''authH.VerifyEmail'', verifyEmailRequest),
    (''authH.ResendVerification'', resendVerificationRequest),
    (''teamH.Create'', createTeamRequest),
    (''teamH.Update'', updateTeamRequest),
    (''teamH.UpdateMember'', updateMemberRequest),
    (''teamH.CreateInvite'', createInviteRequest),
    (''tokenH.Create'', createTokenRequest),
    (''serverH.Create'', createServerRequest),
    (''serverH.Update'', updateServerRequest),
    (''serverH.SetRole'', setServerRoleRequest),
    (''serverH.Cleanup'', cleanupServerRequest),
    (''provisionH.Start'', startProvisionRequest),
    (''tagH.Set'', setTagRequest),
    (''sshKeyH.Create'', createSSHKeyRequest),
    (''clusterH.Create'', createClusterRequest),
    (''clusterH.Update'', updateClusterRequest),
    (''clusterH.AddMember'', addMemberRequest),
    (''projectH.Create'', createProjectRequest),
    (''projectH.Update'', updateProjectRequest),
    (''projectH.CreateEnvironment'', createEnvironmentRequest),
    (''githubH.HandleCallback'', callbackRequest),
    (''registryH.Create'', createRegistryRequest),
    (''registryH.Update'', createRegistryRequest),
    (''appH.Create'', createAppRequest),
    (''appH.Update'', updateAppRequest),
    (''appH.SetRegistryCredential'', setRegistryCredentialRequest),
    (''appH.SetDomain'', setDomainRequest),
    (''appH.UpdateResources'', updateResourcesRequest),
    (''deployH.Rollback'', rollbackRequest),
    (''deployH.ScaleApp'', scaleAppRequest),
    (''deployH.UpdateTraffic'', updateTrafficRequest),
    (''deployH.CreateAutoscalingRule'', createAutoscalingRuleRequest),
    (''buildH.TriggerBuild'', triggerBuildRequest),
    (''secretH.Create'', createSecretRequest),
    (''secretH.Update'', updateSecretRequest),
    (''appEnvVarH.Create'', setAppEnvVarRequest),
    (''appEnvVarH.Update'', updateAppEnvVarRequest),
    (''databaseH.Provision'', provisionDatabaseRequest),
    (''databaseH.LinkDatabase'', linkDatabaseRequest),
    (''databaseH.Restore'', restoreRequest),
    (''volumeH.Create'', createVolumeRequest),
    (''volumeH.Attach'', attachVolumeRequest),
    (''volumeH.Move'', moveVolumeRequest),
    (''volumeH.Resize'', resizeVolumeRequest),
    (''dbToolingH.RunQuery'', runQueryRequest),
    (''observabilityH.CreateChannel'', notificationChannelRequest),
    (''observabilityH.CreateAlert'', alertRuleRequest),
    (''observabilityH.UpdateAlert'', alertRuleRequest)]"

text \<open>Two handlers go on whatever the decoder says (\<open>_ = respond.DecodeJSON(r, &req)\<close>).\<close>

definition ignores_decode_error :: "string \<Rightarrow> bool" where
  "ignores_decode_error h = (h \<in> {''deployH.Rollback'', ''buildH.TriggerBuild''})"

definition accepts_body :: "(string \<Rightarrow> bool) \<Rightarrow> string \<Rightarrow> js option \<Rightarrow> bool" where
  "accepts_body uuid h body =
     (case map_of request_structs h of
        None \<Rightarrow> True
      | Some t \<Rightarrow> ignores_decode_error h \<or> DecodeJSON uuid t body)"

section \<open>Shape and values\<close>

text \<open>The value checks alone: every integer and UUID of the body that goes into a field passes \<open>ok\<close>.\<close>

fun values_ok :: "(gotype \<Rightarrow> js \<Rightarrow> bool) \<Rightarrow> gotype \<Rightarrow> js \<Rightarrow> bool" where
  "values_ok ok GUUID (JStr s) = ok GUUID (JStr s)"
| "values_ok ok (GInt n) (JNum x) = ok (GInt n) (JNum x)"
| "values_ok ok (GList t) (JArr vs) = list_all (values_ok ok t) vs"
| "values_ok ok (GMap t) (JObj kvs) = list_all (\<lambda>e. values_ok ok t (snd e)) kvs"
| "values_ok ok (GStruct fs) (JObj kvs) =
     list_all (\<lambda>e. case go_field fs (fst e) of None \<Rightarrow> True | Some t \<Rightarrow> values_ok ok t (snd e)) kvs"
| "values_ok ok _ _ = True"

text \<open>The shape alone: the members are fields of the struct and have their JSON types.\<close>

abbreviation shape :: "gotype \<Rightarrow> js \<Rightarrow> bool" where
  "shape \<equiv> decodes (\<lambda>_ _. True)"

lemma decodes_split: "decodes ok t v \<longleftrightarrow> shape t v \<and> values_ok ok t v"
  by (induction ok t v rule: decodes.induct) (auto simp: list_all_iff split: option.splits)

definition fits :: "gotype \<Rightarrow> js \<Rightarrow> bool" where
  "fits t v = (v = JUndefined \<or> shape t (wire v))"

lemma shape_members:
  "shape (GStruct fs) (wire (JObj kvs)) \<longleftrightarrow>
     list_all (\<lambda>(k, v). v = JUndefined \<or> (case go_field fs k of None \<Rightarrow> False | Some t \<Rightarrow> fits t v)) kvs"
  by (induction kvs) (auto simp: fits_def split: option.splits)

lemma fits_fields [simp]:
  "fits GString (JStr s)" "fits GUUID (JStr s)" "fits GBool (JBool b)" "fits (GInt n) (jint i)"
  "fits GFloat (JNum x)" "fits GString (jstr_opt so)" "fits GUUID (jstr_opt so)" "fits GString (jstr_null so)"
  "fits GUUID (jstr_null so)" "fits GString (jstr_opt_null soo)"
  "fits GBool (jbool_opt bo)" "fits (GInt n) (jint_opt io)"
  "fits (GList GString) (jstrs ss)" "fits (GList GUUID) (jstrs ss)" "fits (GList GString) (jstrs_opt sso)"
  "fits (GList GUUID) (jstrs_opt sso)" "fits t JUndefined" "fits t JNull"
  "fits (GInt n) (JNum x)" "fits (GInt n) (case xo of None \<Rightarrow> JUndefined | Some x \<Rightarrow> JNum x)"
  "fits GFloat (case xo of None \<Rightarrow> JUndefined | Some x \<Rightarrow> JNum x)"
  by (auto simp: fits_def js_field_defs list_all_iff split: option.splits jsnum.splits)

lemma list_all_True [simp]: "list_all (\<lambda>x. True) xs"
  by (simp add: list_all_iff)

lemma fits_nested [simp]:
  "fits (GStruct fs) (JObj kvs) \<longleftrightarrow>
     list_all (\<lambda>(k, v). v = JUndefined \<or> (case go_field fs k of None \<Rightarrow> False | Some t \<Rightarrow> fits t v)) kvs"
  "fits (GMap GString) (JObj (map (\<lambda>(k, v). (k, JStr v)) m))"
  "fits (GList t) (JArr (map f xs)) \<longleftrightarrow> list_all (\<lambda>x. shape t (wire (f x))) xs"
proof -
  show "fits (GStruct fs) (JObj kvs) \<longleftrightarrow>
      list_all (\<lambda>(k, v). v = JUndefined \<or> (case go_field fs k of None \<Rightarrow> False | Some t \<Rightarrow> fits t v)) kvs"
    unfolding shape_members [symmetric] by (simp add: fits_def)
qed (auto simp: fits_def list_all_iff)

section \<open>The bodies of the console\<close>

named_theorems struct_of \<open>the request struct of a handler\<close>

named_theorems body_shapes \<open>the bodies of the client surface fit the structs\<close>

lemma has_struct [struct_of]:
  "map_of request_structs ''authH.Login'' = Some loginRequest"
  "map_of request_structs ''authH.Signup'' = Some signupRequest"
  "map_of request_structs ''authH.ForgotPassword'' = Some forgotPasswordRequest"
  "map_of request_structs ''authH.ResetPassword'' = Some resetPasswordRequest"
  "map_of request_structs ''authH.VerifyEmail'' = Some verifyEmailRequest"
  "map_of request_structs ''authH.ResendVerification'' = Some resendVerificationRequest"
  "map_of request_structs ''teamH.Create'' = Some createTeamRequest"
  "map_of request_structs ''teamH.Update'' = Some updateTeamRequest"
  "map_of request_structs ''teamH.UpdateMember'' = Some updateMemberRequest"
  "map_of request_structs ''teamH.CreateInvite'' = Some createInviteRequest"
  "map_of request_structs ''tokenH.Create'' = Some createTokenRequest"
  "map_of request_structs ''serverH.Create'' = Some createServerRequest"
  "map_of request_structs ''serverH.Update'' = Some updateServerRequest"
  "map_of request_structs ''serverH.SetRole'' = Some setServerRoleRequest"
  "map_of request_structs ''serverH.Cleanup'' = Some cleanupServerRequest"
  "map_of request_structs ''provisionH.Start'' = Some startProvisionRequest"
  "map_of request_structs ''tagH.Set'' = Some setTagRequest"
  "map_of request_structs ''sshKeyH.Create'' = Some createSSHKeyRequest"
  "map_of request_structs ''clusterH.Create'' = Some createClusterRequest"
  "map_of request_structs ''clusterH.Update'' = Some updateClusterRequest"
  "map_of request_structs ''clusterH.AddMember'' = Some addMemberRequest"
  "map_of request_structs ''projectH.Create'' = Some createProjectRequest"
  "map_of request_structs ''projectH.Update'' = Some updateProjectRequest"
  "map_of request_structs ''projectH.CreateEnvironment'' = Some createEnvironmentRequest"
  "map_of request_structs ''githubH.HandleCallback'' = Some callbackRequest"
  "map_of request_structs ''registryH.Create'' = Some createRegistryRequest"
  "map_of request_structs ''registryH.Update'' = Some createRegistryRequest"
  "map_of request_structs ''appH.Create'' = Some createAppRequest"
  "map_of request_structs ''appH.Update'' = Some updateAppRequest"
  "map_of request_structs ''appH.SetRegistryCredential'' = Some setRegistryCredentialRequest"
  "map_of request_structs ''appH.SetDomain'' = Some setDomainRequest"
  "map_of request_structs ''appH.UpdateResources'' = Some updateResourcesRequest"
  "map_of request_structs ''deployH.Rollback'' = Some rollbackRequest"
  "map_of request_structs ''deployH.ScaleApp'' = Some scaleAppRequest"
  "map_of request_structs ''deployH.UpdateTraffic'' = Some updateTrafficRequest"
  "map_of request_structs ''deployH.CreateAutoscalingRule'' = Some createAutoscalingRuleRequest"
  "map_of request_structs ''buildH.TriggerBuild'' = Some triggerBuildRequest"
  "map_of request_structs ''secretH.Create'' = Some createSecretRequest"
  "map_of request_structs ''secretH.Update'' = Some updateSecretRequest"
  "map_of request_structs ''appEnvVarH.Create'' = Some setAppEnvVarRequest"
  "map_of request_structs ''appEnvVarH.Update'' = Some updateAppEnvVarRequest"
  "map_of request_structs ''databaseH.Provision'' = Some provisionDatabaseRequest"
  "map_of request_structs ''databaseH.LinkDatabase'' = Some linkDatabaseRequest"
  "map_of request_structs ''databaseH.Restore'' = Some restoreRequest"
  "map_of request_structs ''volumeH.Create'' = Some createVolumeRequest"
  "map_of request_structs ''volumeH.Attach'' = Some attachVolumeRequest"
  "map_of request_structs ''volumeH.Move'' = Some moveVolumeRequest"
  "map_of request_structs ''volumeH.Resize'' = Some resizeVolumeRequest"
  "map_of request_structs ''dbToolingH.RunQuery'' = Some runQueryRequest"
  "map_of request_structs ''observabilityH.CreateChannel'' = Some notificationChannelRequest"
  "map_of request_structs ''observabilityH.CreateAlert'' = Some alertRuleRequest"
  "map_of request_structs ''observabilityH.UpdateAlert'' = Some alertRuleRequest"
  by (simp_all add: request_structs_def)

lemmas input_defs = PlacementConstraints_js_def CreateTokenInput_js_def CreateServerInput_js_def CreateSshKeyInput_js_def
  CreateClusterInput_js_def UpdateClusterInput_js_def CreateProjectInput_js_def UpdateProjectInput_js_def
  CreateRegistryInput_js_def CreateAppInput_js_def UpdateAppInput_js_def UpdateResourcesInput_js_def
  TrafficWeightInput_js_def CreateAutoscalingRuleInput_js_def ScaleInput_js_def TriggerBuildInput_js_def
  CreateSecretInput_js_def CreateAppEnvVarInput_js_def ProvisionDatabaseInput_js_def LinkDatabaseInput_js_def
  CreateVolumeInput_js_def AttachVolumeInput_js_def RunQueryInput_js_def CreateChannelInput_js_def
  AlertRuleInput_js_def

lemma no_struct [struct_of]:
  "map_of request_structs ''appEnvVarH.Reveal'' = None"
  "map_of request_structs ''appH.VerifyDomain'' = None"
  "map_of request_structs ''authH.Logout'' = None"
  "map_of request_structs ''clusterH.RegenerateMesh'' = None"
  "map_of request_structs ''databaseH.CreateBackup'' = None"
  "map_of request_structs ''databaseH.RotateCredentials'' = None"
  "map_of request_structs ''databaseH.Start'' = None"
  "map_of request_structs ''databaseH.Stop'' = None"
  "map_of request_structs ''deployH.EvaluateAutoscaling'' = None"
  "map_of request_structs ''deployH.PromoteTrafficBackend'' = None"
  "map_of request_structs ''githubH.CreateManifest'' = None"
  "map_of request_structs ''githubH.SyncInstallations'' = None"
  "map_of request_structs ''observabilityH.EvaluateAlerts'' = None"
  "map_of request_structs ''provisionH.Retry'' = None"
  "map_of request_structs ''registryH.Revalidate'' = None"
  "map_of request_structs ''secretH.Reveal'' = None"
  "map_of request_structs ''volumeH.Detach'' = None"
  "map_of request_structs ''volumeH.Snapshot'' = None"
  by (simp_all add: request_structs_def)

lemma body_shapes_1 [body_shapes]:
  "shape loginRequest (wire (ep_body (authApi_login email0 password0)))"
  "shape signupRequest (wire (ep_body (authApi_signup name1 email1 password1)))"
  "shape forgotPasswordRequest (wire (ep_body (authApi_forgotPassword email2)))"
  "shape resetPasswordRequest (wire (ep_body (authApi_resetPassword token3 password3)))"
  "shape verifyEmailRequest (wire (ep_body (authApi_verifyEmail token4)))"
  "shape resendVerificationRequest (wire (ep_body (authApi_resendVerification email5)))"
  "shape createTeamRequest (wire (ep_body (teamsApi_create name6)))"
  "shape updateTeamRequest (wire (ep_body (teamsApi_update ident7 name7)))"
  "shape updateMemberRequest (wire (ep_body (membersApi_updateRole teamId8 userId8 role8)))"
  "shape createInviteRequest (wire (ep_body (invitesApi_create teamId9 email9 role9)))"
  "shape createTokenRequest (wire (ep_body (tokensApi_create teamId10 input10)))"
  "shape createServerRequest (wire (ep_body (serversApi_create teamId11 input11)))"
  by (simp_all add: endpoint_defs api_verbs input_defs struct_defs shape_members go_field_def del: wire.simps decodes.simps
      split: option.split)

lemma body_shapes_2 [body_shapes]:
  "shape updateServerRequest (wire (ep_body (serversApi_update teamId12 serverId12 name12 hostname12 public_ip12)))"
  "shape setServerRoleRequest (wire (ep_body (serversApi_setRole teamId13 serverId13 role13)))"
  "shape startProvisionRequest (wire (ep_body (serverProvisionApi_start teamId14 serverId14 components14)))"
  "shape setTagRequest (wire (ep_body (tagsApi_set teamId15 serverId15 key15 value15)))"
  "shape createSSHKeyRequest (wire (ep_body (sshKeysApi_create teamId16 input16)))"
  "shape createClusterRequest (wire (ep_body (clustersApi_create teamId17 input17)))"
  "shape updateClusterRequest (wire (ep_body (clustersApi_update teamId18 clusterId18 patch18)))"
  "shape addMemberRequest (wire (ep_body (clusterMembersApi_add teamId19 clusterId19 serverId19)))"
  "shape createProjectRequest (wire (ep_body (projectsApi_create teamId20 input20)))"
  "shape updateProjectRequest (wire (ep_body (projectsApi_update teamId21 projectId21 patch21)))"
  "shape createEnvironmentRequest (wire (ep_body (environmentsApi_create projectId22 name22)))"
  "shape callbackRequest (wire (ep_body (githubApi_callback teamId23 code23)))"
  by (simp_all add: endpoint_defs api_verbs input_defs struct_defs shape_members go_field_def del: wire.simps decodes.simps
      split: option.split)

lemma body_shapes_3 [body_shapes]:
  "shape createRegistryRequest (wire (ep_body (registriesApi_create teamId24 input24)))"
  "shape createRegistryRequest (wire (ep_body (registriesApi_update teamId25 ident25 input25)))"
  "shape createAppRequest (wire (ep_body (appsApi_create projectId26 input26)))"
  "shape updateAppRequest (wire (ep_body (appsApi_update projectId27 appId27 patch27)))"
  "shape setRegistryCredentialRequest (wire (ep_body (appsApi_setRegistryCredential appId28 registry_credential_id28)))"
  "shape setDomainRequest (wire (ep_body (appsApi_setDomain appId29 custom_domain29)))"
  "shape updateAppRequest (wire (ep_body (appsApi_removeDomain app30)))"
  "shape updateResourcesRequest (wire (ep_body (appsApi_updateResources appId31 input31)))"
  "shape rollbackRequest (wire (ep_body (appsApi_rollback appId32 environment_id32)))"
  "shape scaleAppRequest (wire (ep_body (appsApi_scale appId33 input33)))"
  "shape updateTrafficRequest (wire (ep_body (appsApi_updateTraffic appId34 weights34)))"
  "shape createAutoscalingRuleRequest (wire (ep_body (appsApi_createAutoscalingRule appId35 input35)))"
  by (simp_all add: endpoint_defs api_verbs input_defs struct_defs shape_members go_field_def del: wire.simps decodes.simps
      split: option.split)

lemma body_shapes_4 [body_shapes]:
  "shape triggerBuildRequest (wire (ep_body (buildsApi_trigger appId36 input36)))"
  "shape createSecretRequest (wire (ep_body (secretsApi_create teamId37 input37)))"
  "shape updateSecretRequest (wire (ep_body (secretsApi_update teamId38 secretId38 value38)))"
  "shape setAppEnvVarRequest (wire (ep_body (appEnvVarsApi_create appId39 input39)))"
  "shape updateAppEnvVarRequest (wire (ep_body (appEnvVarsApi_update appId40 varId40 value40)))"
  "shape provisionDatabaseRequest (wire (ep_body (databasesApi_provision projectId41 input41)))"
  "shape linkDatabaseRequest (wire (ep_body (databasesApi_link projectId42 dbId42 input42)))"
  "shape restoreRequest (wire (ep_body (databasesApi_restore projectId43 dbId43 backup_id43 target43 new_name43)))"
  "shape createVolumeRequest (wire (ep_body (volumesApi_create teamId44 input44)))"
  "shape attachVolumeRequest (wire (ep_body (volumesApi_attach teamId45 volumeId45 input45)))"
  "shape moveVolumeRequest (wire (ep_body (volumesApi_move teamId46 volumeId46 target_server_id46)))"
  "shape resizeVolumeRequest (wire (ep_body (volumesApi_resize teamId47 volumeId47 new_size_gb47)))"
  by (simp_all add: endpoint_defs api_verbs input_defs struct_defs shape_members go_field_def del: wire.simps decodes.simps
      split: option.split)

lemma body_shapes_5 [body_shapes]:
  "shape runQueryRequest (wire (ep_body (dbToolingApi_runQuery dbId48 input48)))"
  "shape notificationChannelRequest (wire (ep_body (observabilityApi_createChannel teamId49 input49)))"
  "shape alertRuleRequest (wire (ep_body (observabilityApi_createAlert teamId50 input50)))"
  "shape alertRuleRequest (wire (ep_body (observabilityApi_updateAlert teamId51 alertId51 input51)))"
  by (simp_all add: endpoint_defs api_verbs input_defs struct_defs shape_members go_field_def del: wire.simps decodes.simps
      split: option.split)

lemma console_call_shape:
  assumes "console_call ep h" and "map_of request_structs h = Some t" and "ep_body ep \<noteq> JUndefined"
  shows "shape t (wire (ep_body ep))"
  using assms(1)
proof cases
qed (use assms(2,3) in \<open>simp_all add: struct_of body_shapes\<close>,
  use assms(3) in \<open>simp_all add: endpoint_defs api_verbs\<close>)

lemma body_sent:
  assumes "console_call ep h" and "ep_method ep \<in> {''POST'', ''PUT''}" and "map_of request_structs h = Some t"
    and "\<And>t s. ep \<noteq> serversApi_cleanup t s"
  shows "ep_body ep \<noteq> JUndefined"
  using assms(1)
proof cases
qed (use assms(2-4) in \<open>simp_all add: endpoint_defs api_verbs input_defs struct_of split: option.split\<close>, blast)

lemma wire_body: "fa_body (call_args ep) = (if ep_body ep = JUndefined then None else Some (wire (ep_body ep)))"
  by (simp add: call_args_def request_args_plain)



text \<open>
  Cleaning up a server from the console never succeeds: the request reaches \<open>ServerHandler.Cleanup\<close>, which
  refuses a request without a body, and the console sends none.
\<close>

lemma cleanup_refused:
  assumes "plain_seg t" and "plain_seg s"
  shows "''serverH.Cleanup'' \<in> set (handlers (serversApi_cleanup t s)) \<and>
    \<not> accepts_body uuid ''serverH.Cleanup'' (fa_body (call_args (serversApi_cleanup t s)))"
proof -
  have "console_call (serversApi_cleanup t s) ''serverH.Cleanup''"
    using assms by (rule console_call.intros)
  then show ?thesis
    by (auto simp: accepts_body_def struct_of ignores_decode_error_def DecodeJSON_def wire_body serversApi_cleanup_def api_verbs
        dest: console_call_handled)
qed

lemma cleanup_refused_witness:
  "\<not> accepts_body (\<lambda>_. True) ''serverH.Cleanup'' (fa_body (call_args (serversApi_cleanup ''t'' ''s'')))"
  by (rule conjunct2 [OF cleanup_refused])
    (simp_all add: plain_seg_def single_dot_def double_dot_def toLowerCase_def lower_char_def code_of_def)

end
