(* ===== verification/Server_Api.thy ===== *)
theory Server_Api
  imports Api_Client Model_Types
begin

text \<open>
  The server-side half of the console: \<open>lib/server-api.ts\<close> (the cookie-forwarding fetch
  wrapper and \<open>tryGet\<close>), \<open>lib/auth.ts\<close> (session lookup and the two route guards) and
  \<open>lib/team.ts\<close> (the active team). The incoming request is the parameter \<open>cookie\<close>, the value
  of its raw \<open>cookie:\<close> header; \<open>fetch\<close> is a parameter as in \<open>Http_Client\<close>.
\<close>

section \<open>The wrapper\<close>

definition server_BASE :: "string option \<Rightarrow> string" where
  "server_BASE api_url = (case api_url of Some u \<Rightarrow> u | None \<Rightarrow> ''http://127.0.0.1:8080'') @ ''/api/v1''"

definition cookie_entry :: "string option \<Rightarrow> (string, string) obj" where
  "cookie_entry cookie = (case cookie of Some c \<Rightarrow> if c = [] then [] else [(''cookie'', c)] | None \<Rightarrow> [])"

fun pickString :: "js \<Rightarrow> string list \<Rightarrow> string option" where
  "pickString v [] = None"
| "pickString v (k # ks) =
     (if \<not> truthy v \<or> \<not> is_object v then None
      else case get_prop v k of JStr s \<Rightarrow> Some s | _ \<Rightarrow> pickString v ks)"

text \<open>The environment of a render: \<open>NIXWAY_API_URL\<close> and the request's cookie header.\<close>

record server_env =
  env_api_url :: "string option"
  env_cookie :: "string option"

definition server_args :: "server_env \<Rightarrow> endpoint \<Rightarrow> fetch_args" where
  "server_args env ep =
     \<lparr>fa_url = server_BASE (env_api_url env) @ ep_path ep, fa_method = ep_method ep,
      fa_headers = cookie_entry (env_cookie env) @
        (if truthy (ep_body ep) then [(''Content-Type'', ''application/json'')] else []),
      fa_body = (if ep_body ep \<noteq> JUndefined then Some (wire (ep_body ep)) else None),
      fa_credentials = ''same-origin'', fa_cache = ''no-store''\<rparr>"

definition server_handle :: "response \<Rightarrow> js result" where
  "server_handle r =
     (if res_status r = 204 then Inr JUndefined
      else let data = response_data r in
        if \<not> res_ok r
        then Inl (ApiError (res_status r)
               (case pickString data [''error'', ''message''] of Some m \<Rightarrow> m | None \<Rightarrow> res_statusText r)
               (pickString data [''code'']))
        else Inr (nullish_to_undefined data))"

definition server_request :: "server_env \<Rightarrow> fetch \<Rightarrow> endpoint \<Rightarrow> js result" where
  "server_request env fetch ep =
     (case fetch (server_args env ep) of Inl m \<Rightarrow> Inl (OtherError m) | Inr r \<Rightarrow> server_handle r)"

definition tryGet :: "server_env \<Rightarrow> fetch \<Rightarrow> string \<Rightarrow> js \<Rightarrow> js" where
  "tryGet env fetch path fallback =
     (case server_request env fetch (api_get path) of Inl e \<Rightarrow> fallback | Inr v \<Rightarrow> v)"

interpretation rsc: http_client "server_request env" "server_args env"
proof
  fix fetch :: fetch and ep r v
  assume *: "fetch (server_args env ep) = Inr r"
  show "res_status r = 204 \<Longrightarrow> server_request env fetch ep = Inr JUndefined"
    using * by (simp add: server_request_def server_handle_def)
  show "res_ok r \<Longrightarrow> res_status r \<noteq> 204 \<Longrightarrow> JSON_parse (res_text r) = Some v \<Longrightarrow> v \<noteq> JNull \<Longrightarrow>
      server_request env fetch ep = Inr v"
    using * by (simp add: server_request_def server_handle_def response_data_parse nullish_to_undefined_def)
  show "\<not> res_ok r \<Longrightarrow> \<exists>msg code. server_request env fetch ep = Inl (ApiError (res_status r) msg code)"
    using * by (auto simp: server_request_def server_handle_def res_ok_def Let_def)
qed (simp add: server_request_def)

section \<open>Sessions and guards\<close>

text \<open>
  \<open>getCurrentUser\<close>: \<open>JNull\<close> without a cookie, on a failed fetch, on an error status and on a
  body that is not JSON; otherwise whatever the body holds.
\<close>

definition me_args :: "server_env \<Rightarrow> string \<Rightarrow> fetch_args" where
  "me_args env cookieHeader =
     \<lparr>fa_url = server_BASE (env_api_url env) @ ''/auth/me'', fa_method = ''GET'',
      fa_headers = [(''cookie'', cookieHeader)], fa_body = None,
      fa_credentials = ''same-origin'', fa_cache = ''no-store''\<rparr>"

definition getCurrentUser :: "server_env \<Rightarrow> fetch \<Rightarrow> js" where
  "getCurrentUser env fetch =
     (case env_cookie env of
        None \<Rightarrow> JNull
      | Some c \<Rightarrow>
          if c = [] then JNull
          else case fetch (me_args env c) of
            Inl e \<Rightarrow> JNull
          | Inr r \<Rightarrow>
              if \<not> res_ok r then JNull
              else case JSON_parse (res_text r) of None \<Rightarrow> JNull | Some v \<Rightarrow> v)"

text \<open>A guard either aborts the render with a redirect or lets it continue.\<close>

datatype 'a guard = Redirect string | Continue 'a

definition requireUser :: "server_env \<Rightarrow> fetch \<Rightarrow> js guard" where
  "requireUser env fetch =
     (let user = getCurrentUser env fetch in if \<not> truthy user then Redirect ''/login'' else Continue user)"

definition requireGuest :: "server_env \<Rightarrow> fetch \<Rightarrow> unit guard" where
  "requireGuest env fetch =
     (if truthy (getCurrentUser env fetch) then Redirect ''/dashboard'' else Continue ())"

section \<open>The active team\<close>

definition TEAM_COOKIE :: string where
  "TEAM_COOKIE = ''nixway-team''"

record TeamContext =
  tc_activeTeam :: "Team option"
  tc_teams :: "Team list"

text \<open>
  \<open>listing\<close> is the outcome of \<open>serverApi.get<Team[]>("/teams")\<close>, \<open>cookies\<close> the cookies of the
  request.
\<close>

definition safeListTeams :: "Team list result \<Rightarrow> Team list" where
  "safeListTeams listing = (case listing of Inl e \<Rightarrow> [] | Inr ts \<Rightarrow> ts)"

definition getTeamContext :: "Team list result \<Rightarrow> (string, string) obj \<Rightarrow> TeamContext" where
  "getTeamContext listing cookies =
     (let teams = safeListTeams listing in
      if length teams = 0 then \<lparr>tc_activeTeam = None, tc_teams = teams\<rparr>
      else
        let cookieId = obj_get cookies TEAM_COOKIE;
            fromCookie = (case cookieId of
                Some c \<Rightarrow> if c = [] then None else find (\<lambda>t. Team_id t = c) teams
              | None \<Rightarrow> None)
        in \<lparr>tc_activeTeam = Some (case fromCookie of Some t \<Rightarrow> t | None \<Rightarrow> teams ! 0), tc_teams = teams\<rparr>)"

text \<open>
  \<open>switchTo\<close> of \<open>components/layout/TeamSwitcher.tsx\<close>: the cookie jar after the click. The page is
  then rendered again.
\<close>

definition switchTo :: "Team option \<Rightarrow> string \<Rightarrow> (string, string) obj \<Rightarrow> (string, string) obj" where
  "switchTo activeTeam teamId cookies =
     (if map_option Team_id activeTeam = Some teamId then cookies
      else obj_set TEAM_COOKIE teamId cookies)"

section \<open>Facts\<close>

lemma pickString_Some:
  "pickString v ks = Some s \<Longrightarrow> \<exists>k \<in> set ks. get_prop v k = JStr s"
  by (induction v ks rule: pickString.induct) (auto split: if_splits js.splits)

lemma pickString_first:
  assumes "is_object v" and "truthy v" and "get_prop v k = JStr s"
  shows "pickString v (k # ks) = Some s"
  using assms by simp

text \<open>
  For every response that is not a success, server-rendered and browser calls report the
  same status, and the same message whenever the envelope carries a non-empty \<open>error\<close> string.
\<close>

lemma wrappers_agree:
  assumes "\<not> res_ok r" and "get_prop (response_data r) ''error'' = JStr m" and "m \<noteq> []"
    and "fetch (server_args env ep) = Inr r" and "fetch (call_args ep) = Inr r"
  shows "\<exists>c c'. server_request env fetch ep = Inl (ApiError (res_status r) m c) \<and>
    call fetch ep = Inl (ApiError (res_status r) m c')"
proof -
  obtain fs where fs: "response_data r = JObj fs" "obj_get fs ''error'' = Some (JStr m)"
    using assms(2) by (cases "response_data r") (auto split: option.splits)
  have s: "res_status r \<noteq> 204" using assms(1) by (auto simp: res_ok_def)
  have "server_handle r = Inl (ApiError (res_status r) m (pickString (JObj fs) [''code'']))"
    using assms(1) s fs by (simp add: server_handle_def Let_def)
  moreover have "handle_response r = Inl (ApiError (res_status r) m (string_member (JObj fs) ''code''))"
    using assms(1,3) s fs by (simp add: handle_response_def error_message_def or_string_def string_member_def Let_def)
  ultimately show ?thesis
    using assms(4,5) by (simp add: server_request_def call_def request_def call_args_def)
qed

lemma active_team_of:
  assumes "ts \<noteq> []"
  shows "tc_activeTeam (getTeamContext (Inr ts) cookies) = Some (
    case obj_get cookies TEAM_COOKIE of
      Some c \<Rightarrow> if c \<noteq> [] \<and> c \<in> Team_id ` set ts then the (find (\<lambda>t. Team_id t = c) ts) else hd ts
    | None \<Rightarrow> hd ts)"
proof -
  have "find (\<lambda>t. Team_id t = c) ts = None" if "c \<notin> Team_id ` set ts" for c
    using that by (auto simp: find_None_iff)
  moreover have "\<exists>t. find (\<lambda>t. Team_id t = c) ts = Some t" if "c \<in> Team_id ` set ts" for c
    using that by (cases "find (\<lambda>t. Team_id t = c) ts") (auto simp: find_None_iff)
  ultimately show ?thesis using assms
    by (cases "obj_get cookies TEAM_COOKIE")
      (fastforce simp: getTeamContext_def safeListTeams_def Let_def hd_conv_nth)+
qed

lemma find_team:
  assumes "c \<in> Team_id ` set ts"
  shows "the (find (\<lambda>t. Team_id t = c) ts) \<in> set ts \<and> Team_id (the (find (\<lambda>t. Team_id t = c) ts)) = c"
proof (cases "find (\<lambda>t. Team_id t = c) ts")
  case None
  with assms show ?thesis by (auto simp: find_None_iff)
next
  case (Some t)
  then show ?thesis using find_SomeD [OF Some] by simp
qed

lemma wrappers_agree_witness:
  "let r = \<lparr>res_status = 403, res_statusText = ''Forbidden'', res_text = ''{\"error\":\"x\"}''\<rparr>;
       env = \<lparr>env_api_url = None, env_cookie = Some ''s=1''\<rparr>; ep = api_get ''/teams''
   in \<exists>c c'. server_request env (\<lambda>a. Inr r) ep = Inl (ApiError 403 ''x'' c) \<and>
        call (\<lambda>a. Inr r) ep = Inl (ApiError 403 ''x'' c')"
proof -
  let ?r = "\<lparr>res_status = 403, res_statusText = ''Forbidden'', res_text = ''{\"error\":\"x\"}''\<rparr>"
  have "get_prop (response_data ?r) ''error'' = JStr ''x''" by code_simp
  from wrappers_agree [of ?r, OF _ this, of "\<lambda>a. Inr ?r"] show ?thesis
    by (simp add: res_ok_def Let_def)
qed

text \<open>
  The active team of a render is a team of the user's list whatever the cookie says, and
  there is none exactly when the list is empty or could not be fetched.
\<close>

lemma active_team_valid:
  "case tc_activeTeam (getTeamContext listing cookies) of
     Some t \<Rightarrow> t \<in> set (safeListTeams listing)
   | None \<Rightarrow> safeListTeams listing = []"
proof (cases "safeListTeams listing = []")
  case True
  then show ?thesis by (simp add: getTeamContext_def)
next
  case False
  then obtain ts where "listing = Inr ts" "ts \<noteq> []"
    by (cases listing) (auto simp: safeListTeams_def)
  then show ?thesis
    using active_team_of [of ts cookies] find_team by (auto simp: safeListTeams_def split: option.splits)
qed

text \<open>
  Picking a team in the switcher takes effect: the next render shows that team, whether or
  not the click wrote the cookie.
\<close>

lemma team_switch:
  assumes "teamId \<in> Team_id ` set ts" and "teamId \<noteq> []"
    and "ctx = getTeamContext (Inr ts) cookies"
  shows "map_option Team_id (tc_activeTeam
    (getTeamContext (Inr ts) (switchTo (tc_activeTeam ctx) teamId cookies))) = Some teamId"
proof (cases "map_option Team_id (tc_activeTeam ctx) = Some teamId")
  case True
  with assms(3) show ?thesis by (simp add: switchTo_def)
next
  case False
  have "ts \<noteq> []" using assms(1) by auto
  with False assms(1,2) find_team [OF assms(1)] show ?thesis
    by (auto simp: switchTo_def active_team_of obj_get_set)
qed

lemma team_switch_witness:
  "let ts = [\<lparr>Team_id = ''a'', Team_name = ''A'', Team_slug = ''a'', Team_created_at = [], Team_updated_at = []\<rparr>,
             \<lparr>Team_id = ''b'', Team_name = ''B'', Team_slug = ''b'', Team_created_at = [], Team_updated_at = []\<rparr>]
   in map_option Team_id (tc_activeTeam
        (getTeamContext (Inr ts) (switchTo (tc_activeTeam (getTeamContext (Inr ts) [])) ''b'' []))) = Some ''b''"
  unfolding Let_def by (rule team_switch [OF _ _ refl]) simp_all

text \<open>
  The two route guards never bounce a visitor between each other: on one and the same
  request exactly one of them redirects, \<open>requireUser\<close> to the login page and \<open>requireGuest\<close> to the
  dashboard, and a request without a session cookie is always sent to the login page.
\<close>

lemma guards_exclusive:
  "(requireUser env fetch = Redirect ''/login'') = (requireGuest env fetch = Continue ()) \<and>
   (requireGuest env fetch = Redirect ''/dashboard'') = (\<exists>u. requireUser env fetch = Continue u \<and> truthy u) \<and>
   (env_cookie env = None \<or> env_cookie env = Some [] \<longrightarrow> requireUser env fetch = Redirect ''/login'')"
  by (auto simp: requireUser_def requireGuest_def getCurrentUser_def Let_def)

lemma guards_exclusive_witness:
  "requireUser \<lparr>env_api_url = None, env_cookie = None\<rparr> (\<lambda>a. Inl []) = Redirect ''/login''"
  using guards_exclusive [of "\<lparr>env_api_url = None, env_cookie = None\<rparr>" "\<lambda>a. Inl []"] by simp

end
