(* ===== verification/Legacy_Client.thy ===== *)
theory Legacy_Client
  imports Server_Api
begin

text \<open>
  The first console, \<open>apps/web/src\<close>: its fetch wrapper (\<open>lib/api.ts\<close>) and the hooks
  \<open>use-team-context\<close>, \<open>use-sse\<close> and \<open>use-auth\<close>. The wrapper is a third client of the HTTP
  contract of \<open>Http_Client\<close>; the team hook is compared with \<open>Server_Api.getTeamContext\<close>.
\<close>

section \<open>The wrapper\<close>

text \<open>\<open>String(v)\<close>, which \<open>super(message)\<close> applies to a message that is not a string.\<close>

fun decimals :: "nat \<Rightarrow> rat \<Rightarrow> nat" where
  "decimals 0 r = 0"
| "decimals (Suc n) r = (if r = of_int (floor r) then 0 else Suc (decimals n (10 * r)))"

fun num_to_string :: "jsnum \<Rightarrow> string" where
  "num_to_string (Num r) = to_fixed (decimals 21 r) r"
| "num_to_string NaN = ''NaN''"
| "num_to_string Infinity = ''Infinity''"
| "num_to_string MinusInfinity = ''-Infinity''"

fun js_to_string :: "js \<Rightarrow> string" where
  "js_to_string JUndefined = ''undefined''"
| "js_to_string JNull = ''null''"
| "js_to_string (JBool b) = (if b then ''true'' else ''false'')"
| "js_to_string (JNum x) = num_to_string x"
| "js_to_string (JStr s) = s"
| "js_to_string (JArr vs) =
     join '','' (map (\<lambda>v. if v = JUndefined \<or> v = JNull then [] else js_to_string v) vs)"
| "js_to_string (JObj fs) = ''[object Object]''"

definition legacy_args :: "endpoint \<Rightarrow> fetch_args" where
  "legacy_args ep =
     \<lparr>fa_url = ''/api/v1'' @ ep_path ep, fa_method = ep_method ep,
      fa_headers = (if truthy (ep_body ep) then [(''Content-Type'', ''application/json'')] else []),
      fa_body = (if truthy (ep_body ep) then Some (wire (ep_body ep)) else None),
      fa_credentials = ''include'', fa_cache = ''default''\<rparr>"

text \<open>
  \<open>data.message || res.statusText\<close>, where \<open>data\<close> is the parsed body or \<open>{}\<close>; reading a property of
  \<open>null\<close> raises a \<open>TypeError\<close> in place of the \<open>ApiError\<close>.
\<close>

definition legacy_error :: "response \<Rightarrow> failure" where
  "legacy_error r =
     (let data = (case JSON_parse (res_text r) of Some v \<Rightarrow> v | None \<Rightarrow> JObj []) in
      if data = JNull then OtherError ''TypeError''
      else let m = get_prop data ''message'' in
        ApiError (res_status r) (if truthy m then js_to_string m else res_statusText r) None)"

definition legacy_handle :: "response \<Rightarrow> js result" where
  "legacy_handle r =
     (if \<not> res_ok r then Inl (legacy_error r)
      else if res_status r = 204 then Inr JUndefined
      else case JSON_parse (res_text r) of Some v \<Rightarrow> Inr v | None \<Rightarrow> Inl (OtherError ''SyntaxError''))"

definition legacy_request :: "fetch \<Rightarrow> endpoint \<Rightarrow> js result" where
  "legacy_request fetch ep =
     (case fetch (legacy_args ep) of Inl m \<Rightarrow> Inl (OtherError m) | Inr r \<Rightarrow> legacy_handle r)"

interpretation legacy: http_client legacy_request legacy_args
proof
  fix fetch :: fetch and ep r v
  assume *: "fetch (legacy_args ep) = Inr r"
  show "res_status r = 204 \<Longrightarrow> legacy_request fetch ep = Inr JUndefined"
    using * by (simp add: legacy_request_def legacy_handle_def res_ok_def)
  show "res_ok r \<Longrightarrow> res_status r \<noteq> 204 \<Longrightarrow> JSON_parse (res_text r) = Some v \<Longrightarrow> v \<noteq> JNull \<Longrightarrow>
      legacy_request fetch ep = Inr v"
    using * by (simp add: legacy_request_def legacy_handle_def)
  show "\<not> res_ok r \<Longrightarrow> JSON_parse (res_text r) \<noteq> Some JNull \<Longrightarrow>
      \<exists>msg code. legacy_request fetch ep = Inl (ApiError (res_status r) msg code)"
    using * by (auto simp: legacy_request_def legacy_handle_def legacy_error_def Let_def split: option.splits)
qed (simp add: legacy_request_def)

section \<open>The team hook\<close>

definition STORAGE_KEY :: string where
  "STORAGE_KEY = ''nixway_current_team''"

text \<open>The hook's state, the query result (\<open>None\<close> while loading) and the browser's storage.\<close>

record team_hook =
  th_currentTeamId :: "string option"
  th_teams :: "Team list option"
  th_storage :: "(string, string) obj"

definition team_hook_init :: "(string, string) obj \<Rightarrow> team_hook" where
  "team_hook_init storage =
     \<lparr>th_currentTeamId = obj_get storage STORAGE_KEY, th_teams = None, th_storage = storage\<rparr>"

definition currentTeam :: "team_hook \<Rightarrow> Team option" where
  "currentTeam st =
     (case th_teams st of
        None \<Rightarrow> None
      | Some ts \<Rightarrow>
          (case find (\<lambda>t. Some (Team_id t) = th_currentTeamId st) ts of
             Some t \<Rightarrow> Some t
           | None \<Rightarrow> (case ts of [] \<Rightarrow> None | t # _ \<Rightarrow> Some t)))"

definition team_effect :: "team_hook \<Rightarrow> team_hook" where
  "team_effect st =
     (case th_teams st of
        Some (t # ts) \<Rightarrow>
          if th_currentTeamId st = None \<or> th_currentTeamId st = Some []
          then st\<lparr>th_currentTeamId := Some (Team_id t)\<rparr> else st
      | _ \<Rightarrow> st)"

definition setCurrentTeam :: "string \<Rightarrow> team_hook \<Rightarrow> team_hook" where
  "setCurrentTeam teamId st =
     st\<lparr>th_storage := obj_set STORAGE_KEY teamId (th_storage st), th_currentTeamId := Some teamId\<rparr>"

section \<open>The event-source hook\<close>

record sse_hook =
  sse_messages :: "string list"
  sse_connected :: bool
  sse_open :: bool

datatype sse_event = SseMessage string | SseError | SseUrl "string option" | SseClear

text \<open>
  A change of \<open>url\<close> runs the cleanup of the previous effect, then opens a source unless the url is
  absent; a closed source delivers nothing.
\<close>

fun sse_step :: "sse_hook \<Rightarrow> sse_event \<Rightarrow> sse_hook" where
  "sse_step st (SseMessage m) =
     (if sse_open st then st\<lparr>sse_messages := sse_messages st @ [m]\<rparr> else st)"
| "sse_step st SseError =
     (if sse_open st then st\<lparr>sse_connected := False, sse_open := False\<rparr> else st)"
| "sse_step st (SseUrl url) =
     (if url = None \<or> url = Some [] then st\<lparr>sse_connected := False, sse_open := False\<rparr>
      else st\<lparr>sse_connected := True, sse_open := True\<rparr>)"
| "sse_step st SseClear = st\<lparr>sse_messages := []\<rparr>"

definition sse_init :: sse_hook where
  "sse_init = \<lparr>sse_messages = [], sse_connected = False, sse_open = False\<rparr>"

section \<open>The session hook\<close>

definition auth_me :: endpoint where
  "auth_me = api_get ''/auth/me''"

definition auth_login :: "string \<Rightarrow> string \<Rightarrow> endpoint" where
  "auth_login email password =
     api_post ''/auth/login'' (JObj [(''email'', JStr email), (''password'', JStr password)])"

definition auth_signup :: "string \<Rightarrow> string \<Rightarrow> string \<Rightarrow> endpoint" where
  "auth_signup email password name =
     api_post ''/auth/signup''
       (JObj [(''email'', JStr email), (''password'', JStr password), (''name'', JStr name)])"

definition auth_logout :: endpoint where
  "auth_logout = api_post ''/auth/logout'' JUndefined"

text \<open>
  The query cache as the two mutations leave it: signing in invalidates the entries whose key
  starts with \<open>auth\<close>, signing out empties it. An entry is a key, its data and whether it is stale.
\<close>

type_synonym query_cache = "(string list \<times> js \<times> bool) list"

definition login_onSuccess :: "query_cache \<Rightarrow> query_cache" where
  "login_onSuccess cache =
     map (\<lambda>(k, v, stale). (k, v, stale \<or> take 1 k = [''auth''])) cache"

definition logout_onSuccess :: "query_cache \<Rightarrow> query_cache" where
  "logout_onSuccess cache = []"

section \<open>Facts\<close>

interpretation sse: event_machine sse_step "\<lambda>st. sse_connected st = sse_open st"
proof
  fix s e
  show "sse_connected s = sse_open s \<Longrightarrow> sse_connected (sse_step s e) = sse_open (sse_step s e)"
    by (cases e) auto
qed

text \<open>
  On the error envelope the API writes, the first console shows the handler's own message,
  while the second one, which looks at \<open>error\<close> first, shows only the generic status text.
\<close>

lemma envelope_detail:
  assumes "msg \<noteq> []" and "http_status_text st \<noteq> []" and "st < 200 \<or> 299 < st"
    and "JSON_parse txt = Some (respond_Error st msg)"
    and "r = \<lparr>res_status = st, res_statusText = t, res_text = txt\<rparr>"
  shows "legacy_handle r = Inl (ApiError st msg None) \<and>
         handle_response r = Inl (ApiError st (http_status_text st) None)"
proof
  have [simp]: "obj_get (respond # rest) k = (if fst respond = k then Some (snd respond) else obj_get rest k)" for respond rest k
    by (cases respond) (simp add: obj_get_def)
  have nok: "\<not> res_ok r" using assms(3,5) by (auto simp: res_ok_def)
  have "st \<noteq> 204" using assms(3) by auto
  show "legacy_handle r = Inl (ApiError st msg None)"
    using assms nok by (simp add: legacy_handle_def legacy_error_def respond_Error_def Let_def)
  show "handle_response r = Inl (ApiError st (http_status_text st) None)"
    using assms nok response_data_parse [of r] \<open>st \<noteq> 204\<close>
    by (simp add: handle_response_def respond_Error_def error_message_def or_string_def
        string_member_def Let_def obj_get_def)
qed

lemma envelope_detail_witness:
  "let r = \<lparr>res_status = 404, res_statusText = [], res_text = ''{\"error\":\"Not Found\",\"message\":\"team not found\"}''\<rparr>
   in legacy_handle r = Inl (ApiError 404 ''team not found'' None) \<and>
      handle_response r = Inl (ApiError 404 ''Not Found'' None)"
proof -
  have p: "JSON_parse ''{\"error\":\"Not Found\",\"message\":\"team not found\"}'' =
      Some (respond_Error 404 ''team not found'')"
    by code_simp
  have "http_status_text 404 = ''Not Found''" by (simp add: http_status_text_def)
  then show ?thesis
    using envelope_detail [of "''team not found''" 404, OF _ _ _ p] by (simp add: Let_def)
qed

text \<open>
  The team hook shows the team that the server-side resolution picks for the same selection,
  its synchronising effect never changes the team shown, and a selection is what is shown next.
\<close>

lemma team_hook_agrees:
  assumes "th_teams st = Some ts" and "[] \<notin> Team_id ` set ts"
    and "th_currentTeamId st = obj_get cookies TEAM_COOKIE"
  shows "currentTeam st = tc_activeTeam (getTeamContext (Inr ts) cookies) \<and>
    currentTeam (team_effect st) = currentTeam st \<and>
    (teamId \<in> Team_id ` set ts \<longrightarrow>
       map_option Team_id (currentTeam (setCurrentTeam teamId st)) = Some teamId)"
proof (cases ts)
  case Nil
  with assms(1) show ?thesis
    by (simp add: currentTeam_def team_effect_def getTeamContext_def safeListTeams_def)
next
  case (Cons t us)
  have none: "find (\<lambda>t. Team_id t = []) ts = None"
    using assms(2) by (force simp: find_None)
  have sel: "find (\<lambda>t. Some (Team_id t) = Some c) ts = find (\<lambda>t. Team_id t = c) ts" for c by simp
  have nosel: "find (\<lambda>t. False) us = None" by (simp add: find_None)
  have hd: "find (\<lambda>x. Team_id x = Team_id t) ts = Some t" using Cons by simp
  have 1: "currentTeam st = tc_activeTeam (getTeamContext (Inr ts) cookies)"
    using assms(1,3) none nosel Cons
    by (cases "obj_get cookies TEAM_COOKIE")
      (auto simp: currentTeam_def getTeamContext_def safeListTeams_def Let_def split: option.splits)
  have 2: "currentTeam (team_effect st) = currentTeam st"
    using assms(1) none nosel hd Cons
    by (cases "th_currentTeamId st") (auto simp: currentTeam_def team_effect_def)
  have 3: "map_option Team_id (currentTeam (setCurrentTeam teamId st)) = Some teamId"
    if tm: "teamId \<in> Team_id ` set ts"
  proof -
    obtain u where "find (\<lambda>t. Team_id t = teamId) ts = Some u" "Team_id u = teamId"
      using find_team [OF tm] tm by (cases "find (\<lambda>t. Team_id t = teamId) ts") (auto simp: find_None)
    with assms(1) show ?thesis by (simp add: currentTeam_def setCurrentTeam_def)
  qed
  from 1 2 3 show ?thesis by blast
qed

lemma team_hook_agrees_witness:
  "let ts = [\<lparr>Team_id = ''a'', Team_name = [], Team_slug = [], Team_created_at = [], Team_updated_at = []\<rparr>,
             \<lparr>Team_id = ''b'', Team_name = [], Team_slug = [], Team_created_at = [], Team_updated_at = []\<rparr>];
       st = \<lparr>th_currentTeamId = Some ''b'', th_teams = Some ts, th_storage = []\<rparr>
   in currentTeam st = tc_activeTeam (getTeamContext (Inr ts) [(''nixway-team'', ''b'')])"
  unfolding Let_def
  by (rule conjunct1 [OF team_hook_agrees [where teamId = "''a''"]])
    (simp_all add: TEAM_COOKIE_def obj_get_def)

end
