(* ===== verification/Toasts.thy ===== *)
theory Toasts
  imports Js_Runtime
begin

text \<open>
  The notification store of the first console, \<open>apps/web/src/hooks/use-toast.ts\<close>: the module
  state (id counter, pending removal timers, \<open>memoryState\<close>, subscribed components), the reducer
  with its timer side effect, \<open>dispatch\<close>, \<open>toast\<close> and \<open>useToast\<close>. Time is explicit: a timer is the
  instant it is due, and firing it is an event of the machine.
\<close>

definition TOAST_LIMIT :: nat where
  "TOAST_LIMIT = 1"

definition TOAST_REMOVE_DELAY :: nat where
  "TOAST_REMOVE_DELAY = 1000000"

definition MAX_SAFE_INTEGER :: nat where
  "MAX_SAFE_INTEGER = 9007199254740991"

record toast_props =
  tp_title :: "string option"
  tp_description :: "string option"
  tp_variant :: "string option"

record ToasterToast = toast_props +
  tt_id :: string
  tt_open :: bool

text \<open>A \<open>Partial<ToasterToast>\<close>: the members that are present overwrite.\<close>

record toast_patch =
  pt_title :: "string option"
  pt_description :: "string option"
  pt_variant :: "string option"
  pt_open :: "bool option"

datatype toast_action =
    ADD_TOAST ToasterToast
  | UPDATE_TOAST string toast_patch
  | DISMISS_TOAST "string option"
  | REMOVE_TOAST "string option"

type_synonym timeouts = "(string, nat) obj"

definition addToRemoveQueue :: "nat \<Rightarrow> string \<Rightarrow> timeouts \<Rightarrow> timeouts" where
  "addToRemoveQueue now toastId tos =
     (if obj_get tos toastId \<noteq> None then tos else obj_set toastId (now + TOAST_REMOVE_DELAY) tos)"

definition over :: "'a option \<Rightarrow> 'a option \<Rightarrow> 'a option" where
  "over new old = (case new of Some v \<Rightarrow> Some v | None \<Rightarrow> old)"

definition apply_patch :: "toast_patch \<Rightarrow> ToasterToast \<Rightarrow> ToasterToast" where
  "apply_patch p t =
     t\<lparr>tp_title := over (pt_title p) (tp_title t), tp_description := over (pt_description p) (tp_description t),
       tp_variant := over (pt_variant p) (tp_variant t),
       tt_open := (case pt_open p of Some b \<Rightarrow> b | None \<Rightarrow> tt_open t)\<rparr>"

fun reducer :: "nat \<Rightarrow> ToasterToast list \<times> timeouts \<Rightarrow> toast_action \<Rightarrow> ToasterToast list \<times> timeouts" where
  "reducer now (ts, tos) (ADD_TOAST t) = (take TOAST_LIMIT (t # ts), tos)"
| "reducer now (ts, tos) (UPDATE_TOAST i p) = (map (\<lambda>t. if tt_id t = i then apply_patch p t else t) ts, tos)"
| "reducer now (ts, tos) (DISMISS_TOAST ti) =
     (map (\<lambda>t. if Some (tt_id t) = ti \<or> ti = None then t\<lparr>tt_open := False\<rparr> else t) ts,
      case ti of
        Some i \<Rightarrow> if i \<noteq> [] then addToRemoveQueue now i tos
                  else fold (\<lambda>t. addToRemoveQueue now (tt_id t)) ts tos
      | None \<Rightarrow> fold (\<lambda>t. addToRemoveQueue now (tt_id t)) ts tos)"
| "reducer now (ts, tos) (REMOVE_TOAST ti) =
     (case ti of None \<Rightarrow> [] | Some i \<Rightarrow> filter (\<lambda>t. tt_id t \<noteq> i) ts, tos)"

text \<open>The module and its subscribers: \<open>tm_views\<close> holds the state each mounted component shows.\<close>

record toast_module =
  tm_count :: nat
  tm_now :: nat
  tm_timeouts :: timeouts
  tm_memory :: "ToasterToast list"
  tm_listeners :: "nat list"
  tm_views :: "(nat, ToasterToast list) obj"

definition module_init :: toast_module where
  "module_init = \<lparr>tm_count = 0, tm_now = 0, tm_timeouts = [], tm_memory = [], tm_listeners = [], tm_views = []\<rparr>"

definition dispatch :: "toast_action \<Rightarrow> toast_module \<Rightarrow> toast_module" where
  "dispatch a m =
     (let (ts, tos) = reducer (tm_now m) (tm_memory m, tm_timeouts m) a in
      m\<lparr>tm_memory := ts, tm_timeouts := tos,
        tm_views := fold (\<lambda>c. obj_set c ts) (tm_listeners m) (tm_views m)\<rparr>)"

definition genId :: "nat \<Rightarrow> nat \<times> string" where
  "genId count = (let c = (count + 1) mod MAX_SAFE_INTEGER in (c, show_nat c))"

definition toast :: "toast_props \<Rightarrow> toast_module \<Rightarrow> toast_module" where
  "toast props m =
     (let (c, i) = genId (tm_count m) in
      dispatch (ADD_TOAST (toast_props.extend props \<lparr>tt_id = i, tt_open = True\<rparr>)) (m\<lparr>tm_count := c\<rparr>))"

text \<open>
  \<open>useToast\<close>: the first render reads \<open>memoryState\<close> and the effect subscribes; because the effect
  depends on \<open>state\<close> it unsubscribes and subscribes again after a change; unmounting unsubscribes.
\<close>

definition mount :: "nat \<Rightarrow> toast_module \<Rightarrow> toast_module" where
  "mount c m = m\<lparr>tm_views := obj_set c (tm_memory m) (tm_views m), tm_listeners := tm_listeners m @ [c]\<rparr>"

definition unsubscribe :: "nat \<Rightarrow> toast_module \<Rightarrow> toast_module" where
  "unsubscribe c m = m\<lparr>tm_listeners := remove1 c (tm_listeners m)\<rparr>"

definition resubscribe :: "nat \<Rightarrow> toast_module \<Rightarrow> toast_module" where
  "resubscribe c m = (let m' = unsubscribe c m in m'\<lparr>tm_listeners := tm_listeners m' @ [c]\<rparr>)"

text \<open>The timer callback of \<open>addToRemoveQueue\<close>.\<close>

definition fire :: "string \<Rightarrow> toast_module \<Rightarrow> toast_module" where
  "fire toastId m =
     dispatch (REMOVE_TOAST (Some toastId)) (m\<lparr>tm_timeouts := obj_delete toastId (tm_timeouts m)\<rparr>)"

datatype toast_event =
    EToast toast_props
  | EUpdate string toast_patch
  | EDismiss "string option"
  | ETick nat
  | EFire string
  | EMount nat
  | EUnmount nat
  | ERerender nat

fun toast_step :: "toast_module \<Rightarrow> toast_event \<Rightarrow> toast_module" where
  "toast_step m (EToast p) = toast p m"
| "toast_step m (EUpdate i p) = dispatch (UPDATE_TOAST i p) m"
| "toast_step m (EDismiss i) = dispatch (DISMISS_TOAST i) m"
| "toast_step m (ETick n) = m\<lparr>tm_now := tm_now m + n\<rparr>"
| "toast_step m (EFire i) =
     (case obj_get (tm_timeouts m) i of
        Some due \<Rightarrow> if due \<le> tm_now m then fire i m else m
      | None \<Rightarrow> m)"
| "toast_step m (EMount c) = (if c \<in> set (tm_listeners m) then m else mount c m)"
| "toast_step m (EUnmount c) = unsubscribe c m"
| "toast_step m (ERerender c) = (if c \<in> set (tm_listeners m) then resubscribe c m else m)"

section \<open>Invariant\<close>

text \<open>
  At most one toast, one timer per id, no timer further away than the delay, every subscriber
  showing \<open>memoryState\<close>, and a timer for every toast that was closed. The last clause needs that
  \<open>update\<close> does not close a toast itself.
\<close>

definition closed_queued :: "toast_module \<Rightarrow> bool" where
  "closed_queued m = list_all (\<lambda>t. tt_open t \<or> obj_get (tm_timeouts m) (tt_id t) \<noteq> None) (tm_memory m)"

definition module_ok :: "toast_module \<Rightarrow> bool" where
  "module_ok m =
     (length (tm_memory m) \<le> TOAST_LIMIT \<and> obj_ok (tm_timeouts m) \<and>
      list_all (\<lambda>(i, due). due \<le> tm_now m + TOAST_REMOVE_DELAY) (tm_timeouts m) \<and>
      list_all (\<lambda>c. obj_get (tm_views m) c = Some (tm_memory m)) (tm_listeners m) \<and>
      list_all (\<lambda>t. \<exists>n < MAX_SAFE_INTEGER. tt_id t = show_nat n) (tm_memory m))"

fun closes_silently :: "toast_event \<Rightarrow> bool" where
  "closes_silently (EUpdate i p) = (pt_open p = Some False)"
| "closes_silently _ = False"

lemma addToRemoveQueue_keys:
  "obj_get (addToRemoveQueue now i tos) j \<noteq> None \<longleftrightarrow> j = i \<or> obj_get tos j \<noteq> None"
  by (auto simp: addToRemoveQueue_def obj_get_set)

lemma fold_queue_keys:
  "obj_get (fold (\<lambda>t. addToRemoveQueue now (f t)) ts tos) j \<noteq> None \<longleftrightarrow> j \<in> f ` set ts \<or> obj_get tos j \<noteq> None"
  by (induction ts arbitrary: tos) (simp_all del: not_None_eq add: addToRemoveQueue_keys, blast)

lemma set_obj_set: "set (obj_set k v o1) \<subseteq> insert (k, v) (set o1)"
  by (induction o1) (auto split: if_splits)

lemma timers_queue:
  assumes "obj_ok tos" and "list_all (\<lambda>(i, due). due \<le> now + TOAST_REMOVE_DELAY) tos"
  shows "obj_ok (addToRemoveQueue now i tos) \<and>
    list_all (\<lambda>(i, due). due \<le> now + TOAST_REMOVE_DELAY) (addToRemoveQueue now i tos)"
  using assms set_obj_set [of i "now + TOAST_REMOVE_DELAY" tos]
  by (fastforce simp: addToRemoveQueue_def list_all_iff intro: js_obj.ok_put)

lemma timers_fold:
  assumes "obj_ok tos" and "list_all (\<lambda>(i, due). due \<le> now + TOAST_REMOVE_DELAY) tos"
  shows "obj_ok (fold (\<lambda>t. addToRemoveQueue now (f t)) ts tos) \<and>
    list_all (\<lambda>(i, due). due \<le> now + TOAST_REMOVE_DELAY) (fold (\<lambda>t. addToRemoveQueue now (f t)) ts tos)"
  using assms by (induction ts arbitrary: tos) (simp_all add: timers_queue)

lemma views_after_fold: "c \<in> set cs \<Longrightarrow> obj_get (fold (\<lambda>c. obj_set c ts) cs vs) c = Some ts"
proof (induction cs arbitrary: vs)
  case (Cons d ds)
  show ?case
  proof (cases "c \<in> set ds")
    case False
    have "obj_get (fold (\<lambda>c. obj_set c ts) ds ws) c = obj_get ws c" for ws
      using js_obj.get_fold_put_notin [of c id ds "\<lambda>_. ts" ws] False by simp
    with Cons.prems False show ?thesis by (simp add: obj_get_set)
  qed (simp add: Cons.IH)
qed simp

lemma dispatch_fields [simp]:
  "tm_listeners (dispatch a m) = tm_listeners m" "tm_now (dispatch a m) = tm_now m"
  "tm_memory (dispatch a m) = fst (reducer (tm_now m) (tm_memory m, tm_timeouts m) a)"
  "tm_timeouts (dispatch a m) = snd (reducer (tm_now m) (tm_memory m, tm_timeouts m) a)"
  by (simp_all add: dispatch_def split_beta)

lemma dispatch_views: "c \<in> set (tm_listeners m) \<Longrightarrow> obj_get (tm_views (dispatch a m)) c = Some (tm_memory (dispatch a m))"
  by (simp add: dispatch_def split_beta views_after_fold)

lemma memory_ids:
  assumes "length ts \<le> TOAST_LIMIT" and "list_all P (map tt_id ts)" and "\<And>t. a = ADD_TOAST t \<Longrightarrow> P (tt_id t)"
  shows "length (fst (reducer now (ts, tos) a)) \<le> TOAST_LIMIT \<and>
    list_all P (map tt_id (fst (reducer now (ts, tos) a)))"
proof (cases a)
  case (ADD_TOAST t)
  with assms show ?thesis by (simp add: TOAST_LIMIT_def)
next
  case (REMOVE_TOAST i)
  have "length (filter Q ts) \<le> TOAST_LIMIT" for Q
    using assms(1) length_filter_le le_trans by blast
  with assms REMOVE_TOAST show ?thesis by (auto simp: list_all_iff split: option.splits)
qed (use assms in \<open>auto simp: list_all_iff apply_patch_def\<close>)

lemma reducer_timers:
  assumes "obj_ok tos" and "list_all (\<lambda>(i, due). due \<le> now + TOAST_REMOVE_DELAY) tos"
  shows "obj_ok (snd (reducer now (ts, tos) a)) \<and>
    list_all (\<lambda>(i, due). due \<le> now + TOAST_REMOVE_DELAY) (snd (reducer now (ts, tos) a))"
  using assms by (cases a) (auto simp: timers_queue timers_fold split: option.splits)

lemma module_ok_dispatch:
  assumes "module_ok m" and "\<And>t. a = ADD_TOAST t \<Longrightarrow> \<exists>n < MAX_SAFE_INTEGER. tt_id t = show_nat n"
  shows "module_ok (dispatch a m)"
proof -
  have "list_all (\<lambda>c. obj_get (tm_views (dispatch a m)) c = Some (tm_memory (dispatch a m))) (tm_listeners (dispatch a m))"
    unfolding list_all_iff using dispatch_views [of _ m a] by simp
  moreover have "list_all (\<lambda>i. \<exists>n < MAX_SAFE_INTEGER. i = show_nat n) (map tt_id (tm_memory m))"
    using assms(1) by (simp add: module_ok_def list_all_iff)
  ultimately show ?thesis
    using assms(1) memory_ids [of "tm_memory m" "\<lambda>i. \<exists>n < MAX_SAFE_INTEGER. i = show_nat n" a] assms(2)
      reducer_timers [of "tm_timeouts m" "tm_now m"]
    by (simp add: module_ok_def list_all_iff)
qed

lemma module_ok_fire: "module_ok m \<Longrightarrow> module_ok (fire i m)"
proof -
  assume "module_ok m"
  then have "module_ok (m\<lparr>tm_timeouts := obj_delete i (tm_timeouts m)\<rparr>)"
    by (auto simp: module_ok_def obj_delete_def list_all_iff js_obj.ok_del [unfolded obj_delete_def])
  then show ?thesis unfolding fire_def by (rule module_ok_dispatch) simp
qed

lemma module_ok_toast: "module_ok m \<Longrightarrow> module_ok (toast p m)"
proof -
  assume "module_ok m"
  then have "module_ok (m\<lparr>tm_count := c\<rparr>)" for c by (simp add: module_ok_def)
  moreover have "(tm_count m + 1) mod MAX_SAFE_INTEGER < MAX_SAFE_INTEGER" by (simp add: MAX_SAFE_INTEGER_def)
  ultimately show ?thesis
    unfolding toast_def genId_def Let_def prod.case
    by (intro module_ok_dispatch) (auto simp: toast_props.defs)
qed

lemma module_ok_step: "module_ok m \<Longrightarrow> module_ok (toast_step m e)"
proof (cases e)
  case (EFire i)
  assume "module_ok m"
  with EFire show ?thesis using module_ok_fire by (auto split: option.splits)
next
  case (EMount c)
  assume "module_ok m"
  with EMount show ?thesis by (auto simp: mount_def module_ok_def list_all_iff obj_get_set)
next
  case (ETick n)
  assume "module_ok m"
  with ETick show ?thesis by (force simp: module_ok_def list_all_iff)
next
  case (EUnmount c)
  assume "module_ok m"
  with EUnmount show ?thesis
    by (auto simp: unsubscribe_def module_ok_def list_all_iff dest: subsetD [OF set_remove1_subset])
next
  case (ERerender c)
  assume "module_ok m"
  with ERerender show ?thesis
    by (auto simp: resubscribe_def unsubscribe_def module_ok_def list_all_iff Let_def dest: subsetD [OF set_remove1_subset])
qed (auto intro: module_ok_toast module_ok_dispatch)

interpretation toasts: event_machine toast_step module_ok
  by unfold_locales (rule module_ok_step)

lemma closed_queued_step:
  assumes "module_ok m" and "closed_queued m" and "\<not> closes_silently e"
  shows "closed_queued (toast_step m e)"
proof (cases e)
  case (EToast p)
  then show ?thesis by (simp add: toast_def genId_def Let_def closed_queued_def TOAST_LIMIT_def toast_props.defs)
next
  case (EUpdate i p)
  with assms show ?thesis by (cases "pt_open p") (auto simp: closed_queued_def list_all_iff apply_patch_def)
next
  case (EDismiss i)
  show ?thesis
  proof (cases "i = None \<or> i = Some []")
    case True
    have "obj_get (fold (\<lambda>t. addToRemoveQueue (tm_now m) (tt_id t)) (tm_memory m) (tm_timeouts m)) (tt_id t) \<noteq> None"
      if "t \<in> set (tm_memory m)" for t
      using that by (simp del: not_None_eq add: fold_queue_keys)
    with True EDismiss show ?thesis
      by (elim disjE) (fastforce simp: closed_queued_def list_all_iff)+
  next
    case False
    with assms(2) EDismiss show ?thesis
      by (auto simp: closed_queued_def list_all_iff addToRemoveQueue_keys [unfolded not_None_eq])
  qed
next
  case (EFire i)
  with assms(2) show ?thesis
    by (auto simp: fire_def closed_queued_def list_all_iff obj_get_delete split: option.splits)
qed (use assms(2) in \<open>simp_all add: closed_queued_def mount_def unsubscribe_def resubscribe_def Let_def\<close>)

lemma closed_queued_run:
  assumes "\<not> list_ex closes_silently es" and "module_ok m" and "closed_queued m"
  shows "closed_queued (foldl toast_step m es)"
  using assms by (induction es arbitrary: m) (auto simp: closed_queued_step module_ok_step)

lemma module_ok_init: "module_ok module_init"
  by (simp add: module_ok_def module_init_def obj_ok_def)

text \<open>
  Whatever sequence of notifications, updates, dismissals, timer firings, mounts and unmounts
  happens, at most one notification is in the store, no id has two removal timers, and every
  subscribed component shows exactly the store.
\<close>

lemma toast_store_consistent:
  "let m = foldl toast_step module_init es in
     length (tm_memory m) \<le> 1 \<and> distinct (obj_keys (tm_timeouts m)) \<and>
     list_all (\<lambda>c. obj_get (tm_views m) c = Some (tm_memory m)) (tm_listeners m)"
  using toasts.inv_run [OF module_ok_init, of es]
  by (simp add: module_ok_def Let_def TOAST_LIMIT_def obj_ok_def)

text \<open>
  A notification that has been closed is on its way out: a removal timer for it is pending and
  due within the removal delay, and once that delay has passed and the timer fires the store is
  empty. (No caller closes a notification through \<open>update\<close>.)
\<close>

lemma closed_toast_removed:
  assumes "m = foldl toast_step module_init es" and "\<not> list_ex closes_silently es"
    and "t \<in> set (tm_memory m)" and "\<not> tt_open t"
  shows "\<exists>due. obj_get (tm_timeouts m) (tt_id t) = Some due \<and> due \<le> tm_now m + TOAST_REMOVE_DELAY \<and>
    tm_memory (toast_step (toast_step m (ETick TOAST_REMOVE_DELAY)) (EFire (tt_id t))) = []"
proof -
  have ok: "module_ok m" using assms(1) toasts.inv_run module_ok_init by simp
  have "closed_queued m"
    using assms(1,2) closed_queued_run module_ok_init by (simp add: closed_queued_def module_init_def)
  with assms(3,4) obtain due where due: "obj_get (tm_timeouts m) (tt_id t) = Some due"
    by (auto simp: closed_queued_def list_all_iff)
  then have le: "due \<le> tm_now m + TOAST_REMOVE_DELAY"
    using ok by (auto simp: module_ok_def list_all_iff obj_get_def dest: map_of_SomeD)
  have "tm_memory m = [t]"
    using ok assms(3) by (cases "tm_memory m") (auto simp: module_ok_def TOAST_LIMIT_def)
  with due le show ?thesis by (simp add: fire_def)
qed

lemma closed_toast_removed_witness:
  "let m = foldl toast_step module_init
       [EToast \<lparr>tp_title = Some ''Saved'', tp_description = None, tp_variant = None\<rparr>, EDismiss (Some ''1'')]
   in tm_memory m \<noteq> [] \<and>
      tm_memory (toast_step (toast_step m (ETick TOAST_REMOVE_DELAY)) (EFire ''1'')) = []"
proof -
  let ?es = "[EToast \<lparr>tp_title = Some ''Saved'', tp_description = None, tp_variant = None\<rparr>, EDismiss (Some ''1'')]"
  have i: "show_nat (Suc 0) = ''1''" by code_simp
  let ?t = "\<lparr>tp_title = Some ''Saved'', tp_description = None, tp_variant = None, tt_id = ''1'', tt_open = False\<rparr>"
  have m: "tm_memory (foldl toast_step module_init ?es) = [?t]"
    by (simp add: toast_def genId_def Let_def module_init_def TOAST_LIMIT_def toast_props.defs
        MAX_SAFE_INTEGER_def i)
  show ?thesis
    using closed_toast_removed [OF refl, of ?es ?t] m by (auto simp: Let_def simp del: toast_step.simps)
qed

end
