(* ===== verification/Streams.thy ===== *)
theory Streams
  imports Js_Json
begin

text \<open>
  The server-sent-event consumers of the console: \<open>LogStream\<close> (\<open>components/apps/LogStream.tsx\<close>), a
  capped and filtered line buffer, and \<open>ProvisionConsole\<close>
  (\<open>components/databases/ProvisionConsole.tsx\<close>), which merges a live event stream into a persisted
  history. Each is a state machine over the callbacks of its \<open>EventSource\<close>; a source that has been
  closed calls back no more.
\<close>

section \<open>LogStream\<close>

record log_stream =
  ls_lines :: "string list"
  ls_live :: bool
  ls_error :: "string option"
  ls_listening :: bool

datatype log_event =
    LOpen
  | LMessage string
  | LError bool
  | LUrl
  | LUnmount

definition log_cap :: nat where
  "log_cap = 5000"

definition push_line :: "string \<Rightarrow> string list \<Rightarrow> string list" where
  "push_line d prev =
     (let next = prev @ [d] in if length next > log_cap then drop (length next - log_cap) next else next)"

text \<open>
  \<open>LError shut\<close> carries whether \<open>readyState\<close> is \<open>CLOSED\<close> when \<open>onerror\<close> runs; \<open>LUrl\<close> is the effect on
  mount and on a change of \<open>url\<close> (cleanup of the old source included).
\<close>

fun log_step :: "log_stream \<Rightarrow> log_event \<Rightarrow> log_stream" where
  "log_step st LOpen = (if ls_listening st then st\<lparr>ls_live := True\<rparr> else st)"
| "log_step st (LMessage d) =
     (if ls_listening st then st\<lparr>ls_lines := push_line d (ls_lines st)\<rparr> else st)"
| "log_step st (LError shut) =
     (if ls_listening st
      then (if shut then st\<lparr>ls_live := False, ls_error := Some ''Stream closed.'', ls_listening := False\<rparr>
            else st\<lparr>ls_live := False\<rparr>)
      else st)"
| "log_step st LUrl = st\<lparr>ls_lines := [], ls_error := None, ls_live := False, ls_listening := True\<rparr>"
| "log_step st LUnmount = st\<lparr>ls_live := False, ls_listening := False\<rparr>"

definition log_init :: log_stream where
  "log_init = \<lparr>ls_lines = [], ls_live = False, ls_error = None, ls_listening = False\<rparr>"

definition visible_lines :: "string option \<Rightarrow> string list \<Rightarrow> string list" where
  "visible_lines filt lines =
     (let needle = (case filt of Some f \<Rightarrow> toLowerCase (trim f) | None \<Rightarrow> []) in
      if needle \<noteq> [] then filter (\<lambda>l. str_includes (toLowerCase l) needle) lines else lines)"

section \<open>ProvisionConsole\<close>

datatype pc_status = Connecting | Streaming | Success | Failed | Idle

text \<open>
  An entry of the log, its members as JSON leaves them; \<open>===\<close> on members compares objects by
  identity, so no two separately parsed ones are equal.
\<close>

record log_entry =
  le_at :: js
  le_step :: js
  le_message :: js
  le_terminal :: js
  le_success :: js

fun strict_eq :: "js \<Rightarrow> js \<Rightarrow> bool" where
  "strict_eq (JArr xs) v = False"
| "strict_eq (JObj fs) v = False"
| "strict_eq u v = (u = v \<and> u \<noteq> JNum NaN)"

definition same_entry :: "log_entry \<Rightarrow> log_entry \<Rightarrow> bool" where
  "same_entry p e =
     (strict_eq (le_at p) (le_at e) \<and> strict_eq (le_step p) (le_step e) \<and> strict_eq (le_message p) (le_message e))"

text \<open>
  \<open>JSON.parse(e.data)\<close> and the \<open>at\<close> fallback. Reading or writing a member of a primitive or of
  \<open>null\<close> raises, and the frame is ignored.
\<close>

definition parse_entry :: "string \<Rightarrow> string \<Rightarrow> log_entry option" where
  "parse_entry now data =
     (case JSON_parse data of
        None \<Rightarrow> None
      | Some v \<Rightarrow>
          if v = JNull \<or> \<not> is_object v then None
          else Some \<lparr>le_at = (if truthy (get_prop v ''at'') then get_prop v ''at'' else JStr now),
                     le_step = get_prop v ''step'', le_message = get_prop v ''message'',
                     le_terminal = get_prop v ''terminal'', le_success = get_prop v ''success''\<rparr>)"

definition merge_entry :: "log_entry \<Rightarrow> log_entry list \<Rightarrow> log_entry list" where
  "merge_entry evt prev = (if list_ex (\<lambda>p. same_entry p evt) prev then prev else prev @ [evt])"

definition initialStatus :: "log_entry list \<Rightarrow> bool \<Rightarrow> pc_status" where
  "initialStatus events live =
     (case List.find (\<lambda>e. truthy (le_terminal e)) events of
        Some t \<Rightarrow> if truthy (le_success t) then Success else Failed
      | None \<Rightarrow> if live then Connecting else Idle)"

text \<open>\<open>pc_told\<close> lists the arguments \<open>onTerminal\<close> has been called with.\<close>

record provision_console =
  pc_initial :: "log_entry list"
  pc_events :: "log_entry list"
  pc_status :: pc_status
  pc_listening :: bool
  pc_told :: "bool list"

definition console_init :: "log_entry list \<Rightarrow> bool \<Rightarrow> provision_console" where
  "console_init initialEvents live =
     \<lparr>pc_initial = initialEvents, pc_events = initialEvents, pc_status = initialStatus initialEvents live,
      pc_listening = (live \<and> initialStatus initialEvents live = Connecting), pc_told = []\<rparr>"

datatype console_event = POpen | PMessage string string | PError | PUnmount | PDeps bool

definition on_entry :: "log_entry \<Rightarrow> provision_console \<Rightarrow> provision_console" where
  "on_entry evt st =
     (let st' = st\<lparr>pc_events := merge_entry evt (pc_events st)\<rparr> in
      if truthy (le_terminal evt)
      then st'\<lparr>pc_status := (if truthy (le_success evt) then Success else Failed),
               pc_told := pc_told st' @ [truthy (le_success evt)], pc_listening := False\<rparr>
      else st')"

fun console_step :: "provision_console \<Rightarrow> console_event \<Rightarrow> provision_console" where
  "console_step st POpen =
     (if pc_listening st \<and> pc_status st = Connecting then st\<lparr>pc_status := Streaming\<rparr> else st)"
| "console_step st (PMessage now data) =
     (if pc_listening st then (case parse_entry now data of Some evt \<Rightarrow> on_entry evt st | None \<Rightarrow> st) else st)"
| "console_step st PError =
     (if pc_listening st \<and> pc_status st = Streaming then st\<lparr>pc_status := Connecting\<rparr> else st)"
| "console_step st PUnmount = st\<lparr>pc_listening := False\<rparr>"
| "console_step st (PDeps live) =
     st\<lparr>pc_listening := (live \<and> initialStatus (pc_initial st) live = Connecting)\<rparr>"

section \<open>The line buffer\<close>

lemma push_line_last: "push_line d (drop (length ms - log_cap) ms) = drop (length (ms @ [d]) - log_cap) (ms @ [d])"
proof (cases "length ms < 5000")
  case True
  then show ?thesis by (simp add: push_line_def log_cap_def)
next
  case False
  then have "Suc (length ms - 5000) = length ms - 4999" by simp
  with False show ?thesis by (simp add: push_line_def Let_def log_cap_def)
qed

definition received :: "log_event list \<Rightarrow> string list" where
  "received es = concat (map (\<lambda>e. case e of LMessage d \<Rightarrow> [d] | _ \<Rightarrow> []) es)"

lemma received_app [simp]: "received (es @ fs) = received es @ received fs"
  by (simp add: received_def)

interpretation log_buffer: event_machine log_step "\<lambda>st. length (ls_lines st) \<le> log_cap \<and> (ls_live st \<longrightarrow> ls_listening st)"
proof
  fix s e
  show "length (ls_lines s) \<le> log_cap \<and> (ls_live s \<longrightarrow> ls_listening s) \<Longrightarrow>
      length (ls_lines (log_step s e)) \<le> log_cap \<and> (ls_live (log_step s e) \<longrightarrow> ls_listening (log_step s e))"
    by (cases e) (auto simp: push_line_def Let_def log_cap_def)
qed

text \<open>
  While one source is connected, the log viewer holds exactly the most recent 5000 lines it
  received, in order: nothing is dropped before the cap is reached and only the oldest lines after.
\<close>

lemma log_buffer_last:
  assumes "\<not> list_ex (\<lambda>e. e = LUrl \<or> e = LUnmount \<or> e = LError True) es"
  shows "ls_lines (foldl log_step (log_step st LUrl) es) = drop (length (received es) - 5000) (received es)"
proof -
  have "ls_lines (foldl log_step (log_step st LUrl) es) = drop (length (received es) - log_cap) (received es) \<and>
      ls_listening (foldl log_step (log_step st LUrl) es)"
    using assms
  proof (induction es rule: rev_induct)
    case Nil
    then show ?case by (simp add: received_def)
  next
    case (snoc e es)
    then have IH: "ls_lines (foldl log_step (log_step st LUrl) es) = drop (length (received es) - log_cap) (received es)"
      "ls_listening (foldl log_step (log_step st LUrl) es)" by simp_all
    show ?case
    proof (cases e)
      case (LMessage d)
      with IH show ?thesis using push_line_last [of d "received es"] by (simp add: received_def)
    qed (use IH snoc.prems in \<open>simp_all add: received_def\<close>)
  qed
  then show ?thesis by (simp add: log_cap_def)
qed

lemma log_buffer_last_witness:
  "ls_lines (foldl log_step (log_step log_init LUrl) [LOpen, LMessage ''a'', LError False, LMessage ''b'']) = [''a'', ''b'']"
  using log_buffer_last [of "[LOpen, LMessage ''a'', LError False, LMessage ''b'']" log_init]
  by (simp add: received_def)

section \<open>The merged log\<close>

definition no_repeats :: "log_entry list \<Rightarrow> bool" where
  "no_repeats es = distinct (map (\<lambda>e. (le_at e, le_step e, le_message e))
     (filter (\<lambda>e. same_entry e e) es))"

lemma strict_eq_iff: "strict_eq u v \<longleftrightarrow> u = v \<and> strict_eq u u"
  by (cases u) auto

lemma same_entry_iff:
  "same_entry p e \<longleftrightarrow> (le_at p, le_step p, le_message p) = (le_at e, le_step e, le_message e) \<and> same_entry e e"
  unfolding same_entry_def by (metis Pair_inject strict_eq_iff)

lemma no_repeats_merge: "no_repeats prev \<Longrightarrow> no_repeats (merge_entry e prev)"
proof -
  assume h: "no_repeats prev"
  show ?thesis
  proof (cases "list_ex (\<lambda>p. same_entry p e) prev \<or> \<not> same_entry e e")
    case True
    with h show ?thesis by (auto simp: merge_entry_def no_repeats_def)
  next
    case False
    then have "(le_at p, le_step p, le_message p) \<noteq> (le_at e, le_step e, le_message e)" if "p \<in> set prev" for p
      using that same_entry_iff [of p e] unfolding list_ex_iff by blast
    then have "(le_at e, le_step e, le_message e) \<notin> (\<lambda>e. (le_at e, le_step e, le_message e)) ` set prev"
      by force
    with False h show ?thesis by (auto simp: merge_entry_def no_repeats_def)
  qed
qed

lemma merge_extends: "\<exists>xs. merge_entry e prev = prev @ xs"
  by (simp add: merge_entry_def)

definition console_ok :: "provision_console \<Rightarrow> bool" where
  "console_ok st = ((pc_status st \<in> {Connecting, Streaming} \<or> \<not> pc_listening st) \<and>
     (pc_listening st \<longrightarrow> pc_told st = []) \<and> length (pc_told st) \<le> 1)"

lemma console_ok_step:
  assumes "console_ok st" and "\<not> (\<exists>l. e = PDeps l)"
  shows "console_ok (console_step st e)"
  using assms by (cases e) (auto simp: console_ok_def on_entry_def Let_def split: option.splits)

lemma console_ok_run:
  assumes "console_ok st" and "\<not> list_ex (\<lambda>e. \<exists>l. e = PDeps l) es"
  shows "console_ok (foldl console_step st es)"
  using assms by (induction es arbitrary: st) (auto simp: console_ok_step)

lemma console_ok_init: "console_ok (console_init es live)"
  by (auto simp: console_ok_def console_init_def)

interpretation merged_log: event_machine console_step "\<lambda>st. no_repeats (pc_events st)"
proof
  fix s e
  show "no_repeats (pc_events s) \<Longrightarrow> no_repeats (pc_events (console_step s e))"
    by (cases e) (auto simp: on_entry_def Let_def no_repeats_merge split: option.splits)
qed

lemma console_extends: "\<exists>xs. pc_events (console_step st e) = pc_events st @ xs"
  by (cases e) (auto simp: on_entry_def Let_def merge_extends split: option.splits)

lemma console_extends_run: "\<exists>xs. pc_events (foldl console_step st es) = pc_events st @ xs"
proof (induction es rule: rev_induct)
  case (snoc e es)
  then show ?case using console_extends [of "foldl console_step st es" e] by auto
qed simp

text \<open>
  C34: The provisioning console never loses or repeats history: the persisted entries stay in front
  in order, and if they contain no repetition, no entry with the same time, step and message is
  ever shown twice, through reconnects and replays of the stream.
\<close>

lemma console_history:
  assumes "no_repeats initial"
  shows "let st = foldl console_step (console_init initial live) es in
    no_repeats (pc_events st) \<and> take (length initial) (pc_events st) = initial"
proof -
  have "no_repeats (pc_events (console_init initial live))"
    using assms by (simp add: console_init_def)
  moreover obtain xs where "pc_events (foldl console_step (console_init initial live) es) = initial @ xs"
    using console_extends_run [of "console_init initial live" es] by (auto simp: console_init_def)
  ultimately show ?thesis
    using merged_log.inv_run [of "console_init initial live" es] by (simp add: Let_def)
qed

lemma console_history_witness:
  "let st = foldl console_step (console_init [] True)
      [POpen, PMessage [] ''{\"at\":\"1\",\"step\":\"s\",\"message\":\"m\"}'',
       PMessage [] ''{\"at\":\"1\",\"step\":\"s\",\"message\":\"m\"}'']
   in no_repeats (pc_events st) \<and> take 0 (pc_events st) = []"
  using console_history [of "[]" True "[POpen, PMessage [] ''{\"at\":\"1\",\"step\":\"s\",\"message\":\"m\"}'',
       PMessage [] ''{\"at\":\"1\",\"step\":\"s\",\"message\":\"m\"}'']"]
  by (simp add: no_repeats_def)

text \<open>
  C33: The caller is told about the outcome at most once per connection, and a terminal status is
  final: once the console shows success or failure no later frame, open or error changes anything.
\<close>

lemma console_terminal_once:
  assumes "\<not> list_ex (\<lambda>e. \<exists>l. e = PDeps l) es" and "\<not> list_ex (\<lambda>e. \<exists>l. e = PDeps l) fs"
    and "st = foldl console_step (console_init initial live) es"
  shows "length (pc_told st) \<le> 1 \<and>
    (pc_status st = Success \<or> pc_status st = Failed \<longrightarrow>
       pc_status (foldl console_step st fs) = pc_status st \<and> pc_events (foldl console_step st fs) = pc_events st \<and>
       pc_told (foldl console_step st fs) = pc_told st)"
proof -
  have ok: "console_ok st" using assms(1,3) console_ok_run console_ok_init by simp
  have stuck: "\<not> pc_listening s \<Longrightarrow> \<not> list_ex (\<lambda>e. \<exists>l. e = PDeps l) fs \<Longrightarrow>
      pc_status (foldl console_step s fs) = pc_status s \<and> pc_events (foldl console_step s fs) = pc_events s \<and>
      pc_told (foldl console_step s fs) = pc_told s" for s fs
  proof (induction fs arbitrary: s)
    case (Cons e fs)
    then show ?case by (cases e) auto
  qed simp
  show ?thesis using ok stuck [of st fs] assms(2) by (auto simp: console_ok_def)
qed

lemma console_terminal_once_witness:
  "let st = foldl console_step (console_init [] True)
      [POpen, PMessage ''t'' ''{\"step\":\"done\",\"terminal\":true,\"success\":true}'']
   in pc_status st = Success \<and> pc_told st = [True] \<and> pc_status (foldl console_step st [POpen, PError]) = Success"
proof -
  let ?es = "[POpen, PMessage ''t'' ''{\"step\":\"done\",\"terminal\":true,\"success\":true}'']"
  have "pc_status (foldl console_step (console_init [] True) ?es) = Success"
    "pc_told (foldl console_step (console_init [] True) ?es) = [True]" by code_simp+
  then show ?thesis
    using console_terminal_once [of ?es "[POpen, PError]" _ "[]" True] by (simp add: Let_def del: console_step.simps)
qed

end
