(* ===== verification/Traffic.thy ===== *)
theory Traffic
  imports Api_Surface
begin

text \<open>
  The traffic page, \<open>components/apps/TrafficClient.tsx\<close>: draft weights keyed by backend id, their
  synchronisation with the server's view, editing, normalising to 100 and saving, and the split
  bar. Weights are whole numbers; shares are exact rationals where the code divides doubles.
  Backend ids are UUIDs, so the draft object keeps insertion order.
\<close>

type_synonym draft = "(string, int) obj"

definition clamp_weight :: "int \<Rightarrow> int" where
  "clamp_weight w = max 0 (min 100 w)"

definition weightsByBackend :: "TrafficBackend list \<Rightarrow> draft" where
  "weightsByBackend bs =
     fold (\<lambda>b. obj_set (TrafficBackend_id b) (clamp_weight (TrafficBackend_weight b))) bs []"

definition draft_weight :: "draft \<Rightarrow> string \<Rightarrow> int" where
  "draft_weight d i = (case obj_get d i of Some w \<Rightarrow> w | None \<Rightarrow> 0)"

definition isDirty :: "draft \<Rightarrow> TrafficBackend list \<Rightarrow> bool" where
  "isDirty d bs =
     (length (obj_keys d) \<noteq> length bs \<or>
      list_ex (\<lambda>b. draft_weight d (TrafficBackend_id b) \<noteq> TrafficBackend_weight b) bs)"

definition draftTotal :: "draft \<Rightarrow> int" where
  "draftTotal d = sum_list (obj_values d)"

definition setWeight :: "string \<Rightarrow> rat \<Rightarrow> draft \<Rightarrow> draft" where
  "setWeight i raw d = obj_set i (clamp_weight (math_round raw)) d"

text \<open>The loop of \<open>normalise\<close>: the ids left, the total, the object under construction, the running sum.\<close>

fun scale_loop :: "(string \<times> int) list \<Rightarrow> int \<Rightarrow> draft \<Rightarrow> int \<Rightarrow> draft" where
  "scale_loop [] tot scaled running = scaled"
| "scale_loop ((i, w) # rest) tot scaled running =
     (let v = (if rest = [] then 100 - running
               else math_round (rat_of_int w / rat_of_int tot * 100))
      in scale_loop rest tot (obj_set i v scaled) (running + v))"

definition normalise :: "draft \<Rightarrow> draft" where
  "normalise d = (let tot = draftTotal d in if tot = 0 then d else scale_loop d tot [] 0)"

definition resync :: "draft \<Rightarrow> TrafficBackend list \<Rightarrow> draft" where
  "resync prev bs = (if isDirty prev bs then prev else weightsByBackend bs)"

section \<open>The page\<close>

record traffic_page =
  tp_app :: string
  tp_view :: "TrafficView option"
  tp_draft :: draft
  tp_error :: "string option"

definition page_backends :: "traffic_page \<Rightarrow> TrafficBackend list" where
  "page_backends st = (case tp_view st of Some v \<Rightarrow> TrafficView_backends v | None \<Rightarrow> [])"

definition traffic_init :: "string \<Rightarrow> TrafficView option \<Rightarrow> traffic_page" where
  "traffic_init app view =
     \<lparr>tp_app = app, tp_view = view,
      tp_draft = weightsByBackend (case view of Some v \<Rightarrow> TrafficView_backends v | None \<Rightarrow> []),
      tp_error = None\<rparr>"

definition shows_editor :: "traffic_page \<Rightarrow> bool" where
  "shows_editor st =
     ((case tp_view st of Some v \<Rightarrow> TrafficView_route v \<noteq> None | None \<Rightarrow> False) \<and> page_backends st \<noteq> [])"

definition can_normalise :: "traffic_page \<Rightarrow> bool" where
  "can_normalise st = (\<not> (draftTotal (tp_draft st) = 0 \<or> draftTotal (tp_draft st) = 100))"

definition can_save :: "traffic_page \<Rightarrow> bool" where
  "can_save st = (isDirty (tp_draft st) (page_backends st) \<and> draftTotal (tp_draft st) = 100)"

definition save_request :: "traffic_page \<Rightarrow> endpoint" where
  "save_request st = appsApi_updateTraffic (tp_app st)
     (map (\<lambda>(i, w). \<lparr>TrafficWeightInput_backend_id = i, TrafficWeightInput_weight = w\<rparr>) (tp_draft st))"

text \<open>Both mutations leave the page like this.\<close>

definition adopt_view :: "TrafficView \<Rightarrow> traffic_page \<Rightarrow> traffic_page" where
  "adopt_view next st =
     st\<lparr>tp_error := None, tp_view := Some next, tp_draft := weightsByBackend (TrafficView_backends next)\<rparr>"

definition save_done :: "TrafficView result \<Rightarrow> traffic_page \<Rightarrow> traffic_page" where
  "save_done r st =
     (case r of Inr next \<Rightarrow> adopt_view next st
      | Inl e \<Rightarrow> st\<lparr>tp_error := Some (error_text e ''Could not apply traffic weights.'')\<rparr>)"

definition promote_done :: "TrafficView result \<Rightarrow> traffic_page \<Rightarrow> traffic_page" where
  "promote_done r st =
     (case r of Inr next \<Rightarrow> adopt_view next st
      | Inl e \<Rightarrow> st\<lparr>tp_error := Some (error_text e ''Could not promote backend.'')\<rparr>)"

definition refetched :: "TrafficView \<Rightarrow> traffic_page \<Rightarrow> traffic_page" where
  "refetched view st =
     st\<lparr>tp_view := Some view, tp_draft := resync (tp_draft st) (TrafficView_backends view)\<rparr>"

section \<open>The split bar\<close>

definition split_segments :: "draft \<Rightarrow> TrafficBackend list \<Rightarrow> (string \<times> rat) list" where
  "split_segments d bs =
     (let tot = draftTotal d in
      if tot = 0 then []
      else map (\<lambda>b. (TrafficBackend_id b, rat_of_int (draft_weight d (TrafficBackend_id b)) / rat_of_int tot * 100)) bs)"

datatype tone = Tone_online | Tone_warn | Tone_alert | Tone_neutral | Tone_signal

definition deployTone :: "string \<Rightarrow> tone" where
  "deployTone status =
     (if status = ''healthy'' then Tone_online else if status = ''deploying'' then Tone_signal
      else if status = ''degraded'' then Tone_warn
      else if status = ''failed'' \<or> status = ''rolled_back'' then Tone_alert else Tone_neutral)"

definition routeStatusTone :: "string \<Rightarrow> tone" where
  "routeStatusTone status =
     (if status = ''active'' then Tone_online else if status = ''draining'' then Tone_warn
      else if status = ''disabled'' then Tone_alert else Tone_neutral)"

definition eventTone :: "string \<Rightarrow> tone" where
  "eventTone ty =
     (if str_includes ty ''promote'' then Tone_signal
      else if str_includes ty ''update'' \<or> str_includes ty ''weight'' then Tone_online
      else if str_includes ty ''disable'' \<or> str_includes ty ''fail'' then Tone_alert else Tone_neutral)"

section \<open>Facts\<close>

text \<open>A backend with an id and a weight, for the examples.\<close>

definition sample_backend :: "string \<Rightarrow> int \<Rightarrow> TrafficBackend" where
  "sample_backend i w = \<lparr>TrafficBackend_id = i, TrafficBackend_route_id = [], TrafficBackend_deployment_id = [],
     TrafficBackend_label = [], TrafficBackend_weight = w, TrafficBackend_status = [],
     TrafficBackend_created_at = [], TrafficBackend_updated_at = [], TrafficBackend_deployment_status = [],
     TrafficBackend_replicas_ready = 1, TrafficBackend_replicas_desired = 1, TrafficBackend_commit_sha = [],
     TrafficBackend_image_tag = []\<rparr>"

lemma sample_backend_fields [simp]:
  "TrafficBackend_id (sample_backend i w) = i" "TrafficBackend_weight (sample_backend i w) = w"
  by (simp_all add: sample_backend_def)

lemma obj_values_set_new: "k \<notin> set (obj_keys o1) \<Longrightarrow> obj_set k v o1 = o1 @ [(k, v)]"
  by (induction o1) auto

lemma scale_loop_eq:
  assumes "distinct (obj_keys (scaled @ rest))"
  shows "\<exists>vs. scale_loop rest tot scaled running = scaled @ zip (obj_keys rest) vs \<and> length vs = length rest \<and>
    (rest \<noteq> [] \<longrightarrow> sum_list vs = 100 - running)"
  using assms
proof (induction rest tot scaled running rule: scale_loop.induct)
  case (1 tot scaled running)
  then show ?case by simp
next
  case (2 i w rest tot scaled running)
  define v where "v = (if rest = [] then 100 - running else math_round (rat_of_int w / rat_of_int tot * 100))"
  have new: "obj_set i v scaled = scaled @ [(i, v)]"
    using 2(2) by (intro obj_values_set_new) auto
  then have "distinct (obj_keys (obj_set i v scaled @ rest))" using 2(2) by simp
  then obtain vs where vs: "scale_loop rest tot (scaled @ [(i, v)]) (running + v) =
      (scaled @ [(i, v)]) @ zip (obj_keys rest) vs" "length vs = length rest"
      "rest \<noteq> [] \<longrightarrow> sum_list vs = 100 - (running + v)"
    using 2(1) [OF v_def] new by auto
  have "scale_loop ((i, w) # rest) tot scaled running = scaled @ zip (obj_keys ((i, w) # rest)) (v # vs)"
    using vs(1) new by (simp add: v_def [symmetric] Let_def)
  moreover have "sum_list (v # vs) = 100 - running"
    using vs(2,3) by (cases "rest = []") (auto simp: v_def)
  ultimately show ?case using vs(2) by (intro exI [of _ "v # vs"]) simp
qed

lemma draftTotal_zip: "length vs = length ks \<Longrightarrow> draftTotal (zip ks vs) = sum_list vs"
  by (simp add: draftTotal_def)

text \<open>
  C30: Normalising always produces weights for the same backends that add up to exactly 100, however
  the shares round.
\<close>

lemma normalise_total:
  assumes "obj_ok d" and "draftTotal d \<noteq> 0"
  shows "draftTotal (normalise d) = 100 \<and> obj_keys (normalise d) = obj_keys d"
proof -
  obtain vs where "scale_loop d (draftTotal d) [] 0 = zip (obj_keys d) vs" "length vs = length d"
      "d \<noteq> [] \<longrightarrow> sum_list vs = 100"
    using scale_loop_eq [of "[]" d "draftTotal d" 0] assms(1) by (auto simp: obj_ok_def)
  moreover have "d \<noteq> []" using assms(2) by (auto simp: draftTotal_def)
  ultimately show ?thesis
    using assms(2) by (simp add: normalise_def Let_def draftTotal_zip)
qed

lemma normalise_total_witness:
  "let d = [(''a'', 20), (''b'', 20), (''c'', 20)] in
     draftTotal (normalise d) = 100 \<and> obj_keys (normalise d) = [''a'', ''b'', ''c'']"
  using normalise_total [of "[(''a'', 20), (''b'', 20), (''c'', 20)]"]
  by (simp add: Let_def obj_ok_def draftTotal_def)

lemma round_share:
  assumes "0 \<le> w" and "w \<le> t" and "0 < t"
  shows "0 \<le> math_round (rat_of_int w / rat_of_int t * 100) \<and> math_round (rat_of_int w / rat_of_int t * 100) \<le> 100"
proof -
  define q where "q = rat_of_int w / rat_of_int t"
  have "0 \<le> q" "q \<le> 1" using assms by (simp_all add: q_def)
  then show ?thesis unfolding math_round_def q_def [symmetric] by linarith
qed

text \<open>
  With one or two backends, normalising weights that are not negative keeps every weight
  between 0 and 100.
\<close>

lemma normalise_two:
  assumes "obj_ok d" and "length d \<le> 2" and "list_all (\<lambda>w. 0 \<le> w) (obj_values d)" and "0 < draftTotal d"
  shows "list_all (\<lambda>w. 0 \<le> w \<and> w \<le> 100) (obj_values (normalise d))"
proof -
  from assms(2,4) consider (one) i w where "d = [(i, w)]" | (two) i w j v where "d = [(i, w), (j, v)]"
    by (cases d rule: list.exhaust; cases "tl d" rule: list.exhaust) (auto simp: draftTotal_def)
  then show ?thesis
  proof cases
    case one
    with assms(4) show ?thesis by (simp add: normalise_def draftTotal_def Let_def)
  next
    case two
    have "0 \<le> w" "w \<le> w + v" "0 < w + v" "i \<noteq> j"
      using assms two by (auto simp: draftTotal_def obj_ok_def)
    with round_share [of w "w + v"] two show ?thesis
      by (simp add: normalise_def draftTotal_def Let_def)
  qed
qed

lemma normalise_two_witness:
  "list_all (\<lambda>w. 0 \<le> w \<and> w \<le> 100) (obj_values (normalise [(''a'', 3), (''b'', 4)]))"
  by (rule normalise_two) (simp_all add: obj_ok_def draftTotal_def)

text \<open>
  With three backends normalising can hand the last one a negative weight: 1, 7 and 0 become 13,
  88 and -1. The page then offers the result for saving, since it adds up to 100.
\<close>

lemma normalise_negative:
  "let st = traffic_init ''app'' (Some \<lparr>TrafficView_route = None,
              TrafficView_backends = [sample_backend ''a'' 1, sample_backend ''b'' 7, sample_backend ''c'' 0],
              TrafficView_events = []\<rparr>);
       st' = st\<lparr>tp_draft := normalise (tp_draft st)\<rparr>
   in can_normalise st \<and> tp_draft st' = [(''a'', 13), (''b'', 88), (''c'', - 1)] \<and> can_save st'"
proof -
  have d: "weightsByBackend [sample_backend ''a'' 1, sample_backend ''b'' 7, sample_backend ''c'' 0] =
      [(''a'', 1), (''b'', 7), (''c'', 0)]"
    by (simp add: weightsByBackend_def clamp_weight_def)
  have n: "normalise [(''a'', 1), (''b'', 7), (''c'', 0)] = [(''a'', 13), (''b'', 88), (''c'', - 1)]"
    by code_simp
  show ?thesis
    by (simp add: Let_def traffic_init_def d n can_normalise_def draftTotal_def can_save_def isDirty_def
        page_backends_def draft_weight_def obj_get_def)
qed

text \<open>
  Whatever is typed into a weight box, the stored weight is a whole number between 0 and 100 and
  no other backend's weight changes.
\<close>

lemma setWeight_bounds:
  "0 \<le> draft_weight (setWeight i raw d) i \<and> draft_weight (setWeight i raw d) i \<le> 100 \<and>
   (j \<noteq> i \<longrightarrow> draft_weight (setWeight i raw d) j = draft_weight d j)"
  by (simp add: draft_weight_def setWeight_def obj_get_set clamp_weight_def)

lemma setWeight_bounds_witness:
  "draft_weight (setWeight ''a'' 250 [(''b'', 5)]) ''b'' = 5"
  using setWeight_bounds [of "''a''" 250 "[(''b'', 5)]" "''b''"] by (simp add: draft_weight_def obj_get_def)

lemma weightsByBackend_get:
  assumes "distinct (map TrafficBackend_id bs)" and "b \<in> set bs"
  shows "draft_weight (weightsByBackend bs) (TrafficBackend_id b) = clamp_weight (TrafficBackend_weight b)"
  using js_obj.get_fold_put [OF assms, of "\<lambda>b. clamp_weight (TrafficBackend_weight b)" "[]"]
  by (simp add: draft_weight_def weightsByBackend_def)

lemma weightsByBackend_keys:
  assumes "distinct (map TrafficBackend_id bs)"
  shows "obj_keys (weightsByBackend bs) = map TrafficBackend_id bs"
  using js_obj.keys_fold_put [OF assms, of "[]" "\<lambda>b. clamp_weight (TrafficBackend_weight b)"]
  by (simp add: weightsByBackend_def)

text \<open>
  Re-synchronising the draft with refreshed server data never changes a weight the operator
  sees: a draft that differs from the new data is kept even when the operator has not touched it, and
  one that does not differ already shows the new weights.
\<close>

lemma resync_noop:
  assumes "distinct (map TrafficBackend_id bs)" and "b \<in> set bs"
    and "list_all (\<lambda>b. 0 \<le> TrafficBackend_weight b \<and> TrafficBackend_weight b \<le> 100) bs"
  shows "draft_weight (resync d bs) (TrafficBackend_id b) = draft_weight d (TrafficBackend_id b)"
proof (cases "isDirty d bs")
  case False
  then have "draft_weight d (TrafficBackend_id b) = TrafficBackend_weight b"
    using assms(2) by (auto simp: isDirty_def list_ex_iff)
  moreover have "clamp_weight (TrafficBackend_weight b) = TrafficBackend_weight b"
    using assms(2,3) by (auto simp: list_all_iff clamp_weight_def)
  ultimately show ?thesis using False weightsByBackend_get [OF assms(1,2)] by (simp add: resync_def)
qed (simp add: resync_def)

lemma resync_noop_witness:
  "draft_weight (resync (weightsByBackend [sample_backend ''a'' 100, sample_backend ''b'' 0])
     [sample_backend ''a'' 50, sample_backend ''b'' 50]) ''a'' = 100"
  using resync_noop [of "[sample_backend ''a'' 50, sample_backend ''b'' 50]" "sample_backend ''a'' 50"
      "weightsByBackend [sample_backend ''a'' 100, sample_backend ''b'' 0]"]
  by (simp add: weightsByBackend_def clamp_weight_def draft_weight_def obj_get_def)

text \<open>
  When the page lets the operator save, the request carries every backend of the draft exactly
  once and the weights it carries add up to 100.
\<close>

lemma save_request_total:
  assumes "can_save st" and "obj_ok (tp_draft st)"
  shows "\<exists>ws. save_request st = appsApi_updateTraffic (tp_app st) ws \<and>
    sum_list (map TrafficWeightInput_weight ws) = 100 \<and>
    map TrafficWeightInput_backend_id ws = obj_keys (tp_draft st) \<and> distinct (map TrafficWeightInput_backend_id ws)"
proof -
  define ws where
    "ws = map (\<lambda>(i, w). \<lparr>TrafficWeightInput_backend_id = i, TrafficWeightInput_weight = w\<rparr>) (tp_draft st)"
  have "map TrafficWeightInput_weight ws = obj_values (tp_draft st)"
    "map TrafficWeightInput_backend_id ws = obj_keys (tp_draft st)" by (auto simp: ws_def)
  with assms show ?thesis
    by (intro exI [of _ ws]) (simp add: save_request_def ws_def [symmetric] can_save_def draftTotal_def obj_ok_def)
qed

lemma save_request_total_witness:
  "\<exists>ws. save_request \<lparr>tp_app = ''x'', tp_view = None, tp_draft = [(''a'', 60), (''b'', 40)], tp_error = None\<rparr> =
      appsApi_updateTraffic ''x'' ws \<and> sum_list (map TrafficWeightInput_weight ws) = 100"
  using save_request_total [of "\<lparr>tp_app = ''x'', tp_view = None, tp_draft = [(''a'', 60), (''b'', 40)], tp_error = None\<rparr>"]
  by (auto simp: can_save_def isDirty_def draftTotal_def page_backends_def obj_ok_def)

lemma sum_draft:
  assumes "distinct (map TrafficBackend_id bs)" and "obj_keys d = map TrafficBackend_id bs"
  shows "sum_list (map (\<lambda>b. draft_weight d (TrafficBackend_id b)) bs) = draftTotal d"
proof -
  have "map (\<lambda>b. draft_weight d (TrafficBackend_id b)) bs = map (draft_weight d) (obj_keys d)"
    unfolding assms(2) by (simp add: comp_def)
  also have "\<dots> = obj_values d"
  proof -
    have "draft_weight d (fst e) = snd e" if "e \<in> set d" for e
      using that assms by (cases e rule: prod.exhaust) (simp add: draft_weight_def obj_get_def)
    then show ?thesis by simp
  qed
  finally show ?thesis by (simp add: draftTotal_def)
qed

text \<open>
  The split bar is filled completely: when the draft has the backends of the view, the widths of
  its segments add up to 100 percent.
\<close>

lemma split_bar_full:
  assumes "distinct (map TrafficBackend_id bs)" and "obj_keys d = map TrafficBackend_id bs" and "draftTotal d \<noteq> 0"
  shows "sum_list (map snd (split_segments d bs)) = 100"
proof -
  have "sum_list (map snd (split_segments d bs)) =
      (\<Sum>b\<leftarrow>bs. rat_of_int (draft_weight d (TrafficBackend_id b)) * (100 / rat_of_int (draftTotal d)))"
    using assms(3) by (simp add: split_segments_def Let_def comp_def)
  also have "\<dots> = (\<Sum>b\<leftarrow>bs. rat_of_int (draft_weight d (TrafficBackend_id b))) * (100 / rat_of_int (draftTotal d))"
    by (simp only: sum_list_mult_const)
  also have "(\<Sum>b\<leftarrow>bs. rat_of_int (draft_weight d (TrafficBackend_id b))) = rat_of_int (draftTotal d)"
    unfolding sum_draft [OF assms(1,2), symmetric] by (induction bs) simp_all
  finally show ?thesis using assms(3) by simp
qed

lemma split_bar_full_witness:
  "sum_list (map snd (split_segments (weightsByBackend [sample_backend ''a'' 5]) [sample_backend ''a'' 5])) = 100"
  by (rule split_bar_full) (simp_all add: weightsByBackend_def draftTotal_def clamp_weight_def)

end
