(* ===== verification/Scaling.thy ===== *)
theory Scaling
  imports Api_Surface
begin

text \<open>
  Manual and automatic scaling of an app: the form of \<open>components/apps/ScaleClient.tsx\<close> (replica
  count, placement strategy, pinned members, the scale-down confirmation) and the rule dialog of
  \<open>components/apps/AutoscaleClient.tsx\<close> (number fields kept as text, \<open>Number(...) || 0\<close> on submit).
\<close>

section \<open>The scale form\<close>

datatype Strategy = Spread | Binpack | Pinned | OtherStrategy string

fun strategy_str :: "Strategy \<Rightarrow> string" where
  "strategy_str Spread = ''spread''"
| "strategy_str Binpack = ''binpack''"
| "strategy_str Pinned = ''pinned''"
| "strategy_str (OtherStrategy s) = s"

definition strategy_of :: "string \<Rightarrow> Strategy" where
  "strategy_of s = (if s = ''spread'' then Spread else if s = ''binpack'' then Binpack
     else if s = ''pinned'' then Pinned else OtherStrategy s)"

definition REPLICA_PRESETS :: "int list" where
  "REPLICA_PRESETS = [1, 2, 3, 5, 10]"

definition initialReplicas :: "App \<Rightarrow> int" where
  "initialReplicas app =
     max 1 (case App_replicas app of Some n \<Rightarrow> if n = 0 then 1 else n | None \<Rightarrow> 1)"

definition initialStrategy :: "App \<Rightarrow> Strategy" where
  "initialStrategy app =
     (case App_placement_strategy app of Some s \<Rightarrow> if s = [] then Spread else strategy_of s | None \<Rightarrow> Spread)"

definition initialPinned :: "App \<Rightarrow> string list" where
  "initialPinned app = (case App_pinned_server_ids app of Some ids \<Rightarrow> ids | None \<Rightarrow> [])"

definition sameSet :: "string list \<Rightarrow> string list \<Rightarrow> bool" where
  "sameSet a b = (length a = length b \<and> list_all (\<lambda>x. x \<in> set a) b)"

record scale_form =
  sf_replicas :: int
  sf_strategy :: Strategy
  sf_pinned :: "string list"
  sf_error :: "string option"

definition scale_init :: "App \<Rightarrow> scale_form" where
  "scale_init app = \<lparr>sf_replicas = initialReplicas app, sf_strategy = initialStrategy app,
     sf_pinned = initialPinned app, sf_error = None\<rparr>"

definition scale_dirty :: "App \<Rightarrow> scale_form \<Rightarrow> bool" where
  "scale_dirty app f =
     (sf_replicas f \<noteq> initialReplicas app \<or> sf_strategy f \<noteq> initialStrategy app \<or>
      (sf_strategy f = Pinned \<and> \<not> sameSet (sf_pinned f) (initialPinned app)))"

definition willScaleDown :: "App \<Rightarrow> scale_form \<Rightarrow> bool" where
  "willScaleDown app f = (sf_replicas f < initialReplicas app)"

definition needsPinnedSelection :: "scale_form \<Rightarrow> bool" where
  "needsPinnedSelection f = (sf_strategy f = Pinned \<and> sf_pinned f = [])"

definition scale_request :: "App \<Rightarrow> scale_form \<Rightarrow> endpoint" where
  "scale_request app f = appsApi_scale (App_id app)
     \<lparr>ScaleInput_replicas = sf_replicas f, ScaleInput_placement_strategy = Some (strategy_str (sf_strategy f)),
      ScaleInput_placement_constraints = None,
      ScaleInput_pinned_server_ids = (if sf_strategy f = Pinned then Some (sf_pinned f) else None)\<rparr>"

definition togglePinned :: "string \<Rightarrow> string list \<Rightarrow> string list" where
  "togglePinned serverId prev =
     (if serverId \<in> set prev then filter (\<lambda>i. i \<noteq> serverId) prev else prev @ [serverId])"

definition replicas_typed :: "string \<Rightarrow> int \<Rightarrow> int" where
  "replicas_typed s r =
     (case Number s of Num n \<Rightarrow> max 1 (min 999 (math_trunc n)) | _ \<Rightarrow> r)"

datatype scale_event =
    SDecrement | SIncrement | STyped string | SPreset int | SStrategy Strategy
  | SToggle string | SSelectAll "string list" | SClear | SSubmit | SConfirm

text \<open>
  The form's handlers: the state after the event and the request it sends, if any. The confirmation
  dialog is rendered in place of the submit button while the form would scale down, and its
  trigger is disabled exactly when the submit button would be; a preset button exists only for the
  listed numbers.
\<close>

fun scale_step :: "App \<Rightarrow> scale_form \<Rightarrow> scale_event \<Rightarrow> scale_form \<times> endpoint option" where
  "scale_step app f SDecrement = (f\<lparr>sf_replicas := max 1 (sf_replicas f - 1)\<rparr>, None)"
| "scale_step app f SIncrement = (f\<lparr>sf_replicas := min 999 (sf_replicas f + 1)\<rparr>, None)"
| "scale_step app f (STyped s) = (f\<lparr>sf_replicas := replicas_typed s (sf_replicas f)\<rparr>, None)"
| "scale_step app f (SPreset n) = ((if n \<in> set REPLICA_PRESETS then f\<lparr>sf_replicas := n\<rparr> else f), None)"
| "scale_step app f (SStrategy s) =
     ((if s \<in> {Spread, Binpack, Pinned} then f\<lparr>sf_strategy := s\<rparr> else f), None)"
| "scale_step app f (SToggle i) = (f\<lparr>sf_pinned := togglePinned i (sf_pinned f)\<rparr>, None)"
| "scale_step app f (SSelectAll ids) = (f\<lparr>sf_pinned := ids\<rparr>, None)"
| "scale_step app f SClear = (f\<lparr>sf_pinned := []\<rparr>, None)"
| "scale_step app f SSubmit =
     (f\<lparr>sf_error := None\<rparr>,
      if \<not> scale_dirty app f \<or> needsPinnedSelection f then None
      else if willScaleDown app f then None
      else Some (scale_request app f))"
| "scale_step app f SConfirm =
     (f, if willScaleDown app f \<and> \<not> (\<not> scale_dirty app f \<or> needsPinnedSelection f)
         then Some (scale_request app f) else None)"

definition scale_failed :: "failure \<Rightarrow> scale_form \<Rightarrow> scale_form" where
  "scale_failed e f = f\<lparr>sf_error := Some (error_text e ''Could not apply scale change.'')\<rparr>"

section \<open>The autoscaling rule dialog\<close>

record rule_dialog =
  rd_open :: bool
  rd_name :: string
  rd_metric :: string
  rd_comparison :: string
  rd_threshold :: string
  rd_duration :: string
  rd_action :: string
  rd_actionValue :: string
  rd_minReplicas :: string
  rd_maxReplicas :: string
  rd_cooldownUp :: string
  rd_cooldownDown :: string
  rd_enabled :: bool
  rd_error :: "string option"

definition rule_defaults :: "bool \<Rightarrow> rule_dialog" where
  "rule_defaults opened =
     \<lparr>rd_open = opened, rd_name = ''CPU autoscale'', rd_metric = ''cpu_percent'', rd_comparison = ''gt'',
      rd_threshold = ''70'', rd_duration = ''120'', rd_action = ''scale_by'', rd_actionValue = ''1'',
      rd_minReplicas = ''1'', rd_maxReplicas = ''10'', rd_cooldownUp = ''60'', rd_cooldownDown = ''300'',
      rd_enabled = True, rd_error = None\<rparr>"

definition rule_reset :: "rule_dialog \<Rightarrow> rule_dialog" where
  "rule_reset d = rule_defaults (rd_open d)"

definition rule_input :: "rule_dialog \<Rightarrow> CreateAutoscalingRuleInput" where
  "rule_input d =
     \<lparr>CreateAutoscalingRuleInput_name = (if trim (rd_name d) = [] then None else Some (trim (rd_name d))),
      CreateAutoscalingRuleInput_metric_name = Some (rd_metric d),
      CreateAutoscalingRuleInput_comparison = Some (rd_comparison d),
      CreateAutoscalingRuleInput_threshold = or_zero (Number (rd_threshold d)),
      CreateAutoscalingRuleInput_duration_seconds = Some (or_zero (Number (rd_duration d))),
      CreateAutoscalingRuleInput_action_type = Some (rd_action d),
      CreateAutoscalingRuleInput_action_value = Some (or_zero (Number (rd_actionValue d))),
      CreateAutoscalingRuleInput_min_replicas = Some (or_zero (Number (rd_minReplicas d))),
      CreateAutoscalingRuleInput_max_replicas = Some (or_zero (Number (rd_maxReplicas d))),
      CreateAutoscalingRuleInput_cooldown_up_seconds = Some (or_zero (Number (rd_cooldownUp d))),
      CreateAutoscalingRuleInput_cooldown_down_seconds = Some (or_zero (Number (rd_cooldownDown d))),
      CreateAutoscalingRuleInput_enabled = Some (rd_enabled d)\<rparr>"

definition rule_can_submit :: "rule_dialog \<Rightarrow> bool" where
  "rule_can_submit d = (\<not> (rd_threshold d = [] \<or> rd_duration d = []))"

definition rule_submit :: "string \<Rightarrow> rule_dialog \<Rightarrow> endpoint option" where
  "rule_submit appId d =
     (if rule_can_submit d then Some (appsApi_createAutoscalingRule appId (rule_input d)) else None)"

definition rule_done :: "failure option \<Rightarrow> rule_dialog \<Rightarrow> rule_dialog" where
  "rule_done outcome d =
     (case outcome of
        None \<Rightarrow> rule_reset (d\<lparr>rd_open := False\<rparr>)
      | Some e \<Rightarrow> d\<lparr>rd_error := Some (error_text e ''Could not create rule.'')\<rparr>)"

definition rule_onOpenChange :: "bool \<Rightarrow> rule_dialog \<Rightarrow> rule_dialog" where
  "rule_onOpenChange v d = (let d' = d\<lparr>rd_open := v\<rparr> in if v then d' else rule_reset d')"

definition METRIC_OPTIONS :: "(string \<times> string \<times> string) list" where
  "METRIC_OPTIONS = [
     (''cpu_percent'', ''CPU utilisation'', ''%''),
     (''memory_percent'', ''Memory utilisation'', ''%''),
     (''request_rate'', ''Request rate'', ''req/s''),
     (''p95_latency_ms'', ''P95 latency'', ''ms''),
     (''error_rate'', ''Error rate'', ''%'')]"

definition COMPARISON_OPTIONS :: "(string \<times> string) list" where
  "COMPARISON_OPTIONS = [(''gt'', ''>''), (''gte'', ''>=''), (''lt'', ''<''), (''lte'', ''<=''), (''eq'', ''==''), (''ne'', ''!='')]"

definition prettyMetric :: "string \<Rightarrow> string" where
  "prettyMetric name = (case map_of METRIC_OPTIONS name of Some (l, u) \<Rightarrow> l | None \<Rightarrow> name)"

definition metricUnit :: "string \<Rightarrow> string" where
  "metricUnit name = (case map_of METRIC_OPTIONS name of Some (l, u) \<Rightarrow> u | None \<Rightarrow> [])"

definition comparisonSymbol :: "string \<Rightarrow> string" where
  "comparisonSymbol c = (case map_of COMPARISON_OPTIONS c of Some l \<Rightarrow> l | None \<Rightarrow> c)"

definition actionLabel :: "string \<Rightarrow> int \<Rightarrow> string" where
  "actionLabel ty v =
     (if ty = ''scale_by'' then
        (if 0 \<le> v then ''+'' else []) @ show_int v @ '' replica'' @ (if \<bar>v\<bar> = 1 then [] else ''s'')
      else if ty = ''scale_to'' then ''set to '' @ show_int v
      else ty @ ''('' @ show_int v @ '')'')"

text \<open>The dash shown for a number that is not finite is written \<open>--\<close>.\<close>

definition fmtNumber :: "jsnum \<Rightarrow> string" where
  "fmtNumber n =
     (case n of
        Num r \<Rightarrow> if r = of_int \<lfloor>r\<rfloor> then show_int \<lfloor>r\<rfloor> else to_fixed 2 r
      | _ \<Rightarrow> ''--'')"

section \<open>The list of rules\<close>

record autoscale_page =
  ap_error :: "string option"
  ap_evaluations :: "AutoscaleEvaluation list option"
  ap_rules_stale :: bool

definition remove_done :: "failure option \<Rightarrow> autoscale_page \<Rightarrow> autoscale_page" where
  "remove_done outcome p =
     (case outcome of
        None \<Rightarrow> p\<lparr>ap_rules_stale := True\<rparr>
      | Some e \<Rightarrow> p\<lparr>ap_error := Some (error_text e ''Could not delete rule.'')\<rparr>)"

definition evaluate_done :: "AutoscaleEvaluation list result \<Rightarrow> autoscale_page \<Rightarrow> autoscale_page" where
  "evaluate_done r p =
     (case r of
        Inr evs \<Rightarrow> p\<lparr>ap_error := None, ap_evaluations := Some evs, ap_rules_stale := True\<rparr>
      | Inl e \<Rightarrow> p\<lparr>ap_error := Some (error_text e ''Evaluation failed.'')\<rparr>)"

section \<open>Facts\<close>

interpretation pin: selection togglePinned
  by unfold_locales (auto simp: togglePinned_def)

definition scale_ok :: "App \<Rightarrow> scale_form \<Rightarrow> bool" where
  "scale_ok app f = (1 \<le> sf_replicas f \<and> sf_replicas f \<le> max 999 (initialReplicas app))"

interpretation scale_run: event_machine "\<lambda>f e. fst (scale_step app f e)" "scale_ok app"
proof
  fix f e
  show "scale_ok app f \<Longrightarrow> scale_ok app (fst (scale_step app f e))"
    by (cases e) (auto simp: scale_ok_def replicas_typed_def REPLICA_PRESETS_def split: jsnum.splits)
qed

lemma scale_ok_init: "scale_ok app (scale_init app)"
  by (simp add: scale_ok_def scale_init_def initialReplicas_def)

text \<open>
  Whatever the operator clicks and types, the replica count in the form is at least 1, and at most
  999 unless the app already runs more.
\<close>

lemma scale_replicas_bounds:
  "let f = foldl (\<lambda>f e. fst (scale_step app f e)) (scale_init app) es in
     1 \<le> sf_replicas f \<and> sf_replicas f \<le> max 999 (initialReplicas app)"
  using scale_run.inv_run [OF scale_ok_init, of app es] by (simp add: scale_ok_def Let_def)

text \<open>
  Every scale request is deliberate: it is sent only from a changed form, never with the pinned
  strategy and no server chosen; submitting never lowers the replica count, and lowering it takes the
  confirmation. The request carries the form's count and strategy, and server ids only when pinned.
\<close>

lemma scale_request_guarded:
  assumes "scale_step app f e = (f', Some ep)"
  shows "ep = scale_request app f \<and> scale_dirty app f \<and> (sf_strategy f = Pinned \<longrightarrow> sf_pinned f \<noteq> []) \<and>
    (sf_replicas f < initialReplicas app \<longleftrightarrow> e = SConfirm)"
  using assms
  by (cases e) (auto simp: needsPinnedSelection_def willScaleDown_def split: if_splits)

definition sample_app :: "int \<Rightarrow> App" where
  "sample_app n = \<lparr>App_id = ''app'', App_project_id = ''p'', App_name = ''web'', App_slug = ''web'', App_source_type = ''docker'',
     App_github_installation_id = None, App_repo_full_name = None, App_branch = None, App_root_path = None,
     App_auto_deploy = None, App_docker_image = None, App_registry_credential_id = None, App_builder = None,
     App_dockerfile_path = None, App_port = None, App_health_check_path = None, App_replicas = Some n,
     App_placement_strategy = None, App_placement_constraints = None, App_pinned_server_ids = None,
     App_status = ''active'', App_resource_cpu_millicores = None, App_resource_memory_mb = None,
     App_cpu_limit_millicores = None, App_memory_limit_mb = None, App_custom_domain = None,
     App_custom_domain_verified = None, App_created_at = [], App_updated_at = []\<rparr>"

lemma scale_request_guarded_witness:
  "let f = scale_init (sample_app 3)\<lparr>sf_replicas := 1\<rparr> in
     scale_step (sample_app 3) f SConfirm = (f, Some (scale_request (sample_app 3) f)) \<and> scale_dirty (sample_app 3) f"
proof -
  let ?f = "scale_init (sample_app 3)\<lparr>sf_replicas := 1\<rparr>"
  have "scale_step (sample_app 3) ?f SConfirm = (?f, Some (scale_request (sample_app 3) ?f))"
    by (simp add: scale_init_def sample_app_def willScaleDown_def initialReplicas_def scale_dirty_def
        needsPinnedSelection_def initialStrategy_def)
  with scale_request_guarded [OF this] show ?thesis by (simp add: Let_def)
qed

text \<open>
  For lists without repetition the comparison of the pinned servers with the saved ones is
  equality of sets.
\<close>

lemma sameSet_set:
  assumes "distinct a" and "distinct b"
  shows "sameSet a b \<longleftrightarrow> set a = set b"
proof
  assume "sameSet a b"
  then have "set b \<subseteq> set a" "card (set a) = card (set b)"
    using assms by (auto simp: sameSet_def list_all_iff distinct_card)
  then show "set a = set b" using card_subset_eq [of "set a" "set b"] by simp
next
  assume "set a = set b"
  with assms show "sameSet a b" by (auto simp: sameSet_def list_all_iff distinct_card dest: arg_cong [of _ _ card])
qed

lemma sameSet_set_witness: "sameSet [''x'', ''y''] [''y'', ''x'']"
  using sameSet_set [of "[''x'', ''y'']" "[''y'', ''x'']"] by auto

end
