(* ===== verification/Tokens.thy ===== *)
theory Tokens
  imports Api_Surface
begin

text \<open>
  API tokens: the create dialog (\<open>components/teams/CreateTokenDialog.tsx\<close>) that turns a level per
  resource into scopes, and the check the API makes of a token's scopes (\<open>TokenHasScope\<close> in
  \<open>internal/api/middleware/rbac.go\<close>, \<open>ValidTokenScope\<close> in \<open>internal/model/model.go\<close>), so that what the
  dialog promises can be compared with what the token may do.
\<close>

section \<open>The dialog\<close>

datatype Level = Lv_none | Lv_read | Lv_write

datatype Resource = Res_teams | Res_members | Res_invites | Res_tokens | Res_audit | Res_servers

fun resource_key :: "Resource \<Rightarrow> string" where
  "resource_key Res_teams = ''teams''"
| "resource_key Res_members = ''members''"
| "resource_key Res_invites = ''invites''"
| "resource_key Res_tokens = ''tokens''"
| "resource_key Res_audit = ''audit''"
| "resource_key Res_servers = ''servers''"

text \<open>The table: a resource and whether its card offers the write level.\<close>

definition RESOURCES :: "(Resource \<times> bool) list" where
  "RESOURCES = [(Res_teams, True), (Res_members, True), (Res_invites, True), (Res_tokens, True),
     (Res_audit, False), (Res_servers, True)]"

definition EXPIRY_OPTIONS :: "string list" where
  "EXPIRY_OPTIONS = [[], ''168h'', ''720h'', ''2160h'', ''8760h'']"

definition level_scopes :: "Resource \<Rightarrow> Level \<Rightarrow> string list" where
  "level_scopes r lv =
     (if lv = Lv_read then [resource_key r @ '':read''] else []) @
     (if lv = Lv_write then [resource_key r @ '':*''] else [])"

definition levelsToScopes :: "bool \<Rightarrow> (Resource \<Rightarrow> Level) \<Rightarrow> string list" where
  "levelsToScopes superAdmin levels =
     (if superAdmin then [''*''] else concat (map (\<lambda>(r, w). level_scopes r (levels r)) RESOURCES))"

definition ZERO_LEVELS :: "Resource \<Rightarrow> Level" where
  "ZERO_LEVELS r = Lv_none"

definition card_levels :: "bool \<Rightarrow> Level list" where
  "card_levels supportsWrite = (if supportsWrite then [Lv_none, Lv_read, Lv_write] else [Lv_none, Lv_read])"

record token_dialog =
  td_open :: bool
  td_name :: string
  td_expiresIn :: string
  td_superAdmin :: bool
  td_levels :: "Resource \<Rightarrow> Level"
  td_error :: "string option"
  td_issued :: "ApiToken option"

definition token_reset :: "token_dialog \<Rightarrow> token_dialog" where
  "token_reset d = d\<lparr>td_name := [], td_expiresIn := ''720h'', td_superAdmin := False, td_levels := ZERO_LEVELS,
     td_error := None, td_issued := None\<rparr>"

definition token_init :: token_dialog where
  "token_init = \<lparr>td_open = False, td_name = [], td_expiresIn = ''720h'', td_superAdmin = False,
     td_levels = ZERO_LEVELS, td_error = None, td_issued = None\<rparr>"

definition token_request :: "string \<Rightarrow> token_dialog \<Rightarrow> endpoint" where
  "token_request teamId d = tokensApi_create teamId
     \<lparr>CreateTokenInput_name = trim (td_name d),
      CreateTokenInput_scopes = levelsToScopes (td_superAdmin d) (td_levels d),
      CreateTokenInput_expires_in = (if td_expiresIn d = [] then None else Some (td_expiresIn d))\<rparr>"

datatype token_event =
    TOpenChange bool
  | TName string
  | TExpiry string
  | TSuperAdmin
  | TLevel Resource Level
  | TSubmit
  | TIssued ApiToken
  | TFailed failure
  | TDone

text \<open>
  The handlers. A level or expiry can only be set through a button that exists; the form is on screen
  while no token has been issued, the reveal pane with its \<open>Done\<close> button afterwards.
\<close>

fun token_step :: "string \<Rightarrow> token_dialog \<Rightarrow> token_event \<Rightarrow> token_dialog \<times> endpoint option" where
  "token_step t d (TOpenChange v) = ((let d' = d\<lparr>td_open := v\<rparr> in if v then d' else token_reset d'), None)"
| "token_step t d (TName s) = ((if td_issued d = None then d\<lparr>td_name := s\<rparr> else d), None)"
| "token_step t d (TExpiry e) =
     ((if td_issued d = None \<and> e \<in> set EXPIRY_OPTIONS then d\<lparr>td_expiresIn := e\<rparr> else d), None)"
| "token_step t d TSuperAdmin = ((if td_issued d = None then d\<lparr>td_superAdmin := \<not> td_superAdmin d\<rparr> else d), None)"
| "token_step t d (TLevel r lv) =
     ((if td_issued d = None \<and> \<not> td_superAdmin d \<and>
          list_ex (\<lambda>(r', w). r' = r \<and> lv \<in> set (card_levels w)) RESOURCES
       then d\<lparr>td_levels := (td_levels d)(r := lv)\<rparr> else d), None)"
| "token_step t d TSubmit =
     (if td_issued d \<noteq> None then (d, None)
      else if trim (td_name d) = [] then (d\<lparr>td_error := Some ''Token name is required.''\<rparr>, None)
      else if levelsToScopes (td_superAdmin d) (td_levels d) = []
        then (d\<lparr>td_error := Some ''Choose at least one scope, or enable Full admin.''\<rparr>, None)
      else (d\<lparr>td_error := None\<rparr>, Some (token_request t d)))"
| "token_step t d (TIssued tok) = (d\<lparr>td_issued := Some tok, td_error := None\<rparr>, None)"
| "token_step t d (TFailed e) = (d\<lparr>td_error := Some (error_text e ''Could not create token.'')\<rparr>, None)"
| "token_step t d TDone = ((if td_issued d \<noteq> None then d\<lparr>td_open := False\<rparr> else d), None)"

section \<open>The API's scope check\<close>

definition TokenHasScope :: "string list \<Rightarrow> string \<Rightarrow> bool" where
  "TokenHasScope scopes required =
     (required = [] \<or>
      list_ex (\<lambda>scope. scope = ''*'' \<or> scope = required \<or>
        (endsWith scope '':*'' \<and> startsWith required (butlast scope))) scopes)"

definition validTokenScopes :: "string list" where
  "validTokenScopes =
     [''*'', ''teams:*'', ''members:*'', ''invites:*'', ''tokens:*'', ''audit:*'', ''servers:*'',
      ''teams:read'', ''teams:write'', ''members:read'', ''members:write'', ''invites:read'', ''invites:write'',
      ''tokens:read'', ''tokens:write'', ''audit:read'', ''servers:read'', ''servers:write'']"

section \<open>Facts\<close>

definition token_ok :: "token_dialog \<Rightarrow> bool" where
  "token_ok d = (td_levels d Res_audit \<noteq> Lv_write \<and> td_expiresIn d \<in> set EXPIRY_OPTIONS)"

interpretation token_run: event_machine "\<lambda>d e. fst (token_step t d e)" token_ok
proof
  fix d e
  show "token_ok d \<Longrightarrow> token_ok (fst (token_step t d e))"
    by (cases e)
      (auto simp: token_ok_def token_reset_def ZERO_LEVELS_def Let_def RESOURCES_def card_levels_def EXPIRY_OPTIONS_def)
qed

lemma token_ok_init: "token_ok token_init"
  by (simp add: token_ok_def token_init_def ZERO_LEVELS_def EXPIRY_OPTIONS_def)

lemma all_resources: "\<exists>w. (r, w) \<in> set RESOURCES"
  by (cases r) (auto simp: RESOURCES_def)

lemma level_scopes_valid: "s \<in> set (level_scopes r lv) \<Longrightarrow> s \<in> set validTokenScopes"
  by (cases r; cases lv) (auto simp: level_scopes_def validTokenScopes_def)

lemma level_scope_grants:
  "list_ex (\<lambda>scope. TokenHasScope [scope] (resource_key q @ '':read'')) (level_scopes r lv) \<longleftrightarrow> q = r \<and> lv \<noteq> Lv_none"
  "list_ex (\<lambda>scope. TokenHasScope [scope] (resource_key q @ '':write'')) (level_scopes r lv) \<longleftrightarrow> q = r \<and> lv = Lv_write"
  by (cases q; cases r; cases lv; simp add: level_scopes_def TokenHasScope_def startsWith_def endsWith_def suffix_to_prefix; fail)+

lemma TokenHasScope_any:
  "req \<noteq> [] \<Longrightarrow> TokenHasScope scopes req \<longleftrightarrow> list_ex (\<lambda>s. TokenHasScope [s] req) scopes"
  by (simp add: TokenHasScope_def)

lemma levels_grant:
  assumes "req \<noteq> []"
    and "\<And>q. list_ex (\<lambda>s. TokenHasScope [s] req) (level_scopes q (levels q)) \<longleftrightarrow> q = r \<and> P"
  shows "TokenHasScope (levelsToScopes False levels) req \<longleftrightarrow> P"
proof -
  have "TokenHasScope (levelsToScopes False levels) req \<longleftrightarrow>
      (\<exists>(q, w) \<in> set RESOURCES. list_ex (\<lambda>s. TokenHasScope [s] req) (level_scopes q (levels q)))"
    unfolding TokenHasScope_any [OF assms(1), of "levelsToScopes False levels"]
    by (fastforce simp: levelsToScopes_def list_ex_iff)
  also have "\<dots> \<longleftrightarrow> P" using assms(2) all_resources [of r] by auto
  finally show ?thesis .
qed

text \<open>
  C3: A token does exactly what the dialog says: without full admin, the API grants it read access to a
  resource if and only if that resource's level is read or write, and write access if and only if it is
  write; full admin grants every scope. Every scope the dialog sends is one the API accepts.
\<close>

lemma token_grants_levels:
  "(TokenHasScope (levelsToScopes False levels) (resource_key r @ '':read'') \<longleftrightarrow> levels r \<noteq> Lv_none) \<and>
   (TokenHasScope (levelsToScopes False levels) (resource_key r @ '':write'') \<longleftrightarrow> levels r = Lv_write) \<and>
   TokenHasScope (levelsToScopes True levels) s \<and>
   list_all (\<lambda>s. s \<in> set validTokenScopes) (levelsToScopes b levels)"
proof (intro conjI)
  show "TokenHasScope (levelsToScopes False levels) (resource_key r @ '':read'') \<longleftrightarrow> levels r \<noteq> Lv_none"
    by (rule levels_grant [where r = r]) (auto simp: level_scope_grants)
  show "TokenHasScope (levelsToScopes False levels) (resource_key r @ '':write'') \<longleftrightarrow> levels r = Lv_write"
    by (rule levels_grant [where r = r]) (auto simp: level_scope_grants)
  show "TokenHasScope (levelsToScopes True levels) s"
    by (simp add: TokenHasScope_def levelsToScopes_def)
  show "list_all (\<lambda>s. s \<in> set validTokenScopes) (levelsToScopes b levels)"
  proof -
    have "''*'' \<in> set validTokenScopes" by (simp add: validTokenScopes_def)
    then show ?thesis by (auto simp: levelsToScopes_def list_all_iff intro: level_scopes_valid)
  qed
qed

text \<open>
  Whatever is clicked in the dialog, a request is sent only with a name that is not blank and at
  least one scope, and unless full admin is on it never asks for more than read access to the audit log.
\<close>

lemma token_submit_guarded:
  assumes "d = foldl (\<lambda>d e. fst (token_step t d e)) token_init es" and "token_step t d e = (d', Some ep)"
  shows "ep = token_request t d \<and> trim (td_name d) \<noteq> [] \<and> levelsToScopes (td_superAdmin d) (td_levels d) \<noteq> [] \<and>
    (\<not> td_superAdmin d \<longrightarrow> \<not> TokenHasScope (levelsToScopes False (td_levels d)) ''audit:write'')"
proof -
  have ok: "token_ok d" using assms(1) token_run.inv_run [OF token_ok_init] by simp
  have "TokenHasScope (levelsToScopes False (td_levels d)) (resource_key Res_audit @ '':write'') \<longleftrightarrow> td_levels d Res_audit = Lv_write"
    by (rule levels_grant [where r = Res_audit]) (auto simp only: level_scope_grants)
  with ok have "\<not> TokenHasScope (levelsToScopes False (td_levels d)) ''audit:write''" by (simp add: token_ok_def)
  moreover have "ep = token_request t d \<and> trim (td_name d) \<noteq> [] \<and> levelsToScopes (td_superAdmin d) (td_levels d) \<noteq> []"
    using assms(2) by (cases e) (auto split: if_splits)
  ultimately show ?thesis by simp
qed

lemma token_submit_guarded_witness:
  "let d = foldl (\<lambda>d e. fst (token_step ''t'' d e)) token_init [TOpenChange True, TName ''ci'', TLevel Res_audit Lv_read]
   in \<exists>ep. snd (token_step ''t'' d TSubmit) = Some ep \<and> ep = token_request ''t'' d"
proof -
  let ?d = "foldl (\<lambda>d e. fst (token_step ''t'' d e)) token_init [TOpenChange True, TName ''ci'', TLevel Res_audit Lv_read]"
  have "trim ''ci'' \<noteq> []" by code_simp
  then have "\<exists>d' ep. token_step ''t'' ?d TSubmit = (d', Some ep)"
    by (simp add: token_init_def RESOURCES_def card_levels_def levelsToScopes_def level_scopes_def ZERO_LEVELS_def)
  then obtain d' ep where "token_step ''t'' ?d TSubmit = (d', Some ep)" by blast
  with token_submit_guarded [OF refl this] show ?thesis unfolding Let_def by auto
qed

text \<open>
  Leaving the reveal pane with its Done button keeps the issued token: opening the dialog again
  shows the same plain token, although the pane says it is shown only once. Dismissing the dialog in any
  other way forgets it.
\<close>

lemma token_shown_again:
  "td_issued (foldl (\<lambda>d e. fst (token_step t d e)) d [TIssued tok, TDone, TOpenChange True]) = Some tok \<and>
   td_issued (foldl (\<lambda>d e. fst (token_step t d e)) d [TIssued tok, TOpenChange False, TOpenChange True]) = None"
  by (simp add: token_reset_def)

end
