(* ===== verification/Env_Vars.thy ===== *)
theory Env_Vars
  imports Api_Surface
begin

text \<open>
  Per-app environment variables: the page \<open>components/apps/EnvVarsClient.tsx\<close> (environment choice,
  create/edit dialog with its key check, reveal dialog) and the check the API repeats
  (\<open>validateEnvKey\<close> in \<open>internal/api/handler/app_env_var.go\<close>).
\<close>

section \<open>Keys\<close>

definition RESERVED_KEYS :: "string list" where
  "RESERVED_KEYS = [''PORT'', ''PLATFORM_PUBLIC_DOMAIN'', ''PLATFORM_PRIVATE_IP'', ''PLATFORM_PRIVATE_DOMAIN'',
     ''CLUSTER_NAME'', ''PROJECT_NAME'', ''APP_NAME'', ''ENVIRONMENT'', ''DEPLOY_ID'', ''GIT_SHA'']"

definition key_start :: "char \<Rightarrow> bool" where
  "key_start c = ((65 \<le> code_of c \<and> code_of c \<le> 90) \<or> (97 \<le> code_of c \<and> code_of c \<le> 122) \<or> c = CHR ''_'')"

definition key_char :: "char \<Rightarrow> bool" where
  "key_char c = (key_start c \<or> is_digit c)"

text \<open>\<open>/^[A-Za-z_][A-Za-z0-9_]*$/\<close>\<close>

definition key_pattern :: "string \<Rightarrow> bool" where
  "key_pattern k = (case k of [] \<Rightarrow> False | c # s \<Rightarrow> key_start c \<and> list_all key_char s)"

definition reservedEnvKeys :: "string list" where
  "reservedEnvKeys = [''PORT'', ''PLATFORM_PUBLIC_DOMAIN'', ''PLATFORM_PRIVATE_IP'', ''PLATFORM_PRIVATE_DOMAIN'',
     ''CLUSTER_NAME'', ''PROJECT_NAME'', ''APP_NAME'', ''ENVIRONMENT'', ''DEPLOY_ID'', ''GIT_SHA'']"

definition validateEnvKey :: "string \<Rightarrow> string" where
  "validateEnvKey key =
     (if key = [] then ''key is required''
      else if \<not> key_pattern key then ''key must match ^[A-Za-z_][A-Za-z0-9_]*$''
      else if key \<in> set reservedEnvKeys then ''key is reserved by the platform and cannot be set''
      else [])"

section \<open>The page\<close>

definition env_slugs :: "Environment list \<Rightarrow> string list" where
  "env_slugs es = (if es \<noteq> [] then map Environment_slug es else [''production''])"

definition initial_env :: "Environment list \<Rightarrow> string" where
  "initial_env es = (if ''production'' \<in> set (env_slugs es) then ''production'' else env_slugs es ! 0)"

section \<open>The create and edit dialog\<close>

record env_dialog =
  ed_existing :: "AppEnvVar option"
  ed_open :: bool
  ed_key :: string
  ed_value :: string
  ed_error :: "string option"

definition existing_key :: "AppEnvVar option \<Rightarrow> string" where
  "existing_key ex = (case ex of Some v \<Rightarrow> AppEnvVar_key v | None \<Rightarrow> [])"

definition env_dialog_init :: "AppEnvVar option \<Rightarrow> env_dialog" where
  "env_dialog_init ex = \<lparr>ed_existing = ex, ed_open = False, ed_key = existing_key ex, ed_value = [], ed_error = None\<rparr>"

definition env_reset :: "env_dialog \<Rightarrow> env_dialog" where
  "env_reset d = d\<lparr>ed_key := existing_key (ed_existing d), ed_value := [], ed_error := None\<rparr>"

definition env_save_request :: "string \<Rightarrow> string \<Rightarrow> env_dialog \<Rightarrow> endpoint" where
  "env_save_request appId environment d =
     (case ed_existing d of
        Some v \<Rightarrow> appEnvVarsApi_update appId (AppEnvVar_id v) (ed_value d)
      | None \<Rightarrow> appEnvVarsApi_create appId
          \<lparr>CreateAppEnvVarInput_environment = environment, CreateAppEnvVarInput_key = trim (ed_key d),
           CreateAppEnvVarInput_value = ed_value d\<rparr>)"

text \<open>The first complaint of \<open>handleSubmit\<close>, if any.\<close>

definition env_complaint :: "env_dialog \<Rightarrow> string option" where
  "env_complaint d =
     (let k = trim (ed_key d) in
      if ed_existing d = None \<and> k = [] then Some ''Key is required.''
      else if ed_existing d = None \<and> \<not> key_pattern k
        then Some ''Keys must start with a letter or underscore and contain only letters, digits, and underscores.''
      else if ed_existing d = None \<and> k \<in> set RESERVED_KEYS
        then Some (k @ '' is reserved by the platform and is set automatically.'')
      else if ed_value d = [] then Some ''Value is required.''
      else None)"

definition env_submit :: "string \<Rightarrow> string \<Rightarrow> env_dialog \<Rightarrow> env_dialog \<times> endpoint option" where
  "env_submit appId environment d =
     (case env_complaint d of
        Some m \<Rightarrow> (d\<lparr>ed_error := Some m\<rparr>, None)
      | None \<Rightarrow> (d\<lparr>ed_error := None\<rparr>, Some (env_save_request appId environment d)))"

definition env_saved :: "failure option \<Rightarrow> env_dialog \<Rightarrow> env_dialog" where
  "env_saved outcome d =
     (case outcome of
        None \<Rightarrow> env_reset (d\<lparr>ed_open := False\<rparr>)
      | Some e \<Rightarrow> d\<lparr>ed_error := Some (error_text e ''Could not save the variable.'')\<rparr>)"

definition env_onOpenChange :: "bool \<Rightarrow> env_dialog \<Rightarrow> env_dialog" where
  "env_onOpenChange v d = (let d' = d\<lparr>ed_open := v\<rparr> in if v then d' else env_reset d')"

section \<open>The reveal dialog\<close>

text \<open>The state of a mutation as the query library exposes it; a reset forgets the call in flight.\<close>

datatype mutation = Mut_idle | Mut_pending | Mut_data string | Mut_error failure

record reveal_dialog =
  rv_open :: bool
  rv_mutation :: mutation

datatype reveal_event = ROpenChange bool | RSettled "string result"

fun reveal_step :: "reveal_dialog \<Rightarrow> reveal_event \<Rightarrow> reveal_dialog" where
  "reveal_step d (ROpenChange v) =
     d\<lparr>rv_open := v, rv_mutation := (if v then Mut_pending else Mut_idle)\<rparr>"
| "reveal_step d (RSettled r) =
     (if rv_mutation d = Mut_pending
      then d\<lparr>rv_mutation := (case r of Inr s \<Rightarrow> Mut_data s | Inl e \<Rightarrow> Mut_error e)\<rparr> else d)"

definition reveal_value :: "reveal_dialog \<Rightarrow> string" where
  "reveal_value d = (case rv_mutation d of Mut_data s \<Rightarrow> s | _ \<Rightarrow> [])"

fun errorMessage :: "failure \<Rightarrow> string" where
  "errorMessage (ApiError st m c) = m"
| "errorMessage (OtherError m) = m"

section \<open>Facts\<close>

lemma key_char_not_ws: "key_char c \<Longrightarrow> \<not> is_ws c"
  by (auto simp: key_char_def key_start_def is_digit_def is_ws_def code_of_def)

lemma key_pattern_trim:
  assumes "key_pattern k"
  shows "trim k = k"
proof -
  from assms have "k \<noteq> []" "list_all key_char k"
    by (auto simp: key_pattern_def key_char_def split: list.splits)
  then show ?thesis
    using key_char_not_ws by (intro trim_no_ws) (auto simp: list_all_iff)
qed

text \<open>
  The dialog's key check is the API's: for a new variable the form complains about the key exactly
  when \<open>validateEnvKey\<close> rejects the key that would be sent, so an accepted form is never refused for its
  key.
\<close>

lemma env_key_guard:
  assumes "ed_existing d = None" and "ed_value d \<noteq> []"
  shows "env_complaint d = None \<longleftrightarrow> validateEnvKey (trim (ed_key d)) = []"
  using assms by (auto simp: env_complaint_def validateEnvKey_def RESERVED_KEYS_def reservedEnvKeys_def Let_def)

lemma env_key_guard_witness:
  "env_complaint \<lparr>ed_existing = None, ed_open = True, ed_key = '' API_URL '', ed_value = ''x'', ed_error = None\<rparr> = None"
proof -
  have "validateEnvKey (trim '' API_URL '') = []" by code_simp
  with env_key_guard [of "\<lparr>ed_existing = None, ed_open = True, ed_key = '' API_URL '', ed_value = ''x'', ed_error = None\<rparr>"]
  show ?thesis by simp
qed

text \<open>
  Saving a new variable sends the trimmed key, the chosen environment and a value that is not empty;
  the key that is sent is a valid identifier that the platform does not reserve. Editing sends only the
  new value, to the variable that was opened.
\<close>

lemma env_submit_request:
  assumes "env_submit appId environment d = (d', Some ep)"
  shows "ed_value d \<noteq> [] \<and>
    (case ed_existing d of
       Some v \<Rightarrow> ep = appEnvVarsApi_update appId (AppEnvVar_id v) (ed_value d)
     | None \<Rightarrow> ep = appEnvVarsApi_create appId
          \<lparr>CreateAppEnvVarInput_environment = environment, CreateAppEnvVarInput_key = trim (ed_key d),
           CreateAppEnvVarInput_value = ed_value d\<rparr> \<and>
         validateEnvKey (trim (ed_key d)) = [])"
proof -
  have c: "env_complaint d = None" and ep: "ep = env_save_request appId environment d"
    using assms by (auto simp: env_submit_def split: option.splits)
  from c have v: "ed_value d \<noteq> []" by (auto simp: env_complaint_def Let_def split: if_splits)
  have "validateEnvKey (trim (ed_key d)) = []" if "ed_existing d = None"
    using that v c by (auto simp: env_complaint_def validateEnvKey_def RESERVED_KEYS_def reservedEnvKeys_def Let_def split: if_splits)
  with v ep show ?thesis by (auto simp: env_save_request_def split: option.splits)
qed

lemma env_submit_request_witness:
  "\<exists>ep. snd (env_submit ''a'' ''production''
      \<lparr>ed_existing = None, ed_open = True, ed_key = ''API_URL'', ed_value = ''x'', ed_error = None\<rparr>) = Some ep \<and>
    validateEnvKey (trim ''API_URL'') = []"
proof -
  let ?d = "\<lparr>ed_existing = None, ed_open = True, ed_key = ''API_URL'', ed_value = ''x'', ed_error = None\<rparr>"
  have "env_complaint ?d = None" by code_simp
  then obtain d' ep where "env_submit ''a'' ''production'' ?d = (d', Some ep)" by (simp add: env_submit_def)
  with env_submit_request [OF this] show ?thesis by simp
qed

interpretation reveal: event_machine reveal_step "\<lambda>d. rv_open d \<or> rv_mutation d = Mut_idle"
proof
  fix d e
  show "rv_open d \<or> rv_mutation d = Mut_idle \<Longrightarrow> rv_open (reveal_step d e) \<or> rv_mutation (reveal_step d e) = Mut_idle"
    by (cases e) auto
qed

text \<open>
  The decrypted value is held only while the reveal dialog is open: once it is closed no value is
  kept, even if the answer arrives after closing.
\<close>

lemma reveal_closed:
  assumes "d = foldl reveal_step \<lparr>rv_open = False, rv_mutation = Mut_idle\<rparr> es" and "\<not> rv_open d"
  shows "reveal_value d = [] \<and> rv_mutation d = Mut_idle"
  using reveal.inv_run [of "\<lparr>rv_open = False, rv_mutation = Mut_idle\<rparr>" es] assms by (simp add: reveal_value_def)

lemma reveal_closed_witness:
  "reveal_value (foldl reveal_step \<lparr>rv_open = False, rv_mutation = Mut_idle\<rparr>
     [ROpenChange True, ROpenChange False, RSettled (Inr ''s3cret'')]) = []"
  using reveal_closed [OF refl, of "[ROpenChange True, ROpenChange False, RSettled (Inr ''s3cret'')]"] by simp

end
