(* ===== verification/Widgets.thy ===== *)
theory Widgets
  imports Js_Runtime "HOL-Library.Word"
begin

text \<open>
  Shared controls of the console under \<open>components/primitives\<close> that carry logic of their own: the
  confirmation dialog (\<open>Confirm.tsx\<close>), the searchable select (\<open>Combobox.tsx\<close>) and the avatar's
  colour hash (\<open>Avatar.tsx\<close>), whose arithmetic is kept at 32 bits.
\<close>

section \<open>ConfirmDialog\<close>

text \<open>
  \<open>cd_calls\<close> records what stood in the text box each time \<open>onConfirm\<close> was called, \<open>cd_inflight\<close> how
  many of those calls have not settled.
\<close>

record confirm_dialog =
  cd_phrase :: "string option"
  cd_open :: bool
  cd_typed :: string
  cd_pending :: bool
  cd_loading :: bool
  cd_calls :: "string list"
  cd_inflight :: nat

definition requiresType :: "confirm_dialog \<Rightarrow> bool" where
  "requiresType d = (cd_phrase d \<noteq> None \<and> cd_phrase d \<noteq> Some [])"

definition confirm_ready :: "confirm_dialog \<Rightarrow> bool" where
  "confirm_ready d = (\<not> requiresType d \<or> Some (trim (cd_typed d)) = cd_phrase d)"

definition confirm_isPending :: "confirm_dialog \<Rightarrow> bool" where
  "confirm_isPending d = (cd_pending d \<or> cd_loading d)"

datatype confirm_event = COpen bool | CType string | CConfirm | CSettle bool | CLoading bool

text \<open>Closing runs the effect that clears the text box.\<close>

definition set_open :: "bool \<Rightarrow> confirm_dialog \<Rightarrow> confirm_dialog" where
  "set_open v d = (if v then d\<lparr>cd_open := True\<rparr> else d\<lparr>cd_open := False, cd_typed := []\<rparr>)"

definition handleConfirm :: "confirm_dialog \<Rightarrow> confirm_dialog" where
  "handleConfirm d =
     (if \<not> confirm_ready d \<or> confirm_isPending d then d
      else d\<lparr>cd_pending := True, cd_calls := cd_calls d @ [cd_typed d], cd_inflight := cd_inflight d + 1\<rparr>)"

definition confirm_settled :: "bool \<Rightarrow> confirm_dialog \<Rightarrow> confirm_dialog" where
  "confirm_settled ok d =
     (if cd_inflight d = 0 then d
      else (let d' = (if ok then set_open False d else d) in
            d'\<lparr>cd_pending := False, cd_inflight := cd_inflight d - 1\<rparr>))"

fun confirm_step :: "confirm_dialog \<Rightarrow> confirm_event \<Rightarrow> confirm_dialog" where
  "confirm_step d (COpen v) = set_open v d"
| "confirm_step d (CType s) = (if cd_open d then d\<lparr>cd_typed := s\<rparr> else d)"
| "confirm_step d CConfirm = (if cd_open d then handleConfirm d else d)"
| "confirm_step d (CSettle ok) = confirm_settled ok d"
| "confirm_step d (CLoading b) = d\<lparr>cd_loading := b\<rparr>"

definition confirm_init :: "string option \<Rightarrow> confirm_dialog" where
  "confirm_init p = \<lparr>cd_phrase = p, cd_open = False, cd_typed = [], cd_pending = False, cd_loading = False,
     cd_calls = [], cd_inflight = 0\<rparr>"

section \<open>Combobox\<close>

record combobox_item =
  ci_value :: string
  ci_label :: string
  ci_hint :: "string option"

record combobox =
  cb_items :: "combobox_item list"
  cb_remote :: bool
  cb_open :: bool
  cb_query :: string
  cb_active :: int

definition combobox_visible :: "combobox \<Rightarrow> combobox_item list" where
  "combobox_visible c =
     (if cb_remote c \<or> trim (cb_query c) = [] then cb_items c
      else let q = toLowerCase (trim (cb_query c)) in
        filter (\<lambda>it. str_includes (toLowerCase (ci_label it)) q \<or> str_includes (toLowerCase (ci_value it)) q \<or>
          (case ci_hint it of Some h \<Rightarrow> str_includes (toLowerCase h) q | None \<Rightarrow> False)) (cb_items c))"

text \<open>The effect on \<open>visible.length\<close>: the highlighted row goes back to the top when the list changes length.\<close>

definition settle_active :: "combobox \<Rightarrow> combobox \<Rightarrow> combobox" where
  "settle_active old new =
     (if length (combobox_visible new) = length (combobox_visible old) then new else new\<lparr>cb_active := 0\<rparr>)"

definition combobox_set_open :: "bool \<Rightarrow> combobox \<Rightarrow> combobox" where
  "combobox_set_open v c =
     (if v then (if cb_open c then c else c\<lparr>cb_open := True, cb_active := 0\<rparr>)
      else c\<lparr>cb_open := False, cb_query := []\<rparr>)"

datatype combobox_event =
    BToggle | BOutside | BQuery string | BItems "combobox_item list" | BDown | BUp | BEnter | BEscape

definition active_item :: "combobox \<Rightarrow> combobox_item option" where
  "active_item c =
     (if 0 \<le> cb_active c \<and> nat (cb_active c) < length (combobox_visible c)
      then Some (combobox_visible c ! nat (cb_active c)) else None)"

text \<open>A step gives the new state and the item handed to \<open>onChange\<close>.\<close>

fun combobox_event_state :: "combobox \<Rightarrow> combobox_event \<Rightarrow> combobox \<times> combobox_item option" where
  "combobox_event_state c BToggle = (combobox_set_open (\<not> cb_open c) c, None)"
| "combobox_event_state c BOutside = (combobox_set_open False c, None)"
| "combobox_event_state c (BQuery q) = (c\<lparr>cb_query := q\<rparr>, None)"
| "combobox_event_state c (BItems its) = (c\<lparr>cb_items := its\<rparr>, None)"
| "combobox_event_state c BDown =
     (c\<lparr>cb_active := min (cb_active c + 1) (int (length (combobox_visible c)) - 1)\<rparr>, None)"
| "combobox_event_state c BUp = (c\<lparr>cb_active := max (cb_active c - 1) 0\<rparr>, None)"
| "combobox_event_state c BEnter =
     (case active_item c of Some it \<Rightarrow> (combobox_set_open False c, Some it) | None \<Rightarrow> (c, None))"
| "combobox_event_state c BEscape = (combobox_set_open False c, None)"

definition combobox_step :: "combobox \<Rightarrow> combobox_event \<Rightarrow> combobox" where
  "combobox_step c e = settle_active c (fst (combobox_event_state c e))"

definition combobox_init :: "combobox_item list \<Rightarrow> bool \<Rightarrow> combobox" where
  "combobox_init its remote = \<lparr>cb_items = its, cb_remote = remote, cb_open = False, cb_query = [], cb_active = 0\<rparr>"

section \<open>Avatar\<close>

definition PALETTE :: "(string \<times> string) list" where
  "PALETTE = [
     (''oklch(0.74 0.155 65)'', ''oklch(0.20 0.05 60)''),
     (''oklch(0.66 0.13 165)'', ''oklch(0.18 0.04 160)''),
     (''oklch(0.62 0.16 240)'', ''oklch(0.16 0.04 250)''),
     (''oklch(0.68 0.18 300)'', ''oklch(0.18 0.05 295)''),
     (''oklch(0.75 0.14 130)'', ''oklch(0.20 0.04 125)''),
     (''oklch(0.72 0.16 30)'', ''oklch(0.20 0.05 25)'')]"

text \<open>\<open>((h << 5) - h + c) | 0\<close>: the shift and the final truncation are on 32 bits, the sum is not.\<close>

definition hash_step :: "32 word \<Rightarrow> char \<Rightarrow> 32 word" where
  "hash_step h c = word_of_int (sint (push_bit 5 h) - sint h + int (code_of c))"

definition hash :: "string \<Rightarrow> nat" where
  "hash s = nat \<bar>sint (foldl hash_step 0 s)\<bar>"

definition upper_char :: "char \<Rightarrow> char" where
  "upper_char c = (let n = code_of c in
     if (97 \<le> n \<and> n \<le> 122) \<or> (224 \<le> n \<and> n \<le> 254 \<and> n \<noteq> 247) then char_of (n - 32) else c)"

fun split_ws :: "string \<Rightarrow> string list" where
  "split_ws [] = [[]]"
| "split_ws (c # s) =
     (if is_ws c then [] # split_ws s
      else (case split_ws s of [] \<Rightarrow> [[c]] | p # ps \<Rightarrow> (c # p) # ps))"

text \<open>Splitting at every white-space character and dropping empty parts gives what splitting at runs of them gives.\<close>

definition initials :: "string \<Rightarrow> string" where
  "initials name = map (\<lambda>p. upper_char (hd p)) (take 2 (filter (\<lambda>p. p \<noteq> []) (split_ws name)))"

definition avatar_colours :: "string \<Rightarrow> string option \<Rightarrow> string \<times> string" where
  "avatar_colours name seed = PALETTE ! (hash (case seed of Some s \<Rightarrow> s | None \<Rightarrow> name) mod length PALETTE)"

section \<open>Facts\<close>

definition confirm_ok :: "confirm_dialog \<Rightarrow> bool" where
  "confirm_ok d =
     (cd_inflight d \<le> 1 \<and> cd_pending d = (cd_inflight d = 1) \<and> (\<not> cd_open d \<longrightarrow> cd_typed d = []) \<and>
      (requiresType d \<longrightarrow> list_all (\<lambda>t. Some (trim t) = cd_phrase d) (cd_calls d)))"

interpretation confirm: event_machine confirm_step confirm_ok
proof
  fix d e
  show "confirm_ok d \<Longrightarrow> confirm_ok (confirm_step d e)"
    by (cases e)
      (auto simp: confirm_ok_def set_open_def handleConfirm_def confirm_ready_def confirm_isPending_def
        confirm_settled_def requiresType_def Let_def)
qed

lemma confirm_phrase_kept: "cd_phrase (foldl confirm_step d es) = cd_phrase d"
proof (induction es arbitrary: d)
  case (Cons e es)
  have "cd_phrase (confirm_step d e) = cd_phrase d"
    by (cases e) (simp_all add: set_open_def handleConfirm_def confirm_settled_def Let_def)
  with Cons show ?case by simp
qed simp

text \<open>
  A confirmation dialog with a phrase runs its action only when that phrase stands in the text box
  (up to surrounding white space), never starts a second run while one is in flight, and forgets the
  typed text when it closes.
\<close>

lemma confirm_guarded:
  "let d = foldl confirm_step (confirm_init (Some phrase)) es in
     (phrase = [] \<or> list_all (\<lambda>t. trim t = phrase) (cd_calls d)) \<and> cd_inflight d \<le> 1 \<and> (cd_open d \<or> cd_typed d = [])"
proof -
  have "confirm_ok (confirm_init (Some phrase))" by (simp add: confirm_ok_def confirm_init_def)
  from confirm.inv_run [OF this, of es] confirm_phrase_kept [of "confirm_init (Some phrase)" es]
  show ?thesis by (auto simp: confirm_ok_def requiresType_def Let_def confirm_init_def)
qed

text \<open>
  A phrase that begins or ends with white space can never be confirmed, although the prompt asks
  for it verbatim.
\<close>

lemma confirm_untypable:
  assumes "trim phrase \<noteq> phrase"
  shows "cd_calls (foldl confirm_step (confirm_init (Some phrase)) es) = []"
proof -
  have no: "Some (trim t) \<noteq> Some phrase" for t using assms by (metis option.inject trim_trim)
  have "phrase \<noteq> []" using assms by auto
  have "cd_calls (foldl confirm_step d es) = cd_calls d" if "cd_phrase d = Some phrase" for d
    using that
  proof (induction es arbitrary: d)
    case (Cons e es)
    have "cd_calls (confirm_step d e) = cd_calls d \<and> cd_phrase (confirm_step d e) = Some phrase"
      using Cons.prems no \<open>phrase \<noteq> []\<close>
      by (cases e) (auto simp: set_open_def handleConfirm_def confirm_settled_def Let_def confirm_ready_def requiresType_def)
    with Cons show ?case by simp
  qed simp
  then show ?thesis by (simp add: confirm_init_def)
qed

lemma confirm_untypable_witness:
  "cd_calls (foldl confirm_step (confirm_init (Some ''db '')) [COpen True, CType ''db '', CConfirm]) = []"
proof (rule confirm_untypable)
  show "trim ''db '' \<noteq> ''db ''" by code_simp
qed

definition combobox_ok :: "combobox \<Rightarrow> bool" where
  "combobox_ok c = ((combobox_visible c = [] \<longrightarrow> cb_active c \<le> 0) \<and>
     (combobox_visible c \<noteq> [] \<longrightarrow> 0 \<le> cb_active c \<and> cb_active c < int (length (combobox_visible c))))"

lemma visible_cong:
  "cb_items c = cb_items d \<Longrightarrow> cb_remote c = cb_remote d \<Longrightarrow> cb_query c = cb_query d \<Longrightarrow>
    combobox_visible c = combobox_visible d"
  by (simp add: combobox_visible_def)

lemma combobox_ok_settle:
  assumes "combobox_ok old"
    and "length (combobox_visible new) = length (combobox_visible old) \<Longrightarrow> cb_active new = cb_active old \<or> cb_active new = 0 \<or> combobox_ok new"
  shows "combobox_ok (settle_active old new)"
proof (cases "length (combobox_visible new) = length (combobox_visible old)")
  case True
  then have "combobox_visible new = [] \<longleftrightarrow> combobox_visible old = []" by (metis length_0_conv)
  with True assms show ?thesis by (auto simp: combobox_ok_def settle_active_def)
next
  case False
  have "combobox_visible (new\<lparr>cb_active := 0\<rparr>) = combobox_visible new" by (rule visible_cong) simp_all
  with False show ?thesis by (simp add: combobox_ok_def settle_active_def)
qed

lemma combobox_move: "combobox_visible (c\<lparr>cb_active := a\<rparr>) = combobox_visible c"
  by (rule visible_cong) simp_all

interpretation combo: event_machine combobox_step combobox_ok
proof
  fix c e
  assume ok: "combobox_ok c"
  show "combobox_ok (combobox_step c e)"
    unfolding combobox_step_def
  proof (rule combobox_ok_settle [OF ok])
    show "cb_active (fst (combobox_event_state c e)) = cb_active c \<or> cb_active (fst (combobox_event_state c e)) = 0 \<or>
        combobox_ok (fst (combobox_event_state c e))"
      using ok
      by (cases e) (auto simp: combobox_set_open_def combobox_ok_def combobox_move split: option.splits)
  qed
qed

lemma visible_subset: "set (combobox_visible c) \<subseteq> set (cb_items c)"
  by (auto simp: combobox_visible_def Let_def)

text \<open>
  In the searchable select, through any typing, arrow keys and changes of the item list, the
  highlighted row is one of the rows shown whenever any is shown, so Enter then always commits an item,
  and that item is one of the offered items that match the query.
\<close>

lemma combobox_enter:
  assumes "c = foldl combobox_step (combobox_init its remote) es" and "combobox_visible c \<noteq> []"
  shows "\<exists>it \<in> set (cb_items c). snd (combobox_event_state c BEnter) = Some it \<and> it \<in> set (combobox_visible c) \<and>
    \<not> cb_open (combobox_step c BEnter)"
proof -
  have "combobox_ok (combobox_init its remote)"
    by (simp add: combobox_ok_def combobox_init_def)
  then have "combobox_ok c" using assms(1) combo.inv_run by simp
  with assms(2) have r: "0 \<le> cb_active c" "nat (cb_active c) < length (combobox_visible c)"
    by (auto simp: combobox_ok_def)
  then have "combobox_visible c ! nat (cb_active c) \<in> set (combobox_visible c)" by simp
  with r visible_subset [of c] show ?thesis
    by (auto simp: active_item_def combobox_step_def combobox_set_open_def settle_active_def)
qed

lemma combobox_enter_witness:
  "let c = foldl combobox_step (combobox_init [\<lparr>ci_value = ''a'', ci_label = ''Alpha'', ci_hint = None\<rparr>,
        \<lparr>ci_value = ''b'', ci_label = ''Beta'', ci_hint = None\<rparr>] False) [BToggle, BDown, BDown, BUp]
   in \<exists>it \<in> set (cb_items c). snd (combobox_event_state c BEnter) = Some it"
proof -
  let ?c = "foldl combobox_step (combobox_init [\<lparr>ci_value = ''a'', ci_label = ''Alpha'', ci_hint = None\<rparr>,
        \<lparr>ci_value = ''b'', ci_label = ''Beta'', ci_hint = None\<rparr>] False) [BToggle, BDown, BDown, BUp]"
  have "combobox_visible ?c \<noteq> []" by code_simp
  from combobox_enter [OF refl this] show ?thesis unfolding Let_def by blast
qed

lemma hash_step_poly: "hash_step h c = 31 * h + of_nat (code_of c)"
proof -
  have "push_bit 5 h = 32 * h" by (simp add: push_bit_eq_mult)
  then have "hash_step h c = 32 * h - h + of_nat (code_of c)" by (simp add: hash_step_def)
  then show ?thesis by simp
qed

text \<open>
  The avatar's shift-and-subtract loop is the usual polynomial hash with multiplier 31 on 32-bit
  integers, and the colour it selects is always an entry of the palette.
\<close>

lemma avatar_hash:
  "hash s = nat \<bar>sint (foldl (\<lambda>h c. 31 * h + of_nat (code_of c)) (0 :: 32 word) s)\<bar> \<and>
   avatar_colours s seed \<in> set PALETTE"
proof
  have "hash_step = (\<lambda>h c. 31 * h + of_nat (code_of c))" by (intro ext) (rule hash_step_poly)
  then show "hash s = nat \<bar>sint (foldl (\<lambda>h c. 31 * h + of_nat (code_of c)) (0 :: 32 word) s)\<bar>"
    by (simp add: hash_def)
  have "0 < length PALETTE" by (simp add: PALETTE_def)
  then show "avatar_colours s seed \<in> set PALETTE" by (simp add: avatar_colours_def)
qed

end
