(* ===== verification/Js_Date.thy ===== *)
theory Js_Date
  imports Js_Runtime "HOL-Library.Monad_Syntax"
begin

text \<open>
  \<open>new Date(iso).getTime()\<close> on RFC 3339 timestamps, the only ones the API emits: the
  milliseconds since the epoch, or \<open>None\<close> for \<open>NaN\<close>. \<open>Date.now()\<close> is an argument of the
  functions that read the clock. Also the rendering of a time difference, which several
  pages repeat.
\<close>

definition take_num :: "nat \<Rightarrow> string \<Rightarrow> (int \<times> string) option" where
  "take_num k s =
     (if length (take k s) = k \<and> list_all is_digit (take k s)
      then Some (int (read_nat (take k s)), drop k s) else None)"

definition expect :: "char \<Rightarrow> string \<Rightarrow> string option" where
  "expect c s = (case s of d # r \<Rightarrow> if c = d then Some r else None | [] \<Rightarrow> None)"

definition days_from_civil :: "int \<Rightarrow> int \<Rightarrow> int \<Rightarrow> int" where
  "days_from_civil y m d =
     (let y' = (if m \<le> 2 then y - 1 else y);
          era = y' div 400;
          yoe = y' - era * 400;
          doy = (153 * (if m > 2 then m - 3 else m + 9) + 2) div 5 + d - 1;
          doe = yoe * 365 + yoe div 4 - yoe div 100 + doy
      in era * 146097 + doe - 719468)"

text \<open>Fraction of a second, truncated to milliseconds.\<close>

definition take_millis :: "string \<Rightarrow> (int \<times> string) option" where
  "take_millis s = (case s of
       c # t \<Rightarrow>
         if c = CHR ''.'' then
           (let (ds, r) = scan_digits t in
            if ds = [] then None else Some (int (read_nat (take 3 (ds @ ''00''))), r))
         else Some (0, s)
     | [] \<Rightarrow> Some (0, []))"

text \<open>The zone: \<open>Z\<close> or an offset, in minutes.\<close>

definition take_zone :: "string \<Rightarrow> int option" where
  "take_zone s = (case s of
       [] \<Rightarrow> None
     | c # t \<Rightarrow>
         if c = CHR ''Z'' then (if t = [] then Some 0 else None)
         else if c = CHR ''+'' \<or> c = CHR ''-'' then
           do {
             (h, r) \<leftarrow> take_num 2 t;
             r \<leftarrow> expect (CHR '':'') r;
             (m, r) \<leftarrow> take_num 2 r;
             if r = [] then Some (if c = CHR ''-'' then - (h * 60 + m) else h * 60 + m) else None
           }
         else None)"

definition date_ms :: "string \<Rightarrow> int option" where
  "date_ms s = do {
     (y, r) \<leftarrow> take_num 4 s;
     r \<leftarrow> expect (CHR ''-'') r;
     (mo, r) \<leftarrow> take_num 2 r;
     r \<leftarrow> expect (CHR ''-'') r;
     (d, r) \<leftarrow> take_num 2 r;
     r \<leftarrow> expect (CHR ''T'') r;
     (h, r) \<leftarrow> take_num 2 r;
     r \<leftarrow> expect (CHR '':'') r;
     (mi, r) \<leftarrow> take_num 2 r;
     r \<leftarrow> expect (CHR '':'') r;
     (se, r) \<leftarrow> take_num 2 r;
     (ms, r) \<leftarrow> take_millis r;
     z \<leftarrow> take_zone r;
     if 1 \<le> mo \<and> mo \<le> 12 \<and> 1 \<le> d \<and> d \<le> 31 \<and> h < 24 \<and> mi < 60 \<and> se < 60
     then Some ((((days_from_civil y mo d * 24 + h) * 60 + mi - z) * 60 + se) * 1000 + ms)
     else None
   }"

end
