(* ===== verification/Metrics.thy ===== *)
theory Metrics
  imports Api_Surface Js_Date "HOL-Library.Char_ord" "HOL-Library.List_Lexorder" "HOL-Library.Multiset"
begin

text \<open>
  The metrics panel, \<open>components/observability/MetricsPanel.tsx\<close>: which metrics are charted and in which
  order, the headline numbers of a chart, the geometry of its sparkline and the formatting of values.
  Values and coordinates are exact rationals where the code computes with doubles; a default
  \<open>sort()\<close> orders strings by code unit, which is the lexicographic order on \<open>string\<close>.
\<close>

section \<open>Which metrics\<close>

definition DEFAULT_PRIORITY :: "string list" where
  "DEFAULT_PRIORITY = [
     ''server.cpu_percent'', ''server.memory_percent'', ''server.memory_used_bytes'', ''server.disk_percent'',
     ''cpu_percent'', ''memory_percent'', ''memory_used_bytes'', ''disk_percent'', ''load_1'', ''load_5'',
     ''network_rx_bytes'', ''network_tx_bytes'', ''request_rate'', ''p95_latency_ms'']"

definition uniq :: "string list \<Rightarrow> string list" where
  "uniq l = rev (remdups (rev l))"

definition prioritise :: "string list \<Rightarrow> string list \<Rightarrow> string list" where
  "prioritise l priority =
     (let head = filter (\<lambda>p. p \<in> set l) priority;
          tail = sort (filter (\<lambda>n. n \<notin> set head) l)
      in head @ tail)"

definition chart_names :: "string list option \<Rightarrow> MetricSample list \<Rightarrow> nat option \<Rightarrow> string list" where
  "chart_names preferred latest maxCharts =
     take (case maxCharts of Some n \<Rightarrow> n | None \<Rightarrow> 6)
       (prioritise (case preferred of Some l \<Rightarrow> l | None \<Rightarrow> uniq (map MetricSample_metric_name latest)) DEFAULT_PRIORITY)"

definition chart_requests :: "string \<Rightarrow> string \<Rightarrow> string \<Rightarrow> MetricRange \<Rightarrow> string list \<Rightarrow> endpoint list" where
  "chart_requests teamId scopeType scopeId rng names =
     map (\<lambda>name. observabilityApi_metricRange teamId scopeType scopeId name (Some rng) (Some 240))
       (filter (\<lambda>name. name \<noteq> []) names)"

section \<open>One chart\<close>

definition chart_latest :: "MetricSample list \<Rightarrow> rat option" where
  "chart_latest samples = (if samples = [] then None else Some (MetricSample_value (last samples)))"

definition chart_min :: "MetricSample list \<Rightarrow> rat" where
  "chart_min samples = (if samples = [] then 0 else Min (set (map MetricSample_value samples)))"

definition chart_max :: "MetricSample list \<Rightarrow> rat" where
  "chart_max samples = (if samples = [] then 0 else Max (set (map MetricSample_value samples)))"

text \<open>
  The sparkline on samples given as time in milliseconds and value; \<open>None\<close> when a time does not parse.
\<close>

definition sample_times :: "MetricSample list \<Rightarrow> (int \<times> rat) list option" where
  "sample_times samples =
     those (map (\<lambda>s. map_option (\<lambda>t. (t, MetricSample_value s)) (date_ms (MetricSample_sampled_at s))) samples)"

definition spark_w :: rat where "spark_w = 320"

definition spark_h :: rat where "spark_h = 64"

definition spark_padX :: rat where "spark_padX = 2"

definition spark_padY :: rat where "spark_padY = 4"

definition spark_points :: "(int \<times> rat) list \<Rightarrow> (rat \<times> rat) list" where
  "spark_points tv =
     (let sorted = sort_key fst tv;
          minX = Min (set (map fst sorted)); maxX = Max (set (map fst sorted));
          minY = Min (set (map snd sorted)); maxY = Max (set (map snd sorted));
          xRange = max 1 (maxX - minX); yRange = max (1 / 1000000) (maxY - minY)
      in map (\<lambda>(t, v). (spark_padX + rat_of_int (t - minX) / rat_of_int xRange * (spark_w - spark_padX * 2),
                        spark_h - spark_padY - (v - minY) / yRange * (spark_h - spark_padY * 2))) sorted)"

definition sparkline :: "MetricSample list \<Rightarrow> (rat \<times> rat) list option" where
  "sparkline samples =
     (case sample_times samples of
        None \<Rightarrow> None
      | Some tv \<Rightarrow> if length tv < 2 then None else Some (spark_points tv))"

section \<open>Formatting\<close>

definition units :: "string list" where
  "units = [''B'', ''KiB'', ''MiB'', ''GiB'', ''TiB'']"

function bytes_loop :: "rat \<Rightarrow> nat \<Rightarrow> rat \<times> nat" where
  "bytes_loop v i = (if 1024 \<le> v \<and> i < length units - 1 then bytes_loop (v / 1024) (i + 1) else (v, i))"
  by auto
termination by (relation "measure (\<lambda>(v, i). length units - 1 - i)") auto

declare bytes_loop.simps [simp del]

definition formatBytes :: "rat \<Rightarrow> string" where
  "formatBytes n =
     (let (v, i) = bytes_loop n 0 in
      to_fixed (if 100 \<le> v \<or> i = 0 then 0 else 1) v @ '' '' @ units ! i)"

definition formatValue :: "string \<Rightarrow> rat \<Rightarrow> string" where
  "formatValue name v =
     (if endsWith name ''_bytes'' then formatBytes v
      else if endsWith name ''_percent'' then to_fixed 1 v @ ''%''
      else if endsWith name ''_ms'' then to_fixed 0 v @ '' ms''
      else if v = of_int \<lfloor>v\<rfloor> then show_int \<lfloor>v\<rfloor>
      else to_fixed 2 v)"

definition NICE_NAMES :: "(string, string) obj" where
  "NICE_NAMES = [
     (''cpu_percent'', ''CPU utilisation''), (''memory_percent'', ''Memory utilisation''),
     (''memory_used_bytes'', ''Memory used''), (''memory_total_bytes'', ''Memory total''),
     (''disk_percent'', ''Disk utilisation''), (''disk_used_bytes'', ''Disk used''),
     (''disk_total_bytes'', ''Disk total''), (''load_1'', ''Load '' @ [CHR 0xB7] @ '' 1m''), (''load_5'', ''Load '' @ [CHR 0xB7] @ '' 5m''),
     (''network_rx_bytes'', ''Network in''), (''network_tx_bytes'', ''Network out''),
     (''request_rate'', ''Request rate''), (''p95_latency_ms'', ''P95 latency'')]"

definition prettyName :: "string \<Rightarrow> string" where
  "prettyName name =
     (let bare = last (split_on (CHR ''.'') name) in
      case obj_get NICE_NAMES bare of Some l \<Rightarrow> l
      | None \<Rightarrow> (case obj_get NICE_NAMES name of Some l \<Rightarrow> l | None \<Rightarrow> name))"

section \<open>Where the samples come from\<close>

text \<open>\<open>ListMetricSamples\<close> of \<open>sql/queries/observability.sql\<close>: the samples of the window, oldest first, up to the limit.\<close>

definition sample_time :: "MetricSample \<Rightarrow> int" where
  "sample_time s = (case date_ms (MetricSample_sampled_at s) of Some t \<Rightarrow> t | None \<Rightarrow> 0)"

definition ListMetricSamples :: "MetricSample list \<Rightarrow> int \<Rightarrow> nat \<Rightarrow> MetricSample list" where
  "ListMetricSamples table since limit =
     take limit (sort_key sample_time (filter (\<lambda>s. since \<le> sample_time s) table))"

section \<open>Facts\<close>

lemma set_uniq [simp]: "set (uniq l) = set l"
  by (simp add: uniq_def)

lemma distinct_uniq [simp]: "distinct (uniq l)"
  by (simp add: uniq_def)

lemma mset_prioritise:
  assumes "distinct l" and "distinct priority"
  shows "mset (prioritise l priority) = mset l"
proof -
  let ?h = "filter (\<lambda>p. p \<in> set l) priority"
  have h: "set ?h = set l \<inter> set priority" by auto
  have "distinct (?h @ filter (\<lambda>n. n \<notin> set ?h) l)" using assms by auto
  moreover have "set (?h @ filter (\<lambda>n. n \<notin> set ?h) l) = set l" by auto
  ultimately have "mset (?h @ filter (\<lambda>n. n \<notin> set ?h) l) = mset l"
    using assms(1) set_eq_iff_mset_eq_distinct by blast
  then show ?thesis by (simp add: prioritise_def Let_def)
qed

lemma distinct_priority: "distinct DEFAULT_PRIORITY"
  by (simp add: DEFAULT_PRIORITY_def)

text \<open>
  The panel charts every reported metric exactly once: ordering the names by priority is a
  permutation of the distinct names reported, and only the cap on the number of charts leaves any out.
\<close>

lemma charts_complete:
  "mset (prioritise (uniq l) DEFAULT_PRIORITY) = mset (uniq l) \<and>
   distinct (chart_names None samples n) \<and>
   set (chart_names None samples n) \<subseteq> MetricSample_metric_name ` set samples \<and>
   length (chart_names None samples n) =
     min (card (MetricSample_metric_name ` set samples)) (case n of Some k \<Rightarrow> k | None \<Rightarrow> 6)"
proof -
  let ?u = "uniq (map MetricSample_metric_name samples)"
  have m: "mset (prioritise (uniq xs) DEFAULT_PRIORITY) = mset (uniq xs)" for xs
    by (intro mset_prioritise distinct_priority) simp
  have d: "distinct (prioritise ?u DEFAULT_PRIORITY)" "set (prioritise ?u DEFAULT_PRIORITY) = MetricSample_metric_name ` set samples"
    using m [of "map MetricSample_metric_name samples"] mset_eq_imp_distinct_iff mset_eq_setD by fastforce+
  have "length (prioritise ?u DEFAULT_PRIORITY) = card (MetricSample_metric_name ` set samples)"
    using distinct_card [OF d(1)] d(2) by simp
  then show ?thesis
    using m d by (auto simp: chart_names_def dest: in_set_takeD)
qed

lemma share_bounds:
  fixes x r :: rat
  assumes "0 \<le> x" and "x \<le> r" and "0 < r" and "0 \<le> k"
  shows "0 \<le> x / r * k" and "x / r * k \<le> k"
proof -
  define q where "q = x / r"
  have "0 \<le> q" "q \<le> 1" using assms by (simp_all add: q_def)
  then show "0 \<le> x / r * k" "x / r * k \<le> k"
    using assms(4) unfolding q_def [symmetric] by (auto intro: mult_left_le_one_le)
qed

text \<open>
  Every point of a sparkline lies inside the padded drawing area, whatever the values, and the
  points run from left to right in order of time.
\<close>

lemma sparkline_in_box:
  assumes "sparkline samples = Some pts"
  shows "list_all (\<lambda>(x, y). 2 \<le> x \<and> x \<le> 318 \<and> 4 \<le> y \<and> y \<le> 60) pts \<and> sorted (map fst pts)"
proof -
  obtain tv where tv: "sample_times samples = Some tv" "\<not> length tv < 2" and pts: "pts = spark_points tv"
    using assms by (auto simp: sparkline_def split: option.splits if_splits)
  let ?s = "sort_key fst tv"
  define minX maxX minY maxY where "minX = Min (set (map fst ?s))" and "maxX = Max (set (map fst ?s))"
    and "minY = Min (set (map snd ?s))" and "maxY = Max (set (map snd ?s))"
  define xr where "xr = max 1 (maxX - minX)"
  define yr where "yr = max (1 / 1000000) (maxY - minY)"
  have p: "pts = map (\<lambda>(t, v). (2 + rat_of_int (t - minX) / rat_of_int xr * 316, 60 - (v - minY) / yr * 56)) ?s"
    by (simp add: pts spark_points_def Let_def minX_def maxX_def minY_def maxY_def xr_def yr_def
        spark_padX_def spark_padY_def spark_w_def spark_h_def)
  have x: "0 \<le> rat_of_int (t - minX) / rat_of_int xr * 316 \<and> rat_of_int (t - minX) / rat_of_int xr * 316 \<le> 316"
    and y: "0 \<le> (v - minY) / yr * 56 \<and> (v - minY) / yr * 56 \<le> 56" if "(t, v) \<in> set ?s" for t v
  proof -
    have "minX \<le> t" "t \<le> maxX" "minY \<le> v" "v \<le> maxY"
      using that by (auto simp: minX_def maxX_def minY_def maxY_def intro!: Min_le Max_ge image_eqI)
    then have b: "0 \<le> rat_of_int (t - minX)" "rat_of_int (t - minX) \<le> rat_of_int xr" "0 < rat_of_int xr"
      "0 \<le> v - minY" "v - minY \<le> yr" "0 < yr"
      by (simp_all add: xr_def yr_def)
    show "0 \<le> rat_of_int (t - minX) / rat_of_int xr * 316 \<and> rat_of_int (t - minX) / rat_of_int xr * 316 \<le> 316"
      using share_bounds [OF b(1-3), of 316] by simp
    show "0 \<le> (v - minY) / yr * 56 \<and> (v - minY) / yr * 56 \<le> 56"
      using share_bounds [OF b(4-6), of 56] by simp
  qed
  have "sorted (map fst pts)"
    unfolding p using sorted_sort_key [of fst tv]
    by (simp add: sorted_wrt_map split_beta)
      (auto simp: xr_def elim!: sorted_wrt_mono_rel [rotated] intro!: divide_right_mono)
  moreover have "list_all (\<lambda>(x, y). 2 \<le> x \<and> x \<le> 318 \<and> 4 \<le> y \<and> y \<le> 60) pts"
    unfolding p list_all_iff using x y by fastforce
  ultimately show ?thesis by simp
qed

definition sample_at :: "string \<Rightarrow> rat \<Rightarrow> MetricSample" where
  "sample_at t v = \<lparr>MetricSample_id = None, MetricSample_scope_type = ''server'', MetricSample_scope_id = ''s'',
     MetricSample_metric_name = ''cpu_percent'', MetricSample_value = v, MetricSample_labels = None,
     MetricSample_sampled_at = t\<rparr>"

lemma sparkline_in_box_witness:
  "\<exists>pts. sparkline [sample_at ''2026-01-01T00:00:30Z'' 7, sample_at ''2026-01-01T00:00:00Z'' 3] = Some pts \<and>
     sorted (map fst pts)"
proof -
  let ?ss = "[sample_at ''2026-01-01T00:00:30Z'' 7, sample_at ''2026-01-01T00:00:00Z'' 3]"
  have "date_ms ''2026-01-01T00:00:30Z'' = Some 1767225630000" "date_ms ''2026-01-01T00:00:00Z'' = Some 1767225600000"
    by code_simp+
  then have "\<exists>pts. sparkline ?ss = Some pts" by (simp add: sparkline_def sample_times_def sample_at_def)
  then obtain pts where "sparkline ?ss = Some pts" by blast
  with sparkline_in_box [OF this] show ?thesis by blast
qed

text \<open>
  A chart's headline is not the newest sample once the window holds more samples than the limit of
  the query: the query keeps the oldest ones, and the value shown as the latest belongs to a sample
  strictly older than another one in the window.
\<close>

lemma headline_stale:
  assumes "window = filter (\<lambda>s. since \<le> sample_time s) table" and "distinct (map sample_time window)"
    and "0 < limit" and "limit < length window"
  shows "\<exists>l \<in> set window. \<exists>s \<in> set window.
    chart_latest (ListMetricSamples table since limit) = Some (MetricSample_value l) \<and> sample_time l < sample_time s"
proof -
  let ?w = "sort_key sample_time window"
  have len: "length ?w = length window" by simp
  have "ListMetricSamples table since limit = take limit ?w" by (simp add: ListMetricSamples_def assms(1))
  moreover have ne: "take limit ?w \<noteq> []" using assms(3,4) len by (metis length_0_conv length_take min_less_iff_conj less_nat_zero_code gr_zeroI)
  moreover have "last (take limit ?w) = ?w ! (limit - 1)"
    using assms(3,4) len last_conv_nth [OF ne] by (simp add: min_def)
  ultimately have c: "chart_latest (ListMetricSamples table since limit) = Some (MetricSample_value (?w ! (limit - 1)))"
    by (simp add: chart_latest_def)
  have "sorted (map sample_time ?w)" "distinct (map sample_time ?w)"
    using assms(2) by (simp_all add: distinct_map)
  then have "sorted_wrt (<) (map sample_time ?w)" by (simp add: strict_sorted_iff)
  then have "map sample_time ?w ! (limit - 1) < map sample_time ?w ! limit"
    using assms(3,4) len by (intro sorted_wrt_nth_less) auto
  then have "sample_time (?w ! (limit - 1)) < sample_time (?w ! limit)"
    using assms(3,4) len by simp
  moreover have "?w ! (limit - 1) \<in> set window" "?w ! limit \<in> set window"
    using assms(3,4) len by (metis nth_mem set_sort less_imp_diff_less)+
  ultimately show ?thesis using c by blast
qed

lemma headline_stale_witness:
  "let table = [sample_at ''2026-01-01T00:00:30Z'' 7, sample_at ''2026-01-01T00:00:00Z'' 3] in
   \<exists>l \<in> set table. \<exists>s \<in> set table.
     chart_latest (ListMetricSamples table 0 1) = Some (MetricSample_value l) \<and> sample_time l < sample_time s"
proof -
  let ?t = "[sample_at ''2026-01-01T00:00:30Z'' 7, sample_at ''2026-01-01T00:00:00Z'' 3]"
  have d: "date_ms ''2026-01-01T00:00:30Z'' = Some 1767225630000" "date_ms ''2026-01-01T00:00:00Z'' = Some 1767225600000"
    by code_simp+
  have "?t = filter (\<lambda>s. 0 \<le> sample_time s) ?t" by (simp add: sample_time_def sample_at_def d)
  from headline_stale [OF this, of 1] show ?thesis by (simp add: Let_def sample_time_def sample_at_def d)
qed

lemma bytes_loop_spec:
  assumes "0 \<le> v" and "i \<le> 4" and "bytes_loop v i = (w, j)"
  shows "w * 1024 ^ j = v * 1024 ^ i \<and> i \<le> j \<and> j \<le> 4 \<and> 0 \<le> w \<and> (j < 4 \<longrightarrow> w < 1024) \<and> (i < j \<longrightarrow> 1 \<le> w)"
  using assms
proof (induction v i rule: bytes_loop.induct)
  case (1 v i)
  show ?case
  proof (cases "1024 \<le> v \<and> i < 4")
    case True
    then have rec: "bytes_loop (v / 1024) (i + 1) = (w, j)"
      using 1(4) by (subst (asm) bytes_loop.simps) (simp add: units_def)
    have IH: "w * 1024 ^ j = v / 1024 * 1024 ^ (i + 1) \<and> i + 1 \<le> j \<and> j \<le> 4 \<and> 0 \<le> w \<and> (j < 4 \<longrightarrow> w < 1024) \<and>
        (i + 1 < j \<longrightarrow> 1 \<le> w)"
      using 1(1) rec True 1(2) by (simp add: units_def)
    have "1 \<le> w"
    proof (cases "i + 1 < j")
      case False
      with IH have "j = i + 1" by simp
      with IH have "w = v / 1024" by simp
      with True show ?thesis by simp
    qed (use IH in simp)
    with IH show ?thesis by simp
  next
    case False
    then have "bytes_loop v i = (v, i)" by (subst bytes_loop.simps) (auto simp: units_def)
    with 1(4) have "w = v" "j = i" by simp_all
    with False 1(2,3) show ?thesis by auto
  qed
qed

text \<open>
  C35: Formatting a byte count ends, after at most four divisions, and in the right unit: the number shown times the
  power of 1024 of its unit is the count, the number is below 1024 unless the unit is the largest, and it is at
  least 1 unless the unit is bytes.
\<close>

lemma bytes_unit:
  assumes "0 \<le> n"
  shows "\<exists>v i. bytes_loop n 0 = (v, i) \<and> v * 1024 ^ i = n \<and> i \<le> 4 \<and> i < length units \<and> (i < 4 \<longrightarrow> v < 1024) \<and>
    (0 < i \<longrightarrow> 1 \<le> v) \<and> formatBytes n = to_fixed (if 100 \<le> v \<or> i = 0 then 0 else 1) v @ '' '' @ units ! i"
proof (cases "bytes_loop n 0")
  case (Pair v i)
  from bytes_loop_spec [OF assms _ this] Pair show ?thesis by (simp add: units_def formatBytes_def)
qed

lemma bytes_unit_witness: "\<exists>v i. bytes_loop 1536 0 = (v, i) \<and> v * 1024 ^ i = 1536 \<and> i < length units"
proof -
  have "0 \<le> (1536 :: rat)" by simp
  from bytes_unit [OF this] show ?thesis by blast
qed

end
