(* ===== verification/Provisioning.thy ===== *)
theory Provisioning
  imports Api_Surface Js_Date
begin

text \<open>
  The provisioning page of a server, \<open>components/servers/ServerProvisioningClient.tsx\<close>: the component
  picker, starting and retrying a run, the once-per-mount autostart, the step list, the installer
  transcript and the durations. The clock is an argument (\<open>now\<close>, in milliseconds).
\<close>

section \<open>The page\<close>

text \<open>
  \<open>pv_inflight\<close> holds the argument of the start call that has not settled (\<open>start.variables\<close> while
  \<open>start.isPending\<close>), \<open>pv_flag\<close> whether the address still carries \<open>?autostart=1\<close>, \<open>pv_autostarted\<close> the ref.
  \<open>pv_sent\<close> is the trace of requests, with the automatic ones marked.
\<close>

record prov_page =
  pv_job :: "ProvisioningJob option"
  pv_selected :: "ProvisioningComponent list"
  pv_error :: "string option"
  pv_flag :: bool
  pv_autostarted :: bool
  pv_inflight :: "ProvisioningComponent list option"
  pv_retrying :: bool
  pv_sent :: "(bool \<times> endpoint) list"

definition initialSelection :: "ProvisioningJob option \<Rightarrow> ProvisioningComponent list" where
  "initialSelection job = (case job of None \<Rightarrow> all_components | Some j \<Rightarrow> ProvisioningJob_components j)"

definition prov_init :: "ProvisioningJob option \<Rightarrow> bool \<Rightarrow> prov_page" where
  "prov_init job flag = \<lparr>pv_job = job, pv_selected = initialSelection job, pv_error = None, pv_flag = flag,
     pv_autostarted = False, pv_inflight = None, pv_retrying = False, pv_sent = []\<rparr>"

definition prov_running :: "ProvisioningJob option \<Rightarrow> bool" where
  "prov_running job =
     (case job of None \<Rightarrow> False
      | Some j \<Rightarrow> ProvisioningJob_status j = Job_running \<or> ProvisioningJob_status j = Job_pending)"

definition refetch_interval :: "ProvisioningJob option \<Rightarrow> nat" where
  "refetch_interval job = (if prov_running job then 3000 else 30000)"

text \<open>The query function: a 404 means the server has no job yet.\<close>

definition job_status :: "ProvisioningJob option result \<Rightarrow> ProvisioningJob option result" where
  "job_status r =
     (case r of Inl (ApiError st m c) \<Rightarrow> if st = 404 then Inr None else r | _ \<Rightarrow> r)"

definition toggle :: "ProvisioningComponent \<Rightarrow> ProvisioningComponent list \<Rightarrow> ProvisioningComponent list" where
  "toggle c prev = (if c \<in> set prev then filter (\<lambda>x. x \<noteq> c) prev else prev @ [c])"

definition agent_pending :: "prov_page \<Rightarrow> bool" where
  "agent_pending st =
     (case pv_inflight st of Some v \<Rightarrow> length v = 1 \<and> v ! 0 = C_agent | None \<Rightarrow> False)"

definition run_pending :: "prov_page \<Rightarrow> bool" where
  "run_pending st = (case pv_inflight st of Some v \<Rightarrow> length v \<noteq> 1 | None \<Rightarrow> False)"

text \<open>A button does nothing while it is disabled or shows its spinner.\<close>

definition can_run :: "prov_page \<Rightarrow> bool" where
  "can_run st = (\<not> (prov_running (pv_job st) \<or> pv_selected st = []) \<and> \<not> run_pending st)"

definition can_update_agent :: "prov_page \<Rightarrow> bool" where
  "can_update_agent st = (\<not> prov_running (pv_job st) \<and> \<not> agent_pending st)"

definition can_retry :: "prov_page \<Rightarrow> bool" where
  "can_retry st = (\<not> (prov_running (pv_job st) \<or> pv_job st = None) \<and> \<not> pv_retrying st)"

definition send_start :: "string \<Rightarrow> string \<Rightarrow> bool \<Rightarrow> ProvisioningComponent list \<Rightarrow> prov_page \<Rightarrow> prov_page" where
  "send_start teamId serverId auto cs st =
     st\<lparr>pv_inflight := Some cs, pv_sent := pv_sent st @ [(auto, serverProvisionApi_start teamId serverId cs)]\<rparr>"

definition autostart_effect :: "string \<Rightarrow> string \<Rightarrow> prov_page \<Rightarrow> prov_page" where
  "autostart_effect teamId serverId st =
     (if \<not> pv_flag st then st
      else if pv_autostarted st then st
      else if pv_job st \<noteq> None then st\<lparr>pv_autostarted := True, pv_flag := False\<rparr>
      else (send_start teamId serverId True all_components (st\<lparr>pv_autostarted := True\<rparr>))\<lparr>pv_flag := False\<rparr>)"

datatype prov_event =
    VJob "ProvisioningJob option"
  | VFlag bool
  | VEffect
  | VToggle ProvisioningComponent
  | VAll
  | VNone
  | VRun
  | VUpdateAgent
  | VRetry
  | VStartDone "failure option"
  | VRetryDone "failure option"

fun prov_step :: "string \<Rightarrow> string \<Rightarrow> prov_page \<Rightarrow> prov_event \<Rightarrow> prov_page" where
  "prov_step t s st (VJob j) = st\<lparr>pv_job := j\<rparr>"
| "prov_step t s st (VFlag b) = st\<lparr>pv_flag := b\<rparr>"
| "prov_step t s st VEffect = autostart_effect t s st"
| "prov_step t s st (VToggle c) =
     (if prov_running (pv_job st) then st else st\<lparr>pv_selected := toggle c (pv_selected st)\<rparr>)"
| "prov_step t s st VAll = st\<lparr>pv_selected := all_components\<rparr>"
| "prov_step t s st VNone = st\<lparr>pv_selected := []\<rparr>"
| "prov_step t s st VRun = (if can_run st then send_start t s False (pv_selected st) st else st)"
| "prov_step t s st VUpdateAgent = (if can_update_agent st then send_start t s False [C_agent] st else st)"
| "prov_step t s st VRetry =
     (if can_retry st
      then st\<lparr>pv_retrying := True, pv_sent := pv_sent st @ [(False, serverProvisionApi_retry t s)]\<rparr> else st)"
| "prov_step t s st (VStartDone f) =
     (case f of
        None \<Rightarrow> st\<lparr>pv_inflight := None, pv_error := None\<rparr>
      | Some e \<Rightarrow> st\<lparr>pv_inflight := None, pv_error := Some (error_text e ''Could not start provisioning.'')\<rparr>)"
| "prov_step t s st (VRetryDone f) =
     (case f of
        None \<Rightarrow> st\<lparr>pv_retrying := False, pv_error := None\<rparr>
      | Some e \<Rightarrow> st\<lparr>pv_retrying := False, pv_error := Some (error_text e ''Could not retry.'')\<rparr>)"

section \<open>Steps\<close>

definition step_rows :: "ProvisioningStep list \<Rightarrow> ProvisioningComponent list \<Rightarrow> ProvisioningStep list" where
  "step_rows steps components =
     (if steps \<noteq> [] then steps
      else map (\<lambda>c. \<lparr>ProvisioningStep_component = component_str c, ProvisioningStep_status = Step_pending,
             ProvisioningStep_started_at = None, ProvisioningStep_completed_at = None, ProvisioningStep_error = None\<rparr>)
           components)"

definition steps_done :: "ProvisioningStep list \<Rightarrow> nat" where
  "steps_done rows = length (filter (\<lambda>s. ProvisioningStep_status s = Step_succeeded) rows)"

definition failed_step :: "ProvisioningStep list \<Rightarrow> ProvisioningStep option" where
  "failed_step rows = List.find (\<lambda>s. ProvisioningStep_status s = Step_failed) rows"

definition labelFor :: "string \<Rightarrow> string" where
  "labelFor component =
     (case List.find (\<lambda>c. component_str (CatalogEntry_id c) = component) PROVISIONING_COMPONENTS of
        Some c \<Rightarrow> CatalogEntry_label c | None \<Rightarrow> component)"

text \<open>\<open>new Date(x).getTime()\<close> of an unparsable time is \<open>NaN\<close>, which survives to the text here.\<close>

definition stepDuration :: "int \<Rightarrow> ProvisioningStep \<Rightarrow> string" where
  "stepDuration now step =
     (case ProvisioningStep_started_at step of
        None \<Rightarrow> ''--''
      | Some s \<Rightarrow>
          if s = [] then ''--''
          else
            let start = date_ms s;
                end' = (case ProvisioningStep_completed_at step of
                    Some c \<Rightarrow> if c = [] then Some now else date_ms c | None \<Rightarrow> Some now)
            in case (start, end') of
                 (Some a, Some b) \<Rightarrow>
                   (let sec = max 0 ((b - a) div 1000) in
                    if sec < 60 then show_int sec @ ''s''
                    else show_int (sec div 60) @ ''m'' @ show_int (sec mod 60) @ ''s'')
               | _ \<Rightarrow> ''NaNmNaNs'')"

definition formatDuration :: "int \<Rightarrow> string option \<Rightarrow> string option \<Rightarrow> string" where
  "formatDuration now start end' =
     (case start of
        None \<Rightarrow> ''--''
      | Some s \<Rightarrow>
          if s = [] then ''--''
          else case (date_ms s, (case end' of Some e \<Rightarrow> if e = [] then Some now else date_ms e | None \<Rightarrow> Some now)) of
            (Some a, Some b) \<Rightarrow>
              (let sec = max 0 (math_round (rat_of_int (b - a) / 1000)) in
               if sec < 60 then show_int sec @ ''s''
               else show_int (sec div 60) @ ''m '' @ show_int (sec mod 60) @ ''s'')
          | _ \<Rightarrow> ''--'')"

section \<open>The transcript\<close>

definition on_frame :: "string \<Rightarrow> string list \<Rightarrow> string list" where
  "on_frame d live = (if startsWith d ''{'' then live else live @ [d])"

definition transcript :: "string \<Rightarrow> string list \<Rightarrow> string list" where
  "transcript logs live =
     filter (\<lambda>l. l \<noteq> []) ((if logs \<noteq> [] then split_on (CHR 0x0A) logs else []) @ live)"

definition lineClass :: "string \<Rightarrow> string" where
  "lineClass line =
     (if startsWith line ''ERROR'' then ''text-alert'' else if startsWith line ''WARN'' then ''text-warn''
      else if startsWith line ''>>>'' then ''text-signal'' else ''text-ink-2'')"

section \<open>Facts\<close>

interpretation picker: selection toggle
  by unfold_locales (auto simp: toggle_def)

definition prov_ok :: "prov_page \<Rightarrow> bool" where
  "prov_ok st = (length (filter fst (pv_sent st)) \<le> 1 \<and> (\<not> pv_autostarted st \<longrightarrow> filter fst (pv_sent st) = []))"

interpretation prov: event_machine "prov_step t s" prov_ok
proof
  fix st e
  show "prov_ok st \<Longrightarrow> prov_ok (prov_step t s st e)"
    by (cases e) (auto simp: prov_ok_def autostart_effect_def send_start_def split: option.splits)
qed

text \<open>
  In one mount of the page the automatic start fires at most once, whatever the effect, the
  refetches and the address do, and never for a server that already has a job; it requests the full set
  of components.
\<close>

lemma autostart_once:
  "length (filter fst (pv_sent (foldl (prov_step t s) (prov_init job flag) es))) \<le> 1 \<and>
   (pv_job st \<noteq> None \<longrightarrow> pv_sent (autostart_effect t s st) = pv_sent st) \<and>
   (pv_sent (autostart_effect t s st) = pv_sent st \<or>
    pv_sent (autostart_effect t s st) = pv_sent st @ [(True, serverProvisionApi_start t s all_components)])"
proof -
  have "prov_ok (prov_init job flag)" by (simp add: prov_ok_def prov_init_def)
  from prov.inv_run [OF this, of t s es] show ?thesis
    by (simp add: prov_ok_def autostart_effect_def send_start_def)
qed

lemma autostart_once_witness:
  "pv_sent (autostart_effect ''t'' ''s'' (prov_init (Some \<lparr>ProvisioningJob_id = ''j'', ProvisioningJob_server_id = ''s'',
     ProvisioningJob_components = [C_agent], ProvisioningJob_status = Job_running, ProvisioningJob_logs = [],
     ProvisioningJob_started_at = None, ProvisioningJob_completed_at = None, ProvisioningJob_error = None,
     ProvisioningJob_created_at = [], ProvisioningJob_steps = []\<rparr>) True)) = []"
  using autostart_once [where t = "''t''" and s = "''s''" and job = None and flag = False and es = "[]"
      and st = "prov_init (Some \<lparr>ProvisioningJob_id = ''j'', ProvisioningJob_server_id = ''s'',
     ProvisioningJob_components = [C_agent], ProvisioningJob_status = Job_running, ProvisioningJob_logs = [],
     ProvisioningJob_started_at = None, ProvisioningJob_completed_at = None, ProvisioningJob_error = None,
     ProvisioningJob_created_at = [], ProvisioningJob_steps = []\<rparr>) True"]
  by (simp add: prov_init_def)

text \<open>
  No run is started while one is in flight on the server: every start or retry the operator sends
  leaves from a page whose job is neither running nor pending (the automatic start apart).
\<close>

lemma no_start_while_running:
  assumes "prov_running (pv_job st)" and "e \<noteq> VEffect"
  shows "pv_sent (prov_step t s st e) = pv_sent st"
  using assms by (cases e) (auto simp: can_run_def can_update_agent_def can_retry_def split: option.splits)

lemma no_start_while_running_witness:
  "let j = \<lparr>ProvisioningJob_id = ''j'', ProvisioningJob_server_id = ''s'',
     ProvisioningJob_components = [C_agent], ProvisioningJob_status = Job_running, ProvisioningJob_logs = [],
     ProvisioningJob_started_at = None, ProvisioningJob_completed_at = None, ProvisioningJob_error = None,
     ProvisioningJob_created_at = [], ProvisioningJob_steps = []\<rparr>
   in pv_sent (prov_step ''t'' ''s'' (prov_init (Some j) False) VRun) = []"
proof -
  let ?j = "\<lparr>ProvisioningJob_id = ''j'', ProvisioningJob_server_id = ''s'',
     ProvisioningJob_components = [C_agent], ProvisioningJob_status = Job_running, ProvisioningJob_logs = [],
     ProvisioningJob_started_at = None, ProvisioningJob_completed_at = None, ProvisioningJob_error = None,
     ProvisioningJob_created_at = [], ProvisioningJob_steps = []\<rparr>"
  have "prov_running (pv_job (prov_init (Some ?j) False))" by (simp add: prov_init_def prov_running_def)
  from no_start_while_running [OF this, of VRun "''t''" "''s''"] show ?thesis by (simp add: prov_init_def Let_def del: prov_step.simps)
qed

text \<open>
  While the start call of a run with exactly one component is in flight, the Run button is not held
  back: pressing it again sends the same request a second time.
\<close>

lemma single_component_double_start:
  "let st = \<lparr>pv_job = None, pv_selected = [c], pv_error = None, pv_flag = False, pv_autostarted = False,
        pv_inflight = None, pv_retrying = False, pv_sent = []\<rparr>
   in pv_sent (foldl (prov_step t s) st [VRun, VRun]) =
      [(False, serverProvisionApi_start t s [c]), (False, serverProvisionApi_start t s [c])]"
  by (simp add: Let_def can_run_def prov_running_def run_pending_def send_start_def)

text \<open>
  The transcript drops installer output that happens to start with a brace, and a line that reached
  both the live stream and a refetched job log is shown twice.
\<close>

lemma transcript_defects:
  "transcript logs (on_frame (CHR ''{'' # d) live) = transcript logs live \<and>
   (l \<noteq> [] \<and> CHR 0x0A \<notin> set l \<and> \<not> startsWith l ''{'' \<longrightarrow> transcript l (on_frame l []) = [l, l])"
  by (simp add: transcript_def on_frame_def startsWith_def split_on_none)

lemma transcript_defects_witness: "transcript ''ok'' (on_frame ''ok'' []) = [''ok'', ''ok'']"
  using transcript_defects [of "[]" "[]" "[]" "''ok''"] by (simp add: startsWith_def)

end
