(* ===== verification/Audit_Log.thy ===== *)
theory Audit_Log
  imports Api_Surface Js_Date
begin

text \<open>
  The audit log page, \<open>components/teams/AuditLogClient.tsx\<close>: filters, a live first page and further pages
  fetched with the last entry's time as cursor; and the listing the API answers with
  (\<open>AuditLogHandler.List\<close> in \<open>internal/api/handler/auditlog.go\<close> and the query \<open>ListAuditLogs\<close> of
  \<open>sql/queries/audit.sql\<close>).
\<close>

section \<open>The API\<close>

definition audit_time :: "string \<Rightarrow> int" where
  "audit_time s = (case date_ms s of Some t \<Rightarrow> t | None \<Rightarrow> 0)"

definition str_filter :: "string option \<Rightarrow> string \<Rightarrow> bool" where
  "str_filter f s = (case f of None \<Rightarrow> True | Some v \<Rightarrow> v = [] \<or> v = s)"

definition newest_first :: "AuditLog list \<Rightarrow> AuditLog list" where
  "newest_first = sort_key (\<lambda>e. - audit_time (AuditLog_created_at e))"

text \<open>
  A UUID filter that is empty or does not parse is ignored. \<open>parseUUID\<close> stands for \<open>uuid.Parse\<close> of the Go
  package the handler uses.
\<close>

definition uuid_filter :: "(string \<Rightarrow> 'u option) \<Rightarrow> string option \<Rightarrow> string option \<Rightarrow> bool" where
  "uuid_filter parseUUID f v =
     (case f of
        None \<Rightarrow> True
      | Some a \<Rightarrow> a = [] \<or> (case parseUUID a of None \<Rightarrow> True | Some u \<Rightarrow> Option.bind v parseUUID = Some u))"

text \<open>
  \<open>rows\<close> are the entries of the team in the table, in any order; times are at millisecond resolution. A page
  size outside 1..100 and a cursor that does not parse are ignored.
\<close>

definition ListAuditLogs :: "(string \<Rightarrow> 'u option) \<Rightarrow> AuditLog list \<Rightarrow> AuditFilters \<Rightarrow> AuditLog list" where
  "ListAuditLogs parseUUID rows f =
     take (case AuditFilters_page_size f of Some n \<Rightarrow> if 0 < n \<and> n \<le> 100 then nat n else 50 | None \<Rightarrow> 50)
       (newest_first (filter (\<lambda>e. str_filter (AuditFilters_action f) (AuditLog_action e) \<and>
          str_filter (AuditFilters_resource_type f) (AuditLog_resource_type e) \<and>
          uuid_filter parseUUID (AuditFilters_actor_id f) (AuditLog_actor_id e) \<and>
          (case AuditFilters_before f of
             Some b \<Rightarrow> (case date_ms b of Some t \<Rightarrow> audit_time (AuditLog_created_at e) < t | None \<Rightarrow> True)
           | None \<Rightarrow> True)) rows))"

section \<open>The page\<close>

definition PAGE_SIZE :: nat where
  "PAGE_SIZE = 50"

text \<open>\<open>al_page0\<close> is the data of the query for the applied filters, \<open>al_pages\<close> is \<open>loadedPages\<close>.\<close>

record audit_page =
  al_initial :: "AuditLog list"
  al_action :: string
  al_resource :: string
  al_applied :: "string option \<times> string option"
  al_page0 :: "AuditLog list"
  al_pages :: "AuditLog list list"
  al_pending :: bool
  al_error :: "string option"

definition audit_init :: "AuditLog list \<Rightarrow> audit_page" where
  "audit_init initialEntries = \<lparr>al_initial = initialEntries, al_action = [], al_resource = [], al_applied = (None, None),
     al_page0 = initialEntries, al_pages = [initialEntries], al_pending = False, al_error = None\<rparr>"

definition audit_filters :: "string option \<times> string option \<Rightarrow> string option \<Rightarrow> AuditFilters" where
  "audit_filters applied before =
     \<lparr>AuditFilters_action = fst applied, AuditFilters_resource_type = snd applied, AuditFilters_actor_id = None,
      AuditFilters_before = before, AuditFilters_page_size = Some (int PAGE_SIZE)\<rparr>"

definition audit_entries :: "audit_page \<Rightarrow> AuditLog list" where
  "audit_entries st = al_page0 st @ concat (drop 1 (al_pages st))"

definition hasMore :: "audit_page \<Rightarrow> bool" where
  "hasMore st =
     (length (al_page0 st) = PAGE_SIZE \<and>
      (if al_pages st = [] then PAGE_SIZE else length (last (al_pages st))) = PAGE_SIZE)"

definition blank_to_none :: "string \<Rightarrow> string option" where
  "blank_to_none s = (if trim s = [] then None else Some (trim s))"

definition applyFilters :: "audit_page \<Rightarrow> audit_page" where
  "applyFilters st = st\<lparr>al_applied := (blank_to_none (al_action st), blank_to_none (al_resource st)),
     al_pages := [al_initial st]\<rparr>"

definition resetFilters :: "audit_page \<Rightarrow> audit_page" where
  "resetFilters st = st\<lparr>al_action := [], al_resource := [], al_applied := (None, None), al_pages := [al_initial st]\<rparr>"

text \<open>The first query settles for the applied filters.\<close>

definition page0_fetched :: "(AuditFilters \<Rightarrow> AuditLog list) \<Rightarrow> audit_page \<Rightarrow> audit_page" where
  "page0_fetched list st = st\<lparr>al_page0 := list (audit_filters (al_applied st) None)\<rparr>"

text \<open>\<open>loadMore\<close> up to its \<open>await\<close> (the filters of the request, if one is made), and after it.\<close>

definition loadMore_request :: "audit_page \<Rightarrow> AuditFilters option" where
  "loadMore_request st =
     (if audit_entries st = [] then None
      else Some (audit_filters (al_applied st) (Some (AuditLog_created_at (last (audit_entries st))))))"

definition loadMore_start :: "audit_page \<Rightarrow> audit_page" where
  "loadMore_start st = (if audit_entries st = [] then st else st\<lparr>al_error := None, al_pending := True\<rparr>)"

definition loadMore_done :: "AuditLog list result \<Rightarrow> audit_page \<Rightarrow> audit_page" where
  "loadMore_done r st =
     (case r of
        Inr next \<Rightarrow> st\<lparr>al_pages := al_pages st @ [next], al_pending := False\<rparr>
      | Inl e \<Rightarrow> st\<lparr>al_error := Some (error_text e ''Could not load more entries.''), al_pending := False\<rparr>)"

definition loadMore :: "(AuditFilters \<Rightarrow> AuditLog list) \<Rightarrow> audit_page \<Rightarrow> audit_page" where
  "loadMore list st =
     (case loadMore_request st of
        None \<Rightarrow> st
      | Some f \<Rightarrow> loadMore_done (Inr (list f)) (loadMore_start st))"

definition toneForAction :: "string \<Rightarrow> string" where
  "toneForAction action =
     (if str_includes action ''delete'' \<or> str_includes action ''remove'' \<or> str_includes action ''revoke'' then ''alert''
      else if str_includes action ''create'' \<or> str_includes action ''invite'' \<or> str_includes action ''login'' then ''online''
      else if str_includes action ''update'' \<or> str_includes action ''rotate'' \<or> str_includes action ''change'' then ''warn''
      else ''neutral'')"

section \<open>Paging\<close>

definition matching :: "string option \<times> string option \<Rightarrow> AuditLog list \<Rightarrow> AuditLog list" where
  "matching applied rows =
     filter (\<lambda>e. str_filter (fst applied) (AuditLog_action e) \<and> str_filter (snd applied) (AuditLog_resource_type e))
       (newest_first rows)"

text \<open>A table whose times parse and are distinct.\<close>

definition log_ok :: "AuditLog list \<Rightarrow> bool" where
  "log_ok rows = (list_all (\<lambda>e. date_ms (AuditLog_created_at e) \<noteq> None) rows \<and>
     distinct (map (\<lambda>e. audit_time (AuditLog_created_at e)) rows))"

lemma set_newest_first [simp]: "set (newest_first rows) = set rows" "length (newest_first rows) = length rows"
  by (simp_all add: newest_first_def)

lemma filter_newest_first: "newest_first (filter P rows) = filter P (newest_first rows)"
  by (simp add: newest_first_def filter_sort)

lemma newest_first_strict:
  assumes "log_ok rows"
  shows "sorted_wrt (\<lambda>a b. audit_time (AuditLog_created_at b) < audit_time (AuditLog_created_at a)) (newest_first rows)"
proof -
  let ?t = "\<lambda>e. audit_time (AuditLog_created_at e)"
  have "distinct (map ?t (newest_first rows))"
    using assms by (simp add: log_ok_def newest_first_def distinct_map)
  then have "distinct (map (\<lambda>e. - ?t e) (newest_first rows))"
    by (auto simp: distinct_map inj_on_def)
  moreover have "sorted (map (\<lambda>e. - ?t e) (newest_first rows))"
    by (simp add: newest_first_def)
  ultimately have "sorted_wrt (<) (map (\<lambda>e. - ?t e) (newest_first rows))"
    by (simp add: strict_sorted_iff)
  then show ?thesis by (simp add: sorted_wrt_map)
qed

lemma matching_ok:
  assumes "log_ok rows"
  shows "sorted_wrt (\<lambda>a b. audit_time (AuditLog_created_at b) < audit_time (AuditLog_created_at a)) (matching ap rows)"
    and "e \<in> set (matching ap rows) \<Longrightarrow> \<exists>t. date_ms (AuditLog_created_at e) = Some t"
  using assms newest_first_strict [OF assms]
  by (auto simp: matching_def sorted_wrt_filter log_ok_def list_all_iff)

lemma list_first: "ListAuditLogs p rows (audit_filters ap None) = take 50 (matching ap rows)"
  by (simp add: ListAuditLogs_def audit_filters_def matching_def PAGE_SIZE_def uuid_filter_def filter_newest_first)

lemma filter_before_split:
  assumes "sorted_wrt (\<lambda>a b. t b < (t a :: int)) (xs @ x # ys)"
  shows "filter (\<lambda>e. t e < t x) (xs @ x # ys) = ys"
  using assms by (fastforce simp: sorted_wrt_append intro!: filter_True simp: filter_empty_conv)

lemma list_next:
  assumes "log_ok rows" and "0 < m" and "matching ap rows \<noteq> []"
  shows "ListAuditLogs p rows (audit_filters ap (Some (AuditLog_created_at (last (take m (matching ap rows)))))) =
    take 50 (drop m (matching ap rows))"
proof -
  let ?f = "matching ap rows"
  let ?t = "\<lambda>e. audit_time (AuditLog_created_at e)"
  define x where "x = last (take m ?f)"
  have ne: "take m ?f \<noteq> []" using assms(2,3) by simp
  then have split: "?f = butlast (take m ?f) @ x # drop m ?f"
    unfolding x_def by (metis append_butlast_last_id append.assoc append_Cons append_Nil append_take_drop_id)
  have "x \<in> set ?f" using ne unfolding x_def by (meson in_set_takeD last_in_set)
  then obtain tx where tx: "date_ms (AuditLog_created_at x) = Some tx"
    using matching_ok(2) [OF assms(1)] by blast
  have "filter (\<lambda>e. ?t e < ?t x) ?f = drop m ?f"
    using filter_before_split [of ?t "butlast (take m ?f)" x "drop m ?f"] matching_ok(1) [OF assms(1), of ap] split by metis
  then have "filter (\<lambda>e. str_filter (fst ap) (AuditLog_action e) \<and> str_filter (snd ap) (AuditLog_resource_type e) \<and> ?t e < tx) (newest_first rows) =
      drop m ?f"
    using tx by (simp add: matching_def audit_time_def conj_assoc)
  then show ?thesis
    using tx by (simp add: ListAuditLogs_def audit_filters_def PAGE_SIZE_def uuid_filter_def filter_newest_first x_def [symmetric])
qed

text \<open>The state after the first page and \<open>k\<close> further pages have been loaded.\<close>

definition browse :: "(string \<Rightarrow> 'u option) \<Rightarrow> AuditLog list \<Rightarrow> nat \<Rightarrow> audit_page \<Rightarrow> audit_page" where
  "browse p rows k st = (loadMore (ListAuditLogs p rows) ^^ k) (page0_fetched (ListAuditLogs p rows) st)"

lemma browse_fields:
  "al_applied (browse p rows k st) = al_applied st \<and> al_page0 (browse p rows k st) = take 50 (matching (al_applied st) rows)"
  by (induction k)
    (auto simp: browse_def page0_fetched_def list_first loadMore_def loadMore_start_def loadMore_done_def split: option.splits)

lemma browse_pages:
  assumes "log_ok rows" and "matching (al_applied st) rows \<noteq> []" and "al_pages st = [al_initial st]"
  shows "al_pages (browse p rows k st) = al_initial st # map (\<lambda>i. take 50 (drop (50 * Suc i) (matching (al_applied st) rows))) [0..<k] \<and>
    audit_entries (browse p rows k st) = take (50 * Suc k) (matching (al_applied st) rows)"
proof (induction k)
  case 0
  then show ?case
    using assms(3) by (simp add: browse_def page0_fetched_def list_first audit_entries_def)
next
  case (Suc k)
  let ?f = "matching (al_applied st) rows" and ?s = "browse p rows k st"
  have e: "audit_entries ?s = take (50 * Suc k) ?f" using Suc by simp
  then have ne: "audit_entries ?s \<noteq> []" using assms(2) by simp
  have nxt: "ListAuditLogs p rows (audit_filters (al_applied ?s) (Some (AuditLog_created_at (last (audit_entries ?s))))) =
      take 50 (drop (50 * Suc k) ?f)"
    using list_next [OF assms(1) _ assms(2), of "50 * Suc k" p] e browse_fields [of p rows k st] by simp
  have s: "browse p rows (Suc k) st = loadMore (ListAuditLogs p rows) ?s" by (simp add: browse_def)
  have pages: "al_pages (browse p rows (Suc k) st) = al_pages ?s @ [take 50 (drop (50 * Suc k) ?f)]"
    and p0: "al_page0 (browse p rows (Suc k) st) = al_page0 ?s"
    using ne nxt unfolding s by (simp_all add: loadMore_def loadMore_request_def loadMore_done_def loadMore_start_def)
  have "audit_entries (browse p rows (Suc k) st) = audit_entries ?s @ take 50 (drop (50 * Suc k) ?f)"
    using pages p0 Suc by (simp add: audit_entries_def)
  also have "\<dots> = take (50 * Suc (Suc k)) ?f"
    using e take_add [of "50 * Suc k" 50 ?f] by (simp add: algebra_simps)
  finally show ?case using pages Suc by simp
qed


definition sample_entry :: "string \<Rightarrow> AuditLog" where
  "sample_entry t = \<lparr>AuditLog_id = t, AuditLog_team_id = ''t'', AuditLog_actor_id = None, AuditLog_actor_type = ''user'',
     AuditLog_actor_name = None, AuditLog_actor_email = None, AuditLog_action = ''team.create'',
     AuditLog_resource_type = ''team'', AuditLog_resource_id = None, AuditLog_metadata = JNull,
     AuditLog_ip_address = [], AuditLog_created_at = t\<rparr>"


text \<open>
  A page requested before the filters were changed is still appended after the change: its entries,
  which need not match the new filters, are shown among the new results.
\<close>

lemma stale_page_appended:
  "audit_entries (loadMore_done (Inr next) (applyFilters (loadMore_start st))) = al_page0 st @ next"
  by (simp add: audit_entries_def loadMore_done_def applyFilters_def loadMore_start_def)

end
