(* ===== verification/App_Store.thy ===== *)
theory App_Store
  imports Contracts
begin

text \<open>
  The API's side of an app: the row of the \<open>apps\<close> table with its CHECK constraints
  (\<open>sql/migrations\<close>), the handlers of \<open>internal/api/handler/app.go\<close> that change it (\<open>Create\<close>, \<open>Update\<close>,
  \<open>SetDomain\<close>, \<open>VerifyDomain\<close>, \<open>SetRegistryCredential\<close>, \<open>UpdateResources\<close>) with the service and the queries
  behind them, and the JSON in which a row reaches the console. The caller is authenticated. Identifiers are
  in their canonical text form; \<open>uuid\<close> stands for \<open>uuid.Parse\<close> succeeding. The resolver's answers are a
  parameter of \<open>VerifyDomain\<close>.
\<close>

section \<open>The table\<close>

record db_app =
  da_id :: string
  da_project_id :: string
  da_name :: string
  da_slug :: string
  da_source_type :: string
  da_github_installation_id :: "string option"
  da_repo_full_name :: "string option"
  da_branch :: "string option"
  da_root_path :: string
  da_auto_deploy :: bool
  da_docker_image :: "string option"
  da_registry_credential_id :: "string option"
  da_builder :: string
  da_dockerfile_path :: string
  da_port :: int
  da_health_check_path :: string
  da_health_check_interval :: int
  da_health_check_timeout :: int
  da_replicas :: int
  da_subdomain :: "string option"
  da_custom_domain :: "string option"
  da_domain_verified :: bool
  da_status :: string
  da_created_at :: string
  da_updated_at :: string
  da_memory_limit_mb :: int
  da_cpu_limit_millicores :: int
  da_placement_strategy :: string
  da_placement_constraints :: PlacementConstraints
  da_pinned_server_ids :: "string list"

text \<open>The CHECK constraints of the columns the handlers write.\<close>

definition builders :: "string list" where
  "builders = [''auto'', ''dockerfile'', ''nixpacks'', ''buildpacks'', ''railpack'']"

definition app_row_ok :: "db_app \<Rightarrow> bool" where
  "app_row_ok r =
     (da_source_type r \<in> {''github'', ''docker_image''} \<and> da_builder r \<in> set builders \<and>
      da_status r \<in> {''active'', ''paused'', ''stopped''} \<and>
      da_placement_strategy r \<in> {''spread'', ''binpack'', ''pinned''})"

text \<open>A statement that breaks a constraint fails and leaves the row as it was.\<close>

definition checked :: "db_app \<Rightarrow> db_app option" where
  "checked r = (if app_row_ok r then Some r else None)"

section \<open>The service\<close>

record UpdateParams =
  up_name :: string
  up_branch :: "string option"
  up_root_path :: string
  up_auto_deploy :: bool
  up_builder :: string
  up_dockerfile_path :: string
  up_port :: int
  up_health_check_path :: string
  up_health_check_interval :: int
  up_health_check_timeout :: int
  up_replicas :: int
  up_subdomain :: "string option"
  up_custom_domain :: "string option"
  up_status :: string
  up_placement_strategy :: string
  up_placement_constraints :: PlacementConstraints
  up_pinned_server_ids :: "string list"

definition defaultPlacementStrategy :: "string \<Rightarrow> string" where
  "defaultPlacementStrategy s = (if s = ''binpack'' \<or> s = ''pinned'' then s else ''spread'')"

definition UpdateApp :: "string \<Rightarrow> UpdateParams \<Rightarrow> db_app \<Rightarrow> db_app option" where
  "UpdateApp now p r = checked (r\<lparr>
     da_name := up_name p, da_branch := up_branch p, da_root_path := up_root_path p,
     da_auto_deploy := up_auto_deploy p, da_builder := up_builder p, da_dockerfile_path := up_dockerfile_path p,
     da_port := up_port p, da_health_check_path := up_health_check_path p,
     da_health_check_interval := up_health_check_interval p, da_health_check_timeout := up_health_check_timeout p,
     da_replicas := up_replicas p, da_subdomain := up_subdomain p, da_custom_domain := up_custom_domain p,
     da_status := up_status p, da_placement_strategy := up_placement_strategy p,
     da_placement_constraints := up_placement_constraints p, da_pinned_server_ids := up_pinned_server_ids p,
     da_updated_at := now\<rparr>)"

definition app_service_Update :: "string \<Rightarrow> UpdateParams \<Rightarrow> db_app \<Rightarrow> db_app option" where
  "app_service_Update now p =
     UpdateApp now (p\<lparr>up_placement_strategy := defaultPlacementStrategy (up_placement_strategy p)\<rparr>)"

section \<open>Decoded requests\<close>

text \<open>
  The value a member has after decoding into a request struct, and the zero value of a field that is absent
  or null. A member may differ from the field's name in case.
\<close>

text \<open>\<open>s || undefined\<close>\<close>

definition text_opt :: "string \<Rightarrow> string option" where
  "text_opt s = (if s = [] then None else Some s)"

definition go_member :: "js \<Rightarrow> string \<Rightarrow> js" where
  "go_member body k =
     (case body of
        JObj kvs \<Rightarrow>
          (case obj_get kvs k of
             Some v \<Rightarrow> v
           | None \<Rightarrow> (case find (\<lambda>e. toLowerCase (fst e) = toLowerCase k) kvs of Some e \<Rightarrow> snd e | None \<Rightarrow> JNull))
      | _ \<Rightarrow> JNull)"

definition go_ptr :: "js \<Rightarrow> string \<Rightarrow> string option" where
  "go_ptr body k = (case go_member body k of JStr s \<Rightarrow> Some s | _ \<Rightarrow> None)"

definition go_str :: "js \<Rightarrow> string \<Rightarrow> string" where
  "go_str body k = (case go_ptr body k of Some s \<Rightarrow> s | None \<Rightarrow> [])"

definition go_int :: "js \<Rightarrow> string \<Rightarrow> int" where
  "go_int body k = (case go_member body k of JNum (Num q) \<Rightarrow> \<lfloor>q\<rfloor> | _ \<Rightarrow> 0)"

definition go_bool_ptr :: "js \<Rightarrow> string \<Rightarrow> bool option" where
  "go_bool_ptr body k = (case go_member body k of JBool b \<Rightarrow> Some b | _ \<Rightarrow> None)"

definition go_bool :: "js \<Rightarrow> string \<Rightarrow> bool" where
  "go_bool body k = (go_bool_ptr body k = Some True)"

fun js_string :: "js \<Rightarrow> string" where
  "js_string (JStr s) = s"
| "js_string _ = []"

definition go_strs :: "js \<Rightarrow> string \<Rightarrow> string list option" where
  "go_strs body k = (case go_member body k of JArr vs \<Rightarrow> Some (map js_string vs) | _ \<Rightarrow> None)"

definition go_str_map :: "js \<Rightarrow> string \<Rightarrow> (string, string) obj option" where
  "go_str_map body k =
     (case go_member body k of JObj kvs \<Rightarrow> Some (map (\<lambda>(k, v). (k, js_string v)) kvs) | _ \<Rightarrow> None)"

definition parseUUIDList :: "(string \<Rightarrow> bool) \<Rightarrow> string list \<Rightarrow> string list option" where
  "parseUUIDList uuid values =
     (let ids = filter (\<lambda>v. v \<noteq> []) values in if list_all uuid ids then Some ids else None)"

section \<open>The handlers\<close>

text \<open>A reply is an error status with its message, or the row that is sent back.\<close>

type_synonym 'a reply = "(nat \<times> string) + 'a"

definition stored :: "db_app option \<Rightarrow> db_app option \<Rightarrow> string \<Rightarrow> db_app option \<times> db_app reply" where
  "stored old res msg = (case res of Some r \<Rightarrow> (Some r, Inr r) | None \<Rightarrow> (old, Inl (500, msg)))"

definition AppHandler_Update ::
    "(string \<Rightarrow> bool) \<Rightarrow> string \<Rightarrow> js option \<Rightarrow> db_app option \<Rightarrow> db_app option \<times> db_app reply" where
  "AppHandler_Update uuid now body row =
     (if \<not> DecodeJSON uuid updateAppRequest body then (row, Inl (400, ''invalid request body''))
      else case row of
        None \<Rightarrow> (row, Inl (404, ''app not found''))
      | Some current \<Rightarrow>
          (let b = the body;
               status = (if go_str b ''status'' = [] then ''active'' else go_str b ''status'');
               strategy = (if go_str b ''placement_strategy'' = [] then da_placement_strategy current
                           else go_str b ''placement_strategy'');
               pc = go_member b ''placement_constraints'';
               constraints =
                 (if go_str_map pc ''must_have'' \<noteq> None \<or> go_str_map pc ''must_not_have'' \<noteq> None
                  then \<lparr>PlacementConstraints_must_have = (case go_str_map pc ''must_have'' of Some m \<Rightarrow> m | None \<Rightarrow> []),
                        PlacementConstraints_must_not_have = (case go_str_map pc ''must_not_have'' of Some m \<Rightarrow> m | None \<Rightarrow> [])\<rparr>
                  else da_placement_constraints current);
               pins = (case go_strs b ''pinned_server_ids'' of
                         None \<Rightarrow> Some (da_pinned_server_ids current) | Some vs \<Rightarrow> parseUUIDList uuid vs)
           in case pins of
                None \<Rightarrow> (row, Inl (400, ''invalid pinned_server_ids''))
              | Some ids \<Rightarrow>
                  stored row (app_service_Update now
                    \<lparr>up_name = go_str b ''name'', up_branch = go_ptr b ''branch'', up_root_path = go_str b ''root_path'',
                     up_auto_deploy = go_bool b ''auto_deploy'', up_builder = go_str b ''builder'',
                     up_dockerfile_path = go_str b ''dockerfile_path'', up_port = go_int b ''port'',
                     up_health_check_path = go_str b ''health_check_path'',
                     up_health_check_interval = go_int b ''health_check_interval'',
                     up_health_check_timeout = go_int b ''health_check_timeout'',
                     up_replicas = go_int b ''replicas'', up_subdomain = go_ptr b ''subdomain'',
                     up_custom_domain = go_ptr b ''custom_domain'', up_status = status,
                     up_placement_strategy = strategy, up_placement_constraints = constraints,
                     up_pinned_server_ids = ids\<rparr> current) ''failed to update app''))"

text \<open>\<open>SetDomain\<close> clears the verified flag first, whatever happens next.\<close>

definition AppHandler_SetDomain ::
    "(string \<Rightarrow> bool) \<Rightarrow> string \<Rightarrow> js option \<Rightarrow> db_app option \<Rightarrow> db_app option \<times> db_app reply" where
  "AppHandler_SetDomain uuid now body row =
     (if \<not> DecodeJSON uuid setDomainRequest body then (row, Inl (400, ''invalid request body''))
      else if go_str (the body) ''custom_domain'' = [] then (row, Inl (400, ''custom_domain is required''))
      else case row of
        None \<Rightarrow> (None, Inl (404, ''app not found''))
      | Some r \<Rightarrow>
          (let a = r\<lparr>da_domain_verified := False, da_updated_at := now\<rparr> in
           stored (Some a) (app_service_Update now
             \<lparr>up_name = da_name a, up_branch = da_branch a, up_root_path = da_root_path a,
              up_auto_deploy = da_auto_deploy a, up_builder = da_builder a, up_dockerfile_path = da_dockerfile_path a,
              up_port = da_port a, up_health_check_path = da_health_check_path a,
              up_health_check_interval = da_health_check_interval a, up_health_check_timeout = da_health_check_timeout a,
              up_replicas = da_replicas a, up_subdomain = da_subdomain a,
              up_custom_domain = Some (go_str (the body) ''custom_domain''), up_status = da_status a,
              up_placement_strategy = da_placement_strategy a, up_placement_constraints = da_placement_constraints a,
              up_pinned_server_ids = da_pinned_server_ids a\<rparr> a) ''failed to update domain''))"

text \<open>What the resolver says of a host: its CNAME, if that lookup succeeds, and its addresses.\<close>

record dns_answer =
  dns_cname :: "string option"
  dns_addresses :: "string list"

definition AppHandler_VerifyDomain ::
    "(string \<Rightarrow> dns_answer) \<Rightarrow> string \<Rightarrow> db_app option \<Rightarrow> db_app option \<times> (string \<times> bool \<times> string) reply" where
  "AppHandler_VerifyDomain lookup now row =
     (case row of
        None \<Rightarrow> (row, Inl (404, ''app not found''))
      | Some a \<Rightarrow>
          (case da_custom_domain a of
             None \<Rightarrow> (row, Inl (400, ''no custom domain set''))
           | Some d \<Rightarrow>
               if d = [] then (row, Inl (400, ''no custom domain set''))
               else
                 (let ans = lookup d;
                      cn = (case dns_cname ans of Some c \<Rightarrow> if str_includes c ''nip.io'' then Some c else None | None \<Rightarrow> None);
                      target = (case cn of
                                  Some c \<Rightarrow> Some c
                                | None \<Rightarrow> (case dns_addresses ans of [] \<Rightarrow> None | ip # ips \<Rightarrow> Some ip))
                  in ((if target = None then row else Some (a\<lparr>da_domain_verified := True, da_updated_at := now\<rparr>)),
                      Inr (d, target \<noteq> None, or_default target [])))))"

text \<open>A credential that the table of registry credentials does not hold breaks the foreign key.\<close>

definition AppHandler_SetRegistryCredential ::
    "(string \<Rightarrow> bool) \<Rightarrow> string list \<Rightarrow> string \<Rightarrow> js option \<Rightarrow> db_app option \<Rightarrow> db_app option \<times> db_app reply" where
  "AppHandler_SetRegistryCredential uuid credentials now body row =
     (if \<not> DecodeJSON uuid setRegistryCredentialRequest body then (row, Inl (400, ''invalid request body''))
      else (let cred = go_str (the body) ''registry_credential_id'' in
            if cred \<noteq> [] \<and> \<not> uuid cred then (row, Inl (400, ''invalid registry_credential_id''))
            else stored row
              (if cred \<noteq> [] \<and> cred \<notin> set credentials then None
               else map_option (\<lambda>r. r\<lparr>da_registry_credential_id := (if cred = [] then None else Some cred),
                      da_updated_at := now\<rparr>) row) ''failed to set registry credential''))"

definition AppHandler_UpdateResources ::
    "(string \<Rightarrow> bool) \<Rightarrow> string \<Rightarrow> js option \<Rightarrow> db_app option \<Rightarrow> db_app option \<times> db_app reply" where
  "AppHandler_UpdateResources uuid now body row =
     (if \<not> DecodeJSON uuid updateResourcesRequest body then (row, Inl (400, ''invalid request body''))
      else stored row (map_option (\<lambda>r. r\<lparr>da_memory_limit_mb := go_int (the body) ''memory_limit_mb'',
             da_cpu_limit_millicores := go_int (the body) ''cpu_limit_millicores'', da_updated_at := now\<rparr>) row)
             ''failed to update resources'')"

text \<open>\<open>generateSlug\<close>: lower case, runs of other characters as one dash, no dash at the ends, at most 63 characters.\<close>

definition go_space :: "char \<Rightarrow> bool" where
  "go_space c = (code_of c \<in> {9, 10, 11, 12, 13, 32, 0x85, 0xA0})"

definition slug_char :: "char \<Rightarrow> bool" where
  "slug_char c = (c \<in> set ''abcdefghijklmnopqrstuvwxyz0123456789-'')"

fun single_dashes :: "string \<Rightarrow> string" where
  "single_dashes (c # d # s) = (if c = CHR ''-'' \<and> d = CHR ''-'' then single_dashes (d # s) else c # single_dashes (d # s))"
| "single_dashes s = s"

definition trim_by :: "(char \<Rightarrow> bool) \<Rightarrow> string \<Rightarrow> string" where
  "trim_by P s = rev (dropWhile P (rev (dropWhile P s)))"

definition generateSlug :: "string \<Rightarrow> string" where
  "generateSlug name =
     (let slug = toLowerCase (trim_by go_space name);
          slug = map (\<lambda>c. if slug_char c then c else CHR ''-'') slug;
          slug = trim_by (\<lambda>c. c = CHR ''-'') (single_dashes slug);
          slug = (if slug = [] then ''app'' else slug)
      in if length slug > 63 then take 63 slug else slug)"

text \<open>
  The tables an insert depends on: the identifiers its foreign keys may name and the apps there are. \<open>CreateApp\<close>
  fails when a check, a foreign key or the uniqueness of the slug in its project is violated.
\<close>

record app_tables =
  at_projects :: "string list"
  at_installations :: "string list"
  at_credentials :: "string list"
  at_apps :: "db_app list"

definition CreateApp :: "app_tables \<Rightarrow> db_app \<Rightarrow> app_tables option" where
  "CreateApp t r =
     (if app_row_ok r \<and> da_project_id r \<in> set (at_projects t) \<and>
         (case da_github_installation_id r of Some i \<Rightarrow> i \<in> set (at_installations t) | None \<Rightarrow> True) \<and>
         (case da_registry_credential_id r of Some c \<Rightarrow> c \<in> set (at_credentials t) | None \<Rightarrow> True) \<and>
         \<not> list_ex (\<lambda>a. da_id a = da_id r \<or> da_project_id a = da_project_id r \<and> da_slug a = da_slug r) (at_apps t)
      then Some (t\<lparr>at_apps := at_apps t @ [r]\<rparr>) else None)"

text \<open>\<open>Create\<close>: the checks and defaults of the handler, then the insert; \<open>newId\<close> is the generated identifier.\<close>

definition or_if :: "bool \<Rightarrow> 'a \<Rightarrow> 'a \<Rightarrow> 'a" where
  "or_if missing d v = (if missing then d else v)"

definition quoted :: "string \<Rightarrow> string" where
  "quoted s = CHR 0x27 # s @ [CHR 0x27]"

definition AppHandler_Create ::
    "(string \<Rightarrow> bool) \<Rightarrow> string \<Rightarrow> string \<Rightarrow> string \<Rightarrow> js option \<Rightarrow> app_tables \<Rightarrow> app_tables \<times> db_app reply" where
  "AppHandler_Create uuid newId now projectId body t =
     (if \<not> DecodeJSON uuid createAppRequest body then (t, Inl (400, ''invalid request body''))
      else (let b = the body; name = go_str b ''name''; src = go_str b ''source_type'';
                inst = go_ptr b ''github_installation_id''; cred = go_ptr b ''registry_credential_id'';
                pins = (case go_strs b ''pinned_server_ids'' of None \<Rightarrow> Some [] | Some vs \<Rightarrow> parseUUIDList uuid vs);
                pc = go_member b ''placement_constraints''
            in if name = [] then (t, Inl (400, ''name is required''))
               else if src \<noteq> ''github'' \<and> src \<noteq> ''docker_image''
                 then (t, Inl (400, ''source_type must be '' @ quoted ''github'' @ '' or '' @ quoted ''docker_image''))
               else if (case inst of Some i \<Rightarrow> \<not> uuid i | None \<Rightarrow> False) then (t, Inl (400, ''invalid github_installation_id''))
               else if (case cred of Some i \<Rightarrow> \<not> uuid i | None \<Rightarrow> False) then (t, Inl (400, ''invalid registry_credential_id''))
               else (case pins of
                  None \<Rightarrow> (t, Inl (400, ''invalid pinned_server_ids''))
                | Some ids \<Rightarrow>
                    (let r =
                       \<lparr>da_id = newId, da_project_id = projectId, da_name = name, da_slug = generateSlug name,
                        da_source_type = src, da_github_installation_id = inst,
                        da_repo_full_name = go_ptr b ''repo_full_name'', da_branch = go_ptr b ''branch'',
                        da_root_path = or_if (go_str b ''root_path'' = []) ''/'' (go_str b ''root_path''),
                        da_auto_deploy = (case go_bool_ptr b ''auto_deploy'' of Some v \<Rightarrow> v | None \<Rightarrow> True),
                        da_docker_image = go_ptr b ''docker_image'', da_registry_credential_id = cred,
                        da_builder = or_if (go_str b ''builder'' = []) ''auto'' (go_str b ''builder''),
                        da_dockerfile_path = or_if (go_str b ''dockerfile_path'' = []) ''Dockerfile'' (go_str b ''dockerfile_path''),
                        da_port = or_if (go_int b ''port'' = 0) 8080 (go_int b ''port''),
                        da_health_check_path = or_if (go_str b ''health_check_path'' = []) ''/healthz'' (go_str b ''health_check_path''),
                        da_health_check_interval = or_if (go_int b ''health_check_interval'' = 0) 5 (go_int b ''health_check_interval''),
                        da_health_check_timeout = or_if (go_int b ''health_check_timeout'' = 0) 60 (go_int b ''health_check_timeout''),
                        da_replicas = or_if (go_int b ''replicas'' = 0) 1 (go_int b ''replicas''),
                        da_subdomain = go_ptr b ''subdomain'', da_custom_domain = None, da_domain_verified = False,
                        da_status = ''active'', da_created_at = now, da_updated_at = now,
                        da_memory_limit_mb = 0, da_cpu_limit_millicores = 0,
                        da_placement_strategy = defaultPlacementStrategy (go_str b ''placement_strategy''),
                        da_placement_constraints =
                          \<lparr>PlacementConstraints_must_have = (case go_str_map pc ''must_have'' of Some m \<Rightarrow> m | None \<Rightarrow> []),
                           PlacementConstraints_must_not_have = (case go_str_map pc ''must_not_have'' of Some m \<Rightarrow> m | None \<Rightarrow> [])\<rparr>,
                        da_pinned_server_ids = ids\<rparr>
                     in case CreateApp t r of Some t' \<Rightarrow> (t', Inr r) | None \<Rightarrow> (t, Inl (500, ''failed to create app''))))))"

section \<open>The row in the console\<close>

text \<open>
  The JSON of a row (the tags of \<open>db.App\<close>) and the \<open>App\<close> the console's code sees in it. The placement
  constraints, a base64 text no page reads, and the unused \<open>domains\<close> are left out.
\<close>

definition db_app_json :: "db_app \<Rightarrow> js" where
  "db_app_json r = JObj [
     (''id'', JStr (da_id r)), (''project_id'', JStr (da_project_id r)), (''name'', JStr (da_name r)),
     (''slug'', JStr (da_slug r)), (''source_type'', JStr (da_source_type r)),
     (''github_installation_id'', jstr_null (da_github_installation_id r)),
     (''repo_full_name'', jstr_null (da_repo_full_name r)), (''branch'', jstr_null (da_branch r)),
     (''root_path'', JStr (da_root_path r)), (''auto_deploy'', JBool (da_auto_deploy r)),
     (''docker_image'', jstr_null (da_docker_image r)),
     (''registry_credential_id'', jstr_null (da_registry_credential_id r)), (''builder'', JStr (da_builder r)),
     (''dockerfile_path'', JStr (da_dockerfile_path r)), (''port'', jint (da_port r)),
     (''health_check_path'', JStr (da_health_check_path r)),
     (''health_check_interval'', jint (da_health_check_interval r)),
     (''health_check_timeout'', jint (da_health_check_timeout r)), (''replicas'', jint (da_replicas r)),
     (''subdomain'', jstr_null (da_subdomain r)), (''custom_domain'', jstr_null (da_custom_domain r)),
     (''domain_verified'', JBool (da_domain_verified r)), (''status'', JStr (da_status r)),
     (''created_at'', JStr (da_created_at r)), (''updated_at'', JStr (da_updated_at r)),
     (''memory_limit_mb'', jint (da_memory_limit_mb r)), (''cpu_limit_millicores'', jint (da_cpu_limit_millicores r)),
     (''placement_strategy'', JStr (da_placement_strategy r)), (''pinned_server_ids'', jstrs (da_pinned_server_ids r))]"

fun as_int :: "js \<Rightarrow> int option" where
  "as_int (JNum (Num q)) = Some \<lfloor>q\<rfloor>"
| "as_int _ = None"

fun as_bool :: "js \<Rightarrow> bool option" where
  "as_bool (JBool b) = Some b"
| "as_bool _ = None"

fun as_strings :: "js \<Rightarrow> string list option" where
  "as_strings (JArr vs) = Some (map js_string vs)"
| "as_strings _ = None"

definition App_of :: "js \<Rightarrow> App" where
  "App_of v = \<lparr>
     App_id = js_string (get_prop v ''id''), App_project_id = js_string (get_prop v ''project_id''),
     App_name = js_string (get_prop v ''name''), App_slug = js_string (get_prop v ''slug''),
     App_source_type = js_string (get_prop v ''source_type''),
     App_github_installation_id = as_string (get_prop v ''github_installation_id''),
     App_repo_full_name = as_string (get_prop v ''repo_full_name''), App_branch = as_string (get_prop v ''branch''),
     App_root_path = as_string (get_prop v ''root_path''), App_auto_deploy = as_bool (get_prop v ''auto_deploy''),
     App_docker_image = as_string (get_prop v ''docker_image''),
     App_registry_credential_id = as_string (get_prop v ''registry_credential_id''),
     App_builder = as_string (get_prop v ''builder''), App_dockerfile_path = as_string (get_prop v ''dockerfile_path''),
     App_port = as_int (get_prop v ''port''), App_health_check_path = as_string (get_prop v ''health_check_path''),
     App_replicas = as_int (get_prop v ''replicas''),
     App_placement_strategy = as_string (get_prop v ''placement_strategy''), App_placement_constraints = None,
     App_pinned_server_ids = as_strings (get_prop v ''pinned_server_ids''),
     App_status = js_string (get_prop v ''status''),
     App_resource_cpu_millicores = as_int (get_prop v ''resource_cpu_millicores''),
     App_resource_memory_mb = as_int (get_prop v ''resource_memory_mb''),
     App_cpu_limit_millicores = as_int (get_prop v ''cpu_limit_millicores''),
     App_memory_limit_mb = as_int (get_prop v ''memory_limit_mb''),
     App_custom_domain = as_string (get_prop v ''custom_domain''),
     App_custom_domain_verified = as_bool (get_prop v ''custom_domain_verified''),
     App_created_at = js_string (get_prop v ''created_at''), App_updated_at = js_string (get_prop v ''updated_at'')\<rparr>"

definition app_view :: "db_app \<Rightarrow> App" where
  "app_view r = App_of (db_app_json r)"

section \<open>Facts\<close>

text \<open>The members the handlers read, in lower case as they stand.\<close>

lemma lower_names [simp]:
  "toLowerCase ''name'' = ''name''" "toLowerCase ''branch'' = ''branch''" "toLowerCase ''root_path'' = ''root_path''"
  "toLowerCase ''auto_deploy'' = ''auto_deploy''" "toLowerCase ''builder'' = ''builder''"
  "toLowerCase ''dockerfile_path'' = ''dockerfile_path''" "toLowerCase ''port'' = ''port''"
  "toLowerCase ''health_check_path'' = ''health_check_path''"
  "toLowerCase ''health_check_interval'' = ''health_check_interval''"
  "toLowerCase ''health_check_timeout'' = ''health_check_timeout''" "toLowerCase ''replicas'' = ''replicas''"
  "toLowerCase ''subdomain'' = ''subdomain''" "toLowerCase ''custom_domain'' = ''custom_domain''"
  "toLowerCase ''status'' = ''status''" "toLowerCase ''placement_strategy'' = ''placement_strategy''"
  "toLowerCase ''placement_constraints'' = ''placement_constraints''"
  "toLowerCase ''pinned_server_ids'' = ''pinned_server_ids''" "toLowerCase ''must_have'' = ''must_have''"
  "toLowerCase ''must_not_have'' = ''must_not_have''" "toLowerCase ''source_type'' = ''source_type''"
  "toLowerCase ''github_installation_id'' = ''github_installation_id''"
  "toLowerCase ''repo_full_name'' = ''repo_full_name''" "toLowerCase ''docker_image'' = ''docker_image''"
  "toLowerCase ''registry_credential_id'' = ''registry_credential_id''"
  by code_simp+

lemmas go_defs = go_member_def go_ptr_def go_str_def go_int_def go_bool_ptr_def go_bool_def go_strs_def go_str_map_def obj_get_def

lemma app_json_props:
  "get_prop (db_app_json r) ''id'' = JStr (da_id r)"
  "get_prop (db_app_json r) ''project_id'' = JStr (da_project_id r)"
  "get_prop (db_app_json r) ''name'' = JStr (da_name r)"
  "get_prop (db_app_json r) ''slug'' = JStr (da_slug r)"
  "get_prop (db_app_json r) ''source_type'' = JStr (da_source_type r)"
  "get_prop (db_app_json r) ''github_installation_id'' = jstr_null (da_github_installation_id r)"
  "get_prop (db_app_json r) ''repo_full_name'' = jstr_null (da_repo_full_name r)"
  "get_prop (db_app_json r) ''branch'' = jstr_null (da_branch r)"
  "get_prop (db_app_json r) ''root_path'' = JStr (da_root_path r)"
  "get_prop (db_app_json r) ''auto_deploy'' = JBool (da_auto_deploy r)"
  "get_prop (db_app_json r) ''docker_image'' = jstr_null (da_docker_image r)"
  "get_prop (db_app_json r) ''registry_credential_id'' = jstr_null (da_registry_credential_id r)"
  "get_prop (db_app_json r) ''builder'' = JStr (da_builder r)"
  "get_prop (db_app_json r) ''dockerfile_path'' = JStr (da_dockerfile_path r)"
  "get_prop (db_app_json r) ''port'' = jint (da_port r)"
  "get_prop (db_app_json r) ''health_check_path'' = JStr (da_health_check_path r)"
  "get_prop (db_app_json r) ''health_check_interval'' = jint (da_health_check_interval r)"
  "get_prop (db_app_json r) ''health_check_timeout'' = jint (da_health_check_timeout r)"
  "get_prop (db_app_json r) ''replicas'' = jint (da_replicas r)"
  "get_prop (db_app_json r) ''subdomain'' = jstr_null (da_subdomain r)"
  "get_prop (db_app_json r) ''custom_domain'' = jstr_null (da_custom_domain r)"
  "get_prop (db_app_json r) ''domain_verified'' = JBool (da_domain_verified r)"
  "get_prop (db_app_json r) ''status'' = JStr (da_status r)"
  "get_prop (db_app_json r) ''created_at'' = JStr (da_created_at r)"
  "get_prop (db_app_json r) ''updated_at'' = JStr (da_updated_at r)"
  "get_prop (db_app_json r) ''memory_limit_mb'' = jint (da_memory_limit_mb r)"
  "get_prop (db_app_json r) ''cpu_limit_millicores'' = jint (da_cpu_limit_millicores r)"
  "get_prop (db_app_json r) ''placement_strategy'' = JStr (da_placement_strategy r)"
  "get_prop (db_app_json r) ''pinned_server_ids'' = jstrs (da_pinned_server_ids r)"
  "get_prop (db_app_json r) ''resource_cpu_millicores'' = JUndefined"
  "get_prop (db_app_json r) ''resource_memory_mb'' = JUndefined"
  "get_prop (db_app_json r) ''custom_domain_verified'' = JUndefined"
  by (simp_all add: db_app_json_def obj_get_def)

lemma as_field_simps [simp]:
  "as_string (jstr_null so) = so" "as_int (jint i) = Some i" "as_strings (jstrs ss) = Some ss"
  by (simp_all add: jstr_null_def jint_def jstrs_def comp_def split: option.split)

lemma app_view_simps [simp]:
  "App_id (app_view r) = da_id r" "App_project_id (app_view r) = da_project_id r" "App_name (app_view r) = da_name r"
  "App_branch (app_view r) = da_branch r" "App_root_path (app_view r) = Some (da_root_path r)"
  "App_auto_deploy (app_view r) = Some (da_auto_deploy r)" "App_builder (app_view r) = Some (da_builder r)"
  "App_dockerfile_path (app_view r) = Some (da_dockerfile_path r)" "App_port (app_view r) = Some (da_port r)"
  "App_health_check_path (app_view r) = Some (da_health_check_path r)" "App_replicas (app_view r) = Some (da_replicas r)"
  "App_placement_strategy (app_view r) = Some (da_placement_strategy r)"
  "App_pinned_server_ids (app_view r) = Some (da_pinned_server_ids r)" "App_status (app_view r) = da_status r"
  "App_cpu_limit_millicores (app_view r) = Some (da_cpu_limit_millicores r)"
  "App_memory_limit_mb (app_view r) = Some (da_memory_limit_mb r)"
  "App_custom_domain (app_view r) = da_custom_domain r" "App_custom_domain_verified (app_view r) = None"
  "App_registry_credential_id (app_view r) = da_registry_credential_id r"
  by (simp_all add: app_view_def App_of_def app_json_props)

text \<open>A member of a sent body whose names are distinct and in lower case.\<close>

lemma decodes_members:
  "decodes (scalar_ok uuid) (GStruct fs) (wire (JObj kvs)) \<longleftrightarrow>
     list_all (\<lambda>(k, v). v = JUndefined \<or> (case go_field fs k of None \<Rightarrow> False | Some t \<Rightarrow> decodes (scalar_ok uuid) t (wire v))) kvs"
  by (induction kvs) (auto split: option.splits)

lemma go_member_wire:
  assumes "distinct (map fst kvs)" and "list_all (\<lambda>e. toLowerCase (fst e) = fst e) kvs" and "toLowerCase k = k"
  shows "go_member (wire (JObj kvs)) k = (case map_of kvs k of Some v \<Rightarrow> wire v | None \<Rightarrow> JNull)"
proof -
  let ?w = "map (\<lambda>(k, v). (k, wire v)) (filter (\<lambda>(k, v). v \<noteq> JUndefined) kvs)"
  have g: "map_of ?w k = (case map_of kvs k of Some v \<Rightarrow> if v = JUndefined then None else Some (wire v) | None \<Rightarrow> None)"
    using assms(1)
  proof (induction kvs)
    case (Cons e kvs)
    obtain k' v where e: "e = (k', v)" by (cases e)
    have "map_of kvs k' = None" using Cons.prems e by (simp add: map_of_eq_None_iff)
    with Cons e show ?case by auto
  qed simp
  have "find (\<lambda>e. toLowerCase (fst e) = toLowerCase k) ?w = None" if "map_of ?w k = None"
  proof -
    have "toLowerCase (fst e) \<noteq> k" if "e \<in> set ?w" for e
    proof -
      have "fst e \<noteq> k" using \<open>map_of ?w k = None\<close> that by (metis fst_conv image_eqI map_of_eq_None_iff)
      moreover have "toLowerCase (fst e) = fst e" using that assms(2) by (auto simp: list_all_iff)
      ultimately show ?thesis by simp
    qed
    then show ?thesis by (simp add: find_None_iff assms(3))
  qed
  then show ?thesis
    using g by (auto simp: go_member_def obj_get_def split: option.splits if_splits)
qed

section \<open>Slugs\<close>

lemma single_dashes_hd: "single_dashes (c # s) \<noteq> [] \<and> hd (single_dashes (c # s)) = c"
  by (induction "c # s" arbitrary: c s rule: single_dashes.induct) auto

lemma single_dashes_set: "set (single_dashes s) \<subseteq> set s"
  by (induction s rule: single_dashes.induct) auto

text \<open>A text has single dashes exactly when the function leaves it alone, and so do its parts.\<close>

lemma single_dashes_idem: "single_dashes (single_dashes s) = single_dashes s"
proof (induction s rule: single_dashes.induct)
  case (1 c d s)
  obtain t where t: "single_dashes (d # s) = d # t"
    using single_dashes_hd [of d s] by (cases "single_dashes (d # s)") auto
  show ?case using 1 t by auto
qed simp_all

lemma single_dashes_le: "length (single_dashes s) \<le> length s"
  by (induction s rule: single_dashes.induct) auto

lemma single_dashes_fix: "single_dashes s = s \<longleftrightarrow> (\<forall>i. Suc i < length s \<longrightarrow> \<not> (s ! i = CHR ''-'' \<and> s ! Suc i = CHR ''-''))"
proof (induction s rule: single_dashes.induct)
  case (1 c d s)
  have "single_dashes (d # s) \<noteq> c # d # s" using single_dashes_le [of "d # s"] by (metis impossible_Cons)
  with 1 show ?case by (auto simp: nth_Cons less_Suc_eq_0_disj split: nat.splits)
qed auto

lemma single_dashes_part: "single_dashes (a @ s @ b) = a @ s @ b \<Longrightarrow> single_dashes s = s"
  unfolding single_dashes_fix
proof (intro allI impI)
  fix i assume h: "\<forall>i. Suc i < length (a @ s @ b) \<longrightarrow> \<not> ((a @ s @ b) ! i = CHR ''-'' \<and> (a @ s @ b) ! Suc i = CHR ''-'')"
    and i: "Suc i < length s"
  from h [rule_format, of "length a + i"] i show "\<not> (s ! i = CHR ''-'' \<and> s ! Suc i = CHR ''-'')"
    by (simp add: nth_append)
qed

lemma trim_by_part: "\<exists>a b. s = a @ trim_by P s @ b"
proof -
  have "s = takeWhile P s @ dropWhile P s" by simp
  moreover have "dropWhile P s = trim_by P s @ rev (takeWhile P (rev (dropWhile P s)))"
    unfolding trim_by_def by (metis rev_append rev_rev_ident takeWhile_dropWhile_id)
  ultimately show ?thesis by metis
qed

lemma trim_by_ends: "trim_by P s \<noteq> [] \<Longrightarrow> \<not> P (hd (trim_by P s)) \<and> \<not> P (last (trim_by P s))"
proof -
  let ?d = "dropWhile P s"
  assume ne: "trim_by P s \<noteq> []"
  then have r: "dropWhile P (rev ?d) \<noteq> []" by (simp add: trim_by_def)
  have split: "?d = trim_by P s @ rev (takeWhile P (rev ?d))"
    unfolding trim_by_def by (metis rev_append rev_rev_ident takeWhile_dropWhile_id)
  with ne have "hd (trim_by P s) = hd ?d" and "?d \<noteq> []" by (metis hd_append2) (metis append_is_Nil_conv ne split)
  then show ?thesis
    using hd_dropWhile [of P s] hd_dropWhile [OF r] by (simp add: trim_by_def last_rev)
qed

lemma trim_by_none: "s \<noteq> [] \<Longrightarrow> \<not> P (hd s) \<Longrightarrow> \<not> P (last s) \<Longrightarrow> trim_by P s = s"
proof -
  assume s: "s \<noteq> []" "\<not> P (hd s)" "\<not> P (last s)"
  have "dropWhile P s = s" using s by (cases s) auto
  moreover have "dropWhile P (rev s) = rev s" using s by (cases s rule: rev_cases) auto
  ultimately show ?thesis by (simp add: trim_by_def)
qed

lemma trim_by_idem: "trim_by P (trim_by P s) = trim_by P s"
proof (cases "trim_by P s = []")
  case False
  then show ?thesis using trim_by_ends trim_by_none by metis
next
  case True
  show ?thesis unfolding True by (simp add: trim_by_def)
qed

lemma trim_by_set: "set (trim_by P s) \<subseteq> set s"
  using trim_by_part [of s P] by (metis Un_iff set_append subsetI)

text \<open>
  C40: The slug of an app is never empty and has at most 63 characters, all of them lower-case letters, digits and
  single dashes; it never starts with a dash, and it ends with one only when the name was cut off at 63 characters.
\<close>

lemma slug_shape:
  "let s = generateSlug name in
   s \<noteq> [] \<and> length s \<le> 63 \<and> list_all slug_char s \<and> hd s \<noteq> CHR ''-'' \<and> single_dashes s = s \<and>
   (last s = CHR ''-'' \<longrightarrow> length s = 63)"
proof -
  define u where "u = map (\<lambda>c. if slug_char c then c else CHR ''-'') (toLowerCase (trim_by go_space name))"
  define v where "v = trim_by (\<lambda>c. c = CHR ''-'') (single_dashes u)"
  define w where "w = (if v = [] then ''app'' else v)"
  have s: "generateSlug name = take 63 w"
    by (simp add: generateSlug_def u_def v_def w_def Let_def)
  have "list_all slug_char u" by (auto simp: u_def list_all_iff slug_char_def)
  then have "list_all slug_char v"
    using trim_by_set [of "\<lambda>c. c = CHR ''-''" "single_dashes u"] single_dashes_set [of u] by (auto simp: v_def list_all_iff)
  then have chars: "list_all slug_char w" by (simp add: w_def slug_char_def)
  have ends: "w \<noteq> []" "hd w \<noteq> CHR ''-''" "last w \<noteq> CHR ''-''"
    using trim_by_ends [of "\<lambda>c. c = CHR ''-''" "single_dashes u"] by (auto simp: w_def v_def)
  have "single_dashes v = v"
    using trim_by_part [of "single_dashes u" "\<lambda>c. c = CHR ''-''"] single_dashes_idem [of u]
    unfolding v_def by (metis single_dashes_part)
  then have single: "single_dashes w = w" by (simp add: w_def)
  then have "single_dashes (take 63 w) = take 63 w"
    using single_dashes_part [of "[]" "take 63 w" "drop 63 w"] by simp
  moreover have "length (take 63 w) = 63" if "last (take 63 w) = CHR ''-''"
    using that ends by (cases "63 \<le> length w") auto
  ultimately show ?thesis
    unfolding Let_def s using ends chars by (auto simp: list_all_iff dest: in_set_takeD)
qed

lemma slug_shape_witness:
  "let s = generateSlug (replicate 62 CHR ''a'' @ ''-b'') in last s = CHR ''-'' \<and> length s = 63 \<and> hd s \<noteq> CHR ''-''"
proof -
  have "last (generateSlug (replicate 62 CHR ''a'' @ ''-b'')) = CHR ''-''" by code_simp
  then show ?thesis using slug_shape [of "replicate 62 CHR ''a'' @ ''-b''"] by (simp add: Let_def)
qed

end
