(* ===== verification/Machines.thy ===== *)
theory Machines
  imports Prelude
begin

text \<open>
  Pages and dialogs as machines that send requests: a step takes an event to the new state and, possibly, a
  request. The locale \<open>request_machine\<close> states what every such component promises, an invariant of its state
  and a guard on what it sends, and shows that both hold through any sequence of events.
\<close>

text \<open>The requests of a run, each with the state it was sent from.\<close>

fun emitted :: "('s \<Rightarrow> 'e \<Rightarrow> 's \<times> 'r option) \<Rightarrow> 's \<Rightarrow> 'e list \<Rightarrow> ('s \<times> 'r) list" where
  "emitted step s [] = []"
| "emitted step s (e # es) =
     (case snd (step s e) of None \<Rightarrow> [] | Some r \<Rightarrow> [(s, r)]) @ emitted step (fst (step s e)) es"

definition after :: "('s \<Rightarrow> 'e \<Rightarrow> 's \<times> 'r option) \<Rightarrow> 's \<Rightarrow> 'e list \<Rightarrow> 's" where
  "after step s es = foldl (\<lambda>s e. fst (step s e)) s es"

lemma after_simps [simp]: "after step s [] = s" "after step s (e # es) = after step (fst (step s e)) es"
  by (simp_all add: after_def)

lemma after_append: "after step s (es @ fs) = after step (after step s es) fs"
  by (simp add: after_def)

lemma emitted_append: "emitted step s (es @ fs) = emitted step s es @ emitted step (after step s es) fs"
  by (induction es arbitrary: s) simp_all

locale request_machine =
  fixes step :: "'s \<Rightarrow> 'e \<Rightarrow> 's \<times> 'r option"
    and inv :: "'s \<Rightarrow> bool"
    and guard :: "'s \<Rightarrow> 'r \<Rightarrow> bool"
  assumes inv_event: "inv s \<Longrightarrow> inv (fst (step s e))"
    and guarded: "inv s \<Longrightarrow> snd (step s e) = Some r \<Longrightarrow> guard s r"
begin

lemma after_inv: "inv s \<Longrightarrow> inv (after step s es)"
  by (induction es arbitrary: s) (simp_all add: inv_event)

lemma emitted_guarded: "inv s \<Longrightarrow> (t, r) \<in> set (emitted step s es) \<Longrightarrow> inv t \<and> guard t r"
  by (induction es arbitrary: s) (auto simp: guarded split: option.splits dest: inv_event)

end

sublocale request_machine \<subseteq> run: event_machine "\<lambda>s e. fst (step s e)" inv
  by unfold_locales (rule inv_event)

end
