(* ===== verification/App_Pages.thy ===== *)
theory App_Pages
  imports App_Store Machines
begin

text \<open>
  The settings pages of an app: \<open>components/apps/AppOverview.tsx\<close> (identity and runtime),
  \<open>ResourcesForm.tsx\<close> (container limits), \<open>AppSettingsClient.tsx\<close> (registry credential, deletion) and
  \<open>DomainsClient.tsx\<close> (custom domain), each as the requests it sends, together with what the API
  (\<open>App_Store\<close>) makes of them.
\<close>

section \<open>Overview\<close>

record overview_form =
  of_name :: string
  of_replicas :: string
  of_port :: string
  of_healthPath :: string
  of_error :: "string option"

definition overview_init :: "App \<Rightarrow> overview_form" where
  "overview_init app =
     \<lparr>of_name = App_name app, of_replicas = show_int (or_default (App_replicas app) 1),
      of_port = show_int (or_default (App_port app) 3000),
      of_healthPath = or_default (App_health_check_path app) ''/'', of_error = None\<rparr>"

definition overview_dirty :: "App \<Rightarrow> overview_form \<Rightarrow> bool" where
  "overview_dirty app f =
     (trim (of_name f) \<noteq> App_name app \<or>
      Number (of_replicas f) \<noteq> Num (of_int (or_default (App_replicas app) 1)) \<or>
      Number (of_port f) \<noteq> Num (of_int (or_default (App_port app) 3000)) \<or>
      trim (of_healthPath f) \<noteq> or_default (App_health_check_path app) ''/'')"

definition or_text :: "string \<Rightarrow> string \<Rightarrow> string" where
  "or_text s d = (if s = [] then d else s)"

definition overview_request :: "App \<Rightarrow> overview_form \<Rightarrow> endpoint" where
  "overview_request app f = appsApi_update (App_project_id app) (App_id app)
     \<lparr>UpdateAppInput_name = Some (trim (of_name f)), UpdateAppInput_branch = None, UpdateAppInput_root_path = None,
      UpdateAppInput_auto_deploy = None, UpdateAppInput_builder = None, UpdateAppInput_dockerfile_path = None,
      UpdateAppInput_port = Some (num_or (Number (of_port f)) (Num 3000)),
      UpdateAppInput_health_check_path = Some (or_text (trim (of_healthPath f)) ''/''),
      UpdateAppInput_health_check_interval = None, UpdateAppInput_health_check_timeout = None,
      UpdateAppInput_replicas = Some (num_or (Number (of_replicas f)) (Num 1)),
      UpdateAppInput_subdomain = None, UpdateAppInput_custom_domain = None, UpdateAppInput_status = None,
      UpdateAppInput_placement_strategy = None\<rparr>"

datatype overview_event = OName string | OReplicas string | OPort string | OHealth string | OSave | OFailed failure

fun overview_step :: "App \<Rightarrow> overview_form \<Rightarrow> overview_event \<Rightarrow> overview_form \<times> endpoint option" where
  "overview_step app f (OName s) = (f\<lparr>of_name := s\<rparr>, None)"
| "overview_step app f (OReplicas s) = (f\<lparr>of_replicas := s\<rparr>, None)"
| "overview_step app f (OPort s) = (f\<lparr>of_port := s\<rparr>, None)"
| "overview_step app f (OHealth s) = (f\<lparr>of_healthPath := s\<rparr>, None)"
| "overview_step app f OSave =
     (if trim (of_name f) = [] then (f\<lparr>of_error := Some ''Name is required.''\<rparr>, None)
      else (f\<lparr>of_error := None\<rparr>, if overview_dirty app f then Some (overview_request app f) else None))"
| "overview_step app f (OFailed e) = (f\<lparr>of_error := Some (error_text e ''Could not update the app.'')\<rparr>, None)"

section \<open>Resources\<close>

record resources_form =
  rf_cpu :: string
  rf_memory :: string
  rf_error :: "string option"

definition initialCpu :: "App \<Rightarrow> int" where
  "initialCpu app =
     (case App_cpu_limit_millicores app of Some n \<Rightarrow> n | None \<Rightarrow> or_default (App_resource_cpu_millicores app) 0)"

definition initialMem :: "App \<Rightarrow> int" where
  "initialMem app =
     (case App_memory_limit_mb app of Some n \<Rightarrow> n | None \<Rightarrow> or_default (App_resource_memory_mb app) 0)"

definition resources_init :: "App \<Rightarrow> resources_form" where
  "resources_init app = \<lparr>rf_cpu = show_int (initialCpu app), rf_memory = show_int (initialMem app), rf_error = None\<rparr>"

definition resources_dirty :: "App \<Rightarrow> resources_form \<Rightarrow> bool" where
  "resources_dirty app f =
     (Number (rf_cpu f) \<noteq> Num (of_int (initialCpu app)) \<or> Number (rf_memory f) \<noteq> Num (of_int (initialMem app)))"

definition resources_request :: "App \<Rightarrow> resources_form \<Rightarrow> endpoint" where
  "resources_request app f = appsApi_updateResources (App_id app)
     \<lparr>UpdateResourcesInput_memory_limit_mb = or_zero (Number (rf_memory f)),
      UpdateResourcesInput_cpu_limit_millicores = or_zero (Number (rf_cpu f))\<rparr>"

datatype resources_event = RCpu string | RMemory string | RSubmit | RFailed failure

fun resources_step :: "App \<Rightarrow> resources_form \<Rightarrow> resources_event \<Rightarrow> resources_form \<times> endpoint option" where
  "resources_step app f (RCpu s) = (f\<lparr>rf_cpu := s\<rparr>, None)"
| "resources_step app f (RMemory s) = (f\<lparr>rf_memory := s\<rparr>, None)"
| "resources_step app f RSubmit =
     (f\<lparr>rf_error := None\<rparr>, if resources_dirty app f then Some (resources_request app f) else None)"
| "resources_step app f (RFailed e) = (f\<lparr>rf_error := Some (error_text e ''Could not update resources.'')\<rparr>, None)"

section \<open>Settings\<close>

record settings_page =
  sp_registryId :: string
  sp_registrySaved :: bool
  sp_error :: "string option"

definition settings_init :: "App \<Rightarrow> settings_page" where
  "settings_init app =
     \<lparr>sp_registryId = or_default (App_registry_credential_id app) [], sp_registrySaved = False, sp_error = None\<rparr>"

datatype settings_event =
    SPick string | SSave | SSaved App | SSaveFailed failure | SDelete | SDeleteFailed failure

text \<open>The select lists the team's registries, for an app built from GitHub; the saved app comes back as the new prop.\<close>

fun settings_step ::
    "string list \<Rightarrow> App \<times> settings_page \<Rightarrow> settings_event \<Rightarrow> (App \<times> settings_page) \<times> endpoint option" where
  "settings_step regs (app, p) (SPick r) =
     (if App_source_type app = ''github'' \<and> r \<in> set regs
      then (app, p\<lparr>sp_registryId := r, sp_registrySaved := False\<rparr>) else (app, p), None)"
| "settings_step regs (app, p) SSave =
     ((app, p),
      if App_source_type app = ''github'' \<and> sp_registryId p \<noteq> [] \<and>
         sp_registryId p \<noteq> or_default (App_registry_credential_id app) []
      then Some (appsApi_setRegistryCredential (App_id app) (Some (sp_registryId p))) else None)"
| "settings_step regs (app, p) (SSaved app') =
     ((app', p\<lparr>sp_registrySaved := True, sp_error := None,
         sp_registryId := (if App_registry_credential_id app' = App_registry_credential_id app then sp_registryId p
                           else or_default (App_registry_credential_id app') [])\<rparr>), None)"
| "settings_step regs (app, p) (SSaveFailed e) =
     ((app, p\<lparr>sp_registrySaved := False,
         sp_error := Some (error_text e ''Could not update the registry credential.'')\<rparr>), None)"
| "settings_step regs (app, p) SDelete = ((app, p), Some (appsApi_remove (App_project_id app) (App_id app)))"
| "settings_step regs (app, p) (SDeleteFailed e) =
     ((app, p\<lparr>sp_error := Some (error_text e ''Could not delete the app.'')\<rparr>), None)"

section \<open>Domains\<close>

record domains_page =
  dp_domain :: string
  dp_lastVerify :: "VerifyDomainResult option"
  dp_error :: "string option"

definition domains_init :: "App \<Rightarrow> domains_page" where
  "domains_init app = \<lparr>dp_domain = or_default (App_custom_domain app) [], dp_lastVerify = None, dp_error = None\<rparr>"

definition domain_verified :: "App \<Rightarrow> bool" where
  "domain_verified app = (App_custom_domain_verified app = Some True)"

definition domain_unchanged :: "App \<Rightarrow> domains_page \<Rightarrow> bool" where
  "domain_unchanged app p = (trim (dp_domain p) = or_default (App_custom_domain app) [])"

text \<open>\<open>app.custom_domain && ...\<close>\<close>

definition has_domain :: "App \<Rightarrow> bool" where
  "has_domain app = (App_custom_domain app \<noteq> None \<and> App_custom_domain app \<noteq> Some [])"

definition offers_verify :: "App \<Rightarrow> bool" where
  "offers_verify app = (has_domain app \<and> \<not> domain_verified app)"

definition domain_footer :: "App \<Rightarrow> domains_page \<Rightarrow> string" where
  "domain_footer app p =
     (if domain_unchanged app p
      then (if domain_verified app then ''DNS confirmed''
            else if has_domain app then ''Awaiting verification'' else ''No domain set'')
      else ''Unsaved'')"

datatype domains_event =
    DType string | DSubmit | DVerify | DRemove | DSet App | DVerified VerifyDomainResult App | DRemoved App
  | DSetFailed failure | DVerifyFailed failure | DRemoveFailed failure

text \<open>The answered app is the prop after \<open>router.refresh()\<close>.\<close>

fun domains_step :: "App \<times> domains_page \<Rightarrow> domains_event \<Rightarrow> (App \<times> domains_page) \<times> endpoint option" where
  "domains_step (app, p) (DType s) = ((app, p\<lparr>dp_domain := s\<rparr>), None)"
| "domains_step (app, p) DSubmit =
     (if trim (dp_domain p) = [] then ((app, p\<lparr>dp_error := Some ''Enter a hostname.''\<rparr>), None)
      else ((app, p\<lparr>dp_error := None\<rparr>),
            if domain_unchanged app p then None else Some (appsApi_setDomain (App_id app) (trim (dp_domain p)))))"
| "domains_step (app, p) DVerify =
     (if offers_verify app then ((app, p\<lparr>dp_error := None\<rparr>), Some (appsApi_verifyDomain (App_id app)))
      else ((app, p), None))"
| "domains_step (app, p) DRemove = ((app, p), if has_domain app then Some (appsApi_removeDomain app) else None)"
| "domains_step (app, p) (DSet app') = ((app', p\<lparr>dp_lastVerify := None\<rparr>), None)"
| "domains_step (app, p) (DVerified v app') = ((app', p\<lparr>dp_lastVerify := Some v\<rparr>), None)"
| "domains_step (app, p) (DRemoved app') = ((app', p\<lparr>dp_domain := [], dp_lastVerify := None\<rparr>), None)"
| "domains_step (app, p) (DSetFailed e) = ((app, p\<lparr>dp_error := Some (error_text e ''Could not set domain.'')\<rparr>), None)"
| "domains_step (app, p) (DVerifyFailed e) =
     ((app, p\<lparr>dp_error := Some (error_text e ''Domain verification failed.'')\<rparr>), None)"
| "domains_step (app, p) (DRemoveFailed e) =
     ((app, p\<lparr>dp_error := Some (error_text e ''Could not remove domain.'')\<rparr>), None)"

text \<open>The rows of the DNS card: the host a record is for, where the CNAME points, and the addresses for A records.\<close>

record dns_card =
  dc_host :: string
  dc_cname :: string
  dc_copyable :: bool
  dc_addresses :: "string list"

definition dns_setup :: "App \<Rightarrow> domains_page \<Rightarrow> string option \<Rightarrow> string list \<Rightarrow> string list \<Rightarrow> dns_card" where
  "dns_setup app p platformDomain serverIps edgeIps =
     (let target = (case platformDomain of Some d \<Rightarrow> or_text d ''(deploy first to reveal target)''
                    | None \<Rightarrow> ''(deploy first to reveal target)'') in
      \<lparr>dc_host = or_text (trim (dp_domain p)) (or_text (or_default (App_custom_domain app) []) ''api.example.com''),
       dc_cname = target, dc_copyable = (\<not> startsWith target ''(''),
       dc_addresses = (if edgeIps \<noteq> [] then edgeIps else serverIps)\<rparr>)"

section \<open>What the API makes of the requests\<close>

lemma Update_needs_builder:
  assumes "go_str (the body) ''builder'' \<notin> set builders"
  shows "\<exists>e. AppHandler_Update uuid now body row = (row, Inl e)"
  using assms
  by (auto simp: AppHandler_Update_def Let_def app_service_Update_def UpdateApp_def checked_def app_row_ok_def stored_def
      split: option.splits)

lemma overview_body:
  "fa_body (call_args (overview_request app f)) = Some (JObj [
     (''name'', JStr (trim (of_name f))), (''port'', wire (JNum (num_or (Number (of_port f)) (Num 3000)))),
     (''health_check_path'', JStr (or_text (trim (of_healthPath f)) ''/'')),
     (''replicas'', wire (JNum (num_or (Number (of_replicas f)) (Num 1))))])"
  by (simp add: wire_body overview_request_def appsApi_update_def api_verbs UpdateAppInput_js_def js_field_defs)

text \<open>
  C28: Saving the overview page never succeeds, whatever is typed: the page sends only the name, the port, the
  health path and the replica count, the API replaces every column of the app with what it is sent, and the
  empty builder that results breaks the table's constraint. The API answers with an error and the app stays as
  it was.
\<close>

lemma overview_save_fails:
  "\<exists>e. AppHandler_Update uuid now (fa_body (call_args (overview_request app f))) row = (row, Inl e)"
proof (rule Update_needs_builder)
  show "go_str (the (fa_body (call_args (overview_request app f)))) ''builder'' \<notin> set builders"
    unfolding overview_body by (simp add: go_defs builders_def)
qed

text \<open>Within a page's lifetime the form sends only when there is something to save.\<close>

lemma overview_sends: "snd (overview_step app f e) = Some r \<Longrightarrow> r = overview_request app f \<and> trim (of_name f) \<noteq> [] \<and> overview_dirty app f"
  by (cases e) (auto split: if_splits)

definition int32 :: "int \<Rightarrow> bool" where
  "int32 n = (- (2 ^ 31) \<le> n \<and> n < 2 ^ 31)"

lemma scalar_ok_int [simp]: "scalar_ok uuid (GInt 32) (JNum (Num (of_int n))) \<longleftrightarrow> int32 n"
proof -
  have "- 2147483648 \<le> rat_of_int n \<longleftrightarrow> rat_of_int (- 2147483648) \<le> rat_of_int n" by simp
  then have "- 2147483648 \<le> rat_of_int n \<longleftrightarrow> - 2147483648 \<le> n" by (simp only: of_int_le_iff)
  then show ?thesis by (simp add: int32_def)
qed

text \<open>A row as the handlers leave it: the constraints hold, the numbers fit and the identifiers are UUIDs.\<close>

definition app_row_wf :: "(string \<Rightarrow> bool) \<Rightarrow> db_app \<Rightarrow> bool" where
  "app_row_wf uuid r =
     (app_row_ok r \<and> int32 (da_port r) \<and> int32 (da_replicas r) \<and>
      list_all (\<lambda>i. i \<noteq> [] \<and> uuid i) (da_pinned_server_ids r))"

lemma default_strategy_ok: "app_row_ok r \<Longrightarrow> defaultPlacementStrategy (da_placement_strategy r) = da_placement_strategy r"
  by (auto simp: app_row_ok_def defaultPlacementStrategy_def)

lemma removeDomain_body:
  "fa_body (call_args (appsApi_removeDomain (app_view r))) = Some (JObj [
     (''name'', JStr (da_name r)), (''branch'', jstr_null (da_branch r)), (''root_path'', JStr (da_root_path r)),
     (''auto_deploy'', JBool (da_auto_deploy r)), (''builder'', JStr (da_builder r)),
     (''dockerfile_path'', JStr (da_dockerfile_path r)), (''port'', jint (da_port r)),
     (''health_check_path'', JStr (da_health_check_path r)), (''replicas'', jint (da_replicas r)),
     (''custom_domain'', JNull), (''status'', JStr (da_status r)),
     (''placement_strategy'', JStr (da_placement_strategy r)),
     (''pinned_server_ids'', jstrs (da_pinned_server_ids r))])"
proof -
  have w: "wire (jstr_null b) = jstr_null b" "jstr_null b \<noteq> JUndefined" "wire (jint n) = jint n" "jint n \<noteq> JUndefined"
    "wire (jstrs ss) = jstrs ss" "jstrs ss \<noteq> JUndefined" for b n ss
    by (simp_all add: jstr_null_def jint_def jstrs_def comp_def split: option.split)
  show ?thesis by (simp add: wire_body appsApi_removeDomain_def api_verbs or_default_def w)
qed

lemma decodes_fields [simp]:
  "decodes ok GString (jstr_null so)" "decodes ok (GList GString) (jstrs ss)"
  "decodes (scalar_ok uuid) (GInt 32) (jint n) \<longleftrightarrow> int32 n"
  by (auto simp: jstr_null_def jstrs_def jint_def list_all_iff simp del: scalar_ok.simps split: option.split)

lemma go_values [simp]:
  "(case jstr_null so of JStr s \<Rightarrow> Some s | _ \<Rightarrow> None) = so"
  "(case jint n of JNum x \<Rightarrow> f x | _ \<Rightarrow> z) = f (Num (of_int n))"
  "(case jstrs ss of JArr vs \<Rightarrow> Some (map js_string vs) | _ \<Rightarrow> None) = Some ss"
  by (simp_all add: jstr_null_def jint_def jstrs_def comp_def split: option.split)

lemma parse_valid: "list_all (\<lambda>i. i \<noteq> [] \<and> uuid i) ids \<Longrightarrow> parseUUIDList uuid ids = Some ids"
  by (simp add: parseUUIDList_def Let_def list_all_iff filter_id_conv)

text \<open>
  Removing the custom domain through the domains page detaches it and keeps the app's name, branch, build
  and runtime settings, its placement and its pinned servers, but not everything: the platform sub-domain is
  dropped and the interval and timeout of the health check become zero. The verified flag stays as it was.
\<close>

lemma removeDomain_effect:
  assumes "app_row_wf uuid r"
  shows "AppHandler_Update uuid now (fa_body (call_args (appsApi_removeDomain (app_view r)))) (Some r) =
    (let r' = r\<lparr>da_custom_domain := None, da_subdomain := None, da_health_check_interval := 0,
                da_health_check_timeout := 0, da_updated_at := now\<rparr>
     in (Some r', Inr r'))"
proof -
  have d: "DecodeJSON uuid updateAppRequest (fa_body (call_args (appsApi_removeDomain (app_view r))))"
    using assms unfolding removeDomain_body
    by (simp add: DecodeJSON_def updateAppRequest_def go_field_def app_row_wf_def)
  have ok: "app_row_ok r" and pins: "parseUUIDList uuid (da_pinned_server_ids r) = Some (da_pinned_server_ids r)"
    using assms by (simp_all add: app_row_wf_def parse_valid)
  have ne: "da_status r \<noteq> []" "da_placement_strategy r \<noteq> []"
    using ok by (auto simp: app_row_ok_def)
  show ?thesis
    using d unfolding AppHandler_Update_def removeDomain_body
    by (simp add: go_defs Let_def ne pins app_service_Update_def UpdateApp_def default_strategy_ok [OF ok] checked_def stored_def)
      (use ok in \<open>simp add: app_row_ok_def\<close>)
qed

definition sample_row :: db_app where
  "sample_row = \<lparr>da_id = ''a1'', da_project_id = ''p1'', da_name = ''api'', da_slug = ''api'', da_source_type = ''github'',
     da_github_installation_id = None, da_repo_full_name = Some ''acme/api'', da_branch = Some ''main'', da_root_path = ''/'',
     da_auto_deploy = True, da_docker_image = None, da_registry_credential_id = None, da_builder = ''auto'',
     da_dockerfile_path = ''Dockerfile'', da_port = 3000, da_health_check_path = ''/'', da_health_check_interval = 5,
     da_health_check_timeout = 60, da_replicas = 2, da_subdomain = Some ''api'', da_custom_domain = Some ''api.example.com'',
     da_domain_verified = False, da_status = ''active'', da_created_at = ''t0'', da_updated_at = ''t0'',
     da_memory_limit_mb = 0, da_cpu_limit_millicores = 0, da_placement_strategy = ''spread'',
     da_placement_constraints = \<lparr>PlacementConstraints_must_have = [], PlacementConstraints_must_not_have = []\<rparr>,
     da_pinned_server_ids = [''s1'']\<rparr>"

lemma sample_row_wf: "app_row_wf (\<lambda>_. True) sample_row"
  by (simp add: app_row_wf_def app_row_ok_def sample_row_def builders_def int32_def)

lemma removeDomain_effect_witness:
  "\<exists>r'. AppHandler_Update (\<lambda>_. True) ''t1'' (fa_body (call_args (appsApi_removeDomain (app_view sample_row)))) (Some sample_row) =
      (Some r', Inr r') \<and> da_subdomain r' = None \<and> da_health_check_interval r' = 0 \<and> da_name r' = ''api''"
  using removeDomain_effect [OF sample_row_wf, of "''t1''"] by (simp add: Let_def) (simp add: sample_row_def)

lemma setDomain_effect:
  assumes "app_row_ok r" and "d \<noteq> []"
  shows "AppHandler_SetDomain uuid now (fa_body (call_args (appsApi_setDomain i d))) (Some r) =
    (let r' = r\<lparr>da_custom_domain := Some d, da_domain_verified := False, da_updated_at := now\<rparr> in (Some r', Inr r'))"
proof -
  have b: "fa_body (call_args (appsApi_setDomain i d)) = Some (JObj [(''custom_domain'', JStr d)])"
    by (simp add: wire_body appsApi_setDomain_def api_verbs)
  show ?thesis
    unfolding b AppHandler_SetDomain_def
    using assms
    by (simp add: DecodeJSON_def setDomainRequest_def go_field_def go_defs Let_def app_service_Update_def UpdateApp_def
        default_strategy_ok checked_def stored_def)
      (simp add: app_row_ok_def)
qed

lemma VerifyDomain_row:
  assumes "AppHandler_VerifyDomain lookup now (Some r) = (row, Inr (d, v, t))"
  shows "da_custom_domain r = Some d \<and> d \<noteq> [] \<and>
    row = Some (if v then r\<lparr>da_domain_verified := True, da_updated_at := now\<rparr> else r)"
  using assms by (auto simp: AppHandler_VerifyDomain_def Let_def split: option.splits if_splits)

text \<open>
  A custom domain is never shown as verified. Attaching a host name changes nothing of the app but the
  domain, which starts unverified; when the DNS check then succeeds the API records it as verified, but the
  page reads a member of another name, so the app it refreshes to is still unverified and the page keeps
  offering the check.
\<close>

lemma domain_never_verified:
  assumes "app_row_ok r" and "trim host \<noteq> []" and "trim host \<noteq> or_default (da_custom_domain r) []"
    and "AppHandler_VerifyDomain lookup t2 (fst (AppHandler_SetDomain uuid t1 (fa_body (call_args ep)) (Some r))) =
      (Some r', Inr (d, True, target))"
    and "snd (domains_step (app_view r, (domains_init (app_view r))\<lparr>dp_domain := host\<rparr>) DSubmit) = Some ep"
  shows "d = trim host \<and> r' = r\<lparr>da_custom_domain := Some (trim host), da_domain_verified := True, da_updated_at := t2\<rparr> \<and>
    \<not> domain_verified (app_view r') \<and> offers_verify (app_view r') \<and>
    domain_footer (app_view r') (domains_init (app_view r')) = ''Awaiting verification''"
proof -
  have ep: "ep = appsApi_setDomain (da_id r) (trim host)"
    using assms(2,3,5) by (simp add: domains_init_def domain_unchanged_def)
  let ?r1 = "r\<lparr>da_custom_domain := Some (trim host), da_domain_verified := False, da_updated_at := t1\<rparr>"
  have "fst (AppHandler_SetDomain uuid t1 (fa_body (call_args ep)) (Some r)) = Some ?r1"
    unfolding ep using setDomain_effect [OF assms(1,2)] by (simp add: Let_def)
  with assms(4) have "AppHandler_VerifyDomain lookup t2 (Some ?r1) = (Some r', Inr (d, True, target))" by simp
  from VerifyDomain_row [OF this] have "d = trim host" and "r' = ?r1\<lparr>da_domain_verified := True, da_updated_at := t2\<rparr>"
    by auto
  then show ?thesis
    using assms(2)
    by (simp add: domain_verified_def offers_verify_def has_domain_def domain_footer_def domain_unchanged_def domains_init_def or_default_def)
qed

lemma domain_never_verified_witness:
  "let dns = (\<lambda>_. \<lparr>dns_cname = None, dns_addresses = [''10.0.0.1'']\<rparr>);
       r1 = sample_row\<lparr>da_custom_domain := Some ''www.example.com'', da_domain_verified := True, da_updated_at := ''t2''\<rparr>
   in \<not> domain_verified (app_view r1) \<and> offers_verify (app_view r1)"
proof -
  let ?dns = "\<lambda>_. \<lparr>dns_cname = None, dns_addresses = [''10.0.0.1'']\<rparr>"
  have ok: "app_row_ok sample_row" using sample_row_wf by (simp add: app_row_wf_def)
  have t: "trim ''www.example.com'' = ''www.example.com''" by code_simp
  have c: "da_custom_domain sample_row = Some ''api.example.com''" "da_id sample_row = ''a1''" by (simp_all add: sample_row_def)
  let ?ep = "appsApi_setDomain ''a1'' ''www.example.com''"
  have S: "snd (domains_step (app_view sample_row, (domains_init (app_view sample_row))\<lparr>dp_domain := ''www.example.com''\<rparr>) DSubmit) = Some ?ep"
    by (simp add: domains_init_def domain_unchanged_def t c or_default_def)
  have V: "AppHandler_VerifyDomain ?dns ''t2''
      (fst (AppHandler_SetDomain (\<lambda>_. True) ''t1'' (fa_body (call_args ?ep)) (Some sample_row))) =
      (Some (sample_row\<lparr>da_custom_domain := Some ''www.example.com'', da_domain_verified := True, da_updated_at := ''t2''\<rparr>),
       Inr (''www.example.com'', True, ''10.0.0.1''))"
    using setDomain_effect [OF ok, of "''www.example.com''" "\<lambda>_. True" "''t1''" "''a1''"]
    by (simp add: Let_def AppHandler_VerifyDomain_def or_default_def)
  have "trim ''www.example.com'' \<noteq> []" "trim ''www.example.com'' \<noteq> or_default (da_custom_domain sample_row) []"
    by (simp_all add: t c or_default_def)
  from domain_never_verified [OF ok this V S] show ?thesis unfolding Let_def by blast
qed

text \<open>
  C39: Container limits survive the round trip: saving whole numbers of millicores and mebibytes stores exactly
  those, and the form that is opened on the stored app shows them again, with nothing left to save.
\<close>

lemma resources_roundtrip:
  assumes "int32 c" and "int32 m"
  shows "\<exists>r'. AppHandler_UpdateResources uuid now
      (fa_body (call_args (resources_request app \<lparr>rf_cpu = show_int c, rf_memory = show_int m, rf_error = e\<rparr>))) (Some r) =
      (Some r', Inr r') \<and> da_cpu_limit_millicores r' = c \<and> da_memory_limit_mb r' = m \<and>
    resources_init (app_view r') = \<lparr>rf_cpu = show_int c, rf_memory = show_int m, rf_error = None\<rparr> \<and>
    \<not> resources_dirty (app_view r') (resources_init (app_view r'))"
proof -
  have b: "fa_body (call_args (resources_request app \<lparr>rf_cpu = show_int c, rf_memory = show_int m, rf_error = e\<rparr>)) =
      Some (JObj [(''memory_limit_mb'', jint m), (''cpu_limit_millicores'', jint c)])"
    by (simp add: wire_body resources_request_def appsApi_updateResources_def api_verbs UpdateResourcesInput_js_def
        or_zero_def jint_def)
  show ?thesis
    unfolding b AppHandler_UpdateResources_def using assms
    by (simp add: DecodeJSON_def updateResourcesRequest_def go_field_def go_defs stored_def resources_init_def
        resources_dirty_def initialCpu_def initialMem_def)
qed

lemma resources_roundtrip_witness:
  "\<exists>r'. AppHandler_UpdateResources (\<lambda>_. True) ''t1''
      (fa_body (call_args (resources_request (app_view sample_row) \<lparr>rf_cpu = show_int 500, rf_memory = show_int 256, rf_error = None\<rparr>)))
      (Some sample_row) = (Some r', Inr r') \<and> da_cpu_limit_millicores r' = 500"
proof -
  have "int32 500" "int32 256" by (simp_all add: int32_def)
  from resources_roundtrip [OF this] show ?thesis by blast
qed

end
