(* ===== verification/App_Create.thy ===== *)
theory App_Create
  imports App_Pages Widgets
begin

text \<open>
  The dialog that creates an app (\<open>components/apps/CreateAppDialog.tsx\<close>): the choice of source, the GitHub
  account and repository pickers with their manual fallback, the debounced Docker Hub search, and the request it
  sends, taken through the API's \<open>Create\<close> handler.
\<close>

section \<open>The dialog\<close>

datatype Source = Github | DockerImage

fun source_str :: "Source \<Rightarrow> string" where
  "source_str Github = ''github''"
| "source_str DockerImage = ''docker_image''"

text \<open>
  \<open>ca_installations\<close> is \<open>installationsQ.data ?? []\<close>, \<open>ca_loading\<close> its first load, \<open>ca_repos\<close> is \<open>reposQ.data ?? []\<close>.
  \<open>ca_timer\<close> is the query of the pending debounce timer, \<open>ca_searches\<close> the searches in flight.
\<close>

record create_app =
  ca_open :: bool
  ca_source :: Source
  ca_name :: string
  ca_port :: string
  ca_replicas :: string
  ca_health :: string
  ca_repo :: string
  ca_branch :: string
  ca_installationId :: string
  ca_repoManual :: bool
  ca_image :: string
  ca_tag :: string
  ca_imageManual :: bool
  ca_error :: "string option"
  ca_installations :: "GithubInstallation list"
  ca_loading :: bool
  ca_repos :: "GithubRepo list"
  ca_results :: "combobox_item list"
  ca_dockerLoading :: bool
  ca_timer :: "string option"
  ca_searches :: "string list"

definition create_app_reset :: "create_app \<Rightarrow> create_app" where
  "create_app_reset d = d\<lparr>ca_source := Github, ca_name := [], ca_port := ''3000'', ca_replicas := ''1'', ca_health := ''/'',
     ca_repo := [], ca_branch := ''main'', ca_installationId := [], ca_repoManual := False, ca_image := [],
     ca_tag := ''latest'', ca_imageManual := False, ca_results := [], ca_dockerLoading := False, ca_error := None\<rparr>"

definition create_app_init :: create_app where
  "create_app_init = \<lparr>ca_open = False, ca_source = Github, ca_name = [], ca_port = ''3000'', ca_replicas = ''1'',
     ca_health = ''/'', ca_repo = [], ca_branch = ''main'', ca_installationId = [], ca_repoManual = False, ca_image = [],
     ca_tag = ''latest'', ca_imageManual = False, ca_error = None, ca_installations = [], ca_loading = False,
     ca_repos = [], ca_results = [], ca_dockerLoading = False, ca_timer = None, ca_searches = []\<rparr>"

abbreviation installation_ids :: "create_app \<Rightarrow> string list" where
  "installation_ids d \<equiv> map GithubInstallation_id (ca_installations d)"

text \<open>The effect that keeps the selected account one of the listed ones.\<close>

definition select_installation :: "create_app \<Rightarrow> create_app" where
  "select_installation d =
     (if ca_installations d = [] \<or> ca_installationId d \<in> set (installation_ids d) then d
      else d\<lparr>ca_installationId := GithubInstallation_id (hd (ca_installations d))\<rparr>)"

definition hasInstalls :: "create_app \<Rightarrow> bool" where
  "hasInstalls d = (ca_installations d \<noteq> [])"

definition dockerImage :: "create_app \<Rightarrow> string" where
  "dockerImage d =
     (if ca_imageManual d then trim (ca_image d)
      else if trim (ca_image d) \<noteq> [] then trim (ca_image d) @ '':'' @ trim (or_text (ca_tag d) ''latest'') else [])"

definition create_app_request :: "string \<Rightarrow> create_app \<Rightarrow> endpoint" where
  "create_app_request projectId d = appsApi_create projectId
     \<lparr>CreateAppInput_name = trim (ca_name d), CreateAppInput_source_type = source_str (ca_source d),
      CreateAppInput_github_installation_id =
        (if ca_source d = Github \<and> \<not> ca_repoManual d then text_opt (ca_installationId d) else None),
      CreateAppInput_repo_full_name = (if ca_source d = Github then Some (trim (ca_repo d)) else None),
      CreateAppInput_branch = (if ca_source d = Github then text_opt (trim (ca_branch d)) else None),
      CreateAppInput_docker_image = (if ca_source d = DockerImage then Some (dockerImage d) else None),
      CreateAppInput_registry_credential_id = None, CreateAppInput_root_path = Some ''/'',
      CreateAppInput_builder = Some ''auto'', CreateAppInput_dockerfile_path = None,
      CreateAppInput_auto_deploy = Some (ca_source d = Github),
      CreateAppInput_port = Some (num_or (Number (ca_port d)) (Num 3000)),
      CreateAppInput_health_check_path = Some (or_text (trim (ca_health d)) ''/''),
      CreateAppInput_health_check_interval = None, CreateAppInput_health_check_timeout = None,
      CreateAppInput_replicas = Some (num_or (Number (ca_replicas d)) (Num 1)),
      CreateAppInput_subdomain = None, CreateAppInput_placement_strategy = None,
      CreateAppInput_pinned_server_ids = None\<rparr>"

definition create_app_complaint :: "create_app \<Rightarrow> string option" where
  "create_app_complaint d =
     (if trim (ca_name d) = [] then Some ''App name is required.''
      else if ca_source d = Github \<and> trim (ca_repo d) = [] then Some ''GitHub repository is required (e.g. owner/name).''
      else if ca_source d = DockerImage \<and> trim (ca_image d) = [] then Some ''Docker image is required.''
      else None)"

definition docker_item :: "DockerHubImage \<Rightarrow> combobox_item" where
  "docker_item img = \<lparr>ci_value = DockerHubImage_name img, ci_label = DockerHubImage_name img,
     ci_hint = (if DockerHubImage_is_official img
                then Some (if DockerHubImage_description img = [] then ''official''
                           else ''official '' @ [CHR 0xB7] @ '' '' @ DockerHubImage_description img)
                else text_opt (DockerHubImage_description img))\<rparr>"

definition searchDocker :: "string \<Rightarrow> create_app \<Rightarrow> create_app" where
  "searchDocker q d =
     (if trim q = [] then d\<lparr>ca_timer := None, ca_results := [], ca_dockerLoading := False\<rparr>
      else d\<lparr>ca_timer := Some q, ca_dockerLoading := True\<rparr>)"

definition search_done :: "string \<Rightarrow> DockerHubImage list option \<Rightarrow> create_app \<Rightarrow> create_app" where
  "search_done q res d =
     (if q \<in> set (ca_searches d)
      then d\<lparr>ca_searches := remove1 q (ca_searches d), ca_dockerLoading := False,
             ca_results := (case res of Some imgs \<Rightarrow> map docker_item imgs | None \<Rightarrow> [])\<rparr>
      else d)"

definition pick_repo :: "string \<Rightarrow> create_app \<Rightarrow> create_app" where
  "pick_repo v d =
     (let d' = d\<lparr>ca_repo := v\<rparr> in
      case find (\<lambda>r. GithubRepo_full_name r = v) (ca_repos d) of
        Some r \<Rightarrow> if GithubRepo_default_branch r = [] then d' else d'\<lparr>ca_branch := GithubRepo_default_branch r\<rparr>
      | None \<Rightarrow> d')"

datatype create_app_event =
    AOpenChange bool
  | ASource Source
  | AName string | APort string | AReplicas string | AHealth string | ABranch string
  | AInstallations "GithubInstallation list"
  | ALoading bool
  | ARepos "GithubRepo list"
  | AAccount string
  | APickRepo string
  | ATypeRepo string
  | AToggleRepo
  | AImage string
  | ATypeImage string
  | ATag string
  | AToggleImage
  | ASearch string
  | ATimer
  | AFound string "DockerHubImage list option"
  | ASubmit
  | ACreated App
  | AFailed failure

text \<open>
  The handlers; each control acts only while it is on screen. The effect above runs after every change. A step
  may send a request: the new app, or a Docker Hub search.
\<close>

fun create_app_event_state :: "string \<Rightarrow> create_app \<Rightarrow> create_app_event \<Rightarrow> create_app \<times> endpoint option" where
  "create_app_event_state p d (AOpenChange v) = ((let d' = d\<lparr>ca_open := v\<rparr> in if v then d' else create_app_reset d'), None)"
| "create_app_event_state p d (ASource s) = (d\<lparr>ca_source := s\<rparr>, None)"
| "create_app_event_state p d (AName s) = (d\<lparr>ca_name := s\<rparr>, None)"
| "create_app_event_state p d (APort s) = (d\<lparr>ca_port := s\<rparr>, None)"
| "create_app_event_state p d (AReplicas s) = (d\<lparr>ca_replicas := s\<rparr>, None)"
| "create_app_event_state p d (AHealth s) = (d\<lparr>ca_health := s\<rparr>, None)"
| "create_app_event_state p d (ABranch s) = (d\<lparr>ca_branch := s\<rparr>, None)"
| "create_app_event_state p d (AInstallations is) = (d\<lparr>ca_installations := is, ca_loading := False\<rparr>, None)"
| "create_app_event_state p d (ALoading b) = (d\<lparr>ca_loading := b\<rparr>, None)"
| "create_app_event_state p d (ARepos rs) = (d\<lparr>ca_repos := rs\<rparr>, None)"
| "create_app_event_state p d (AAccount i) =
     ((if hasInstalls d \<and> \<not> ca_repoManual d \<and> i \<in> set (installation_ids d)
       then d\<lparr>ca_installationId := i, ca_repo := []\<rparr> else d), None)"
| "create_app_event_state p d (APickRepo v) =
     ((if hasInstalls d \<and> \<not> ca_repoManual d \<and> v \<in> GithubRepo_full_name ` set (ca_repos d) then pick_repo v d else d), None)"
| "create_app_event_state p d (ATypeRepo s) =
     ((if (hasInstalls d \<longrightarrow> ca_repoManual d) \<and> (ca_loading d \<longrightarrow> ca_repoManual d) then d\<lparr>ca_repo := s\<rparr> else d), None)"
| "create_app_event_state p d AToggleRepo =
     ((if hasInstalls d then d\<lparr>ca_repoManual := \<not> ca_repoManual d, ca_repo := []\<rparr> else d), None)"
| "create_app_event_state p d (AImage v) =
     ((if \<not> ca_imageManual d \<and> v \<in> ci_value ` set (ca_results d) then d\<lparr>ca_image := v, ca_tag := ''latest''\<rparr> else d), None)"
| "create_app_event_state p d (ATypeImage s) = ((if ca_imageManual d then d\<lparr>ca_image := s\<rparr> else d), None)"
| "create_app_event_state p d (ATag t) = ((if \<not> ca_imageManual d \<and> ca_image d \<noteq> [] then d\<lparr>ca_tag := t\<rparr> else d), None)"
| "create_app_event_state p d AToggleImage =
     (d\<lparr>ca_imageManual := \<not> ca_imageManual d, ca_image := [], ca_tag := ''latest''\<rparr>, None)"
| "create_app_event_state p d (ASearch q) = (searchDocker q d, None)"
| "create_app_event_state p d ATimer =
     (case ca_timer d of
        None \<Rightarrow> (d, None)
      | Some q \<Rightarrow> (d\<lparr>ca_timer := None, ca_searches := ca_searches d @ [q]\<rparr>, Some (dockerHubApi_search (trim q))))"
| "create_app_event_state p d (AFound q res) = (search_done q res d, None)"
| "create_app_event_state p d ASubmit =
     (case create_app_complaint d of
        Some msg \<Rightarrow> (d\<lparr>ca_error := Some msg\<rparr>, None)
      | None \<Rightarrow> (d\<lparr>ca_error := None\<rparr>, Some (create_app_request p d)))"
| "create_app_event_state p d (ACreated a) = (create_app_reset (d\<lparr>ca_open := False\<rparr>), None)"
| "create_app_event_state p d (AFailed e) = (d\<lparr>ca_error := Some (error_text e ''Could not create the app.'')\<rparr>, None)"

definition create_app_step :: "string \<Rightarrow> create_app \<Rightarrow> create_app_event \<Rightarrow> create_app \<times> endpoint option" where
  "create_app_step p d e = (select_installation (fst (create_app_event_state p d e)), snd (create_app_event_state p d e))"

section \<open>What the dialog sends\<close>

definition create_app_ok :: "create_app \<Rightarrow> bool" where
  "create_app_ok d = (hasInstalls d \<longrightarrow> ca_installationId d \<in> set (installation_ids d))"

definition create_app_guard :: "string \<Rightarrow> create_app \<Rightarrow> endpoint \<Rightarrow> bool" where
  "create_app_guard p d ep =
     ((\<exists>q. ca_timer d = Some q \<and> ep = dockerHubApi_search (trim q)) \<or>
      (ep = create_app_request p d \<and> create_app_complaint d = None))"

lemma select_installation_ok: "create_app_ok (select_installation d)"
  by (auto simp: create_app_ok_def select_installation_def hasInstalls_def)

interpretation create_run: request_machine "create_app_step p" create_app_ok "create_app_guard p"
proof
  fix d e r
  show "create_app_ok (fst (create_app_step p d e))"
    by (simp add: create_app_step_def select_installation_ok)
  show "snd (create_app_step p d e) = Some r \<Longrightarrow> create_app_guard p d r"
    by (cases e) (auto simp: create_app_step_def create_app_guard_def Let_def split: option.splits if_splits)
qed

lemma create_members:
  "distinct (map fst (case CreateAppInput_js i of JObj kvs \<Rightarrow> kvs | _ \<Rightarrow> []))"
  "list_all (\<lambda>e. toLowerCase (fst e) = fst e) (case CreateAppInput_js i of JObj kvs \<Rightarrow> kvs | _ \<Rightarrow> [])"
proof -
  have "toLowerCase k = k" if "k \<in> set [''name'', ''source_type'', ''github_installation_id'', ''repo_full_name'', ''branch'',
      ''docker_image'', ''registry_credential_id'', ''root_path'', ''builder'', ''dockerfile_path'', ''auto_deploy'', ''port'',
      ''health_check_path'', ''health_check_interval'', ''health_check_timeout'', ''replicas'', ''subdomain'',
      ''placement_strategy'', ''pinned_server_ids'']" for k
    using that by (simp only: set_simps insert_iff empty_iff) (elim disjE; simp)
  then show "list_all (\<lambda>e. toLowerCase (fst e) = fst e) (case CreateAppInput_js i of JObj kvs \<Rightarrow> kvs | _ \<Rightarrow> [])"
    by (simp add: CreateAppInput_js_def)
qed (simp add: CreateAppInput_js_def)

lemma create_member:
  assumes "toLowerCase k = k" and "CreateAppInput_js i = JObj kvs"
  shows "go_member (wire (CreateAppInput_js i)) k = (case map_of kvs k of Some v \<Rightarrow> wire v | None \<Rightarrow> JNull)"
  using go_member_wire [OF _ _ assms(1), of kvs] create_members [of i] assms(2) by simp

text \<open>The members of a sent body, as the handler reads them.\<close>

definition create_value :: "CreateAppInput \<Rightarrow> string \<Rightarrow> js" where
  "create_value i k =
     (case CreateAppInput_js i of JObj kvs \<Rightarrow> (case map_of kvs k of Some v \<Rightarrow> wire v | None \<Rightarrow> JNull) | _ \<Rightarrow> JNull)"

lemma create_value_member: "toLowerCase k = k \<Longrightarrow> go_member (wire (CreateAppInput_js i)) k = create_value i k"
  using create_member [of k i] by (simp add: create_value_def CreateAppInput_js_def)

lemma create_values:
  "create_value i ''name'' = JStr (CreateAppInput_name i)" "create_value i ''source_type'' = JStr (CreateAppInput_source_type i)"
  "create_value i ''github_installation_id'' = jstr_null (CreateAppInput_github_installation_id i)"
  "create_value i ''repo_full_name'' = jstr_null (CreateAppInput_repo_full_name i)"
  "create_value i ''branch'' = jstr_null (CreateAppInput_branch i)"
  "create_value i ''docker_image'' = jstr_null (CreateAppInput_docker_image i)"
  "create_value i ''registry_credential_id'' = jstr_null (CreateAppInput_registry_credential_id i)"
  "create_value i ''root_path'' = jstr_null (CreateAppInput_root_path i)"
  "create_value i ''builder'' = jstr_null (CreateAppInput_builder i)"
  "create_value i ''dockerfile_path'' = jstr_null (CreateAppInput_dockerfile_path i)"
  "create_value i ''auto_deploy'' = (case CreateAppInput_auto_deploy i of Some b \<Rightarrow> JBool b | None \<Rightarrow> JNull)"
  "create_value i ''port'' = (case CreateAppInput_port i of Some x \<Rightarrow> wire (JNum x) | None \<Rightarrow> JNull)"
  "create_value i ''health_check_path'' = jstr_null (CreateAppInput_health_check_path i)"
  "create_value i ''health_check_interval'' = (case CreateAppInput_health_check_interval i of Some n \<Rightarrow> jint n | None \<Rightarrow> JNull)"
  "create_value i ''health_check_timeout'' = (case CreateAppInput_health_check_timeout i of Some n \<Rightarrow> jint n | None \<Rightarrow> JNull)"
  "create_value i ''replicas'' = (case CreateAppInput_replicas i of Some x \<Rightarrow> wire (JNum x) | None \<Rightarrow> JNull)"
  "create_value i ''subdomain'' = jstr_null (CreateAppInput_subdomain i)"
  "create_value i ''placement_strategy'' = jstr_null (CreateAppInput_placement_strategy i)"
  "create_value i ''placement_constraints'' = JNull"
  "create_value i ''pinned_server_ids'' = (case CreateAppInput_pinned_server_ids i of Some ss \<Rightarrow> jstrs ss | None \<Rightarrow> JNull)"
  by (simp_all add: create_value_def CreateAppInput_js_def js_field_defs comp_def split: option.split)

text \<open>The two numbers of the form, when they are whole.\<close>

definition whole32 :: "jsnum \<Rightarrow> bool" where
  "whole32 x = (\<exists>n. x = Num (of_int n) \<and> int32 n)"

lemma create_decodes:
  assumes "whole32 (num_or (Number (ca_port d)) (Num 3000))" and "whole32 (num_or (Number (ca_replicas d)) (Num 1))"
  shows "DecodeJSON uuid createAppRequest (fa_body (call_args (create_app_request p d)))"
proof -
  obtain n m where nm: "num_or (Number (ca_port d)) (Num 3000) = Num (of_int n)" "int32 n"
    "num_or (Number (ca_replicas d)) (Num 1) = Num (of_int m)" "int32 m"
    using assms by (auto simp: whole32_def)
  have so: "decodes (scalar_ok uuid) GString (wire (jstr_opt x))" for x
    by (simp add: jstr_opt_def split: option.split)
  have i: "decodes (scalar_ok uuid) (GInt 32) (wire (JNum (Num (of_int k)))) \<longleftrightarrow> int32 k" for k
    by (simp del: scalar_ok.simps)
  show ?thesis
    unfolding create_app_request_def appsApi_create_def api_verbs wire_body CreateAppInput_js_def
    by (simp add: DecodeJSON_def createAppRequest_def decodes_members so i nm go_field_def jint_opt_def jbool_opt_def jstrs_opt_def
        del: wire.simps(2,4) decodes.simps(9) scalar_ok.simps)
qed

lemma create_body: "fa_body (call_args (appsApi_create p i)) = Some (wire (CreateAppInput_js i))"
  by (simp add: wire_body appsApi_create_def api_verbs CreateAppInput_js_def)

lemma create_request_emitted:
  assumes "(d, create_app_request p d) \<in> set (emitted (create_app_step p) create_app_init es)"
  shows "create_app_ok d \<and> create_app_complaint d = None"
proof -
  have "create_app_ok create_app_init" by (simp add: create_app_ok_def create_app_init_def hasInstalls_def)
  from create_run.emitted_guarded [OF this assms] show ?thesis
    by (auto simp: create_app_guard_def create_app_request_def appsApi_create_def dockerHubApi_search_def api_verbs)
qed


definition sample_dialog :: create_app where
  "sample_dialog = create_app_init\<lparr>ca_open := True, ca_name := ''api'', ca_repo := ''acme/api''\<rparr>"

text \<open>While no account is listed the effect does nothing; the events of a short run, one at a time.\<close>

lemma step_no_account:
  "ca_installations (fst (create_app_event_state p d e)) = [] \<Longrightarrow> create_app_step p d e = create_app_event_state p d e"
  by (simp add: create_app_step_def select_installation_def)

lemma init_fields:
  "ca_installations create_app_init = []" "\<not> ca_loading create_app_init" "ca_source create_app_init = Github"
  "ca_error create_app_init = None"
  by (simp_all add: create_app_init_def)

lemma sample_steps:
  "create_app_step p create_app_init (AOpenChange True) = (create_app_init\<lparr>ca_open := True\<rparr>, None)"
  "create_app_step p (create_app_init\<lparr>ca_open := True\<rparr>) (AName n) = (create_app_init\<lparr>ca_open := True, ca_name := n\<rparr>, None)"
  "create_app_step p (create_app_init\<lparr>ca_open := True, ca_name := n\<rparr>) (ATypeRepo r) =
     (create_app_init\<lparr>ca_open := True, ca_name := n, ca_repo := r\<rparr>, None)"
  by (subst step_no_account; simp add: init_fields hasInstalls_def)+

lemma sample_complaint: "create_app_complaint sample_dialog = None"
proof -
  have "trim ''api'' = ''api''" "trim ''acme/api'' = ''acme/api''" by code_simp+
  then show ?thesis by (simp add: create_app_complaint_def sample_dialog_def init_fields)
qed

lemma sample_dialog_sends:
  "(sample_dialog, create_app_request ''p1'' sample_dialog) \<in>
     set (emitted (create_app_step ''p1'') create_app_init [AOpenChange True, AName ''api'', ATypeRepo ''acme/api'', ASubmit])"
proof -
  have "snd (create_app_step ''p1'' sample_dialog ASubmit) = Some (create_app_request ''p1'' sample_dialog)"
    by (simp add: create_app_step_def sample_complaint)
  then show ?thesis
    by (simp only: emitted.simps sample_steps fst_conv snd_conv option.case append_Nil flip: sample_dialog_def) simp
qed

definition sample_tables :: app_tables where
  "sample_tables = \<lparr>at_projects = [''p1''], at_installations = [''i1''], at_credentials = [], at_apps = []\<rparr>"


text \<open>
  The account selector never points at an account that is not connected: while any GitHub installation is
  listed, the selected one is among them, through every refresh; a request made with the repository picker
  names a listed installation, and one made with a typed repository names none.
\<close>

lemma create_app_installation:
  assumes "(d, create_app_request p d) \<in> set (emitted (create_app_step p) create_app_init es)"
    and "ca_source d = Github" and "hasInstalls d"
  shows "\<exists>inp. create_app_request p d = appsApi_create p inp \<and>
    CreateAppInput_github_installation_id inp = (if ca_repoManual d then None else text_opt (ca_installationId d)) \<and>
    ca_installationId d \<in> set (installation_ids d)"
  using create_request_emitted [OF assms(1)] assms(2,3)
  unfolding create_app_request_def create_app_ok_def by (intro exI conjI) auto

text \<open>
  A repository that was picked from one account can be sent under another: when the account disappears from
  the list after the choice, the effect moves to the first listed account without clearing the repository, and
  the request pairs the two.
\<close>

lemma stale_repository:
  assumes "ca_installationId d = a" and "a \<in> set (installation_ids d)" and "\<not> ca_repoManual d"
    and "ca_source d = Github" and "create_app_complaint d = None"
    and "i \<noteq> []" and "a \<notin> set (map GithubInstallation_id i)"
  shows "\<exists>d'. emitted (create_app_step p) d [AInstallations i, ASubmit] = [(d', create_app_request p d')] \<and>
    ca_installationId d' = GithubInstallation_id (hd i) \<and> ca_installationId d' \<noteq> a \<and> ca_repo d' = ca_repo d"
proof -
  let ?d = "d\<lparr>ca_installations := i, ca_loading := False, ca_installationId := GithubInstallation_id (hd i)\<rparr>"
  have 1: "create_app_step p d (AInstallations i) = (?d, None)"
    using assms by (auto simp: create_app_step_def select_installation_def)
  have "create_app_complaint ?d = None" using assms(5) by (simp add: create_app_complaint_def split: if_splits)
  then have 2: "snd (create_app_step p ?d ASubmit) = Some (create_app_request p ?d)"
    by (simp add: create_app_step_def)
  have "GithubInstallation_id (hd i) \<noteq> a" using assms(6,7) by (cases i) auto
  with 1 2 show ?thesis by simp
qed

definition sample_installation :: "string \<Rightarrow> GithubInstallation" where
  "sample_installation i = \<lparr>GithubInstallation_id = i, GithubInstallation_github_app_id = ''g1'', GithubInstallation_installation_id = 7,
     GithubInstallation_account_login = ''acme'', GithubInstallation_account_type = ''Organization'',
     GithubInstallation_target_type = ''Organization'', GithubInstallation_suspended_at = None,
     GithubInstallation_created_at = [], GithubInstallation_updated_at = []\<rparr>"

lemma stale_repository_witness:
  "let d = sample_dialog\<lparr>ca_installations := [sample_installation ''i1''], ca_installationId := ''i1''\<rparr> in
   \<exists>d'. emitted (create_app_step ''p1'') d [AInstallations [sample_installation ''i2''], ASubmit] =
      [(d', create_app_request ''p1'' d')] \<and>
    ca_installationId d' = ''i2'' \<and> ca_installationId d' \<noteq> ''i1'' \<and> ca_repo d' = ''acme/api''"
proof -
  let ?d = "sample_dialog\<lparr>ca_installations := [sample_installation ''i1''], ca_installationId := ''i1''\<rparr>"
  have "create_app_complaint ?d = None" using sample_complaint by (simp add: create_app_complaint_def split: if_splits)
  then show ?thesis
    using stale_repository [of ?d "''i1''" "[sample_installation ''i2'']" "''p1''"]
    by (simp add: sample_installation_def sample_dialog_def init_fields Let_def create_app_init_def)
qed

text \<open>
  Clearing the Docker Hub search box does not cancel a search that is in flight: its answer fills the list
  under the empty box.
\<close>

lemma select_installation_search [simp]:
  "ca_results (select_installation d) = ca_results d" "ca_searches (select_installation d) = ca_searches d"
  "ca_timer (select_installation d) = ca_timer d"
  by (simp_all add: select_installation_def)

lemma search_race:
  assumes "q \<in> set (ca_searches d)"
  shows "ca_results (after (create_app_step p) d [ASearch [], AFound q (Some imgs)]) = map docker_item imgs"
proof -
  have "q \<in> set (ca_searches (fst (create_app_step p d (ASearch []))))"
    using assms by (simp add: create_app_step_def searchDocker_def)
  then show ?thesis by (simp add: create_app_step_def [of p _ "AFound _ _"] search_done_def)
qed

end
