(* ===== verification/Palette.thy ===== *)
theory Palette
  imports Model_Types Http_Client Machines
begin

text \<open>
  The command palette (\<open>components/layout/CommandPalette.tsx\<close>) and its trigger
  (\<open>components/layout/CommandTrigger.tsx\<close>): the searchable list of pages and resources, the fan-out over
  projects that collects apps and databases, the grouping of the results, and keyboard navigation. The icons and
  scrolling are not modelled.
\<close>

section \<open>The list\<close>

record PaletteItem =
  pi_id :: string
  pi_group :: string
  pi_label :: string
  pi_hint :: "string option"
  pi_href :: string

definition nav_item :: "string \<Rightarrow> string \<Rightarrow> string \<Rightarrow> PaletteItem" where
  "nav_item i l h = \<lparr>pi_id = i, pi_group = ''Navigate'', pi_label = l, pi_hint = None, pi_href = h\<rparr>"

definition NAV_ITEMS :: "PaletteItem list" where
  "NAV_ITEMS =
    [nav_item ''nav-overview'' ''Overview'' ''/dashboard'', nav_item ''nav-activity'' ''Activity'' ''/activity'',
     nav_item ''nav-servers'' ''Servers'' ''/servers'', nav_item ''nav-clusters'' ''Clusters'' ''/clusters'',
     nav_item ''nav-projects'' ''Projects'' ''/projects'', nav_item ''nav-databases'' ''Databases'' ''/databases'',
     nav_item ''nav-volumes'' ''Volumes'' ''/volumes'', nav_item ''nav-sshkeys'' ''SSH Keys'' ''/ssh-keys'',
     nav_item ''nav-teams'' ''Teams'' ''/teams'', nav_item ''nav-settings'' ''Settings'' ''/settings'']"

text \<open>What the six queries hold (an absent answer counts as the empty list).\<close>

record palette_data =
  pd_projects :: "Project list"
  pd_apps :: "(App \<times> Project) list"
  pd_servers :: "Server list"
  pd_clusters :: "Cluster list"
  pd_databases :: "(Database \<times> Project) list"
  pd_volumes :: "Volume list"

text \<open>
  The two fan-outs. A project whose list cannot be fetched contributes nothing. The databases are fetched directly,
  and \<open>read_db\<close> is the reading of an array entry as a \<open>Database\<close>.
\<close>

definition apps_fanout :: "(string \<Rightarrow> App list result) \<Rightarrow> Project list \<Rightarrow> (App \<times> Project) list" where
  "apps_fanout fetch_apps ps =
     concat (map (\<lambda>p. case fetch_apps (Project_id p) of Inr as \<Rightarrow> map (\<lambda>a. (a, p)) as | Inl e \<Rightarrow> []) ps)"

definition databases_args :: "Project \<Rightarrow> fetch_args" where
  "databases_args p = \<lparr>fa_url = ''/api/v1/projects/'' @ Project_id p @ ''/databases'', fa_method = ''GET'', fa_headers = [],
     fa_body = None, fa_credentials = ''include'', fa_cache = ''no-store''\<rparr>"

definition databases_fanout :: "fetch \<Rightarrow> (js \<Rightarrow> Database) \<Rightarrow> Project list \<Rightarrow> (Database \<times> Project) list" where
  "databases_fanout fetch read_db ps =
     concat (map (\<lambda>p. case fetch (databases_args p) of
         Inl m \<Rightarrow> []
       | Inr r \<Rightarrow> (if res_ok r then (case JSON_parse (res_text r) of Some (JArr vs) \<Rightarrow> map (\<lambda>v. (read_db v, p)) vs | _ \<Rightarrow> [])
                  else [])) ps)"

definition dot_sep :: string where
  "dot_sep = '' '' @ [CHR 0xB7] @ '' ''"

definition project_item :: "Project \<Rightarrow> PaletteItem" where
  "project_item p = \<lparr>pi_id = ''proj-'' @ Project_id p, pi_group = ''Projects'', pi_label = Project_name p,
     pi_hint = Some (Project_slug p), pi_href = ''/projects/'' @ Project_id p @ ''/overview''\<rparr>"

definition app_item :: "App \<times> Project \<Rightarrow> PaletteItem" where
  "app_item ap = (case ap of (a, p) \<Rightarrow> \<lparr>pi_id = ''app-'' @ App_id a, pi_group = ''Apps'', pi_label = App_name a,
     pi_hint = Some (Project_name p), pi_href = ''/apps/'' @ App_id a @ ''/overview''\<rparr>)"

definition server_item :: "Server \<Rightarrow> PaletteItem" where
  "server_item s = \<lparr>pi_id = ''srv-'' @ Server_id s, pi_group = ''Servers'', pi_label = Server_name s,
     pi_hint = Some (Server_public_ip s), pi_href = ''/servers/'' @ Server_id s @ ''/overview''\<rparr>"

definition cluster_item :: "Cluster \<Rightarrow> PaletteItem" where
  "cluster_item c = \<lparr>pi_id = ''clu-'' @ Cluster_id c, pi_group = ''Clusters'', pi_label = Cluster_name c,
     pi_hint = Some (Cluster_region c), pi_href = ''/clusters/'' @ Cluster_id c @ ''/overview''\<rparr>"

definition database_item :: "Database \<times> Project \<Rightarrow> PaletteItem" where
  "database_item dp = (case dp of (d, p) \<Rightarrow> \<lparr>pi_id = ''db-'' @ Database_id d, pi_group = ''Databases'', pi_label = Database_name d,
     pi_hint = Some (Project_name p @ dot_sep @ Database_template_slug d @ '' '' @ Database_version d),
     pi_href = ''/projects/'' @ Project_id p @ ''/databases/'' @ Database_id d\<rparr>)"

definition volume_item :: "Volume \<Rightarrow> PaletteItem" where
  "volume_item v = \<lparr>pi_id = ''vol-'' @ Volume_id v, pi_group = ''Volumes'', pi_label = Volume_name v,
     pi_hint = Some (show_int (Volume_size_gb v) @ '' GiB'' @ dot_sep @ Volume_status v), pi_href = ''/volumes''\<rparr>"

definition palette_items :: "palette_data \<Rightarrow> PaletteItem list" where
  "palette_items d = NAV_ITEMS @ map project_item (pd_projects d) @ map app_item (pd_apps d) @ map server_item (pd_servers d) @
     map cluster_item (pd_clusters d) @ map database_item (pd_databases d) @ map volume_item (pd_volumes d)"

definition item_matches :: "string \<Rightarrow> PaletteItem \<Rightarrow> bool" where
  "item_matches needle it = str_includes (toLowerCase (pi_label it @ '' '' @ (case pi_hint it of Some h \<Rightarrow> h | None \<Rightarrow> []))) needle"

definition palette_filtered :: "string \<Rightarrow> PaletteItem list \<Rightarrow> PaletteItem list" where
  "palette_filtered query its =
     (let needle = toLowerCase (trim query) in if needle = [] then its else filter (item_matches needle) its)"

text \<open>The \<open>Map\<close> of the groups, in the order of their first items.\<close>

definition add_to_group :: "(string, PaletteItem list) obj \<Rightarrow> PaletteItem \<Rightarrow> (string, PaletteItem list) obj" where
  "add_to_group m it =
     obj_set (pi_group it) ((case obj_get m (pi_group it) of Some l \<Rightarrow> l | None \<Rightarrow> []) @ [it]) m"

definition palette_groups :: "PaletteItem list \<Rightarrow> (string, PaletteItem list) obj" where
  "palette_groups its = foldl add_to_group [] its"

section \<open>The dialog\<close>

record palette =
  cp_open :: bool
  cp_query :: string
  cp_active :: int
  cp_data :: palette_data

abbreviation flat :: "palette \<Rightarrow> PaletteItem list" where
  "flat p \<equiv> palette_filtered (cp_query p) (palette_items (cp_data p))"

text \<open>The rows as they are drawn, numbered through the groups, and the ones drawn as active.\<close>

definition palette_rows :: "palette \<Rightarrow> (nat \<times> PaletteItem) list" where
  "palette_rows p = (let its = concat (map snd (palette_groups (flat p))) in zip [0..<length its] its)"

definition palette_highlighted :: "palette \<Rightarrow> PaletteItem list" where
  "palette_highlighted p = map snd (filter (\<lambda>(idx, it). int idx = cp_active p) (palette_rows p))"

definition palette_init :: palette where
  "palette_init = \<lparr>cp_open = False, cp_query = [], cp_active = 0,
     cp_data = \<lparr>pd_projects = [], pd_apps = [], pd_servers = [], pd_clusters = [], pd_databases = [], pd_volumes = []\<rparr>\<rparr>"

definition palette_go :: "PaletteItem \<Rightarrow> palette \<Rightarrow> palette \<times> string option" where
  "palette_go it p = (p\<lparr>cp_open := False, cp_query := []\<rparr>, Some (pi_href it))"

datatype palette_event =
    PShortcut
  | PTrigger
  | PDialog bool
  | PType string
  | PArrowDown
  | PArrowUp
  | PEnter
  | PHover nat
  | PClick nat
  | PData palette_data

text \<open>
  The handlers; those of the list and the box act only while the dialog is open. The output is the address the
  router is sent to. The keyboard shortcut and the trigger belong to the parent and do not touch the query.
\<close>

fun palette_handle :: "palette \<Rightarrow> palette_event \<Rightarrow> palette \<times> string option" where
  "palette_handle p PShortcut = (p\<lparr>cp_open := \<not> cp_open p\<rparr>, None)"
| "palette_handle p PTrigger = (p\<lparr>cp_open := True\<rparr>, None)"
| "palette_handle p (PDialog v) = ((let p' = p\<lparr>cp_open := v\<rparr> in if v then p' else p'\<lparr>cp_query := []\<rparr>), None)"
| "palette_handle p (PType q) = ((if cp_open p then p\<lparr>cp_query := q\<rparr> else p), None)"
| "palette_handle p PArrowDown =
     ((if cp_open p then p\<lparr>cp_active := min (int (length (flat p)) - 1) (cp_active p + 1)\<rparr> else p), None)"
| "palette_handle p PArrowUp = ((if cp_open p then p\<lparr>cp_active := max 0 (cp_active p - 1)\<rparr> else p), None)"
| "palette_handle p PEnter =
     (if cp_open p \<and> 0 \<le> cp_active p \<and> nat (cp_active p) < length (flat p)
      then palette_go (flat p ! nat (cp_active p)) p else (p, None))"
| "palette_handle p (PHover idx) = ((if cp_open p \<and> idx < length (palette_rows p) then p\<lparr>cp_active := int idx\<rparr> else p), None)"
| "palette_handle p (PClick idx) =
     (if cp_open p \<and> idx < length (palette_rows p) then palette_go (snd (palette_rows p ! idx)) p else (p, None))"
| "palette_handle p (PData d) = (p\<lparr>cp_data := d\<rparr>, None)"

text \<open>The effect on \<open>[query, open]\<close> puts the active row back to the first.\<close>

definition palette_step :: "palette \<Rightarrow> palette_event \<Rightarrow> palette \<times> string option" where
  "palette_step p e =
     (let (p', out) = palette_handle p e in
      (if cp_query p' \<noteq> cp_query p \<or> cp_open p' \<noteq> cp_open p then p'\<lparr>cp_active := 0\<rparr> else p', out))"

section \<open>Groups and rows\<close>

text \<open>Blocks of one group each, under different names, are their own grouping.\<close>

definition blocks_ok :: "(string, PaletteItem list) obj \<Rightarrow> bool" where
  "blocks_ok bs = (distinct (obj_keys bs) \<and> (\<forall>(g, l) \<in> set bs. l \<noteq> [] \<and> (\<forall>it \<in> set l. pi_group it = g)))"

lemma obj_set_last: "k \<notin> set (obj_keys m) \<Longrightarrow> obj_set k v (m @ [(k, w)]) = m @ [(k, v)]"
  by (induction m) auto

lemma obj_get_new: "k \<notin> set (obj_keys m) \<Longrightarrow> obj_get m k = None"
  by (simp add: obj_get_def map_of_eq_None_iff)

lemma obj_get_last: "k \<notin> set (obj_keys m) \<Longrightarrow> obj_get (m @ [(k, w)]) k = Some w"
  using obj_get_new [of k m] by (simp add: obj_get_def map_add_def)

lemma add_block:
  assumes "g \<notin> set (obj_keys m)" and "\<forall>it \<in> set l. pi_group it = g" and "l \<noteq> []"
  shows "foldl add_to_group m l = m @ [(g, l)]"
  using assms(3,2)
proof (induction l rule: rev_nonempty_induct)
  case (single it)
  with assms(1) show ?case by (simp add: add_to_group_def obj_get_new obj_set_new)
next
  case (snoc it l)
  with assms(1) show ?case by (simp add: add_to_group_def obj_get_last obj_set_last)
qed

lemma groups_of_blocks: "blocks_ok bs \<Longrightarrow> palette_groups (concat (map snd bs)) = bs"
proof (induction bs rule: rev_induct)
  case Nil
  show ?case by (simp add: palette_groups_def)
next
  case (snoc b bs)
  obtain g l where b: "b = (g, l)" by (cases b)
  from snoc.prems have "blocks_ok bs" and "g \<notin> set (obj_keys bs)" and "\<forall>it \<in> set l. pi_group it = g" and "l \<noteq> []"
    by (auto simp: blocks_ok_def b)
  with snoc.IH show ?case by (simp add: palette_groups_def b add_block)
qed

definition item_blocks :: "palette_data \<Rightarrow> (string, PaletteItem list) obj" where
  "item_blocks d =
     [(''Navigate'', NAV_ITEMS), (''Projects'', map project_item (pd_projects d)), (''Apps'', map app_item (pd_apps d)),
      (''Servers'', map server_item (pd_servers d)), (''Clusters'', map cluster_item (pd_clusters d)),
      (''Databases'', map database_item (pd_databases d)), (''Volumes'', map volume_item (pd_volumes d))]"

lemmas item_defs = nav_item_def NAV_ITEMS_def project_item_def app_item_def server_item_def cluster_item_def
  database_item_def volume_item_def

lemma item_blocks_groups: "(g, l) \<in> set (item_blocks d) \<Longrightarrow> it \<in> set l \<Longrightarrow> pi_group it = g"
  by (auto simp: item_blocks_def item_defs split: prod.splits)

lemma filtered_blocks:
  "\<exists>bs. blocks_ok bs \<and> concat (map snd bs) = palette_filtered q (palette_items d)"
proof -
  define P where "P = (\<lambda>it. toLowerCase (trim q) = [] \<or> item_matches (toLowerCase (trim q)) it)"
  have f: "palette_filtered q (palette_items d) = filter P (palette_items d)"
    by (simp add: palette_filtered_def P_def Let_def)
  let ?bs = "filter (\<lambda>b. snd b \<noteq> []) (map (\<lambda>(g, l). (g, filter P l)) (item_blocks d))"
  have c: "concat (map snd (filter (\<lambda>b. snd b \<noteq> []) (map (\<lambda>(g, l). (g, filter P l)) bs))) = filter P (concat (map snd bs))" for bs :: "(string, PaletteItem list) obj"
    by (induction bs) auto
  have "distinct (obj_keys (map (\<lambda>(g, l). (g, filter P l)) (item_blocks d)))"
    by (simp add: item_blocks_def)
  then have "distinct (obj_keys ?bs)" by (rule distinct_map_filter)
  moreover have "\<forall>(g, l) \<in> set ?bs. l \<noteq> [] \<and> (\<forall>it \<in> set l. pi_group it = g)"
    using item_blocks_groups [of _ _ d] by fastforce
  ultimately have "blocks_ok ?bs" by (simp add: blocks_ok_def)
  moreover have "concat (map snd ?bs) = palette_filtered q (palette_items d)"
    unfolding f c by (simp add: item_blocks_def palette_items_def)
  ultimately show ?thesis by blast
qed

lemma rows_flat: "palette_rows p = zip [0..<length (flat p)] (flat p)"
proof -
  obtain bs where "blocks_ok bs" and "concat (map snd bs) = flat p" using filtered_blocks by blast
  with groups_of_blocks [of bs] show ?thesis by (simp add: palette_rows_def Let_def)
qed

lemma highlighted_flat:
  "palette_highlighted p =
     (if 0 \<le> cp_active p \<and> nat (cp_active p) < length (flat p) then [flat p ! nat (cp_active p)] else [])"
proof -
  have one: "map snd (filter (\<lambda>(i, x). int i = a) (zip [0..<length xs] xs)) =
      (if 0 \<le> a \<and> nat a < length xs then [xs ! nat a] else [])" for a and xs :: "PaletteItem list"
  proof (induction xs rule: rev_induct)
    case (snoc x xs)
    then show ?case by (auto simp: nth_append)
  qed simp
  show ?thesis unfolding palette_highlighted_def rows_flat by (rule one)
qed

text \<open>
  C31: The row drawn as active is the one Enter opens. In whatever state the palette is, the rows are drawn group by
  group but in the order of the flat result list; at most one of them is highlighted, Enter while the palette is
  open goes to its address, and to none when no row is highlighted. A click on a row goes to that row's address.
\<close>

lemma palette_enter:
  assumes "cp_open p"
  shows "map snd (palette_rows p) = flat p \<and> length (palette_highlighted p) \<le> 1 \<and>
    snd (palette_step p PEnter) = (case palette_highlighted p of [] \<Rightarrow> None | it # its \<Rightarrow> Some (pi_href it)) \<and>
    (\<forall>idx < length (flat p). snd (palette_step p (PClick idx)) = Some (pi_href (flat p ! idx)))"
  using assms
  by (auto simp: highlighted_flat rows_flat palette_step_def palette_go_def)

lemma palette_enter_witness:
  "let p = palette_init\<lparr>cp_open := True, cp_query := ''Vol''\<rparr> in
   palette_highlighted p = [nav_item ''nav-volumes'' ''Volumes'' ''/volumes''] \<and>
   snd (palette_step p PEnter) = Some ''/volumes''"
proof -
  let ?p = "palette_init\<lparr>cp_open := True, cp_query := ''Vol''\<rparr>"
  have "flat ?p = [nav_item ''nav-volumes'' ''Volumes'' ''/volumes'']" by code_simp
  then have h: "palette_highlighted ?p = [nav_item ''nav-volumes'' ''Volumes'' ''/volumes'']"
    unfolding highlighted_flat by (simp add: palette_init_def)
  have "cp_open ?p" by simp
  from palette_enter [OF this] show ?thesis unfolding Let_def h by (simp add: nav_item_def)
qed

text \<open>
  The palette never selects a row above the first by more than one: the active index stays at least -1, and
  it is -1 only after Arrow Down in an empty list. From there Enter stays dead even when results arrive, until
  another arrow key, a pointer move or new input; typing or reopening always highlights the first result.
\<close>

lemma palette_dead_enter:
  assumes "cp_open p" and "flat p = []" and "flat (p\<lparr>cp_data := d\<rparr>) \<noteq> []" and "-1 \<le> cp_active p"
  shows "cp_active (after palette_step p [PArrowDown, PData d]) = -1 \<and>
    snd (palette_step (after palette_step p [PArrowDown, PData d]) PEnter) = None \<and>
    cp_active (after palette_step p [PArrowDown, PData d, PArrowUp]) = 0"
  using assms by (simp add: palette_step_def)

definition palette_ok :: "palette \<Rightarrow> bool" where
  "palette_ok p = (-1 \<le> cp_active p)"

interpretation palette_run: request_machine palette_step palette_ok
  "\<lambda>p href. \<exists>it. it \<in> set (flat p) \<and> href = pi_href it \<and> cp_open p"
proof
  fix p e href
  show "palette_ok p \<Longrightarrow> palette_ok (fst (palette_step p e))"
    by (cases e) (auto simp: palette_ok_def palette_step_def palette_go_def Let_def)
  show "\<exists>it. it \<in> set (flat p) \<and> href = pi_href it \<and> cp_open p" if "snd (palette_step p e) = Some href"
    using that by (cases e) (auto simp: palette_step_def palette_go_def rows_flat split: if_splits, (metis nth_mem)+)
qed

text \<open>
  Through any use of the palette the router is only sent to the address of a result that was listed at that
  moment in the open palette.
\<close>

lemma palette_navigation:
  assumes "(p, href) \<in> set (emitted palette_step palette_init es)"
  shows "cp_open p \<and> href \<in> pi_href ` set (flat p)"
proof -
  have "palette_ok palette_init" by (simp add: palette_ok_def palette_init_def)
  from palette_run.emitted_guarded [OF this assms] show ?thesis by auto
qed

lemma palette_first:
  assumes "cp_open p" and "q \<noteq> cp_query p"
  shows "palette_highlighted (fst (palette_step p (PType q))) = take 1 (palette_filtered q (palette_items (cp_data p)))"
  using assms by (cases "palette_filtered q (palette_items (cp_data p))") (auto simp: palette_step_def highlighted_flat)

end
