(* ===== verification/Mesh.thy ===== *)
theory Mesh
  imports Model_Types "HOL-Library.Multiset"
begin

text \<open>
  The mesh page (\<open>components/clusters/MeshClient.tsx\<close>) and its health matrix (\<open>MeshMatrix.tsx\<close>): the summary
  tiles, the axes and cells of the matrix and their tones. The collation of \<open>localeCompare\<close> is a parameter;
  the tooltips, the colours and the regenerate button's markup are not modelled.
\<close>

section \<open>The matrix\<close>

text \<open>\<open>Set.add\<close>, and the stable \<open>Array.sort\<close> with a comparison.\<close>

definition set_add :: "'a list \<Rightarrow> 'a \<Rightarrow> 'a list" where
  "set_add s x = (if x \<in> set s then s else s @ [x])"

fun sort_insert :: "('a \<Rightarrow> 'a \<Rightarrow> int) \<Rightarrow> 'a \<Rightarrow> 'a list \<Rightarrow> 'a list" where
  "sort_insert cmp x [] = [x]"
| "sort_insert cmp x (y # ys) = (if cmp x y \<le> 0 then x # y # ys else y # sort_insert cmp x ys)"

definition array_sort :: "('a \<Rightarrow> 'a \<Rightarrow> int) \<Rightarrow> 'a list \<Rightarrow> 'a list" where
  "array_sort cmp xs = foldr (sort_insert cmp) xs []"

definition mesh_names :: "(string \<Rightarrow> string \<Rightarrow> int) \<Rightarrow> MeshPeer list \<Rightarrow> string list" where
  "mesh_names localeCompare peers =
     array_sort localeCompare
       (foldl (\<lambda>s p. set_add (set_add s (MeshPeer_from_server_name p)) (MeshPeer_to_server_name p)) [] peers)"

definition mesh_key :: "string \<Rightarrow> string \<Rightarrow> string" where
  "mesh_key from to = from @ CHR 0x00 # to"

definition mesh_lookup :: "MeshPeer list \<Rightarrow> (string, MeshPeer) obj" where
  "mesh_lookup peers =
     foldl (\<lambda>m p. obj_set (mesh_key (MeshPeer_from_server_name p) (MeshPeer_to_server_name p)) p m) [] peers"

datatype Tone = Fast | Ok | Slow | Bad | Unknown

definition rttTone :: "MeshPeer \<Rightarrow> Tone" where
  "rttTone p =
     (if toLowerCase (MeshPeer_status p) \<in> {''error'', ''failed'', ''down'', ''offline''} then Bad
      else case MeshPeer_rtt_ms p of
        None \<Rightarrow> Unknown
      | Some rtt \<Rightarrow> if rtt < 10 then Fast else if rtt < 30 then Ok else if rtt < 100 then Slow else Bad)"

text \<open>\<open>show_rtt\<close> is \<open>String(rtt)\<close>, which the page uses below 1000.\<close>

definition rtt_label :: "(rat \<Rightarrow> string) \<Rightarrow> MeshPeer \<Rightarrow> string" where
  "rtt_label show_rtt p =
     (case MeshPeer_rtt_ms p of
        None \<Rightarrow> ''?''
      | Some rtt \<Rightarrow> if rtt < 1 then ''<1'' else if rtt \<ge> 1000 then to_fixed 1 (rtt / 1000) @ ''s'' else show_rtt rtt)"

datatype matrix_cell = DiagonalCell | NoRecord | PeerCell MeshPeer

definition mesh_cell :: "(string, MeshPeer) obj \<Rightarrow> string \<Rightarrow> string \<Rightarrow> matrix_cell" where
  "mesh_cell lookup row col =
     (if row = col then DiagonalCell
      else case obj_get lookup (mesh_key row col) of None \<Rightarrow> NoRecord | Some p \<Rightarrow> PeerCell p)"

definition RowFragment :: "string list \<Rightarrow> (string, MeshPeer) obj \<Rightarrow> string \<Rightarrow> matrix_cell list" where
  "RowFragment names lookup row = map (mesh_cell lookup row) names"

definition MeshMatrix :: "(string \<Rightarrow> string \<Rightarrow> int) \<Rightarrow> MeshPeer list \<Rightarrow> matrix_cell list list" where
  "MeshMatrix localeCompare peers =
     (let names = mesh_names localeCompare peers in map (RowFragment names (mesh_lookup peers)) names)"

section \<open>The summary\<close>

definition peer_healthy :: "MeshPeer \<Rightarrow> bool" where
  "peer_healthy p = (MeshPeer_rtt_ms p \<noteq> None \<and> toLowerCase (MeshPeer_status p) \<in> {''active'', ''healthy'', ''ok''})"

definition healthy_count :: "MeshPeer list \<Rightarrow> nat" where
  "healthy_count ps = length (filter peer_healthy ps)"

definition healthy_pct :: "MeshPeer list \<Rightarrow> int option" where
  "healthy_pct ps =
     (if length ps > 0 then Some (math_round (of_nat (healthy_count ps) / of_nat (length ps) * 100)) else None)"

datatype tile_tone = TOn | TWarn | TOff | TInfo | TNeutral

definition healthy_tone :: "MeshPeer list \<Rightarrow> tile_tone" where
  "healthy_tone ps =
     (if length ps = 0 then TNeutral else if healthy_count ps = length ps then TOn
      else if healthy_count ps = 0 then TOff else TWarn)"

text \<open>\<open>None\<close> stands for the dash shown when no link has a measurement.\<close>

definition averageRtt :: "MeshPeer list \<Rightarrow> string option" where
  "averageRtt ps =
     (let sample = filter (\<lambda>p. MeshPeer_rtt_ms p \<noteq> None) ps in
      if length sample = 0 then None
      else (let avg = foldl (\<lambda>sum p. sum + the (MeshPeer_rtt_ms p)) 0 sample / of_nat (length sample)
            in Some (to_fixed (if avg \<ge> 100 then 0 else 1) avg)))"

section \<open>Every link has its cell\<close>

lemma mset_sort_insert: "mset (sort_insert cmp x ys) = add_mset x (mset ys)"
  by (induction ys) auto

lemma mset_array_sort [simp]: "mset (array_sort cmp xs) = mset xs"
  by (induction xs) (auto simp: array_sort_def mset_sort_insert)

lemma set_array_sort [simp]: "set (array_sort cmp xs) = set xs"
  by (rule mset_eq_setD) simp

lemma distinct_array_sort [simp]: "distinct (array_sort cmp xs) = distinct xs"
  by (rule mset_eq_imp_distinct_iff) simp

text \<open>The sort leaves a list that is in order for the comparison, when that is a total preorder.\<close>

lemma array_sort_sorted:
  assumes "\<And>x y. cmp x y \<le> 0 \<or> cmp y x \<le> 0" and "\<And>x y z. cmp x y \<le> 0 \<Longrightarrow> cmp y z \<le> 0 \<Longrightarrow> cmp x z \<le> 0"
  shows "sorted_wrt (\<lambda>x y. cmp x y \<le> 0) (array_sort cmp xs)"
proof (induction xs)
  case (Cons x xs)
  have ins: "sorted_wrt (\<lambda>x y. cmp x y \<le> 0) ys \<Longrightarrow> sorted_wrt (\<lambda>x y. cmp x y \<le> 0) (sort_insert cmp x ys)" for ys
  proof (induction ys)
    case (Cons y ys)
    have "set (sort_insert cmp x ys) = insert x (set ys)"
      using arg_cong [OF mset_sort_insert [of cmp x ys], of set_mset] by simp
    with Cons assms show ?case by auto
  qed simp
  show ?case using ins [OF Cons] by (simp add: array_sort_def)
qed (simp add: array_sort_def)

lemma set_add_props: "set (set_add s x) = insert x (set s)" "distinct (set_add s x) = distinct s"
  by (auto simp: set_add_def)

lemma mesh_name_fold:
  fixes s :: "string list" and peers :: "MeshPeer list"
  defines "r \<equiv> foldl (\<lambda>s p. set_add (set_add s (MeshPeer_from_server_name p)) (MeshPeer_to_server_name p)) s peers"
  shows "set r = set s \<union> MeshPeer_from_server_name ` set peers \<union> MeshPeer_to_server_name ` set peers \<and> (distinct r = distinct s)"
  unfolding r_def by (induction peers arbitrary: s) (auto simp: set_add_props)

lemma set_mesh_names:
  "set (mesh_names lc peers) = MeshPeer_from_server_name ` set peers \<union> MeshPeer_to_server_name ` set peers"
  "distinct (mesh_names lc peers)"
  using mesh_name_fold [of "[]" peers] by (simp_all add: mesh_names_def)

text \<open>Names of servers have no NUL character (the database cannot store one), so a key has one reading.\<close>

abbreviation no_nul :: "string \<Rightarrow> bool" where
  "no_nul s \<equiv> CHR 0x00 \<notin> set s"

lemma mesh_key_inj:
  assumes "no_nul a" and "no_nul c"
  shows "mesh_key a b = mesh_key c d \<longleftrightarrow> a = c \<and> b = d"
proof
  assume k: "mesh_key a b = mesh_key c d"
  have "takeWhile (\<lambda>x. x \<noteq> CHR 0x00) (mesh_key s t) = s" if "no_nul s" for s t
    using that unfolding mesh_key_def by (induction s) auto
  with k assms have "a = c" by metis
  with k show "a = c \<and> b = d" by (simp add: mesh_key_def)
qed simp

lemma lookup_last:
  assumes "no_nul row" and "\<And>p. p \<in> set peers \<Longrightarrow> no_nul (MeshPeer_from_server_name p)"
  shows "obj_get (mesh_lookup peers) (mesh_key row col) =
    find (\<lambda>p. MeshPeer_from_server_name p = row \<and> MeshPeer_to_server_name p = col) (rev peers)"
  using assms(2)
proof (induction peers rule: rev_induct)
  case Nil
  show ?case by (simp add: mesh_lookup_def obj_get_def)
next
  case (snoc p peers)
  then have "no_nul (MeshPeer_from_server_name p)" by simp
  with snoc assms(1) show ?case by (auto simp: mesh_lookup_def obj_get_set mesh_key_inj)
qed

text \<open>
  The health matrix shows the mesh. Its axes are the names of the servers at the ends of the links, each once.
  Off the diagonal a cell shows a link exactly when there is one in that direction between servers of those
  names, the last one listed; so with one link per pair of names every link is in the cell of its ends and every
  cell without a record has no link.
\<close>

lemma mesh_matrix_faithful:
  assumes "\<And>p. p \<in> set peers \<Longrightarrow> no_nul (MeshPeer_from_server_name p) \<and> no_nul (MeshPeer_to_server_name p)"
    and "distinct (map (\<lambda>p. (MeshPeer_from_server_name p, MeshPeer_to_server_name p)) peers)"
    and "names = mesh_names lc peers" and "i < length names" and "j < length names" and "i \<noteq> j"
  shows "distinct names \<and> MeshMatrix lc peers ! i ! i = DiagonalCell \<and>
    (\<forall>p. MeshMatrix lc peers ! i ! j = PeerCell p \<longleftrightarrow>
       p \<in> set peers \<and> MeshPeer_from_server_name p = names ! i \<and> MeshPeer_to_server_name p = names ! j) \<and>
    (\<forall>p \<in> set peers. MeshPeer_from_server_name p \<in> set names \<and> MeshPeer_to_server_name p \<in> set names)"
proof -
  have d: "distinct names" and s: "set names = MeshPeer_from_server_name ` set peers \<union> MeshPeer_to_server_name ` set peers"
    using set_mesh_names [where lc = lc and peers = peers] assms(3) by simp_all
  have n: "no_nul (names ! i)" using s assms(1) nth_mem [OF assms(4)] by auto
  have cell: "MeshMatrix lc peers ! i ! k = mesh_cell (mesh_lookup peers) (names ! i) (names ! k)" if "k < length names" for k
    using that assms(3,4) by (simp add: MeshMatrix_def RowFragment_def Let_def)
  let ?Q = "\<lambda>p. MeshPeer_from_server_name p = names ! i \<and> MeshPeer_to_server_name p = names ! j"
  have "names ! i \<noteq> names ! j" using d assms(4-6) by (simp add: nth_eq_iff_index_eq)
  then have c: "MeshMatrix lc peers ! i ! j = (case find ?Q (rev peers) of None \<Rightarrow> NoRecord | Some p \<Rightarrow> PeerCell p)"
    using lookup_last [OF n, of peers] assms(1) cell [OF assms(5)] by (simp add: mesh_cell_def)
  have e: "find ?Q (rev peers) = Some p \<longleftrightarrow> p \<in> set peers \<and> ?Q p" for p
  proof
    assume "find ?Q (rev peers) = Some p"
    from find_SomeD [OF this] show "p \<in> set peers \<and> ?Q p" by simp
  next
    assume p: "p \<in> set peers \<and> ?Q p"
    then have "find ?Q (rev peers) \<noteq> None" by (auto simp: find_None)
    then obtain q where q: "find ?Q (rev peers) = Some q" by blast
    from find_SomeD [OF this] have "q \<in> set peers \<and> ?Q q" by simp
    with p assms(2) have "q = p" unfolding distinct_map inj_on_def by auto
    with q show "find ?Q (rev peers) = Some p" by simp
  qed
  have "MeshMatrix lc peers ! i ! j = PeerCell p \<longleftrightarrow> find ?Q (rev peers) = Some p" for p
    unfolding c by (simp split: option.split)
  then have "MeshMatrix lc peers ! i ! j = PeerCell p \<longleftrightarrow> p \<in> set peers \<and> ?Q p" for p
    unfolding e .
  then show ?thesis using d s cell [OF assms(4)] by (auto simp: mesh_cell_def)
qed

definition sample_peer :: "string \<Rightarrow> string \<Rightarrow> MeshPeer" where
  "sample_peer a b = \<lparr>MeshPeer_id = a @ b, MeshPeer_member_id = a, MeshPeer_peer_member_id = b, MeshPeer_status = ''degraded'',
     MeshPeer_last_handshake_at = None, MeshPeer_last_check_at = None, MeshPeer_rtt_ms = Some 5, MeshPeer_created_at = [],
     MeshPeer_from_ip = [], MeshPeer_from_server_name = a, MeshPeer_to_ip = [], MeshPeer_to_server_name = b\<rparr>"

lemma mesh_matrix_faithful_witness:
  "let lc = (\<lambda>a b. 0); ps = [sample_peer ''n1'' ''n2'', sample_peer ''n2'' ''n1''] in
   mesh_names lc ps = [''n1'', ''n2''] \<and> MeshMatrix lc ps ! 0 ! 1 = PeerCell (sample_peer ''n1'' ''n2'')"
proof -
  let ?lc = "\<lambda>a b. 0 :: int" and ?ps = "[sample_peer ''n1'' ''n2'', sample_peer ''n2'' ''n1'']"
  have n: "mesh_names ?lc ?ps = [''n1'', ''n2'']"
    by (simp add: mesh_names_def set_add_def array_sort_def sample_peer_def)
  have f: "MeshPeer_from_server_name (sample_peer a b) = a" "MeshPeer_to_server_name (sample_peer a b) = b" for a b
    by (simp_all add: sample_peer_def)
  have "\<forall>p. MeshMatrix ?lc ?ps ! 0 ! 1 = PeerCell p \<longleftrightarrow> p \<in> set ?ps \<and>
      MeshPeer_from_server_name p = [''n1'', ''n2''] ! 0 \<and> MeshPeer_to_server_name p = [''n1'', ''n2''] ! 1"
    by (rule mesh_matrix_faithful [where peers = ?ps and lc = ?lc and i = 0 and j = 1, THEN conjunct2, THEN conjunct2, THEN conjunct1])
      (auto simp: f n)
  then show ?thesis unfolding Let_def n by (simp add: f)
qed

lemma healthy_count_le: "healthy_count ps \<le> length ps"
  by (simp add: healthy_count_def)

text \<open>
  The share of healthy links is a percentage between 0 and 100, it is 100 when every link is healthy, and the
  tile is green exactly then; but the matrix does not use the same notion of health: a link the agents report as
  degraded never counts as healthy, and its cell is drawn as fast when its round trip is short.
\<close>

lemma mesh_summary:
  "(\<forall>pct. healthy_pct ps = Some pct \<longrightarrow> 0 \<le> pct \<and> pct \<le> 100) \<and>
   (healthy_tone ps = TOn \<longleftrightarrow> ps \<noteq> [] \<and> list_all peer_healthy ps) \<and>
   (\<forall>p rtt. MeshPeer_status p = ''degraded'' \<and> MeshPeer_rtt_ms p = Some rtt \<and> rtt < 10 \<longrightarrow>
      \<not> peer_healthy p \<and> rttTone p = Fast)"
proof (intro conjI allI impI)
  fix pct assume a: "healthy_pct ps = Some pct"
  let ?x = "of_nat (healthy_count ps) / of_nat (length ps) * (100 :: rat)"
  have pct: "pct = math_round ?x" and l: "length ps > 0" using a by (auto simp: healthy_pct_def split: if_splits)
  have "0 \<le> ?x" and "?x \<le> 100" using healthy_count_le [of ps] l by (simp_all add: field_simps)
  then show "0 \<le> pct" and "pct \<le> 100" unfolding pct math_round_def by (simp_all add: floor_le_iff le_floor_iff)
next
  have "healthy_count ps = length ps \<longleftrightarrow> list_all peer_healthy ps"
    by (auto simp: healthy_count_def list_all_iff filter_id_conv dest: filter_id_conv [THEN iffD1, rotated])
      (metis filter_id_conv length_filter_less less_irrefl)
  then show "healthy_tone ps = TOn \<longleftrightarrow> ps \<noteq> [] \<and> list_all peer_healthy ps"
    by (auto simp: healthy_tone_def)
next
  fix p :: MeshPeer and rtt assume "MeshPeer_status p = ''degraded'' \<and> MeshPeer_rtt_ms p = Some rtt \<and> rtt < 10"
  moreover have "toLowerCase ''degraded'' = ''degraded''" by code_simp
  ultimately show "\<not> peer_healthy p" and "rttTone p = Fast" by (auto simp: peer_healthy_def rttTone_def)
qed

lemma mesh_summary_witness:
  "\<not> peer_healthy (sample_peer ''n1'' ''n2'') \<and> rttTone (sample_peer ''n1'' ''n2'') = Fast \<and>
   healthy_tone [sample_peer ''n1'' ''n2''] \<noteq> TOn"
  using mesh_summary [of "[sample_peer ''n1'' ''n2'']"] by (auto simp: sample_peer_def)

end
