(* ===== verification/Query_Console.thy ===== *)
theory Query_Console
  imports App_Store Machines
begin

text \<open>
  The SQL console of a database (\<open>components/databases/QueryConsoleClient.tsx\<close>) and the checks the API makes
  before a query is relayed (\<open>internal/database/query.go\<close>): the statement a table row puts in the editor, running
  it, the results table, and the history that can be loaded back. The rate limit and the relay to the agent are
  not modelled; the answer of the agent is an input.
\<close>

section \<open>The guard of the API\<close>

definition go_upper :: "char \<Rightarrow> char" where
  "go_upper c = (let n = code_of c in
     if (97 \<le> n \<and> n \<le> 122) \<or> (224 \<le> n \<and> n \<le> 254 \<and> n \<noteq> 247) then char_of (n - 32) else c)"

definition keyword_junk :: "char \<Rightarrow> bool" where
  "keyword_junk c = (c \<in> set [CHR ''('', CHR 0x22, CHR 0x60, CHR 0x27, CHR ''['', CHR '' '', CHR 0x09, CHR 0x0A, CHR '';''])"

definition keyword_sep :: "char \<Rightarrow> bool" where
  "keyword_sep c = (c \<in> set [CHR '' '', CHR 0x09, CHR 0x0A, CHR 0x0D, CHR '';'', CHR ''(''])"

definition firstQueryKeyword :: "string \<Rightarrow> string" where
  "firstQueryKeyword query =
     (let q = dropWhile keyword_junk (trim_by go_space query)
      in map go_upper (takeWhile (\<lambda>c. \<not> keyword_sep c) (dropWhile keyword_sep q)))"

definition ddlKeywords :: "string list" where
  "ddlKeywords = [''DROP'', ''ALTER'', ''TRUNCATE'', ''CREATE'', ''GRANT'', ''REVOKE'']"

definition readKeywords :: "string list" where
  "readKeywords = [''SELECT'', ''SHOW'', ''EXPLAIN'', ''WITH'', ''DESCRIBE'', ''DESC'']"

definition dbTypeForQueryTemplate :: "string \<Rightarrow> string" where
  "dbTypeForQueryTemplate slug =
     (if slug \<in> {''postgres'', ''postgresql''} then ''postgresql''
      else if slug \<in> {''mysql'', ''mariadb''} then ''mysql''
      else if slug \<in> {''mongodb'', ''mongo''} then ''mongodb''
      else slug)"

definition isSQLDB :: "string \<Rightarrow> bool" where
  "isSQLDB t = (t \<in> {''postgresql'', ''mysql''})"

datatype query_refusal = NotRunning string | TemplateNotFound string | QueryRequired | DdlRefused | WriteModeOff string

text \<open>
  What \<open>ExecuteQuery\<close> refuses before it sends anything, for a query without an operation; \<open>templates\<close> says which
  slugs the template registry holds.
\<close>

definition query_check :: "(string \<Rightarrow> bool) \<Rightarrow> string \<Rightarrow> string \<Rightarrow> string \<Rightarrow> bool \<Rightarrow> query_refusal option" where
  "query_check templates status slug query writeMode =
     (if status \<noteq> ''running'' then Some (NotRunning status)
      else if \<not> templates slug then Some (TemplateNotFound slug)
      else if isSQLDB (dbTypeForQueryTemplate slug) then
        (let kw = firstQueryKeyword query in
         if trim_by go_space query = [] then Some QueryRequired
         else if kw \<in> set ddlKeywords then Some DdlRefused
         else if \<not> writeMode \<and> kw \<notin> set readKeywords then Some (WriteModeOff kw)
         else None)
      else None)"

text \<open>
  The text kept in the history: cut at 8192 bytes of UTF-8. A cut inside a character is not valid text, which
  the database refuses, and then nothing is recorded.
\<close>

definition utf8_width :: "char \<Rightarrow> nat" where
  "utf8_width c = (if code_of c < 128 then 1 else 2)"

definition utf8_len :: "string \<Rightarrow> nat" where
  "utf8_len s = sum_list (map utf8_width s)"

fun utf8_cut :: "nat \<Rightarrow> string \<Rightarrow> string option" where
  "utf8_cut n [] = Some []"
| "utf8_cut n (c # s) =
     (if n = 0 then Some [] else if n < utf8_width c then None else map_option (Cons c) (utf8_cut (n - utf8_width c) s))"

definition recordQueryHistory :: "string \<Rightarrow> string option" where
  "recordQueryHistory query =
     (let text = (if query = [] then ''[]'' else query) in
      if utf8_len text > 8192 then utf8_cut 8192 text else Some text)"

section \<open>The console\<close>

record query_console =
  qc_schema :: string
  qc_sql :: string
  qc_writeMode :: bool
  qc_result :: "QueryResult option"
  qc_error :: "string option"
  qc_schemas :: "string list"
  qc_tables :: "(string, TableInfo list) obj"
  qc_history :: "QueryHistoryEntry list"
  qc_pending :: nat

definition console_start :: query_console where
  "console_start = \<lparr>qc_schema = [], qc_sql = ''SELECT 1;'', qc_writeMode = False, qc_result = None, qc_error = None,
     qc_schemas = [], qc_tables = [], qc_history = [], qc_pending = 0\<rparr>"

definition pick_schema :: "query_console \<Rightarrow> query_console" where
  "pick_schema c =
     (if qc_schema c \<noteq> [] \<or> qc_schemas c = [] then c
      else c\<lparr>qc_schema := (if ''public'' \<in> set (qc_schemas c) then ''public'' else hd (qc_schemas c))\<rparr>)"

definition stopped :: "Database \<Rightarrow> bool" where
  "stopped db = (Database_status db \<noteq> ''running'')"

definition run_request :: "Database \<Rightarrow> query_console \<Rightarrow> endpoint" where
  "run_request db c = dbToolingApi_runQuery (Database_id db)
     \<lparr>RunQueryInput_sql = trim (qc_sql c), RunQueryInput_write_mode = Some (qc_writeMode c)\<rparr>"

definition query_execute :: "Database \<Rightarrow> query_console \<Rightarrow> query_console \<times> endpoint option" where
  "query_execute db c =
     (if trim (qc_sql c) = [] then (c, None)
      else (c\<lparr>qc_error := None, qc_pending := Suc (qc_pending c)\<rparr>, Some (run_request db c)))"

definition table_statement :: "string \<Rightarrow> string \<Rightarrow> string" where
  "table_statement schema name =
     ''SELECT * FROM '' @ [CHR 0x22] @ schema @ [CHR 0x22] @ ''.'' @ [CHR 0x22] @ name @ [CHR 0x22] @ [CHR 0x0A] @ ''LIMIT 100;''"

definition loadTable :: "string \<Rightarrow> query_console \<Rightarrow> query_console" where
  "loadTable name c = c\<lparr>qc_sql := table_statement (qc_schema c) name, qc_writeMode := False\<rparr>"

definition loadHistory :: "string \<Rightarrow> bool \<Rightarrow> query_console \<Rightarrow> query_console" where
  "loadHistory txt mode c = c\<lparr>qc_sql := txt, qc_writeMode := mode\<rparr>"

definition shown_tables :: "query_console \<Rightarrow> TableInfo list" where
  "shown_tables c = (if qc_schema c = [] then [] else or_default (obj_get (qc_tables c) (qc_schema c)) [])"

datatype query_event =
    QSchemas "string list"
  | QTables string "TableInfo list"
  | QHistory "QueryHistoryEntry list"
  | QPickSchema string
  | QEdit string
  | QWrite bool
  | QTable string
  | QLoad QueryHistoryEntry
  | QRun
  | QCtrlEnter
  | QDone QueryResult
  | QFailed failure

text \<open>
  The handlers. The Run button is disabled without text, while the database is stopped and while a query is
  running; the keyboard shortcut calls \<open>execute\<close> directly.
\<close>

fun query_handle :: "Database \<Rightarrow> query_console \<Rightarrow> query_event \<Rightarrow> query_console \<times> endpoint option" where
  "query_handle db c (QSchemas ss) = (c\<lparr>qc_schemas := ss\<rparr>, None)"
| "query_handle db c (QTables s ts) = (c\<lparr>qc_tables := obj_set s ts (qc_tables c)\<rparr>, None)"
| "query_handle db c (QHistory hs) = (c\<lparr>qc_history := hs\<rparr>, None)"
| "query_handle db c (QPickSchema s) = ((if s \<in> set (qc_schemas c) then c\<lparr>qc_schema := s\<rparr> else c), None)"
| "query_handle db c (QEdit t) = (c\<lparr>qc_sql := t\<rparr>, None)"
| "query_handle db c (QWrite b) = (c\<lparr>qc_writeMode := b\<rparr>, None)"
| "query_handle db c (QTable n) = ((if n \<in> TableInfo_name ` set (shown_tables c) then loadTable n c else c), None)"
| "query_handle db c (QLoad h) =
     ((if h \<in> set (qc_history c) then loadHistory (QueryHistoryEntry_query_text h) (QueryHistoryEntry_write_mode h) c else c), None)"
| "query_handle db c QRun =
     (if trim (qc_sql c) = [] \<or> stopped db \<or> qc_pending c > 0 then (c, None) else query_execute db c)"
| "query_handle db c QCtrlEnter = query_execute db c"
| "query_handle db c (QDone r) = (c\<lparr>qc_result := Some r, qc_error := None, qc_pending := qc_pending c - 1\<rparr>, None)"
| "query_handle db c (QFailed e) =
     (c\<lparr>qc_result := None, qc_error := Some (error_text e ''Query failed.''), qc_pending := qc_pending c - 1\<rparr>, None)"

definition query_step :: "Database \<Rightarrow> query_console \<Rightarrow> query_event \<Rightarrow> query_console \<times> endpoint option" where
  "query_step db c e = (pick_schema (fst (query_handle db c e)), snd (query_handle db c e))"

text \<open>A row of the results table: \<open>None\<close> is a database NULL. Columns without a value show the empty text.\<close>

definition result_cell :: "QueryRow \<Rightarrow> nat \<Rightarrow> string option" where
  "result_cell r ci =
     (if ci < length (QueryRow_nulls r) \<and> QueryRow_nulls r ! ci then None
      else Some (if ci < length (QueryRow_values r) then QueryRow_values r ! ci else []))"

definition ResultsTable :: "QueryColumn list \<Rightarrow> QueryRow list \<Rightarrow> string option list list" where
  "ResultsTable columns rows = map (\<lambda>r. map (result_cell r) [0..<length columns]) rows"

definition dbTone :: "string \<Rightarrow> string" where
  "dbTone status =
     (if status = ''running'' then ''online'' else if status = ''provisioning'' then ''signal''
      else if status = ''stopped'' then ''warn'' else if status = ''error'' \<or> status = ''deleted'' then ''alert''
      else ''neutral'')"

definition formatRowCount :: "int \<Rightarrow> string" where
  "formatRowCount n =
     (if n < 1000 then show_int n else if n < 1000000 then to_fixed 1 (of_int n / 1000) @ ''k''
      else to_fixed 1 (of_int n / 1000000) @ ''M'')"

section \<open>What is sent and what the API makes of it\<close>

definition query_ok :: "query_console \<Rightarrow> bool" where
  "query_ok c = ((qc_result c = None \<or> qc_error c = None) \<and> (qc_schemas c \<noteq> [] \<and> [] \<notin> set (qc_schemas c) \<longrightarrow> qc_schema c \<noteq> []))"

lemma pick_schema_ok: "(qc_result c = None \<or> qc_error c = None) \<Longrightarrow> query_ok (pick_schema c)"
  by (cases "qc_schemas c") (auto simp: query_ok_def pick_schema_def)

interpretation query_run: request_machine "query_step db" query_ok
  "\<lambda>c ep. trim (qc_sql c) \<noteq> [] \<and> ep = run_request db c"
proof
  fix c e r
  show "query_ok (fst (query_step db c e))" if "query_ok c"
  proof -
    have "qc_result (fst (query_handle db c e)) = None \<or> qc_error (fst (query_handle db c e)) = None"
      using that by (cases e) (auto simp: query_ok_def loadTable_def loadHistory_def query_execute_def)
    then show ?thesis by (simp add: query_step_def pick_schema_ok)
  qed
  show "trim (qc_sql c) \<noteq> [] \<and> r = run_request db c" if "snd (query_step db c e) = Some r"
    using that by (cases e) (auto simp: query_step_def query_execute_def split: if_splits)
qed

text \<open>
  The console never shows a result and an error together, whatever order answers arrive in, and once schemas
  are listed one is selected; it sends only non-empty statements, trimmed, in the mode the switch shows.
\<close>

lemma query_console_consistent:
  "query_ok (after (query_step db) console_start es) \<and>
   (\<forall>(c, ep) \<in> set (emitted (query_step db) console_start es). trim (qc_sql c) \<noteq> [] \<and> ep = run_request db c)"
proof -
  have "query_ok console_start" by (simp add: query_ok_def console_start_def)
  then show ?thesis using query_run.after_inv query_run.emitted_guarded by fast
qed

lemma statement_start: "\<exists>t. table_statement s n = ''SELECT '' @ t \<and> t \<noteq> [] \<and> last t = CHR '';''"
  by (rule exI [of _ "''* FROM '' @ [CHR 0x22] @ s @ [CHR 0x22] @ ''.'' @ [CHR 0x22] @ n @ [CHR 0x22] @ [CHR 0x0A] @ ''LIMIT 100;''"])
    (simp add: table_statement_def)

lemma statement_trim: "trim (table_statement s n) = table_statement s n" "trim_by go_space (table_statement s n) = table_statement s n"
proof -
  obtain t where t: "table_statement s n = ''SELECT '' @ t" "t \<noteq> []" "last t = CHR '';''" using statement_start by blast
  show "trim (table_statement s n) = table_statement s n"
    unfolding t(1) by (rule trim_no_ws) (use t in \<open>simp_all add: is_ws_def code_of_def\<close>)
  show "trim_by go_space (table_statement s n) = table_statement s n"
    unfolding t(1) by (rule trim_by_none) (use t in \<open>simp_all add: go_space_def code_of_def\<close>)
qed

lemma statement_keyword: "firstQueryKeyword (table_statement s n) = ''SELECT''"
proof -
  obtain t where t: "table_statement s n = ''SELECT '' @ t" using statement_start by blast
  have "map go_upper ''SELECT'' = ''SELECT''" by code_simp
  moreover have "trim_by go_space (table_statement s n) = ''SELECT '' @ t" using statement_trim(2) [of s n] t by simp
  ultimately show ?thesis
    unfolding firstQueryKeyword_def Let_def by (simp add: keyword_junk_def keyword_sep_def)
qed

text \<open>
  C32: Clicking a table and running it always passes the checks of the API: whatever the schema and the table are
  called, the click switches write mode off and Run sends exactly the statement for that table of the selected
  schema, which the API accepts while the database is running.
\<close>

lemma table_query_accepted:
  assumes "n \<in> TableInfo_name ` set (shown_tables c)" and "\<not> stopped db" and "qc_pending c = 0" and "qc_schema c \<noteq> []"
    and "templates (Database_template_slug db)"
  shows "\<exists>c'. emitted (query_step db) c [QTable n, QRun] = [(c', dbToolingApi_runQuery (Database_id db)
      \<lparr>RunQueryInput_sql = table_statement (qc_schema c) n, RunQueryInput_write_mode = Some False\<rparr>)] \<and>
    query_check templates (Database_status db) (Database_template_slug db) (table_statement (qc_schema c) n) False = None"
proof -
  have ne: "table_statement (qc_schema c) n \<noteq> []" by (simp add: table_statement_def)
  then have s: "trim (table_statement (qc_schema c) n) \<noteq> []" unfolding statement_trim .
  have p: "pick_schema (loadTable n c) = loadTable n c" using assms(4) by (simp add: pick_schema_def loadTable_def)
  have "emitted (query_step db) c [QTable n, QRun] = [(loadTable n c, run_request db (loadTable n c))]"
    using assms s by (simp add: query_step_def p query_execute_def) (simp add: loadTable_def)
  moreover have "query_check templates (Database_status db) (Database_template_slug db) (table_statement (qc_schema c) n) False = None"
    using assms(2,5) by (simp add: query_check_def stopped_def statement_trim statement_keyword ddlKeywords_def readKeywords_def
        ne Let_def)
  ultimately show ?thesis by (auto simp: run_request_def statement_trim loadTable_def)
qed

definition sample_database :: Database where
  "sample_database = \<lparr>Database_id = ''d1'', Database_team_id = ''t1'', Database_project_id = ''p1'', Database_cluster_id = ''c1'',
     Database_server_id = ''s1'', Database_volume_id = None, Database_template_slug = ''postgres'', Database_version = ''16'',
     Database_name = ''main'', Database_container_name = ''db'', Database_status = ''running'', Database_port = 0, Database_dns_record = None, Database_superuser_secret_id = None, Database_appuser_secret_id = None,
     Database_resource_cpu_millicores = 0, Database_resource_memory_mb = 0, Database_backup_schedule = None, Database_backup_retention_days = None,
     Database_backup_storage_type = None, Database_provision_log = [], Database_error_message = None, Database_created_at = [],
     Database_updated_at = []\<rparr>"

lemma table_query_accepted_witness:
  "let c = console_start\<lparr>qc_schema := ''public'', qc_tables := [(''public'', [\<lparr>TableInfo_name = ''users'', TableInfo_row_count = 3\<rparr>])]\<rparr> in
   \<exists>c'. emitted (query_step sample_database) c [QTable ''users'', QRun] = [(c', dbToolingApi_runQuery ''d1''
      \<lparr>RunQueryInput_sql = table_statement ''public'' ''users'', RunQueryInput_write_mode = Some False\<rparr>)] \<and>
    query_check (\<lambda>s. True) ''running'' ''postgres'' (table_statement ''public'' ''users'') False = None"
proof -
  let ?c = "console_start\<lparr>qc_schema := ''public'', qc_tables := [(''public'', [\<lparr>TableInfo_name = ''users'', TableInfo_row_count = 3\<rparr>])]\<rparr>"
  have d: "Database_id sample_database = ''d1''" "Database_status sample_database = ''running''"
    "Database_template_slug sample_database = ''postgres''"
    by (simp_all add: sample_database_def)
  have t: "''users'' \<in> TableInfo_name ` set (shown_tables ?c)"
    by (simp add: shown_tables_def obj_get_def or_default_def)
  have c: "\<not> stopped sample_database" "qc_pending ?c = 0" "qc_schema ?c \<noteq> []" "qc_schema ?c = ''public''"
    by (simp_all add: stopped_def d console_start_def)
  from table_query_accepted [where templates = "\<lambda>s. True", OF t c(1-3) TrueI] show ?thesis unfolding Let_def d c(4) .
qed

lemma utf8_cut_prefix: "utf8_cut n s = Some t \<Longrightarrow> prefix t s \<and> utf8_len t \<le> n"
proof (induction n s arbitrary: t rule: utf8_cut.induct)
  case (2 n c s)
  then show ?case
    by (cases "n = 0"; cases "n < utf8_width c") (force simp: utf8_len_def split: if_splits)+
qed (simp add: utf8_len_def)

text \<open>
  A query loaded back from the history runs as it ran before, if it was short enough to be kept: for a query
  of at most 8192 bytes the history entry, loaded and run, sends the same statement in the same mode. A longer one
  is cut, and what is loaded is a proper prefix of the statement.
\<close>

lemma history_rerun:
  assumes "(c0, ep) \<in> set (emitted (query_step db) console_start es)"
    and "h \<in> set (qc_history c)" and "recordQueryHistory (trim (qc_sql c0)) = Some (QueryHistoryEntry_query_text h)"
    and "QueryHistoryEntry_write_mode h = qc_writeMode c0" and "\<not> stopped db" and "qc_pending c = 0"
  shows "(utf8_len (trim (qc_sql c0)) \<le> 8192 \<longrightarrow> (\<exists>c'. emitted (query_step db) c [QLoad h, QRun] = [(c', ep)])) \<and>
    (utf8_len (trim (qc_sql c0)) > 8192 \<longrightarrow> strict_prefix (QueryHistoryEntry_query_text h) (trim (qc_sql c0)))"
proof -
  let ?t = "trim (qc_sql c0)" and ?q = "QueryHistoryEntry_query_text h"
  have start: "query_ok console_start" by (simp add: query_ok_def console_start_def)
  from query_run.emitted_guarded [OF start assms(1)] have ne: "?t \<noteq> []" and ep: "ep = run_request db c0" by simp_all
  have long: "strict_prefix ?q ?t" if "utf8_len ?t > 8192"
  proof -
    have "utf8_cut 8192 ?t = Some ?q" using assms(3) ne that by (simp add: recordQueryHistory_def)
    from utf8_cut_prefix [OF this] that show ?thesis by (auto simp: strict_prefix_def)
  qed
  have short: "\<exists>c'. emitted (query_step db) c [QLoad h, QRun] = [(c', ep)]" if "utf8_len ?t \<le> 8192"
  proof -
    have q: "?q = ?t" using assms(3) ne that by (simp add: recordQueryHistory_def)
    let ?c = "pick_schema (loadHistory ?t (qc_writeMode c0) c)"
    have k: "qc_sql ?c = ?t" "qc_writeMode ?c = qc_writeMode c0" "qc_pending ?c = 0"
      using assms(6) by (simp_all add: pick_schema_def loadHistory_def)
    have "emitted (query_step db) c [QLoad h, QRun] = [(?c, run_request db ?c)]"
      using assms(2,4,5) ne k by (simp add: query_step_def query_execute_def q)
    moreover have "run_request db ?c = ep" by (simp add: run_request_def k ep)
    ultimately show ?thesis by auto
  qed
  from long short show ?thesis by blast
qed

lemma history_rerun_witness:
  "let h = \<lparr>QueryHistoryEntry_id = ''h1'', QueryHistoryEntry_user_id = ''u1'', QueryHistoryEntry_database_id = ''d1'',
        QueryHistoryEntry_query_text = ''SELECT 1;'', QueryHistoryEntry_write_mode = False,
        QueryHistoryEntry_execution_time_ms = None, QueryHistoryEntry_row_count = None, QueryHistoryEntry_error = None,
        QueryHistoryEntry_created_at = []\<rparr>;
       c = console_start\<lparr>qc_sql := ''SELECT 2;'', qc_history := [h]\<rparr>
   in \<exists>c'. emitted (query_step sample_database) c [QLoad h, QRun] = [(c', run_request sample_database console_start)]"
proof -
  let ?h = "\<lparr>QueryHistoryEntry_id = ''h1'', QueryHistoryEntry_user_id = ''u1'', QueryHistoryEntry_database_id = ''d1'',
        QueryHistoryEntry_query_text = ''SELECT 1;'', QueryHistoryEntry_write_mode = False,
        QueryHistoryEntry_execution_time_ms = None, QueryHistoryEntry_row_count = None, QueryHistoryEntry_error = None,
        QueryHistoryEntry_created_at = []\<rparr>"
  have s: "qc_sql console_start = ''SELECT 1;''" "qc_pending console_start = 0" "\<not> qc_writeMode console_start"
    by (simp_all add: console_start_def)
  have t: "trim ''SELECT 1;'' = ''SELECT 1;''" "utf8_len ''SELECT 1;'' = 9" by code_simp+
  have "\<not> stopped sample_database" by (simp add: stopped_def sample_database_def)
  moreover from this have "(console_start, run_request sample_database console_start) \<in>
      set (emitted (query_step sample_database) console_start [QRun])"
    by (simp add: query_step_def query_execute_def s t)
  ultimately show ?thesis
    using history_rerun [of console_start "run_request sample_database console_start" sample_database "[QRun]" ?h
        "console_start\<lparr>qc_sql := ''SELECT 2;'', qc_history := [?h]\<rparr>"]
    by (simp add: Let_def s t recordQueryHistory_def)
qed

text \<open>
  The read-only guard looks at the first word of the text only. A statement that starts with an allowed word
  and deletes rows in a common table expression, or that carries a second statement, is accepted with write mode
  off; and with write mode on a comment in front hides a statement that drops a table.
\<close>

lemma read_guard_first_word:
  "query_check (\<lambda>s. True) ''running'' ''postgres'' ''WITH d AS (DELETE FROM users RETURNING *) SELECT * FROM d'' False = None \<and>
   query_check (\<lambda>s. True) ''running'' ''postgres'' ''SELECT 1; DROP TABLE users'' False = None \<and>
   query_check (\<lambda>s. True) ''running'' ''postgres'' ''DROP TABLE users'' True = Some DdlRefused \<and>
   query_check (\<lambda>s. True) ''running'' ''postgres'' ''/**/ DROP TABLE users'' True = None"
  by code_simp

text \<open>The shortcut ignores what disables the button.\<close>

lemma shortcut_while_stopped:
  "trim (qc_sql c) \<noteq> [] \<Longrightarrow> stopped db \<Longrightarrow>
   snd (query_step db c QRun) = None \<and> snd (query_step db c QCtrlEnter) = Some (run_request db c)"
  by (simp add: query_step_def query_execute_def)

end
