(* ===== verification/Volume_Store.thy ===== *)
theory Volume_Store
  imports App_Store
begin

text \<open>
  The volume service of the API (\<open>internal/volume/service.go\<close>) and its handlers
  (\<open>internal/api/handler/volume.go\<close>): the state machine of a volume's status. A row of the table is the \<open>Volume\<close>
  of the console's data model, whose members are the columns. Moving, snapshotting and resizing mark the row,
  wait for the agent on the server, and then write the outcome; so each is a beginning and an end, and other
  operations may run in between. What the agent answers, the time and new identifiers are inputs; the
  \<open>updated_at\<close> stamp and database errors other than a missing row are not modelled.
\<close>

section \<open>Operations\<close>

text \<open>The outcome of \<open>dispatch\<close>: an error (no agent, send failure, timeout), or the agent's result.\<close>

record VolumeResult =
  vr_success :: bool
  vr_error :: string
  vr_used_bytes :: int

type_synonym agent_reply = "string + VolumeResult"

datatype volume_request =
    VAttach string string
  | VDetach
  | VMove string
  | VSnapshot
  | VResize int

text \<open>An operation that waits for the agent, with the status it found.\<close>

datatype pending_op =
    Moving string string
  | Snapshotting string
  | Resizing string int

text \<open>A status in an error message (\<open>%q\<close>); the statuses hold no character that is escaped.\<close>

definition go_quote :: "string \<Rightarrow> string" where
  "go_quote s = CHR 0x22 # s @ [CHR 0x22]"

text \<open>
  The part of each operation before it waits: the checks in order, then the first write. \<open>Inl\<close> is the refusal.
  Attaching and detaching end there. \<open>member_cluster\<close> is the cluster a server is a member of.
\<close>

fun volume_begin ::
    "(string \<Rightarrow> string option) \<Rightarrow> Volume \<Rightarrow> volume_request \<Rightarrow> string + (Volume \<times> pending_op option)" where
  "volume_begin member_cluster v (VAttach cn mp) =
     (if Volume_status v \<noteq> ''unattached'' then Inl (''cannot attach volume in status '' @ go_quote (Volume_status v))
      else if cn = [] \<or> mp = [] then Inl ''container_name and mount_path are required''
      else Inr (v\<lparr>Volume_status := ''attached'', Volume_mount_path := Some mp, Volume_container_name := Some cn\<rparr>, None))"
| "volume_begin member_cluster v VDetach =
     (if Volume_status v \<noteq> ''attached'' then Inl (''cannot detach volume in status '' @ go_quote (Volume_status v))
      else Inr (v\<lparr>Volume_status := ''unattached'', Volume_mount_path := None, Volume_container_name := None\<rparr>, None))"
| "volume_begin member_cluster v (VMove target) =
     (if Volume_status v \<noteq> ''unattached'' \<and> Volume_status v \<noteq> ''attached'' then Inl (''cannot move volume in status '' @ go_quote (Volume_status v))
      else if target = Volume_server_id v then Inl ''target server is the same as current server''
      else case member_cluster target of
        None \<Rightarrow> Inl ''target server is not part of any cluster: no rows in result set''
      | Some c \<Rightarrow>
          if c \<noteq> Volume_cluster_id v then Inl ''target server is in a different cluster''
          else Inr (v\<lparr>Volume_status := ''moving''\<rparr>, Some (Moving (Volume_status v) target)))"
| "volume_begin member_cluster v VSnapshot =
     Inr (v\<lparr>Volume_status := ''snapshotting''\<rparr>, Some (Snapshotting (Volume_status v)))"
| "volume_begin member_cluster v (VResize n) =
     (if n \<le> Volume_size_gb v then Inl (''new size must be greater than current size ('' @ show_int (Volume_size_gb v) @ '' GB)'')
      else Inr (v\<lparr>Volume_status := ''resizing''\<rparr>, Some (Resizing (Volume_status v) n)))"

text \<open>\<open>HandleResult\<close>: a result that reports usage stores it before the waiting operation goes on.\<close>

definition HandleResult :: "agent_reply \<Rightarrow> Volume \<Rightarrow> Volume" where
  "HandleResult reply v =
     (case reply of Inr r \<Rightarrow> if vr_used_bytes r > 0 then v\<lparr>Volume_used_bytes := vr_used_bytes r\<rparr> else v | Inl e \<Rightarrow> v)"

definition reply_ok :: "agent_reply \<Rightarrow> bool" where
  "reply_ok reply = (case reply of Inr r \<Rightarrow> vr_success r | Inl e \<Rightarrow> False)"

text \<open>The part after the agent's reply, on the row as it is then. A failed move leaves the status \<open>error\<close>.\<close>

fun volume_end :: "pending_op \<Rightarrow> agent_reply \<Rightarrow> Volume \<Rightarrow> Volume" where
  "volume_end (Moving st target) reply v =
     (if reply_ok reply then (HandleResult reply v)\<lparr>Volume_server_id := target, Volume_status := st\<rparr>
      else (HandleResult reply v)\<lparr>Volume_status := ''error''\<rparr>)"
| "volume_end (Snapshotting st) reply v = (HandleResult reply v)\<lparr>Volume_status := st\<rparr>"
| "volume_end (Resizing st n) reply v =
     (if reply_ok reply then (HandleResult reply v)\<lparr>Volume_size_gb := n, Volume_status := st\<rparr>
      else (HandleResult reply v)\<lparr>Volume_status := st\<rparr>)"

lemma HandleResult_keeps [simp]:
  "Volume_id (HandleResult r v) = Volume_id v" "Volume_team_id (HandleResult r v) = Volume_team_id v"
  "Volume_cluster_id (HandleResult r v) = Volume_cluster_id v" "Volume_server_id (HandleResult r v) = Volume_server_id v"
  "Volume_size_gb (HandleResult r v) = Volume_size_gb v" "Volume_status (HandleResult r v) = Volume_status v"
  "Volume_mount_path (HandleResult r v) = Volume_mount_path v" "Volume_container_name (HandleResult r v) = Volume_container_name v"
  "Volume_host_path (HandleResult r v) = Volume_host_path v"
  by (simp_all add: HandleResult_def split: sum.split)

text \<open>An operation that nothing interrupts.\<close>

definition volume_op :: "(string \<Rightarrow> string option) \<Rightarrow> Volume \<Rightarrow> volume_request \<times> agent_reply \<Rightarrow> Volume" where
  "volume_op member_cluster v r =
     (case volume_begin member_cluster v (fst r) of
        Inl e \<Rightarrow> v
      | Inr (v', None) \<Rightarrow> v'
      | Inr (v', Some op) \<Rightarrow> volume_end op (snd r) v')"

text \<open>\<open>Delete\<close> asks the agent to wipe the directory and removes the row whatever the agent says.\<close>

definition volume_Delete :: "Volume \<Rightarrow> string + unit" where
  "volume_Delete v = (if Volume_status v = ''attached'' then Inl ''cannot delete attached volume; detach first'' else Inr ())"

text \<open>
  \<open>Create\<close>, for a name that is free in the team: the row is unattached unless the agent could not be asked; what
  the agent answers is not looked at.
\<close>

definition volume_Create :: "string \<Rightarrow> string \<Rightarrow> string \<Rightarrow> string \<Rightarrow> string \<Rightarrow> string \<Rightarrow> int \<Rightarrow> string \<Rightarrow> agent_reply \<Rightarrow> Volume" where
  "volume_Create newId now team cluster server name gb fs reply =
     \<lparr>Volume_id = newId, Volume_team_id = team, Volume_cluster_id = cluster, Volume_server_id = server, Volume_name = name,
      Volume_size_gb = gb, Volume_used_bytes = 0, Volume_filesystem = (if fs = [] then ''ext4'' else fs),
      Volume_mount_path = None, Volume_container_name = None,
      Volume_status = (case reply of Inl e \<Rightarrow> ''error'' | Inr r \<Rightarrow> ''unattached''),
      Volume_host_path = ''/var/lib/nixway/volumes/'' @ newId, Volume_created_at = now, Volume_updated_at = now\<rparr>"

section \<open>Handlers\<close>

text \<open>The value of a query parameter, empty when it is absent.\<close>

definition url_query :: "string \<Rightarrow> string" where
  "url_query u = takeWhile (\<lambda>c. c \<noteq> CHR ''#'') (drop 1 (dropWhile (\<lambda>c. c \<noteq> CHR ''?'') u))"

definition query_get :: "string \<Rightarrow> string \<Rightarrow> string" where
  "query_get u k = (case parse_query (url_query u) of None \<Rightarrow> [] | Some ps \<Rightarrow> or_default (map_of ps k) [])"

definition VolumeHandler_Delete :: "string \<Rightarrow> Volume option \<Rightarrow> Volume option \<times> unit reply" where
  "VolumeHandler_Delete url row =
     (if query_get url ''confirm'' \<noteq> ''true''
      then (row, Inl (400, ''confirm=true query parameter is required to delete a volume''))
      else case row of
        None \<Rightarrow> (row, Inl (422, ''get volume: no rows in result set''))
      | Some v \<Rightarrow> (case volume_Delete v of Inl e \<Rightarrow> (row, Inl (422, e)) | Inr u \<Rightarrow> (None, Inr ())))"

definition VolumeHandler_Attach ::
    "(string \<Rightarrow> bool) \<Rightarrow> js option \<Rightarrow> Volume \<Rightarrow> Volume \<times> Volume reply" where
  "VolumeHandler_Attach uuid body v =
     (if \<not> DecodeJSON uuid attachVolumeRequest body then (v, Inl (400, ''invalid request body''))
      else case volume_begin (\<lambda>_. None) v (VAttach (go_str (the body) ''container_name'') (go_str (the body) ''mount_path'')) of
        Inl e \<Rightarrow> (v, Inl (422, e)) | Inr (v', op) \<Rightarrow> (v', Inr v'))"

definition VolumeHandler_Resize ::
    "(string \<Rightarrow> bool) \<Rightarrow> agent_reply \<Rightarrow> js option \<Rightarrow> Volume \<Rightarrow> Volume \<times> Volume reply" where
  "VolumeHandler_Resize uuid reply body v =
     (if \<not> DecodeJSON uuid resizeVolumeRequest body then (v, Inl (400, ''invalid request body''))
      else (let n = go_int (the body) ''new_size_gb'' in
            if n \<le> 0 then (v, Inl (400, ''new_size_gb must be positive''))
            else (let v' = volume_op (\<lambda>_. None) v (VResize n, reply) in
                  case volume_begin (\<lambda>_. None) v (VResize n) of
                    Inl e \<Rightarrow> (v, Inl (422, e))
                  | Inr _ \<Rightarrow>
                      (case reply of
                         Inl e \<Rightarrow> (v', Inl (422, ''resize dispatch: '' @ e))
                       | Inr r \<Rightarrow> if vr_success r then (v', Inr (v'\<lparr>Volume_status := ''resizing''\<rparr>))
                                 else (v', Inl (422, ''resize failed: '' @ vr_error r))))))"

definition VolumeHandler_Create ::
    "(string \<Rightarrow> bool) \<Rightarrow> (string \<Rightarrow> bool) \<Rightarrow> string \<Rightarrow> string \<Rightarrow> string \<Rightarrow> agent_reply \<Rightarrow> js option \<Rightarrow> Volume reply" where
  "VolumeHandler_Create uuid nil newId now team reply body =
     (if \<not> DecodeJSON uuid createVolumeRequest body then Inl (400, ''invalid request body'')
      else (let b = the body; c = go_str b ''cluster_id''; s = go_str b ''server_id''; n = go_str b ''name'' in
            if nil c \<or> nil s then Inl (400, ''cluster_id and server_id are required'')
            else if trim_by go_space n = [] then Inl (400, ''name is required'')
            else if go_int b ''size_gb'' \<le> 0 then Inl (400, ''size_gb must be positive'')
            else Inr (volume_Create newId now team c s n (go_int b ''size_gb'') (go_str b ''filesystem'') reply)))"

section \<open>The life of a volume\<close>

text \<open>Between operations a volume is idle, attached with its mount, or in error.\<close>

definition volume_ok :: "Volume \<Rightarrow> bool" where
  "volume_ok v =
     (Volume_status v \<in> {''unattached'', ''attached'', ''error''} \<and>
      (Volume_status v = ''attached'' \<longrightarrow> Volume_container_name v \<noteq> None \<and> Volume_mount_path v \<noteq> None) \<and>
      (Volume_status v = ''unattached'' \<longrightarrow> Volume_container_name v = None \<and> Volume_mount_path v = None))"

lemma volume_op_ok: "volume_ok v \<Longrightarrow> volume_ok (volume_op mc v r)"
  by (cases "fst r") (auto simp: volume_op_def volume_ok_def split: option.splits sum.splits)

lemma volume_op_keeps:
  "Volume_size_gb v \<le> Volume_size_gb (volume_op mc v r)" "Volume_id (volume_op mc v r) = Volume_id v"
  "Volume_team_id (volume_op mc v r) = Volume_team_id v" "Volume_cluster_id (volume_op mc v r) = Volume_cluster_id v"
  "Volume_host_path (volume_op mc v r) = Volume_host_path v"
  by (cases "fst r"; auto simp: volume_op_def split: option.splits sum.splits)+

lemma volume_op_server:
  "Volume_server_id (volume_op mc v r) = Volume_server_id v \<or> mc (Volume_server_id (volume_op mc v r)) = Some (Volume_cluster_id v)"
  by (cases "fst r") (auto simp: volume_op_def split: option.splits sum.splits)

interpretation volume_run: event_machine "volume_op mc" volume_ok
  by unfold_locales (rule volume_op_ok)


lemma volume_op_stuck:
  "Volume_status v \<notin> {''unattached'', ''attached''} \<Longrightarrow> Volume_status (volume_op mc v r) = Volume_status v"
  by (cases "fst r") (auto simp: volume_op_def split: option.splits sum.splits)

text \<open>
  A volume in any other status than unattached or attached stays in it for good: every operation is refused or
  puts the status it found back. In particular a volume whose move failed is in error for ever and can only be
  deleted.
\<close>

lemma volume_stuck:
  assumes "Volume_status v \<notin> {''unattached'', ''attached''}"
  shows "Volume_status (foldl (volume_op mc) v rs) = Volume_status v \<and>
    (\<forall>cn mp. \<exists>e. volume_begin mc (foldl (volume_op mc) v rs) (VAttach cn mp) = Inl e)"
proof -
  have "Volume_status (foldl (volume_op mc) v rs) = Volume_status v" for rs
    using assms by (induction rs rule: rev_induct) (auto simp: volume_op_stuck)
  then show ?thesis using assms by simp
qed

section \<open>Overlapping operations\<close>

text \<open>A volume with the operations that wait for an agent; any of them may end next, with any reply.\<close>

inductive volume_step :: "(string \<Rightarrow> string option) \<Rightarrow> Volume \<times> pending_op list \<Rightarrow> Volume \<times> pending_op list \<Rightarrow> bool"
  for mc where
  vs_atomic: "volume_begin mc v r = Inr (v', None) \<Longrightarrow> volume_step mc (v, ops) (v', ops)"
| vs_begin: "volume_begin mc v r = Inr (v', Some op) \<Longrightarrow> volume_step mc (v, ops) (v', ops @ [op])"
| vs_end: "op \<in> set ops \<Longrightarrow> volume_step mc (v, ops) (volume_end op reply v, remove1 op ops)"

inductive_simps volume_step_simps: "volume_step mc (v, ops) w"

text \<open>
  Overlapping operations can leave a volume unusable. From an idle volume there is a run in which a snapshot is
  taken while the volume moves, both succeed, nothing is waiting any more, and the status that remains is moving,
  put back by the snapshot; from then on no operation changes it and the volume can never be attached again.
\<close>

lemma volume_overlap_stuck:
  assumes "Volume_status v = ''unattached''" and "mc t = Some (Volume_cluster_id v)" and "t \<noteq> Volume_server_id v"
  shows "\<exists>v'. (volume_step mc)\<^sup>*\<^sup>* (v, []) (v', []) \<and> Volume_server_id v' = t \<and> Volume_status v' = ''moving'' \<and>
    (\<forall>rs cn mp. \<exists>e. volume_begin mc (foldl (volume_op mc) v' rs) (VAttach cn mp) = Inl e)"
proof -
  let ?ok = "Inr \<lparr>vr_success = True, vr_error = [], vr_used_bytes = 0\<rparr> :: agent_reply"
  let ?m = "Moving ''unattached'' t" and ?s = "Snapshotting ''moving''"
  let ?v1 = "v\<lparr>Volume_status := ''moving''\<rparr>" and ?v2 = "v\<lparr>Volume_status := ''snapshotting''\<rparr>"
  let ?v3 = "v\<lparr>Volume_server_id := t, Volume_status := ''unattached''\<rparr>" and ?v4 = "v\<lparr>Volume_server_id := t, Volume_status := ''moving''\<rparr>"
  have "volume_step mc (v, []) (?v1, [] @ [?m])" by (rule vs_begin [of _ _ "VMove t"]) (use assms in simp)
  moreover have "volume_step mc (?v1, [?m]) (?v2, [?m] @ [?s])" by (rule vs_begin [of _ _ VSnapshot]) simp
  moreover have "volume_step mc (?v2, [?m, ?s]) (volume_end ?m ?ok ?v2, remove1 ?m [?m, ?s])" by (rule vs_end) simp
  moreover have "volume_step mc (?v3, [?s]) (volume_end ?s ?ok ?v3, remove1 ?s [?s])" by (rule vs_end) simp
  ultimately have "(volume_step mc)\<^sup>*\<^sup>* (v, []) (?v4, [])" by (auto simp: reply_ok_def HandleResult_def intro: converse_rtranclp_into_rtranclp)
  moreover have "\<forall>rs cn mp. \<exists>e. volume_begin mc (foldl (volume_op mc) ?v4 rs) (VAttach cn mp) = Inl e"
    using volume_stuck [of ?v4 mc] by auto
  ultimately show ?thesis by (intro exI [of _ ?v4]) simp
qed

section \<open>Instances\<close>

definition idle_volume :: Volume where
  "idle_volume = volume_Create ''v1'' ''now'' ''t1'' ''c1'' ''s1'' ''data'' 10 [] (Inr \<lparr>vr_success = True, vr_error = [], vr_used_bytes = 0\<rparr>)"

abbreviation one_cluster :: "string \<Rightarrow> string option" where
  "one_cluster \<equiv> (\<lambda>_. Some ''c1'')"

lemma idle_volume_fields:
  "Volume_status idle_volume = ''unattached''" "Volume_cluster_id idle_volume = ''c1''" "Volume_server_id idle_volume = ''s1''"
  "volume_ok idle_volume" "Volume_size_gb idle_volume = 10"
  by (simp_all add: idle_volume_def volume_Create_def volume_ok_def)


lemma volume_overlap_stuck_witness:
  "\<exists>v'. (volume_step one_cluster)\<^sup>*\<^sup>* (idle_volume, []) (v', []) \<and> Volume_server_id v' = ''s2'' \<and> Volume_status v' = ''moving''"
  using volume_overlap_stuck [OF idle_volume_fields(1), of one_cluster "''s2''"] by (auto simp: idle_volume_fields)

lemma volume_stuck_witness:
  "let v = volume_op one_cluster idle_volume (VMove ''s2'', Inl ''timeout'') in
   Volume_status v = ''error'' \<and> (\<forall>rs. Volume_status (foldl (volume_op one_cluster) v rs) = ''error'')"
proof -
  let ?v = "volume_op one_cluster idle_volume (VMove ''s2'', Inl ''timeout'')"
  have e: "Volume_status ?v = ''error''" by (simp add: volume_op_def idle_volume_fields reply_ok_def)
  then have "Volume_status ?v \<notin> {''unattached'', ''attached''}" by simp
  from volume_stuck [OF this] e show ?thesis unfolding Let_def by auto
qed

end
