(* ===== verification/Volumes_Page.thy ===== *)
theory Volumes_Page
  imports Volume_Store App_Pages Metrics
begin

text \<open>
  The volumes page (\<open>components/volumes/VolumesClient.tsx\<close>): the actions offered on a row, the dialogs that create,
  attach, resize and move a volume, the usage meter and the formatting, and what the API makes of their requests.
  The tables and menus as markup are not modelled.
\<close>

section \<open>Rows\<close>

definition offers_detach :: "Volume \<Rightarrow> bool" where
  "offers_detach v = (Volume_status v = ''attached'')"

definition move_disabled :: "Volume \<Rightarrow> bool" where
  "move_disabled v = (Volume_status v = ''attached'')"

text \<open>The servers offered as targets; the condition of the filter is true on both branches.\<close>

definition move_servers :: "Server list \<Rightarrow> Cluster list \<Rightarrow> Volume \<Rightarrow> Server list" where
  "move_servers servers clusters v =
     filter (\<lambda>s. if Server_id s \<noteq> Volume_server_id v \<and> Volume_cluster_id v \<in> Cluster_id ` set clusters then True else True) servers"

definition server_label :: "Server list \<Rightarrow> Volume \<Rightarrow> string" where
  "server_label servers v =
     (case find (\<lambda>s. Server_id s = Volume_server_id v) (rev servers) of
        Some s \<Rightarrow> Server_name s | None \<Rightarrow> take 8 (Volume_server_id v))"

definition usage_pct :: "int \<Rightarrow> int \<Rightarrow> rat" where
  "usage_pct usedBytes sizeGb =
     (let totalBytes = sizeGb * 1024 * 1024 * 1024 in
      if totalBytes > 0 then min 100 (of_int usedBytes / of_int totalBytes * 100) else 0)"

definition usage_tone :: "rat \<Rightarrow> string" where
  "usage_tone pct = (if pct > 90 then ''alert'' else if pct > 75 then ''warn'' else ''online'')"

definition volumeTone :: "string \<Rightarrow> string" where
  "volumeTone status =
     (if status = ''attached'' then ''online'' else if status = ''unattached'' then ''warn''
      else if status \<in> {''attaching'', ''detaching'', ''moving'', ''resizing'', ''snapshotting''} then ''signal''
      else if status = ''error'' then ''alert'' else ''neutral'')"

definition volume_formatBytes :: "int \<Rightarrow> string" where
  "volume_formatBytes n =
     (let (v, i) = bytes_loop (of_int n) 0 in to_fixed (if 100 \<le> v \<or> i = 0 then 0 else 1) v @ '' '' @ units ! i)"

section \<open>Creating\<close>

record volume_create =
  vc_open :: bool
  vc_clusterId :: string
  vc_serverId :: string
  vc_name :: string
  vc_sizeGb :: string
  vc_filesystem :: string
  vc_error :: "string option"

definition first_id :: "('a \<Rightarrow> string) \<Rightarrow> 'a list \<Rightarrow> string" where
  "first_id f xs = (case xs of [] \<Rightarrow> [] | x # _ \<Rightarrow> f x)"

definition volume_create_reset :: "Cluster list \<Rightarrow> Server list \<Rightarrow> volume_create \<Rightarrow> volume_create" where
  "volume_create_reset clusters servers d = d\<lparr>vc_clusterId := first_id Cluster_id clusters, vc_serverId := first_id Server_id servers,
     vc_name := [], vc_sizeGb := ''10'', vc_filesystem := ''ext4'', vc_error := None\<rparr>"

definition volume_create_init :: "Cluster list \<Rightarrow> Server list \<Rightarrow> volume_create" where
  "volume_create_init clusters servers = \<lparr>vc_open = False, vc_clusterId = first_id Cluster_id clusters,
     vc_serverId = first_id Server_id servers, vc_name = [], vc_sizeGb = ''10'', vc_filesystem = ''ext4'', vc_error = None\<rparr>"

text \<open>\<open>x <= 0\<close>, which is false for \<open>NaN\<close>.\<close>

fun at_most_zero :: "jsnum \<Rightarrow> bool" where
  "at_most_zero (Num x) = (x \<le> 0)"
| "at_most_zero MinusInfinity = True"
| "at_most_zero _ = False"

definition volume_create_ready :: "volume_create \<Rightarrow> bool" where
  "volume_create_ready d =
     (vc_clusterId d \<noteq> [] \<and> vc_serverId d \<noteq> [] \<and> trim (vc_name d) \<noteq> [] \<and> \<not> at_most_zero (Number (vc_sizeGb d)))"

definition volume_create_request :: "string \<Rightarrow> volume_create \<Rightarrow> endpoint" where
  "volume_create_request teamId d = volumesApi_create teamId
     \<lparr>CreateVolumeInput_cluster_id = vc_clusterId d, CreateVolumeInput_server_id = vc_serverId d,
      CreateVolumeInput_name = trim (vc_name d), CreateVolumeInput_size_gb = num_or (Number (vc_sizeGb d)) (Num 0),
      CreateVolumeInput_filesystem = (if trim (vc_filesystem d) = [] then None else Some (trim (vc_filesystem d)))\<rparr>"

datatype volume_create_event =
    VCOpen bool | VCCluster string | VCServer string | VCName string | VCSize string | VCFilesystem string
  | VCSubmit | VCCreated Volume | VCFailed failure

fun volume_create_step ::
    "string \<Rightarrow> Cluster list \<Rightarrow> Server list \<Rightarrow> volume_create \<Rightarrow> volume_create_event \<Rightarrow> volume_create \<times> endpoint option" where
  "volume_create_step t cs ss d (VCOpen b) = ((let d' = d\<lparr>vc_open := b\<rparr> in if b then d' else volume_create_reset cs ss d'), None)"
| "volume_create_step t cs ss d (VCCluster i) = ((if i \<in> Cluster_id ` set cs then d\<lparr>vc_clusterId := i\<rparr> else d), None)"
| "volume_create_step t cs ss d (VCServer i) = ((if i \<in> Server_id ` set ss then d\<lparr>vc_serverId := i\<rparr> else d), None)"
| "volume_create_step t cs ss d (VCName s) = (d\<lparr>vc_name := s\<rparr>, None)"
| "volume_create_step t cs ss d (VCSize s) = (d\<lparr>vc_sizeGb := s\<rparr>, None)"
| "volume_create_step t cs ss d (VCFilesystem s) = (d\<lparr>vc_filesystem := s\<rparr>, None)"
| "volume_create_step t cs ss d VCSubmit = (d, if volume_create_ready d then Some (volume_create_request t d) else None)"
| "volume_create_step t cs ss d (VCCreated v) = (volume_create_reset cs ss (d\<lparr>vc_open := False\<rparr>), None)"
| "volume_create_step t cs ss d (VCFailed e) = (d\<lparr>vc_error := Some (error_text e ''Could not create volume.'')\<rparr>, None)"

section \<open>Attaching, resizing and moving\<close>

record attach_dialog =
  va_open :: bool
  va_containerName :: string
  va_mountPath :: string
  va_error :: "string option"

definition attach_init :: attach_dialog where
  "attach_init = \<lparr>va_open = False, va_containerName = [], va_mountPath = ''/data'', va_error = None\<rparr>"

datatype attach_event = ATOpen bool | ATContainer string | ATMount string | ATSubmit | ATDone | ATFailed failure

definition attach_request :: "string \<Rightarrow> Volume \<Rightarrow> attach_dialog \<Rightarrow> endpoint" where
  "attach_request t v d = volumesApi_attach t (Volume_id v)
     \<lparr>AttachVolumeInput_container_name = trim (va_containerName d), AttachVolumeInput_mount_path = trim (va_mountPath d)\<rparr>"

fun attach_step :: "string \<Rightarrow> Volume \<Rightarrow> attach_dialog \<Rightarrow> attach_event \<Rightarrow> attach_dialog \<times> endpoint option" where
  "attach_step t v d (ATOpen b) =
     ((if b then d\<lparr>va_open := True\<rparr> else d\<lparr>va_open := False, va_error := None, va_containerName := [], va_mountPath := ''/data''\<rparr>), None)"
| "attach_step t v d (ATContainer s) = (d\<lparr>va_containerName := s\<rparr>, None)"
| "attach_step t v d (ATMount s) = (d\<lparr>va_mountPath := s\<rparr>, None)"
| "attach_step t v d ATSubmit =
     (d, if trim (va_containerName d) = [] \<or> trim (va_mountPath d) = [] then None else Some (attach_request t v d))"
| "attach_step t v d ATDone = (d\<lparr>va_open := False\<rparr>, None)"
| "attach_step t v d (ATFailed e) = (d\<lparr>va_error := Some (error_text e ''Could not attach.'')\<rparr>, None)"

record resize_dialog =
  vz_open :: bool
  vz_newSize :: string
  vz_error :: "string option"

definition resize_init :: "Volume \<Rightarrow> resize_dialog" where
  "resize_init v = \<lparr>vz_open = False, vz_newSize = show_int (Volume_size_gb v), vz_error = None\<rparr>"

definition resize_target :: "resize_dialog \<Rightarrow> jsnum" where
  "resize_target d = num_or (Number (vz_newSize d)) (Num 0)"

text \<open>\<open>target < size\<close>.\<close>

fun num_below :: "jsnum \<Rightarrow> int \<Rightarrow> bool" where
  "num_below (Num x) n = (x < of_int n)"
| "num_below MinusInfinity n = True"
| "num_below _ n = False"

definition resize_shrinking :: "Volume \<Rightarrow> resize_dialog \<Rightarrow> bool" where
  "resize_shrinking v d = num_below (resize_target d) (Volume_size_gb v)"

definition resize_disabled :: "Volume \<Rightarrow> resize_dialog \<Rightarrow> bool" where
  "resize_disabled v d = (at_most_zero (resize_target d) \<or> resize_target d = Num (of_int (Volume_size_gb v)))"

datatype resize_event = RZOpen bool | RZSize string | RZSubmit | RZDone | RZFailed failure

fun resize_step :: "string \<Rightarrow> Volume \<Rightarrow> resize_dialog \<Rightarrow> resize_event \<Rightarrow> resize_dialog \<times> endpoint option" where
  "resize_step t v d (RZOpen b) =
     ((if b then d\<lparr>vz_open := True\<rparr> else d\<lparr>vz_open := False, vz_error := None, vz_newSize := show_int (Volume_size_gb v)\<rparr>), None)"
| "resize_step t v d (RZSize s) = (d\<lparr>vz_newSize := s\<rparr>, None)"
| "resize_step t v d RZSubmit = (d, if resize_disabled v d then None else Some (volumesApi_resize t (Volume_id v) (resize_target d)))"
| "resize_step t v d RZDone = (d\<lparr>vz_open := False\<rparr>, None)"
| "resize_step t v d (RZFailed e) = (d\<lparr>vz_error := Some (error_text e ''Could not resize.'')\<rparr>, None)"

record move_dialog =
  vm_open :: bool
  vm_target :: string
  vm_error :: "string option"

definition move_init :: "Server list \<Rightarrow> move_dialog" where
  "move_init servers = \<lparr>vm_open = False, vm_target = first_id Server_id servers, vm_error = None\<rparr>"

datatype move_event = MVOpen bool | MVTarget string | MVSubmit | MVDone | MVFailed failure

fun move_step :: "string \<Rightarrow> Volume \<Rightarrow> Server list \<Rightarrow> move_dialog \<Rightarrow> move_event \<Rightarrow> move_dialog \<times> endpoint option" where
  "move_step t v ss d (MVOpen b) = ((if b then d\<lparr>vm_open := True\<rparr> else d\<lparr>vm_open := False, vm_error := None\<rparr>), None)"
| "move_step t v ss d (MVTarget i) = ((if i \<in> Server_id ` set ss then d\<lparr>vm_target := i\<rparr> else d), None)"
| "move_step t v ss d MVSubmit =
     (d, if vm_target d = [] \<or> vm_target d = Volume_server_id v then None else Some (volumesApi_move t (Volume_id v) (vm_target d)))"
| "move_step t v ss d MVDone = (d\<lparr>vm_open := False\<rparr>, None)"
| "move_step t v ss d (MVFailed e) = (d\<lparr>vm_error := Some (error_text e ''Could not move.'')\<rparr>, None)"

section \<open>What the API makes of it\<close>

text \<open>
  Deleting a volume from the console never works. The request reaches the handler, but without the query
  parameter the handler requires, so it is answered with 400 and the volume stays, whatever its status.
\<close>

lemma volume_delete_refused:
  assumes "plain_seg t" and "plain_seg i"
  shows "''volumeH.Delete'' \<in> set (handlers (volumesApi_remove t i)) \<and>
    VolumeHandler_Delete (fa_url (call_args (volumesApi_remove t i))) row =
      (row, Inl (400, ''confirm=true query parameter is required to delete a volume''))"
proof -
  have "''volumeH.Delete'' \<in> set (handlers (volumesApi_remove t i))"
    using assms by (auto intro!: console_call_handled console_call.intros)
  moreover have u: "fa_url (call_args (volumesApi_remove t i)) = ''/api/v1/teams/'' @ t @ ''/volumes/'' @ i"
    by (simp add: volumesApi_remove_def api_verbs call_args_def request_args_plain BASE_def)
  have "CHR ''?'' \<notin> set t" "CHR ''?'' \<notin> set i" using assms unfolding plain_seg_def by blast+
  then have "CHR ''?'' \<notin> set (fa_url (call_args (volumesApi_remove t i)))" unfolding u by simp
  then have e: "dropWhile (\<lambda>c. c \<noteq> CHR ''?'') (fa_url (call_args (volumesApi_remove t i))) = []"
    unfolding dropWhile_eq_Nil_conv by blast
  have "query_get (fa_url (call_args (volumesApi_remove t i))) ''confirm'' = []"
    unfolding query_get_def url_query_def e by (simp add: parse_query_def or_default_def)
  ultimately show ?thesis by (simp add: VolumeHandler_Delete_def)
qed

lemma volume_delete_refused_witness:
  "VolumeHandler_Delete (fa_url (call_args (volumesApi_remove ''t1'' ''v1''))) (Some idle_volume) =
     (Some idle_volume, Inl (400, ''confirm=true query parameter is required to delete a volume''))"
  by (rule conjunct2 [OF volume_delete_refused])
    (simp_all add: plain_seg_def single_dot_def double_dot_def toLowerCase_def lower_char_def code_of_def)

text \<open>
  Resizing a volume: a larger whole size typed into the dialog is what the API stores when the agent succeeds,
  in the status the volume had, and the dialog opened on the new row shows it. A smaller one is offered too, with a
  warning that data may be lost, but the API refuses it and the volume stays as it was.
\<close>

lemma volume_resize_effect:
  assumes "int32 n" and "n > 0" and "n \<noteq> Volume_size_gb v"
    and "d = (resize_init v)\<lparr>vz_newSize := show_int n\<rparr>"
  shows "\<exists>ep. snd (resize_step t v d RZSubmit) = Some ep \<and> resize_shrinking v d = (n < Volume_size_gb v) \<and>
    (n < Volume_size_gb v \<longrightarrow> (\<exists>e. VolumeHandler_Resize uuid reply (fa_body (call_args ep)) v = (v, Inl (422, e)))) \<and>
    (n > Volume_size_gb v \<and> reply_ok reply \<longrightarrow>
      (\<exists>v' w. VolumeHandler_Resize uuid reply (fa_body (call_args ep)) v = (v', Inr w) \<and> Volume_size_gb v' = n \<and>
        Volume_status v' = Volume_status v \<and> vz_newSize (resize_init v') = show_int n))"
proof -
  have t: "resize_target d = Num (of_int n)" using assms(2,4) by (simp add: resize_target_def num_or_def)
  have s: "resize_shrinking v d = (n < Volume_size_gb v)" by (simp add: resize_shrinking_def t)
  have e: "\<not> resize_disabled v d" using assms(2,3) by (simp add: resize_disabled_def t)
  let ?ep = "volumesApi_resize t (Volume_id v) (resize_target d)"
  have b: "fa_body (call_args ?ep) = Some (JObj [(''new_size_gb'', JNum (Num (of_int n)))])"
    by (simp add: wire_body volumesApi_resize_def api_verbs t)
  have dec: "DecodeJSON uuid resizeVolumeRequest (Some (JObj [(''new_size_gb'', JNum (Num (of_int n)))]))"
    using assms(1) decodes_fields(3) [of uuid n] by (simp add: DecodeJSON_def resizeVolumeRequest_def go_field_def jint_def)
  have n: "go_int (JObj [(''new_size_gb'', JNum (Num (of_int n)))]) ''new_size_gb'' = n" by (simp add: go_defs)
  show ?thesis
  proof (intro exI [of _ ?ep] conjI impI)
    show "snd (resize_step t v d RZSubmit) = Some ?ep" using e by simp
    show "resize_shrinking v d = (n < Volume_size_gb v)" by (rule s)
    show "\<exists>e. VolumeHandler_Resize uuid reply (fa_body (call_args ?ep)) v = (v, Inl (422, e))" if "n < Volume_size_gb v"
      using that assms(2) dec unfolding b VolumeHandler_Resize_def by (simp add: n Let_def)
    show "\<exists>v' w. VolumeHandler_Resize uuid reply (fa_body (call_args ?ep)) v = (v', Inr w) \<and> Volume_size_gb v' = n \<and>
        Volume_status v' = Volume_status v \<and> vz_newSize (resize_init v') = show_int n"
      if "n > Volume_size_gb v \<and> reply_ok reply"
      using that assms(2) dec unfolding b VolumeHandler_Resize_def
      by (cases reply) (auto simp: n Let_def volume_op_def reply_ok_def resize_init_def)
  qed
qed

lemma volume_resize_effect_witness:
  "\<exists>ep v' w. snd (resize_step ''t1'' idle_volume ((resize_init idle_volume)\<lparr>vz_newSize := show_int 20\<rparr>) RZSubmit) = Some ep \<and>
     VolumeHandler_Resize (\<lambda>_. True) (Inr \<lparr>vr_success = True, vr_error = [], vr_used_bytes = 0\<rparr>) (fa_body (call_args ep)) idle_volume =
       (v', Inr w) \<and> Volume_size_gb v' = 20 \<and> Volume_status v' = ''unattached''"
proof -
  let ?r = "Inr \<lparr>vr_success = True, vr_error = [], vr_used_bytes = 0\<rparr> :: agent_reply"
  have v: "Volume_size_gb idle_volume = 10" "Volume_status idle_volume = ''unattached''"
    by (simp_all add: idle_volume_fields)
  have i: "int32 20" "(20 :: int) > 0" by (simp_all add: int32_def)
  have k: "(20 :: int) \<noteq> Volume_size_gb idle_volume" "(20 :: int) > Volume_size_gb idle_volume" "reply_ok ?r"
    by (simp_all add: v reply_ok_def)
  from volume_resize_effect [OF i k(1) refl, of "''t1''" "\<lambda>_. True" ?r] k(2,3) show ?thesis
    unfolding v by blast
qed

text \<open>
  Attaching: what the dialog sends for an idle volume is what the API stores; for a volume in any other status the
  page offers the same dialog, and the API refuses.
\<close>

lemma attach_body:
  "fa_body (call_args (attach_request t v d)) =
     Some (JObj [(''container_name'', JStr (trim (va_containerName d))), (''mount_path'', JStr (trim (va_mountPath d)))])"
  by (simp add: wire_body attach_request_def volumesApi_attach_def api_verbs AttachVolumeInput_js_def)

lemma volume_attach_effect:
  assumes "snd (attach_step t v d ATSubmit) = Some ep"
  shows "VolumeHandler_Attach uuid (fa_body (call_args ep)) v =
    (if Volume_status v = ''unattached''
     then (let v' = v\<lparr>Volume_status := ''attached'', Volume_mount_path := Some (trim (va_mountPath d)),
                     Volume_container_name := Some (trim (va_containerName d))\<rparr> in (v', Inr v'))
     else (v, Inl (422, ''cannot attach volume in status '' @ go_quote (Volume_status v))))"
proof -
  have ep: "ep = attach_request t v d" and ne: "trim (va_containerName d) \<noteq> []" "trim (va_mountPath d) \<noteq> []"
    using assms by (auto split: if_splits)
  show ?thesis
    unfolding ep attach_body VolumeHandler_Attach_def
    using ne by (simp add: DecodeJSON_def attachVolumeRequest_def go_field_def go_defs Let_def)
qed

text \<open>The meter stays in its box, and its tone says how full the volume is.\<close>

lemma usage_pct_bounds: "0 \<le> used \<Longrightarrow> 0 \<le> usage_pct used gb \<and> usage_pct used gb \<le> 100"
  by (simp add: usage_pct_def Let_def)

lemma move_servers_all: "move_servers ss cs v = ss"
  by (simp add: move_servers_def)

text \<open>The dialog starts on the first server, and never sends a move to the server the volume is on.\<close>

lemma move_request_other:
  "snd (move_step t v ss d e) = Some ep \<Longrightarrow>
   e = MVSubmit \<and> vm_target d \<noteq> Volume_server_id v \<and> ep = volumesApi_move t (Volume_id v) (vm_target d)"
  by (cases e) (auto split: if_splits)

text \<open>
  What the create dialog sends is complete, apart from the size, which may still be no positive number.
\<close>

lemma volume_create_guarded:
  "snd (volume_create_step t cs ss d e) = Some ep \<Longrightarrow>
   volume_create_ready d \<and> ep = volume_create_request t d"
  by (cases e) (auto simp: Let_def split: if_splits)

end
