(* ===== verification/Alert_Store.thy ===== *)
theory Alert_Store
  imports Complex_Main Prelude
begin

text \<open>
  The alert evaluator of the API (\<open>internal/observability/service.go\<close>): the comparison with the threshold, the
  state machine of a rule, and the events and notifications an evaluation produces. Times are integers in one
  unit; the rule's duration is in the same unit. Sending to the channels is not modelled beyond the decision to
  notify; a database error ends an evaluation without effect and is not modelled.
\<close>

section \<open>One evaluation\<close>

datatype AlertState = StateOK | StatePending | StateFiring | StateResolved

definition compare :: "rat \<Rightarrow> rat \<Rightarrow> string \<Rightarrow> bool" where
  "compare v threshold op =
     (if op = ''gt'' then v > threshold else if op = ''gte'' then v \<ge> threshold
      else if op = ''lt'' then v < threshold else if op = ''lte'' then v \<le> threshold else False)"

definition nextAlertState :: "AlertState \<Rightarrow> int option \<Rightarrow> bool \<Rightarrow> int \<Rightarrow> int \<Rightarrow> AlertState" where
  "nextAlertState current changedAt breached duration now =
     (if breached \<and> current = StatePending then
        (case changedAt of Some t \<Rightarrow> if now - t \<ge> duration then StateFiring else StatePending | None \<Rightarrow> StatePending)
      else if breached \<and> current = StateFiring then StateFiring
      else if breached then StatePending
      else if \<not> breached \<and> (current = StatePending \<or> current = StateFiring) then StateResolved
      else StateOK)"

record alert_config =
  ac_comparison :: string
  ac_threshold :: rat
  ac_duration :: int

text \<open>The columns of the rule the evaluator writes.\<close>

record alert_row =
  ar_state :: AlertState
  ar_changed :: "int option"
  ar_value :: "rat option"

text \<open>What an evaluation sees: the time, the latest sample with its time, and whether the rule is silenced.\<close>

record alert_tick =
  tk_now :: int
  tk_sample :: "(rat \<times> int) option"
  tk_silenced :: bool

record alert_event =
  ae_state :: AlertState
  ae_value :: rat
  ae_notified :: bool

definition rule_duration :: "int \<Rightarrow> alert_config \<Rightarrow> int" where
  "rule_duration five_minutes c = (if ac_duration c \<le> 0 then five_minutes else ac_duration c)"

definition UpdateAlertRuleState :: "int \<Rightarrow> AlertState \<Rightarrow> rat \<Rightarrow> alert_row \<Rightarrow> alert_row" where
  "UpdateAlertRuleState now st v r =
     \<lparr>ar_state = st, ar_changed = (if ar_state r \<noteq> st then Some now else ar_changed r), ar_value = Some v\<rparr>"

definition evaluateRule :: "int \<Rightarrow> alert_config \<Rightarrow> alert_row \<Rightarrow> alert_tick \<Rightarrow> alert_row \<times> alert_event option" where
  "evaluateRule five_minutes c r k =
     (case tk_sample k of
        None \<Rightarrow> (r, None)
      | Some (v, sampledAt) \<Rightarrow>
          (let duration = rule_duration five_minutes c in
           if sampledAt < tk_now k - 2 * duration then (r, None)
           else
             (let breached = compare v (ac_threshold c) (ac_comparison c);
                  st = nextAlertState (ar_state r) (ar_changed r) breached duration (tk_now k);
                  r' = UpdateAlertRuleState (tk_now k) st v r
              in if st = ar_state r \<or> st = StateOK then (r', None)
                 else (r', Some \<lparr>ae_state = st, ae_value = v,
                              ae_notified = ((st = StateFiring \<or> st = StateResolved) \<and> \<not> tk_silenced k)\<rparr>))))"

definition alert_init :: alert_row where
  "alert_init = \<lparr>ar_state = StateOK, ar_changed = None, ar_value = None\<rparr>"

fun alert_events :: "int \<Rightarrow> alert_config \<Rightarrow> alert_row \<Rightarrow> alert_tick list \<Rightarrow> alert_event list" where
  "alert_events m c r [] = []"
| "alert_events m c r (k # ks) =
     (case snd (evaluateRule m c r k) of None \<Rightarrow> [] | Some e \<Rightarrow> [e]) @ alert_events m c (fst (evaluateRule m c r k)) ks"

abbreviation alert_run :: "int \<Rightarrow> alert_config \<Rightarrow> alert_tick list \<Rightarrow> alert_row" where
  "alert_run m c ks \<equiv> foldl (\<lambda>r k. fst (evaluateRule m c r k)) alert_init ks"

section \<open>An alert fires only after a sustained breach\<close>

text \<open>An evaluation counts when its sample is recent enough; it is a breach when the sample passes the threshold.\<close>

definition tick_fresh :: "int \<Rightarrow> alert_config \<Rightarrow> alert_tick \<Rightarrow> bool" where
  "tick_fresh m c k = (case tk_sample k of None \<Rightarrow> False | Some (v, t) \<Rightarrow> \<not> t < tk_now k - 2 * rule_duration m c)"

definition tick_breach :: "int \<Rightarrow> alert_config \<Rightarrow> alert_tick \<Rightarrow> bool" where
  "tick_breach m c k =
     (tick_fresh m c k \<and> (case tk_sample k of None \<Rightarrow> False | Some (v, t) \<Rightarrow> compare v (ac_threshold c) (ac_comparison c)))"

lemma evaluate_stale: "\<not> tick_fresh m c k \<Longrightarrow> evaluateRule m c r k = (r, None)"
  by (auto simp: tick_fresh_def evaluateRule_def Let_def split: option.splits)

lemma evaluate_state:
  "tick_fresh m c k \<Longrightarrow> ar_state (fst (evaluateRule m c r k)) =
     nextAlertState (ar_state r) (ar_changed r) (tick_breach m c k) (rule_duration m c) (tk_now k)"
  "tick_fresh m c k \<Longrightarrow> ar_changed (fst (evaluateRule m c r k)) =
     (if ar_state (fst (evaluateRule m c r k)) \<noteq> ar_state r then Some (tk_now k) else ar_changed r)"
  by (auto simp: tick_fresh_def tick_breach_def evaluateRule_def UpdateAlertRuleState_def Let_def split: option.splits)

text \<open>A stretch of evaluations that starts with a breach and has no fresh evaluation without one.\<close>

definition breach_run :: "int \<Rightarrow> alert_config \<Rightarrow> alert_tick list \<Rightarrow> bool" where
  "breach_run m c ks = (ks \<noteq> [] \<and> tick_breach m c (hd ks) \<and> (\<forall>k \<in> set ks. tick_fresh m c k \<longrightarrow> tick_breach m c k))"

lemma breach_run_snoc:
  "breach_run m c ks \<Longrightarrow> (tick_fresh m c k \<longrightarrow> tick_breach m c k) \<Longrightarrow> breach_run m c (ks @ [k])"
  by (auto simp: breach_run_def)

definition alert_inv :: "int \<Rightarrow> alert_config \<Rightarrow> alert_tick list \<Rightarrow> alert_row \<Rightarrow> bool" where
  "alert_inv m c hist r =
     ((ar_state r = StatePending \<longrightarrow>
        (\<exists>zs ys. hist = zs @ ys \<and> breach_run m c ys \<and> ar_changed r = Some (tk_now (hd ys)))) \<and>
      (ar_state r = StateFiring \<longrightarrow>
        (\<exists>zs ys. hist = zs @ ys \<and> breach_run m c ys \<and>
          (\<exists>k \<in> set ys. tick_breach m c k \<and> tk_now k - tk_now (hd ys) \<ge> rule_duration m c))))"

lemma alert_inv_pending:
  "ar_state r = StatePending \<Longrightarrow> hist = zs @ ys \<Longrightarrow> breach_run m c ys \<Longrightarrow> ar_changed r = Some (tk_now (hd ys)) \<Longrightarrow>
   alert_inv m c hist r"
  unfolding alert_inv_def by auto

lemma alert_inv_firing:
  "ar_state r = StateFiring \<Longrightarrow> hist = zs @ ys \<Longrightarrow> breach_run m c ys \<Longrightarrow> k \<in> set ys \<Longrightarrow> tick_breach m c k \<Longrightarrow>
   tk_now k - tk_now (hd ys) \<ge> rule_duration m c \<Longrightarrow> alert_inv m c hist r"
  unfolding alert_inv_def by auto

lemma alert_inv_other: "ar_state r \<notin> {StatePending, StateFiring} \<Longrightarrow> alert_inv m c hist r"
  unfolding alert_inv_def by auto

text \<open>A breach, or an evaluation that does not count, prolongs a stretch.\<close>

lemma stretch_snoc:
  assumes "hist = zs @ ys" and "breach_run m c ys" and "tick_fresh m c k \<longrightarrow> tick_breach m c k"
  shows "hist @ [k] = zs @ (ys @ [k])" and "breach_run m c (ys @ [k])" and "hd (ys @ [k]) = hd ys"
  using assms breach_run_snoc [OF assms(2,3)] by (auto simp: breach_run_def)

lemma alert_inv_stale:
  assumes "alert_inv m c hist r" and "\<not> tick_fresh m c k"
  shows "alert_inv m c (hist @ [k]) r"
proof (cases "ar_state r")
  case StatePending
  then obtain zs ys where ys: "hist = zs @ ys" "breach_run m c ys" "ar_changed r = Some (tk_now (hd ys))"
    using assms(1) by (auto simp: alert_inv_def)
  note e = stretch_snoc [OF ys(1,2), of k]
  show ?thesis by (rule alert_inv_pending [OF StatePending e(1,2)]) (use assms(2) ys(3) e(3) in auto)
next
  case StateFiring
  then obtain zs ys j where ys: "hist = zs @ ys" "breach_run m c ys" "j \<in> set ys" "tick_breach m c j"
    "tk_now j - tk_now (hd ys) \<ge> rule_duration m c"
    using assms(1) by (auto simp: alert_inv_def)
  note e = stretch_snoc [OF ys(1,2), of k]
  show ?thesis by (rule alert_inv_firing [OF StateFiring e(1,2), of j]) (use assms(2) ys(3-5) e(3) in auto)
qed (auto intro: alert_inv_other)

lemma alert_inv_breach:
  assumes "alert_inv m c hist r" and fresh: "tick_fresh m c k" and breach: "tick_breach m c k"
  shows "alert_inv m c (hist @ [k]) (fst (evaluateRule m c r k))"
proof (cases "ar_state r")
  case StatePending
  then obtain zs ys where ys: "hist = zs @ ys" "breach_run m c ys" "ar_changed r = Some (tk_now (hd ys))"
    using assms(1) by (auto simp: alert_inv_def)
  note e = stretch_snoc [OF ys(1,2), of k, simplified breach, simplified]
  have s: "ar_state (fst (evaluateRule m c r k)) =
      (if tk_now k - tk_now (hd ys) \<ge> rule_duration m c then StateFiring else StatePending)"
    unfolding evaluate_state(1) [OF fresh] using breach StatePending ys(3) by (simp add: nextAlertState_def)
  show ?thesis
  proof (cases "tk_now k - tk_now (hd ys) \<ge> rule_duration m c")
    case True
    with s e show ?thesis by (intro alert_inv_firing [where k = k and ys = "ys @ [k]" and zs = zs]) (auto simp: breach)
  next
    case False
    with s have p: "ar_state (fst (evaluateRule m c r k)) = StatePending" by simp
    then have "ar_changed (fst (evaluateRule m c r k)) = ar_changed r"
      unfolding evaluate_state(2) [OF fresh] using StatePending by simp
    with p e ys(3) show ?thesis by (intro alert_inv_pending [where ys = "ys @ [k]" and zs = zs]) auto
  qed
next
  case StateFiring
  then obtain zs ys j where ys: "hist = zs @ ys" "breach_run m c ys" "j \<in> set ys" "tick_breach m c j"
    "tk_now j - tk_now (hd ys) \<ge> rule_duration m c"
    using assms(1) by (auto simp: alert_inv_def)
  note e = stretch_snoc [OF ys(1,2), of k, simplified breach, simplified]
  have "ar_state (fst (evaluateRule m c r k)) = StateFiring"
    unfolding evaluate_state(1) [OF fresh] using breach StateFiring by (simp add: nextAlertState_def)
  with e ys show ?thesis by (intro alert_inv_firing [where k = j and ys = "ys @ [k]" and zs = zs]) auto
next
  case StateOK
  then have "ar_state (fst (evaluateRule m c r k)) = StatePending"
    unfolding evaluate_state(1) [OF fresh] using breach by (simp add: nextAlertState_def)
  with StateOK breach show ?thesis
    by (intro alert_inv_pending [where ys = "[k]" and zs = hist]) (simp_all add: breach_run_def evaluate_state(2) [OF fresh])
next
  case StateResolved
  then have "ar_state (fst (evaluateRule m c r k)) = StatePending"
    unfolding evaluate_state(1) [OF fresh] using breach by (simp add: nextAlertState_def)
  with StateResolved breach show ?thesis
    by (intro alert_inv_pending [where ys = "[k]" and zs = hist]) (simp_all add: breach_run_def evaluate_state(2) [OF fresh])
qed

lemma alert_inv_step:
  assumes "alert_inv m c hist r"
  shows "alert_inv m c (hist @ [k]) (fst (evaluateRule m c r k))"
proof (cases "tick_fresh m c k")
  case False
  with alert_inv_stale [OF assms] show ?thesis by (simp add: evaluate_stale)
next
  case fresh: True
  show ?thesis
  proof (cases "tick_breach m c k")
    case False
    then have "ar_state (fst (evaluateRule m c r k)) \<notin> {StatePending, StateFiring}"
      unfolding evaluate_state(1) [OF fresh] by (auto simp: nextAlertState_def)
    then show ?thesis by (rule alert_inv_other)
  qed (rule alert_inv_breach [OF assms fresh])
qed


definition cpu_rule :: alert_config where
  "cpu_rule = \<lparr>ac_comparison = ''gt'', ac_threshold = 80, ac_duration = 120\<rparr>"

definition tick_at :: "int \<Rightarrow> rat \<Rightarrow> alert_tick" where
  "tick_at t v = \<lparr>tk_now = t, tk_sample = Some (v, t), tk_silenced = False\<rparr>"

lemmas alert_eval = evaluateRule_def UpdateAlertRuleState_def nextAlertState_def compare_def rule_duration_def
  alert_init_def cpu_rule_def tick_at_def Let_def


section \<open>The order of events\<close>

text \<open>Which event may follow which.\<close>

fun event_follows :: "AlertState \<Rightarrow> AlertState \<Rightarrow> bool" where
  "event_follows StatePending StateFiring = True"
| "event_follows StatePending StateResolved = True"
| "event_follows StateFiring StateResolved = True"
| "event_follows StateResolved StatePending = True"
| "event_follows _ _ = False"

text \<open>The state of the rule is the state of its last event, or ok after a resolution.\<close>

definition events_inv :: "alert_row \<Rightarrow> AlertState list \<Rightarrow> bool" where
  "events_inv r es =
     (successively event_follows es \<and> (es \<noteq> [] \<longrightarrow> hd es = StatePending) \<and>
      (if ar_state r = StateOK then es = [] \<or> last es = StateResolved else es \<noteq> [] \<and> last es = ar_state r))"

lemma events_inv_step:
  assumes "events_inv r es"
  shows "events_inv (fst (evaluateRule m c r k)) (es @ (case snd (evaluateRule m c r k) of None \<Rightarrow> [] | Some e \<Rightarrow> [ae_state e]))"
proof (cases "tick_fresh m c k")
  case False
  with assms show ?thesis by (simp add: evaluate_stale)
next
  case True
  then obtain v t where k: "tk_sample k = Some (v, t)" "\<not> t < tk_now k - 2 * rule_duration m c"
    by (auto simp: tick_fresh_def split: option.splits)
  show ?thesis
    using assms
    by (cases "ar_state r")
      (auto simp: evaluateRule_def k UpdateAlertRuleState_def nextAlertState_def events_inv_def Let_def successively_append_iff hd_append
        split: option.splits if_splits)
qed

lemma alert_events_snoc:
  "alert_events m c r (ks @ [k]) = alert_events m c r ks @
     (case snd (evaluateRule m c (foldl (\<lambda>r k. fst (evaluateRule m c r k)) r ks) k) of None \<Rightarrow> [] | Some e \<Rightarrow> [e])"
  by (induction ks arbitrary: r) auto

text \<open>
  The events of a rule alternate properly: the first is pending, pending is followed by firing or resolved, firing
  by resolved, and resolved by pending. So between two firing events there is always a resolution, and a rule that
  keeps firing is notified once; but a resolution may be announced for an alert that never fired.
\<close>

lemma alert_event_order:
  "let es = map ae_state (alert_events m c alert_init ks) in
   successively event_follows es \<and> (es \<noteq> [] \<longrightarrow> hd es = StatePending)"
proof -
  have "events_inv (alert_run m c ks) (map ae_state (alert_events m c alert_init ks))"
  proof (induction ks rule: rev_induct)
    case Nil
    show ?case by (simp add: events_inv_def alert_init_def)
  next
    case (snoc k ks)
    from events_inv_step [OF this, of m c k] show ?case
      by (simp add: alert_events_snoc split: option.splits)
  qed
  then show ?thesis by (simp add: events_inv_def Let_def)
qed

lemma alert_event_order_witness:
  "let es = alert_events 300 cpu_rule alert_init [tick_at 0 90, tick_at 60 10] in
   map ae_state es = [StatePending, StateResolved] \<and> map ae_notified es = [False, True] \<and>
   successively event_follows (map ae_state es)"
  using alert_event_order [of 300 cpu_rule "[tick_at 0 90, tick_at 60 10]"] by (simp add: alert_eval)

end
