(* ===== verification/Notifications_Page.thy ===== *)
theory Notifications_Page
  imports App_Pages Alert_Store Machines
begin

text \<open>
  The notifications page (\<open>components/notifications/NotificationsClient.tsx\<close>): the dialogs that create channels and
  alert rules, the labels of the tables, and what the API's \<open>CreateAlert\<close> and \<open>CreateChannel\<close> make of the requests.
  The tables as markup and the formatting of dates are not modelled; \<open>new URL\<close> is a parameter of \<open>maskTarget\<close>.
\<close>

section \<open>Channels\<close>

definition CHANNEL_TYPES :: "string list" where
  "CHANNEL_TYPES = [''slack'', ''webhook'', ''discord'', ''email'']"

record channel_dialog =
  cd_open :: bool
  cd_name :: string
  cd_type :: string
  cd_target :: string
  cd_enabled :: bool
  cd_error :: "string option"

definition channel_init :: channel_dialog where
  "channel_init = \<lparr>cd_open = False, cd_name = [], cd_type = ''slack'', cd_target = [], cd_enabled = True, cd_error = None\<rparr>"

definition channel_reset :: "channel_dialog \<Rightarrow> channel_dialog" where
  "channel_reset d = d\<lparr>cd_name := [], cd_type := ''slack'', cd_target := [], cd_enabled := True, cd_error := None\<rparr>"

definition channel_request :: "string \<Rightarrow> channel_dialog \<Rightarrow> endpoint" where
  "channel_request t d = observabilityApi_createChannel t
     \<lparr>CreateChannelInput_name = trim (cd_name d), CreateChannelInput_type = cd_type d,
      CreateChannelInput_target = trim (cd_target d), CreateChannelInput_enabled = Some (cd_enabled d)\<rparr>"

datatype channel_event =
  CHOpen bool | CHName string | CHType string | CHTarget string | CHEnabled bool | CHSubmit | CHCreated | CHFailed failure

fun channel_step :: "string \<Rightarrow> channel_dialog \<Rightarrow> channel_event \<Rightarrow> channel_dialog \<times> endpoint option" where
  "channel_step t d (CHOpen b) = ((let d' = d\<lparr>cd_open := b\<rparr> in if b then d' else channel_reset d'), None)"
| "channel_step t d (CHName s) = (d\<lparr>cd_name := s\<rparr>, None)"
| "channel_step t d (CHType s) = ((if s \<in> set CHANNEL_TYPES then d\<lparr>cd_type := s\<rparr> else d), None)"
| "channel_step t d (CHTarget s) = (d\<lparr>cd_target := s\<rparr>, None)"
| "channel_step t d (CHEnabled b) = (d\<lparr>cd_enabled := b\<rparr>, None)"
| "channel_step t d CHSubmit = (d, if trim (cd_name d) = [] \<or> trim (cd_target d) = [] then None else Some (channel_request t d))"
| "channel_step t d CHCreated = (channel_reset (d\<lparr>cd_open := False\<rparr>), None)"
| "channel_step t d (CHFailed e) = (d\<lparr>cd_error := Some (error_text e ''Could not create channel.'')\<rparr>, None)"

section \<open>Alert rules\<close>

definition COMPARISONS :: "(string \<times> string) list" where
  "COMPARISONS = [(''gt'', ''>''), (''gte'', ''>=''), (''lt'', ''<''), (''lte'', ''<=''), (''eq'', ''==''), (''ne'', ''!='')]"

definition SEVERITIES :: "string list" where
  "SEVERITIES = [''info'', ''warning'', ''critical'']"

definition SCOPE_TYPES :: "string list" where
  "SCOPE_TYPES = [''server'', ''cluster'', ''project'', ''app'']"

record alert_dialog =
  ad_open :: bool
  ad_scopeType :: string
  ad_scopeId :: string
  ad_name :: string
  ad_metric :: string
  ad_comparison :: string
  ad_threshold :: string
  ad_duration :: string
  ad_severity :: string
  ad_picked :: "string list"
  ad_error :: "string option"

definition alert_dialog_reset :: "alert_dialog \<Rightarrow> alert_dialog" where
  "alert_dialog_reset d = d\<lparr>ad_scopeType := ''server'', ad_scopeId := [], ad_name := [], ad_metric := ''cpu_percent'',
     ad_comparison := ''gt'', ad_threshold := ''80'', ad_duration := ''120'', ad_severity := ''warning'', ad_picked := [],
     ad_error := None\<rparr>"

definition alert_dialog_init :: alert_dialog where
  "alert_dialog_init = \<lparr>ad_open = False, ad_scopeType = ''server'', ad_scopeId = [], ad_name = [], ad_metric = ''cpu_percent'',
     ad_comparison = ''gt'', ad_threshold = ''80'', ad_duration = ''120'', ad_severity = ''warning'', ad_picked = [],
     ad_error = None\<rparr>"

text \<open>The ids offered for the chosen kind of scope.\<close>

record alert_scopes =
  sc_servers :: "string list"
  sc_clusters :: "string list"
  sc_projects :: "string list"
  sc_apps :: "string list"

definition scopeChoices :: "alert_scopes \<Rightarrow> string \<Rightarrow> string list" where
  "scopeChoices s t =
     (if t = ''server'' then sc_servers s else if t = ''cluster'' then sc_clusters s
      else if t = ''project'' then sc_projects s else sc_apps s)"

definition toggleChannel :: "string \<Rightarrow> string list \<Rightarrow> string list" where
  "toggleChannel i prev = (if i \<in> set prev then filter (\<lambda>x. x \<noteq> i) prev else prev @ [i])"

definition alert_request :: "string \<Rightarrow> alert_dialog \<Rightarrow> endpoint" where
  "alert_request t d = observabilityApi_createAlert t
     \<lparr>AlertRuleInput_scope_type = ad_scopeType d, AlertRuleInput_scope_id = ad_scopeId d, AlertRuleInput_name = trim (ad_name d),
      AlertRuleInput_metric_name = ad_metric d, AlertRuleInput_comparison = ad_comparison d,
      AlertRuleInput_threshold = num_or (Number (ad_threshold d)) (Num 0),
      AlertRuleInput_duration_seconds = num_or (Number (ad_duration d)) (Num 0), AlertRuleInput_severity = ad_severity d,
      AlertRuleInput_enabled = Some True, AlertRuleInput_notification_channels = Some (ad_picked d)\<rparr>"

definition alert_ready :: "alert_dialog \<Rightarrow> bool" where
  "alert_ready d = (trim (ad_name d) \<noteq> [] \<and> ad_scopeId d \<noteq> [] \<and> ad_threshold d \<noteq> [] \<and> ad_duration d \<noteq> [])"

datatype alert_dialog_event =
    ALOpen bool | ALName string | ALScopeType string | ALScope string | ALMetric string | ALComparison string
  | ALThreshold string | ALDuration string | ALSeverity string | ALChannel string | ALSubmit | ALCreated | ALFailed failure

fun alert_step ::
    "string \<Rightarrow> alert_scopes \<Rightarrow> string list \<Rightarrow> alert_dialog \<Rightarrow> alert_dialog_event \<Rightarrow> alert_dialog \<times> endpoint option" where
  "alert_step t sc chs d (ALOpen b) = ((let d' = d\<lparr>ad_open := b\<rparr> in if b then d' else alert_dialog_reset d'), None)"
| "alert_step t sc chs d (ALName s) = (d\<lparr>ad_name := s\<rparr>, None)"
| "alert_step t sc chs d (ALScopeType s) = ((if s \<in> set SCOPE_TYPES then d\<lparr>ad_scopeType := s, ad_scopeId := []\<rparr> else d), None)"
| "alert_step t sc chs d (ALScope i) = ((if i \<in> set (scopeChoices sc (ad_scopeType d)) then d\<lparr>ad_scopeId := i\<rparr> else d), None)"
| "alert_step t sc chs d (ALMetric s) = (d\<lparr>ad_metric := s\<rparr>, None)"
| "alert_step t sc chs d (ALComparison s) = ((if s \<in> fst ` set COMPARISONS then d\<lparr>ad_comparison := s\<rparr> else d), None)"
| "alert_step t sc chs d (ALThreshold s) = (d\<lparr>ad_threshold := s\<rparr>, None)"
| "alert_step t sc chs d (ALDuration s) = (d\<lparr>ad_duration := s\<rparr>, None)"
| "alert_step t sc chs d (ALSeverity s) = ((if s \<in> set SEVERITIES then d\<lparr>ad_severity := s\<rparr> else d), None)"
| "alert_step t sc chs d (ALChannel i) = ((if i \<in> set chs then d\<lparr>ad_picked := toggleChannel i (ad_picked d)\<rparr> else d), None)"
| "alert_step t sc chs d ALSubmit = (d, if alert_ready d then Some (alert_request t d) else None)"
| "alert_step t sc chs d ALCreated = (alert_dialog_reset (d\<lparr>ad_open := False\<rparr>), None)"
| "alert_step t sc chs d (ALFailed e) = (d\<lparr>ad_error := Some (error_text e ''Could not create alert.'')\<rparr>, None)"

section \<open>Labels\<close>

definition comparisonSymbol :: "string \<Rightarrow> string" where
  "comparisonSymbol c = or_default (map_of COMPARISONS c) c"

definition severityTone :: "string \<Rightarrow> string" where
  "severityTone s = (if s = ''critical'' then ''alert'' else if s = ''warning'' then ''warn'' else if s = ''info'' then ''info'' else ''neutral'')"

definition stateTone :: "string \<Rightarrow> string" where
  "stateTone s = (if s = ''ok'' then ''online'' else if s = ''pending'' then ''signal'' else if s = ''firing'' then ''alert'' else ''neutral'')"

text \<open>The label of a scope; the ids are looked up in the map of its kind.\<close>

definition scopeLabeller :: "(string, (string, string) obj) obj \<Rightarrow> string \<Rightarrow> string \<Rightarrow> string" where
  "scopeLabeller maps t i =
     (case obj_get maps t of
        None \<Rightarrow> take 8 i
      | Some m \<Rightarrow> (case obj_get m i of Some n \<Rightarrow> n | None \<Rightarrow> take 8 i))"

text \<open>\<open>parse_url\<close> yields host and path; three dots stand for the ellipsis character.\<close>

definition last_n :: "nat \<Rightarrow> 'a list \<Rightarrow> 'a list" where
  "last_n n xs = drop (length xs - n) xs"

definition maskTarget :: "(string \<Rightarrow> (string \<times> string) option) \<Rightarrow> string \<Rightarrow> string" where
  "maskTarget parse_url target =
     (if length target \<le> 40 then target
      else case parse_url target of
        Some (host, path) \<Rightarrow> host @ ''/...'' @ last_n 6 path
      | None \<Rightarrow> take 12 target @ ''...'' @ last_n 6 target)"

section \<open>The handlers of the API\<close>

record db_alert_rule =
  dr_scope_type :: string
  dr_scope_id :: string
  dr_name :: string
  dr_metric_name :: string
  dr_config :: alert_config
  dr_severity :: string
  dr_enabled :: bool
  dr_channels :: "string list"

definition go_float :: "js \<Rightarrow> string \<Rightarrow> rat" where
  "go_float b k = (case go_member b k of JNum (Num q) \<Rightarrow> q | _ \<Rightarrow> 0)"

text \<open>\<open>validate\<close>; \<open>nil\<close> says that a UUID is the nil one.\<close>

definition alert_validate :: "(string \<Rightarrow> bool) \<Rightarrow> js \<Rightarrow> string option" where
  "alert_validate nil b =
     (if go_str b ''scope_type'' = [] \<or> go_str b ''scope_id'' = [] \<or> nil (go_str b ''scope_id'') \<or> go_str b ''name'' = [] \<or>
         go_str b ''metric_name'' = [] then Some ''scope_type, scope_id, name, and metric_name are required''
      else if go_str b ''comparison'' = [] then Some ''comparison is required''
      else if go_int b ''duration_seconds'' \<le> 0 then Some ''duration_seconds must be greater than zero''
      else if go_str b ''severity'' = [] then Some ''severity is required''
      else None)"

text \<open>The constraints of the table; \<open>notification_channels\<close> must also not be null, which a missing list is.\<close>

definition alert_row_ok :: "db_alert_rule \<Rightarrow> bool" where
  "alert_row_ok r =
     (dr_scope_type r \<in> {''server'', ''container'', ''project'', ''cluster'', ''app''} \<and>
      ac_comparison (dr_config r) \<in> {''gt'', ''gte'', ''lt'', ''lte''} \<and>
      dr_severity r \<in> {''info'', ''warning'', ''critical''})"

definition ObservabilityHandler_CreateAlert ::
    "(string \<Rightarrow> bool) \<Rightarrow> (string \<Rightarrow> bool) \<Rightarrow> (string \<Rightarrow> string \<Rightarrow> bool) \<Rightarrow> js option \<Rightarrow> db_alert_rule reply" where
  "ObservabilityHandler_CreateAlert uuid nil scope_ok body =
     (if \<not> DecodeJSON uuid alertRuleRequest body then Inl (400, ''invalid request body'')
      else (let b = the body in
        case alert_validate nil b of
          Some e \<Rightarrow> Inl (400, e)
        | None \<Rightarrow>
            if \<not> scope_ok (go_str b ''scope_type'') (go_str b ''scope_id'') then Inl (404, ''scope not found'')
            else (case go_strs b ''notification_channels'' of
                None \<Rightarrow> Inl (500, ''failed to create alert rule'')
              | Some chs \<Rightarrow> let r = \<lparr>dr_scope_type = go_str b ''scope_type'', dr_scope_id = go_str b ''scope_id'', dr_name = go_str b ''name'',
                           dr_metric_name = go_str b ''metric_name'',
                           dr_config = \<lparr>ac_comparison = go_str b ''comparison'', ac_threshold = go_float b ''threshold'',
                                        ac_duration = go_int b ''duration_seconds''\<rparr>,
                           dr_severity = go_str b ''severity'',
                           dr_enabled = (case go_bool_ptr b ''enabled'' of Some v \<Rightarrow> v | None \<Rightarrow> True),
                           dr_channels = chs\<rparr>
                  in if alert_row_ok r then Inr r else Inl (500, ''failed to create alert rule''))))"

section \<open>What a rule becomes\<close>

definition alert_ok :: "alert_scopes \<Rightarrow> string list \<Rightarrow> alert_dialog \<Rightarrow> bool" where
  "alert_ok sc chs d =
     (ad_scopeType d \<in> set SCOPE_TYPES \<and> ad_comparison d \<in> fst ` set COMPARISONS \<and> ad_severity d \<in> set SEVERITIES \<and>
      (ad_scopeId d = [] \<or> ad_scopeId d \<in> set (scopeChoices sc (ad_scopeType d))) \<and>
      set (ad_picked d) \<subseteq> set chs \<and> distinct (ad_picked d))"

interpretation channel_picker: selection toggleChannel
  by unfold_locales (auto simp: toggleChannel_def)

interpretation alert_form: request_machine "alert_step t sc chs" "alert_ok sc chs"
  "\<lambda>d ep. alert_ready d \<and> ep = alert_request t d"
proof
  fix d e r
  show "alert_ok sc chs (fst (alert_step t sc chs d e))" if "alert_ok sc chs d"
    using that
    by (cases e) (auto simp: alert_ok_def alert_dialog_reset_def Let_def SCOPE_TYPES_def COMPARISONS_def SEVERITIES_def
        channel_picker.set_flip channel_picker.distinct_flip)
  show "alert_ready d \<and> r = alert_request t d" if "snd (alert_step t sc chs d e) = Some r"
    using that by (cases e) (auto simp: Let_def split: if_splits)
qed

text \<open>The members of the sent rule, as the handler reads them.\<close>

lemma alert_members:
  assumes "AlertRuleInput_js i = JObj kvs"
  shows "distinct (map fst kvs)" and "list_all (\<lambda>e. toLowerCase (fst e) = fst e) kvs"
proof -
  have k: "map fst kvs = [''scope_type'', ''scope_id'', ''name'', ''metric_name'', ''comparison'', ''threshold'', ''duration_seconds'',
      ''severity'', ''enabled'', ''notification_channels'']"
    using assms by (auto simp: AlertRuleInput_js_def)
  then show "distinct (map fst kvs)" by simp
  have "list_all (\<lambda>k. toLowerCase k = k) (map fst kvs)" unfolding k by code_simp
  then show "list_all (\<lambda>e. toLowerCase (fst e) = fst e) kvs" by (simp add: list_all_iff)
qed

definition alert_field :: "AlertRuleInput \<Rightarrow> string \<Rightarrow> js" where
  "alert_field i k =
     (case AlertRuleInput_js i of JObj kvs \<Rightarrow> (case map_of kvs k of Some v \<Rightarrow> wire v | None \<Rightarrow> JNull) | _ \<Rightarrow> JNull)"

lemma alert_member:
  assumes "toLowerCase k = k"
  shows "go_member (wire (AlertRuleInput_js i)) k = alert_field i k"
proof -
  obtain kvs where k: "AlertRuleInput_js i = JObj kvs" by (simp add: AlertRuleInput_js_def)
  show ?thesis unfolding k alert_field_def using go_member_wire [OF alert_members [OF k] assms] by simp
qed

lemma alert_fields:
  "alert_field i ''scope_type'' = JStr (AlertRuleInput_scope_type i)" "alert_field i ''scope_id'' = JStr (AlertRuleInput_scope_id i)"
  "alert_field i ''name'' = JStr (AlertRuleInput_name i)" "alert_field i ''metric_name'' = JStr (AlertRuleInput_metric_name i)"
  "alert_field i ''comparison'' = JStr (AlertRuleInput_comparison i)" "alert_field i ''severity'' = JStr (AlertRuleInput_severity i)"
  "alert_field i ''threshold'' = wire (JNum (AlertRuleInput_threshold i))"
  "alert_field i ''duration_seconds'' = wire (JNum (AlertRuleInput_duration_seconds i))"
  "alert_field i ''enabled'' = (case AlertRuleInput_enabled i of Some b \<Rightarrow> JBool b | None \<Rightarrow> JNull)"
  "alert_field i ''notification_channels'' = (case AlertRuleInput_notification_channels i of Some ss \<Rightarrow> jstrs ss | None \<Rightarrow> JNull)"
  by (simp_all add: alert_field_def AlertRuleInput_js_def js_field_defs comp_def split: option.split)

lemma alert_lower:
  "toLowerCase ''scope_type'' = ''scope_type''" "toLowerCase ''scope_id'' = ''scope_id''" "toLowerCase ''name'' = ''name''"
  "toLowerCase ''metric_name'' = ''metric_name''" "toLowerCase ''comparison'' = ''comparison''"
  "toLowerCase ''threshold'' = ''threshold''" "toLowerCase ''duration_seconds'' = ''duration_seconds''"
  "toLowerCase ''severity'' = ''severity''" "toLowerCase ''enabled'' = ''enabled''"
  "toLowerCase ''notification_channels'' = ''notification_channels''"
  by code_simp+

lemma alert_values:
  fixes i :: AlertRuleInput
  defines "b \<equiv> wire (AlertRuleInput_js i)"
  shows "go_str b ''scope_type'' = AlertRuleInput_scope_type i" "go_str b ''scope_id'' = AlertRuleInput_scope_id i"
    "go_str b ''name'' = AlertRuleInput_name i" "go_str b ''metric_name'' = AlertRuleInput_metric_name i"
    "go_str b ''comparison'' = AlertRuleInput_comparison i" "go_str b ''severity'' = AlertRuleInput_severity i"
    "AlertRuleInput_threshold i = Num q \<Longrightarrow> go_float b ''threshold'' = q"
    "AlertRuleInput_duration_seconds i = Num (of_int n) \<Longrightarrow> go_int b ''duration_seconds'' = n"
    "go_bool_ptr b ''enabled'' = AlertRuleInput_enabled i"
    "go_strs b ''notification_channels'' = AlertRuleInput_notification_channels i"
  unfolding b_def go_float_def go_str_def go_ptr_def go_int_def go_bool_ptr_def go_strs_def
  by (simp_all add: alert_member [OF alert_lower(1)] alert_member [OF alert_lower(2)] alert_member [OF alert_lower(3)]
      alert_member [OF alert_lower(4)] alert_member [OF alert_lower(5)] alert_member [OF alert_lower(6)]
      alert_member [OF alert_lower(7)] alert_member [OF alert_lower(8)] alert_member [OF alert_lower(9)]
      alert_member [OF alert_lower(10)] alert_fields or_default_def split: option.split)

lemma alert_decodes:
  assumes "uuid (AlertRuleInput_scope_id i)" and "AlertRuleInput_duration_seconds i = Num (of_int n)" and "int32 n"
    and "AlertRuleInput_threshold i = Num q" and "AlertRuleInput_notification_channels i = Some chs" and "list_all uuid chs"
  shows "DecodeJSON uuid alertRuleRequest (Some (wire (AlertRuleInput_js i)))"
proof -
  have d: "decodes (scalar_ok uuid) (GInt 32) (JNum (Num (of_int n)))"
    using decodes_fields(3) [of uuid n] assms(3) by (simp add: jint_def)
  show ?thesis
    using assms d
    by (auto simp: DecodeJSON_def alertRuleRequest_def go_field_def AlertRuleInput_js_def jbool_opt_def jstrs_opt_def jstrs_def
        list_all_iff simp del: scalar_ok.simps(1) split: option.split)
qed

text \<open>
  C27: A rule created through the dialog is the rule the evaluator runs. Whatever happened in the dialog before, when
  it sends a rule with a numeric threshold and a whole positive duration for an existing resource, the API stores it
  with the name, scope, metric, comparison, threshold, duration, severity and channels that were chosen, enabled;
  unless the comparison is one of the two the dialog offers and the table does not know, equal and not equal, for
  which creating the rule fails.
\<close>

lemma alert_rule_stored:
  assumes "(d, ep) \<in> set (emitted (alert_step t sc chs) alert_dialog_init es)"
    and "Number (ad_threshold d) = Num q" and "Number (ad_duration d) = Num (of_int n)" and "int32 n" and "n > 0"
    and "ad_metric d \<noteq> []" and "uuid (ad_scopeId d)" and "\<not> nil (ad_scopeId d)" and "scope_ok (ad_scopeType d) (ad_scopeId d)"
    and "list_all uuid chs"
  shows "ObservabilityHandler_CreateAlert uuid nil scope_ok (fa_body (call_args ep)) =
    (if ad_comparison d \<in> {''eq'', ''ne''} then Inl (500, ''failed to create alert rule'')
     else Inr \<lparr>dr_scope_type = ad_scopeType d, dr_scope_id = ad_scopeId d, dr_name = trim (ad_name d), dr_metric_name = ad_metric d,
               dr_config = \<lparr>ac_comparison = ad_comparison d, ac_threshold = q, ac_duration = n\<rparr>,
               dr_severity = ad_severity d, dr_enabled = True, dr_channels = ad_picked d\<rparr>)"
proof -
  have "alert_ok sc chs alert_dialog_init"
    by (simp add: alert_ok_def alert_dialog_init_def SCOPE_TYPES_def COMPARISONS_def SEVERITIES_def)
  from alert_form.emitted_guarded [OF this assms(1)]
  have ok: "alert_ok sc chs d" and ready: "alert_ready d" and ep: "ep = alert_request t d" by simp_all
  define i where "i = \<lparr>AlertRuleInput_scope_type = ad_scopeType d, AlertRuleInput_scope_id = ad_scopeId d,
      AlertRuleInput_name = trim (ad_name d), AlertRuleInput_metric_name = ad_metric d, AlertRuleInput_comparison = ad_comparison d,
      AlertRuleInput_threshold = num_or (Number (ad_threshold d)) (Num 0),
      AlertRuleInput_duration_seconds = num_or (Number (ad_duration d)) (Num 0), AlertRuleInput_severity = ad_severity d,
      AlertRuleInput_enabled = Some True, AlertRuleInput_notification_channels = Some (ad_picked d)\<rparr>"
  have b: "fa_body (call_args ep) = Some (wire (AlertRuleInput_js i))"
    unfolding ep alert_request_def i_def by (simp add: wire_body observabilityApi_createAlert_def api_verbs AlertRuleInput_js_def)
  have i: "AlertRuleInput_threshold i = Num q" "AlertRuleInput_duration_seconds i = Num (of_int n)"
    using assms(2,3,5) by (auto simp: i_def num_or_def)
  have "list_all uuid (ad_picked d)" using ok assms(10) by (auto simp: alert_ok_def list_all_iff)
  then have dec: "DecodeJSON uuid alertRuleRequest (Some (wire (AlertRuleInput_js i)))"
    by (intro alert_decodes [OF _ i(2) assms(4) i(1)]) (use assms(7) in \<open>simp_all add: i_def\<close>)
  note v = alert_values(1-6,9,10) [of i] alert_values(7) [OF i(1)] alert_values(8) [OF i(2)]
  have ne: "ad_scopeType d \<noteq> []" "ad_comparison d \<noteq> []" "ad_severity d \<noteq> []"
    using ok by (auto simp: alert_ok_def SCOPE_TYPES_def COMPARISONS_def SEVERITIES_def)
  have valid: "alert_validate nil (wire (AlertRuleInput_js i)) = None"
    using assms(5,6,8) ready ne unfolding alert_validate_def v by (simp add: i_def alert_ready_def)
  have sets: "set SCOPE_TYPES \<subseteq> {''server'', ''container'', ''project'', ''cluster'', ''app''}"
    "set SEVERITIES \<subseteq> {''info'', ''warning'', ''critical''}"
    "fst ` set COMPARISONS = {''gt'', ''gte'', ''lt'', ''lte'', ''eq'', ''ne''}"
    by (simp_all add: SCOPE_TYPES_def SEVERITIES_def COMPARISONS_def)
  have row: "ad_scopeType d \<in> {''server'', ''container'', ''project'', ''cluster'', ''app''}"
    "ad_severity d \<in> {''info'', ''warning'', ''critical''}"
    using ok sets(1,2) unfolding alert_ok_def by blast+
  have "ad_comparison d \<in> {''gt'', ''gte'', ''lt'', ''lte'', ''eq'', ''ne''}"
    using ok unfolding alert_ok_def sets(3) by blast
  then have cmp: "ad_comparison d \<in> {''gt'', ''gte'', ''lt'', ''lte''} \<longleftrightarrow> ad_comparison d \<notin> {''eq'', ''ne''}"
    by (elim insertE emptyE) simp_all
  let ?r = "\<lparr>dr_scope_type = ad_scopeType d, dr_scope_id = ad_scopeId d, dr_name = trim (ad_name d), dr_metric_name = ad_metric d,
               dr_config = \<lparr>ac_comparison = ad_comparison d, ac_threshold = q, ac_duration = n\<rparr>,
               dr_severity = ad_severity d, dr_enabled = True, dr_channels = ad_picked d\<rparr>"
  have r: "alert_row_ok ?r \<longleftrightarrow> ad_comparison d \<notin> {''eq'', ''ne''}"
    unfolding alert_row_ok_def db_alert_rule.simps alert_config.simps using row cmp by blast
  have f: "AlertRuleInput_scope_type i = ad_scopeType d" "AlertRuleInput_scope_id i = ad_scopeId d" "AlertRuleInput_name i = trim (ad_name d)"
    "AlertRuleInput_metric_name i = ad_metric d" "AlertRuleInput_comparison i = ad_comparison d" "AlertRuleInput_severity i = ad_severity d"
    "AlertRuleInput_enabled i = Some True" "AlertRuleInput_notification_channels i = Some (ad_picked d)"
    by (simp_all add: i_def)
  have "ObservabilityHandler_CreateAlert uuid nil scope_ok (fa_body (call_args ep)) =
      (if alert_row_ok ?r then Inr ?r else Inl (500, ''failed to create alert rule''))"
    unfolding ObservabilityHandler_CreateAlert_def b
    using dec valid assms(9) by (simp only: option.sel Let_def v f if_True if_False not_True_eq_False option.case or_default_def not_not)
  then show ?thesis unfolding r by (simp only: if_not_P if_P split: if_split) blast
qed

definition cpu_dialog :: alert_dialog where
  "cpu_dialog = alert_dialog_init\<lparr>ad_open := True, ad_name := ''cpu'', ad_scopeId := ''s1'', ad_comparison := ''gte''\<rparr>"

definition one_server :: alert_scopes where
  "one_server = \<lparr>sc_servers = [''s1''], sc_clusters = [], sc_projects = [], sc_apps = []\<rparr>"

lemma cpu_dialog_sent:
  "(cpu_dialog, alert_request ''t'' cpu_dialog) \<in> set (emitted (alert_step ''t'' one_server []) alert_dialog_init
     [ALOpen True, ALName ''cpu'', ALScope ''s1'', ALComparison ''gte'', ALSubmit])"
proof -
  have s: "''s1'' \<in> set (scopeChoices one_server ''server'')" "''gte'' \<in> fst ` set COMPARISONS"
    by (simp_all add: scopeChoices_def one_server_def COMPARISONS_def)
  have f: "ad_scopeType alert_dialog_init = ''server''" "alert_ready cpu_dialog"
    by (simp add: alert_dialog_init_def) (simp add: cpu_dialog_def alert_ready_def alert_dialog_init_def, code_simp)
  show ?thesis using f(2) unfolding cpu_dialog_def by (simp add: s f(1) Let_def)
qed

lemma alert_rule_stored_witness:
  "ObservabilityHandler_CreateAlert (\<lambda>u. u = ''s1'') (\<lambda>u. False) (\<lambda>k u. k = ''server'') (fa_body (call_args (alert_request ''t'' cpu_dialog))) =
   Inr \<lparr>dr_scope_type = ''server'', dr_scope_id = ''s1'', dr_name = ''cpu'', dr_metric_name = ''cpu_percent'',
        dr_config = \<lparr>ac_comparison = ''gte'', ac_threshold = 80, ac_duration = 120\<rparr>,
        dr_severity = ''warning'', dr_enabled = True, dr_channels = []\<rparr>"
proof -
  have d: "ad_scopeType cpu_dialog = ''server''" "ad_scopeId cpu_dialog = ''s1''" "ad_name cpu_dialog = ''cpu''" "ad_metric cpu_dialog = ''cpu_percent''"
    "ad_comparison cpu_dialog = ''gte''" "ad_threshold cpu_dialog = ''80''" "ad_duration cpu_dialog = ''120''" "ad_severity cpu_dialog = ''warning''"
    "ad_picked cpu_dialog = []"
    by (simp_all add: cpu_dialog_def alert_dialog_init_def)
  have s: "show_int 80 = ''80''" "show_int 120 = ''120''" by code_simp+
  have n: "Number (ad_threshold cpu_dialog) = Num 80" "Number (ad_duration cpu_dialog) = Num (of_int 120)"
    using Number_show_int [of 80] Number_show_int [of 120] unfolding d s by simp_all
  have r: "ObservabilityHandler_CreateAlert (\<lambda>u. u = ''s1'') (\<lambda>u. False) (\<lambda>k u. k = ''server'')
      (fa_body (call_args (alert_request ''t'' cpu_dialog))) =
    (if ad_comparison cpu_dialog \<in> {''eq'', ''ne''} then Inl (500, ''failed to create alert rule'')
     else Inr \<lparr>dr_scope_type = ad_scopeType cpu_dialog, dr_scope_id = ad_scopeId cpu_dialog, dr_name = trim (ad_name cpu_dialog),
               dr_metric_name = ad_metric cpu_dialog,
               dr_config = \<lparr>ac_comparison = ad_comparison cpu_dialog, ac_threshold = 80, ac_duration = 120\<rparr>,
               dr_severity = ad_severity cpu_dialog, dr_enabled = True, dr_channels = ad_picked cpu_dialog\<rparr>)"
    by (rule alert_rule_stored [OF cpu_dialog_sent n]) (simp_all add: int32_def d)
  have "trim ''cpu'' = ''cpu''" by code_simp
  then show ?thesis using r unfolding d by simp
qed

end
