(* ===== verification/Database_Store.thy ===== *)
theory Database_Store
  imports Volume_Store
begin

text \<open>
  The database service of the API (\<open>internal/database/service.go\<close>): the placement of a database on a server,
  provisioning, which writes a volume, two secrets and the row, or nothing, and stopping, starting and deleting. The
  tables are lists of rows with their unique constraints. New identifiers, passwords, the time, the agents' answers
  and the cluster's members are inputs; the run in the background that deploys the container is in \<open>Provision_Run\<close>.
\<close>

section \<open>Tables\<close>

record db_secret =
  sec_id :: string
  sec_team :: string
  sec_env :: string
  sec_key :: string
  sec_plain :: string

record db_tables =
  dt_volumes :: "Volume list"
  dt_secrets :: "db_secret list"
  dt_databases :: "Database list"

definition duplicate_key :: "string \<Rightarrow> string" where
  "duplicate_key c = ''ERROR: duplicate key value violates unique constraint '' @ go_quote c @ '' (SQLSTATE 23505)''"

text \<open>The volume service on the table: \<open>Create\<close> without a filesystem, and \<open>Delete\<close>.\<close>

definition VolumeService_Create ::
    "string \<Rightarrow> string \<Rightarrow> string \<Rightarrow> string \<Rightarrow> string \<Rightarrow> string \<Rightarrow> int \<Rightarrow> agent_reply \<Rightarrow> db_tables \<Rightarrow> string + db_tables \<times> Volume" where
  "VolumeService_Create newId now team cluster server name gb reply ts =
     (if name = [] then Inl ''name is required''
      else if gb \<le> 0 then Inl ''size_gb must be greater than zero''
      else if list_ex (\<lambda>v. Volume_team_id v = team \<and> Volume_name v = name) (dt_volumes ts)
      then Inl (''create volume: '' @ duplicate_key ''volumes_team_id_name_key'')
      else (let v = volume_Create newId now team cluster server name gb [] reply
            in Inr (ts\<lparr>dt_volumes := dt_volumes ts @ [v]\<rparr>, v)))"

definition VolumeService_Delete :: "string \<Rightarrow> string \<Rightarrow> db_tables \<Rightarrow> db_tables" where
  "VolumeService_Delete team vid ts =
     (case find (\<lambda>v. Volume_id v = vid \<and> Volume_team_id v = team) (dt_volumes ts) of
        None \<Rightarrow> ts
      | Some v \<Rightarrow>
          (case volume_Delete v of
             Inl e \<Rightarrow> ts
           | Inr u \<Rightarrow> ts\<lparr>dt_volumes := filter (\<lambda>v. \<not> (Volume_id v = vid \<and> Volume_team_id v = team)) (dt_volumes ts)\<rparr>))"

text \<open>The secret service (\<open>internal/secret/service.go\<close>).\<close>

definition secret_Create :: "string \<Rightarrow> string \<Rightarrow> string \<Rightarrow> string \<Rightarrow> string \<Rightarrow> db_tables \<Rightarrow> string + db_tables" where
  "secret_Create newId team env key plain ts =
     (if list_ex (\<lambda>s. sec_team s = team \<and> sec_env s = env \<and> sec_key s = key) (dt_secrets ts)
      then Inl (''create secret: '' @ duplicate_key ''secrets_team_id_environment_key_key'')
      else Inr (ts\<lparr>dt_secrets := dt_secrets ts @ [\<lparr>sec_id = newId, sec_team = team, sec_env = env, sec_key = key, sec_plain = plain\<rparr>]\<rparr>))"

definition secret_Delete :: "string \<Rightarrow> string \<Rightarrow> db_tables \<Rightarrow> db_tables" where
  "secret_Delete team sid ts = ts\<lparr>dt_secrets := filter (\<lambda>s. \<not> (sec_id s = sid \<and> sec_team s = team)) (dt_secrets ts)\<rparr>"

definition database_env :: "string \<Rightarrow> string" where
  "database_env name = ''database:'' @ name"

definition CreateDatabaseSecrets ::
    "string \<Rightarrow> string \<Rightarrow> string \<Rightarrow> string \<Rightarrow> string \<Rightarrow> string \<Rightarrow> db_tables \<Rightarrow> db_tables \<times> (string + unit)" where
  "CreateDatabaseSecrets superId appId team name superPass appPass ts =
     (case secret_Create superId team (database_env name) ''SUPERUSER_PASSWORD'' superPass ts of
        Inl e \<Rightarrow> (ts, Inl (''create superuser secret: '' @ e))
      | Inr ts1 \<Rightarrow>
          (case secret_Create appId team (database_env name) ''APP_PASSWORD'' appPass ts1 of
             Inl e \<Rightarrow> (secret_Delete team superId ts1, Inl (''create app secret: '' @ e))
           | Inr ts2 \<Rightarrow> (ts2, Inr ())))"

text \<open>\<open>rollbackProvision\<close>; the nil UUID, for what was not created, is \<open>None\<close>.\<close>

definition rollbackProvision :: "string \<Rightarrow> string \<Rightarrow> string option \<Rightarrow> string option \<Rightarrow> db_tables \<Rightarrow> db_tables" where
  "rollbackProvision team volId superId appId ts =
     (let ts1 = VolumeService_Delete team volId ts;
          ts2 = (case superId of Some i \<Rightarrow> secret_Delete team i ts1 | None \<Rightarrow> ts1)
      in case appId of Some i \<Rightarrow> secret_Delete team i ts2 | None \<Rightarrow> ts2)"

section \<open>Placement\<close>

text \<open>
  The members of the clusters are pairs of a cluster and a server, \<open>owned\<close> the servers of the team, and \<open>nil\<close> the
  nil UUID. The loop over the members keeps the first of those with the smallest number of databases.
\<close>

definition CountDatabasesByServer :: "string \<Rightarrow> db_tables \<Rightarrow> string \<Rightarrow> int" where
  "CountDatabasesByServer cluster ts server =
     int (length (filter (\<lambda>d. Database_cluster_id d = cluster \<and> Database_status d \<noteq> ''deleted'' \<and> Database_server_id d = server)
            (dt_databases ts)))"

definition place_step :: "(string \<Rightarrow> int) \<Rightarrow> string option \<times> int \<Rightarrow> string \<Rightarrow> string option \<times> int" where
  "place_step load best s = (if snd best = -1 \<or> load s < snd best then (Some s, load s) else best)"

definition place_auto :: "(string \<times> string) list \<Rightarrow> string \<Rightarrow> db_tables \<Rightarrow> string + string" where
  "place_auto members cluster ts =
     (let servers = map snd (filter (\<lambda>m. fst m = cluster) members) in
      if servers = [] then Inl ''cluster has no servers''
      else case fst (foldl (place_step (CountDatabasesByServer cluster ts)) (None, -1) servers) of
        None \<Rightarrow> Inl ''no eligible server found''
      | Some s \<Rightarrow> Inr s)"

definition resolvePlacement ::
    "(string \<times> string) list \<Rightarrow> (string \<Rightarrow> bool) \<Rightarrow> (string \<Rightarrow> bool) \<Rightarrow> string \<Rightarrow> string option \<Rightarrow> db_tables \<Rightarrow> string + string" where
  "resolvePlacement members owned nil cluster pinned ts =
     (case pinned of
        Some s \<Rightarrow>
          if \<not> nil s then
            (case find (\<lambda>m. snd m = s) members of
               None \<Rightarrow> Inl ''pinned server not in any cluster: no rows in result set''
             | Some m \<Rightarrow>
                 if fst m \<noteq> cluster then Inl ''pinned server is not in the requested cluster''
                 else if \<not> owned s then Inl ''server not found in team: no rows in result set''
                 else Inr s)
          else place_auto members cluster ts
      | None \<Rightarrow> place_auto members cluster ts)"

section \<open>Provisioning\<close>

definition int32_of :: "int \<Rightarrow> int" where
  "int32_of n = (n + 2 ^ 31) mod 2 ^ 32 - 2 ^ 31"

record provision_request =
  pr_cluster :: string
  pr_server :: "string option"
  pr_slug :: string
  pr_version :: string
  pr_name :: string
  pr_size :: int
  pr_cpu :: int
  pr_memory :: int
  pr_schedule :: string
  pr_retention :: int

text \<open>What a call gets from outside: new identifiers, the time, random text and the agent's answer about the volume.\<close>

record provision_inputs =
  px_volume :: string
  px_super :: string
  px_app :: string
  px_database :: string
  px_now :: string
  px_suffix :: string
  px_superPass :: string
  px_appPass :: string
  px_reply :: agent_reply

text \<open>The template registry (\<open>internal/template/registry.go\<close>): a map built in order, so the last of equal slugs counts.\<close>

definition template_Get :: "Template list \<Rightarrow> string \<Rightarrow> Template option" where
  "template_Get tmpls slug = find (\<lambda>t. Template_slug t = slug) (rev tmpls)"

definition template_GetVersion :: "Template list \<Rightarrow> string \<Rightarrow> string \<Rightarrow> string + TemplateVersion" where
  "template_GetVersion tmpls slug version =
     (case template_Get tmpls slug of
        None \<Rightarrow> Inl (''template not found: '' @ slug)
      | Some t \<Rightarrow>
          (case find (\<lambda>v. TemplateVersion_version v = version) (Template_versions t) of
             Some v \<Rightarrow> Inr v
           | None \<Rightarrow> Inl (''version '' @ go_quote version @ '' not found for template '' @ go_quote slug)))"

text \<open>The defaults for what the request leaves at zero.\<close>

definition with_defaults :: "Template \<Rightarrow> provision_request \<Rightarrow> provision_request" where
  "with_defaults t r =
     (let gib = or_default (TemplateVolumeSpec_default_gib (Template_volume_spec t)) 0;
          size1 = (if pr_size r \<le> 0 then gib else pr_size r);
          res = Template_default_resources t
      in r\<lparr>pr_size := (if size1 \<le> 0 then 10 else size1),
           pr_cpu := (if pr_cpu r \<le> 0 then TemplateDefaultResources_milli_cpu res else pr_cpu r),
           pr_memory := (if pr_memory r \<le> 0 then TemplateDefaultResources_memory_mb res else pr_memory r),
           pr_retention := (if pr_retention r \<le> 0 then 7 else pr_retention r)\<rparr>)"

definition database_name :: "provision_inputs \<Rightarrow> provision_request \<Rightarrow> string" where
  "database_name px r = (let n = trim_by go_space (pr_name r) in if n = [] then pr_slug r @ ''-'' @ px_suffix px else n)"

definition project_slug :: "Project \<Rightarrow> string" where
  "project_slug p = (if Project_slug p = [] then take 8 (Project_id p) else Project_slug p)"

definition new_database :: "provision_inputs \<Rightarrow> Project \<Rightarrow> string \<Rightarrow> Template \<Rightarrow> provision_request \<Rightarrow> Database" where
  "new_database px p server t r =
     \<lparr>Database_id = px_database px, Database_team_id = Project_team_id p, Database_project_id = Project_id p,
      Database_cluster_id = pr_cluster r, Database_server_id = server, Database_volume_id = Some (px_volume px),
      Database_template_slug = pr_slug r, Database_version = pr_version r, Database_name = database_name px r,
      Database_container_name = ''nw-db-'' @ project_slug p @ ''-'' @ database_name px r,
      Database_status = ''provisioning'', Database_port = (case Template_ports t of [] \<Rightarrow> 0 | q # qs \<Rightarrow> int32_of q),
      Database_dns_record = None, Database_superuser_secret_id = Some (px_super px),
      Database_appuser_secret_id = Some (px_app px), Database_resource_cpu_millicores = int32_of (pr_cpu r),
      Database_resource_memory_mb = int32_of (pr_memory r),
      Database_backup_schedule = (if pr_schedule r = [] then None else Some (pr_schedule r)),
      Database_backup_retention_days = Some (int32_of (pr_retention r)), Database_backup_storage_type = Some ''minio'',
      Database_provision_log = [], Database_error_message = None, Database_created_at = px_now px,
      Database_updated_at = px_now px\<rparr>"

definition CreateDatabase :: "Database \<Rightarrow> db_tables \<Rightarrow> string + db_tables" where
  "CreateDatabase d ts =
     (if list_ex (\<lambda>e. Database_project_id e = Database_project_id d \<and> Database_name e = Database_name d) (dt_databases ts)
      then Inl (duplicate_key ''databases_project_id_name_key'')
      else Inr (ts\<lparr>dt_databases := dt_databases ts @ [d]\<rparr>))"

text \<open>The writes of \<open>Provision\<close>, after the checks and the placement.\<close>

definition provision_writes ::
    "provision_inputs \<Rightarrow> Project \<Rightarrow> string \<Rightarrow> Template \<Rightarrow> provision_request \<Rightarrow> db_tables \<Rightarrow> db_tables \<times> (string + DatabaseProvisionResult)" where
  "provision_writes px p server t r ts =
     (let team = Project_team_id p; name = database_name px r in
      case VolumeService_Create (px_volume px) (px_now px) team (pr_cluster r) server (''db-'' @ name) (int32_of (pr_size r))
             (px_reply px) ts of
        Inl e \<Rightarrow> (ts, Inl (''create volume: '' @ e))
      | Inr (ts1, v) \<Rightarrow>
          (case CreateDatabaseSecrets (px_super px) (px_app px) team name (px_superPass px) (px_appPass px) ts1 of
             (ts2, Inl e) \<Rightarrow> (rollbackProvision team (px_volume px) None None ts2, Inl (''store credentials: '' @ e))
           | (ts2, Inr u) \<Rightarrow>
               (case CreateDatabase (new_database px p server t r) ts2 of
                  Inl e \<Rightarrow> (rollbackProvision team (px_volume px) (Some (px_super px)) (Some (px_app px)) ts2,
                            Inl (''create database: '' @ e))
                | Inr ts3 \<Rightarrow>
                    (ts3, Inr \<lparr>DatabaseProvisionResult_database = new_database px p server t r,
                               DatabaseProvisionResult_superuser_password = px_superPass px,
                               DatabaseProvisionResult_appuser_password = px_appPass px\<rparr>))))"

record provision_context =
  pc_templates :: "Template list"
  pc_members :: "(string \<times> string) list"
  pc_owned :: "string \<Rightarrow> bool"
  pc_nil :: "string \<Rightarrow> bool"

definition Provision ::
    "provision_context \<Rightarrow> provision_inputs \<Rightarrow> Project \<Rightarrow> provision_request \<Rightarrow> db_tables \<Rightarrow> db_tables \<times> (string + DatabaseProvisionResult)" where
  "Provision cx px p req ts =
     (case template_Get (pc_templates cx) (pr_slug req) of
        None \<Rightarrow> (ts, Inl (''template not found: '' @ pr_slug req))
      | Some t \<Rightarrow>
          (case template_GetVersion (pc_templates cx) (pr_slug req) (pr_version req) of
             Inl e \<Rightarrow> (ts, Inl e)
           | Inr v \<Rightarrow>
               (let r = with_defaults t req in
                case resolvePlacement (pc_members cx) (pc_owned cx) (pc_nil cx) (pr_cluster r) (pr_server r) ts of
                  Inl e \<Rightarrow> (ts, Inl e)
                | Inr server \<Rightarrow> provision_writes px p server t r ts)))"

section \<open>Stopping, starting, deleting\<close>

definition set_database :: "string \<Rightarrow> (Database \<Rightarrow> Database) \<Rightarrow> db_tables \<Rightarrow> db_tables" where
  "set_database i f ts = ts\<lparr>dt_databases := map (\<lambda>d. if Database_id d = i then f d else d) (dt_databases ts)\<rparr>"

text \<open>\<open>Stop\<close>: the command to the agent either fails, with an error, or was sent.\<close>

definition database_Stop :: "string option \<Rightarrow> string \<Rightarrow> db_tables \<Rightarrow> db_tables \<times> string option" where
  "database_Stop send i ts =
     (case find (\<lambda>d. Database_id d = i) (dt_databases ts) of
        None \<Rightarrow> (ts, Some ''get database: no rows in result set'')
      | Some d \<Rightarrow>
          (case send of
             Some e \<Rightarrow> (ts, Some (''send stop: '' @ e))
           | None \<Rightarrow> (set_database i (\<lambda>d. d\<lparr>Database_status := ''stopped''\<rparr>) ts, None)))"

text \<open>\<open>Start\<close> up to the run in the background; \<open>creds\<close> is the error of reading the two secrets, if there is one.\<close>

definition database_Start :: "Template list \<Rightarrow> string option \<Rightarrow> string \<Rightarrow> db_tables \<Rightarrow> db_tables \<times> string option" where
  "database_Start tmpls creds i ts =
     (case find (\<lambda>d. Database_id d = i) (dt_databases ts) of
        None \<Rightarrow> (ts, Some ''get database: no rows in result set'')
      | Some d \<Rightarrow>
          (case template_Get tmpls (Database_template_slug d) of
             None \<Rightarrow> (ts, Some (''template no longer exists: '' @ Database_template_slug d))
           | Some t \<Rightarrow>
               (case template_GetVersion tmpls (Database_template_slug d) (Database_version d) of
                  Inl e \<Rightarrow> (ts, Some e)
                | Inr v \<Rightarrow>
                    if creds \<noteq> None then (ts, Some (''resolve credentials: '' @ the creds))
                    else (case Database_volume_id d of
                       Some vid \<Rightarrow>
                         if list_ex (\<lambda>v. Volume_id v = vid) (dt_volumes ts)
                         then (set_database i (\<lambda>d. d\<lparr>Database_status := ''provisioning''\<rparr>) ts, None)
                         else (ts, Some ''get volume: no rows in result set'')
                     | None \<Rightarrow> (set_database i (\<lambda>d. d\<lparr>Database_status := ''provisioning''\<rparr>) ts, None)))))"

text \<open>\<open>Delete\<close>: the volume is detached where that is possible, and the row goes; volume and secrets stay.\<close>

definition volume_detach :: "string \<Rightarrow> string \<Rightarrow> db_tables \<Rightarrow> db_tables" where
  "volume_detach team vid ts = ts\<lparr>dt_volumes := map (\<lambda>v.
     if Volume_id v = vid \<and> Volume_team_id v = team
     then (case volume_begin (\<lambda>_. None) v VDetach of Inl e \<Rightarrow> v | Inr (v', op) \<Rightarrow> v') else v) (dt_volumes ts)\<rparr>"

definition database_Delete :: "string \<Rightarrow> db_tables \<Rightarrow> db_tables \<times> string option" where
  "database_Delete i ts =
     (case find (\<lambda>d. Database_id d = i) (dt_databases ts) of
        None \<Rightarrow> (ts, Some ''get database: no rows in result set'')
      | Some d \<Rightarrow>
          (let ts1 = (case Database_volume_id d of Some vid \<Rightarrow> volume_detach (Database_team_id d) vid ts | None \<Rightarrow> ts)
           in (ts1\<lparr>dt_databases := filter (\<lambda>d. Database_id d \<noteq> i) (dt_databases ts1)\<rparr>, None)))"

section \<open>Placement on the least loaded server\<close>

lemma place_foldl:
  assumes "\<And>s. 0 \<le> load s" and "xs \<noteq> []"
  shows "\<exists>s \<in> set xs. foldl (place_step load) (None, -1) xs = (Some s, load s) \<and> (\<forall>x \<in> set xs. load s \<le> load x)"
  using assms(2)
proof (induction xs rule: rev_induct)
  case (snoc x xs)
  show ?case
  proof (cases "xs = []")
    case False
    with snoc(1) obtain s where s: "s \<in> set xs" "foldl (place_step load) (None, -1) xs = (Some s, load s)"
      "\<forall>x \<in> set xs. load s \<le> load x" by blast
    have f: "foldl (place_step load) (None, -1) (xs @ [x]) = (if load x < load s then (Some x, load x) else (Some s, load s))"
      using assms(1) [of s] by (simp add: s(2) place_step_def)
    show ?thesis
    proof (cases "load x < load s")
      case True
      with s(3) have "\<forall>y \<in> set (xs @ [x]). load x \<le> load y" by fastforce
      with True f show ?thesis by (intro bexI [of _ x]) simp_all
    next
      case False
      with s(3) have "\<forall>y \<in> set (xs @ [x]). load s \<le> load y" by simp
      with False f s(1) show ?thesis by (intro bexI [of _ s]) simp_all
    qed
  qed (simp add: place_step_def)
qed simp

lemma CountDatabases_nonneg: "0 \<le> CountDatabasesByServer c ts s"
  by (simp add: CountDatabasesByServer_def)

text \<open>
  Without a pinned server a database is placed on a member of its cluster that has no more databases than any
  other member; a cluster without servers is the only reason to refuse.
\<close>

lemma place_auto_least:
  "(if map snd (filter (\<lambda>m. fst m = cluster) members) = [] then place_auto members cluster ts = Inl ''cluster has no servers''
    else \<exists>s. place_auto members cluster ts = Inr s \<and> (cluster, s) \<in> set members \<and>
      (\<forall>x. (cluster, x) \<in> set members \<longrightarrow> CountDatabasesByServer cluster ts s \<le> CountDatabasesByServer cluster ts x))"
proof (cases "map snd (filter (\<lambda>m. fst m = cluster) members) = []")
  case True
  then show ?thesis by (simp add: place_auto_def Let_def)
next
  case False
  from place_foldl [of "CountDatabasesByServer cluster ts", OF CountDatabases_nonneg False] obtain s where
    s: "s \<in> set (map snd (filter (\<lambda>m. fst m = cluster) members))"
    "fst (foldl (place_step (CountDatabasesByServer cluster ts)) (None, -1) (map snd (filter (\<lambda>m. fst m = cluster) members))) = Some s"
    "\<forall>x \<in> set (map snd (filter (\<lambda>m. fst m = cluster) members)). CountDatabasesByServer cluster ts s \<le> CountDatabasesByServer cluster ts x"
    by (metis fst_conv)
  have "place_auto members cluster ts = Inr s"
    unfolding place_auto_def Let_def using False s(2) by simp
  moreover have "(cluster, s) \<in> set members" using s(1) by auto
  moreover have "CountDatabasesByServer cluster ts s \<le> CountDatabasesByServer cluster ts x" if "(cluster, x) \<in> set members" for x
  proof -
    have "x \<in> set (map snd (filter (\<lambda>m. fst m = cluster) members))" using that by (auto intro!: image_eqI [of _ snd "(cluster, x)"])
    with s(3) show ?thesis by blast
  qed
  ultimately have "\<exists>s. place_auto members cluster ts = Inr s \<and> (cluster, s) \<in> set members \<and>
      (\<forall>x. (cluster, x) \<in> set members \<longrightarrow> CountDatabasesByServer cluster ts s \<le> CountDatabasesByServer cluster ts x)" by blast
  then show ?thesis using False by (simp only: if_False)
qed

lemma resolvePlacement_ok:
  assumes "resolvePlacement members owned nil cluster pinned ts = Inr s"
  shows "(cluster, s) \<in> set members \<and>
    (case pinned of
       Some x \<Rightarrow> \<not> nil x \<longrightarrow> s = x
     | None \<Rightarrow> \<forall>x. (cluster, x) \<in> set members \<longrightarrow> CountDatabasesByServer cluster ts s \<le> CountDatabasesByServer cluster ts x)"
proof -
  have auto: "(cluster, s) \<in> set members \<and>
      (\<forall>x. (cluster, x) \<in> set members \<longrightarrow> CountDatabasesByServer cluster ts s \<le> CountDatabasesByServer cluster ts x)"
    if "place_auto members cluster ts = Inr s"
    using place_auto_least [of cluster members ts] that by (simp split: if_splits)
  show ?thesis
  proof (cases "\<exists>x. pinned = Some x \<and> \<not> nil x")
    case True
    then obtain x where x: "pinned = Some x" "\<not> nil x" by blast
    with assms obtain m where m: "find (\<lambda>m. snd m = x) members = Some m" "fst m = cluster" "s = x"
      by (auto simp: resolvePlacement_def split: option.splits if_splits)
    then have "m \<in> set members" "snd m = x" by (auto simp: find_Some_iff)
    with m(2) have "(cluster, x) \<in> set members" by (cases m) simp
    then show ?thesis by (simp add: x m(3))
  next
    case False
    then have "place_auto members cluster ts = Inr s"
      using assms by (auto simp: resolvePlacement_def split: option.splits)
    note auto [OF this]
    then show ?thesis using False by (cases pinned) auto
  qed
qed

section \<open>All or nothing\<close>

definition fresh_ids :: "provision_inputs \<Rightarrow> db_tables \<Rightarrow> bool" where
  "fresh_ids px ts =
     (px_volume px \<notin> Volume_id ` set (dt_volumes ts) \<and> px_super px \<notin> sec_id ` set (dt_secrets ts) \<and>
      px_app px \<notin> sec_id ` set (dt_secrets ts) \<and> px_super px \<noteq> px_app px \<and>
      px_database px \<notin> Database_id ` set (dt_databases ts))"

lemma volume_Create_fields [simp]:
  "Volume_id (volume_Create i now team c s n gb fs r) = i" "Volume_team_id (volume_Create i now team c s n gb fs r) = team"
  "Volume_name (volume_Create i now team c s n gb fs r) = n" "Volume_status (volume_Create i now team c s n gb fs r) \<noteq> ''attached''"
  by (simp_all add: volume_Create_def split: sum.split)

lemma VolumeService_Delete_new:
  assumes "Volume_id v \<notin> Volume_id ` set vs" and "dt_volumes ts = vs @ [v]" and "Volume_status v \<noteq> ''attached''"
  shows "VolumeService_Delete (Volume_team_id v) (Volume_id v) ts = ts\<lparr>dt_volumes := vs\<rparr>"
proof -
  have n: "\<And>w. w \<in> set vs \<Longrightarrow> Volume_id w \<noteq> Volume_id v" using assms(1) by (metis image_eqI)
  have "find (\<lambda>w. Volume_id w = Volume_id v \<and> Volume_team_id w = Volume_team_id v) (vs @ [v]) = Some v"
    using n by (induction vs) auto
  moreover have "filter (\<lambda>w. \<not> (Volume_id w = Volume_id v \<and> Volume_team_id w = Volume_team_id v)) (vs @ [v]) = vs"
    using n by (auto simp: filter_id_conv)
  ultimately show ?thesis using assms(2,3) by (simp add: VolumeService_Delete_def volume_Delete_def)
qed

lemma secret_Delete_new:
  assumes "sec_id s \<notin> sec_id ` set ss" and "dt_secrets ts = ss @ [s]"
  shows "secret_Delete (sec_team s) (sec_id s) ts = ts\<lparr>dt_secrets := ss\<rparr>"
proof -
  have n: "\<And>w. w \<in> set ss \<Longrightarrow> sec_id w \<noteq> sec_id s" using assms(1) by (metis image_eqI)
  then have "filter (\<lambda>w. \<not> (sec_id w = sec_id s \<and> sec_team w = sec_team s)) ss = ss"
    by (simp add: filter_id_conv)
  then show ?thesis by (simp add: secret_Delete_def assms(2))
qed

lemma new_secret_fields:
  "secret_Create i team env key plain ts = Inr ts' \<Longrightarrow>
   ts' = ts\<lparr>dt_secrets := dt_secrets ts @ [\<lparr>sec_id = i, sec_team = team, sec_env = env, sec_key = key, sec_plain = plain\<rparr>]\<rparr>"
  by (simp add: secret_Create_def split: if_splits)

text \<open>The two secrets are written together or not at all.\<close>

lemma CreateDatabaseSecrets_cases:
  assumes "CreateDatabaseSecrets si ai team name sp ap ts = (ts', res)" and "si \<notin> sec_id ` set (dt_secrets ts)"
  shows "case res of
      Inl e \<Rightarrow> ts' = ts
    | Inr u \<Rightarrow> ts' = ts\<lparr>dt_secrets := dt_secrets ts @
        [\<lparr>sec_id = si, sec_team = team, sec_env = database_env name, sec_key = ''SUPERUSER_PASSWORD'', sec_plain = sp\<rparr>,
         \<lparr>sec_id = ai, sec_team = team, sec_env = database_env name, sec_key = ''APP_PASSWORD'', sec_plain = ap\<rparr>]\<rparr>"
proof (cases "secret_Create si team (database_env name) ''SUPERUSER_PASSWORD'' sp ts")
  case (Inl e)
  with assms(1) show ?thesis by (auto simp: CreateDatabaseSecrets_def)
next
  case (Inr ts1)
  note ts1 = new_secret_fields [OF Inr]
  show ?thesis
  proof (cases "secret_Create ai team (database_env name) ''APP_PASSWORD'' ap ts1")
    case (Inl e)
    have "secret_Delete team si ts1 = ts"
      using secret_Delete_new [of "\<lparr>sec_id = si, sec_team = team, sec_env = database_env name, sec_key = ''SUPERUSER_PASSWORD'', sec_plain = sp\<rparr>"
          "dt_secrets ts" ts1] assms(2) by (simp add: ts1)
    with Inl Inr assms(1) show ?thesis by (auto simp: CreateDatabaseSecrets_def)
  next
    case (Inr ts2)
    with new_secret_fields [OF this] ts1 assms(1) \<open>secret_Create si _ _ _ _ _ = Inr ts1\<close> show ?thesis
      by (auto simp: CreateDatabaseSecrets_def)
  qed
qed

lemma rollback_restores:
  assumes "fresh_ids px ts" and "v = volume_Create (px_volume px) now team c s n gb fs rep"
  shows "rollbackProvision team (px_volume px) None None (ts\<lparr>dt_volumes := dt_volumes ts @ [v]\<rparr>) = ts"
    and "rollbackProvision team (px_volume px) (Some (px_super px)) (Some (px_app px))
      (ts\<lparr>dt_volumes := dt_volumes ts @ [v], dt_secrets := dt_secrets ts @
        [\<lparr>sec_id = px_super px, sec_team = team, sec_env = e1, sec_key = k1, sec_plain = p1\<rparr>,
         \<lparr>sec_id = px_app px, sec_team = team, sec_env = e2, sec_key = k2, sec_plain = p2\<rparr>]\<rparr>) = ts"
proof -
  have f: "Volume_id v \<notin> Volume_id ` set (dt_volumes ts)" "Volume_status v \<noteq> ''attached''" "Volume_id v = px_volume px"
    "Volume_team_id v = team"
    using assms by (simp_all add: fresh_ids_def)
  have d: "VolumeService_Delete team (px_volume px) ts' = ts'\<lparr>dt_volumes := dt_volumes ts\<rparr>"
    if "dt_volumes ts' = dt_volumes ts @ [v]" for ts'
    using VolumeService_Delete_new [OF f(1) that f(2)] unfolding f(3,4) .
  show "rollbackProvision team (px_volume px) None None (ts\<lparr>dt_volumes := dt_volumes ts @ [v]\<rparr>) = ts"
    by (simp add: rollbackProvision_def d)
  have "\<And>w. w \<in> set (dt_secrets ts) \<Longrightarrow> sec_id w \<noteq> px_super px \<and> sec_id w \<noteq> px_app px"
    using assms(1) unfolding fresh_ids_def by (metis image_eqI)
  then have keep: "filter (\<lambda>w. (sec_id w = px_super px \<longrightarrow> sec_team w \<noteq> team) \<and> (sec_id w = px_app px \<longrightarrow> sec_team w \<noteq> team))
      (dt_secrets ts) = dt_secrets ts"
    by (simp add: filter_id_conv)
  show "rollbackProvision team (px_volume px) (Some (px_super px)) (Some (px_app px))
      (ts\<lparr>dt_volumes := dt_volumes ts @ [v], dt_secrets := dt_secrets ts @
        [\<lparr>sec_id = px_super px, sec_team = team, sec_env = e1, sec_key = k1, sec_plain = p1\<rparr>,
         \<lparr>sec_id = px_app px, sec_team = team, sec_env = e2, sec_key = k2, sec_plain = p2\<rparr>]\<rparr>) = ts"
    using assms(1) by (simp add: rollbackProvision_def d secret_Delete_def keep fresh_ids_def)
qed

lemma volume_Create_server [simp]: "Volume_server_id (volume_Create i now team c s n gb fs r) = s"
  "Volume_size_gb (volume_Create i now team c s n gb fs r) = gb"
  by (simp_all add: volume_Create_def)

lemma new_database_fields [simp]:
  "Database_id (new_database px p s t r) = px_database px" "Database_team_id (new_database px p s t r) = Project_team_id p"
  "Database_project_id (new_database px p s t r) = Project_id p" "Database_server_id (new_database px p s t r) = s"
  "Database_volume_id (new_database px p s t r) = Some (px_volume px)" "Database_name (new_database px p s t r) = database_name px r"
  "Database_status (new_database px p s t r) = ''provisioning''" "Database_template_slug (new_database px p s t r) = pr_slug r"
  "Database_version (new_database px p s t r) = pr_version r" "Database_cluster_id (new_database px p s t r) = pr_cluster r"
  by (simp_all add: new_database_def)

text \<open>What a successful call leaves in the tables.\<close>

definition provisioned :: "Project \<Rightarrow> db_tables \<Rightarrow> db_tables \<Rightarrow> DatabaseProvisionResult \<Rightarrow> bool" where
  "provisioned p ts ts' res =
     (let d = DatabaseProvisionResult_database res in
      dt_databases ts' = dt_databases ts @ [d] \<and> Database_project_id d = Project_id p \<and> Database_status d = ''provisioning'' \<and>
      (\<exists>v. dt_volumes ts' = dt_volumes ts @ [v] \<and> Database_volume_id d = Some (Volume_id v) \<and> Volume_team_id v = Project_team_id p \<and>
         Volume_name v = ''db-'' @ Database_name d \<and> Volume_server_id v = Database_server_id d \<and> Volume_status v \<noteq> ''attached'') \<and>
      (\<exists>s a. dt_secrets ts' = dt_secrets ts @ [s, a] \<and> Database_superuser_secret_id d = Some (sec_id s) \<and>
         Database_appuser_secret_id d = Some (sec_id a) \<and> sec_team s = Project_team_id p \<and> sec_team a = Project_team_id p \<and>
         sec_env s = database_env (Database_name d) \<and> sec_env a = database_env (Database_name d) \<and>
         sec_key s = ''SUPERUSER_PASSWORD'' \<and> sec_key a = ''APP_PASSWORD'' \<and>
         sec_plain s = DatabaseProvisionResult_superuser_password res \<and> sec_plain a = DatabaseProvisionResult_appuser_password res))"

lemma provision_writes_outcome:
  assumes "fresh_ids px ts"
  shows "case snd (provision_writes px p server t r ts) of
      Inl e \<Rightarrow> fst (provision_writes px p server t r ts) = ts
    | Inr res \<Rightarrow> provisioned p ts (fst (provision_writes px p server t r ts)) res \<and>
        DatabaseProvisionResult_database res = new_database px p server t r"
proof -
  let ?team = "Project_team_id p" and ?name = "database_name px r"
  let ?v = "volume_Create (px_volume px) (px_now px) ?team (pr_cluster r) server (''db-'' @ ?name) (int32_of (pr_size r)) [] (px_reply px)"
  show ?thesis
  proof (cases "VolumeService_Create (px_volume px) (px_now px) ?team (pr_cluster r) server (''db-'' @ ?name) (int32_of (pr_size r)) (px_reply px) ts")
    case (Inl e)
    then show ?thesis by (simp add: provision_writes_def Let_def)
  next
    case (Inr b)
    then have b: "b = (ts\<lparr>dt_volumes := dt_volumes ts @ [?v]\<rparr>, ?v)"
      by (simp add: VolumeService_Create_def Let_def split: if_splits)
    obtain ts2 sres where sec: "CreateDatabaseSecrets (px_super px) (px_app px) ?team ?name (px_superPass px) (px_appPass px)
        (ts\<lparr>dt_volumes := dt_volumes ts @ [?v]\<rparr>) = (ts2, sres)" by (cases "CreateDatabaseSecrets (px_super px) (px_app px) ?team ?name (px_superPass px) (px_appPass px)
        (ts\<lparr>dt_volumes := dt_volumes ts @ [?v]\<rparr>)")
    have fr: "px_super px \<notin> sec_id ` set (dt_secrets (ts\<lparr>dt_volumes := dt_volumes ts @ [?v]\<rparr>))"
      using assms by (simp add: fresh_ids_def)
    note ts2 = CreateDatabaseSecrets_cases [OF sec fr]
    show ?thesis
    proof (cases sres)
      case (Inl e)
      with ts2 have "ts2 = ts\<lparr>dt_volumes := dt_volumes ts @ [?v]\<rparr>" by simp
      with rollback_restores(1) [OF assms refl] Inl Inr sec b show ?thesis by (simp add: provision_writes_def Let_def)
    next
      case (Inr u)
      then have t2: "ts2 = ts\<lparr>dt_volumes := dt_volumes ts @ [?v], dt_secrets := dt_secrets ts @
        [\<lparr>sec_id = px_super px, sec_team = ?team, sec_env = database_env ?name, sec_key = ''SUPERUSER_PASSWORD'', sec_plain = px_superPass px\<rparr>,
         \<lparr>sec_id = px_app px, sec_team = ?team, sec_env = database_env ?name, sec_key = ''APP_PASSWORD'', sec_plain = px_appPass px\<rparr>]\<rparr>"
        using ts2 by simp
      have w: "provision_writes px p server t r ts =
        (case CreateDatabase (new_database px p server t r) ts2 of
           Inl e \<Rightarrow> (rollbackProvision ?team (px_volume px) (Some (px_super px)) (Some (px_app px)) ts2, Inl (''create database: '' @ e))
         | Inr ts3 \<Rightarrow> (ts3, Inr \<lparr>DatabaseProvisionResult_database = new_database px p server t r,
             DatabaseProvisionResult_superuser_password = px_superPass px, DatabaseProvisionResult_appuser_password = px_appPass px\<rparr>))"
        using Inr sec b \<open>VolumeService_Create _ _ _ _ _ _ _ _ _ = Inr b\<close> by (simp add: provision_writes_def Let_def)
      show ?thesis
      proof (cases "CreateDatabase (new_database px p server t r) ts2")
        case (Inl e)
        then show ?thesis unfolding w using rollback_restores(2) [OF assms refl] by (simp add: t2)
      next
        case (Inr ts3)
        then have "ts3 = ts2\<lparr>dt_databases := dt_databases ts2 @ [new_database px p server t r]\<rparr>"
          by (simp add: CreateDatabase_def split: if_splits)
        then show ?thesis unfolding w using Inr by (simp add: provisioned_def Let_def t2) (simp add: new_database_def)
      qed
    qed
  qed
qed

lemma with_defaults_keeps [simp]: "pr_slug (with_defaults t r) = pr_slug r" "pr_version (with_defaults t r) = pr_version r"
  "pr_cluster (with_defaults t r) = pr_cluster r" "pr_server (with_defaults t r) = pr_server r" "pr_name (with_defaults t r) = pr_name r"
  "pr_schedule (with_defaults t r) = pr_schedule r"
  by (simp_all add: with_defaults_def Let_def)

lemma Provision_cases:
  obtains (refused) e where "Provision cx px p req ts = (ts, Inl e)"
  | (writes) s t where "Provision cx px p req ts = provision_writes px p s t (with_defaults t req) ts"
      "resolvePlacement (pc_members cx) (pc_owned cx) (pc_nil cx) (pr_cluster req) (pr_server req) ts = Inr s"
proof -
  have "(\<exists>e. Provision cx px p req ts = (ts, Inl e)) \<or>
    (\<exists>s t. Provision cx px p req ts = provision_writes px p s t (with_defaults t req) ts \<and>
      resolvePlacement (pc_members cx) (pc_owned cx) (pc_nil cx) (pr_cluster req) (pr_server req) ts = Inr s)"
    unfolding Provision_def Let_def with_defaults_keeps
    by (auto split: option.split sum.split)
  then show thesis using refused writes by blast
qed

text \<open>
  C18: Provisioning is all or nothing. Either the tables are unchanged and the caller gets an error, or there is one
  more row, in status provisioning, with its own volume on the chosen server and the two secrets whose values are
  the passwords returned. The server is a member of the requested cluster: the pinned one, or one with the fewest
  databases. The volume is not marked as attached.
\<close>

lemma provision_all_or_nothing:
  assumes "fresh_ids px ts"
  shows "case Provision cx px p req ts of
      (ts', Inl e) \<Rightarrow> ts' = ts
    | (ts', Inr res) \<Rightarrow> provisioned p ts ts' res \<and>
        (let d = DatabaseProvisionResult_database res in
         Database_template_slug d = pr_slug req \<and> Database_version d = pr_version req \<and> Database_cluster_id d = pr_cluster req \<and>
         (pr_cluster req, Database_server_id d) \<in> set (pc_members cx) \<and>
         (case pr_server req of
            Some s \<Rightarrow> \<not> pc_nil cx s \<longrightarrow> Database_server_id d = s
          | None \<Rightarrow> \<forall>x. (pr_cluster req, x) \<in> set (pc_members cx) \<longrightarrow>
              CountDatabasesByServer (pr_cluster req) ts (Database_server_id d) \<le> CountDatabasesByServer (pr_cluster req) ts x))"
proof (cases rule: Provision_cases [of cx px p req ts])
  case (writes s t)
  let ?w = "provision_writes px p s t (with_defaults t req) ts"
  note place = resolvePlacement_ok [OF writes(2)]
  show ?thesis unfolding writes(1)
    using provision_writes_outcome [OF assms, of p s t "with_defaults t req"] place
    by (cases ?w; cases "snd ?w"; cases "pr_server req") (simp_all add: Let_def)
qed simp

section \<open>Names\<close>

text \<open>What the operations of the service, the runs in the background and deleting volumes can do to the tables.\<close>

inductive db_step :: "db_tables \<Rightarrow> db_tables \<Rightarrow> bool" where
  provision: "fresh_ids px ts \<Longrightarrow> db_step ts (fst (Provision cx px p req ts))"
| stop: "db_step ts (fst (database_Stop send i ts))"
| start: "db_step ts (fst (database_Start tmpls creds i ts))"
| delete: "db_step ts (fst (database_Delete i ts))"
| run: "(\<And>d. Database_team_id (f d) = Database_team_id d \<and> Database_project_id (f d) = Database_project_id d \<and>
          Database_name (f d) = Database_name d \<and> Database_id (f d) = Database_id d) \<Longrightarrow> db_step ts (set_database i f ts)"
| delete_volume: "db_step ts (VolumeService_Delete team vid ts)"

definition name_taken :: "string \<Rightarrow> string \<Rightarrow> db_tables \<Rightarrow> bool" where
  "name_taken team name ts =
     list_ex (\<lambda>s. sec_team s = team \<and> sec_env s = database_env name \<and> sec_key s = ''SUPERUSER_PASSWORD'') (dt_secrets ts)"

definition names_ok :: "db_tables \<Rightarrow> bool" where
  "names_ok ts =
     (distinct (map (\<lambda>d. (Database_team_id d, Database_name d)) (dt_databases ts)) \<and>
      (\<forall>d \<in> set (dt_databases ts). name_taken (Database_team_id d) (Database_name d) ts))"

lemma VolumeService_Delete_others [simp]:
  "dt_secrets (VolumeService_Delete team vid ts) = dt_secrets ts" "dt_databases (VolumeService_Delete team vid ts) = dt_databases ts"
  by (simp_all add: VolumeService_Delete_def split: option.split sum.split)

lemma set_database_others [simp]: "dt_secrets (set_database i f ts) = dt_secrets ts" "dt_volumes (set_database i f ts) = dt_volumes ts"
  by (simp_all add: set_database_def)

lemma Stop_Start_secrets [simp]:
  "dt_secrets (fst (database_Stop send i ts)) = dt_secrets ts" "dt_secrets (fst (database_Start tmpls creds i ts)) = dt_secrets ts"
  "dt_secrets (fst (database_Delete i ts)) = dt_secrets ts"
  by (simp_all add: database_Stop_def database_Start_def database_Delete_def volume_detach_def Let_def split: option.split sum.split)

lemma provision_secrets:
  assumes "fresh_ids px ts"
  shows "\<exists>ss. dt_secrets (fst (Provision cx px p req ts)) = dt_secrets ts @ ss"
proof (cases rule: Provision_cases [of cx px p req ts])
  case (writes s t)
  let ?w = "provision_writes px p s t (with_defaults t req) ts"
  show ?thesis unfolding writes(1)
    using provision_writes_outcome [OF assms, of p s t "with_defaults t req"]
    by (cases ?w; cases "snd ?w") (auto simp: provisioned_def Let_def)
qed simp

lemma database_name_defaults [simp]: "database_name px (with_defaults t r) = database_name px r"
  by (simp add: database_name_def Let_def)

lemma taken_refused:
  assumes "name_taken (Project_team_id p) (database_name px req) ts" and "fresh_ids px ts"
  shows "\<exists>e. Provision cx px p req ts = (ts, Inl e)"
proof (cases rule: Provision_cases [of cx px p req ts])
  case (writes s t)
  let ?w = "provision_writes px p s t (with_defaults t req) ts"
  have "CreateDatabaseSecrets i j (Project_team_id p) (database_name px req) sp ap ts' =
      (ts', Inl (''create superuser secret: '' @ ''create secret: '' @ duplicate_key ''secrets_team_id_environment_key_key''))"
    if "dt_secrets ts' = dt_secrets ts" for i j sp ap ts'
    using assms(1) that by (simp add: CreateDatabaseSecrets_def secret_Create_def name_taken_def)
  then have "\<exists>e. snd ?w = Inl e"
    by (auto simp: provision_writes_def VolumeService_Create_def Let_def split: sum.split)
  with provision_writes_outcome [OF assms(2), of p s t "with_defaults t req"] show ?thesis
    unfolding writes(1) by (cases ?w) auto
qed blast

interpretation taken_stays: step_invariant "name_taken team name" db_step "name_taken team name"
proof
  show "name_taken team name t" if "db_step s t" and "name_taken team name s" for s t
    using that
  proof cases
    case (provision px cx p req)
    with provision_secrets [OF provision(2), of cx p req] that(2) show ?thesis by (auto simp: name_taken_def)
  qed (use that(2) in \<open>simp_all add: name_taken_def\<close>)
qed

lemma map_set_database:
  assumes "\<And>d. g (f d) = g d"
  shows "map g (dt_databases (set_database i f ts)) = map g (dt_databases ts)"
  using assms by (simp add: set_database_def)

lemma names_ok_same:
  assumes "names_ok ts" and "dt_secrets ts' = dt_secrets ts"
    and "map (\<lambda>d. (Database_team_id d, Database_name d)) (dt_databases ts') = map (\<lambda>d. (Database_team_id d, Database_name d)) (dt_databases ts)"
  shows "names_ok ts'"
proof -
  have "(Database_team_id d, Database_name d) \<in> (\<lambda>d. (Database_team_id d, Database_name d)) ` set (dt_databases ts)"
    if "d \<in> set (dt_databases ts')" for d
    using that arg_cong [OF assms(3), of set] by auto
  with assms show ?thesis unfolding names_ok_def name_taken_def by fastforce
qed

lemma names_ok_provision:
  assumes "names_ok ts" and "fresh_ids px ts"
  shows "names_ok (fst (Provision cx px p req ts))"
proof (cases rule: Provision_cases [of cx px p req ts])
  case (writes s t)
  let ?w = "provision_writes px p s t (with_defaults t req) ts"
  note out = provision_writes_outcome [OF assms(2), of p s t "with_defaults t req"]
  show ?thesis
  proof (cases "snd ?w")
    case (Inl e)
    with out assms(1) show ?thesis by (simp add: writes(1))
  next
    case (Inr res)
    let ?d = "new_database px p s t (with_defaults t req)"
    from Inr out have d: "dt_databases (fst ?w) = dt_databases ts @ [?d]" and
      sec: "\<exists>ss. dt_secrets (fst ?w) = dt_secrets ts @ ss" and
      tk: "name_taken (Project_team_id p) (database_name px req) (fst ?w)"
      by (auto simp: provisioned_def name_taken_def Let_def)
    have "\<not> name_taken (Project_team_id p) (database_name px req) ts"
      using taken_refused [OF _ assms(2), of p req cx] Inr by (auto simp: writes(1))
    then have "(Project_team_id p, database_name px req) \<notin> (\<lambda>d. (Database_team_id d, Database_name d)) ` set (dt_databases ts)"
      using assms(1) by (auto simp: names_ok_def)
    moreover have "name_taken a b (fst ?w)" if "name_taken a b ts" for a b
      using that sec by (auto simp: name_taken_def)
    ultimately show ?thesis using assms(1) tk by (auto simp: writes(1) names_ok_def d)
  qed
qed (use assms in simp)

interpretation names: step_invariant names_ok db_step names_ok
proof
  show "names_ok t" if st: "db_step s t" and ok: "names_ok s" for s t
    using st
  proof cases
    case (provision px cx p req)
    with ok show ?thesis by (simp add: names_ok_provision)
  next
    case (delete i)
    have "names_ok (ts\<lparr>dt_databases := filter P (dt_databases ts)\<rparr>)" if "names_ok ts" for ts P
      using that by (auto simp: names_ok_def name_taken_def distinct_map_filter)
    moreover have "names_ok (volume_detach a b s)" for a b
      using ok by (rule names_ok_same) (simp_all add: volume_detach_def)
    ultimately show ?thesis using ok delete by (auto simp: database_Delete_def Let_def split: option.split)
  next
    case (stop send i)
    show ?thesis unfolding stop using ok
      by (rule names_ok_same) (simp_all add: database_Stop_def map_set_database split: option.split)
  next
    case (start tmpls creds i)
    show ?thesis unfolding start using ok
      by (rule names_ok_same) (simp_all add: database_Start_def map_set_database split: option.split sum.split)
  next
    case (run f i)
    show ?thesis unfolding run(1) using ok
      by (rule names_ok_same) (simp_all add: map_set_database run(2))
  next
    case (delete_volume team vid)
    show ?thesis unfolding delete_volume using ok by (rule names_ok_same) simp_all
  qed
qed

text \<open>
  A database name is used once per team, and for ever. Whatever has been provisioned, started, stopped and
  deleted, no two databases of a team have the same name, also in different projects; and once a database has had a
  name, provisioning another one of that name for the team is refused without a trace, even after the first was
  deleted together with its volume, because its secrets stay.
\<close>

lemma database_name_final:
  assumes "names_ok ts0" and "db_step\<^sup>*\<^sup>* ts0 ts" and "d \<in> set (dt_databases ts)" and "db_step\<^sup>*\<^sup>* ts ts'" and "fresh_ids px ts'"
    and "Project_team_id p = Database_team_id d" and "database_name px req = Database_name d"
  shows "distinct (map (\<lambda>d. (Database_team_id d, Database_name d)) (dt_databases ts)) \<and> (\<exists>e. Provision cx px p req ts' = (ts', Inl e))"
proof -
  have ok: "names_ok ts" using names.rtranclp_inv [OF assms(2,1)] .
  with assms(3) have "name_taken (Database_team_id d) (Database_name d) ts" by (simp add: names_ok_def)
  from taken_stays.rtranclp_inv [OF assms(4) this] have "name_taken (Project_team_id p) (database_name px req) ts'"
    by (simp add: assms(6,7))
  from taken_refused [OF this assms(5)] ok show ?thesis by (simp add: names_ok_def)
qed

definition sample_inputs :: "string \<Rightarrow> provision_inputs" where
  "sample_inputs n = \<lparr>px_volume = ''v'' @ n, px_super = ''s'' @ n, px_app = ''a'' @ n, px_database = ''d'' @ n, px_now = [], px_suffix = ''0f0f0f'',
     px_superPass = ''one'', px_appPass = ''two'', px_reply = Inl ''timeout''\<rparr>"

definition sample_project :: Project where
  "sample_project = \<lparr>Project_id = ''p1'', Project_team_id = ''t1'', Project_cluster_id = ''c1'', Project_name = ''Shop'', Project_slug = ''shop'',
     Project_description = [], Project_status = ''active'', Project_created_at = [], Project_updated_at = [], Project_cluster_name = None\<rparr>"

definition sample_template :: Template where
  "sample_template = \<lparr>Template_slug = ''redis'', Template_name = ''Redis'', Template_category = ''cache'', Template_description = None,
     Template_versions = [\<lparr>TemplateVersion_version = ''7'', TemplateVersion_image = ''redis:7'', TemplateVersion_default = Some True\<rparr>],
     Template_default_resources = \<lparr>TemplateDefaultResources_milli_cpu = 250, TemplateDefaultResources_memory_mb = 256\<rparr>,
     Template_volume_spec = \<lparr>TemplateVolumeSpec_mount_path = ''/data'', TemplateVolumeSpec_default_gib = Some 5\<rparr>, Template_ports = [6379],
     Template_health_check = \<lparr>TemplateHealthCheck_command = [], TemplateHealthCheck_interval = None, TemplateHealthCheck_timeout = None,
       TemplateHealthCheck_retries = None\<rparr>,
     Template_conn_string_fmt = [], Template_env_template = [], Template_credential_policy = ''generated'', Template_shell_command = [],
     Template_command = None\<rparr>"

definition sample_context :: provision_context where
  "sample_context = \<lparr>pc_templates = [sample_template], pc_members = [(''c1'', ''s1''), (''c1'', ''s2'')], pc_owned = (\<lambda>s. True), pc_nil = (\<lambda>s. False)\<rparr>"

definition sample_request :: provision_request where
  "sample_request = \<lparr>pr_cluster = ''c1'', pr_server = None, pr_slug = ''redis'', pr_version = ''7'', pr_name = ''main'', pr_size = 0, pr_cpu = 0,
     pr_memory = 0, pr_schedule = [], pr_retention = 0\<rparr>"

definition no_tables :: db_tables where
  "no_tables = \<lparr>dt_volumes = [], dt_secrets = [], dt_databases = []\<rparr>"

definition one_database :: db_tables where
  "one_database = fst (Provision sample_context (sample_inputs ''1'') sample_project sample_request no_tables)"

lemma sample_facts:
  "fresh_ids (sample_inputs ''1'') no_tables" "names_ok no_tables"
  "fresh_ids (sample_inputs ''2'') (fst (database_Delete ''d1'' one_database))"
  "dt_databases (fst (database_Delete ''d1'' one_database)) = []"
  "map (\<lambda>d. (Database_id d, Database_team_id d, Database_name d)) (dt_databases one_database) = [(''d1'', ''t1'', ''main'')]"
  "Project_team_id sample_project = ''t1''" "database_name (sample_inputs ''2'') sample_request = ''main''"
  by code_simp+

lemma database_name_final_witness:
  "let ts' = fst (database_Delete ''d1'' one_database) in dt_databases ts' = [] \<and>
   (\<exists>e. Provision sample_context (sample_inputs ''2'') sample_project sample_request ts' = (ts', Inl e))"
proof -
  have s1: "db_step\<^sup>*\<^sup>* no_tables one_database"
    unfolding one_database_def using db_step.provision [OF sample_facts(1)] by blast
  have s2: "db_step\<^sup>*\<^sup>* one_database (fst (database_Delete ''d1'' one_database))" using db_step.delete by blast
  obtain d where d: "d \<in> set (dt_databases one_database)" "Database_team_id d = ''t1''" "Database_name d = ''main''"
    using sample_facts(5) by (cases "dt_databases one_database") auto
  from database_name_final [OF sample_facts(2) s1 d(1) s2 sample_facts(3), of sample_project sample_request sample_context]
  show ?thesis unfolding Let_def using d(2,3) sample_facts(4,6,7) by simp
qed

lemma provision_all_or_nothing_witness:
  "\<exists>ts' res. Provision sample_context (sample_inputs ''1'') sample_project sample_request no_tables = (ts', Inr res) \<and>
     provisioned sample_project no_tables ts' res \<and> Database_server_id (DatabaseProvisionResult_database res) = ''s1''"
proof -
  let ?P = "Provision sample_context (sample_inputs ''1'') sample_project sample_request no_tables"
  have k: "(case snd ?P of Inl e \<Rightarrow> [] | Inr res \<Rightarrow> Database_server_id (DatabaseProvisionResult_database res)) = ''s1''" by code_simp
  obtain ts' r where r: "?P = (ts', r)" by (cases ?P)
  show ?thesis using provision_all_or_nothing [where cx = sample_context and p = sample_project and req = sample_request, OF sample_facts(1)] k
    unfolding r by (cases r) (auto simp: Let_def)
qed

end
