(* ===== verification/Go_Json.thy ===== *)
theory Go_Json
  imports Js_Json
begin

text \<open>
  \<open>json.Marshal\<close> of Go's standard library as the API's services use it for events: objects whose members are
  strings and booleans, with HTML-safe string escapes. What it prints, \<open>JSON.parse\<close> of the console reads back
  unchanged, so that an event published by the API is the event the console shows.
\<close>

section \<open>Strings\<close>

definition hex_char :: "nat \<Rightarrow> char" where
  "hex_char n = (if n < 10 then char_of (48 + n) else char_of (87 + n))"

definition go_json_char :: "char \<Rightarrow> string" where
  "go_json_char c =
     (let n = code_of c in
      if n = 34 \<or> n = 92 then [CHR 0x5C, c]
      else if n = 8 then [CHR 0x5C, CHR ''b'']
      else if n = 12 then [CHR 0x5C, CHR ''f'']
      else if n = 10 then [CHR 0x5C, CHR ''n'']
      else if n = 13 then [CHR 0x5C, CHR ''r'']
      else if n = 9 then [CHR 0x5C, CHR ''t'']
      else if n < 32 \<or> n = 60 \<or> n = 62 \<or> n = 38 then CHR 0x5C # ''u00'' @ [hex_char (n div 16), hex_char (n mod 16)]
      else [c])"

definition go_json_string :: "string \<Rightarrow> string" where
  "go_json_string s = CHR 0x22 # concat (map go_json_char s) @ [CHR 0x22]"

section \<open>Objects\<close>

fun go_json_value :: "js \<Rightarrow> string" where
  "go_json_value (JStr s) = go_json_string s"
| "go_json_value (JBool b) = (if b then ''true'' else ''false'')"
| "go_json_value v = ''null''"

definition go_json_member :: "string \<times> js \<Rightarrow> string" where
  "go_json_member e = go_json_string (fst e) @ '':'' @ go_json_value (snd e)"

fun go_json_members :: "(string, js) obj \<Rightarrow> string" where
  "go_json_members [] = []"
| "go_json_members [e] = go_json_member e"
| "go_json_members (e # es) = go_json_member e @ '','' @ go_json_members es"

definition go_json_object :: "(string, js) obj \<Rightarrow> string" where
  "go_json_object kvs = CHR ''{'' # go_json_members kvs @ ''}''"

fun flat_value :: "js \<Rightarrow> bool" where
  "flat_value (JStr s) = True"
| "flat_value (JBool b) = True"
| "flat_value v = (v = JNull)"

section \<open>Round trip\<close>

lemma hex_val_hex_char [simp]: "n < 16 \<Longrightarrow> hex_val (hex_char n) = Some n"
  by (auto simp: hex_val_def hex_char_def Let_def code_of_def)

lemma unicode_hex: "unicode_unit CHR ''0'' CHR ''0'' (hex_char (code_of c div 16)) (hex_char (code_of c mod 16)) = Some c"
proof -
  have n: "code_of c < 256" by (simp add: code_of_def)
  then have "code_of c div 16 < 16" by (simp add: less_mult_imp_div_less)
  moreover have "hex_val CHR ''0'' = Some 0" by code_simp
  ultimately have "read_radix 16 0 [CHR ''0'', CHR ''0'', hex_char (code_of c div 16), hex_char (code_of c mod 16)] = Some (code_of c)"
    by simp
  with n show ?thesis by (simp add: unicode_unit_def) (simp add: code_of_def)
qed

lemma read_plain: "\<not> code_of c < 32 \<Longrightarrow> code_of c \<noteq> 34 \<Longrightarrow> code_of c \<noteq> 92 \<Longrightarrow>
    read_chars (c # s) = map_option (\<lambda>(p, q). (c # p, q)) (read_chars s)"
  by simp

lemma read_unicode: "read_chars (CHR 0x5C # ''u00'' @ [hex_char (code_of c div 16), hex_char (code_of c mod 16)] @ s) =
    map_option (\<lambda>(p, q). (c # p, q)) (read_chars s)"
  using unicode_hex [of c] by (simp add: code_of_def)

lemma read_short: "escape_of e = Some c \<Longrightarrow> e \<noteq> CHR ''u'' \<Longrightarrow>
    read_chars (CHR 0x5C # e # s) = map_option (\<lambda>(p, q). (c # p, q)) (read_chars s)"
  by (simp add: code_of_def)

lemma go_char_cases:
  obtains (plain) "go_json_char c = [c]" "\<not> code_of c < 32" "code_of c \<noteq> 34" "code_of c \<noteq> 92"
  | (short) e where "go_json_char c = [CHR 0x5C, e]" "escape_of e = Some c" "e \<noteq> CHR ''u''"
  | (unicode) "go_json_char c = CHR 0x5C # ''u00'' @ [hex_char (code_of c div 16), hex_char (code_of c mod 16)]"
proof -
  let ?s = "[(34, CHR 0x22), (92, CHR 0x5C), (8, CHR ''b''), (12, CHR ''f''), (10, CHR ''n''), (13, CHR ''r''), (9, CHR ''t'')] :: (nat \<times> char) list"
  have esc: "list_all (\<lambda>(n, e). escape_of e = Some (char_of n) \<and> e \<noteq> CHR ''u'' \<and> go_json_char (char_of n) = [CHR 0x5C, e]) ?s"
    by code_simp
  show thesis
  proof (cases "code_of c \<in> fst ` set ?s")
    case True
    then obtain e where "(code_of c, e) \<in> set ?s" by force
    with esc have "escape_of e = Some (char_of (code_of c)) \<and> e \<noteq> CHR ''u'' \<and> go_json_char (char_of (code_of c)) = [CHR 0x5C, e]"
      unfolding list_all_iff by blast
    then show thesis using short by (simp add: code_of_def)
  next
    case False
    then have ne: "code_of c \<noteq> 34" "code_of c \<noteq> 92" "code_of c \<noteq> 8" "code_of c \<noteq> 12" "code_of c \<noteq> 10" "code_of c \<noteq> 13" "code_of c \<noteq> 9"
      by simp_all
    show thesis
    proof (cases "code_of c < 32 \<or> code_of c = 60 \<or> code_of c = 62 \<or> code_of c = 38")
      case True
      with ne have "go_json_char c = CHR 0x5C # ''u00'' @ [hex_char (code_of c div 16), hex_char (code_of c mod 16)]"
        unfolding go_json_char_def Let_def by (simp only: if_False if_True simp_thms)
      then show thesis by (rule unicode)
    next
      case False
      with ne have "go_json_char c = [c]" unfolding go_json_char_def Let_def by (simp only: if_False simp_thms)
      with False ne show thesis by (intro plain) auto
    qed
  qed
qed

lemma read_go_char:
  "read_chars (go_json_char c @ s) = map_option (\<lambda>(p, q). (c # p, q)) (read_chars s)"
proof (cases c rule: go_char_cases)
  case plain
  then show ?thesis using read_plain [OF plain(2-4)] by simp
next
  case (short e)
  then show ?thesis using read_short [OF short(2,3)] by simp
next
  case unicode
  then show ?thesis using read_unicode [of c s] by simp
qed

lemma read_go_string: "read_chars (concat (map go_json_char s) @ CHR 0x22 # r) = Some (s, r)"
proof (induction s)
  case Nil
  show ?case by (simp add: code_of_def)
qed (simp add: read_go_char del: read_chars.simps)

lemma json_ws_quote [simp]: "\<not> json_ws CHR 0x22" "\<not> json_ws CHR ''t''" "\<not> json_ws CHR ''f''" "\<not> json_ws CHR ''n''"
  "\<not> json_ws CHR '':''" "\<not> json_ws CHR '',''" "\<not> json_ws CHR ''{''" "\<not> json_ws CHR ''}''"
  by (simp_all add: json_ws_def code_of_def)

lemma code_quote [simp]: "code_of CHR 0x22 = 34" "code_of CHR ''t'' = 116" "code_of CHR ''f'' = 102" "code_of CHR ''n'' = 110"
  "code_of CHR ''{'' = 123"
  by (simp_all add: code_of_def)

lemma read_go_value:
  assumes "flat_value v"
  shows "read_value (Suc n) (go_json_value v @ r) = Some (v, r)"
  using assms
  by (cases v) (auto simp: go_json_string_def read_go_string read_word_def startsWith_def simp del: read_chars.simps)

lemma read_go_member:
  assumes "flat_value (snd e)" and "0 < n"
  shows "read_members (Suc n) (go_json_member e @ d # r) acc =
    (if json_ws d then read_members (Suc n) (go_json_member e @ d # r) acc
     else if d = CHR '','' then read_members n r (obj_set (fst e) (snd e) acc)
     else if d = CHR ''}'' then Some (obj_set (fst e) (snd e) acc, r) else None)"
proof -
  obtain m where n: "n = Suc m" using assms(2) by (cases n) auto
  have v: "read_value n (go_json_value (snd e) @ d # r) = Some (snd e, d # r)" unfolding n by (rule read_go_value [OF assms(1)])
  have s: "read_chars (concat (map go_json_char (fst e)) @ CHR 0x22 # CHR '':'' # go_json_value (snd e) @ d # r) =
      Some (fst e, CHR '':'' # go_json_value (snd e) @ d # r)"
    by (rule read_go_string)
  show ?thesis
    unfolding go_json_member_def go_json_string_def
    by (simp add: s v del: read_chars.simps)
qed

lemma read_go_members:
  assumes "list_all (\<lambda>e. flat_value (snd e)) kvs" and "kvs \<noteq> []" and "length kvs < n"
  shows "read_members (Suc n) (go_json_members kvs @ CHR ''}'' # r) acc =
    Some (foldl (\<lambda>m e. obj_set (fst e) (snd e) m) acc kvs, r)"
  using assms
proof (induction kvs arbitrary: n acc rule: go_json_members.induct)
  case (2 e)
  then show ?case using read_go_member [of e n "CHR ''}''" r acc] by simp
next
  case (3 e f es)
  obtain m where n: "n = Suc m" using 3(4) by (cases n) auto
  have "read_members (Suc n) (go_json_member e @ CHR '','' # go_json_members (f # es) @ CHR ''}'' # r) acc =
      read_members n (go_json_members (f # es) @ CHR ''}'' # r) (obj_set (fst e) (snd e) acc)"
    using read_go_member [of e n "CHR '',''" "go_json_members (f # es) @ CHR ''}'' # r" acc] 3(2,4) by simp
  also have "\<dots> = Some (foldl (\<lambda>m e. obj_set (fst e) (snd e) m) (obj_set (fst e) (snd e) acc) (f # es), r)"
    unfolding n using 3 n by (intro 3(1)) auto
  finally show ?case by (simp del: read_members.simps)
qed simp

lemma foldl_obj_set:
  "distinct (map fst acc @ map fst kvs) \<Longrightarrow> foldl (\<lambda>m e. obj_set (fst e) (snd e) m) acc kvs = acc @ kvs"
proof (induction kvs arbitrary: acc)
  case (Cons e kvs)
  from Cons(2) have "obj_set (fst e) (snd e) acc = acc @ [e]" by (simp add: obj_set_new)
  with Cons show ?case by simp
qed simp

text \<open>What Go prints for an event, the console's \<open>JSON.parse\<close> reads back.\<close>

lemma go_json_length: "length kvs \<le> length (go_json_members kvs)"
proof (induction kvs rule: go_json_members.induct)
  case (2 e)
  show ?case by (simp add: go_json_member_def go_json_string_def)
next
  case (3 e f es)
  then show ?case by (simp add: go_json_member_def go_json_string_def)
qed simp

lemma JSON_parse_go_object:
  assumes "list_all (\<lambda>e. flat_value (snd e)) kvs" and "distinct (map fst kvs)" and "kvs \<noteq> []"
  shows "JSON_parse (go_json_object kvs) = Some (JObj kvs)"
proof -
  let ?t = "go_json_object kvs"
  have l: "length ?t = length (go_json_members kvs) + 2" by (simp add: go_json_object_def)
  obtain n where n: "json_fuel ?t = Suc (Suc n)" "length kvs < n"
    using go_json_length [of kvs] l by (auto simp: json_fuel_def intro: that [of "2 * length ?t"])
  have m: "read_members (Suc n) (go_json_members kvs @ ''}'') [] = Some (kvs, [])"
    using read_go_members [OF assms(1,3) n(2), of "[]" "[]"] foldl_obj_set [of "[]" kvs] assms(2) by simp
  have q: "\<exists>r. go_json_members kvs @ ''}'' = CHR 0x22 # r"
    using assms(3) by (cases kvs rule: go_json_members.cases) (auto simp: go_json_member_def go_json_string_def)
  then obtain r where r: "go_json_members kvs @ ''}'' = CHR 0x22 # r" by blast
  have "read_value (Suc (Suc n)) ?t = Some (JObj kvs, [])"
    using m unfolding go_json_object_def r by (simp del: read_members.simps)
  then show ?thesis unfolding JSON_parse_def n(1) by simp
qed

end
