(* ===== verification/Provision_Run.thy ===== *)
theory Provision_Run
  imports Database_Store Streams Go_Json
begin

text \<open>
  The run that deploys a database in the background (\<open>runProvisionAsync\<close>, \<open>runStartAsync\<close> and \<open>awaitDeployHealthy\<close> of
  \<open>internal/database/service.go\<close>), the stream that relays its events (\<open>StreamProvisionLogs\<close> of
  \<open>internal/api/handler/database.go\<close>) and the console that shows them (\<open>ProvisionConsole\<close>, theory \<open>Streams\<close>). A run is
  the list of its effects in order: events published and appended to the row's log, and writes to the row. What the
  agent reports, timeouts, the cluster's slug and the outcome of pushing DNS are inputs.
\<close>

section \<open>Effects of a run\<close>

record provision_event =
  pv_step :: string
  pv_level :: string
  pv_message :: string
  pv_terminal :: bool
  pv_success :: bool

datatype run_effect = Publish provision_event | MarkRunning | MarkError string | SetDns string

definition progress :: "string \<Rightarrow> string \<Rightarrow> string \<Rightarrow> run_effect" where
  "progress step level message =
     Publish \<lparr>pv_step = step, pv_level = level, pv_message = message, pv_terminal = False, pv_success = False\<rparr>"

definition outcome :: "string \<Rightarrow> string \<Rightarrow> string \<Rightarrow> bool \<Rightarrow> run_effect" where
  "outcome step level message success =
     Publish \<lparr>pv_step = step, pv_level = level, pv_message = message, pv_terminal = True, pv_success = success\<rparr>"

text \<open>Go strings are byte sequences, and lengths count bytes.\<close>

definition truncateOneLine :: "string \<Rightarrow> nat \<Rightarrow> string" where
  "truncateOneLine s n =
     (let t = trim_by go_space (map (\<lambda>c. if c = CHR 0x0A then CHR '' '' else c) s)
      in if length t \<le> n then t else take n t @ ''...(truncated)'')"

record deploy_output =
  do_phase :: string
  do_container :: string
  do_error :: string
  do_finished :: bool
  do_success :: bool

text \<open>
  What the waiting loop sees next: a report of the agent, its own timer, or the end of its context. When the context
  is over nothing can be written or published any more.
\<close>

datatype wait_event = Report deploy_output | TimedOut | ContextDone

definition phase_message :: "deploy_output \<Rightarrow> string" where
  "phase_message r =
     ''phase='' @ do_phase r @ (if do_container r \<noteq> [] then '' container='' @ do_container r else []) @
     (if do_error r \<noteq> [] then '' error='' @ truncateOneLine (do_error r) 240 else [])"

text \<open>The effects so far, and whether the deploy became healthy; \<open>None\<close> while the loop is still waiting.\<close>

fun awaitDeployHealthy :: "wait_event list \<Rightarrow> run_effect list \<times> bool option" where
  "awaitDeployHealthy [] = ([], None)"
| "awaitDeployHealthy (ContextDone # es) = ([], Some False)"
| "awaitDeployHealthy (TimedOut # es) =
     ([MarkError ''deploy did not become healthy within 2m30s'',
       outcome ''deploy'' ''error'' ''deploy timed out after 2m30s waiting for healthy'' False], Some False)"
| "awaitDeployHealthy (Report r # es) =
     (let ph = progress (''deploy:'' @ do_phase r) (if do_error r \<noteq> [] then ''warn'' else ''info'') (phase_message r) in
      if \<not> do_finished r then (case awaitDeployHealthy es of (fx, res) \<Rightarrow> (ph # fx, res))
      else if \<not> do_success r then
        ([ph, MarkError (''deploy failed phase='' @ do_phase r @ '': '' @ do_error r),
          outcome ''deploy'' ''error'' (''deploy failed: '' @ truncateOneLine (do_error r) 240) False], Some False)
      else ([ph, progress ''deploy'' ''info'' ''container healthy and post-init complete''], Some True))"

text \<open>\<open>ri_dispatch\<close> is the error of sending the command, \<open>ri_mesh\<close> the outcome of pushing DNS when there is a mesh manager.\<close>

record run_inputs =
  ri_dispatch :: "string option"
  ri_waits :: "wait_event list"
  ri_cluster_slug :: "string option"
  ri_mesh :: "string option option"

definition run_dns_record :: "Database \<Rightarrow> string \<Rightarrow> run_inputs \<Rightarrow> string" where
  "run_dns_record d projectSlug ri =
     Database_name d @ ''.'' @ projectSlug @ ''.'' @ or_default (ri_cluster_slug ri) (take 8 (Database_cluster_id d)) @ ''.internal''"

definition run_deploy :: "run_inputs \<Rightarrow> run_effect list \<times> bool option" where
  "run_deploy ri =
     (case ri_dispatch ri of
        Some e \<Rightarrow> ([MarkError e, outcome ''deploy'' ''error'' (''dispatch deploy failed: '' @ e) False], Some False)
      | None \<Rightarrow> awaitDeployHealthy (ri_waits ri))"

definition provision_opening :: "Database \<Rightarrow> Volume \<Rightarrow> TemplateVersion \<Rightarrow> run_effect list" where
  "provision_opening d v ver =
     [progress ''init'' ''info'' (''starting provision for '' @ Database_name d @ '' (template='' @ Database_template_slug d @ '' version='' @
        TemplateVersion_version ver @ '')''),
      progress ''placement'' ''info'' (''placed on server '' @ Database_server_id d @ '' in cluster '' @ Database_cluster_id d),
      progress ''volume'' ''info'' (''volume '' @ Volume_id v @ '' ready ('' @ show_int (Volume_size_gb v) @ '' GB at '' @ Volume_host_path v @ '')''),
      progress ''secrets'' ''info'' ''credentials sealed in secrets store'',
      progress ''deploy'' ''info'' (''dispatching DeployCommand to agent (image='' @ TemplateVersion_image ver @ '' container='' @
        Database_container_name d @ '')'')]"

definition push_dns :: "run_inputs \<Rightarrow> run_effect list" where
  "push_dns ri =
     (case ri_mesh ri of
        None \<Rightarrow> []
      | Some (Some e) \<Rightarrow> [progress ''mesh-dns'' ''warn'' (''push DNS to cluster failed: '' @ e)]
      | Some None \<Rightarrow> [progress ''mesh-dns'' ''info'' ''CoreDNS hosts pushed to all cluster members''])"

definition runProvisionAsync :: "Database \<Rightarrow> Volume \<Rightarrow> TemplateVersion \<Rightarrow> string \<Rightarrow> run_inputs \<Rightarrow> run_effect list" where
  "runProvisionAsync d v ver projectSlug ri =
     provision_opening d v ver @
     (case run_deploy ri of
        (fx, Some True) \<Rightarrow>
          (let record = run_dns_record d projectSlug ri in
           fx @ [SetDns record, progress ''dns'' ''info'' (''dns_record set to '' @ record), MarkRunning] @ push_dns ri @
           [outcome ''done'' ''info'' (''database '' @ Database_name d @ '' is running'') True])
      | (fx, _) \<Rightarrow> fx)"

definition runStartAsync :: "Database \<Rightarrow> TemplateVersion \<Rightarrow> run_inputs \<Rightarrow> run_effect list" where
  "runStartAsync d ver ri =
     [progress ''init'' ''info'' (''starting '' @ Database_name d @ '' (template='' @ Database_template_slug d @ '' version='' @
        TemplateVersion_version ver @ '')'')] @
     (case run_deploy ri of
        (fx, Some True) \<Rightarrow>
          fx @ [MarkRunning, outcome ''done'' ''info'' (''database '' @ Database_name d @ '' is running'') True]
      | (fx, _) \<Rightarrow> fx)"

section \<open>The row\<close>

definition flag :: "bool \<Rightarrow> bool option" where
  "flag b = (if b then Some True else None)"

definition log_of :: "string \<Rightarrow> provision_event \<Rightarrow> ProvisionLogEntry" where
  "log_of stamp e = \<lparr>ProvisionLogEntry_step = pv_step e, ProvisionLogEntry_level = pv_level e, ProvisionLogEntry_message = pv_message e,
     ProvisionLogEntry_terminal = flag (pv_terminal e), ProvisionLogEntry_success = flag (pv_success e), ProvisionLogEntry_at = stamp\<rparr>"

text \<open>Each effect happens at a time.\<close>

fun apply_effect :: "Database \<Rightarrow> string \<times> run_effect \<Rightarrow> Database" where
  "apply_effect d (stamp, Publish e) = d\<lparr>Database_provision_log := Database_provision_log d @ [log_of stamp e]\<rparr>"
| "apply_effect d (stamp, MarkRunning) = d\<lparr>Database_status := ''running''\<rparr>"
| "apply_effect d (stamp, MarkError m) = d\<lparr>Database_status := ''error'', Database_error_message := Some m\<rparr>"
| "apply_effect d (stamp, SetDns r) = d\<lparr>Database_dns_record := Some r\<rparr>"

section \<open>The stream\<close>

text \<open>\<open>publishProvision\<close>: the event with its time as JSON; absent flags are left out.\<close>

definition event_members :: "string \<Rightarrow> provision_event \<Rightarrow> (string, js) obj" where
  "event_members stamp e =
     [(''step'', JStr (pv_step e)), (''level'', JStr (pv_level e)), (''message'', JStr (pv_message e))] @
     (if pv_terminal e then [(''terminal'', JBool True)] else []) @ (if pv_success e then [(''success'', JBool True)] else []) @
     [(''at'', JStr stamp)]"

fun published :: "string \<times> run_effect \<Rightarrow> string list" where
  "published (stamp, Publish e) = [go_json_object (event_members stamp e)]"
| "published (stamp, fx) = []"

definition connected_frame :: string where
  "connected_frame = go_json_object [(''step'', JStr ''connected''), (''level'', JStr ''info''), (''message'', JStr ''stream connected'')]"

definition done_frame :: "string \<Rightarrow> string \<Rightarrow> bool \<Rightarrow> string" where
  "done_frame level message success = go_json_object [(''step'', JStr ''done''), (''level'', JStr level), (''message'', JStr message),
     (''terminal'', JBool True), (''success'', JBool success)]"

text \<open>
  The frames a client gets: the row is read first, then the channel is subscribed to; \<open>msgs\<close> is what is published
  after that.
\<close>

definition StreamProvisionLogs :: "Database \<Rightarrow> string list \<Rightarrow> string list" where
  "StreamProvisionLogs d msgs =
     connected_frame #
     (if Database_status d = ''running'' then [done_frame ''info'' ''database is already running'' True]
      else if Database_status d = ''error'' then [done_frame ''error'' ''database is in error state'' False]
      else msgs)"

text \<open>The console of the dialog, which starts without history, fed with frames as they arrive.\<close>

definition watch :: "provision_console \<Rightarrow> (string \<times> string) list \<Rightarrow> provision_console" where
  "watch st frames = foldl (\<lambda>st (now, data). console_step st (PMessage now data)) (console_step st POpen) frames"

section \<open>A run ends, and the console says how\<close>

definition quiet :: "run_effect \<Rightarrow> bool" where
  "quiet f = (case f of Publish e \<Rightarrow> \<not> pv_terminal e | MarkRunning \<Rightarrow> False | MarkError m \<Rightarrow> False | SetDns r \<Rightarrow> True)"

lemma quiet_simps [simp]: "quiet (progress s l m)" "quiet (SetDns r)" "\<not> quiet MarkRunning" "\<not> quiet (MarkError e)" "\<not> quiet (outcome s l m b)"
  by (simp_all add: quiet_def progress_def outcome_def)

lemma await_ends: "TimedOut \<in> set es \<Longrightarrow> \<exists>fx b. awaitDeployHealthy es = (fx, Some b)"
  by (induction es rule: awaitDeployHealthy.induct) (auto simp: Let_def split: prod.split)

definition failing :: "run_effect list \<Rightarrow> bool" where
  "failing fx = (\<exists>pre m s l e. fx = pre @ [MarkError m, outcome s l e False] \<and> list_all quiet pre)"

lemma failing_intro: "failing [MarkError m, outcome s l e False]" "failing fx \<Longrightarrow> quiet f \<Longrightarrow> failing (f # fx)"
  unfolding failing_def by fastforce (metis append_Cons list.pred_inject(2))

lemma await_effects:
  assumes "awaitDeployHealthy es = (fx, Some b)" and "ContextDone \<notin> set es"
  shows "if b then list_all quiet fx else failing fx"
  using assms
proof (induction es arbitrary: fx rule: awaitDeployHealthy.induct)
  case (3 es)
  then show ?case by (auto intro: failing_intro)
next
  case (4 r es)
  let ?ph = "progress (''deploy:'' @ do_phase r) (if do_error r \<noteq> [] then ''warn'' else ''info'') (phase_message r)"
  show ?case
  proof (cases "do_finished r")
    case True
    with 4(2) show ?thesis by (auto simp: Let_def split: if_splits intro!: failing_intro)
  next
    case False
    obtain fx' where a: "awaitDeployHealthy es = (fx', Some b)" and fx: "fx = ?ph # fx'"
      using False 4(2) by (auto simp: Let_def split: prod.splits)
    from 4(1) [OF refl _ a] False 4(3) have "if b then list_all quiet fx' else failing fx'" by simp
    then show ?thesis unfolding fx by (auto intro: failing_intro split: if_splits)
  qed
qed simp_all

lemma run_deploy_effects:
  assumes "TimedOut \<in> set (ri_waits ri)" and "ContextDone \<notin> set (ri_waits ri)"
  obtains (healthy) fx where "run_deploy ri = (fx, Some True)" "list_all quiet fx"
  | (failed) pre m s l e where "run_deploy ri = (pre @ [MarkError m, outcome s l e False], Some False)" "list_all quiet pre"
proof (cases "ri_dispatch ri")
  case None
  obtain fx b where a: "awaitDeployHealthy (ri_waits ri) = (fx, Some b)" using await_ends [OF assms(1)] by blast
  then have r: "run_deploy ri = (fx, Some b)" by (simp add: run_deploy_def None)
  show thesis
  proof (cases b)
    case True
    with await_effects [OF a assms(2)] r show thesis by (intro healthy) simp_all
  next
    case False
    with await_effects [OF a assms(2)] obtain pre m s l e where "fx = pre @ [MarkError m, outcome s l e False]" "list_all quiet pre"
      by (auto simp: failing_def)
    with False r show thesis by (intro failed) simp_all
  qed
next
  case (Some e)
  then show thesis by (intro failed [of "[]"]) (simp_all add: run_deploy_def)
qed

fun status_effect :: "string \<Rightarrow> run_effect \<Rightarrow> string" where
  "status_effect s MarkRunning = ''running''"
| "status_effect s (MarkError m) = ''error''"
| "status_effect s f = s"

lemma status_after: "Database_status (foldl apply_effect d fx) = foldl status_effect (Database_status d) (map snd fx)"
proof (induction fx arbitrary: d)
  case (Cons f fx)
  then show ?case by (cases f; cases "snd f") simp_all
qed simp

lemma status_quiet: "list_all quiet fx \<Longrightarrow> foldl status_effect s fx = s"
proof (induction fx)
  case (Cons f fx)
  then show ?case by (cases f) simp_all
qed simp

lemma quiet_publish: "list_all quiet fx \<Longrightarrow> Publish f \<in> set fx \<Longrightarrow> \<not> pv_terminal f"
  by (force simp: list_all_iff quiet_def)

text \<open>Every run ends with one terminal event, and by then the row has its status.\<close>

lemma run_effects:
  assumes "TimedOut \<in> set (ri_waits ri)" and "ContextDone \<notin> set (ri_waits ri)"
  obtains b pre e where "runProvisionAsync d v ver slug ri = pre @ [Publish e]" "pv_terminal e" "pv_success e = b"
    "\<And>f. Publish f \<in> set pre \<Longrightarrow> \<not> pv_terminal f" "\<And>s. foldl status_effect s pre = (if b then ''running'' else ''error'')"
proof -
  have start: "list_all quiet (provision_opening d v ver)" and m: "list_all quiet (push_dns ri)"
    by (simp_all add: provision_opening_def push_dns_def split: option.split)
  show thesis
    using assms
  proof (cases rule: run_deploy_effects)
    case (healthy fx)
    define rc where "rc = run_dns_record d slug ri"
    let ?q = "provision_opening d v ver @ fx @ [SetDns rc, progress ''dns'' ''info'' (''dns_record set to '' @ rc)]"
    have q: "list_all quiet ?q" using start healthy(2) by simp
    have "runProvisionAsync d v ver slug ri = (?q @ [MarkRunning] @ push_dns ri) @
        [outcome ''done'' ''info'' (''database '' @ Database_name d @ '' is running'') True]"
      unfolding runProvisionAsync_def healthy(1) by (simp add: Let_def flip: rc_def)
    then show thesis unfolding outcome_def
    proof (rule that [where b = True])
      show "\<not> pv_terminal f" if "Publish f \<in> set (?q @ [MarkRunning] @ push_dns ri)" for f
        using that quiet_publish [OF q] quiet_publish [OF m] by auto
    qed (simp_all add: status_quiet [OF m])
  next
    case (failed pre m s l e)
    let ?q = "provision_opening d v ver @ pre"
    have q: "list_all quiet ?q" using start failed(2) by simp
    have "runProvisionAsync d v ver slug ri = (?q @ [MarkError m]) @ [outcome s l e False]"
      unfolding runProvisionAsync_def failed(1) by simp
    then show thesis unfolding outcome_def
    proof (rule that [where b = False])
      show "\<not> pv_terminal f" if "Publish f \<in> set (?q @ [MarkError m])" for f
        using that quiet_publish [OF q] by auto
    qed simp_all
  qed
qed

lemma run_split:
  assumes "TimedOut \<in> set (ri_waits ri)" and "ContextDone \<notin> set (ri_waits ri)" and "map snd fx = runProvisionAsync d v ver slug ri"
  obtains b fx' stamp e where "fx = fx' @ [(stamp, Publish e)]" "pv_terminal e" "pv_success e = b"
    "\<And>f. Publish f \<in> snd ` set fx' \<Longrightarrow> \<not> pv_terminal f"
    "\<And>d. Database_status (foldl apply_effect d fx) = (if b then ''running'' else ''error'')"
proof (rule run_effects [OF assms(1,2), of d v ver slug])
  fix b pre e
  assume run: "runProvisionAsync d v ver slug ri = pre @ [Publish e]" "pv_terminal e" "pv_success e = b"
    "\<And>f. Publish f \<in> set pre \<Longrightarrow> \<not> pv_terminal f" "\<And>s. foldl status_effect s pre = (if b then ''running'' else ''error'')"
  from assms(3) run(1) obtain fx' stamp where fx: "fx = fx' @ [(stamp, Publish e)]" "map snd fx' = pre"
    by (auto simp: map_eq_append_conv)
  have "\<not> pv_terminal f" if "Publish f \<in> snd ` set fx'" for f
    using that run(4) unfolding fx(2) [symmetric] by simp
  moreover have "Database_status (foldl apply_effect d fx) = (if b then ''running'' else ''error'')" for d
    unfolding status_after fx by (simp add: fx(2) run(5))
  ultimately show thesis by (rule that [OF fx(1) run(2,3)])
qed

text \<open>What the console reads from a published event.\<close>

lemma parse_published:
  "parse_entry now (go_json_object (event_members stamp e)) =
     Some \<lparr>le_at = JStr (if stamp \<noteq> [] then stamp else now), le_step = JStr (pv_step e), le_message = JStr (pv_message e),
           le_terminal = (if pv_terminal e then JBool True else JUndefined), le_success = (if pv_success e then JBool True else JUndefined)\<rparr>"
proof -
  have "JSON_parse (go_json_object (event_members stamp e)) = Some (JObj (event_members stamp e))"
    by (rule JSON_parse_go_object) (simp_all add: event_members_def)
  then show ?thesis by (simp add: parse_entry_def event_members_def obj_get_def)
qed

lemma parse_connected:
  "parse_entry now connected_frame = Some \<lparr>le_at = JStr now, le_step = JStr ''connected'', le_message = JStr ''stream connected'',
     le_terminal = JUndefined, le_success = JUndefined\<rparr>"
proof -
  have "JSON_parse connected_frame = Some (JObj [(''step'', JStr ''connected''), (''level'', JStr ''info''), (''message'', JStr ''stream connected'')])"
    unfolding connected_frame_def by (rule JSON_parse_go_object) simp_all
  then show ?thesis by (simp add: parse_entry_def obj_get_def)
qed

definition waiting :: "provision_console \<Rightarrow> bool" where
  "waiting st = (pc_listening st \<and> pc_status st = Streaming \<and> pc_told st = [])"

lemma waiting_start: "waiting (console_step (console_init [] True) POpen)"
  by (simp add: waiting_def console_init_def initialStatus_def)

lemma waiting_message:
  assumes "waiting st" and "parse_entry now data = Some e" and "\<not> truthy (le_terminal e)"
  shows "waiting (console_step st (PMessage now data))"
  using assms by (simp add: waiting_def on_entry_def Let_def)

lemma terminal_message:
  assumes "waiting st" and "parse_entry now data = Some e" and "truthy (le_terminal e)"
  shows "let c = console_step st (PMessage now data) in
    pc_status c = (if truthy (le_success e) then Success else Failed) \<and> pc_told c = [truthy (le_success e)] \<and> \<not> pc_listening c"
  using assms by (simp add: waiting_def on_entry_def Let_def)

lemma waiting_frames:
  assumes "waiting st" and "map snd frames = concat (map published fx)" and "\<And>f. Publish f \<in> snd ` set fx \<Longrightarrow> \<not> pv_terminal f"
  shows "waiting (foldl (\<lambda>st (now, data). console_step st (PMessage now data)) st frames)"
  using assms
proof (induction fx arbitrary: frames st)
  case (Cons f fx)
  obtain stamp g where f: "f = (stamp, g)" by (cases f)
  show ?case
  proof (cases g)
    case (Publish e)
    with Cons(3) f obtain now rest where fr: "frames = (now, go_json_object (event_members stamp e)) # rest"
      "map snd rest = concat (map published fx)" by (cases frames) auto
    have "waiting (console_step st (PMessage now (go_json_object (event_members stamp e))))"
      using Cons(2) parse_published by (rule waiting_message) (use Cons(4) Publish f in auto)
    from Cons(1) [OF this fr(2)] Cons(4) show ?thesis by (simp add: fr(1))
  qed (use Cons f in auto)
qed simp


text \<open>
  The stream can lose the outcome. When the row is read before the run ends and the channel is subscribed to after,
  the console gets only the greeting and goes on waiting, whatever became of the row.
\<close>

lemma provision_outcome_lost:
  assumes "Database_status d = ''provisioning''"
  shows "let c = watch (console_init [] True) (map (Pair now) (StreamProvisionLogs d [])) in
    pc_status c = Streaming \<and> pc_told c = [] \<and> pc_listening c"
proof -
  have "waiting (console_step (console_step (console_init [] True) POpen) (PMessage now connected_frame))"
    using waiting_start parse_connected by (rule waiting_message) simp
  then show ?thesis using assms by (simp add: watch_def StreamProvisionLogs_def waiting_def del: console_step.simps)
qed

section \<open>The console of the detail page\<close>

text \<open>A stored entry as the page gets it.\<close>

definition flag_js :: "bool option \<Rightarrow> js" where
  "flag_js b = (case b of Some v \<Rightarrow> JBool v | None \<Rightarrow> JUndefined)"

definition stored_entry :: "ProvisionLogEntry \<Rightarrow> log_entry" where
  "stored_entry e = \<lparr>le_at = JStr (ProvisionLogEntry_at e), le_step = JStr (ProvisionLogEntry_step e),
     le_message = JStr (ProvisionLogEntry_message e), le_terminal = flag_js (ProvisionLogEntry_terminal e),
     le_success = flag_js (ProvisionLogEntry_success e)\<rparr>"

definition detail_console :: "Database \<Rightarrow> provision_console" where
  "detail_console d = console_init (map stored_entry (Database_provision_log d)) (Database_status d = ''provisioning'')"

lemma log_after: "Database_provision_log (foldl apply_effect d fx) =
    Database_provision_log d @ concat (map (\<lambda>(stamp, f). case f of Publish e \<Rightarrow> [log_of stamp e] | _ \<Rightarrow> []) fx)"
proof (induction fx arbitrary: d)
  case (Cons f fx)
  then show ?case by (cases f; cases "snd f") simp_all
qed simp

lemma stored_terminal [simp]: "truthy (le_terminal (stored_entry (log_of stamp e))) = pv_terminal e"
  "truthy (le_success (stored_entry (log_of stamp e))) = pv_success e"
  by (simp_all add: stored_entry_def log_of_def flag_js_def flag_def)

lemma settled_console:
  assumes "initialStatus (pc_initial st) True \<noteq> Connecting" and "\<not> pc_listening st"
  shows "pc_status (foldl console_step st es) = pc_status st \<and> \<not> pc_listening (foldl console_step st es)"
  using assms
proof (induction es arbitrary: st)
  case (Cons e es)
  have "pc_status (console_step st e) = pc_status st \<and> \<not> pc_listening (console_step st e) \<and> pc_initial (console_step st e) = pc_initial st"
    using Cons(2,3) by (cases e) (auto simp: initialStatus_def split: option.splits if_splits)
  with Cons show ?case by simp
qed simp

lemma find_first_terminal:
  assumes "\<And>x. x \<in> set xs \<Longrightarrow> \<not> P x" and "P y"
  shows "find P (xs @ y # ys) = Some y"
  using assms by (induction xs) auto

text \<open>
  The detail page keeps showing the outcome of the first run. Once a run of a new database has ended, however
  often the database is started again and whatever becomes of it, the console of its page says what that first run
  ended in, does not subscribe to the stream of a run in progress, and nothing that arrives changes it.
\<close>

lemma detail_console_first_run:
  assumes "TimedOut \<in> set (ri_waits ri)" and "ContextDone \<notin> set (ri_waits ri)"
    and "map snd fx = runProvisionAsync d v ver slug ri" and "Database_provision_log d = []"
  shows "\<exists>b. Database_status (foldl apply_effect d fx) = (if b then ''running'' else ''error'') \<and>
    (\<forall>d' later es. Database_provision_log d' = Database_provision_log (foldl apply_effect d fx) @ later \<longrightarrow>
      (let c = foldl console_step (detail_console d') es in pc_status c = (if b then Success else Failed) \<and> \<not> pc_listening c))"
proof -
  obtain b fx' stamp e where fx: "fx = fx' @ [(stamp, Publish e)]" and e: "pv_terminal e" "pv_success e = b"
    and before: "\<And>f. Publish f \<in> snd ` set fx' \<Longrightarrow> \<not> pv_terminal f"
    and status: "\<And>d. Database_status (foldl apply_effect d fx) = (if b then ''running'' else ''error'')"
    by (rule run_split [OF assms(1-3)]) (rule that)
  let ?log = "concat (map (\<lambda>(stamp, f). case f of Publish e \<Rightarrow> [log_of stamp e] | _ \<Rightarrow> []) fx')"
  have log: "Database_provision_log (foldl apply_effect d fx) = ?log @ [log_of stamp e]"
    unfolding log_after assms(4) fx by simp
  have quiet: "\<not> truthy (le_terminal (stored_entry x))" if x: "x \<in> set ?log" for x
  proof -
    from x obtain st g where g: "(st, Publish g) \<in> set fx'" "x = log_of st g" by (auto split: run_effect.splits)
    then have "Publish g \<in> snd ` set fx'" by force
    from before [OF this] g(2) show ?thesis by simp
  qed
  have "let c = foldl console_step (detail_console d') es in pc_status c = (if b then Success else Failed) \<and> \<not> pc_listening c"
    if d': "Database_provision_log d' = Database_provision_log (foldl apply_effect d fx) @ later" for d' later es
  proof -
    have "find (\<lambda>x. truthy (le_terminal x)) (map stored_entry (Database_provision_log d')) = Some (stored_entry (log_of stamp e))"
      unfolding d' log using find_first_terminal [of "map stored_entry ?log" "\<lambda>x. truthy (le_terminal x)" "stored_entry (log_of stamp e)"
          "map stored_entry later"] quiet e(1) by (auto simp del: map_concat)
    then have i: "initialStatus (map stored_entry (Database_provision_log d')) live = (if b then Success else Failed)" for live
      using e(2) by (simp add: initialStatus_def)
    then have st: "pc_status (detail_console d') = (if b then Success else Failed)" "\<not> pc_listening (detail_console d')"
      "initialStatus (pc_initial (detail_console d')) True \<noteq> Connecting"
      by (simp_all add: detail_console_def console_init_def)
    show ?thesis using settled_console [OF st(3,2), of es] st(1) by (simp add: Let_def)
  qed
  with status [of d] show ?thesis by blast
qed

section \<open>A run of a sample database\<close>

definition fresh_row :: Database where
  "fresh_row = new_database (sample_inputs ''1'') sample_project ''s1'' sample_template (with_defaults sample_template sample_request)"

definition sample_run :: run_inputs where
  "sample_run = \<lparr>ri_dispatch = None, ri_waits = [Report \<lparr>do_phase = ''starting'', do_container = [], do_error = [], do_finished = False, do_success = False\<rparr>,
     Report \<lparr>do_phase = ''healthy'', do_container = ''c9'', do_error = [], do_finished = True, do_success = True\<rparr>, TimedOut],
     ri_cluster_slug = Some ''main'', ri_mesh = Some None\<rparr>"

definition sample_volume :: Volume where
  "sample_volume = volume_Create ''v1'' [] ''t1'' ''c1'' ''s1'' ''db-main'' 5 [] (Inl ''timeout'')"

definition sample_effects :: "(string \<times> run_effect) list" where
  "sample_effects = map (Pair ''2026-01-01T00:00:00Z'') (runProvisionAsync fresh_row sample_volume (hd (Template_versions sample_template)) ''shop'' sample_run)"

lemma sample_run_facts:
  "TimedOut \<in> set (ri_waits sample_run)" "ContextDone \<notin> set (ri_waits sample_run)"
  "map snd sample_effects = runProvisionAsync fresh_row sample_volume (hd (Template_versions sample_template)) ''shop'' sample_run"
  "Database_status fresh_row = ''provisioning''" "Database_provision_log fresh_row = []"
  by (simp_all add: sample_run_def sample_effects_def comp_def) (simp_all add: fresh_row_def new_database_def)

lemma sample_status: "Database_status (foldl apply_effect fresh_row sample_effects) = ''running''"
  by code_simp


lemma detail_console_first_run_witness:
  "let d' = (foldl apply_effect fresh_row sample_effects)\<lparr>Database_status := ''provisioning''\<rparr>
   in pc_status (detail_console d') = Success \<and> \<not> pc_listening (detail_console d')"
proof -
  let ?d = "(foldl apply_effect fresh_row sample_effects)\<lparr>Database_status := ''provisioning''\<rparr>"
  obtain b where b: "(if b then ''running'' else ''error'') = Database_status (foldl apply_effect fresh_row sample_effects)"
    and all: "\<And>d' later es. Database_provision_log d' = Database_provision_log (foldl apply_effect fresh_row sample_effects) @ later \<Longrightarrow>
      (let c = foldl console_step (detail_console d') es in pc_status c = (if b then Success else Failed) \<and> \<not> pc_listening c)"
    using detail_console_first_run [OF sample_run_facts(1-3,5)] by auto
  have "b" using b unfolding sample_status by (simp split: if_splits)
  with all [of ?d "[]" "[]"] show ?thesis by (simp add: Let_def)
qed

end
