(* ===== verification/Databases_Page.thy ===== *)
theory Databases_Page
  imports Provision_Run Machines
begin

text \<open>
  The databases of a project (\<open>components/databases/DatabasesListClient.tsx\<close>): the actions of a row, and the dialog that
  provisions a database and then shows the run and the credentials; with the handler that answers it
  (\<open>DatabaseHandler.Provision\<close> of \<open>internal/api/handler/database.go\<close>). The members of the cluster and the events of
  the run's console are inputs.
\<close>

section \<open>The list\<close>

datatype database_action = StartAction | StopAction bool

text \<open>The first entry of a row's menu; the flag says whether it is disabled.\<close>

definition row_action :: "Database \<Rightarrow> database_action" where
  "row_action d = (if Database_status d = ''stopped'' then StartAction else StopAction (Database_status d \<noteq> ''running''))"

definition connection_label :: "Database \<Rightarrow> string" where
  "connection_label d = (case Database_dns_record d of Some r \<Rightarrow> if r = [] then Database_container_name d else r
     | None \<Rightarrow> Database_container_name d)"

section \<open>The dialog\<close>

datatype run_status = RunStreaming | RunSuccess | RunFailed

record provision_dialog =
  dp_open :: bool
  dp_result :: "DatabaseProvisionResult option"
  dp_runStatus :: run_status
  dp_slug :: string
  dp_version :: string
  dp_name :: string
  dp_serverId :: string
  dp_size :: string
  dp_cpu :: string
  dp_memory :: string
  dp_schedule :: string
  dp_retention :: string
  dp_error :: "string option"
  dp_pending :: bool

definition group_templates :: "Template list \<Rightarrow> (string, Template list) obj" where
  "group_templates ts = foldl (\<lambda>m t. obj_set (Template_category t) (or_default (obj_get m (Template_category t)) [] @ [t]) m) [] ts"

definition firstSlug :: "Template list \<Rightarrow> string" where
  "firstSlug ts = (case ts of [] \<Rightarrow> [] | t # _ \<Rightarrow> Template_slug t)"

definition tmpl :: "Template list \<Rightarrow> string \<Rightarrow> Template option" where
  "tmpl ts slug = find (\<lambda>t. Template_slug t = slug) ts"

definition defaultVersion :: "Template option \<Rightarrow> string" where
  "defaultVersion t = (case t of
       None \<Rightarrow> []
     | Some t \<Rightarrow>
         (case find (\<lambda>v. TemplateVersion_default v = Some True) (Template_versions t) of
            Some v \<Rightarrow> TemplateVersion_version v
          | None \<Rightarrow> (case Template_versions t of [] \<Rightarrow> [] | v # _ \<Rightarrow> TemplateVersion_version v)))"

definition selectTemplate :: "Template list \<Rightarrow> string \<Rightarrow> provision_dialog \<Rightarrow> provision_dialog" where
  "selectTemplate ts slug d =
     (let t = tmpl ts slug in
      d\<lparr>dp_slug := slug, dp_version := defaultVersion t,
        dp_size := show_int (case t of Some t \<Rightarrow> or_default (TemplateVolumeSpec_default_gib (Template_volume_spec t)) 10 | None \<Rightarrow> 10),
        dp_cpu := show_int (case t of Some t \<Rightarrow> TemplateDefaultResources_milli_cpu (Template_default_resources t) | None \<Rightarrow> 500),
        dp_memory := show_int (case t of Some t \<Rightarrow> TemplateDefaultResources_memory_mb (Template_default_resources t) | None \<Rightarrow> 512)\<rparr>)"

definition provision_reset :: "Template list \<Rightarrow> provision_dialog \<Rightarrow> provision_dialog" where
  "provision_reset ts d = (selectTemplate ts (firstSlug ts) d)\<lparr>dp_name := [], dp_serverId := [], dp_schedule := [], dp_retention := ''7'',
     dp_error := None, dp_result := None, dp_runStatus := RunStreaming\<rparr>"

definition provision_init :: "Template list \<Rightarrow> provision_dialog" where
  "provision_init ts = provision_reset ts
     \<lparr>dp_open = False, dp_result = None, dp_runStatus = RunStreaming, dp_slug = [], dp_version = [], dp_name = [], dp_serverId = [],
      dp_size = [], dp_cpu = [], dp_memory = [], dp_schedule = [], dp_retention = ''7'', dp_error = None, dp_pending = False\<rparr>"

text \<open>The mutation: its checks raise, otherwise the request is sent; the button is disabled until it is answered.\<close>

definition provision_input :: "Project \<Rightarrow> provision_dialog \<Rightarrow> ProvisionDatabaseInput" where
  "provision_input p d =
     \<lparr>ProvisionDatabaseInput_cluster_id = Project_cluster_id p, ProvisionDatabaseInput_server_id = text_opt (dp_serverId d),
      ProvisionDatabaseInput_template_slug = dp_slug d, ProvisionDatabaseInput_version = dp_version d,
      ProvisionDatabaseInput_name = trim (dp_name d), ProvisionDatabaseInput_size_gb = Some (or_zero (Number (dp_size d))),
      ProvisionDatabaseInput_cpu_millicores = Some (or_zero (Number (dp_cpu d))),
      ProvisionDatabaseInput_memory_mb = Some (or_zero (Number (dp_memory d))),
      ProvisionDatabaseInput_backup_schedule = text_opt (trim (dp_schedule d)),
      ProvisionDatabaseInput_retention_days = (if trim (dp_schedule d) \<noteq> [] then Some (or_zero (Number (dp_retention d))) else None)\<rparr>"

definition provision_create :: "Project \<Rightarrow> provision_dialog \<Rightarrow> string + endpoint" where
  "provision_create p d =
     (if trim (dp_name d) = [] then Inl ''Name is required.''
      else if dp_slug d = [] \<or> dp_version d = [] then Inl ''Pick a template and version.''
      else if Project_cluster_id p = [] then Inl ''Project has no cluster -- assign one first.''
      else Inr (databasesApi_provision (Project_id p) (provision_input p d)))"

definition provision_disabled :: "provision_dialog \<Rightarrow> bool" where
  "provision_disabled d = (dp_slug d = [] \<or> dp_version d = [] \<or> trim (dp_name d) = [])"

datatype provision_dialog_event =
    DPOpen bool | DPTemplate string | DPVersion string | DPName string | DPSize string | DPCpu string | DPMemory string
  | DPSchedule string | DPRetention string | DPServer string | DPSubmit | DPCreated DatabaseProvisionResult | DPFailed failure
  | DPTerminal bool | DPContinue

text \<open>Every error of the mutation shows its own message.\<close>

fun message_of :: "failure \<Rightarrow> string" where
  "message_of (ApiError st msg c) = msg"
| "message_of (OtherError m) = m"

datatype dialog_output = Send endpoint | Visit string

text \<open>The form is only shown before a run, the console and the button that leaves only after it was started.\<close>

fun provision_step ::
    "Template list \<Rightarrow> string list \<Rightarrow> Project \<Rightarrow> provision_dialog \<Rightarrow> provision_dialog_event \<Rightarrow> provision_dialog \<times> dialog_output option" where
  "provision_step ts servers p d (DPOpen v) = (let d' = d\<lparr>dp_open := v\<rparr> in (if v then d' else provision_reset ts d', None))"
| "provision_step ts servers p d (DPTemplate s) =
     ((if dp_result d = None \<and> s \<in> Template_slug ` set ts then selectTemplate ts s d else d), None)"
| "provision_step ts servers p d (DPVersion v) =
     ((case tmpl ts (dp_slug d) of
         Some t \<Rightarrow> if dp_result d = None \<and> v \<in> TemplateVersion_version ` set (Template_versions t) then d\<lparr>dp_version := v\<rparr> else d
       | None \<Rightarrow> d), None)"
| "provision_step ts servers p d (DPName s) = ((if dp_result d = None \<and> length s \<le> 64 then d\<lparr>dp_name := s\<rparr> else d), None)"
| "provision_step ts servers p d (DPSize s) = ((if dp_result d = None then d\<lparr>dp_size := s\<rparr> else d), None)"
| "provision_step ts servers p d (DPCpu s) = ((if dp_result d = None then d\<lparr>dp_cpu := s\<rparr> else d), None)"
| "provision_step ts servers p d (DPMemory s) = ((if dp_result d = None then d\<lparr>dp_memory := s\<rparr> else d), None)"
| "provision_step ts servers p d (DPSchedule s) = ((if dp_result d = None then d\<lparr>dp_schedule := s\<rparr> else d), None)"
| "provision_step ts servers p d (DPRetention s) =
     ((if dp_result d = None \<and> trim (dp_schedule d) \<noteq> [] then d\<lparr>dp_retention := s\<rparr> else d), None)"
| "provision_step ts servers p d (DPServer s) =
     ((if dp_result d = None \<and> Project_cluster_id p \<noteq> [] \<and> (s = ''__auto__'' \<or> s \<in> set servers)
       then d\<lparr>dp_serverId := (if s = ''__auto__'' then [] else s)\<rparr> else d), None)"
| "provision_step ts servers p d DPSubmit =
     (if dp_result d \<noteq> None \<or> provision_disabled d \<or> dp_pending d then (d, None)
      else case provision_create p d of
        Inl e \<Rightarrow> (d\<lparr>dp_error := Some e\<rparr>, None)
      | Inr ep \<Rightarrow> (d\<lparr>dp_pending := True\<rparr>, Some (Send ep)))"
| "provision_step ts servers p d (DPCreated r) = (d\<lparr>dp_result := Some r, dp_error := None, dp_pending := False\<rparr>, None)"
| "provision_step ts servers p d (DPFailed e) = (d\<lparr>dp_error := Some (message_of e), dp_pending := False\<rparr>, None)"
| "provision_step ts servers p d (DPTerminal ok) =
     ((if dp_result d \<noteq> None then d\<lparr>dp_runStatus := (if ok then RunSuccess else RunFailed)\<rparr> else d), None)"
| "provision_step ts servers p d DPContinue =
     (case dp_result d of
        Some r \<Rightarrow>
          if dp_runStatus d = RunStreaming then (d, None)
          else (provision_reset ts (d\<lparr>dp_open := False\<rparr>),
                Some (Visit (''/projects/'' @ Project_id p @ ''/databases/'' @ Database_id (DatabaseProvisionResult_database r))))
      | None \<Rightarrow> (d, None))"

text \<open>The credentials are shown while the run has succeeded and the dialog is open.\<close>

definition shown_credentials :: "provision_dialog \<Rightarrow> DatabaseProvisionResult option" where
  "shown_credentials d = (if dp_open d \<and> dp_runStatus d = RunSuccess then dp_result d else None)"

section \<open>The handler\<close>

definition request_of :: "js \<Rightarrow> provision_request" where
  "request_of b = \<lparr>pr_cluster = go_str b ''cluster_id'', pr_server = go_ptr b ''server_id'', pr_slug = go_str b ''template_slug'',
     pr_version = go_str b ''version'', pr_name = go_str b ''name'', pr_size = go_int b ''size_gb'', pr_cpu = go_int b ''cpu_millicores'',
     pr_memory = go_int b ''memory_mb'', pr_schedule = go_str b ''backup_schedule'', pr_retention = go_int b ''retention_days''\<rparr>"

definition DatabaseHandler_Provision ::
    "(string \<Rightarrow> bool) \<Rightarrow> provision_context \<Rightarrow> provision_inputs \<Rightarrow> Project \<Rightarrow> js option \<Rightarrow> db_tables \<Rightarrow> db_tables \<times> DatabaseProvisionResult reply" where
  "DatabaseHandler_Provision uuid cx px p body ts =
     (if \<not> DecodeJSON uuid provisionDatabaseRequest body then (ts, Inl (400, ''invalid request body''))
      else (let r = request_of (the body) in
        if trim_by go_space (pr_slug r) = [] \<or> trim_by go_space (pr_version r) = []
        then (ts, Inl (400, ''template_slug and version are required''))
        else if pr_cluster r = [] \<or> pc_nil cx (pr_cluster r) then (ts, Inl (400, ''cluster_id is required''))
        else case Provision cx px p r ts of
          (ts', Inl e) \<Rightarrow> (ts', Inl (422, e))
        | (ts', Inr res) \<Rightarrow> (ts', Inr res)))"

section \<open>What the dialog can send\<close>

definition version_ok :: "Template list \<Rightarrow> string \<Rightarrow> string \<Rightarrow> bool" where
  "version_ok ts slug v =
     (v = [] \<or> (\<exists>t. tmpl ts slug = Some t \<and> v \<in> TemplateVersion_version ` set (Template_versions t)))"

definition provision_dialog_ok :: "Template list \<Rightarrow> string list \<Rightarrow> provision_dialog \<Rightarrow> bool" where
  "provision_dialog_ok ts servers d =
     (version_ok ts (dp_slug d) (dp_version d) \<and> (dp_serverId d = [] \<or> dp_serverId d \<in> set servers) \<and>
      (dp_result d = None \<longrightarrow> dp_runStatus d = RunStreaming))"

definition provision_guard :: "Project \<Rightarrow> provision_dialog \<Rightarrow> dialog_output \<Rightarrow> bool" where
  "provision_guard p d out = (case out of
       Send ep \<Rightarrow> dp_result d = None \<and> \<not> dp_pending d \<and> \<not> provision_disabled d \<and> Project_cluster_id p \<noteq> [] \<and>
         ep = databasesApi_provision (Project_id p) (provision_input p d)
     | Visit u \<Rightarrow> dp_runStatus d \<noteq> RunStreaming \<and> (\<exists>r. dp_result d = Some r \<and>
         u = ''/projects/'' @ Project_id p @ ''/databases/'' @ Database_id (DatabaseProvisionResult_database r)))"

lemma defaultVersion_ok: "version_ok ts slug (defaultVersion (tmpl ts slug))"
proof (cases "tmpl ts slug")
  case (Some t)
  show ?thesis
  proof (cases "find (\<lambda>v. TemplateVersion_default v = Some True) (Template_versions t)")
    case None
    then show ?thesis by (cases "Template_versions t") (simp_all add: Some defaultVersion_def version_ok_def)
  next
    case found: (Some v)
    then show ?thesis using find_SomeD [OF found] by (simp add: Some defaultVersion_def version_ok_def)
  qed
qed (simp add: defaultVersion_def version_ok_def)

lemma selectTemplate_fields [simp]:
  "dp_slug (selectTemplate ts s d) = s" "dp_version (selectTemplate ts s d) = defaultVersion (tmpl ts s)"
  "dp_serverId (selectTemplate ts s d) = dp_serverId d" "dp_result (selectTemplate ts s d) = dp_result d"
  "dp_runStatus (selectTemplate ts s d) = dp_runStatus d"
  by (simp_all add: selectTemplate_def Let_def)

lemma reset_ok [simp]: "provision_dialog_ok ts servers (provision_reset ts d)"
  by (simp add: provision_dialog_ok_def provision_reset_def defaultVersion_ok)

interpretation provision_form: request_machine "provision_step ts servers p" "provision_dialog_ok ts servers" "provision_guard p"
proof
  fix d e r
  show "provision_dialog_ok ts servers (fst (provision_step ts servers p d e))" if ok: "provision_dialog_ok ts servers d"
  proof (cases e)
    case (DPOpen v)
    show ?thesis using ok by (cases v) (simp_all add: DPOpen Let_def, simp add: provision_dialog_ok_def)
  next
    case DPContinue
    show ?thesis using ok by (simp add: DPContinue split: option.split)
  next
    case (DPVersion v)
    show ?thesis using ok by (auto simp: DPVersion provision_dialog_ok_def version_ok_def split: option.split)
  qed (use ok in \<open>simp_all add: provision_dialog_ok_def defaultVersion_ok split: sum.splits\<close>)
  show "provision_guard p d r" if "snd (provision_step ts servers p d e) = Some r"
    using that
    by (cases e) (auto simp: Let_def provision_guard_def provision_create_def provision_disabled_def split: if_splits option.splits sum.splits)
qed

section \<open>What the service is asked to do\<close>

definition int64 :: "int \<Rightarrow> bool" where
  "int64 n = (- (2 ^ 63) \<le> n \<and> n < 2 ^ 63)"

lemma decodes_int64: "decodes (scalar_ok uuid) (GInt 64) (wire (JNum (Num (of_int n)))) \<longleftrightarrow> int64 n"
proof -
  have "- 9223372036854775808 \<le> rat_of_int n \<longleftrightarrow> rat_of_int (- 9223372036854775808) \<le> rat_of_int n" by simp
  then have "- 9223372036854775808 \<le> rat_of_int n \<longleftrightarrow> - 9223372036854775808 \<le> n" by (simp only: of_int_le_iff)
  then show ?thesis by (simp add: int64_def)
qed

lemma provision_members:
  assumes "ProvisionDatabaseInput_js i = JObj kvs"
  shows "distinct (map fst kvs)" and "list_all (\<lambda>e. toLowerCase (fst e) = fst e) kvs"
proof -
  have k: "map fst kvs = [''cluster_id'', ''server_id'', ''template_slug'', ''version'', ''name'', ''size_gb'', ''cpu_millicores'',
      ''memory_mb'', ''backup_schedule'', ''retention_days'']"
    using assms by (auto simp: ProvisionDatabaseInput_js_def)
  then show "distinct (map fst kvs)" by simp
  have "list_all (\<lambda>k. toLowerCase k = k) (map fst kvs)" unfolding k by code_simp
  then show "list_all (\<lambda>e. toLowerCase (fst e) = fst e) kvs" by (simp add: list_all_iff)
qed

definition provision_field :: "ProvisionDatabaseInput \<Rightarrow> string \<Rightarrow> js" where
  "provision_field i k =
     (case ProvisionDatabaseInput_js i of JObj kvs \<Rightarrow> (case map_of kvs k of Some v \<Rightarrow> wire v | None \<Rightarrow> JNull) | _ \<Rightarrow> JNull)"

lemma provision_member:
  assumes "toLowerCase k = k"
  shows "go_member (wire (ProvisionDatabaseInput_js i)) k = provision_field i k"
proof -
  obtain kvs where k: "ProvisionDatabaseInput_js i = JObj kvs" by (simp add: ProvisionDatabaseInput_js_def)
  show ?thesis unfolding k provision_field_def using go_member_wire [OF provision_members [OF k] assms] by simp
qed

lemma provision_fields:
  "provision_field i ''cluster_id'' = JStr (ProvisionDatabaseInput_cluster_id i)"
  "provision_field i ''server_id'' = jstr_null (ProvisionDatabaseInput_server_id i)"
  "provision_field i ''template_slug'' = JStr (ProvisionDatabaseInput_template_slug i)"
  "provision_field i ''version'' = JStr (ProvisionDatabaseInput_version i)"
  "provision_field i ''name'' = JStr (ProvisionDatabaseInput_name i)"
  "provision_field i ''size_gb'' = (case ProvisionDatabaseInput_size_gb i of Some x \<Rightarrow> wire (JNum x) | None \<Rightarrow> JNull)"
  "provision_field i ''cpu_millicores'' = (case ProvisionDatabaseInput_cpu_millicores i of Some x \<Rightarrow> wire (JNum x) | None \<Rightarrow> JNull)"
  "provision_field i ''memory_mb'' = (case ProvisionDatabaseInput_memory_mb i of Some x \<Rightarrow> wire (JNum x) | None \<Rightarrow> JNull)"
  "provision_field i ''backup_schedule'' = jstr_null (ProvisionDatabaseInput_backup_schedule i)"
  "provision_field i ''retention_days'' = (case ProvisionDatabaseInput_retention_days i of Some x \<Rightarrow> wire (JNum x) | None \<Rightarrow> JNull)"
  by (simp_all add: provision_field_def ProvisionDatabaseInput_js_def js_field_defs split: option.split)

lemma provision_lower:
  "toLowerCase ''cluster_id'' = ''cluster_id''" "toLowerCase ''server_id'' = ''server_id''"
  "toLowerCase ''template_slug'' = ''template_slug''" "toLowerCase ''version'' = ''version''" "toLowerCase ''name'' = ''name''"
  "toLowerCase ''size_gb'' = ''size_gb''" "toLowerCase ''cpu_millicores'' = ''cpu_millicores''"
  "toLowerCase ''memory_mb'' = ''memory_mb''" "toLowerCase ''backup_schedule'' = ''backup_schedule''"
  "toLowerCase ''retention_days'' = ''retention_days''"
  by code_simp+

lemmas provision_get = provision_lower [THEN provision_member, unfolded provision_fields]

lemma whole_floor: "(case wire (JNum (Num (of_int n))) of JNum (Num q) \<Rightarrow> \<lfloor>q\<rfloor> | _ \<Rightarrow> 0) = n"
  by simp

lemma provision_wire_request:
  assumes "ProvisionDatabaseInput_size_gb i = Some (Num (of_int a))" and "ProvisionDatabaseInput_cpu_millicores i = Some (Num (of_int b))"
    and "ProvisionDatabaseInput_memory_mb i = Some (Num (of_int c))"
    and "ProvisionDatabaseInput_retention_days i = map_option (\<lambda>n. Num (of_int n)) rd"
  shows "request_of (wire (ProvisionDatabaseInput_js i)) =
    \<lparr>pr_cluster = ProvisionDatabaseInput_cluster_id i, pr_server = ProvisionDatabaseInput_server_id i,
     pr_slug = ProvisionDatabaseInput_template_slug i, pr_version = ProvisionDatabaseInput_version i,
     pr_name = ProvisionDatabaseInput_name i, pr_size = a, pr_cpu = b, pr_memory = c,
     pr_schedule = or_default (ProvisionDatabaseInput_backup_schedule i) [], pr_retention = or_default rd 0\<rparr>"
  unfolding request_of_def go_str_def go_ptr_def go_int_def provision_get assms
  by (simp add: jstr_null_def or_default_def split: option.split)

lemma provision_decodes:
  assumes "ProvisionDatabaseInput_size_gb i = Some (Num (of_int a))" and "ProvisionDatabaseInput_cpu_millicores i = Some (Num (of_int b))"
    and "ProvisionDatabaseInput_memory_mb i = Some (Num (of_int c))"
    and "ProvisionDatabaseInput_retention_days i = map_option (\<lambda>n. Num (of_int n)) rd"
    and "int64 a" "int64 b" "int64 c" "int64 (or_default rd 0)"
    and "uuid (ProvisionDatabaseInput_cluster_id i)" and "pred_option uuid (ProvisionDatabaseInput_server_id i)"
  shows "DecodeJSON uuid provisionDatabaseRequest (Some (wire (ProvisionDatabaseInput_js i)))"
proof -
  have so: "decodes (scalar_ok uuid) GString (wire (jstr_opt x))" for x
    by (simp add: jstr_opt_def split: option.split)
  have u: "jstr_opt x = JUndefined \<or> decodes (scalar_ok uuid) GUUID (wire (jstr_opt x)) \<longleftrightarrow> pred_option uuid x" for x
    by (simp add: jstr_opt_def split: option.split)
  have c: "scalar_ok uuid GUUID (JStr s) \<longleftrightarrow> uuid s" for s by simp
  show ?thesis
    using assms(5-10)
    unfolding DecodeJSON_def provisionDatabaseRequest_def ProvisionDatabaseInput_js_def option.case decodes_members assms(1-4)
    by (cases rd) (simp_all add: go_field_def decodes_int64 so u c or_default_def del: wire.simps(2,4) decodes.simps(9) scalar_ok.simps)
qed

text \<open>
  C20: A database provisioned through the dialog is the one that was described. Whatever happened in the dialog before,
  a request it sends names a template of the list and one of that template's versions, and, when the numbers are whole
  and fit 64 bits and the identifiers of the project's cluster and of its servers are UUIDs, the handler passes to
  \<open>Provision\<close> the trimmed name, the chosen template, version and server, the three sizes and, exactly when a schedule
  was entered, the schedule with its retention; its answer is the service's, an error as a 422.
\<close>

lemma provision_dialog_stored:
  assumes "(d, Send ep) \<in> set (emitted (provision_step tmpls servers p) (provision_init tmpls) es)"
    and "or_zero (Number (dp_size d)) = Num (of_int a)" and "or_zero (Number (dp_cpu d)) = Num (of_int b)"
    and "or_zero (Number (dp_memory d)) = Num (of_int c)" and "or_zero (Number (dp_retention d)) = Num (of_int n)"
    and "int64 a" "int64 b" "int64 c" "int64 n"
    and "uuid (Project_cluster_id p)" and "\<not> pc_nil cx (Project_cluster_id p)" and "list_all uuid servers"
    and "list_all (\<lambda>t. trim_by go_space (Template_slug t) \<noteq> [] \<and>
           list_all (\<lambda>v. trim_by go_space (TemplateVersion_version v) \<noteq> []) (Template_versions t)) tmpls"
  shows "(\<exists>t v. t \<in> set tmpls \<and> Template_slug t = dp_slug d \<and> v \<in> set (Template_versions t) \<and> TemplateVersion_version v = dp_version d) \<and>
    (dp_serverId d = [] \<or> dp_serverId d \<in> set servers) \<and> trim (dp_name d) \<noteq> [] \<and>
    DatabaseHandler_Provision uuid cx px p (fa_body (call_args ep)) ts =
      apsnd (map_sum (Pair 422) (\<lambda>res. res)) (Provision cx px p
        \<lparr>pr_cluster = Project_cluster_id p, pr_server = (if dp_serverId d = [] then None else Some (dp_serverId d)),
         pr_slug = dp_slug d, pr_version = dp_version d, pr_name = trim (dp_name d), pr_size = a, pr_cpu = b, pr_memory = c,
         pr_schedule = trim (dp_schedule d), pr_retention = (if trim (dp_schedule d) = [] then 0 else n)\<rparr> ts)"
proof -
  have "provision_dialog_ok tmpls servers (provision_init tmpls)" by (simp add: provision_init_def)
  from provision_form.emitted_guarded [OF this assms(1)]
  have ok: "provision_dialog_ok tmpls servers d" and en: "\<not> provision_disabled d" and cl: "Project_cluster_id p \<noteq> []"
    and ep: "ep = databasesApi_provision (Project_id p) (provision_input p d)" by (simp_all add: provision_guard_def)
  have ne: "dp_slug d \<noteq> []" "dp_version d \<noteq> []" "trim (dp_name d) \<noteq> []" using en by (simp_all add: provision_disabled_def)
  obtain t v where tv: "tmpl tmpls (dp_slug d) = Some t" "v \<in> set (Template_versions t)" "TemplateVersion_version v = dp_version d"
    using ok ne(2) by (auto simp: provision_dialog_ok_def version_ok_def)
  have t: "t \<in> set tmpls" "Template_slug t = dp_slug d" using find_SomeD [OF tv(1) [unfolded tmpl_def]] by simp_all
  have blank: "trim_by go_space (dp_slug d) \<noteq> []" "trim_by go_space (dp_version d) \<noteq> []"
    using assms(13) t tv(2,3) unfolding list_all_iff by metis+
  have sv: "dp_serverId d = [] \<or> dp_serverId d \<in> set servers" using ok by (simp add: provision_dialog_ok_def)
  let ?i = "provision_input p d" and ?rd = "if trim (dp_schedule d) = [] then None else Some n"
  have b: "fa_body (call_args ep) = Some (wire (ProvisionDatabaseInput_js ?i))"
    unfolding ep by (simp add: wire_body databasesApi_provision_def api_verbs ProvisionDatabaseInput_js_def)
  have i: "ProvisionDatabaseInput_size_gb ?i = Some (Num (of_int a))" "ProvisionDatabaseInput_cpu_millicores ?i = Some (Num (of_int b))"
    "ProvisionDatabaseInput_memory_mb ?i = Some (Num (of_int c))"
    "ProvisionDatabaseInput_retention_days ?i = map_option (\<lambda>n. Num (of_int n)) ?rd"
    using assms(2-5) by (simp_all add: provision_input_def)
  have "int64 (or_default ?rd 0)" using assms(9) by (simp add: or_default_def int64_def)
  then have dec: "DecodeJSON uuid provisionDatabaseRequest (Some (wire (ProvisionDatabaseInput_js ?i)))"
    by (intro provision_decodes [OF i assms(6-8)])
      (use assms(10,12) sv in \<open>auto simp: provision_input_def text_opt_def list_all_iff\<close>)
  note rq = provision_wire_request [OF i]
  have r: "request_of (wire (ProvisionDatabaseInput_js ?i)) =
      \<lparr>pr_cluster = Project_cluster_id p, pr_server = (if dp_serverId d = [] then None else Some (dp_serverId d)),
       pr_slug = dp_slug d, pr_version = dp_version d, pr_name = trim (dp_name d), pr_size = a, pr_cpu = b, pr_memory = c,
       pr_schedule = trim (dp_schedule d), pr_retention = (if trim (dp_schedule d) = [] then 0 else n)\<rparr>"
    unfolding rq by (simp add: provision_input_def text_opt_def or_default_def)
  have "DatabaseHandler_Provision uuid cx px p (fa_body (call_args ep)) ts =
      apsnd (map_sum (Pair 422) (\<lambda>res. res)) (Provision cx px p (request_of (wire (ProvisionDatabaseInput_js ?i))) ts)"
    unfolding DatabaseHandler_Provision_def b Let_def option.sel
    using dec blank cl assms(11) by (simp add: r split: prod.split sum.split)
  then show ?thesis unfolding r using t tv sv ne(3) by blast
qed

definition main_dialog :: provision_dialog where
  "main_dialog = (provision_init [sample_template])\<lparr>dp_open := True, dp_name := ''main'', dp_serverId := ''s2''\<rparr>"

lemma main_dialog_fields:
  "dp_slug main_dialog = ''redis''" "dp_version main_dialog = ''7''" "dp_name main_dialog = ''main''" "dp_serverId main_dialog = ''s2''"
  "dp_size main_dialog = show_int 5" "dp_cpu main_dialog = show_int 250" "dp_memory main_dialog = show_int 256"
  "dp_schedule main_dialog = []" "dp_retention main_dialog = show_int 7" "dp_result main_dialog = None" "\<not> dp_pending main_dialog"
  by code_simp+

lemma main_dialog_sent:
  "(main_dialog, Send (databasesApi_provision ''p1'' (provision_input sample_project main_dialog)))
     \<in> set (emitted (provision_step [sample_template] [''s1'', ''s2''] sample_project) (provision_init [sample_template])
         [DPOpen True, DPName ''main'', DPServer ''s2'', DPSubmit])"
proof -
  let ?st = "provision_step [sample_template] [''s1'', ''s2''] sample_project" and ?d = "provision_init [sample_template]"
  have r: "dp_result ?d = None" "Project_cluster_id sample_project = ''c1''" "Project_id sample_project = ''p1''" by code_simp+
  have "trim ''main'' = ''main''" by code_simp
  then have s: "?st main_dialog DPSubmit = (main_dialog\<lparr>dp_pending := True\<rparr>, Some (Send (databasesApi_provision ''p1'' (provision_input sample_project main_dialog))))"
    by (simp add: provision_disabled_def provision_create_def main_dialog_fields r)
  show ?thesis using s unfolding main_dialog_def by (simp add: r Let_def)
qed

lemma provision_dialog_stored_witness:
  "DatabaseHandler_Provision (\<lambda>u. u \<noteq> []) sample_context (sample_inputs ''1'') sample_project
     (fa_body (call_args (databasesApi_provision ''p1'' (provision_input sample_project main_dialog)))) no_tables =
   apsnd (map_sum (Pair 422) (\<lambda>res. res)) (Provision sample_context (sample_inputs ''1'') sample_project
     \<lparr>pr_cluster = ''c1'', pr_server = Some ''s2'', pr_slug = ''redis'', pr_version = ''7'', pr_name = ''main'', pr_size = 5,
      pr_cpu = 250, pr_memory = 256, pr_schedule = [], pr_retention = 0\<rparr> no_tables)"
proof -
  note d = main_dialog_fields
  have n: "or_zero (Number (dp_size main_dialog)) = Num (of_int 5)" "or_zero (Number (dp_cpu main_dialog)) = Num (of_int 250)"
    "or_zero (Number (dp_memory main_dialog)) = Num (of_int 256)" "or_zero (Number (dp_retention main_dialog)) = Num (of_int 7)"
    unfolding d Number_show_int by (simp_all add: or_zero_def)
  have w: "int64 5" "int64 250" "int64 256" "int64 7" by (simp_all add: int64_def)
  have p: "Project_cluster_id sample_project = ''c1''" "pc_nil sample_context = (\<lambda>s. False)"
    by (simp_all add: sample_project_def sample_context_def)
  have b: "list_all (\<lambda>t. trim_by go_space (Template_slug t) \<noteq> [] \<and>
      list_all (\<lambda>v. trim_by go_space (TemplateVersion_version v) \<noteq> []) (Template_versions t)) [sample_template]" by code_simp
  have tr: "trim ''main'' = ''main''" "trim [] = ([] :: string)" by code_simp+
  have "DatabaseHandler_Provision (\<lambda>u. u \<noteq> []) sample_context (sample_inputs ''1'') sample_project
      (fa_body (call_args (databasesApi_provision ''p1'' (provision_input sample_project main_dialog)))) no_tables =
      apsnd (map_sum (Pair 422) (\<lambda>res. res)) (Provision sample_context (sample_inputs ''1'') sample_project
        \<lparr>pr_cluster = Project_cluster_id sample_project,
         pr_server = (if dp_serverId main_dialog = [] then None else Some (dp_serverId main_dialog)),
         pr_slug = dp_slug main_dialog, pr_version = dp_version main_dialog, pr_name = trim (dp_name main_dialog), pr_size = 5,
         pr_cpu = 250, pr_memory = 256, pr_schedule = trim (dp_schedule main_dialog),
         pr_retention = (if trim (dp_schedule main_dialog) = [] then 0 else 7)\<rparr> no_tables)"
    using provision_dialog_stored [OF main_dialog_sent n w _ _ _ b, of "\<lambda>u. u \<noteq> []" sample_context "sample_inputs ''1''" no_tables]
    by (simp add: p)
  then show ?thesis by (simp add: d p tr)
qed

end
