(* ===== verification/Secret_Store.thy ===== *)
theory Secret_Store
  imports Database_Store Env_Vars Mesh
begin

text \<open>
  Secrets and variables of the API: the encryption envelope (\<open>internal/crypto/secretbox.go\<close>), team secrets with their
  access log (\<open>internal/secret/service.go\<close>, \<open>sql/queries/secrets.sql\<close>), per-app variables (\<open>internal/appenv/service.go\<close>),
  database links (\<open>internal/database/link.go\<close>) and the environment a build and a deployment get from them
  (\<open>internal/build/service.go\<close>, \<open>internal/deploy/service.go\<close>). Key derivation and the authenticated box are a
  parameter; new identifiers, nonces and the time are inputs.
\<close>

section \<open>Encryption\<close>

record crypto_box =
  cb_derive :: "string \<Rightarrow> string"
  cb_seal :: "string \<Rightarrow> string \<Rightarrow> string \<Rightarrow> string"
  cb_open :: "string \<Rightarrow> string \<Rightarrow> string \<Rightarrow> string option"

text \<open>What the box promises: under the same key and nonce, opening gives back what was sealed.\<close>

definition box_ok :: "crypto_box \<Rightarrow> bool" where
  "box_ok bx = (\<forall>k n p. cb_open bx k n (cb_seal bx k n p) = Some p)"

definition nonceSize :: nat where
  "nonceSize = 24"

definition crypto_Encrypt :: "crypto_box \<Rightarrow> string \<Rightarrow> string \<Rightarrow> string \<Rightarrow> string" where
  "crypto_Encrypt bx nonce plaintext ctx = nonce @ cb_seal bx (cb_derive bx ctx) nonce plaintext"

definition crypto_Decrypt :: "crypto_box \<Rightarrow> string \<Rightarrow> string \<Rightarrow> string + string" where
  "crypto_Decrypt bx ciphertext ctx =
     (if length ciphertext < nonceSize then Inl ''ciphertext too short''
      else case cb_open bx (cb_derive bx ctx) (take nonceSize ciphertext) (drop nonceSize ciphertext) of
        None \<Rightarrow> Inl ''decryption failed''
      | Some p \<Rightarrow> Inr p)"

lemma Decrypt_Encrypt:
  "box_ok bx \<Longrightarrow> length nonce = nonceSize \<Longrightarrow> crypto_Decrypt bx (crypto_Encrypt bx nonce p ctx) ctx = Inr p"
  by (simp add: crypto_Decrypt_def crypto_Encrypt_def box_ok_def)

section \<open>Team secrets\<close>

record secret_row =
  sr_id :: string
  sr_team :: string
  sr_env :: string
  sr_key :: string
  sr_value :: string
  sr_version :: int
  sr_revealed :: "string option"
  sr_created_by :: "string option"
  sr_updated_by :: "string option"
  sr_created :: string
  sr_updated :: string

record access_entry =
  al_secret :: string
  al_team :: string
  al_actor :: "string option"
  al_type :: string
  al_action :: string

record secret_tables =
  st_secrets :: "secret_row list"
  st_access :: "access_entry list"

definition encryptionContext :: "string \<Rightarrow> string" where
  "encryptionContext team = ''secret:'' @ team"

definition GetSecretByID :: "string \<Rightarrow> string \<Rightarrow> secret_tables \<Rightarrow> secret_row option" where
  "GetSecretByID sid team ts = find (\<lambda>r. sr_id r = sid \<and> sr_team r = team) (st_secrets ts)"

definition GetSecretByKey :: "string \<Rightarrow> string \<Rightarrow> string \<Rightarrow> secret_tables \<Rightarrow> secret_row option" where
  "GetSecretByKey team env key ts = find (\<lambda>r. sr_team r = team \<and> sr_env r = env \<and> sr_key r = key) (st_secrets ts)"

definition update_secrets :: "(secret_row \<Rightarrow> bool) \<Rightarrow> (secret_row \<Rightarrow> secret_row) \<Rightarrow> secret_tables \<Rightarrow> secret_tables" where
  "update_secrets P f ts = ts\<lparr>st_secrets := map (\<lambda>r. if P r then f r else r) (st_secrets ts)\<rparr>"

text \<open>An entry of the log refers to an existing secret, otherwise writing it fails, which is only logged.\<close>

definition CreateSecretAccessLog :: "access_entry \<Rightarrow> secret_tables \<Rightarrow> secret_tables" where
  "CreateSecretAccessLog e ts =
     (if list_ex (\<lambda>r. sr_id r = al_secret e) (st_secrets ts) then ts\<lparr>st_access := st_access ts @ [e]\<rparr> else ts)"

definition SecretService_Create ::
    "crypto_box \<Rightarrow> string \<Rightarrow> string \<Rightarrow> string \<Rightarrow> string \<Rightarrow> string \<Rightarrow> string \<Rightarrow> string \<Rightarrow> string option \<Rightarrow> secret_tables
      \<Rightarrow> string + secret_tables \<times> secret_row" where
  "SecretService_Create bx nonce newId now team environment key plaintext creator ts =
     (if list_ex (\<lambda>r. sr_team r = team \<and> sr_env r = environment \<and> sr_key r = key) (st_secrets ts)
      then Inl (''create secret: '' @ duplicate_key ''secrets_team_id_environment_key_key'')
      else (let r = \<lparr>sr_id = newId, sr_team = team, sr_env = environment, sr_key = key,
                     sr_value = crypto_Encrypt bx nonce plaintext (encryptionContext team), sr_version = 1, sr_revealed = None,
                     sr_created_by = creator, sr_updated_by = creator, sr_created = now, sr_updated = now\<rparr>
            in Inr (ts\<lparr>st_secrets := st_secrets ts @ [r]\<rparr>, r)))"

definition UpdateSecretValue :: "string \<Rightarrow> string \<Rightarrow> string \<Rightarrow> string \<Rightarrow> string option \<Rightarrow> secret_tables \<Rightarrow> secret_tables" where
  "UpdateSecretValue sid team ciphertext now updater =
     update_secrets (\<lambda>r. sr_id r = sid \<and> sr_team r = team)
       (\<lambda>r. r\<lparr>sr_value := ciphertext, sr_version := sr_version r + 1, sr_revealed := None, sr_updated_by := updater, sr_updated := now\<rparr>)"

definition SecretService_Update ::
    "crypto_box \<Rightarrow> string \<Rightarrow> string \<Rightarrow> string \<Rightarrow> string \<Rightarrow> string \<Rightarrow> string option \<Rightarrow> secret_tables \<Rightarrow> string + secret_tables \<times> secret_row" where
  "SecretService_Update bx nonce now sid team plaintext updater ts =
     (let ts' = UpdateSecretValue sid team (crypto_Encrypt bx nonce plaintext (encryptionContext team)) now updater ts
      in case GetSecretByID sid team ts' of
        None \<Rightarrow> Inl ''update secret: no rows in result set''
      | Some r \<Rightarrow> Inr (ts', r))"

text \<open>\<open>Reveal\<close> reads and decrypts, then marks and logs; other requests can run in between.\<close>

datatype reveal_error = ErrAlreadyRevealed | RevealFailed string

definition reveal_read :: "crypto_box \<Rightarrow> string \<Rightarrow> string \<Rightarrow> secret_tables \<Rightarrow> reveal_error + string" where
  "reveal_read bx sid team ts =
     (case GetSecretByID sid team ts of
        None \<Rightarrow> Inl (RevealFailed ''get secret: no rows in result set'')
      | Some r \<Rightarrow>
          if sr_revealed r \<noteq> None then Inl ErrAlreadyRevealed
          else case crypto_Decrypt bx (sr_value r) (encryptionContext team) of
            Inl e \<Rightarrow> Inl (RevealFailed (''decrypt secret: '' @ e))
          | Inr p \<Rightarrow> Inr p)"

definition SetSecretRevealedAt :: "string \<Rightarrow> string \<Rightarrow> secret_tables \<Rightarrow> secret_tables" where
  "SetSecretRevealedAt now sid = update_secrets (\<lambda>r. sr_id r = sid) (\<lambda>r. r\<lparr>sr_revealed := Some now\<rparr>)"

definition reveal_mark :: "string \<Rightarrow> string \<Rightarrow> string \<Rightarrow> string option \<Rightarrow> string \<Rightarrow> secret_tables \<Rightarrow> secret_tables" where
  "reveal_mark now sid team actor actorType ts =
     CreateSecretAccessLog \<lparr>al_secret = sid, al_team = team, al_actor = actor, al_type = actorType, al_action = ''read''\<rparr>
       (SetSecretRevealedAt now sid ts)"

definition SecretService_Reveal ::
    "crypto_box \<Rightarrow> string \<Rightarrow> string \<Rightarrow> string \<Rightarrow> string option \<Rightarrow> string \<Rightarrow> secret_tables \<Rightarrow> secret_tables \<times> (reveal_error + string)" where
  "SecretService_Reveal bx now sid team actor actorType ts =
     (case reveal_read bx sid team ts of
        Inl e \<Rightarrow> (ts, Inl e)
      | Inr p \<Rightarrow> (reveal_mark now sid team actor actorType ts, Inr p))"

fun BulkResolve ::
    "crypto_box \<Rightarrow> string \<Rightarrow> string \<Rightarrow> string option \<Rightarrow> string \<Rightarrow> string list \<Rightarrow> (string, string) obj \<Rightarrow> secret_tables
      \<Rightarrow> secret_tables \<times> (string + (string, string) obj)" where
  "BulkResolve bx team env actor actorType [] result ts = (ts, Inr result)"
| "BulkResolve bx team env actor actorType (key # keys) result ts =
     (case GetSecretByKey team env key ts of
        None \<Rightarrow> (ts, Inl (''get secret '' @ go_quote key @ '': no rows in result set''))
      | Some r \<Rightarrow>
          (case crypto_Decrypt bx (sr_value r) (encryptionContext team) of
             Inl e \<Rightarrow> (ts, Inl (''decrypt secret '' @ go_quote key @ '': '' @ e))
           | Inr p \<Rightarrow>
               BulkResolve bx team env actor actorType keys (obj_set key p result)
                 (CreateSecretAccessLog \<lparr>al_secret = sr_id r, al_team = team, al_actor = actor, al_type = actorType,
                    al_action = ''resolve''\<rparr> ts)))"

text \<open>\<open>collate\<close> is the collation of the database.\<close>

definition ListSecrets :: "(string \<Rightarrow> string \<Rightarrow> int) \<Rightarrow> string \<Rightarrow> string \<Rightarrow> secret_tables \<Rightarrow> secret_row list" where
  "ListSecrets collate team env ts =
     array_sort (\<lambda>r s. collate (sr_key r) (sr_key s)) (filter (\<lambda>r. sr_team r = team \<and> sr_env r = env) (st_secrets ts))"

definition ListSecretsByTeam :: "(string \<Rightarrow> string \<Rightarrow> int) \<Rightarrow> string \<Rightarrow> secret_tables \<Rightarrow> secret_row list" where
  "ListSecretsByTeam collate team ts =
     array_sort (\<lambda>r s. if collate (sr_env r) (sr_env s) \<noteq> 0 then collate (sr_env r) (sr_env s) else collate (sr_key r) (sr_key s))
       (filter (\<lambda>r. sr_team r = team) (st_secrets ts))"

text \<open>Deleting a secret deletes its log entries, the one written just before included (\<open>ON DELETE CASCADE\<close>).\<close>

definition DeleteSecret :: "string \<Rightarrow> string \<Rightarrow> secret_tables \<Rightarrow> secret_tables" where
  "DeleteSecret sid team ts =
     (let gone = map sr_id (filter (\<lambda>r. sr_id r = sid \<and> sr_team r = team) (st_secrets ts)) in
      ts\<lparr>st_secrets := filter (\<lambda>r. \<not> (sr_id r = sid \<and> sr_team r = team)) (st_secrets ts),
         st_access := filter (\<lambda>e. al_secret e \<notin> set gone) (st_access ts)\<rparr>)"

definition SecretService_Delete :: "string \<Rightarrow> string \<Rightarrow> string option \<Rightarrow> string \<Rightarrow> secret_tables \<Rightarrow> secret_tables" where
  "SecretService_Delete sid team actor actorType ts =
     DeleteSecret sid team (CreateSecretAccessLog
       \<lparr>al_secret = sid, al_team = team, al_actor = actor, al_type = actorType, al_action = ''delete''\<rparr> ts)"

section \<open>Runs of the secret service\<close>

datatype secret_op =
    SCreate string string string string string string string "string option"
  | SUpdate string string string string string "string option"
  | SReveal string string string "string option" string
  | SResolve string string "string option" string "string list"
  | SDelete string string "string option" string

datatype secret_answer = Stored | Shown string | Resolved "(string, string) obj" | Refused

fun secret_step :: "crypto_box \<Rightarrow> secret_tables \<Rightarrow> secret_op \<Rightarrow> secret_tables \<times> secret_answer" where
  "secret_step bx ts (SCreate nonce newId now team env key plain creator) =
     (case SecretService_Create bx nonce newId now team env key plain creator ts of
        Inl e \<Rightarrow> (ts, Refused) | Inr (ts', r) \<Rightarrow> (ts', Stored))"
| "secret_step bx ts (SUpdate nonce now sid team plain updater) =
     (case SecretService_Update bx nonce now sid team plain updater ts of
        Inl e \<Rightarrow> (ts, Refused) | Inr (ts', r) \<Rightarrow> (ts', Stored))"
| "secret_step bx ts (SReveal now sid team actor ty) =
     (case SecretService_Reveal bx now sid team actor ty ts of (ts', Inl e) \<Rightarrow> (ts', Refused) | (ts', Inr p) \<Rightarrow> (ts', Shown p))"
| "secret_step bx ts (SResolve team env actor ty keys) =
     (case BulkResolve bx team env actor ty keys [] ts of (ts', Inl e) \<Rightarrow> (ts', Refused) | (ts', Inr m) \<Rightarrow> (ts', Resolved m))"
| "secret_step bx ts (SDelete sid team actor ty) = (SecretService_Delete sid team actor ty ts, Stored)"

fun secret_run :: "crypto_box \<Rightarrow> secret_tables \<Rightarrow> secret_op list \<Rightarrow> (secret_op \<times> secret_answer) list" where
  "secret_run bx ts [] = []"
| "secret_run bx ts (op # ops) = (case secret_step bx ts op of (ts', a) \<Rightarrow> (op, a) # secret_run bx ts' ops)"

section \<open>What a reveal shows\<close>

text \<open>The value a successful request stored for a secret, and the last one in a run.\<close>

fun stored_by :: "string \<Rightarrow> secret_op \<times> secret_answer \<Rightarrow> string option" where
  "stored_by sid (SCreate nonce newId now team env key plain creator, Stored) = (if newId = sid then Some plain else None)"
| "stored_by sid (SUpdate nonce now i team plain updater, Stored) = (if i = sid then Some plain else None)"
| "stored_by sid e = None"

definition then_stored :: "string \<Rightarrow> string option \<Rightarrow> secret_op \<times> secret_answer \<Rightarrow> string option" where
  "then_stored sid l e = (case stored_by sid e of Some p \<Rightarrow> Some p | None \<Rightarrow> l)"

definition last_stored :: "string \<Rightarrow> (secret_op \<times> secret_answer) list \<Rightarrow> string option" where
  "last_stored sid tr = foldl (then_stored sid) None tr"

fun new_ids :: "secret_op list \<Rightarrow> string list" where
  "new_ids [] = []"
| "new_ids (SCreate nonce newId now team env key plain creator # ops) = newId # new_ids ops"
| "new_ids (op # ops) = new_ids ops"

fun nonce_ok :: "secret_op \<Rightarrow> bool" where
  "nonce_ok (SCreate nonce newId now team env key plain creator) = (length nonce = nonceSize)"
| "nonce_ok (SUpdate nonce now sid team plain updater) = (length nonce = nonceSize)"
| "nonce_ok op = True"

lemma then_stored_simps [simp]:
  "then_stored sid l (SCreate nonce newId now team env key plain creator, a) = (if a = Stored \<and> newId = sid then Some plain else l)"
  "then_stored sid l (SUpdate nonce now i team plain updater, a) = (if a = Stored \<and> i = sid then Some plain else l)"
  "then_stored sid l (SReveal now i team actor ty, a) = l" "then_stored sid l (SResolve team env actor ty keys, a) = l"
  "then_stored sid l (SDelete i team actor ty, a) = l"
  by (cases a; simp add: then_stored_def)+

text \<open>A secret that was not revealed since holds the value last stored.\<close>

definition row_holds :: "crypto_box \<Rightarrow> string option \<Rightarrow> secret_row \<Rightarrow> bool" where
  "row_holds bx l r =
     (sr_revealed r \<noteq> None \<or> (\<exists>p. l = Some p \<and> crypto_Decrypt bx (sr_value r) (encryptionContext (sr_team r)) = Inr p))"

definition secret_holds :: "crypto_box \<Rightarrow> string \<Rightarrow> string option \<Rightarrow> secret_tables \<Rightarrow> bool" where
  "secret_holds bx sid l ts = (distinct (map sr_id (st_secrets ts)) \<and> (\<forall>r \<in> set (st_secrets ts). sr_id r = sid \<longrightarrow> row_holds bx l r))"

lemma update_ids: "(\<And>r. sr_id (f r) = sr_id r) \<Longrightarrow> map sr_id (st_secrets (update_secrets P f ts)) = map sr_id (st_secrets ts)"
  by (simp add: update_secrets_def)

lemma holds_update:
  assumes "distinct (map sr_id (st_secrets ts))" and "\<And>r. sr_id (f r) = sr_id r"
    and "\<And>r. r \<in> set (st_secrets ts) \<Longrightarrow> sr_id r = sid \<Longrightarrow> row_holds bx l (if P r then f r else r)"
  shows "secret_holds bx sid l (update_secrets P f ts)"
proof -
  have "row_holds bx l s" if s: "s \<in> set (st_secrets (update_secrets P f ts))" "sr_id s = sid" for s
  proof -
    from s(1) obtain r where r: "r \<in> set (st_secrets ts)" "s = (if P r then f r else r)" by (auto simp: update_secrets_def)
    then show ?thesis using assms(3) [OF r(1)] s(2) assms(2) by (simp split: if_splits)
  qed
  then show ?thesis using assms(1) update_ids [of f P ts, OF assms(2)] by (simp add: secret_holds_def)
qed

lemma CreateSecretAccessLog_rows [simp]: "st_secrets (CreateSecretAccessLog e ts) = st_secrets ts"
  by (simp add: CreateSecretAccessLog_def)

lemma BulkResolve_rows: "st_secrets (fst (BulkResolve bx team env actor ty keys m ts)) = st_secrets ts"
  by (induction keys arbitrary: m ts) (auto split: option.split sum.split)

lemma same_id: "distinct (map f rs) \<Longrightarrow> r \<in> set rs \<Longrightarrow> s \<in> set rs \<Longrightarrow> f r = f s \<Longrightarrow> r = s"
  by (metis inj_onD distinct_map)

text \<open>The rows after each kind of request.\<close>

lemma rows_create:
  assumes "secret_step bx ts (SCreate nonce newId now team env key plain creator) = (ts', a)"
  shows "a = Refused \<and> ts' = ts \<or> a = Stored \<and> (\<exists>r. st_secrets ts' = st_secrets ts @ [r] \<and> sr_id r = newId \<and>
    sr_team r = team \<and> sr_value r = crypto_Encrypt bx nonce plain (encryptionContext team))"
  using assms by (auto simp: SecretService_Create_def Let_def split: if_splits)

lemma rows_update:
  assumes "secret_step bx ts (SUpdate nonce now sid team plain updater) = (ts', a)"
  shows "a = Refused \<and> ts' = ts \<or> a = Stored \<and> (\<exists>r \<in> set (st_secrets ts). sr_id r = sid \<and> sr_team r = team) \<and>
    ts' = UpdateSecretValue sid team (crypto_Encrypt bx nonce plain (encryptionContext team)) now updater ts"
proof -
  let ?u = "UpdateSecretValue sid team (crypto_Encrypt bx nonce plain (encryptionContext team)) now updater ts"
  have "\<exists>r \<in> set (st_secrets ts). sr_id r = sid \<and> sr_team r = team" if "GetSecretByID sid team ?u = Some r" for r
    using find_SomeD [OF that [unfolded GetSecretByID_def]] by (auto simp: UpdateSecretValue_def update_secrets_def split: if_splits)
  then show ?thesis using assms by (auto simp: SecretService_Update_def Let_def split: option.splits)
qed

lemma rows_reveal:
  assumes "secret_step bx ts (SReveal now sid team actor ty) = (ts', a)"
  shows "a = Refused \<and> ts' = ts \<or> st_secrets ts' = st_secrets (SetSecretRevealedAt now sid ts) \<and>
    (\<exists>p r. a = Shown p \<and> r \<in> set (st_secrets ts) \<and> sr_id r = sid \<and> sr_revealed r = None \<and>
       crypto_Decrypt bx (sr_value r) (encryptionContext (sr_team r)) = Inr p)"
proof (cases "reveal_read bx sid team ts")
  case (Inr p)
  then obtain r where r: "GetSecretByID sid team ts = Some r" "sr_revealed r = None"
    "crypto_Decrypt bx (sr_value r) (encryptionContext team) = Inr p"
    by (auto simp: reveal_read_def split: option.splits if_splits sum.splits)
  from find_SomeD [OF r(1) [unfolded GetSecretByID_def]] r(2,3) show ?thesis
    using assms Inr by (auto simp: SecretService_Reveal_def reveal_mark_def)
qed (use assms in \<open>simp add: SecretService_Reveal_def\<close>)

lemma reveal_marks:
  assumes "secret_holds bx sid l ts"
  shows "secret_holds bx sid (if i = sid then None else l) (SetSecretRevealedAt now i ts)"
    and "map sr_id (st_secrets (SetSecretRevealedAt now i ts)) = map sr_id (st_secrets ts)"
proof -
  show "secret_holds bx sid (if i = sid then None else l) (SetSecretRevealedAt now i ts)"
    unfolding SetSecretRevealedAt_def
    by (rule holds_update) (use assms in \<open>auto simp: secret_holds_def row_holds_def\<close>)
  show "map sr_id (st_secrets (SetSecretRevealedAt now i ts)) = map sr_id (st_secrets ts)"
    unfolding SetSecretRevealedAt_def by (rule update_ids) simp
qed

lemma holds_step:
  assumes "box_ok bx" and "secret_holds bx sid l ts" and "secret_step bx ts op = (ts', a)" and "nonce_ok op"
    and "set (new_ids [op]) \<inter> set (map sr_id (st_secrets ts)) = {}"
  shows "secret_holds bx sid (then_stored sid l (op, a)) ts' \<and>
    set (map sr_id (st_secrets ts')) \<subseteq> set (new_ids [op]) \<union> set (map sr_id (st_secrets ts))"
proof (cases op)
  case (SCreate nonce newId now team env key plain creator)
  from rows_create [OF assms(3) [unfolded SCreate]] assms(1,2,4,5) show ?thesis
    by (auto simp: SCreate secret_holds_def row_holds_def Decrypt_Encrypt split: if_splits) (metis image_eqI)
next
  case (SUpdate nonce now i team plain updater)
  consider "a = Refused" "ts' = ts"
    | r where "a = Stored" "r \<in> set (st_secrets ts)" "sr_id r = i" "sr_team r = team"
      "ts' = UpdateSecretValue i team (crypto_Encrypt bx nonce plain (encryptionContext team)) now updater ts"
    using rows_update [OF assms(3) [unfolded SUpdate]] by blast
  then show ?thesis
  proof cases
    case 1
    then show ?thesis using assms(2) by (simp add: SUpdate)
  next
    case 2
    have d: "distinct (map sr_id (st_secrets ts))" using assms(2) by (simp add: secret_holds_def)
    have tm: "sr_team s = team" if "s \<in> set (st_secrets ts)" "sr_id s = i" for s
      using same_id [OF d that(1) 2(2)] that(2) 2(3,4) by simp
    have "secret_holds bx sid (then_stored sid l (op, a)) ts'"
      unfolding 2(5) UpdateSecretValue_def
    proof (rule holds_update [OF d])
      fix s assume s: "s \<in> set (st_secrets ts)" "sr_id s = sid"
      show "row_holds bx (then_stored sid l (op, a)) (if sr_id s = i \<and> sr_team s = team then s\<lparr>sr_value :=
          crypto_Encrypt bx nonce plain (encryptionContext team), sr_version := sr_version s + 1, sr_revealed := None,
          sr_updated_by := updater, sr_updated := now\<rparr> else s)"
        using s tm [OF s(1)] assms(1,2,4) 2(1)
        by (cases "sid = i") (simp_all add: SUpdate row_holds_def Decrypt_Encrypt, auto simp: secret_holds_def row_holds_def)
    qed simp
    moreover have "map sr_id (st_secrets ts') = map sr_id (st_secrets ts)"
      unfolding 2(5) UpdateSecretValue_def by (rule update_ids) simp
    ultimately show ?thesis by simp
  qed
next
  case (SReveal now i team actor ty)
  have "a = Refused \<and> ts' = ts \<or> st_secrets ts' = st_secrets (SetSecretRevealedAt now i ts)"
    using rows_reveal [OF assms(3) [unfolded SReveal]] by blast
  moreover have "secret_holds bx sid l (SetSecretRevealedAt now i ts)"
    using reveal_marks(1) [OF assms(2), of i now] by (auto simp: secret_holds_def row_holds_def split: if_splits)
  moreover have "set (map sr_id (st_secrets (SetSecretRevealedAt now i ts))) = set (map sr_id (st_secrets ts))"
    unfolding reveal_marks(2) [OF assms(2)] ..
  ultimately show ?thesis using assms(2) unfolding SReveal secret_holds_def by (elim disjE) simp_all
next
  case (SResolve team env actor ty keys)
  have "st_secrets ts' = st_secrets ts" using assms(3) BulkResolve_rows [of bx team env actor ty keys "[]" ts]
    by (auto simp: SResolve split: prod.splits sum.splits)
  then show ?thesis using assms(2) by (simp add: SResolve secret_holds_def)
next
  case (SDelete i team actor ty)
  then have "st_secrets ts' = filter (\<lambda>r. \<not> (sr_id r = i \<and> sr_team r = team)) (st_secrets ts)" "a = Stored"
    using assms(3) by (auto simp: SecretService_Delete_def DeleteSecret_def Let_def)
  then show ?thesis using assms(2) by (auto simp: SDelete secret_holds_def distinct_map_filter)
qed

fun after_ops :: "crypto_box \<Rightarrow> secret_tables \<Rightarrow> secret_op list \<Rightarrow> secret_tables" where
  "after_ops bx ts [] = ts"
| "after_ops bx ts (op # ops) = after_ops bx (fst (secret_step bx ts op)) ops"

lemma run_append: "secret_run bx ts (ops @ ops') = secret_run bx ts ops @ secret_run bx (after_ops bx ts ops) ops'"
  by (induction ops arbitrary: ts) (auto split: prod.split)

lemma secret_run_split:
  "secret_run bx ts ops = xs @ (op, a) # zs \<Longrightarrow>
   \<exists>ops1 ops2 ts'. ops = ops1 @ op # ops2 \<and> secret_run bx ts ops1 = xs \<and>
     secret_step bx (after_ops bx ts ops1) op = (ts', a) \<and> secret_run bx ts' ops2 = zs"
proof (induction xs arbitrary: ts ops)
  case Nil
  then obtain ops2 where "ops = op # ops2" by (cases ops) (auto split: prod.splits)
  with Nil show ?case by (intro exI [of _ "[]"] exI [of _ ops2]) (auto split: prod.splits)
next
  case (Cons x xs)
  then obtain op' ops' ts' b where o: "ops = op' # ops'" "secret_step bx ts op' = (ts', b)" "secret_run bx ts' ops' = xs @ (op, a) # zs" "x = (op', b)"
    by (cases ops) (auto split: prod.splits)
  from Cons.IH [OF o(3)] obtain ops1 ops2 ts2 where "ops' = ops1 @ op # ops2" "secret_run bx ts' ops1 = xs"
    "secret_step bx (after_ops bx ts' ops1) op = (ts2, a)" "secret_run bx ts2 ops2 = zs" by blast
  with o show ?case by (intro exI [of _ "op' # ops1"] exI [of _ ops2] exI [of _ ts2]) simp
qed

lemma new_ids_append: "new_ids (ops @ ops') = new_ids ops @ new_ids ops'"
  by (induction ops rule: new_ids.induct) auto

lemma new_ids_Cons: "new_ids (op # ops) = new_ids [op] @ new_ids ops"
  by (cases op) auto

definition ops_ok :: "secret_op list \<Rightarrow> secret_tables \<Rightarrow> bool" where
  "ops_ok ops ts = (list_all nonce_ok ops \<and> distinct (new_ids ops) \<and> set (new_ids ops) \<inter> set (map sr_id (st_secrets ts)) = {})"

lemma ops_ok_step:
  assumes "ops_ok (op # ops) ts" and "set (map sr_id (st_secrets ts')) \<subseteq> set (new_ids [op]) \<union> set (map sr_id (st_secrets ts))"
  shows "nonce_ok op \<and> set (new_ids [op]) \<inter> set (map sr_id (st_secrets ts)) = {} \<and> ops_ok ops ts'"
  using assms unfolding ops_ok_def new_ids_Cons [of op ops] by auto

lemma holds_run:
  assumes "box_ok bx" and "secret_holds bx sid l ts" and "ops_ok (ops @ ops') ts"
  shows "secret_holds bx sid (foldl (then_stored sid) l (secret_run bx ts ops)) (after_ops bx ts ops) \<and> ops_ok ops' (after_ops bx ts ops)"
  using assms(2,3)
proof (induction ops arbitrary: l ts)
  case (Cons op ops)
  obtain ts' a where s: "secret_step bx ts op = (ts', a)" by (cases "secret_step bx ts op")
  have p: "nonce_ok op" "set (new_ids [op]) \<inter> set (map sr_id (st_secrets ts)) = {}"
    using Cons.prems(2) ops_ok_step [of op "ops @ ops'" ts ts] by auto
  note h = holds_step [OF assms(1) Cons.prems(1) s p]
  then have "ops_ok (ops @ ops') ts'" using ops_ok_step [of op "ops @ ops'" ts ts'] Cons.prems(2) by simp
  from Cons.IH [OF conjunct1 [OF h] this] show ?case by (simp add: s)
qed simp

text \<open>A reveal that answers shows the value last stored, and afterwards the secret is marked.\<close>

lemma reveal_shows:
  assumes "box_ok bx" and "secret_holds bx sid l ts" and "secret_step bx ts (SReveal now sid team actor ty) = (ts', Shown w)"
  shows "l = Some w \<and> secret_holds bx sid None ts'"
proof -
  from rows_reveal [OF assms(3)] obtain r where r: "r \<in> set (st_secrets ts)" "sr_id r = sid" "sr_revealed r = None"
    "crypto_Decrypt bx (sr_value r) (encryptionContext (sr_team r)) = Inr w"
    and ts': "st_secrets ts' = st_secrets (SetSecretRevealedAt now sid ts)" by auto
  from assms(2) r have "row_holds bx l r" by (simp add: secret_holds_def)
  with r(3,4) have "l = Some w" by (auto simp: row_holds_def)
  moreover have "secret_holds bx sid None ts'"
    using reveal_marks(1) [OF assms(2), of sid now] by (simp add: secret_holds_def ts')
  ultimately show ?thesis by simp
qed

definition no_secrets :: secret_tables where
  "no_secrets = \<lparr>st_secrets = [], st_access = []\<rparr>"

lemma last_stored_event: "foldl (then_stored sid) None tr = Some w \<Longrightarrow> \<exists>e \<in> set tr. stored_by sid e = Some w"
  by (induction tr rule: rev_induct) (auto simp: then_stored_def split: option.splits)

lemma run_ops: "map fst (secret_run bx ts ops) = ops"
  by (induction ops arbitrary: ts) (auto split: prod.split)

lemma new_ids_created: "SCreate nonce newId now team env key plain creator \<in> set ops \<Longrightarrow> newId \<in> set (new_ids ops)"
  by (induction ops rule: new_ids.induct) auto

text \<open>
  C21: A secret is revealed at most once per value. In any sequence of requests to the secret service, with fresh
  identifiers and a sound encryption, a reveal that answers shows the value stored last, and between two reveals of
  the same secret that answer there is a rotation, whose value the second one shows.
\<close>

lemma secret_reveal_once:
  assumes "box_ok bx" and "list_all nonce_ok ops" and "distinct (new_ids ops)"
    and "secret_run bx no_secrets ops =
      pre @ (SReveal n1 sid t1 a1 y1, Shown v) # mid @ (SReveal n2 sid t2 a2 y2, Shown w) # post"
  shows "last_stored sid pre = Some v \<and> last_stored sid mid = Some w \<and>
    (\<exists>nonce now team updater. (SUpdate nonce now sid team w updater, Stored) \<in> set mid)"
proof -
  obtain ops1 ops2 ts1 where s1: "ops = ops1 @ SReveal n1 sid t1 a1 y1 # ops2" "secret_run bx no_secrets ops1 = pre"
    "secret_step bx (after_ops bx no_secrets ops1) (SReveal n1 sid t1 a1 y1) = (ts1, Shown v)"
    "secret_run bx ts1 ops2 = mid @ (SReveal n2 sid t2 a2 y2, Shown w) # post"
    using secret_run_split [OF assms(4)] by blast
  have e: "secret_holds bx sid None no_secrets" "ops_ok ops no_secrets"
    using assms(2,3) by (simp_all add: secret_holds_def no_secrets_def ops_ok_def)
  note h1 = holds_run [OF assms(1) e(1) e(2) [unfolded s1(1)]]
  note r1 = reveal_shows [OF assms(1) conjunct1 [OF h1] s1(3)]
  have id1: "sid \<in> set (map sr_id (st_secrets ts1))"
    using rows_reveal [OF s1(3)] reveal_marks(2) [OF conjunct1 [OF h1], of n1 sid] by (auto simp: image_iff)
  have ok2: "ops_ok ops2 ts1"
    using conjunct2 [OF h1] holds_step [OF assms(1) conjunct1 [OF h1] s1(3)] ops_ok_step [of _ ops2 _ ts1] by force
  obtain ops3 ops4 ts2 where s2: "ops2 = ops3 @ SReveal n2 sid t2 a2 y2 # ops4" "secret_run bx ts1 ops3 = mid"
    "secret_step bx (after_ops bx ts1 ops3) (SReveal n2 sid t2 a2 y2) = (ts2, Shown w)"
    using secret_run_split [OF s1(4)] by blast
  note h2 = holds_run [OF assms(1) conjunct2 [OF r1] ok2 [unfolded s2(1)]]
  note r2 = reveal_shows [OF assms(1) conjunct1 [OF h2] s2(3)]
  have m: "foldl (then_stored sid) None mid = Some w" using r2 s2(2) by simp
  from last_stored_event [OF this] obtain ev where ev: "ev \<in> set mid" "stored_by sid ev = Some w" by blast
  have "fst ev \<in> set ops3" using ev(1) run_ops [of bx ts1 ops3] s2(2) by (metis image_eqI set_map)
  then have "\<nexists>nonce now team env key plain creator. fst ev = SCreate nonce sid now team env key plain creator"
    using ok2 id1 new_ids_created [of _ sid] by (auto simp: ops_ok_def s2(1) new_ids_append) blast
  with ev(2) have "\<exists>nonce now team updater. ev = (SUpdate nonce now sid team w updater, Stored)"
    by (cases "(sid, ev)" rule: stored_by.cases) (auto split: if_splits)
  then show ?thesis using r1 m s1(2) ev(1) by (auto simp: last_stored_def)
qed

text \<open>A box that seals nothing, for the examples.\<close>

definition clear_box :: crypto_box where
  "clear_box = \<lparr>cb_derive = (\<lambda>c. c), cb_seal = (\<lambda>k n p. p), cb_open = (\<lambda>k n c. Some c)\<rparr>"

definition zero_nonce :: string where
  "zero_nonce = replicate 24 (CHR ''0'')"

lemma clear_box_ok: "box_ok clear_box" "length zero_nonce = nonceSize"
  by (simp_all add: box_ok_def clear_box_def zero_nonce_def nonceSize_def)

definition sample_ops :: "secret_op list" where
  "sample_ops = [SCreate zero_nonce ''s1'' ''1'' ''t1'' ''production'' ''DSN'' ''old'' None, SReveal ''2'' ''s1'' ''t1'' None ''user'',
     SReveal ''3'' ''s1'' ''t1'' None ''user'', SUpdate zero_nonce ''4'' ''s1'' ''t1'' ''new'' None, SReveal ''5'' ''s1'' ''t1'' None ''user'']"

lemma sample_ops_run:
  "secret_run clear_box no_secrets sample_ops =
     [(SCreate zero_nonce ''s1'' ''1'' ''t1'' ''production'' ''DSN'' ''old'' None, Stored)] @
     (SReveal ''2'' ''s1'' ''t1'' None ''user'', Shown ''old'') #
     [(SReveal ''3'' ''s1'' ''t1'' None ''user'', Refused), (SUpdate zero_nonce ''4'' ''s1'' ''t1'' ''new'' None, Stored)] @
     (SReveal ''5'' ''s1'' ''t1'' None ''user'', Shown ''new'') # []"
  by code_simp

lemma secret_reveal_once_witness:
  "last_stored ''s1'' [(SReveal ''3'' ''s1'' ''t1'' None ''user'', Refused), (SUpdate zero_nonce ''4'' ''s1'' ''t1'' ''new'' None, Stored)] = Some ''new''"
proof -
  have "list_all nonce_ok sample_ops" "distinct (new_ids sample_ops)"
    by (simp_all add: sample_ops_def clear_box_ok(2))
  from secret_reveal_once [OF clear_box_ok(1) this sample_ops_run] show ?thesis by blast
qed

section \<open>Reveals that overlap\<close>

text \<open>
  Requests run at the same time; a reveal reads in one step and marks in a later one. The flow keeps the reveals that
  have read, with what they read, and the values that were handed out.
\<close>

record reveal_flow =
  rf_tables :: secret_tables
  rf_read :: "(string \<times> string \<times> string) list"
  rf_shown :: "(string \<times> string) list"

inductive flow_step :: "crypto_box \<Rightarrow> reveal_flow \<Rightarrow> reveal_flow \<Rightarrow> bool" for bx where
  reads: "reveal_read bx sid team (rf_tables s) = Inr p \<Longrightarrow> flow_step bx s (s\<lparr>rf_read := (sid, team, p) # rf_read s\<rparr>)"
| marks: "(sid, team, p) \<in> set (rf_read s) \<Longrightarrow> flow_step bx s (s\<lparr>rf_tables := reveal_mark now sid team actor ty (rf_tables s),
     rf_read := remove1 (sid, team, p) (rf_read s), rf_shown := rf_shown s @ [(sid, p)]\<rparr>)"
| other: "secret_step bx (rf_tables s) op = (ts', a) \<Longrightarrow> (\<nexists>now sid team actor ty. op = SReveal now sid team actor ty) \<Longrightarrow>
     flow_step bx s (s\<lparr>rf_tables := ts'\<rparr>)"

definition flow_start :: "secret_tables \<Rightarrow> reveal_flow" where
  "flow_start ts = \<lparr>rf_tables = ts, rf_read = [], rf_shown = []\<rparr>"

lemma mark_rows: "st_secrets (reveal_mark now sid team actor ty ts) = st_secrets (SetSecretRevealedAt now sid ts)"
  by (simp add: reveal_mark_def)

lemma find_map_update:
  "(\<And>r. P (f r) = P r) \<Longrightarrow> find P (map f rs) = map_option f (find P rs)"
  by (induction rs) auto

lemma marked_read:
  assumes "GetSecretByID sid team ts = Some r"
  shows "reveal_read bx sid team (reveal_mark now sid team' actor ty ts) = Inl ErrAlreadyRevealed"
proof -
  from find_SomeD [OF assms [unfolded GetSecretByID_def]] have i: "sr_id r = sid" by simp
  have "GetSecretByID sid team (reveal_mark now sid team' actor ty ts) = Some (r\<lparr>sr_revealed := Some now\<rparr>)"
    using assms i unfolding GetSecretByID_def mark_rows SetSecretRevealedAt_def update_secrets_def by (simp add: find_map_update)
  then show ?thesis by (simp add: reveal_read_def)
qed

text \<open>
  C36: Overlapping requests break the rule of one reveal. For every secret that can be revealed, two reveals that both
  read before either marks hand its value out twice; and a reveal that overlaps a rotation marks the new value as
  revealed, so that it can not be revealed although nobody has seen it.
\<close>

lemma secret_reveal_overlap:
  assumes "reveal_read bx sid team ts = Inr p"
  shows "(\<exists>s. (flow_step bx)\<^sup>*\<^sup>* (flow_start ts) s \<and> rf_shown s = [(sid, p), (sid, p)]) \<and>
    (\<exists>s r. (flow_step bx)\<^sup>*\<^sup>* (flow_start ts) s \<and> rf_shown s = [(sid, p)] \<and>
       reveal_read bx sid team (rf_tables s) = Inl ErrAlreadyRevealed \<and> GetSecretByID sid team (rf_tables s) = Some r \<and>
       sr_value r = crypto_Encrypt bx nonce new (encryptionContext team))"
proof -
  obtain r where r: "GetSecretByID sid team ts = Some r" using assms by (auto simp: reveal_read_def split: option.splits)
  let ?one = "(flow_start ts)\<lparr>rf_read := [(sid, team, p)]\<rparr>" and ?two = "(flow_start ts)\<lparr>rf_read := [(sid, team, p), (sid, team, p)]\<rparr>"
  have read: "flow_step bx (flow_start ts) ?one" "flow_step bx ?one ?two"
    using flow_step.reads [of bx sid team "flow_start ts" p] flow_step.reads [of bx sid team ?one p] assms
    by (simp_all add: flow_start_def)
  let ?m = "reveal_mark [] sid team None ''user''"
  have "flow_step bx ?two \<lparr>rf_tables = ?m ts, rf_read = [(sid, team, p)], rf_shown = [(sid, p)]\<rparr>"
    "flow_step bx \<lparr>rf_tables = ?m ts, rf_read = [(sid, team, p)], rf_shown = [(sid, p)]\<rparr>
       \<lparr>rf_tables = ?m (?m ts), rf_read = [], rf_shown = [(sid, p), (sid, p)]\<rparr>"
    using flow_step.marks [of sid team p ?two bx "[]" None "''user''"]
      flow_step.marks [of sid team p "\<lparr>rf_tables = ?m ts, rf_read = [(sid, team, p)], rf_shown = [(sid, p)]\<rparr>" bx "[]" None "''user''"]
    by (simp_all add: flow_start_def)
  with read have twice: "(flow_step bx)\<^sup>*\<^sup>* (flow_start ts) \<lparr>rf_tables = ?m (?m ts), rf_read = [], rf_shown = [(sid, p), (sid, p)]\<rparr>"
    by (meson rtranclp.rtrancl_refl rtranclp.rtrancl_into_rtrancl)
  let ?c = "crypto_Encrypt bx nonce new (encryptionContext team)"
  let ?u = "UpdateSecretValue sid team ?c [] None ts"
  from find_SomeD [OF r [unfolded GetSecretByID_def]] have i: "sr_id r = sid" "sr_team r = team" by simp_all
  obtain r' where r': "GetSecretByID sid team ?u = Some r'" "sr_value r' = ?c"
    using r i unfolding GetSecretByID_def UpdateSecretValue_def update_secrets_def by (simp add: find_map_update)
  have "secret_step bx ts (SUpdate nonce [] sid team new None) = (?u, Stored)"
    using r'(1) by (simp add: SecretService_Update_def Let_def)
  then have rot: "flow_step bx ?one \<lparr>rf_tables = ?u, rf_read = [(sid, team, p)], rf_shown = []\<rparr>"
    using flow_step.other [of bx ?one "SUpdate nonce [] sid team new None" ?u Stored] by (simp add: flow_start_def)
  have "flow_step bx \<lparr>rf_tables = ?u, rf_read = [(sid, team, p)], rf_shown = []\<rparr>
      \<lparr>rf_tables = ?m ?u, rf_read = [], rf_shown = [(sid, p)]\<rparr>"
    using flow_step.marks [of sid team p "\<lparr>rf_tables = ?u, rf_read = [(sid, team, p)], rf_shown = []\<rparr>" bx "[]" None "''user''"] by simp
  with read(1) rot have lost: "(flow_step bx)\<^sup>*\<^sup>* (flow_start ts) \<lparr>rf_tables = ?m ?u, rf_read = [], rf_shown = [(sid, p)]\<rparr>"
    by (meson rtranclp.rtrancl_refl rtranclp.rtrancl_into_rtrancl)
  have "GetSecretByID sid team (?m ?u) = Some (r'\<lparr>sr_revealed := Some []\<rparr>)"
    using r'(1) find_SomeD [OF r'(1) [unfolded GetSecretByID_def]]
    unfolding GetSecretByID_def mark_rows SetSecretRevealedAt_def update_secrets_def by (simp add: find_map_update)
  with twice lost marked_read [OF r'(1), of bx "[]" team None "''user''"] r'(2) show ?thesis
    by (intro conjI exI [of _ "\<lparr>rf_tables = ?m (?m ts), rf_read = [], rf_shown = [(sid, p), (sid, p)]\<rparr>"]
        exI [of _ "\<lparr>rf_tables = ?m ?u, rf_read = [], rf_shown = [(sid, p)]\<rparr>"] exI [of _ "r'\<lparr>sr_revealed := Some []\<rparr>"]) simp_all
qed

lemma secret_reveal_overlap_witness:
  "\<exists>s. (flow_step clear_box)\<^sup>*\<^sup>* (flow_start (fst (secret_step clear_box no_secrets (hd sample_ops)))) s \<and>
     rf_shown s = [(''s1'', ''old''), (''s1'', ''old'')]"
proof -
  have "reveal_read clear_box ''s1'' ''t1'' (fst (secret_step clear_box no_secrets (hd sample_ops))) = Inr ''old''" by code_simp
  from conjunct1 [OF secret_reveal_overlap [OF this]] show ?thesis .
qed

section \<open>The table the database service works with\<close>

text \<open>The rows as the database service sees them, with their plaintext; a value that can not be read is empty.\<close>

definition secret_abs :: "crypto_box \<Rightarrow> secret_tables \<Rightarrow> db_secret list" where
  "secret_abs bx ts = map (\<lambda>r. \<lparr>sec_id = sr_id r, sec_team = sr_team r, sec_env = sr_env r, sec_key = sr_key r,
     sec_plain = (case crypto_Decrypt bx (sr_value r) (encryptionContext (sr_team r)) of Inr p \<Rightarrow> p | Inl e \<Rightarrow> [])\<rparr>) (st_secrets ts)"

text \<open>
  C24: The secret service implements the table of plaintexts that provisioning works with: seen through decryption,
  creating a secret is the abstract creation, with the same error for a key that is taken, deleting one is the abstract
  deletion, and a reveal changes nothing.
\<close>

lemma secret_service_refines:
  assumes "box_ok bx" and "length nonce = nonceSize"
  shows "map_sum (\<lambda>e. e) (\<lambda>(ts', r). dt\<lparr>dt_secrets := secret_abs bx ts'\<rparr>) (SecretService_Create bx nonce newId now team env key plain creator ts) =
      secret_Create newId team env key plain (dt\<lparr>dt_secrets := secret_abs bx ts\<rparr>) \<and>
    dt\<lparr>dt_secrets := secret_abs bx (SecretService_Delete sid team actor ty ts)\<rparr> = secret_Delete team sid (dt\<lparr>dt_secrets := secret_abs bx ts\<rparr>) \<and>
    secret_abs bx (fst (SecretService_Reveal bx now sid team actor ty ts)) = secret_abs bx ts"
proof (intro conjI)
  have ex: "list_ex (\<lambda>s. sec_team s = team \<and> sec_env s = env \<and> sec_key s = key) (secret_abs bx ts) =
      list_ex (\<lambda>r. sr_team r = team \<and> sr_env r = env \<and> sr_key r = key) (st_secrets ts)"
    by (simp add: secret_abs_def list_ex_iff)
  show "map_sum (\<lambda>e. e) (\<lambda>(ts', r). dt\<lparr>dt_secrets := secret_abs bx ts'\<rparr>) (SecretService_Create bx nonce newId now team env key plain creator ts) =
      secret_Create newId team env key plain (dt\<lparr>dt_secrets := secret_abs bx ts\<rparr>)"
    using Decrypt_Encrypt [OF assms] by (simp add: SecretService_Create_def secret_Create_def ex Let_def) (simp add: secret_abs_def)
  show "dt\<lparr>dt_secrets := secret_abs bx (SecretService_Delete sid team actor ty ts)\<rparr> = secret_Delete team sid (dt\<lparr>dt_secrets := secret_abs bx ts\<rparr>)"
    by (simp add: SecretService_Delete_def DeleteSecret_def secret_Delete_def secret_abs_def Let_def filter_map comp_def)
  show "secret_abs bx (fst (SecretService_Reveal bx now sid team actor ty ts)) = secret_abs bx ts"
    by (simp add: SecretService_Reveal_def secret_abs_def mark_rows SetSecretRevealedAt_def update_secrets_def comp_def split: sum.split)
qed

lemma secret_service_refines_witness:
  "secret_Create ''s1'' ''t1'' ''production'' ''DSN'' ''old'' (no_tables\<lparr>dt_secrets := secret_abs clear_box no_secrets\<rparr>) =
   Inr (no_tables\<lparr>dt_secrets := secret_abs clear_box (after_ops clear_box no_secrets [hd sample_ops])\<rparr>)"
proof -
  let ?c = "SecretService_Create clear_box zero_nonce ''s1'' ''1'' ''t1'' ''production'' ''DSN'' ''old'' None no_secrets"
  obtain ts r where c: "?c = Inr (ts, r)" by (simp add: SecretService_Create_def no_secrets_def Let_def)
  then have "after_ops clear_box no_secrets [hd sample_ops] = ts" by (simp add: sample_ops_def)
  then show ?thesis
    using conjunct1 [OF secret_service_refines [OF clear_box_ok, of no_tables "''s1''" "''1''" "''t1''" "''production''" "''DSN''" "''old''" None no_secrets]] c
    by simp
qed

end
