(* ===== verification/Deploy_Env.thy ===== *)
theory Deploy_Env
  imports Secret_Store App_Create
begin

text \<open>
  The environment of a container: per-app variables (\<open>internal/appenv/service.go\<close> with its handlers), databases linked
  to an app (\<open>internal/database/link.go\<close> with its handlers) and the merge of team secrets, app variables and database
  variables at build and deploy time (\<open>ResolveBuildEnv\<close>, \<open>TriggerDeploy\<close>); and the link card and dialog of
  \<open>components/databases/DatabaseDetailClient.tsx\<close>.
\<close>

section \<open>Variables of an app\<close>

record env_var_row =
  ev_id :: string
  ev_app :: string
  ev_env :: string
  ev_key :: string
  ev_value :: string
  ev_created_by :: "string option"
  ev_updated_by :: "string option"
  ev_created :: string
  ev_updated :: string

definition appenv_context :: "string \<Rightarrow> string" where
  "appenv_context app = ''appenv:'' @ app"

definition UpsertAppEnvVar ::
    "string \<Rightarrow> string \<Rightarrow> string \<Rightarrow> string \<Rightarrow> string \<Rightarrow> string \<Rightarrow> string option \<Rightarrow> env_var_row list \<Rightarrow> env_var_row list \<times> env_var_row" where
  "UpsertAppEnvVar newId now app env key ciphertext actor rows =
     (let P = (\<lambda>r. ev_app r = app \<and> ev_env r = env \<and> ev_key r = key);
          f = (\<lambda>r. r\<lparr>ev_value := ciphertext, ev_updated_by := actor, ev_updated := now\<rparr>) in
      case find P rows of
        Some r \<Rightarrow> (map (\<lambda>r. if P r then f r else r) rows, f r)
      | None \<Rightarrow>
          (let r = \<lparr>ev_id = newId, ev_app = app, ev_env = env, ev_key = key, ev_value = ciphertext, ev_created_by = actor,
                    ev_updated_by = actor, ev_created = now, ev_updated = now\<rparr> in (rows @ [r], r)))"

definition appenv_Set ::
    "crypto_box \<Rightarrow> string \<Rightarrow> string \<Rightarrow> string \<Rightarrow> string \<Rightarrow> string \<Rightarrow> string \<Rightarrow> string \<Rightarrow> string option \<Rightarrow> env_var_row list \<Rightarrow> env_var_row list \<times> env_var_row" where
  "appenv_Set bx nonce newId now app env key plaintext actor rows =
     UpsertAppEnvVar newId now app env key (crypto_Encrypt bx nonce plaintext (appenv_context app)) actor rows"

definition GetAppEnvVarByID :: "string \<Rightarrow> string \<Rightarrow> env_var_row list \<Rightarrow> env_var_row option" where
  "GetAppEnvVarByID i app rows = find (\<lambda>r. ev_id r = i \<and> ev_app r = app) rows"

definition appenv_Reveal :: "crypto_box \<Rightarrow> string \<Rightarrow> string \<Rightarrow> env_var_row list \<Rightarrow> string + string" where
  "appenv_Reveal bx i app rows =
     (case GetAppEnvVarByID i app rows of
        None \<Rightarrow> Inl ''get env var: no rows in result set''
      | Some r \<Rightarrow>
          (case crypto_Decrypt bx (ev_value r) (appenv_context app) of
             Inl e \<Rightarrow> Inl (''decrypt env var: '' @ e)
           | Inr p \<Rightarrow> Inr p))"

definition appenv_Delete :: "string \<Rightarrow> string \<Rightarrow> env_var_row list \<Rightarrow> env_var_row list" where
  "appenv_Delete i app rows = filter (\<lambda>r. \<not> (ev_id r = i \<and> ev_app r = app)) rows"

fun decrypt_rows :: "crypto_box \<Rightarrow> string \<Rightarrow> env_var_row list \<Rightarrow> (string, string) obj \<Rightarrow> string + (string, string) obj" where
  "decrypt_rows bx app [] result = Inr result"
| "decrypt_rows bx app (r # rows) result =
     (case crypto_Decrypt bx (ev_value r) (appenv_context app) of
        Inl e \<Rightarrow> Inl (''decrypt env var '' @ go_quote (ev_key r) @ '': '' @ e)
      | Inr p \<Rightarrow> decrypt_rows bx app rows (obj_set (ev_key r) p result))"

definition ResolveForDeploy ::
    "crypto_box \<Rightarrow> (string \<Rightarrow> string \<Rightarrow> int) \<Rightarrow> string \<Rightarrow> string \<Rightarrow> env_var_row list \<Rightarrow> string + (string, string) obj" where
  "ResolveForDeploy bx collate app env rows =
     decrypt_rows bx app (array_sort (\<lambda>r s. collate (ev_key r) (ev_key s)) (filter (\<lambda>r. ev_app r = app \<and> ev_env r = env) rows)) []"

section \<open>Linked databases\<close>

text \<open>\<open>strings.ReplaceAll\<close> for a pattern that is not empty.\<close>

function replace_all :: "string \<Rightarrow> string \<Rightarrow> string \<Rightarrow> string" where
  "replace_all old new s =
     (if s = [] \<or> old = [] then s
      else if take (length old) s = old then new @ replace_all old new (drop (length old) s)
      else hd s # replace_all old new (tl s))"
  by pat_completeness auto
termination by (relation "measure (\<lambda>(old, new, s). length s)") auto

declare replace_all.simps [simp del]

definition link_prefix :: "string \<Rightarrow> string" where
  "link_prefix envPrefix = (let p = trim_by go_space envPrefix in if p = [] then ''DATABASE'' else p)"

definition link_host :: "Database \<Rightarrow> string" where
  "link_host d = (case Database_dns_record d of Some h \<Rightarrow> if h = [] then Database_container_name d else h | None \<Rightarrow> Database_container_name d)"

definition conn_string :: "Template \<Rightarrow> Database \<Rightarrow> string \<Rightarrow> string" where
  "conn_string t d password =
     replace_all ''{dbname}'' (Database_name d) (replace_all ''{port}'' (show_int (Database_port d)) (replace_all ''{host}'' (link_host d)
       (replace_all ''{root_password}'' password (replace_all ''{password}'' password (replace_all ''{user}'' ''app_user''
         (Template_conn_string_fmt t))))))"

definition link_vars :: "string \<Rightarrow> Template \<Rightarrow> Database \<Rightarrow> string \<Rightarrow> (string \<times> string) list" where
  "link_vars pre t d password =
     [(pre @ ''_URL'', conn_string t d password), (pre @ ''_HOST'', link_host d), (pre @ ''_PORT'', show_int (Database_port d)),
      (pre @ ''_USER'', ''app_user''), (pre @ ''_PASSWORD'', password), (pre @ ''_NAME'', Database_name d)]"

definition set_all :: "(string \<times> string) list \<Rightarrow> (string, string) obj \<Rightarrow> (string, string) obj" where
  "set_all kvs m = foldl (\<lambda>m e. obj_set (fst e) (snd e) m) m kvs"

text \<open>A link whose database, template or password is not found is skipped.\<close>

definition link_step ::
    "crypto_box \<Rightarrow> Template list \<Rightarrow> Database list \<Rightarrow> secret_tables \<times> (string, string) obj \<Rightarrow> DatabaseLink \<Rightarrow> secret_tables \<times> (string, string) obj" where
  "link_step bx tmpls dbs = (\<lambda>(ts, out) l.
     case find (\<lambda>d. Database_id d = DatabaseLink_database_id l) dbs of
       None \<Rightarrow> (ts, out)
     | Some d \<Rightarrow>
         (case template_Get tmpls (Database_template_slug d) of
            None \<Rightarrow> (ts, out)
          | Some t \<Rightarrow>
              (case BulkResolve bx (Database_team_id d) (database_env (Database_name d)) None ''system'' [''APP_PASSWORD''] [] ts of
                 (ts', Inl e) \<Rightarrow> (ts', out)
               | (ts', Inr resolved) \<Rightarrow>
                   (ts', set_all (link_vars (link_prefix (DatabaseLink_env_prefix l)) t d (or_default (obj_get resolved ''APP_PASSWORD'') [])) out))))"

definition ListDatabaseLinksByApp :: "string \<Rightarrow> DatabaseLink list \<Rightarrow> DatabaseLink list" where
  "ListDatabaseLinksByApp app links = rev (filter (\<lambda>l. DatabaseLink_app_id l = app) links)"

definition BuildEnvForApp ::
    "crypto_box \<Rightarrow> Template list \<Rightarrow> Database list \<Rightarrow> DatabaseLink list \<Rightarrow> string \<Rightarrow> secret_tables \<Rightarrow> secret_tables \<times> (string, string) obj" where
  "BuildEnvForApp bx tmpls dbs links app ts = foldl (link_step bx tmpls dbs) (ts, []) (ListDatabaseLinksByApp app links)"

section \<open>Build and deploy time\<close>

text \<open>The secrets of an environment: all of them, or none when one can not be resolved.\<close>

definition environment_secrets ::
    "crypto_box \<Rightarrow> (string \<Rightarrow> string \<Rightarrow> int) \<Rightarrow> string \<Rightarrow> string \<Rightarrow> secret_tables \<Rightarrow> secret_tables \<times> (string, string) obj" where
  "environment_secrets bx collate team slug ts =
     (case ListSecrets collate team slug ts of
        [] \<Rightarrow> (ts, [])
      | rs \<Rightarrow>
          (case BulkResolve bx team slug None ''system'' (map sr_key rs) [] ts of
             (ts', Inl e) \<Rightarrow> (ts', [])
           | (ts', Inr m) \<Rightarrow> (ts', m)))"

definition ResolveBuildEnv ::
    "crypto_box \<Rightarrow> (string \<Rightarrow> string \<Rightarrow> int) \<Rightarrow> string \<Rightarrow> string \<Rightarrow> Environment \<Rightarrow> env_var_row list \<Rightarrow> secret_tables \<Rightarrow> secret_tables \<times> (string, string) obj" where
  "ResolveBuildEnv bx collate app team env vars ts =
     (case environment_secrets bx collate team (Environment_slug env) ts of
        (ts', m) \<Rightarrow> (ts', case ResolveForDeploy bx collate app (Environment_id env) vars of Inl e \<Rightarrow> m | Inr kvs \<Rightarrow> set_all kvs m))"

definition deploy_env ::
    "crypto_box \<Rightarrow> (string \<Rightarrow> string \<Rightarrow> int) \<Rightarrow> Template list \<Rightarrow> Database list \<Rightarrow> DatabaseLink list \<Rightarrow> string \<Rightarrow> string \<Rightarrow> Environment
      \<Rightarrow> env_var_row list \<Rightarrow> secret_tables \<Rightarrow> secret_tables \<times> (string, string) obj" where
  "deploy_env bx collate tmpls dbs links app team env vars ts =
     (case environment_secrets bx collate team (Environment_slug env) ts of
        (ts1, m) \<Rightarrow>
          (let m' = (case ResolveForDeploy bx collate app (Environment_id env) vars of Inl e \<Rightarrow> m | Inr kvs \<Rightarrow> set_all kvs m) in
           case BuildEnvForApp bx tmpls dbs links app ts1 of (ts2, kvs) \<Rightarrow> (ts2, set_all kvs m')))"

section \<open>Which value wins\<close>

lemma obj_get_set_all: "obj_get (set_all kvs m) k = (case map_of (rev kvs) k of Some v \<Rightarrow> Some v | None \<Rightarrow> obj_get m k)"
  by (induction kvs arbitrary: m) (auto simp: set_all_def obj_get_set map_add_def split: option.split)

lemma obj_ok_set: "obj_ok m \<Longrightarrow> obj_ok (obj_set k v m)"
  by (simp add: obj_ok_def obj_keys_set)

lemma obj_nil [simp]: "obj_ok []" "obj_get [] k = None"
  by (simp_all add: obj_ok_def obj_get_def)

lemma map_of_rev_distinct: "distinct (map fst kvs) \<Longrightarrow> map_of (rev kvs) = map_of kvs"
proof (induction kvs)
  case (Cons e kvs)
  then have "map_of kvs (fst e) = None" by (simp add: map_of_eq_None_iff)
  with Cons show ?case by (cases e) (auto simp: fun_eq_iff map_add_def split: option.split)
qed simp

lemma obj_get_set_all_ok: "obj_ok kvs \<Longrightarrow> obj_get (set_all kvs m) k = (case obj_get kvs k of Some v \<Rightarrow> Some v | None \<Rightarrow> obj_get m k)"
  by (simp add: obj_get_set_all obj_ok_def map_of_rev_distinct) (simp add: obj_get_def)

text \<open>The plaintext of a secret, and of a variable of an app.\<close>

definition secret_plain :: "crypto_box \<Rightarrow> secret_tables \<Rightarrow> string \<Rightarrow> string \<Rightarrow> string \<Rightarrow> string option" where
  "secret_plain bx ts team env key =
     (case GetSecretByKey team env key ts of
        Some r \<Rightarrow> (case crypto_Decrypt bx (sr_value r) (encryptionContext team) of Inr p \<Rightarrow> Some p | Inl e \<Rightarrow> None)
      | None \<Rightarrow> None)"

definition var_plain :: "crypto_box \<Rightarrow> env_var_row list \<Rightarrow> string \<Rightarrow> string \<Rightarrow> string \<Rightarrow> string option" where
  "var_plain bx vars app env key =
     (case find (\<lambda>r. ev_app r = app \<and> ev_env r = env \<and> ev_key r = key) vars of
        Some r \<Rightarrow> (case crypto_Decrypt bx (ev_value r) (appenv_context app) of Inr p \<Rightarrow> Some p | Inl e \<Rightarrow> None)
      | None \<Rightarrow> None)"

lemma secret_plain_log [simp]: "secret_plain bx (CreateSecretAccessLog e ts) = secret_plain bx ts"
  by (intro ext) (simp add: secret_plain_def GetSecretByKey_def)

lemma bulk_resolves:
  assumes "list_all (\<lambda>k. secret_plain bx ts team env k \<noteq> None) keys" and "obj_ok m"
  shows "\<exists>ts' m'. BulkResolve bx team env actor ty keys m ts = (ts', Inr m') \<and> obj_ok m' \<and> st_secrets ts' = st_secrets ts \<and>
    (\<forall>k. obj_get m' k = (if k \<in> set keys then secret_plain bx ts team env k else obj_get m k))"
  using assms
proof (induction keys arbitrary: m ts)
  case (Cons key keys)
  then obtain r p where r: "GetSecretByKey team env key ts = Some r" "crypto_Decrypt bx (sr_value r) (encryptionContext team) = Inr p"
    by (auto simp: secret_plain_def split: option.splits sum.splits)
  have sp: "secret_plain bx ts team env key = Some p" by (simp add: secret_plain_def r)
  let ?ts = "CreateSecretAccessLog \<lparr>al_secret = sr_id r, al_team = team, al_actor = actor, al_type = ty, al_action = ''resolve''\<rparr> ts"
  have "list_all (\<lambda>k. secret_plain bx ?ts team env k \<noteq> None) keys" "obj_ok (obj_set key p m)"
    using Cons.prems obj_ok_set by simp_all
  from Cons.IH [OF this]
  obtain ts' m' where "BulkResolve bx team env actor ty keys (obj_set key p m) ?ts = (ts', Inr m')" "obj_ok m'" "st_secrets ts' = st_secrets ts"
    "\<forall>k. obj_get m' k = (if k \<in> set keys then secret_plain bx ts team env k else obj_get (obj_set key p m) k)"
    unfolding secret_plain_log CreateSecretAccessLog_rows by blast
  then show ?case by (auto simp: r sp obj_get_set)
qed (simp add: obj_ok_def)

lemma listed_keys: "k \<in> set (map sr_key (ListSecrets collate team env ts)) \<longleftrightarrow> GetSecretByKey team env k ts \<noteq> None"
  by (auto simp: ListSecrets_def GetSecretByKey_def find_None_iff)

text \<open>Every secret of the environment can be decrypted, as those the service wrote can.\<close>

definition readable :: "crypto_box \<Rightarrow> string \<Rightarrow> string \<Rightarrow> secret_tables \<Rightarrow> bool" where
  "readable bx team env ts = list_all (\<lambda>k. secret_plain bx ts team env k \<noteq> None)
     (map sr_key (filter (\<lambda>r. sr_team r = team \<and> sr_env r = env) (st_secrets ts)))"

lemma environment_secrets_get:
  assumes "readable bx team slug ts"
  shows "\<exists>ts' m. environment_secrets bx collate team slug ts = (ts', m) \<and> st_secrets ts' = st_secrets ts \<and>
    (\<forall>k. obj_get m k = secret_plain bx ts team slug k)"
proof (cases "ListSecrets collate team slug ts")
  case Nil
  then have "GetSecretByKey team slug k ts = None" for k using listed_keys [of k collate team slug ts] by simp
  then show ?thesis by (simp add: environment_secrets_def Nil secret_plain_def obj_get_def)
next
  case (Cons r rs)
  have "list_all (\<lambda>k. secret_plain bx ts team slug k \<noteq> None) (map sr_key (ListSecrets collate team slug ts))"
    using assms by (simp add: readable_def ListSecrets_def list_all_iff)
  from bulk_resolves [OF this, of "[]" None "''system''"]
  obtain ts' m where m: "BulkResolve bx team slug None ''system'' (map sr_key (ListSecrets collate team slug ts)) [] ts = (ts', Inr m)"
    "st_secrets ts' = st_secrets ts"
    "\<And>k. obj_get m k = (if k \<in> set (map sr_key (ListSecrets collate team slug ts)) then secret_plain bx ts team slug k else None)"
    by (auto simp: obj_ok_def obj_get_def)
  have "obj_get m k = secret_plain bx ts team slug k" for k
    unfolding m(3) listed_keys by (simp add: secret_plain_def)
  then show ?thesis using m(1,2) by (simp add: environment_secrets_def Cons)
qed

lemma decrypt_rows_get:
  assumes "list_all (\<lambda>r. \<exists>p. crypto_Decrypt bx (ev_value r) (appenv_context app) = Inr p) rows" and "distinct (map ev_key rows)"
    and "obj_ok m"
  shows "\<exists>m'. decrypt_rows bx app rows m = Inr m' \<and> obj_ok m' \<and> (\<forall>k. obj_get m' k =
    (case find (\<lambda>r. ev_key r = k) rows of
       Some r \<Rightarrow> (case crypto_Decrypt bx (ev_value r) (appenv_context app) of Inr p \<Rightarrow> Some p | Inl e \<Rightarrow> None)
     | None \<Rightarrow> obj_get m k))"
  using assms
proof (induction rows arbitrary: m)
  case (Cons r rows)
  then obtain p where p: "crypto_Decrypt bx (ev_value r) (appenv_context app) = Inr p" by auto
  have "list_all (\<lambda>r. \<exists>p. crypto_Decrypt bx (ev_value r) (appenv_context app) = Inr p) rows" "distinct (map ev_key rows)"
    "obj_ok (obj_set (ev_key r) p m)" using Cons.prems obj_ok_set by simp_all
  from Cons.IH [OF this] obtain m' where m': "decrypt_rows bx app rows (obj_set (ev_key r) p m) = Inr m'" "obj_ok m'"
    "\<And>k. obj_get m' k = (case find (\<lambda>r. ev_key r = k) rows of
       Some r \<Rightarrow> (case crypto_Decrypt bx (ev_value r) (appenv_context app) of Inr p \<Rightarrow> Some p | Inl e \<Rightarrow> None)
     | None \<Rightarrow> obj_get (obj_set (ev_key r) p m) k)" by blast
  have "find (\<lambda>s. ev_key s = ev_key r) rows = None" using Cons.prems(2) by (simp add: find_None_iff) (metis image_eqI)
  then show ?case using m' p by (auto simp: obj_get_set split: option.split)
qed simp

text \<open>What one link contributes, and all links of an app; where two set the same variable, the older link wins.\<close>

definition link_env :: "crypto_box \<Rightarrow> Template list \<Rightarrow> Database list \<Rightarrow> secret_tables \<Rightarrow> DatabaseLink \<Rightarrow> (string \<times> string) list" where
  "link_env bx tmpls dbs ts l =
     (case find (\<lambda>d. Database_id d = DatabaseLink_database_id l) dbs of
        None \<Rightarrow> []
      | Some d \<Rightarrow>
          (case template_Get tmpls (Database_template_slug d) of
             None \<Rightarrow> []
           | Some t \<Rightarrow>
               (case secret_plain bx ts (Database_team_id d) (database_env (Database_name d)) ''APP_PASSWORD'' of
                  None \<Rightarrow> []
                | Some p \<Rightarrow> link_vars (link_prefix (DatabaseLink_env_prefix l)) t d p)))"

definition link_value :: "crypto_box \<Rightarrow> Template list \<Rightarrow> Database list \<Rightarrow> DatabaseLink list \<Rightarrow> string \<Rightarrow> secret_tables \<Rightarrow> string \<Rightarrow> string option" where
  "link_value bx tmpls dbs links app ts k =
     map_of (rev (concat (map (link_env bx tmpls dbs ts) (ListDatabaseLinksByApp app links)))) k"

lemma set_all_empty [simp]: "set_all [] m = m"
  by (simp add: set_all_def)

lemma resolve_one:
  "BulkResolve bx team env actor ty [key] [] ts =
     (case secret_plain bx ts team env key of
        Some p \<Rightarrow> (fst (BulkResolve bx team env actor ty [key] [] ts), Inr [(key, p)])
      | None \<Rightarrow> (ts, snd (BulkResolve bx team env actor ty [key] [] ts)))"
  "secret_plain bx ts team env key = None \<Longrightarrow> \<exists>e. snd (BulkResolve bx team env actor ty [key] [] ts) = Inl e"
  by (auto simp: secret_plain_def split: option.split sum.split)

lemma link_step_env:
  "\<exists>ts'. link_step bx tmpls dbs (ts, out) l = (ts', set_all (link_env bx tmpls dbs ts l) out) \<and> st_secrets ts' = st_secrets ts"
proof (cases "find (\<lambda>d. Database_id d = DatabaseLink_database_id l) dbs")
  case d: (Some d)
  show ?thesis
  proof (cases "template_Get tmpls (Database_template_slug d)")
    case t: (Some t)
    let ?B = "BulkResolve bx (Database_team_id d) (database_env (Database_name d)) None ''system'' [''APP_PASSWORD''] [] ts"
    show ?thesis
    proof (cases "secret_plain bx ts (Database_team_id d) (database_env (Database_name d)) ''APP_PASSWORD''")
      case None
      then obtain e where "?B = (ts, Inl e)" using resolve_one by (metis option.simps(4) surjective_pairing snd_conv)
      then show ?thesis by (simp add: link_step_def link_env_def d t None del: BulkResolve.simps)
    next
      case (Some p)
      then have "?B = (fst ?B, Inr [(''APP_PASSWORD'', p)])" using resolve_one(1) by (metis option.simps(5))
      moreover have "st_secrets (fst ?B) = st_secrets ts" by (rule BulkResolve_rows)
      ultimately obtain ts' where "?B = (ts', Inr [(''APP_PASSWORD'', p)])" "st_secrets ts' = st_secrets ts" by metis
      then show ?thesis by (simp add: link_step_def link_env_def d t Some obj_get_def or_default_def del: BulkResolve.simps)
    qed
  qed (simp add: link_step_def link_env_def d)
qed (simp add: link_step_def link_env_def)

lemma plain_rows: "st_secrets ts = st_secrets us \<Longrightarrow> secret_plain bx ts = secret_plain bx us"
  by (intro ext) (simp add: secret_plain_def GetSecretByKey_def)

lemma link_env_rows: "st_secrets ts = st_secrets us \<Longrightarrow> link_env bx tmpls dbs ts = link_env bx tmpls dbs us"
  by (intro ext) (simp only: link_env_def plain_rows [of ts us])

lemma set_all_append: "set_all (a @ b) m = set_all b (set_all a m)"
  by (simp add: set_all_def)

lemma links_env:
  "\<exists>ts'. foldl (link_step bx tmpls dbs) (ts, out) ls = (ts', set_all (concat (map (link_env bx tmpls dbs ts) ls)) out) \<and>
    st_secrets ts' = st_secrets ts"
proof (induction ls arbitrary: ts out)
  case (Cons l ls)
  obtain ts1 where s: "link_step bx tmpls dbs (ts, out) l = (ts1, set_all (link_env bx tmpls dbs ts l) out)" "st_secrets ts1 = st_secrets ts"
    using link_step_env by blast
  from Cons.IH [of ts1 "set_all (link_env bx tmpls dbs ts l) out"] s(2) show ?case
    by (auto simp: s(1) set_all_append link_env_rows [OF s(2)])
qed simp

lemma link_value_env:
  "\<exists>ts' kvs. BuildEnvForApp bx tmpls dbs links app ts = (ts', kvs) \<and> obj_ok kvs \<and>
    (\<forall>k. obj_get kvs k = link_value bx tmpls dbs links app ts k)"
proof -
  obtain ts' where b: "BuildEnvForApp bx tmpls dbs links app ts =
      (ts', set_all (concat (map (link_env bx tmpls dbs ts) (ListDatabaseLinksByApp app links))) [])"
    using links_env unfolding BuildEnvForApp_def by blast
  have "obj_ok (set_all kvs m)" if "obj_ok m" for kvs and m :: "(string, string) obj"
    using that by (induction kvs arbitrary: m) (simp_all add: set_all_def obj_ok_set)
  then show ?thesis unfolding b by (simp add: obj_get_set_all link_value_def split: option.split)
qed

lemma vars_env:
  assumes "list_all (\<lambda>r. ev_app r = app \<and> ev_env r = env \<longrightarrow> (\<exists>p. crypto_Decrypt bx (ev_value r) (appenv_context app) = Inr p)) vars"
    and "distinct (map (\<lambda>r. (ev_app r, ev_env r, ev_key r)) vars)"
  shows "\<exists>kvs. ResolveForDeploy bx collate app env vars = Inr kvs \<and> obj_ok kvs \<and> (\<forall>k. obj_get kvs k = var_plain bx vars app env k)"
proof -
  let ?f = "filter (\<lambda>r. ev_app r = app \<and> ev_env r = env) vars"
  let ?s = "array_sort (\<lambda>r s. collate (ev_key r) (ev_key s)) ?f"
  have inj: "inj_on ev_key (set ?f)" using assms(2) by (auto simp: distinct_map inj_on_def)
  moreover have "distinct ?f" using assms(2) by (simp add: distinct_map)
  ultimately have d: "distinct (map ev_key ?s)" by (simp add: distinct_map)
  have all: "list_all (\<lambda>r. \<exists>p. crypto_Decrypt bx (ev_value r) (appenv_context app) = Inr p) ?s"
    using assms(1) by (auto simp: list_all_iff)
  from decrypt_rows_get [OF all d obj_nil(1)] obtain kvs where k: "decrypt_rows bx app ?s [] = Inr kvs" "obj_ok kvs"
    "\<And>k. obj_get kvs k = (case find (\<lambda>r. ev_key r = k) ?s of
       Some r \<Rightarrow> (case crypto_Decrypt bx (ev_value r) (appenv_context app) of Inr p \<Rightarrow> Some p | Inl e \<Rightarrow> None)
     | None \<Rightarrow> None)"
    unfolding obj_nil(2) by blast
  have fnd: "find (\<lambda>r. ev_key r = key) ?s = find (\<lambda>r. ev_app r = app \<and> ev_env r = env \<and> ev_key r = key) vars" for key
  proof (cases "find (\<lambda>r. ev_app r = app \<and> ev_env r = env \<and> ev_key r = key) vars")
    case None
    then have "find (\<lambda>r. ev_key r = key) ?s = None" by (auto simp: find_None_iff)
    with None show ?thesis by simp
  next
    case (Some r)
    from find_SomeD [OF Some] have r: "r \<in> set ?f" "ev_key r = key" by simp_all
    then obtain r' where r': "find (\<lambda>r. ev_key r = key) ?s = Some r'"
      by (cases "find (\<lambda>r. ev_key r = key) ?s") (auto simp: find_None_iff)
    from find_SomeD [OF this] have "r' \<in> set ?f" "ev_key r' = key" by simp_all
    then have "r' = r" using inj_onD [OF inj, of r' r] r by simp
    with r' Some show ?thesis by simp
  qed
  show ?thesis using k by (auto simp: ResolveForDeploy_def var_plain_def fnd)
qed


definition sample_env :: Environment where
  "sample_env = \<lparr>Environment_id = ''e1'', Environment_project_id = ''p1'', Environment_name = ''Production'', Environment_slug = ''production'',
     Environment_is_production = True, Environment_created_at = []\<rparr>"

definition sample_secrets :: secret_tables where
  "sample_secrets = after_ops clear_box no_secrets
     [SCreate zero_nonce ''s1'' ''1'' ''t1'' ''production'' ''DSN'' ''team'' None, SCreate zero_nonce ''s2'' ''2'' ''t1'' ''production'' ''KEY'' ''shared'' None]"

definition sample_vars :: "env_var_row list" where
  "sample_vars = fst (appenv_Set clear_box zero_nonce ''v1'' ''3'' ''a1'' ''e1'' ''DSN'' ''own'' None [])"


end
