(* ===== verification/Database_Links.thy ===== *)
theory Database_Links
  imports Deploy_Env
begin

text \<open>
  Linking databases to apps: the service and handlers (\<open>internal/database/link.go\<close>,
  \<open>internal/api/handler/database.go\<close>), and the links card with its dialog on the detail page of a database
  (\<open>components/databases/DatabaseDetailClient.tsx\<close>). A change of the links also asks for a redeployment of the app,
  which is part of the result.
\<close>

section \<open>Service and handlers\<close>

record link_tables =
  lt_links :: "DatabaseLink list"
  lt_databases :: "Database list"
  lt_apps :: "App list"

definition CreateDatabaseLink :: "DatabaseLink \<Rightarrow> link_tables \<Rightarrow> string + link_tables" where
  "CreateDatabaseLink l lt =
     (if list_ex (\<lambda>m. DatabaseLink_database_id m = DatabaseLink_database_id l \<and> DatabaseLink_app_id m = DatabaseLink_app_id l) (lt_links lt)
      then Inl (duplicate_key ''database_links_database_id_app_id_key'')
      else Inr (lt\<lparr>lt_links := lt_links lt @ [l]\<rparr>))"

definition LinkDatabase :: "string \<Rightarrow> string \<Rightarrow> string \<Rightarrow> string \<Rightarrow> string \<Rightarrow> link_tables \<Rightarrow> string + link_tables \<times> DatabaseLink" where
  "LinkDatabase newId now databaseID appID envPrefix lt =
     (case find (\<lambda>d. Database_id d = databaseID) (lt_databases lt) of
        None \<Rightarrow> Inl ''get database: no rows in result set''
      | Some d \<Rightarrow>
          (case find (\<lambda>a. App_id a = appID) (lt_apps lt) of
             None \<Rightarrow> Inl ''get app: no rows in result set''
           | Some a \<Rightarrow>
               if App_project_id a \<noteq> Database_project_id d then Inl ''database and app are in different projects''
               else (let l = \<lparr>DatabaseLink_id = newId, DatabaseLink_database_id = databaseID, DatabaseLink_app_id = appID,
                              DatabaseLink_env_prefix = link_prefix envPrefix, DatabaseLink_created_at = now\<rparr> in
                     case CreateDatabaseLink l lt of
                       Inl e \<Rightarrow> Inl (''create link: '' @ e)
                     | Inr lt' \<Rightarrow> Inr (lt', l))))"

definition UnlinkDatabase :: "string \<Rightarrow> link_tables \<Rightarrow> string + link_tables" where
  "UnlinkDatabase linkID lt =
     (case find (\<lambda>l. DatabaseLink_id l = linkID) (lt_links lt) of
        None \<Rightarrow> Inl ''get link: no rows in result set''
      | Some l \<Rightarrow> Inr (lt\<lparr>lt_links := filter (\<lambda>m. DatabaseLink_id m \<noteq> linkID) (lt_links lt)\<rparr>))"

text \<open>\<open>ListLinks\<close> joins the app of each link, newest link first; the answer nests the link in an object of its own.\<close>

definition ListLinks :: "string \<Rightarrow> link_tables \<Rightarrow> (DatabaseLink \<times> App) list" where
  "ListLinks databaseID lt =
     List.map_filter (\<lambda>l. map_option (Pair l) (find (\<lambda>a. App_id a = DatabaseLink_app_id l) (lt_apps lt)))
       (rev (filter (\<lambda>l. DatabaseLink_database_id l = databaseID) (lt_links lt)))"

definition DatabaseLink_json :: "DatabaseLink \<Rightarrow> js" where
  "DatabaseLink_json l = JObj [(''id'', JStr (DatabaseLink_id l)), (''database_id'', JStr (DatabaseLink_database_id l)),
     (''app_id'', JStr (DatabaseLink_app_id l)), (''env_prefix'', JStr (DatabaseLink_env_prefix l)),
     (''created_at'', JStr (DatabaseLink_created_at l))]"

definition LinkWithApp_json :: "DatabaseLink \<times> App \<Rightarrow> js" where
  "LinkWithApp_json = (\<lambda>(l, a). JObj [(''link'', DatabaseLink_json l), (''app_id'', JStr (App_id a)), (''app_slug'', JStr (App_slug a)),
     (''app_name'', JStr (App_name a))])"

definition DatabaseHandler_LinkDatabase ::
    "(string \<Rightarrow> bool) \<Rightarrow> (string \<Rightarrow> bool) \<Rightarrow> string \<Rightarrow> string \<Rightarrow> string \<Rightarrow> js option \<Rightarrow> link_tables \<Rightarrow> link_tables \<times> DatabaseLink reply" where
  "DatabaseHandler_LinkDatabase uuid nil newId now databaseID body lt =
     (if \<not> DecodeJSON uuid linkDatabaseRequest body then (lt, Inl (400, ''invalid request body''))
      else (let app = go_str (the body) ''app_id'' in
        if app = [] \<or> nil app then (lt, Inl (400, ''app_id is required''))
        else case LinkDatabase newId now databaseID app (go_str (the body) ''env_prefix'') lt of
          Inl e \<Rightarrow> (lt, Inl (422, e))
        | Inr (lt', l) \<Rightarrow> (lt', Inr l)))"

definition DatabaseHandler_ListLinks :: "string \<Rightarrow> link_tables \<Rightarrow> js" where
  "DatabaseHandler_ListLinks databaseID lt = JArr (map LinkWithApp_json (ListLinks databaseID lt))"

definition DatabaseHandler_UnlinkDatabase ::
    "(string \<Rightarrow> bool) \<Rightarrow> string \<Rightarrow> string \<Rightarrow> link_tables \<Rightarrow> link_tables \<times> unit reply" where
  "DatabaseHandler_UnlinkDatabase uuid databaseID linkID lt =
     (if \<not> uuid linkID then (lt, Inl (400, ''invalid link ID''))
      else case find (\<lambda>l. DatabaseLink_id l = linkID) (lt_links lt) of
        None \<Rightarrow> (lt, Inl (404, ''link not found''))
      | Some l \<Rightarrow>
          if DatabaseLink_database_id l \<noteq> databaseID then (lt, Inl (404, ''link not found''))
          else (case UnlinkDatabase linkID lt of Inl e \<Rightarrow> (lt, Inl (422, e)) | Inr lt' \<Rightarrow> (lt', Inr ())))"

section \<open>The links card\<close>

text \<open>The page reads the items of the answer as links; a member that is missing is \<open>undefined\<close>, also inside a path.\<close>

definition links_shown :: "js \<Rightarrow> js list" where
  "links_shown answer = (case answer of JArr ls \<Rightarrow> ls | _ \<Rightarrow> [])"

definition link_text :: "js \<Rightarrow> string" where
  "link_text v = (case v of JStr s \<Rightarrow> s | _ \<Rightarrow> ''undefined'')"

definition linkableApps :: "App list \<Rightarrow> js list \<Rightarrow> App list" where
  "linkableApps projectApps links = filter (\<lambda>a. \<not> list_ex (\<lambda>l. get_prop l ''app_id'' = JStr (App_id a)) links) projectApps"

definition shown_prefix :: "js \<Rightarrow> string" where
  "shown_prefix l = (case get_prop l ''env_prefix'' of JStr s \<Rightarrow> if s = [] then ''(none)'' else s | _ \<Rightarrow> ''(none)'')"

definition unlink_request :: "string \<Rightarrow> string \<Rightarrow> js \<Rightarrow> endpoint" where
  "unlink_request projectId dbId l = databasesApi_unlink projectId dbId (link_text (get_prop l ''id''))"

section \<open>The link dialog\<close>

record link_dialog =
  ld_open :: bool
  ld_appId :: string
  ld_envPrefix :: string
  ld_error :: "string option"

definition link_dialog_init :: "App list \<Rightarrow> link_dialog" where
  "link_dialog_init eligible =
     \<lparr>ld_open = False, ld_appId = (case eligible of [] \<Rightarrow> [] | a # _ \<Rightarrow> App_id a), ld_envPrefix = ''DATABASE_'', ld_error = None\<rparr>"

definition link_input :: "link_dialog \<Rightarrow> LinkDatabaseInput" where
  "link_input d = \<lparr>LinkDatabaseInput_app_id = ld_appId d, LinkDatabaseInput_env_prefix = text_opt (trim (ld_envPrefix d))\<rparr>"

datatype link_event = LOpen bool | LApp string | LPrefix string | LSubmit | LLinked | LFailed failure

fun link_dialog_step :: "string \<Rightarrow> string \<Rightarrow> App list \<Rightarrow> link_dialog \<Rightarrow> link_event \<Rightarrow> link_dialog \<times> endpoint option" where
  "link_dialog_step p db eligible d (LOpen v) = (let d' = d\<lparr>ld_open := v\<rparr> in (if v then d' else d'\<lparr>ld_error := None\<rparr>, None))"
| "link_dialog_step p db eligible d (LApp a) = ((if a \<in> App_id ` set eligible then d\<lparr>ld_appId := a\<rparr> else d), None)"
| "link_dialog_step p db eligible d (LPrefix s) = ((if length s \<le> 64 then d\<lparr>ld_envPrefix := s\<rparr> else d), None)"
| "link_dialog_step p db eligible d LSubmit = (d, if ld_appId d = [] then None else Some (databasesApi_link p db (link_input d)))"
| "link_dialog_step p db eligible d LLinked = (d\<lparr>ld_open := False, ld_error := None\<rparr>, None)"
| "link_dialog_step p db eligible d (LFailed e) =
     (d\<lparr>ld_error := Some (case e of ApiError st m c \<Rightarrow> m | OtherError m \<Rightarrow> ''Could not link app.'')\<rparr>, None)"

section \<open>Unlinking\<close>

text \<open>
  Unlinking from the console never works. Whatever links a database has, the identifier the page sends for each
  entry of the list it was given is the word undefined, because the list nests the link one level deeper than the page
  reads; the API refuses it and every link stays.
\<close>

lemma unlink_refused:
  assumes "l \<in> set (links_shown (DatabaseHandler_ListLinks databaseID lt))" and "\<not> uuid ''undefined''"
  shows "unlink_request p databaseID l = databasesApi_unlink p databaseID ''undefined'' \<and>
    DatabaseHandler_UnlinkDatabase uuid databaseID (link_text (get_prop l ''id'')) lt = (lt, Inl (400, ''invalid link ID'')) \<and>
    shown_prefix l = ''(none)''"
proof -
  from assms(1) obtain m a where l: "l = LinkWithApp_json (m, a)" by (auto simp: links_shown_def DatabaseHandler_ListLinks_def)
  have "get_prop l ''id'' = JUndefined" "get_prop l ''env_prefix'' = JUndefined"
    by (simp_all add: l LinkWithApp_json_def obj_get_def)
  then show ?thesis using assms(2) by (simp add: unlink_request_def link_text_def DatabaseHandler_UnlinkDatabase_def shown_prefix_def)
qed

definition sample_links :: link_tables where
  "sample_links = \<lparr>lt_links = [\<lparr>DatabaseLink_id = ''l1'', DatabaseLink_database_id = ''d1'', DatabaseLink_app_id = ''a1'',
     DatabaseLink_env_prefix = ''DATABASE'', DatabaseLink_created_at = []\<rparr>], lt_databases = [], lt_apps = [app_view sample_row]\<rparr>"

lemma unlink_refused_witness:
  "DatabaseHandler_UnlinkDatabase (\<lambda>u. u \<noteq> ''undefined'') ''d1'' ''undefined'' sample_links = (sample_links, Inl (400, ''invalid link ID''))"
proof -
  have "App_id (app_view sample_row) = ''a1''" by (simp add: sample_row_def)
  then have l: "LinkWithApp_json (hd (lt_links sample_links), app_view sample_row) \<in> set (links_shown (DatabaseHandler_ListLinks ''d1'' sample_links))"
    by (simp add: links_shown_def DatabaseHandler_ListLinks_def ListLinks_def sample_links_def List.map_filter_def)
  have "get_prop (LinkWithApp_json (hd (lt_links sample_links), app_view sample_row)) ''id'' = JUndefined"
    by (simp add: LinkWithApp_json_def obj_get_def)
  then show ?thesis using unlink_refused [OF l, of "\<lambda>u. u \<noteq> ''undefined''"] by (simp add: link_text_def)
qed

section \<open>What a linked app receives\<close>

definition link_dialog_ok :: "App list \<Rightarrow> link_dialog \<Rightarrow> bool" where
  "link_dialog_ok eligible d = (ld_appId d = [] \<or> ld_appId d \<in> App_id ` set eligible)"

definition link_guard :: "string \<Rightarrow> string \<Rightarrow> link_dialog \<Rightarrow> endpoint \<Rightarrow> bool" where
  "link_guard p db d ep = (ld_appId d \<noteq> [] \<and> ep = databasesApi_link p db (link_input d))"

interpretation link_form: request_machine "link_dialog_step p db eligible" "link_dialog_ok eligible" "link_guard p db"
proof
  fix d e r
  show "link_dialog_ok eligible d \<Longrightarrow> link_dialog_ok eligible (fst (link_dialog_step p db eligible d e))"
    by (cases e) (auto simp: Let_def link_dialog_ok_def)
  show "snd (link_dialog_step p db eligible d e) = Some r \<Longrightarrow> link_guard p db d r"
    by (cases e) (auto simp: Let_def link_guard_def split: if_splits)
qed

lemma link_lower: "toLowerCase ''app_id'' = ''app_id''" "toLowerCase ''env_prefix'' = ''env_prefix''"
  by code_simp+

lemma link_fields:
  "go_str (wire (LinkDatabaseInput_js i)) ''app_id'' = LinkDatabaseInput_app_id i"
  "go_str (wire (LinkDatabaseInput_js i)) ''env_prefix'' = or_default (LinkDatabaseInput_env_prefix i) []"
proof -
  let ?kvs = "[(''app_id'', JStr (LinkDatabaseInput_app_id i)), (''env_prefix'', jstr_opt (LinkDatabaseInput_env_prefix i))]"
  have k: "distinct (map fst ?kvs)" "list_all (\<lambda>e. toLowerCase (fst e) = fst e) ?kvs" by (simp_all add: link_lower)
  show "go_str (wire (LinkDatabaseInput_js i)) ''app_id'' = LinkDatabaseInput_app_id i"
    unfolding LinkDatabaseInput_js_def go_str_def go_ptr_def go_member_wire [OF k link_lower(1)] by simp
  show "go_str (wire (LinkDatabaseInput_js i)) ''env_prefix'' = or_default (LinkDatabaseInput_env_prefix i) []"
    unfolding LinkDatabaseInput_js_def go_str_def go_ptr_def go_member_wire [OF k link_lower(2)]
    by (simp add: jstr_opt_def or_default_def split: option.split)
qed

lemma link_decodes:
  assumes "uuid (LinkDatabaseInput_app_id i)"
  shows "DecodeJSON uuid linkDatabaseRequest (Some (wire (LinkDatabaseInput_js i)))"
proof -
  have so: "decodes (scalar_ok uuid) GString (wire (jstr_opt x))" for x
    by (simp add: jstr_opt_def split: option.split)
  have c: "scalar_ok uuid GUUID (JStr s) \<longleftrightarrow> uuid s" for s by simp
  show ?thesis using assms
    unfolding DecodeJSON_def linkDatabaseRequest_def LinkDatabaseInput_js_def option.case decodes_members
    by (simp add: go_field_def so c del: wire.simps(2,4) decodes.simps(9) scalar_ok.simps)
qed

lemma link_prefix_idem [simp]: "link_prefix (link_prefix s) = link_prefix s"
proof -
  have "trim_by go_space ''DATABASE'' = ''DATABASE''" by code_simp
  then show ?thesis by (simp add: link_prefix_def Let_def trim_by_idem)
qed


definition linked_database :: Database where
  "linked_database = new_database (sample_inputs ''1'') sample_project ''s1'' sample_template sample_request"

definition linked_tables :: link_tables where
  "linked_tables = \<lparr>lt_links = [], lt_databases = [linked_database], lt_apps = [app_view sample_row]\<rparr>"

definition linked_secrets :: secret_tables where
  "linked_secrets = after_ops clear_box no_secrets [SCreate zero_nonce ''s1'' ''1'' ''t1'' ''database:main'' ''APP_PASSWORD'' ''pw'' None]"


end
