(* ===== verification/Secrets_Page.thy ===== *)
theory Secrets_Page
  imports Deploy_Env
begin

text \<open>
  Team secrets in the console: the page (\<open>components/teams/SecretsClient.tsx\<close>), its three dialogs
  (\<open>CreateSecretDialog.tsx\<close>, \<open>RotateSecretDialog.tsx\<close>, \<open>RevealSecretDialog.tsx\<close>) and the handlers behind them
  (\<open>internal/api/handler/secret.go\<close>). The audit log, which every handler writes to, is left out.
\<close>

section \<open>Handlers\<close>

definition toSecretResponse :: "secret_row \<Rightarrow> Secret" where
  "toSecretResponse s = \<lparr>Secret_id = sr_id s, Secret_team_id = sr_team s, Secret_environment = sr_env s, Secret_key = sr_key s,
     Secret_version = sr_version s, Secret_revealed_at = sr_revealed s, Secret_created_at = sr_created s, Secret_updated_at = sr_updated s\<rparr>"

definition SecretHandler_Create ::
    "(string \<Rightarrow> bool) \<Rightarrow> crypto_box \<Rightarrow> string \<Rightarrow> string \<Rightarrow> string \<Rightarrow> string option \<Rightarrow> string \<Rightarrow> js option \<Rightarrow> secret_tables
      \<Rightarrow> secret_tables \<times> Secret reply" where
  "SecretHandler_Create uuid bx nonce newId now user team body ts =
     (if \<not> uuid team then (ts, Inl (400, ''invalid team ID''))
      else if \<not> DecodeJSON uuid createSecretRequest body then (ts, Inl (400, ''invalid request body''))
      else (let key = go_str (the body) ''key''; val = go_str (the body) ''value''; env = go_str (the body) ''environment'' in
        if key = [] \<or> val = [] then (ts, Inl (400, ''key and value are required''))
        else case SecretService_Create bx nonce newId now team (if env = [] then ''production'' else env) key val user ts of
          Inl e \<Rightarrow> (ts, Inl (500, ''internal server error''))
        | Inr (ts', r) \<Rightarrow> (ts', Inr (toSecretResponse r))))"

definition SecretHandler_List :: "(string \<Rightarrow> bool) \<Rightarrow> (string \<Rightarrow> string \<Rightarrow> int) \<Rightarrow> string \<Rightarrow> string \<Rightarrow> secret_tables \<Rightarrow> Secret list reply" where
  "SecretHandler_List uuid collate team environment ts =
     (if \<not> uuid team then Inl (400, ''invalid team ID'')
      else Inr (map toSecretResponse (if environment \<noteq> [] then ListSecrets collate team environment ts else ListSecretsByTeam collate team ts)))"

definition SecretHandler_Get :: "(string \<Rightarrow> bool) \<Rightarrow> string \<Rightarrow> string \<Rightarrow> secret_tables \<Rightarrow> Secret reply" where
  "SecretHandler_Get uuid team sid ts =
     (if \<not> uuid team then Inl (400, ''invalid team ID'')
      else if \<not> uuid sid then Inl (400, ''invalid secret ID'')
      else case GetSecretByID sid team ts of None \<Rightarrow> Inl (404, ''secret not found'') | Some r \<Rightarrow> Inr (toSecretResponse r))"

definition SecretHandler_Reveal ::
    "(string \<Rightarrow> bool) \<Rightarrow> crypto_box \<Rightarrow> string \<Rightarrow> string option \<Rightarrow> string \<Rightarrow> string \<Rightarrow> secret_tables \<Rightarrow> secret_tables \<times> string reply" where
  "SecretHandler_Reveal uuid bx now user team sid ts =
     (if \<not> uuid team then (ts, Inl (400, ''invalid team ID''))
      else if \<not> uuid sid then (ts, Inl (400, ''invalid secret ID''))
      else case SecretService_Reveal bx now sid team user ''user'' ts of
        (ts', Inl ErrAlreadyRevealed) \<Rightarrow> (ts', Inl (409, ''secret has already been revealed''))
      | (ts', Inl (RevealFailed e)) \<Rightarrow> (ts', Inl (500, ''internal server error''))
      | (ts', Inr p) \<Rightarrow> (ts', Inr p))"

definition SecretHandler_Update ::
    "(string \<Rightarrow> bool) \<Rightarrow> crypto_box \<Rightarrow> string \<Rightarrow> string \<Rightarrow> string option \<Rightarrow> string \<Rightarrow> string \<Rightarrow> js option \<Rightarrow> secret_tables
      \<Rightarrow> secret_tables \<times> Secret reply" where
  "SecretHandler_Update uuid bx nonce now user team sid body ts =
     (if \<not> uuid team then (ts, Inl (400, ''invalid team ID''))
      else if \<not> uuid sid then (ts, Inl (400, ''invalid secret ID''))
      else if \<not> DecodeJSON uuid updateSecretRequest body then (ts, Inl (400, ''invalid request body''))
      else if go_str (the body) ''value'' = [] then (ts, Inl (400, ''value is required''))
      else case SecretService_Update bx nonce now sid team (go_str (the body) ''value'') user ts of
        Inl e \<Rightarrow> (ts, Inl (500, ''internal server error''))
      | Inr (ts', r) \<Rightarrow> (ts', Inr (toSecretResponse r)))"

definition SecretHandler_Delete :: "(string \<Rightarrow> bool) \<Rightarrow> string option \<Rightarrow> string \<Rightarrow> string \<Rightarrow> secret_tables \<Rightarrow> secret_tables \<times> unit reply" where
  "SecretHandler_Delete uuid user team sid ts =
     (if \<not> uuid team then (ts, Inl (400, ''invalid team ID''))
      else if \<not> uuid sid then (ts, Inl (400, ''invalid secret ID''))
      else (SecretService_Delete sid team user ''user'' ts, Inr ()))"

section \<open>The page\<close>

definition COMMON_ENVS :: "string list" where
  "COMMON_ENVS = [''production'', ''staging'', ''preview'', ''development'']"

definition envOptions :: "Secret list \<Rightarrow> string list" where
  "envOptions secrets = foldl (\<lambda>seen s. set_add seen (Secret_environment s)) COMMON_ENVS secrets"

definition list_request :: "string \<Rightarrow> string \<Rightarrow> endpoint" where
  "list_request teamId envFilter = secretsApi_list teamId (text_opt envFilter)"

definition alreadyRevealed :: "Secret \<Rightarrow> bool" where
  "alreadyRevealed s = (case Secret_revealed_at s of Some t \<Rightarrow> t \<noteq> [] | None \<Rightarrow> False)"

section \<open>Adding a secret\<close>

text \<open>\<open>sd_default\<close> is the property the page passes down, the environment it is filtered by; it can change at any time.\<close>

record secret_dialog =
  sd_default :: string
  sd_open :: bool
  sd_environment :: string
  sd_key :: string
  sd_value :: string
  sd_error :: "string option"

definition default_env :: "string \<Rightarrow> string" where
  "default_env e = (if e = [] then ''production'' else e)"

definition secret_dialog_init :: "string \<Rightarrow> secret_dialog" where
  "secret_dialog_init env =
     \<lparr>sd_default = env, sd_open = False, sd_environment = default_env env, sd_key = [], sd_value = [], sd_error = None\<rparr>"

definition secret_reset :: "secret_dialog \<Rightarrow> secret_dialog" where
  "secret_reset d = d\<lparr>sd_environment := default_env (sd_default d), sd_key := [], sd_value := [], sd_error := None\<rparr>"

definition secret_input :: "secret_dialog \<Rightarrow> CreateSecretInput" where
  "secret_input d = \<lparr>CreateSecretInput_environment = (if trim (sd_environment d) = [] then ''production'' else trim (sd_environment d)),
     CreateSecretInput_key = trim (sd_key d), CreateSecretInput_value = sd_value d\<rparr>"

definition secret_complaint :: "secret_dialog \<Rightarrow> string option" where
  "secret_complaint d =
     (if trim (sd_key d) = [] then Some ''Key is required.''
      else if \<not> key_pattern (trim (sd_key d))
        then Some ''Keys must start with a letter or underscore and contain only letters, digits, and underscores.''
      else if sd_value d = [] then Some ''Value is required.''
      else None)"

datatype secret_event =
    SDFilter string | SDOpen bool | SDEnvironment string | SDKey string | SDValue string | SDSubmit | SDCreated | SDFailed failure

fun secret_dialog_step :: "string \<Rightarrow> secret_dialog \<Rightarrow> secret_event \<Rightarrow> secret_dialog \<times> endpoint option" where
  "secret_dialog_step t d (SDFilter e) = (d\<lparr>sd_default := e\<rparr>, None)"
| "secret_dialog_step t d (SDOpen v) = (let d' = d\<lparr>sd_open := v\<rparr> in (if v then d' else secret_reset d', None))"
| "secret_dialog_step t d (SDEnvironment e) = ((if length e \<le> 64 then d\<lparr>sd_environment := e\<rparr> else d), None)"
| "secret_dialog_step t d (SDKey k) = ((if length k \<le> 128 then d\<lparr>sd_key := k\<rparr> else d), None)"
| "secret_dialog_step t d (SDValue v) = (d\<lparr>sd_value := v\<rparr>, None)"
| "secret_dialog_step t d SDSubmit =
     (case secret_complaint d of
        Some m \<Rightarrow> (d\<lparr>sd_error := Some m\<rparr>, None)
      | None \<Rightarrow> (d\<lparr>sd_error := None\<rparr>, Some (secretsApi_create t (secret_input d))))"
| "secret_dialog_step t d SDCreated = (secret_reset (d\<lparr>sd_open := False\<rparr>), None)"
| "secret_dialog_step t d (SDFailed e) = (d\<lparr>sd_error := Some (error_text e ''Could not create the secret.'')\<rparr>, None)"

section \<open>Rotating and revealing\<close>

record rotate_dialog =
  rt_open :: bool
  rt_value :: string
  rt_error :: "string option"

datatype rotate_event = RTOpen bool | RTValue string | RTSubmit | RTRotated | RTFailed failure

fun rotate_step :: "string \<Rightarrow> string \<Rightarrow> rotate_dialog \<Rightarrow> rotate_event \<Rightarrow> rotate_dialog \<times> endpoint option" where
  "rotate_step t s d (RTOpen v) = ((if v then d\<lparr>rt_open := True\<rparr> else d\<lparr>rt_open := False, rt_error := None, rt_value := []\<rparr>), None)"
| "rotate_step t s d (RTValue v) = (d\<lparr>rt_value := v\<rparr>, None)"
| "rotate_step t s d RTSubmit =
     (if rt_value d = [] then (d\<lparr>rt_error := Some ''New value is required.''\<rparr>, None)
      else (d\<lparr>rt_error := None\<rparr>, Some (secretsApi_update t s (rt_value d))))"
| "rotate_step t s d RTRotated = (d\<lparr>rt_open := False, rt_value := [], rt_error := None\<rparr>, None)"
| "rotate_step t s d (RTFailed e) = (d\<lparr>rt_error := Some (error_text e ''Could not rotate the secret.'')\<rparr>, None)"

record secret_reveal =
  vr_open :: bool
  vr_value :: "string option"
  vr_visible :: bool
  vr_error :: "string option"
  vr_pending :: bool
  vr_copied :: bool

datatype secret_reveal_event = VOpen bool | VReveal | VAnswer "string result" | VShow | VCopied | VCopyDone

definition has_value :: "secret_reveal \<Rightarrow> bool" where
  "has_value d = (vr_value d \<noteq> None \<and> vr_value d \<noteq> Some [])"

definition reveal_failure :: "failure \<Rightarrow> string" where
  "reveal_failure e = (case e of
       ApiError st m c \<Rightarrow> if st = 409
         then ''This secret has already been revealed. Rotate it to set a new value, then a fresh reveal becomes available.'' else m
     | OtherError m \<Rightarrow> ''Reveal failed.'')"

text \<open>
  Closing runs the effect that wipes the value; the button is there while no value is shown and none is awaited. The
  bullet behind which a value is hidden is written as an asterisk.
\<close>

fun secret_reveal_step :: "string \<Rightarrow> string \<Rightarrow> secret_reveal \<Rightarrow> secret_reveal_event \<Rightarrow> secret_reveal \<times> endpoint option" where
  "secret_reveal_step t s d (VOpen v) =
     ((if v then d\<lparr>vr_open := True\<rparr> else d\<lparr>vr_open := False, vr_value := None, vr_visible := False, vr_error := None, vr_copied := False\<rparr>), None)"
| "secret_reveal_step t s d VReveal =
     (if vr_open d \<and> \<not> has_value d \<and> \<not> vr_pending d
      then (d\<lparr>vr_error := None, vr_pending := True\<rparr>, Some (secretsApi_reveal t s)) else (d, None))"
| "secret_reveal_step t s d (VAnswer r) =
     ((if vr_pending d
       then (case r of Inr v \<Rightarrow> d\<lparr>vr_value := Some v, vr_pending := False\<rparr> | Inl e \<Rightarrow> d\<lparr>vr_error := Some (reveal_failure e), vr_pending := False\<rparr>)
       else d), None)"
| "secret_reveal_step t s d VShow = ((if has_value d then d\<lparr>vr_visible := \<not> vr_visible d\<rparr> else d), None)"
| "secret_reveal_step t s d VCopied = ((if has_value d then d\<lparr>vr_copied := True\<rparr> else d), None)"
| "secret_reveal_step t s d VCopyDone = (d\<lparr>vr_copied := False\<rparr>, None)"

definition secret_text :: "secret_reveal \<Rightarrow> string option" where
  "secret_text d = (if vr_open d \<and> has_value d
     then Some (if vr_visible d then the (vr_value d) else replicate (min (length (the (vr_value d))) 40) (CHR ''*'')) else None)"

definition secret_reveal_init :: secret_reveal where
  "secret_reveal_init = \<lparr>vr_open = False, vr_value = None, vr_visible = False, vr_error = None, vr_pending = False, vr_copied = False\<rparr>"

section \<open>From the dialog to a deployment\<close>

definition secret_guard :: "string \<Rightarrow> secret_dialog \<Rightarrow> endpoint \<Rightarrow> bool" where
  "secret_guard t d ep = (secret_complaint d = None \<and> ep = secretsApi_create t (secret_input d))"

interpretation secret_form: request_machine "secret_dialog_step t" "\<lambda>d. True" "secret_guard t"
proof
  fix d e r
  show "snd (secret_dialog_step t d e) = Some r \<Longrightarrow> secret_guard t d r"
    by (cases e) (auto simp: secret_guard_def Let_def split: option.splits if_splits)
qed simp

lemma secret_lower: "toLowerCase ''environment'' = ''environment''" "toLowerCase ''key'' = ''key''" "toLowerCase ''value'' = ''value''"
  by code_simp+

lemma secret_fields:
  "go_str (wire (CreateSecretInput_js i)) ''environment'' = CreateSecretInput_environment i"
  "go_str (wire (CreateSecretInput_js i)) ''key'' = CreateSecretInput_key i"
  "go_str (wire (CreateSecretInput_js i)) ''value'' = CreateSecretInput_value i"
proof -
  let ?kvs = "[(''environment'', JStr (CreateSecretInput_environment i)), (''key'', JStr (CreateSecretInput_key i)),
    (''value'', JStr (CreateSecretInput_value i))]"
  have k: "distinct (map fst ?kvs)" "list_all (\<lambda>e. toLowerCase (fst e) = fst e) ?kvs" by (simp_all add: secret_lower)
  note m = go_member_wire [OF k secret_lower(1)] go_member_wire [OF k secret_lower(2)] go_member_wire [OF k secret_lower(3)]
  show "go_str (wire (CreateSecretInput_js i)) ''environment'' = CreateSecretInput_environment i"
    "go_str (wire (CreateSecretInput_js i)) ''key'' = CreateSecretInput_key i"
    "go_str (wire (CreateSecretInput_js i)) ''value'' = CreateSecretInput_value i"
    unfolding CreateSecretInput_js_def go_str_def go_ptr_def m by simp_all
qed

lemma secret_decodes: "DecodeJSON uuid createSecretRequest (Some (wire (CreateSecretInput_js i)))"
  by (simp add: DecodeJSON_def createSecretRequest_def CreateSecretInput_js_def go_field_def)

text \<open>What a new secret adds to those that can be read.\<close>

lemma created_plain:
  assumes "box_ok bx" and "length nonce = nonceSize" and "SecretService_Create bx nonce newId now team env key plain creator ts = Inr (ts', r)"
  shows "secret_plain bx ts' t' e' k = (if t' = team \<and> e' = env \<and> k = key then Some plain else secret_plain bx ts t' e' k)"
proof -
  have new: "\<not> list_ex (\<lambda>r. sr_team r = team \<and> sr_env r = env \<and> sr_key r = key) (st_secrets ts)"
    and rows: "st_secrets ts' = st_secrets ts @ [r]" and r: "sr_team r = team" "sr_env r = env" "sr_key r = key"
      "sr_value r = crypto_Encrypt bx nonce plain (encryptionContext team)"
    using assms(3) by (auto simp: SecretService_Create_def Let_def split: if_splits)
  have find_app: "find P (xs @ [y]) = (case find P xs of Some x \<Rightarrow> Some x | None \<Rightarrow> if P y then Some y else None)" for P xs and y :: secret_row
    by (induction xs) auto
  have "find (\<lambda>r. sr_team r = team \<and> sr_env r = env \<and> sr_key r = key) (st_secrets ts) = None"
    using new by (auto simp: find_None_iff list_ex_iff)
  then show ?thesis using r Decrypt_Encrypt [OF assms(1,2)]
    by (auto simp: secret_plain_def GetSecretByKey_def rows find_app split: option.split)
qed

lemma created_readable:
  assumes "box_ok bx" and "length nonce = nonceSize" and "SecretService_Create bx nonce newId now team env key plain creator ts = Inr (ts', r)"
    and "readable bx team e ts"
  shows "readable bx team e ts'"
proof -
  have rows: "st_secrets ts' = st_secrets ts @ [r]" and r: "sr_team r = team" "sr_env r = env" "sr_key r = key"
    using assms(3) by (auto simp: SecretService_Create_def Let_def split: if_splits)
  show ?thesis using assms(4) r created_plain [OF assms(1-3)] by (auto simp: readable_def rows list_all_iff)
qed


definition dsn_dialog :: secret_dialog where
  "dsn_dialog = (secret_dialog_init [])\<lparr>sd_open := True, sd_key := ''DSN '', sd_value := ''x''\<rparr>"


text \<open>The dialog proposes the environment the page was filtered by when it first appeared, not the one chosen since.\<close>

lemma stale_filter:
  "sd_environment (after (secret_dialog_step t) (secret_dialog_init []) [SDFilter e, SDOpen True]) = ''production''"
  by (simp add: Let_def secret_dialog_init_def default_env_def)

text \<open>
  A reveal that is answered after the dialog was closed leaves its value behind: the effect that wipes it has run, and
  opening the dialog again shows it, hidden behind as many dots as it has characters until it is uncovered.
\<close>

lemma value_after_close:
  assumes "v \<noteq> []"
  shows "secret_text (after (secret_reveal_step t s) secret_reveal_init [VOpen True, VReveal, VOpen False, VAnswer (Inr v), VOpen True, VShow]) = Some v"
  using assms by (simp add: secret_reveal_init_def has_value_def secret_text_def)

text \<open>When no answer is awaited, a closed dialog keeps no value, and a value is only asked for on the open dialog.\<close>

definition reveal_clean :: "secret_reveal \<Rightarrow> bool" where
  "reveal_clean d = (vr_open d \<or> vr_pending d \<or> vr_value d = None)"

lemma reveal_clean_step:
  assumes "reveal_clean d" and "\<not> (\<exists>r. e = VAnswer r \<and> \<not> vr_open d)"
  shows "reveal_clean (fst (secret_reveal_step t s d e))"
  using assms by (cases e) (auto simp: reveal_clean_def split: sum.split)

end
