(* ===== verification/Env_Var_Store.thy ===== *)
theory Env_Var_Store
  imports Deploy_Env
begin

text \<open>
  The handlers of per-app environment variables (\<open>internal/api/handler/app_env_var.go\<close>) and what becomes of a variable
  saved in the dialog of \<open>components/apps/EnvVarsClient.tsx\<close>. A handler gives the new table, the redeployments it asks
  for, as pairs of app and environment, and the reply; the audit log is left out.
\<close>

section \<open>Handlers\<close>

definition toAppEnvVarResponse :: "env_var_row \<Rightarrow> AppEnvVar" where
  "toAppEnvVarResponse v = \<lparr>AppEnvVar_id = ev_id v, AppEnvVar_app_id = ev_app v, AppEnvVar_environment_id = ev_env v,
     AppEnvVar_key = ev_key v, AppEnvVar_created_at = ev_created v, AppEnvVar_updated_at = ev_updated v\<rparr>"

definition resolveEnv :: "App list \<Rightarrow> Environment list \<Rightarrow> string \<Rightarrow> string \<Rightarrow> (App \<times> Environment) option" where
  "resolveEnv apps envs appID slug =
     (case find (\<lambda>a. App_id a = appID) apps of
        None \<Rightarrow> None
      | Some a \<Rightarrow>
          map_option (Pair a) (find (\<lambda>e. Environment_project_id e = App_project_id a \<and>
            Environment_slug e = (if slug = [] then ''production'' else slug)) envs))"

definition AppEnvVarHandler_List ::
    "(string \<Rightarrow> bool) \<Rightarrow> (string \<Rightarrow> string \<Rightarrow> int) \<Rightarrow> App list \<Rightarrow> Environment list \<Rightarrow> string \<Rightarrow> string \<Rightarrow> env_var_row list \<Rightarrow> AppEnvVar list reply" where
  "AppEnvVarHandler_List uuid collate apps envs appID slug vars =
     (if \<not> uuid appID then Inl (400, ''invalid app ID'')
      else case resolveEnv apps envs appID slug of
        None \<Rightarrow> Inl (404, ''app or environment not found'')
      | Some (a, e) \<Rightarrow> Inr (map toAppEnvVarResponse (array_sort (\<lambda>r s. collate (ev_key r) (ev_key s))
          (filter (\<lambda>r. ev_app r = appID \<and> ev_env r = Environment_id e) vars))))"

definition AppEnvVarHandler_Create ::
    "(string \<Rightarrow> bool) \<Rightarrow> crypto_box \<Rightarrow> string \<Rightarrow> string \<Rightarrow> string \<Rightarrow> string option \<Rightarrow> App list \<Rightarrow> Environment list \<Rightarrow> string \<Rightarrow> js option
      \<Rightarrow> env_var_row list \<Rightarrow> env_var_row list \<times> (string \<times> string) list \<times> AppEnvVar reply" where
  "AppEnvVarHandler_Create uuid bx nonce newId now user apps envs appID body vars =
     (if \<not> uuid appID then (vars, [], Inl (400, ''invalid app ID''))
      else if \<not> DecodeJSON uuid setAppEnvVarRequest body then (vars, [], Inl (400, ''invalid request body''))
      else (let b = the body; msg = validateEnvKey (go_str b ''key'') in
        if msg \<noteq> [] then (vars, [], Inl (400, msg))
        else case resolveEnv apps envs appID (go_str b ''environment'') of
          None \<Rightarrow> (vars, [], Inl (404, ''app or environment not found''))
        | Some (a, e) \<Rightarrow>
            (case appenv_Set bx nonce newId now appID (Environment_id e) (go_str b ''key'') (go_str b ''value'') user vars of
               (vars', r) \<Rightarrow> (vars', [(appID, Environment_id e)], Inr (toAppEnvVarResponse r)))))"

definition AppEnvVarHandler_Reveal :: "(string \<Rightarrow> bool) \<Rightarrow> crypto_box \<Rightarrow> string \<Rightarrow> string \<Rightarrow> env_var_row list \<Rightarrow> string reply" where
  "AppEnvVarHandler_Reveal uuid bx appID varID vars =
     (if \<not> uuid appID then Inl (400, ''invalid app ID'')
      else if \<not> uuid varID then Inl (400, ''invalid env var ID'')
      else case appenv_Reveal bx varID appID vars of Inl e \<Rightarrow> Inl (404, ''env var not found'') | Inr v \<Rightarrow> Inr v)"

definition AppEnvVarHandler_Update ::
    "(string \<Rightarrow> bool) \<Rightarrow> crypto_box \<Rightarrow> string \<Rightarrow> string \<Rightarrow> string \<Rightarrow> string option \<Rightarrow> string \<Rightarrow> string \<Rightarrow> js option
      \<Rightarrow> env_var_row list \<Rightarrow> env_var_row list \<times> (string \<times> string) list \<times> AppEnvVar reply" where
  "AppEnvVarHandler_Update uuid bx nonce newId now user appID varID body vars =
     (if \<not> uuid appID then (vars, [], Inl (400, ''invalid app ID''))
      else if \<not> uuid varID then (vars, [], Inl (400, ''invalid env var ID''))
      else if \<not> DecodeJSON uuid updateAppEnvVarRequest body then (vars, [], Inl (400, ''invalid request body''))
      else case GetAppEnvVarByID varID appID vars of
        None \<Rightarrow> (vars, [], Inl (404, ''env var not found''))
      | Some x \<Rightarrow>
          (case appenv_Set bx nonce newId now appID (ev_env x) (ev_key x) (go_str (the body) ''value'') user vars of
             (vars', r) \<Rightarrow> (vars', [(appID, ev_env x)], Inr (toAppEnvVarResponse r))))"

definition AppEnvVarHandler_Delete ::
    "(string \<Rightarrow> bool) \<Rightarrow> string \<Rightarrow> string \<Rightarrow> env_var_row list \<Rightarrow> env_var_row list \<times> (string \<times> string) list \<times> unit reply" where
  "AppEnvVarHandler_Delete uuid appID varID vars =
     (if \<not> uuid appID then (vars, [], Inl (400, ''invalid app ID''))
      else if \<not> uuid varID then (vars, [], Inl (400, ''invalid env var ID''))
      else case GetAppEnvVarByID varID appID vars of
        None \<Rightarrow> (vars, [], Inl (404, ''env var not found''))
      | Some x \<Rightarrow> (appenv_Delete varID appID vars, [(appID, ev_env x)], Inr ()))"

section \<open>What a saved variable changes\<close>

lemma set_plain:
  assumes "box_ok bx" and "length nonce = nonceSize" and "appenv_Set bx nonce newId now app env key plain user vars = (vars', r)"
  shows "var_plain bx vars' app' env' k = (if app' = app \<and> env' = env \<and> k = key then Some plain else var_plain bx vars app' env' k)"
    and "ev_app r = app \<and> ev_env r = env \<and> ev_key r = key \<and> crypto_Decrypt bx (ev_value r) (appenv_context app) = Inr plain \<and> r \<in> set vars'"
proof -
  let ?P = "\<lambda>r. ev_app r = app \<and> ev_env r = env \<and> ev_key r = key"
  let ?f = "\<lambda>r. if ?P r then r\<lparr>ev_value := crypto_Encrypt bx nonce plain (appenv_context app), ev_updated_by := user, ev_updated := now\<rparr> else r"
  have find_app: "find P (xs @ [y]) = (case find P xs of Some x \<Rightarrow> Some x | None \<Rightarrow> if P y then Some y else None)" for P xs and y :: env_var_row
    by (induction xs) auto
  note dec = Decrypt_Encrypt [OF assms(1,2)]
  have "var_plain bx vars' app' env' k = (if app' = app \<and> env' = env \<and> k = key then Some plain else var_plain bx vars app' env' k) \<and>
    ev_app r = app \<and> ev_env r = env \<and> ev_key r = key \<and> crypto_Decrypt bx (ev_value r) (appenv_context app) = Inr plain \<and> r \<in> set vars'"
  proof (cases "find ?P vars")
    case (Some x)
    from find_SomeD [OF Some] have x: "?P x" "x \<in> set vars" by simp_all
    have v: "vars' = map ?f vars" "r = ?f x"
      using assms(3) x(1) by (simp_all add: appenv_Set_def UpsertAppEnvVar_def Let_def Some)
    have "find (\<lambda>r. ev_app r = app' \<and> ev_env r = env' \<and> ev_key r = k) vars' =
        map_option ?f (find (\<lambda>r. ev_app r = app' \<and> ev_env r = env' \<and> ev_key r = k) vars)"
      unfolding v(1) by (rule find_map_update) simp
    moreover have "?f y = y" if "find (\<lambda>r. ev_app r = app' \<and> ev_env r = env' \<and> ev_key r = k) vars = Some y" "\<not> (app' = app \<and> env' = env \<and> k = key)" for y
      using find_SomeD [OF that(1)] that(2) by auto
    moreover have "r \<in> set vars'" unfolding v using x(2) by simp
    ultimately show ?thesis using x(1) dec Some v(2)
      by (cases "app' = app \<and> env' = env \<and> k = key") (auto simp: var_plain_def split: option.split)
  next
    case None
    then have "vars' = vars @ [r]" "ev_app r = app" "ev_env r = env" "ev_key r = key" "ev_value r = crypto_Encrypt bx nonce plain (appenv_context app)"
      using assms(3) by (auto simp: appenv_Set_def UpsertAppEnvVar_def Let_def)
    then show ?thesis using None dec by (auto simp: var_plain_def find_app split: option.split)
  qed
  then show "var_plain bx vars' app' env' k = (if app' = app \<and> env' = env \<and> k = key then Some plain else var_plain bx vars app' env' k)"
    and "ev_app r = app \<and> ev_env r = env \<and> ev_key r = key \<and> crypto_Decrypt bx (ev_value r) (appenv_context app) = Inr plain \<and> r \<in> set vars'" by blast+
qed

lemma var_lower: "toLowerCase ''environment'' = ''environment''" "toLowerCase ''key'' = ''key''" "toLowerCase ''value'' = ''value''"
  by code_simp+

lemma var_fields:
  "go_str (wire (CreateAppEnvVarInput_js i)) ''environment'' = CreateAppEnvVarInput_environment i"
  "go_str (wire (CreateAppEnvVarInput_js i)) ''key'' = CreateAppEnvVarInput_key i"
  "go_str (wire (CreateAppEnvVarInput_js i)) ''value'' = CreateAppEnvVarInput_value i"
  "go_str (wire (JObj [(''value'', JStr v)])) ''value'' = v"
proof -
  let ?kvs = "[(''environment'', JStr (CreateAppEnvVarInput_environment i)), (''key'', JStr (CreateAppEnvVarInput_key i)),
    (''value'', JStr (CreateAppEnvVarInput_value i))]"
  have k: "distinct (map fst ?kvs)" "list_all (\<lambda>e. toLowerCase (fst e) = fst e) ?kvs" by (simp_all add: var_lower)
  note m = go_member_wire [OF k var_lower(1)] go_member_wire [OF k var_lower(2)] go_member_wire [OF k var_lower(3)]
  show "go_str (wire (CreateAppEnvVarInput_js i)) ''environment'' = CreateAppEnvVarInput_environment i"
    "go_str (wire (CreateAppEnvVarInput_js i)) ''key'' = CreateAppEnvVarInput_key i"
    "go_str (wire (CreateAppEnvVarInput_js i)) ''value'' = CreateAppEnvVarInput_value i"
    unfolding CreateAppEnvVarInput_js_def go_str_def go_ptr_def m by simp_all
  have v: "distinct (map fst [(''value'', JStr v)])" "list_all (\<lambda>e. toLowerCase (fst e) = fst e) [(''value'', JStr v)]" by (simp_all add: var_lower)
  show "go_str (wire (JObj [(''value'', JStr v)])) ''value'' = v"
    unfolding go_str_def go_ptr_def go_member_wire [OF v var_lower(3)] by simp
qed

lemma var_decodes:
  "DecodeJSON uuid setAppEnvVarRequest (Some (wire (CreateAppEnvVarInput_js i)))"
  "DecodeJSON uuid updateAppEnvVarRequest (Some (wire (JObj [(''value'', JStr v)])))"
  by (simp_all add: DecodeJSON_def setAppEnvVarRequest_def updateAppEnvVarRequest_def CreateAppEnvVarInput_js_def go_field_def)

text \<open>The API's answer to the request of the dialog, by the variable that is edited, if there is one.\<close>

definition save_reply ::
    "(string \<Rightarrow> bool) \<Rightarrow> crypto_box \<Rightarrow> string \<Rightarrow> string \<Rightarrow> string \<Rightarrow> string option \<Rightarrow> App list \<Rightarrow> Environment list \<Rightarrow> string \<Rightarrow> AppEnvVar option
      \<Rightarrow> js option \<Rightarrow> env_var_row list \<Rightarrow> env_var_row list \<times> (string \<times> string) list \<times> AppEnvVar reply" where
  "save_reply uuid bx nonce newId now user apps envs appID existing body vars =
     (case existing of
        None \<Rightarrow> AppEnvVarHandler_Create uuid bx nonce newId now user apps envs appID body vars
      | Some v \<Rightarrow> AppEnvVarHandler_Update uuid bx nonce newId now user appID (AppEnvVar_id v) body vars)"


definition url_dialog :: env_dialog where
  "url_dialog = \<lparr>ed_existing = None, ed_open = True, ed_key = ''API_URL '', ed_value = ''x'', ed_error = None\<rparr>"


end
