(* ===== verification/Team_Store.thy ===== *)
theory Team_Store
  imports App_Store Tokens
begin

text \<open>
  Teams, members and invites behind the API: the tables with their constraints (\<open>sql/migrations/00001_initial_schema.sql\<close>),
  the queries, the role and scope check (\<open>internal/api/middleware/rbac.go\<close>) and the handlers of
  \<open>internal/api/handler/team.go\<close>, \<open>member.go\<close> and \<open>invite.go\<close>, each with the check and the audit entry it makes. Instants
  are integers, \<open>stamp\<close> is their text; \<open>hash\<close> is \<open>auth.HashToken\<close>. A statement that breaks a constraint fails and changes
  nothing.
\<close>

section \<open>Tables\<close>

record user_row =
  us_id :: string
  us_email :: string
  us_name :: string

record team_row =
  te_id :: string
  te_name :: string
  te_slug :: string
  te_created :: int
  te_updated :: int

record membership_row =
  mb_id :: string
  mb_team :: string
  mb_user :: string
  mb_role :: string
  mb_created :: int

record invite_row =
  iv_id :: string
  iv_team :: string
  iv_email :: string
  iv_role :: string
  iv_token :: string
  iv_by :: string
  iv_expires :: int
  iv_created :: int

record audit_row =
  al_team :: "string option"
  al_actor :: string
  al_action :: string
  al_resource :: string

text \<open>
  \<open>tb_terminals\<close> are the teams the terminal sessions name: that reference has no rule for deletion, the others follow
  the team, and the audit log forgets it.
\<close>

record team_tables =
  tb_users :: "user_row list"
  tb_teams :: "team_row list"
  tb_members :: "membership_row list"
  tb_invites :: "invite_row list"
  tb_terminals :: "string list"
  tb_audit :: "audit_row list"

abbreviation has_team :: "string \<Rightarrow> team_tables \<Rightarrow> bool" where
  "has_team t ts \<equiv> list_ex (\<lambda>r. te_id r = t) (tb_teams ts)"

abbreviation has_user :: "string \<Rightarrow> team_tables \<Rightarrow> bool" where
  "has_user u ts \<equiv> list_ex (\<lambda>r. us_id r = u) (tb_users ts)"

definition member_roles :: "string list" where
  "member_roles = [''owner'', ''admin'', ''member'']"

definition invite_roles :: "string list" where
  "invite_roles = [''admin'', ''member'']"

section \<open>Queries\<close>

definition CreateUser :: "user_row \<Rightarrow> team_tables \<Rightarrow> team_tables option" where
  "CreateUser u ts =
     (if list_ex (\<lambda>r. us_id r = us_id u \<or> us_email r = us_email u) (tb_users ts) then None else Some (ts\<lparr>tb_users := tb_users ts @ [u]\<rparr>))"

definition GetUserByID :: "string \<Rightarrow> team_tables \<Rightarrow> user_row option" where
  "GetUserByID u ts = find (\<lambda>r. us_id r = u) (tb_users ts)"

definition CreateTeam :: "team_row \<Rightarrow> team_tables \<Rightarrow> team_tables option" where
  "CreateTeam t ts =
     (if list_ex (\<lambda>r. te_id r = te_id t \<or> te_slug r = te_slug t) (tb_teams ts) then None else Some (ts\<lparr>tb_teams := tb_teams ts @ [t]\<rparr>))"

definition GetTeamByID :: "string \<Rightarrow> team_tables \<Rightarrow> team_row option" where
  "GetTeamByID t ts = find (\<lambda>r. te_id r = t) (tb_teams ts)"

text \<open>Newest first.\<close>

definition ListTeamsByUser :: "string \<Rightarrow> team_tables \<Rightarrow> team_row list" where
  "ListTeamsByUser u ts =
     sort_key (\<lambda>r. - te_created r) (filter (\<lambda>r. list_ex (\<lambda>m. mb_team m = te_id r \<and> mb_user m = u) (tb_members ts)) (tb_teams ts))"

definition UpdateTeam :: "int \<Rightarrow> string \<Rightarrow> string \<Rightarrow> string \<Rightarrow> team_tables \<Rightarrow> (team_tables \<times> team_row) option" where
  "UpdateTeam now t name slug ts =
     (case GetTeamByID t ts of
        None \<Rightarrow> None
      | Some r \<Rightarrow>
          if list_ex (\<lambda>r. te_id r \<noteq> t \<and> te_slug r = slug) (tb_teams ts) then None
          else let f = (\<lambda>r. if te_id r = t then r\<lparr>te_name := name, te_slug := slug, te_updated := now\<rparr> else r) in
            Some (ts\<lparr>tb_teams := map f (tb_teams ts)\<rparr>, f r))"

definition DeleteTeam :: "string \<Rightarrow> team_tables \<Rightarrow> team_tables option" where
  "DeleteTeam t ts =
     (if t \<in> set (tb_terminals ts) then None
      else Some (ts\<lparr>tb_teams := filter (\<lambda>r. te_id r \<noteq> t) (tb_teams ts), tb_members := filter (\<lambda>m. mb_team m \<noteq> t) (tb_members ts),
        tb_invites := filter (\<lambda>i. iv_team i \<noteq> t) (tb_invites ts),
        tb_audit := map (\<lambda>a. if al_team a = Some t then a\<lparr>al_team := None\<rparr> else a) (tb_audit ts)\<rparr>))"

definition GetMembership :: "string \<Rightarrow> string \<Rightarrow> team_tables \<Rightarrow> membership_row option" where
  "GetMembership t u ts = find (\<lambda>m. mb_team m = t \<and> mb_user m = u) (tb_members ts)"

definition CreateMembership :: "membership_row \<Rightarrow> team_tables \<Rightarrow> team_tables option" where
  "CreateMembership m ts =
     (if has_team (mb_team m) ts \<and> has_user (mb_user m) ts \<and> mb_role m \<in> set member_roles \<and>
         \<not> list_ex (\<lambda>r. mb_id r = mb_id m \<or> mb_team r = mb_team m \<and> mb_user r = mb_user m) (tb_members ts)
      then Some (ts\<lparr>tb_members := tb_members ts @ [m]\<rparr>) else None)"

definition ListMembersByTeam :: "string \<Rightarrow> team_tables \<Rightarrow> (membership_row \<times> user_row) list" where
  "ListMembersByTeam t ts =
     concat (map (\<lambda>m. map (Pair m) (filter (\<lambda>u. us_id u = mb_user m) (tb_users ts)))
       (sort_key mb_created (filter (\<lambda>m. mb_team m = t) (tb_members ts))))"

definition UpdateMemberRole :: "string \<Rightarrow> string \<Rightarrow> string \<Rightarrow> team_tables \<Rightarrow> team_tables option" where
  "UpdateMemberRole t u role ts =
     (if role \<notin> set member_roles \<and> list_ex (\<lambda>m. mb_team m = t \<and> mb_user m = u) (tb_members ts) then None
      else Some (ts\<lparr>tb_members := map (\<lambda>m. if mb_team m = t \<and> mb_user m = u then m\<lparr>mb_role := role\<rparr> else m) (tb_members ts)\<rparr>))"

definition DeleteMembership :: "string \<Rightarrow> string \<Rightarrow> team_tables \<Rightarrow> team_tables" where
  "DeleteMembership t u ts = ts\<lparr>tb_members := filter (\<lambda>m. \<not> (mb_team m = t \<and> mb_user m = u)) (tb_members ts)\<rparr>"

definition CountOwners :: "string \<Rightarrow> team_tables \<Rightarrow> nat" where
  "CountOwners t ts = length (filter (\<lambda>m. mb_team m = t \<and> mb_role m = ''owner'') (tb_members ts))"

definition CreateInvite :: "invite_row \<Rightarrow> team_tables \<Rightarrow> team_tables option" where
  "CreateInvite i ts =
     (if has_team (iv_team i) ts \<and> has_user (iv_by i) ts \<and> iv_role i \<in> set invite_roles \<and>
         \<not> list_ex (\<lambda>r. iv_id r = iv_id i \<or> iv_token r = iv_token i) (tb_invites ts)
      then Some (ts\<lparr>tb_invites := tb_invites ts @ [i]\<rparr>) else None)"

definition GetInviteByToken :: "int \<Rightarrow> string \<Rightarrow> team_tables \<Rightarrow> invite_row option" where
  "GetInviteByToken now tok ts = find (\<lambda>i. iv_token i = tok \<and> iv_expires i > now) (tb_invites ts)"

text \<open>Newest first.\<close>

definition ListInvitesByTeam :: "int \<Rightarrow> string \<Rightarrow> team_tables \<Rightarrow> (invite_row \<times> user_row) list" where
  "ListInvitesByTeam now t ts =
     concat (map (\<lambda>i. map (Pair i) (filter (\<lambda>u. us_id u = iv_by i) (tb_users ts)))
       (sort_key (\<lambda>i. - iv_created i) (filter (\<lambda>i. iv_team i = t \<and> iv_expires i > now) (tb_invites ts))))"

definition DeleteInvite :: "string \<Rightarrow> team_tables \<Rightarrow> team_tables" where
  "DeleteInvite i ts = ts\<lparr>tb_invites := filter (\<lambda>r. iv_id r \<noteq> i) (tb_invites ts)\<rparr>"

text \<open>An entry that names a team needs the team to be there; the handlers ignore that it could not be written.\<close>

definition audit_Log :: "audit_row \<Rightarrow> team_tables \<Rightarrow> team_tables" where
  "audit_Log a ts = (if case al_team a of None \<Rightarrow> True | Some t \<Rightarrow> has_team t ts then ts\<lparr>tb_audit := tb_audit ts @ [a]\<rparr> else ts)"

section \<open>The check of role and scope\<close>

record AuthContext =
  ac_user :: string
  ac_team :: "string option"
  ac_token :: "string option"
  ac_scopes :: "string list"

definition role_rank :: "string \<Rightarrow> nat" where
  "role_rank r = (if r = ''member'' then 1 else if r = ''admin'' then 2 else if r = ''owner'' then 3 else 0)"

definition AtLeast :: "string \<Rightarrow> string \<Rightarrow> bool" where
  "AtLeast r required = (role_rank r \<ge> role_rank required)"

definition tokenHasAnyScope :: "string list \<Rightarrow> string list \<Rightarrow> bool" where
  "tokenHasAnyScope scopes required = (required = [] \<or> list_ex (TokenHasScope scopes) required)"

definition CheckTeamRole :: "AuthContext option \<Rightarrow> string \<Rightarrow> string \<Rightarrow> string list \<Rightarrow> team_tables \<Rightarrow> AuthContext reply" where
  "CheckTeamRole auth t minRole required ts =
     (case auth of
        None \<Rightarrow> Inl (401, ''authentication required'')
      | Some ac \<Rightarrow>
          if ac_token ac \<noteq> None \<and> \<not> tokenHasAnyScope (ac_scopes ac) required
          then Inl (403, ''token scope does not allow this action'')
          else case GetMembership t (ac_user ac) ts of
            None \<Rightarrow> Inl (403, ''not a member of this team'')
          | Some m \<Rightarrow> if AtLeast (mb_role m) minRole then Inr ac else Inl (403, ''insufficient permissions''))"

definition parseTeamID :: "(string \<Rightarrow> bool) \<Rightarrow> string \<Rightarrow> unit reply" where
  "parseTeamID uuid t = (if t = [] then Inl (400, ''missing team id'') else if uuid t then Inr () else Inl (400, ''invalid team id''))"

text \<open>Both, as every handler of a team starts.\<close>

definition team_gate :: "(string \<Rightarrow> bool) \<Rightarrow> AuthContext option \<Rightarrow> string \<Rightarrow> string \<Rightarrow> string list \<Rightarrow> team_tables \<Rightarrow> AuthContext reply" where
  "team_gate uuid auth t minRole required ts =
     (case parseTeamID uuid t of Inl e \<Rightarrow> Inl e | Inr _ \<Rightarrow> CheckTeamRole auth t minRole required ts)"

section \<open>Handlers\<close>

text \<open>\<open>slugRe\<close> replaces every run of characters other than lower-case letters and digits.\<close>

definition slug_letter :: "char \<Rightarrow> bool" where
  "slug_letter c = (c \<in> set ''abcdefghijklmnopqrstuvwxyz0123456789'')"

definition slugify :: "string \<Rightarrow> string" where
  "slugify name =
     (let s = toLowerCase (trim_by go_space name);
          s = single_dashes (map (\<lambda>c. if slug_letter c then c else CHR ''-'') s);
          s = trim_by (\<lambda>c. c = CHR ''-'') s
      in if s = [] then ''team'' else s)"

definition team_view :: "(int \<Rightarrow> string) \<Rightarrow> team_row \<Rightarrow> Team" where
  "team_view stamp r = \<lparr>Team_id = te_id r, Team_name = te_name r, Team_slug = te_slug r,
     Team_created_at = stamp (te_created r), Team_updated_at = stamp (te_updated r)\<rparr>"

definition TeamHandler_Create ::
    "(string \<Rightarrow> bool) \<Rightarrow> (int \<Rightarrow> string) \<Rightarrow> int \<Rightarrow> string \<Rightarrow> string \<Rightarrow> AuthContext option \<Rightarrow> js option \<Rightarrow> team_tables \<Rightarrow> team_tables \<times> Team reply" where
  "TeamHandler_Create uuid stamp now newTeam newMember auth body ts =
     (case auth of
        None \<Rightarrow> (ts, Inl (401, ''authentication required''))
      | Some ac \<Rightarrow>
          if ac_token ac \<noteq> None then (ts, Inl (403, ''api tokens cannot create teams''))
          else if \<not> DecodeJSON uuid createTeamRequest body then (ts, Inl (400, ''invalid request body''))
          else let name = go_str (the body) ''name'' in
            if name = [] then (ts, Inl (400, ''name is required''))
            else let r = \<lparr>te_id = newTeam, te_name = name, te_slug = slugify name, te_created = now, te_updated = now\<rparr> in
              case CreateTeam r ts of
                None \<Rightarrow> (ts, Inl (409, ''team slug already exists''))
              | Some ts1 \<Rightarrow>
                  (case CreateMembership \<lparr>mb_id = newMember, mb_team = newTeam, mb_user = ac_user ac, mb_role = ''owner'', mb_created = now\<rparr> ts1 of
                     None \<Rightarrow> ((case DeleteTeam newTeam ts1 of None \<Rightarrow> ts1 | Some ts2 \<Rightarrow> ts2), Inl (500, ''internal server error''))
                   | Some ts2 \<Rightarrow>
                       (audit_Log \<lparr>al_team = Some newTeam, al_actor = ac_user ac, al_action = ''team.create'', al_resource = newTeam\<rparr> ts2,
                        Inr (team_view stamp r))))"

definition TeamHandler_List :: "(int \<Rightarrow> string) \<Rightarrow> AuthContext option \<Rightarrow> team_tables \<Rightarrow> Team list reply" where
  "TeamHandler_List stamp auth ts =
     (case auth of
        None \<Rightarrow> Inl (401, ''authentication required'')
      | Some ac \<Rightarrow>
          let teams = ListTeamsByUser (ac_user ac) ts;
              teams = (if ac_token ac = None then teams
                       else case ac_team ac of
                         None \<Rightarrow> teams
                       | Some t \<Rightarrow> (case find (\<lambda>r. te_id r = t) teams of Some r \<Rightarrow> [r] | None \<Rightarrow> []))
          in Inr (map (team_view stamp) teams))"

definition TeamHandler_Get :: "(string \<Rightarrow> bool) \<Rightarrow> (int \<Rightarrow> string) \<Rightarrow> AuthContext option \<Rightarrow> string \<Rightarrow> team_tables \<Rightarrow> Team reply" where
  "TeamHandler_Get uuid stamp auth t ts =
     (case team_gate uuid auth t ''member'' [''teams:read''] ts of
        Inl e \<Rightarrow> Inl e
      | Inr ac \<Rightarrow> (case GetTeamByID t ts of None \<Rightarrow> Inl (404, ''team not found'') | Some r \<Rightarrow> Inr (team_view stamp r)))"

definition TeamHandler_Update ::
    "(string \<Rightarrow> bool) \<Rightarrow> (int \<Rightarrow> string) \<Rightarrow> int \<Rightarrow> AuthContext option \<Rightarrow> string \<Rightarrow> js option \<Rightarrow> team_tables \<Rightarrow> team_tables \<times> Team reply" where
  "TeamHandler_Update uuid stamp now auth t body ts =
     (case team_gate uuid auth t ''admin'' [''teams:write''] ts of
        Inl e \<Rightarrow> (ts, Inl e)
      | Inr ac \<Rightarrow>
          if \<not> DecodeJSON uuid updateTeamRequest body then (ts, Inl (400, ''invalid request body''))
          else let name = go_str (the body) ''name'' in
            if name = [] then (ts, Inl (400, ''name is required''))
            else case UpdateTeam now t name (slugify name) ts of
              None \<Rightarrow> (ts, Inl (409, ''team slug already exists''))
            | Some (ts', r) \<Rightarrow>
                (audit_Log \<lparr>al_team = Some t, al_actor = ac_user ac, al_action = ''team.update'', al_resource = t\<rparr> ts', Inr (team_view stamp r)))"

definition TeamHandler_Delete :: "(string \<Rightarrow> bool) \<Rightarrow> AuthContext option \<Rightarrow> string \<Rightarrow> team_tables \<Rightarrow> team_tables \<times> unit reply" where
  "TeamHandler_Delete uuid auth t ts =
     (case team_gate uuid auth t ''owner'' [''teams:write''] ts of
        Inl e \<Rightarrow> (ts, Inl e)
      | Inr ac \<Rightarrow>
          (case DeleteTeam t ts of
             None \<Rightarrow> (ts, Inl (500, ''internal server error''))
           | Some ts' \<Rightarrow> (audit_Log \<lparr>al_team = Some t, al_actor = ac_user ac, al_action = ''team.delete'', al_resource = t\<rparr> ts', Inr ())))"

text \<open>The roles the table allows, as the console has them.\<close>

definition role_view :: "string \<Rightarrow> Role" where
  "role_view r = (if r = ''owner'' then Role_owner else if r = ''admin'' then Role_admin else Role_member)"

definition TeamHandler_ListMembers ::
    "(string \<Rightarrow> bool) \<Rightarrow> (int \<Rightarrow> string) \<Rightarrow> AuthContext option \<Rightarrow> string \<Rightarrow> team_tables \<Rightarrow> TeamMember list reply" where
  "TeamHandler_ListMembers uuid stamp auth t ts =
     (case team_gate uuid auth t ''member'' [''members:read''] ts of
        Inl e \<Rightarrow> Inl e
      | Inr ac \<Rightarrow> Inr (map (\<lambda>(m, u). \<lparr>TeamMember_id = mb_id m, TeamMember_team_id = mb_team m, TeamMember_user_id = mb_user m,
          TeamMember_role = role_view (mb_role m), TeamMember_email = us_email u, TeamMember_user_name = us_name u,
          TeamMember_created_at = stamp (mb_created m)\<rparr>) (ListMembersByTeam t ts)))"

text \<open>
  A change of role and a removal are a check, which reads the tables, and a write. The check yields the actor.
\<close>

definition update_member_check ::
    "(string \<Rightarrow> bool) \<Rightarrow> AuthContext option \<Rightarrow> string \<Rightarrow> string \<Rightarrow> js option \<Rightarrow> team_tables \<Rightarrow> AuthContext reply" where
  "update_member_check uuid auth t u body ts =
     (case team_gate uuid auth t ''owner'' [''members:write''] ts of
        Inl e \<Rightarrow> Inl e
      | Inr ac \<Rightarrow>
          if \<not> uuid u then Inl (400, ''invalid user id'')
          else if \<not> DecodeJSON uuid updateMemberRequest body then Inl (400, ''invalid request body'')
          else if go_str (the body) ''role'' = [] then Inl (400, ''role is required'')
          else case GetMembership t u ts of
            None \<Rightarrow> Inl (404, ''member not found'')
          | Some m \<Rightarrow>
              if mb_role m = ''owner'' \<and> go_str (the body) ''role'' \<noteq> ''owner'' \<and> CountOwners t ts \<le> 1
              then Inl (400, ''cannot demote the last owner'') else Inr ac)"

definition update_member_write :: "AuthContext \<Rightarrow> string \<Rightarrow> string \<Rightarrow> string \<Rightarrow> team_tables \<Rightarrow> team_tables \<times> unit reply" where
  "update_member_write ac t u role ts =
     (case UpdateMemberRole t u role ts of
        None \<Rightarrow> (ts, Inl (500, ''internal server error''))
      | Some ts' \<Rightarrow> (audit_Log \<lparr>al_team = Some t, al_actor = ac_user ac, al_action = ''member.update_role'', al_resource = u\<rparr> ts', Inr ()))"

definition TeamHandler_UpdateMember ::
    "(string \<Rightarrow> bool) \<Rightarrow> AuthContext option \<Rightarrow> string \<Rightarrow> string \<Rightarrow> js option \<Rightarrow> team_tables \<Rightarrow> team_tables \<times> unit reply" where
  "TeamHandler_UpdateMember uuid auth t u body ts =
     (case update_member_check uuid auth t u body ts of
        Inl e \<Rightarrow> (ts, Inl e)
      | Inr ac \<Rightarrow> update_member_write ac t u (go_str (the body) ''role'') ts)"

definition remove_member_check :: "(string \<Rightarrow> bool) \<Rightarrow> AuthContext option \<Rightarrow> string \<Rightarrow> string \<Rightarrow> team_tables \<Rightarrow> AuthContext reply" where
  "remove_member_check uuid auth t u ts =
     (case team_gate uuid auth t ''owner'' [''members:write''] ts of
        Inl e \<Rightarrow> Inl e
      | Inr ac \<Rightarrow>
          if \<not> uuid u then Inl (400, ''invalid user id'')
          else case GetMembership t u ts of
            None \<Rightarrow> Inl (404, ''member not found'')
          | Some m \<Rightarrow> if mb_role m = ''owner'' \<and> CountOwners t ts \<le> 1 then Inl (400, ''cannot remove the last owner'') else Inr ac)"

definition remove_member_write :: "AuthContext \<Rightarrow> string \<Rightarrow> string \<Rightarrow> team_tables \<Rightarrow> team_tables \<times> unit reply" where
  "remove_member_write ac t u ts =
     (audit_Log \<lparr>al_team = Some t, al_actor = ac_user ac, al_action = ''member.remove'', al_resource = u\<rparr> (DeleteMembership t u ts), Inr ())"

definition TeamHandler_RemoveMember :: "(string \<Rightarrow> bool) \<Rightarrow> AuthContext option \<Rightarrow> string \<Rightarrow> string \<Rightarrow> team_tables \<Rightarrow> team_tables \<times> unit reply" where
  "TeamHandler_RemoveMember uuid auth t u ts =
     (case remove_member_check uuid auth t u ts of Inl e \<Rightarrow> (ts, Inl e) | Inr ac \<Rightarrow> remove_member_write ac t u ts)"

definition invite_view :: "(int \<Rightarrow> string) \<Rightarrow> string option \<Rightarrow> invite_row \<Rightarrow> TeamInvite" where
  "invite_view stamp inviter i = \<lparr>TeamInvite_id = iv_id i, TeamInvite_team_id = iv_team i, TeamInvite_email = iv_email i,
     TeamInvite_role = role_view (iv_role i), TeamInvite_inviter_name = inviter, TeamInvite_expires_at = stamp (iv_expires i),
     TeamInvite_created_at = stamp (iv_created i)\<rparr>"

text \<open>\<open>tok\<close> is the random token; the link in the e-mail, and the table, have its hash. A failed e-mail is ignored.\<close>

definition inviteURL :: "string \<Rightarrow> (string \<Rightarrow> string) \<Rightarrow> string \<Rightarrow> string" where
  "inviteURL base hash tok = base @ ''/invites/accept/'' @ hash tok"

definition TeamHandler_CreateInvite ::
    "(string \<Rightarrow> bool) \<Rightarrow> (int \<Rightarrow> string) \<Rightarrow> (string \<Rightarrow> string) \<Rightarrow> string \<Rightarrow> int \<Rightarrow> int \<Rightarrow> string \<Rightarrow> string \<Rightarrow> AuthContext option \<Rightarrow> string \<Rightarrow> js option
      \<Rightarrow> team_tables \<Rightarrow> team_tables \<times> (string \<times> string) option \<times> TeamInvite reply" where
  "TeamHandler_CreateInvite uuid stamp hash base ttl now newId tok auth t body ts =
     (case team_gate uuid auth t ''admin'' [''invites:write''] ts of
        Inl e \<Rightarrow> (ts, None, Inl e)
      | Inr ac \<Rightarrow>
          if \<not> DecodeJSON uuid createInviteRequest body then (ts, None, Inl (400, ''invalid request body''))
          else let email = go_str (the body) ''email''; role = go_str (the body) ''role'' in
            if email = [] then (ts, None, Inl (400, ''email is required''))
            else let i = \<lparr>iv_id = newId, iv_team = t, iv_email = email, iv_role = (if role = [] then ''member'' else role),
                     iv_token = hash tok, iv_by = ac_user ac, iv_expires = now + ttl, iv_created = now\<rparr> in
              case CreateInvite i ts of
                None \<Rightarrow> (ts, None, Inl (500, ''internal server error''))
              | Some ts' \<Rightarrow>
                  (audit_Log \<lparr>al_team = Some t, al_actor = ac_user ac, al_action = ''invite.create'', al_resource = newId\<rparr> ts',
                   Some (email, inviteURL base hash tok), Inr (invite_view stamp (Some []) i)))"

definition TeamHandler_ListInvites ::
    "(string \<Rightarrow> bool) \<Rightarrow> (int \<Rightarrow> string) \<Rightarrow> int \<Rightarrow> AuthContext option \<Rightarrow> string \<Rightarrow> team_tables \<Rightarrow> TeamInvite list reply" where
  "TeamHandler_ListInvites uuid stamp now auth t ts =
     (case team_gate uuid auth t ''member'' [''invites:read''] ts of
        Inl e \<Rightarrow> Inl e
      | Inr ac \<Rightarrow> Inr (map (\<lambda>(i, u). invite_view stamp (Some (us_name u)) i) (ListInvitesByTeam now t ts)))"

definition TeamHandler_CancelInvite :: "(string \<Rightarrow> bool) \<Rightarrow> AuthContext option \<Rightarrow> string \<Rightarrow> string \<Rightarrow> team_tables \<Rightarrow> team_tables \<times> unit reply" where
  "TeamHandler_CancelInvite uuid auth t i ts =
     (case team_gate uuid auth t ''admin'' [''invites:write''] ts of
        Inl e \<Rightarrow> (ts, Inl e)
      | Inr ac \<Rightarrow>
          if \<not> uuid i then (ts, Inl (400, ''invalid invite id''))
          else (audit_Log \<lparr>al_team = Some t, al_actor = ac_user ac, al_action = ''invite.cancel'', al_resource = i\<rparr> (DeleteInvite i ts), Inr ()))"

definition acceptInviteRequest :: gotype where
  "acceptInviteRequest = GStruct [(''token'', GString)]"

definition TeamHandler_AcceptInvite ::
    "(string \<Rightarrow> bool) \<Rightarrow> int \<Rightarrow> string \<Rightarrow> AuthContext option \<Rightarrow> js option \<Rightarrow> team_tables \<Rightarrow> team_tables \<times> unit reply" where
  "TeamHandler_AcceptInvite uuid now newId auth body ts =
     (case auth of
        None \<Rightarrow> (ts, Inl (401, ''authentication required''))
      | Some ac \<Rightarrow>
          if \<not> DecodeJSON uuid acceptInviteRequest body then (ts, Inl (400, ''invalid request body''))
          else case GetInviteByToken now (go_str (the body) ''token'') ts of
            None \<Rightarrow> (ts, Inl (400, ''invalid or expired invite token''))
          | Some i \<Rightarrow>
              (case GetUserByID (ac_user ac) ts of
                 None \<Rightarrow> (ts, Inl (500, ''internal server error''))
               | Some u \<Rightarrow>
                   if us_email u \<noteq> iv_email i then (ts, Inl (403, ''invite is for a different email address''))
                   else case CreateMembership \<lparr>mb_id = newId, mb_team = iv_team i, mb_user = ac_user ac, mb_role = iv_role i, mb_created = now\<rparr> ts of
                     None \<Rightarrow> (ts, Inl (409, ''already a member of this team''))
                   | Some ts' \<Rightarrow>
                       (audit_Log \<lparr>al_team = Some (iv_team i), al_actor = ac_user ac, al_action = ''invite.accept'', al_resource = iv_id i\<rparr>
                          (DeleteInvite (iv_id i) ts'), Inr ())))"

section \<open>Requests one after another\<close>

datatype team_op =
    TUser user_row
  | TTerminal string
  | TCreate int string string "AuthContext option" "js option"
  | TUpdate int "AuthContext option" string "js option"
  | TDelete "AuthContext option" string
  | TUpdateMember "AuthContext option" string string "js option"
  | TRemoveMember "AuthContext option" string string
  | TInvite string int int string string "AuthContext option" string "js option"
  | TCancel "AuthContext option" string string
  | TAccept int string "AuthContext option" "js option"

text \<open>Signing up adds a user, opening a terminal a session that names the team; the rest are the handlers.\<close>

fun team_op_step :: "(string \<Rightarrow> bool) \<Rightarrow> (string \<Rightarrow> string) \<Rightarrow> team_tables \<Rightarrow> team_op \<Rightarrow> team_tables" where
  "team_op_step uuid hash ts (TUser u) = (case CreateUser u ts of None \<Rightarrow> ts | Some ts' \<Rightarrow> ts')"
| "team_op_step uuid hash ts (TTerminal t) = (if has_team t ts then ts\<lparr>tb_terminals := t # tb_terminals ts\<rparr> else ts)"
| "team_op_step uuid hash ts (TCreate now t m auth body) = fst (TeamHandler_Create uuid (\<lambda>_. []) now t m auth body ts)"
| "team_op_step uuid hash ts (TUpdate now auth t body) = fst (TeamHandler_Update uuid (\<lambda>_. []) now auth t body ts)"
| "team_op_step uuid hash ts (TDelete auth t) = fst (TeamHandler_Delete uuid auth t ts)"
| "team_op_step uuid hash ts (TUpdateMember auth t u body) = fst (TeamHandler_UpdateMember uuid auth t u body ts)"
| "team_op_step uuid hash ts (TRemoveMember auth t u) = fst (TeamHandler_RemoveMember uuid auth t u ts)"
| "team_op_step uuid hash ts (TInvite base ttl now i tok auth t body) =
     fst (TeamHandler_CreateInvite uuid (\<lambda>_. []) hash base ttl now i tok auth t body ts)"
| "team_op_step uuid hash ts (TCancel auth t i) = fst (TeamHandler_CancelInvite uuid auth t i ts)"
| "team_op_step uuid hash ts (TAccept now m auth body) = fst (TeamHandler_AcceptInvite uuid now m auth body ts)"

fun op_auth :: "team_op \<Rightarrow> AuthContext option" where
  "op_auth (TUser u) = None"
| "op_auth (TTerminal t) = None"
| "op_auth (TCreate now t m auth body) = auth"
| "op_auth (TUpdate now auth t body) = auth"
| "op_auth (TDelete auth t) = auth"
| "op_auth (TUpdateMember auth t u body) = auth"
| "op_auth (TRemoveMember auth t u) = auth"
| "op_auth (TInvite base ttl now i tok auth t body) = auth"
| "op_auth (TCancel auth t i) = auth"
| "op_auth (TAccept now m auth body) = auth"

definition no_teams :: team_tables where
  "no_teams = \<lparr>tb_users = [], tb_teams = [], tb_members = [], tb_invites = [], tb_terminals = [], tb_audit = []\<rparr>"

text \<open>The constraints of the schema, and that every team has an owner.\<close>

definition consistent :: "team_tables \<Rightarrow> bool" where
  "consistent ts =
     (distinct (map us_id (tb_users ts)) \<and> distinct (map te_id (tb_teams ts)) \<and>
      distinct (map (\<lambda>m. (mb_team m, mb_user m)) (tb_members ts)) \<and>
      list_all (\<lambda>m. has_team (mb_team m) ts \<and> has_user (mb_user m) ts \<and> mb_role m \<in> set member_roles) (tb_members ts) \<and>
      list_all (\<lambda>i. has_team (iv_team i) ts \<and> has_user (iv_by i) ts \<and> iv_role i \<in> set invite_roles) (tb_invites ts) \<and>
      list_all (\<lambda>t. has_team t ts) (tb_terminals ts))"

definition owned :: "team_tables \<Rightarrow> bool" where
  "owned ts = list_all (\<lambda>r. list_ex (\<lambda>m. mb_team m = te_id r \<and> mb_role m = ''owner'') (tb_members ts)) (tb_teams ts)"

definition member_role :: "string \<Rightarrow> string \<Rightarrow> team_tables \<Rightarrow> string option" where
  "member_role t u ts = map_option mb_role (GetMembership t u ts)"

text \<open>The request is one of an owner of the team, and a token it comes with may change members or teams.\<close>

definition by_owner :: "team_tables \<Rightarrow> team_op \<Rightarrow> string \<Rightarrow> bool" where
  "by_owner ts op t =
     (case op_auth op of
        None \<Rightarrow> False
      | Some ac \<Rightarrow> member_role t (ac_user ac) ts = Some ''owner'' \<and>
          (ac_token ac = None \<or> tokenHasAnyScope (ac_scopes ac) [''members:write'', ''teams:write'']))"

section \<open>Constraints and owners are kept\<close>

lemma audit_Log_keeps [simp]:
  "tb_users (audit_Log a ts) = tb_users ts" "tb_teams (audit_Log a ts) = tb_teams ts" "tb_members (audit_Log a ts) = tb_members ts"
  "tb_invites (audit_Log a ts) = tb_invites ts" "tb_terminals (audit_Log a ts) = tb_terminals ts"
  by (simp_all add: audit_Log_def)

lemma kept_by_tables:
  assumes "tb_users ts' = tb_users ts" "tb_teams ts' = tb_teams ts" "tb_members ts' = tb_members ts" "tb_invites ts' = tb_invites ts"
    "tb_terminals ts' = tb_terminals ts"
  shows "consistent ts' = consistent ts" "owned ts' = owned ts" "member_role t u ts' = member_role t u ts" "GetMembership t u ts' = GetMembership t u ts"
  by (simp_all add: consistent_def owned_def member_role_def GetMembership_def assms)

lemma audit_kept [simp]:
  "consistent (audit_Log a ts) = consistent ts" "owned (audit_Log a ts) = owned ts" "member_role t u (audit_Log a ts) = member_role t u ts"
  using kept_by_tables [of "audit_Log a ts" ts] by simp_all

lemma gate_role:
  assumes "team_gate uuid auth t r req ts = Inr ac"
  shows "\<exists>m. auth = Some ac \<and> uuid t \<and> t \<noteq> [] \<and> GetMembership t (ac_user ac) ts = Some m \<and> AtLeast (mb_role m) r \<and>
    (ac_token ac = None \<or> tokenHasAnyScope (ac_scopes ac) req)"
proof -
  have p: "t \<noteq> []" "uuid t" and c: "CheckTeamRole auth t r req ts = Inr ac"
    using assms by (cases "t = []"; cases "uuid t"; simp add: team_gate_def parseTeamID_def)+
  then obtain a where a: "auth = Some a" by (cases auth) (simp_all add: CheckTeamRole_def)
  with c p show ?thesis
    by (cases "GetMembership t (ac_user a) ts") (simp_all add: CheckTeamRole_def split: if_splits)
qed

lemma at_least_owner: "AtLeast r ''owner'' \<longleftrightarrow> r = ''owner''"
  by (auto simp: AtLeast_def role_rank_def)

lemma gate_owner:
  assumes "team_gate uuid auth t ''owner'' req ts = Inr ac"
  shows "auth = Some ac" "member_role t (ac_user ac) ts = Some ''owner''" "ac_token ac = None \<or> tokenHasAnyScope (ac_scopes ac) req"
  using gate_role [OF assms] by (auto simp: at_least_owner member_role_def)

lemma CreateMembership_kept:
  assumes "CreateMembership m ts = Some ts'" and "consistent ts"
  shows "consistent ts'" "owned ts \<Longrightarrow> owned ts'"
proof -
  have ts': "ts' = ts\<lparr>tb_members := tb_members ts @ [m]\<rparr>" and c: "has_team (mb_team m) ts" "has_user (mb_user m) ts" "mb_role m \<in> set member_roles"
    and "\<not> list_ex (\<lambda>r. mb_id r = mb_id m \<or> mb_team r = mb_team m \<and> mb_user r = mb_user m) (tb_members ts)"
    using assms(1) by (simp_all add: CreateMembership_def split: if_splits)
  then have "(mb_team m, mb_user m) \<notin> (\<lambda>m. (mb_team m, mb_user m)) ` set (tb_members ts)" by (force simp: list_ex_iff)
  then show "consistent ts'" using assms(2) c unfolding ts' consistent_def by (simp add: member_roles_def)
  show "owned ts \<Longrightarrow> owned ts'" by (auto simp: ts' owned_def list_all_iff)
qed

lemma DeleteInvite_kept: "consistent ts \<Longrightarrow> consistent (DeleteInvite i ts)" "owned (DeleteInvite i ts) = owned ts"
  by (auto simp: DeleteInvite_def consistent_def owned_def list_all_iff)

lemma CreateInvite_kept: "CreateInvite i ts = Some ts' \<Longrightarrow> consistent ts \<Longrightarrow> consistent ts'" "CreateInvite i ts = Some ts' \<Longrightarrow> owned ts' = owned ts"
  by (auto simp: CreateInvite_def consistent_def owned_def split: if_splits)

lemma CreateUser_kept: "CreateUser u ts = Some ts' \<Longrightarrow> consistent ts \<Longrightarrow> consistent ts'" "CreateUser u ts = Some ts' \<Longrightarrow> owned ts' = owned ts"
  by (fastforce simp: CreateUser_def consistent_def list_ex_iff list_all_iff split: if_splits)
    (simp add: CreateUser_def owned_def split: if_splits, auto)

lemma distinct_map_filter_keep: "distinct (map f xs) \<Longrightarrow> distinct (map f (filter P xs))"
  by (induction xs) auto

lemma DeleteTeam_kept: "DeleteTeam t ts = Some ts' \<Longrightarrow> consistent ts \<Longrightarrow> consistent ts'" "DeleteTeam t ts = Some ts' \<Longrightarrow> owned ts \<Longrightarrow> owned ts'"
proof -
  assume "DeleteTeam t ts = Some ts'"
  then have ts': "tb_users ts' = tb_users ts" "tb_teams ts' = filter (\<lambda>r. te_id r \<noteq> t) (tb_teams ts)"
    "tb_members ts' = filter (\<lambda>m. mb_team m \<noteq> t) (tb_members ts)" "tb_invites ts' = filter (\<lambda>i. iv_team i \<noteq> t) (tb_invites ts)"
    "tb_terminals ts' = tb_terminals ts" "t \<notin> set (tb_terminals ts)"
    by (auto simp: DeleteTeam_def split: if_splits)
  have team: "i \<noteq> t \<Longrightarrow> has_team i ts' = has_team i ts" for i by (auto simp: ts' list_ex_iff)
  show "consistent ts \<Longrightarrow> consistent ts'"
  proof -
    assume c: "consistent ts"
    have "has_team i ts'" if i: "i \<in> set (tb_terminals ts)" for i
    proof -
      from i c have "has_team i ts" by (simp add: consistent_def list_all_iff)
      moreover from i ts'(6) have "i \<noteq> t" by auto
      ultimately show ?thesis using team by simp
    qed
    then have "list_all (\<lambda>i. has_team i ts') (tb_terminals ts')" by (simp add: ts'(5) list_all_iff)
    with c team show "consistent ts'" by (simp add: consistent_def ts'(1-4) list_all_iff distinct_map_filter_keep)
  qed
  show "owned ts \<Longrightarrow> owned ts'" by (fastforce simp: owned_def ts' list_all_iff list_ex_iff)
qed

lemma UpdateTeam_kept:
  assumes "UpdateTeam now t name slug ts = Some (ts', r)"
  shows "consistent ts' = consistent ts" "owned ts' = owned ts"
proof -
  let ?f = "\<lambda>r. if te_id r = t then r\<lparr>te_name := name, te_slug := slug, te_updated := now\<rparr> else r"
  have ts': "tb_teams ts' = map ?f (tb_teams ts)" "tb_users ts' = tb_users ts" "tb_members ts' = tb_members ts" "tb_invites ts' = tb_invites ts"
    "tb_terminals ts' = tb_terminals ts"
    using assms by (auto simp: UpdateTeam_def Let_def split: option.splits if_splits)
  have f: "te_id (?f r) = te_id r" for r by simp
  have m: "map (te_id \<circ> ?f) rs = map te_id rs" "list_ex (\<lambda>r. te_id r = i) (map ?f rs) = list_ex (\<lambda>r. te_id r = i) rs"
    "list_all (\<lambda>r. P (te_id r)) (map ?f rs) = list_all (\<lambda>r. P (te_id r)) rs" for rs i P
    by (induction rs) auto
  show "consistent ts' = consistent ts" unfolding ts' consistent_def list.map_comp m ..
  show "owned ts' = owned ts" unfolding ts' owned_def by (rule m(3))
qed

lemma membership_unique:
  assumes "consistent ts" and "m \<in> set (tb_members ts)"
  shows "GetMembership (mb_team m) (mb_user m) ts = Some m"
proof -
  have "distinct (map (\<lambda>m. (mb_team m, mb_user m)) ms) \<Longrightarrow> m \<in> set ms \<Longrightarrow>
      find (\<lambda>r. mb_team r = mb_team m \<and> mb_user r = mb_user m) ms = Some m" for ms
    by (induction ms) force+
  with assms show ?thesis by (simp add: consistent_def GetMembership_def)
qed

lemma membership_in: "GetMembership t u ts = Some m \<Longrightarrow> m \<in> set (tb_members ts) \<and> mb_team m = t \<and> mb_user m = u"
  unfolding GetMembership_def by (drule find_SomeD) simp

lemma other_owner:
  assumes "consistent ts" and "CountOwners t ts > 1"
  shows "\<exists>m \<in> set (tb_members ts). mb_team m = t \<and> mb_role m = ''owner'' \<and> mb_user m \<noteq> u"
proof (rule ccontr)
  let ?os = "filter (\<lambda>m. mb_team m = t \<and> mb_role m = ''owner'') (tb_members ts)"
  let ?k = "\<lambda>m. (mb_team m, mb_user m)"
  assume "\<not> ?thesis"
  then have "set (map ?k ?os) \<subseteq> {(t, u)}" by auto
  moreover have "distinct (map ?k ?os)" using assms(1) by (simp add: consistent_def distinct_map_filter_keep)
  ultimately have "length (map ?k ?os) \<le> 1"
    using card_mono [of "{(t, u)}" "set (map ?k ?os)"] distinct_card [of "map ?k ?os"] by simp
  then show False using assms(2) by (simp add: CountOwners_def)
qed

text \<open>
  What both writes need from their check: when the member is an owner and does not stay one, there is another owner of
  the team. Owners other than the member are not touched by the writes.
\<close>

lemma owned_without:
  assumes "consistent ts" and "owned ts" and "GetMembership t u ts = Some m" and "mb_role m = ''owner'' \<Longrightarrow> CountOwners t ts > 1"
    and "tb_teams ts' = tb_teams ts"
    and "\<And>m. m \<in> set (tb_members ts) \<Longrightarrow> \<not> (mb_team m = t \<and> mb_user m = u) \<Longrightarrow> m \<in> set (tb_members ts')"
  shows "owned ts'"
proof -
  have "\<exists>o'\<in>set (tb_members ts). mb_team o' = te_id r \<and> mb_role o' = ''owner'' \<and> \<not> (mb_team o' = t \<and> mb_user o' = u)"
    if r: "r \<in> set (tb_teams ts)" for r
  proof (cases "te_id r = t \<and> mb_role m = ''owner''")
    case True
    with other_owner [OF assms(1), of t u] assms(4) show ?thesis by auto
  next
    case False
    from assms(2) r obtain o' where o': "o' \<in> set (tb_members ts)" "mb_team o' = te_id r" "mb_role o' = ''owner''"
      by (auto simp: owned_def list_all_iff list_ex_iff)
    with False membership_unique [OF assms(1) o'(1)] assms(3) show ?thesis by auto
  qed
  with assms(5,6) show ?thesis by (fastforce simp: owned_def list_all_iff list_ex_iff)
qed

lemma update_member_passed:
  assumes "update_member_check uuid auth t u body ts = Inr ac"
  shows "auth = Some ac" "member_role t (ac_user ac) ts = Some ''owner''" "ac_token ac = None \<or> tokenHasAnyScope (ac_scopes ac) [''members:write'']"
    "\<exists>m. GetMembership t u ts = Some m \<and> (mb_role m = ''owner'' \<and> go_str (the body) ''role'' \<noteq> ''owner'' \<longrightarrow> CountOwners t ts > 1)"
proof -
  obtain a where a: "team_gate uuid auth t ''owner'' [''members:write''] ts = Inr a"
    using assms by (cases "team_gate uuid auth t ''owner'' [''members:write''] ts") (simp_all add: update_member_check_def)
  obtain m where m: "GetMembership t u ts = Some m"
    using assms a by (cases "GetMembership t u ts") (simp_all add: update_member_check_def split: if_splits)
  have "a = ac" "\<not> (mb_role m = ''owner'' \<and> go_str (the body) ''role'' \<noteq> ''owner'' \<and> CountOwners t ts \<le> 1)"
    using assms a m by (simp_all add: update_member_check_def split: if_splits)
  with gate_owner [OF a] m show "auth = Some ac" "member_role t (ac_user ac) ts = Some ''owner''"
    "ac_token ac = None \<or> tokenHasAnyScope (ac_scopes ac) [''members:write'']"
    "\<exists>m. GetMembership t u ts = Some m \<and> (mb_role m = ''owner'' \<and> go_str (the body) ''role'' \<noteq> ''owner'' \<longrightarrow> CountOwners t ts > 1)"
    by auto
qed

lemma remove_member_passed:
  assumes "remove_member_check uuid auth t u ts = Inr ac"
  shows "auth = Some ac" "member_role t (ac_user ac) ts = Some ''owner''" "ac_token ac = None \<or> tokenHasAnyScope (ac_scopes ac) [''members:write'']"
    "\<exists>m. GetMembership t u ts = Some m \<and> (mb_role m = ''owner'' \<longrightarrow> CountOwners t ts > 1)"
proof -
  obtain a where a: "team_gate uuid auth t ''owner'' [''members:write''] ts = Inr a"
    using assms by (cases "team_gate uuid auth t ''owner'' [''members:write''] ts") (simp_all add: remove_member_check_def)
  obtain m where m: "GetMembership t u ts = Some m"
    using assms a by (cases "GetMembership t u ts") (simp_all add: remove_member_check_def split: if_splits)
  have "a = ac" "\<not> (mb_role m = ''owner'' \<and> CountOwners t ts \<le> 1)"
    using assms a m by (simp_all add: remove_member_check_def split: if_splits)
  with gate_owner [OF a] m show "auth = Some ac" "member_role t (ac_user ac) ts = Some ''owner''"
    "ac_token ac = None \<or> tokenHasAnyScope (ac_scopes ac) [''members:write'']"
    "\<exists>m. GetMembership t u ts = Some m \<and> (mb_role m = ''owner'' \<longrightarrow> CountOwners t ts > 1)"
    by auto
qed

lemma UpdateMemberRole_consistent:
  assumes "UpdateMemberRole t u role ts = Some ts'" and "consistent ts"
  shows "consistent ts'"
proof -
  let ?f = "\<lambda>m. if mb_team m = t \<and> mb_user m = u then m\<lparr>mb_role := role\<rparr> else m"
  have ts': "ts' = ts\<lparr>tb_members := map ?f (tb_members ts)\<rparr>"
    and r: "role \<in> set member_roles \<or> \<not> list_ex (\<lambda>m. mb_team m = t \<and> mb_user m = u) (tb_members ts)"
    using assms(1) by (auto simp: UpdateMemberRole_def split: if_splits)
  have k: "(mb_team (?f m), mb_user (?f m)) = (mb_team m, mb_user m)" for m by simp
  have "list_all (\<lambda>m. has_team (mb_team m) ts \<and> has_user (mb_user m) ts \<and> mb_role m \<in> set member_roles) (map ?f (tb_members ts))"
    using assms(2) r by (auto simp: consistent_def list_all_iff list_ex_iff)
  then show ?thesis using assms(2) unfolding ts' consistent_def by (simp add: comp_def k del: list.pred_map)
qed

lemma update_write_consistent: "consistent ts \<Longrightarrow> consistent (fst (update_member_write ac t u role ts))"
  using UpdateMemberRole_consistent by (simp add: update_member_write_def split: option.split)

lemma update_member_kept:
  assumes "update_member_check uuid auth t u body ts = Inr ac" and "consistent ts"
  shows "consistent (fst (update_member_write ac t u (go_str (the body) ''role'') ts))"
    "owned ts \<Longrightarrow> owned (fst (update_member_write ac t u (go_str (the body) ''role'') ts))"
proof -
  let ?role = "go_str (the body) ''role''"
  show "consistent (fst (update_member_write ac t u ?role ts))"
    using assms(2) by (rule update_write_consistent)
  assume o: "owned ts"
  obtain m where m: "GetMembership t u ts = Some m" "mb_role m = ''owner'' \<and> ?role \<noteq> ''owner'' \<longrightarrow> CountOwners t ts > 1"
    using update_member_passed(4) [OF assms(1)] by blast
  show "owned (fst (update_member_write ac t u ?role ts))"
  proof (cases "UpdateMemberRole t u ?role ts")
    case None
    then show ?thesis using o by (simp add: update_member_write_def)
  next
    case (Some ts')
    then have ts': "ts' = ts\<lparr>tb_members := map (\<lambda>m. if mb_team m = t \<and> mb_user m = u then m\<lparr>mb_role := ?role\<rparr> else m) (tb_members ts)\<rparr>"
      by (simp add: UpdateMemberRole_def split: if_splits)
    have "owned ts'"
    proof (cases "?role = ''owner''")
      case True
      let ?f = "\<lambda>m. if mb_team m = t \<and> mb_user m = u then m\<lparr>mb_role := ?role\<rparr> else m"
      have "list_ex (\<lambda>m. mb_team m = i \<and> mb_role m = ''owner'') ms \<Longrightarrow> list_ex (\<lambda>m. mb_team m = i \<and> mb_role m = ''owner'') (map ?f ms)" for i ms
        by (induction ms) (auto simp: True)
      note ex = this
      have t: "tb_teams ts' = tb_teams ts" "tb_members ts' = map ?f (tb_members ts)" by (simp_all add: ts')
      show ?thesis unfolding owned_def list_all_iff t using o ex unfolding owned_def list_all_iff by blast
    next
      case False
      show ?thesis using m(2) False by (intro owned_without [OF assms(2) o m(1)]) (auto simp: ts')
    qed
    then show ?thesis using Some by (simp add: update_member_write_def)
  qed
qed

lemma remove_member_kept:
  assumes "remove_member_check uuid auth t u ts = Inr ac" and "consistent ts"
  shows "consistent (fst (remove_member_write ac t u ts))" "owned ts \<Longrightarrow> owned (fst (remove_member_write ac t u ts))"
proof -
  show "consistent (fst (remove_member_write ac t u ts))"
    using assms(2) by (simp add: remove_member_write_def DeleteMembership_def consistent_def distinct_map_filter_keep list_all_iff)
  obtain m where m: "GetMembership t u ts = Some m" "mb_role m = ''owner'' \<longrightarrow> CountOwners t ts > 1"
    using remove_member_passed(4) [OF assms(1)] by blast
  assume "owned ts"
  from owned_without [OF assms(2) this m(1), of "fst (remove_member_write ac t u ts)"] m(2)
  show "owned (fst (remove_member_write ac t u ts))" by (auto simp: remove_member_write_def DeleteMembership_def)
qed

section \<open>Every team keeps an owner\<close>

text \<open>A team is created with its owner or not at all: a membership that can not be stored takes the team back.\<close>

lemma Create_written [consumes 1, case_names kept created]:
  assumes "consistent ts"
  obtains (kept) h where "h = fst (TeamHandler_Create uuid stamp now t m auth body ts)" "tb_users h = tb_users ts" "tb_teams h = tb_teams ts"
      "tb_members h = tb_members ts" "tb_invites h = tb_invites ts" "tb_terminals h = tb_terminals ts"
  | (created) h ac r o' where "h = fst (TeamHandler_Create uuid stamp now t m auth body ts)" "auth = Some ac" "ac_token ac = None"
      "\<not> has_team t ts" "has_user (ac_user ac) ts" "o' = \<lparr>mb_id = m, mb_team = t, mb_user = ac_user ac, mb_role = ''owner'', mb_created = now\<rparr>"
      "te_id r = t" "tb_users h = tb_users ts" "tb_teams h = tb_teams ts @ [r]" "tb_members h = tb_members ts @ [o']"
      "tb_invites h = tb_invites ts" "tb_terminals h = tb_terminals ts"
proof (cases "\<exists>ac. auth = Some ac \<and> ac_token ac = None \<and> DecodeJSON uuid createTeamRequest body \<and> go_str (the body) ''name'' \<noteq> []")
  case False
  then have "fst (TeamHandler_Create uuid stamp now t m auth body ts) = ts" by (cases auth) (auto simp: TeamHandler_Create_def)
  then show thesis using kept by simp
next
  case True
  then obtain ac where ac: "auth = Some ac" "ac_token ac = None" "DecodeJSON uuid createTeamRequest body" "go_str (the body) ''name'' \<noteq> []" by blast
  let ?r = "\<lparr>te_id = t, te_name = go_str (the body) ''name'', te_slug = slugify (go_str (the body) ''name''), te_created = now, te_updated = now\<rparr>"
  let ?m = "\<lparr>mb_id = m, mb_team = t, mb_user = ac_user ac, mb_role = ''owner'', mb_created = now\<rparr>"
  show thesis
  proof (cases "CreateTeam ?r ts")
    case None
    then show thesis using ac kept by (simp add: TeamHandler_Create_def Let_def)
  next
    case (Some ts1)
    note c = this
    then have ts1: "ts1 = ts\<lparr>tb_teams := tb_teams ts @ [?r]\<rparr>" and new: "\<not> has_team t ts"
      by (auto simp: CreateTeam_def list_ex_iff split: if_splits)
    show thesis
    proof (cases "CreateMembership ?m ts1")
      case None
      have "filter (\<lambda>r. te_id r \<noteq> t) (tb_teams ts) = tb_teams ts" "filter (\<lambda>m. mb_team m \<noteq> t) (tb_members ts) = tb_members ts"
        "filter (\<lambda>i. iv_team i \<noteq> t) (tb_invites ts) = tb_invites ts" "t \<notin> set (tb_terminals ts)"
        using new assms by (auto simp: filter_id_conv consistent_def list_all_iff list_ex_iff)
      then show thesis using ac c None kept by (simp add: TeamHandler_Create_def Let_def DeleteTeam_def ts1)
    next
      case (Some ts2)
      have "tb_users ts2 = tb_users ts" "tb_teams ts2 = tb_teams ts @ [?r]" "tb_members ts2 = tb_members ts @ [?m]" "tb_invites ts2 = tb_invites ts"
        "tb_terminals ts2 = tb_terminals ts" "has_user (ac_user ac) ts"
        using Some unfolding CreateMembership_def ts1 by (auto split: if_splits)
      then show thesis using ac c Some new by (intro created [OF refl ac(1,2) new]) (simp_all add: TeamHandler_Create_def Let_def)
    qed
  qed
qed

lemma Create_kept:
  assumes "consistent ts"
  shows "consistent (fst (TeamHandler_Create uuid stamp now t m auth body ts))"
    "owned ts \<Longrightarrow> owned (fst (TeamHandler_Create uuid stamp now t m auth body ts))"
proof -
  have "consistent (fst (TeamHandler_Create uuid stamp now t m auth body ts)) \<and>
    (owned ts \<longrightarrow> owned (fst (TeamHandler_Create uuid stamp now t m auth body ts)))"
    using assms
  proof (cases rule: Create_written [of ts uuid stamp now t m auth body])
    case (kept h)
    then show ?thesis using assms kept_by_tables [OF kept(2-6)] by simp
  next
    case (created h ac r o')
    have "(t, ac_user ac) \<notin> (\<lambda>m. (mb_team m, mb_user m)) ` set (tb_members ts)" "t \<notin> te_id ` set (tb_teams ts)"
      using assms created(4) by (auto simp: consistent_def list_all_iff list_ex_iff)
    then have "consistent h" using assms created(5-7) unfolding consistent_def created(8-12) by (auto simp: list_all_iff member_roles_def)
    moreover have "owned ts \<Longrightarrow> owned h" using created(6,7) unfolding owned_def created(8-12) by (auto simp: list_all_iff)
    ultimately show ?thesis using created(1) by simp
  qed
  then show "consistent (fst (TeamHandler_Create uuid stamp now t m auth body ts))"
    "owned ts \<Longrightarrow> owned (fst (TeamHandler_Create uuid stamp now t m auth body ts))" by blast+
qed

lemma gate_cases:
  obtains (refused) e where "team_gate uuid auth t r req ts = Inl e"
  | (passed) ac where "team_gate uuid auth t r req ts = Inr ac"
  by (cases "team_gate uuid auth t r req ts") auto

lemma Accept_written:
  obtains (same) "fst (TeamHandler_AcceptInvite uuid now m auth body ts) = ts"
  | (joined) ac i u ts' a where "auth = Some ac" "GetInviteByToken now (go_str (the body) ''token'') ts = Some i"
      "GetUserByID (ac_user ac) ts = Some u" "us_email u = iv_email i"
      "CreateMembership \<lparr>mb_id = m, mb_team = iv_team i, mb_user = ac_user ac, mb_role = iv_role i, mb_created = now\<rparr> ts = Some ts'"
      "fst (TeamHandler_AcceptInvite uuid now m auth body ts) = audit_Log a (DeleteInvite (iv_id i) ts')"
proof (cases "fst (TeamHandler_AcceptInvite uuid now m auth body ts) = ts")
  case True
  then show thesis by (rule same)
next
  case False
  note h = TeamHandler_AcceptInvite_def
  obtain ac where a: "auth = Some ac" using False by (cases auth) (simp_all add: h)
  have d: "DecodeJSON uuid acceptInviteRequest body" using False a by (cases "DecodeJSON uuid acceptInviteRequest body") (simp_all add: h)
  obtain i where i: "GetInviteByToken now (go_str (the body) ''token'') ts = Some i"
    using False a d by (cases "GetInviteByToken now (go_str (the body) ''token'') ts") (simp_all add: h)
  obtain u where u: "GetUserByID (ac_user ac) ts = Some u" using False a d i by (cases "GetUserByID (ac_user ac) ts") (simp_all add: h)
  have e: "us_email u = iv_email i" using False a d i u by (cases "us_email u = iv_email i") (simp_all add: h)
  let ?c = "CreateMembership \<lparr>mb_id = m, mb_team = iv_team i, mb_user = ac_user ac, mb_role = iv_role i, mb_created = now\<rparr> ts"
  obtain ts' where c: "?c = Some ts'" using False a d i u e by (cases ?c) (simp_all add: h)
  show thesis using a d i u e c by (intro joined [OF a i u e c]) (simp add: h)
qed

lemma step_kept:
  assumes "consistent ts"
  shows "consistent (team_op_step uuid hash ts op) \<and> (owned ts \<longrightarrow> owned (team_op_step uuid hash ts op))"
proof (cases op)
  case (TUser u)
  then show ?thesis using assms CreateUser_kept [of u ts] by (auto split: option.split)
next
  case (TTerminal t)
  then show ?thesis using assms by (auto simp: consistent_def owned_def)
next
  case (TCreate now t m auth body)
  then show ?thesis using Create_kept [OF assms] by simp
next
  case (TUpdate now auth t body)
  then show ?thesis using assms UpdateTeam_kept
    by (cases rule: gate_cases [of uuid auth t "''admin''" "[''teams:write'']" ts])
      (auto simp: TeamHandler_Update_def Let_def split: option.split prod.split)
next
  case (TDelete auth t)
  then show ?thesis using assms DeleteTeam_kept [of t ts]
    by (cases rule: gate_cases [of uuid auth t "''owner''" "[''teams:write'']" ts])
      (auto simp: TeamHandler_Delete_def split: option.split)
next
  case (TUpdateMember auth t u body)
  then show ?thesis using assms update_member_kept [OF _ assms] by (auto simp: TeamHandler_UpdateMember_def split: sum.split)
next
  case (TRemoveMember auth t u)
  then show ?thesis using assms remove_member_kept [OF _ assms] by (auto simp: TeamHandler_RemoveMember_def split: sum.split)
next
  case (TInvite base ttl now i tok auth t body)
  then show ?thesis using assms CreateInvite_kept
    by (cases rule: gate_cases [of uuid auth t "''admin''" "[''invites:write'']" ts])
      (auto simp: TeamHandler_CreateInvite_def Let_def split: option.split)
next
  case (TCancel auth t i)
  then show ?thesis using assms
    by (cases rule: gate_cases [of uuid auth t "''admin''" "[''invites:write'']" ts]) (simp_all add: TeamHandler_CancelInvite_def DeleteInvite_kept)
next
  case (TAccept now m auth body)
  then show ?thesis
  proof (cases rule: Accept_written [of uuid now m auth body ts])
    case same
    then show ?thesis using assms TAccept by simp
  next
    case (joined ac i u ts' a)
    then show ?thesis using TAccept CreateMembership_kept [OF joined(5) assms] by (simp add: DeleteInvite_kept)
  qed
qed

interpretation team_run: event_machine "team_op_step uuid hash" "\<lambda>ts. consistent ts \<and> owned ts"
  by unfold_locales (simp add: step_kept)

text \<open>
  C8: Every team keeps an owner. Whatever sign-ups and requests reach the API one after another, by whomever, with whatever
  bodies, the tables stay consistent, with at most one membership per user and team, only known roles and no invite that
  would make someone an owner; and every team has at least one owner.
\<close>

lemma teams_keep_owner:
  "let ts = foldl (team_op_step uuid hash) no_teams ops in consistent ts \<and> owned ts"
  unfolding Let_def by (rule team_run.inv_run) (simp add: no_teams_def consistent_def owned_def)

section \<open>Who can change roles\<close>

lemma role_kept_filter:
  assumes "tb_members ts' = filter Q (tb_members ts)" and "\<And>m. mb_team m = t \<Longrightarrow> Q m"
  shows "member_role t u ts' = member_role t u ts"
proof -
  have "find (\<lambda>m. mb_team m = t \<and> mb_user m = u) (filter Q ms) = find (\<lambda>m. mb_team m = t \<and> mb_user m = u) ms" for ms
    using assms(2) by (induction ms) auto
  then show ?thesis unfolding member_role_def GetMembership_def assms(1) by (rule arg_cong)
qed

lemma role_kept_map:
  assumes "tb_members ts' = map f (tb_members ts)" and "\<And>m. mb_team m = t \<Longrightarrow> f m = m" and "\<And>m. mb_team (f m) = mb_team m"
  shows "member_role t u ts' = member_role t u ts"
proof -
  have "mb_team (f m) = t \<and> mb_user (f m) = u \<longleftrightarrow> mb_team m = t \<and> mb_user m = u" for m
    using assms(2,3) by metis
  then have "find (\<lambda>m. mb_team m = t \<and> mb_user m = u) (map f ms) = find (\<lambda>m. mb_team m = t \<and> mb_user m = u) ms" for ms
    using assms(2) by (induction ms) auto
  then show ?thesis unfolding member_role_def GetMembership_def assms(1) by (rule arg_cong)
qed

lemma role_appended:
  "tb_members ts' = tb_members ts @ [m] \<Longrightarrow> GetMembership (mb_team m) (mb_user m) ts = None \<Longrightarrow>
   member_role t u ts' = (if t = mb_team m \<and> u = mb_user m then Some (mb_role m) else member_role t u ts)"
proof -
  have f: "find P (xs @ [y]) = (case find P xs of Some x \<Rightarrow> Some x | None \<Rightarrow> if P y then Some y else None)" for P xs and y :: membership_row
    by (induction xs) auto
  show "tb_members ts' = tb_members ts @ [m] \<Longrightarrow> GetMembership (mb_team m) (mb_user m) ts = None \<Longrightarrow> ?thesis"
    by (auto simp: member_role_def GetMembership_def f split: option.split)
qed

lemma role_updated:
  assumes "t' \<noteq> t"
  shows "member_role t' u' (fst (update_member_write ac t u role ts)) = member_role t' u' ts"
proof (cases "UpdateMemberRole t u role ts")
  case (Some ts')
  then have "tb_members ts' = map (\<lambda>m. if mb_team m = t \<and> mb_user m = u then m\<lparr>mb_role := role\<rparr> else m) (tb_members ts)"
    by (auto simp: UpdateMemberRole_def split: if_splits)
  from role_kept_map [OF this, of t' u'] assms Some show ?thesis by (auto simp: update_member_write_def)
qed (simp add: update_member_write_def)

lemma role_removed:
  assumes "t' \<noteq> t"
  shows "member_role t' u' (fst (remove_member_write ac t u ts)) = member_role t' u' ts"
  using role_kept_filter [of "DeleteMembership t u ts" _ ts t' u'] assms by (simp add: remove_member_write_def DeleteMembership_def)

lemma role_team_deleted:
  assumes "DeleteTeam t ts = Some ts'" and "t' \<noteq> t"
  shows "member_role t' u' ts' = member_role t' u' ts"
  using role_kept_filter [of ts' "\<lambda>m. mb_team m \<noteq> t" ts t' u'] assms by (auto simp: DeleteTeam_def split: if_splits)

lemma new_team_memberless: "consistent ts \<Longrightarrow> \<not> has_team t ts \<Longrightarrow> GetMembership t u ts = None"
  by (auto simp: GetMembership_def find_None_iff consistent_def list_all_iff list_ex_iff)

lemma created_member: "CreateMembership m ts = Some ts' \<Longrightarrow> tb_members ts' = tb_members ts @ [m] \<and> GetMembership (mb_team m) (mb_user m) ts = None"
  by (auto simp: CreateMembership_def GetMembership_def find_None_iff list_ex_iff split: if_splits)

lemma tokenHasAny_mono: "tokenHasAnyScope scopes [a] \<Longrightarrow> tokenHasAnyScope scopes [a, b] \<and> tokenHasAnyScope scopes [b, a]"
  by (simp add: tokenHasAnyScope_def)

text \<open>Requests that touch no membership.\<close>

lemma member_role_same: "tb_members ts' = tb_members ts \<Longrightarrow> member_role t u ts' = member_role t u ts"
  by (simp add: member_role_def GetMembership_def)

lemma members_untouched:
  assumes "op = TUser x \<or> op = TTerminal y \<or> op = TUpdate now auth y body \<or> op = TInvite base ttl now i tok auth y body \<or> op = TCancel auth y i"
  shows "tb_members (team_op_step uuid hash ts op) = tb_members ts"
proof -
  note g = gate_cases [of uuid auth y "''admin''"]
  consider "op = TUser x" | "op = TTerminal y" | "op = TUpdate now auth y body" | "op = TInvite base ttl now i tok auth y body" | "op = TCancel auth y i"
    using assms by blast
  then show ?thesis
  proof cases
    case 3
    then show ?thesis by (cases rule: g [of "[''teams:write'']" ts])
      (auto simp: TeamHandler_Update_def UpdateTeam_def Let_def split: option.split)
  next
    case 4
    then show ?thesis by (cases rule: g [of "[''invites:write'']" ts])
      (auto simp: TeamHandler_CreateInvite_def CreateInvite_def Let_def split: option.split)
  next
    case 5
    then show ?thesis by (cases rule: g [of "[''invites:write'']" ts]) (simp_all add: TeamHandler_CancelInvite_def DeleteInvite_def)
  qed (auto simp: CreateUser_def split: option.split)
qed

lemma roles_granted_aux:
  assumes "consistent ts" and "member_role t u (team_op_step uuid hash ts op) \<noteq> member_role t u ts"
  shows "by_owner ts op t \<or>
    (\<exists>ac. op_auth op = Some ac \<and> ac_user ac = u \<and> member_role t u ts = None \<and>
      (ac_token ac = None \<and> \<not> has_team t ts \<and> member_role t u (team_op_step uuid hash ts op) = Some ''owner'' \<or>
       (\<exists>i x. i \<in> set (tb_invites ts) \<and> iv_team i = t \<and> GetUserByID u ts = Some x \<and> us_email x = iv_email i \<and>
          member_role t u (team_op_step uuid hash ts op) = Some (iv_role i))))"
proof (cases op)
  case (TCreate now t' m auth body)
  from assms(1) show ?thesis
  proof (cases rule: Create_written [of ts uuid "\<lambda>_. []" now t' m auth body])
    case (kept h)
    then show ?thesis using assms(2) TCreate kept_by_tables(3) [OF kept(2-6)] by simp
  next
    case (created h ac r o')
    have "member_role t u h = (if t = t' \<and> u = ac_user ac then Some ''owner'' else member_role t u ts)"
      using role_appended [OF created(10)] new_team_memberless [OF assms(1) created(4)] created(6) by simp
    then show ?thesis using assms(2) TCreate created(1-4) new_team_memberless [OF assms(1) created(4)]
      by (auto simp: member_role_def split: if_splits)
  qed
next
  case (TDelete auth t')
  show ?thesis
  proof (cases rule: gate_cases [of uuid auth t' "''owner''" "[''teams:write'']" ts])
    case (passed ac)
    then show ?thesis
      using assms(2) TDelete gate_owner [OF passed] role_team_deleted [of t' ts _ t u] tokenHasAny_mono
      by (cases "t = t'") (auto simp: TeamHandler_Delete_def by_owner_def split: option.splits)
  qed (use assms(2) TDelete in \<open>simp add: TeamHandler_Delete_def\<close>)
next
  case (TUpdateMember auth t' u' body)
  then show ?thesis
    using assms(2) update_member_passed(1-3) [of uuid auth t' u' body ts] role_updated [of t t' u _ u' _ ts] tokenHasAny_mono
    by (cases "t = t'"; cases "update_member_check uuid auth t' u' body ts") (auto simp: TeamHandler_UpdateMember_def by_owner_def)
next
  case (TRemoveMember auth t' u')
  then show ?thesis
    using assms(2) remove_member_passed(1-3) [of uuid auth t' u' ts] role_removed [of t t' u _ u' ts] tokenHasAny_mono
    by (cases "t = t'"; cases "remove_member_check uuid auth t' u' ts") (auto simp: TeamHandler_RemoveMember_def by_owner_def)
next
  case (TAccept now m auth body)
  show ?thesis
  proof (cases rule: Accept_written [of uuid now m auth body ts])
    case (joined ac i x ts' a)
    note c = created_member [OF joined(5)]
    have "i \<in> set (tb_invites ts)" using find_SomeD [OF joined(2) [unfolded GetInviteByToken_def]] by simp
    moreover have "member_role t u (fst (TeamHandler_AcceptInvite uuid now m auth body ts)) =
        (if t = iv_team i \<and> u = ac_user ac then Some (iv_role i) else member_role t u ts)"
      using role_appended [OF conjunct1 [OF c]] c by (simp add: joined(6) DeleteInvite_def member_role_def GetMembership_def)
    ultimately show ?thesis using assms(2) TAccept joined(1,3,4) c by (auto simp: member_role_def split: if_splits)
  qed (use assms(2) TAccept in simp)
qed (use assms(2) member_role_same [OF members_untouched] in \<open>blast\<close>)+

text \<open>
  C9: Roles are given and taken only by those who may. When a request changes the role of a user in a team, its sender is
  an owner of that team, and a token it uses may change members or teams; or the user itself creates the team, from the
  console and not with a token, and becomes its owner; or the user accepts an invite of that team to its own address and
  gets the role of the invite.
\<close>

lemma roles_granted:
  assumes "consistent ts" and "member_role t u (team_op_step uuid hash ts op) \<noteq> member_role t u ts"
  shows "by_owner ts op t \<or>
    (\<exists>ac. op_auth op = Some ac \<and> ac_user ac = u \<and> member_role t u ts = None \<and>
      (ac_token ac = None \<and> \<not> has_team t ts \<and> member_role t u (team_op_step uuid hash ts op) = Some ''owner'' \<or>
       (\<exists>i x. i \<in> set (tb_invites ts) \<and> iv_team i = t \<and> GetUserByID u ts = Some x \<and> us_email x = iv_email i \<and>
          member_role t u (team_op_step uuid hash ts op) = Some (iv_role i))))"
  using assms by (rule roles_granted_aux)

definition session :: "string \<Rightarrow> AuthContext" where
  "session u = \<lparr>ac_user = u, ac_team = None, ac_token = None, ac_scopes = []\<rparr>"

definition role_body :: "string \<Rightarrow> js option" where
  "role_body r = Some (wire (JObj [(''role'', JStr r)]))"

definition two_owner_team :: team_tables where
  "two_owner_team = no_teams\<lparr>tb_users := [\<lparr>us_id = ''a'', us_email = ''a@x'', us_name = ''A''\<rparr>, \<lparr>us_id = ''b'', us_email = ''b@x'', us_name = ''B''\<rparr>],
     tb_teams := [\<lparr>te_id = ''t1'', te_name = ''T'', te_slug = ''t'', te_created = 0, te_updated = 0\<rparr>],
     tb_members := [\<lparr>mb_id = ''m1'', mb_team = ''t1'', mb_user = ''a'', mb_role = ''owner'', mb_created = 0\<rparr>,
       \<lparr>mb_id = ''m2'', mb_team = ''t1'', mb_user = ''b'', mb_role = ''owner'', mb_created = 1\<rparr>]\<rparr>"

lemma two_owner_consistent: "consistent two_owner_team"
  by code_simp

lemma roles_granted_witness:
  "by_owner two_owner_team (TUpdateMember (Some (session ''a'')) ''t1'' ''b'' (role_body ''admin'')) ''t1''"
proof -
  have "member_role ''t1'' ''b'' (team_op_step (\<lambda>u. True) (\<lambda>s. s) two_owner_team (TUpdateMember (Some (session ''a'')) ''t1'' ''b'' (role_body ''admin'')))
    \<noteq> member_role ''t1'' ''b'' two_owner_team" by code_simp
  from roles_granted [OF two_owner_consistent this] show ?thesis by (simp add: session_def)
qed

section \<open>Owners that demote each other at once\<close>

lemma no_owner_iff:
  assumes "consistent ts"
  shows "CountOwners t ts = 0 \<longleftrightarrow> (\<forall>u. member_role t u ts \<noteq> Some ''owner'')"
proof
  assume "CountOwners t ts = 0"
  then show "\<forall>u. member_role t u ts \<noteq> Some ''owner''"
    by (auto simp: CountOwners_def filter_empty_conv member_role_def dest!: membership_in)
next
  assume n: "\<forall>u. member_role t u ts \<noteq> Some ''owner''"
  have "\<not> (mb_team m = t \<and> mb_role m = ''owner'')" if "m \<in> set (tb_members ts)" for m
    using n membership_unique [OF assms that] by (auto simp: member_role_def)
  then show "CountOwners t ts = 0" by (simp add: CountOwners_def filter_empty_conv)
qed

lemma team_kept:
  assumes "consistent ts" and "has_team t ts" and "\<not> by_owner ts op t"
  shows "has_team t (team_op_step uuid hash ts op)"
proof (cases op)
  case (TCreate now t' m auth body)
  from assms(1) show ?thesis
    by (cases rule: Create_written [of ts uuid "\<lambda>_. []" now t' m auth body]) (use TCreate assms(2) in auto)
next
  case (TUpdate now auth t' body)
  have "list_ex (\<lambda>r. te_id r = t) rs \<Longrightarrow>
      list_ex (\<lambda>r. te_id r = t) (map (\<lambda>r. if te_id r = t' then r\<lparr>te_name := n, te_slug := sl, te_updated := now\<rparr> else r) rs)" for rs :: "team_row list" and n sl
    by (induction rs) auto
  then show ?thesis using TUpdate assms(2)
    by (cases rule: gate_cases [of uuid auth t' "''admin''" "[''teams:write'']" ts])
      (simp_all add: TeamHandler_Update_def UpdateTeam_def Let_def split: option.split)
next
  case (TDelete auth t')
  show ?thesis
  proof (cases rule: gate_cases [of uuid auth t' "''owner''" "[''teams:write'']" ts])
    case (passed ac)
    from gate_owner [OF passed] assms(3) TDelete tokenHasAny_mono have "t \<noteq> t'" by (auto simp: by_owner_def)
    then show ?thesis using TDelete passed assms(2)
      by (auto simp: TeamHandler_Delete_def DeleteTeam_def list_ex_iff split: option.split)
  qed (use assms(2) TDelete in \<open>simp add: TeamHandler_Delete_def\<close>)
next
  case (TInvite base ttl now i tok auth t' body)
  then show ?thesis using assms(2)
    by (cases rule: gate_cases [of uuid auth t' "''admin''" "[''invites:write'']" ts])
      (auto simp: TeamHandler_CreateInvite_def CreateInvite_def Let_def split: option.split)
next
  case (TCancel auth t' i)
  then show ?thesis using assms(2)
    by (cases rule: gate_cases [of uuid auth t' "''admin''" "[''invites:write'']" ts])
      (simp_all add: TeamHandler_CancelInvite_def DeleteInvite_def)
next
  case (TAccept now m auth body)
  then show ?thesis using assms(2)
    by (cases rule: Accept_written [of uuid now m auth body ts]) (auto simp: DeleteInvite_def CreateMembership_def split: if_splits)
qed (use assms(2) in \<open>auto simp: CreateUser_def TeamHandler_UpdateMember_def update_member_write_def UpdateMemberRole_def
  TeamHandler_RemoveMember_def remove_member_write_def DeleteMembership_def split: option.split sum.split\<close>)

text \<open>A team without owners stays, and stays without owners.\<close>

lemma ownerless_final:
  assumes "consistent ts" and "has_team t ts" and "CountOwners t ts = 0"
  shows "consistent (foldl (team_op_step uuid hash) ts ops) \<and> has_team t (foldl (team_op_step uuid hash) ts ops) \<and>
    CountOwners t (foldl (team_op_step uuid hash) ts ops) = 0"
  using assms
proof (induction ops arbitrary: ts)
  case (Cons op ops)
  let ?ts = "team_op_step uuid hash ts op"
  have n: "\<not> by_owner ts op t" using no_owner_iff [OF Cons.prems(1)] Cons.prems(3) by (simp add: by_owner_def split: option.split)
  have "member_role t u ?ts \<noteq> Some ''owner''" for u
  proof
    assume o: "member_role t u ?ts = Some ''owner''"
    with Cons.prems no_owner_iff [OF Cons.prems(1)] have "member_role t u ?ts \<noteq> member_role t u ts" by metis
    from roles_granted_aux [OF Cons.prems(1) this] n Cons.prems(2) o obtain i where "i \<in> set (tb_invites ts)" "iv_role i = ''owner''" by auto
    then show False using Cons.prems(1) by (auto simp: consistent_def list_all_iff invite_roles_def)
  qed
  with step_kept [OF Cons.prems(1)] team_kept [OF Cons.prems(1,2) n] no_owner_iff show ?case by (simp add: Cons.IH)
qed simp

text \<open>
  Requests run at the same time: a change of role or a removal checks in one step and writes in a later one. The flow
  keeps those that have passed their check.
\<close>

record role_flow =
  wf_tables :: team_tables
  wf_passed :: "(AuthContext \<times> string \<times> string \<times> string option) list"

inductive role_flow_step :: "(string \<Rightarrow> bool) \<Rightarrow> (string \<Rightarrow> string) \<Rightarrow> role_flow \<Rightarrow> role_flow \<Rightarrow> bool" for uuid hash where
  update_checked: "update_member_check uuid auth t u body (wf_tables s) = Inr ac \<Longrightarrow>
     role_flow_step uuid hash s (s\<lparr>wf_passed := (ac, t, u, Some (go_str (the body) ''role'')) # wf_passed s\<rparr>)"
| remove_checked: "remove_member_check uuid auth t u (wf_tables s) = Inr ac \<Longrightarrow>
     role_flow_step uuid hash s (s\<lparr>wf_passed := (ac, t, u, None) # wf_passed s\<rparr>)"
| update_written: "(ac, t, u, Some role) \<in> set (wf_passed s) \<Longrightarrow>
     role_flow_step uuid hash s (s\<lparr>wf_tables := fst (update_member_write ac t u role (wf_tables s)),
       wf_passed := remove1 (ac, t, u, Some role) (wf_passed s)\<rparr>)"
| remove_written: "(ac, t, u, None) \<in> set (wf_passed s) \<Longrightarrow>
     role_flow_step uuid hash s (s\<lparr>wf_tables := fst (remove_member_write ac t u (wf_tables s)),
       wf_passed := remove1 (ac, t, u, None) (wf_passed s)\<rparr>)"
| other_request: "\<forall>auth t u body. op \<noteq> TUpdateMember auth t u body \<and> op \<noteq> TRemoveMember auth t u \<Longrightarrow>
     role_flow_step uuid hash s (s\<lparr>wf_tables := team_op_step uuid hash (wf_tables s) op\<rparr>)"

definition role_flow_start :: "team_tables \<Rightarrow> role_flow" where
  "role_flow_start ts = \<lparr>wf_tables = ts, wf_passed = []\<rparr>"

lemma role_body_read: "DecodeJSON uuid updateMemberRequest (role_body r)" "go_str (the (role_body r)) ''role'' = r"
proof -
  show "DecodeJSON uuid updateMemberRequest (role_body r)"
    by (simp add: DecodeJSON_def updateMemberRequest_def role_body_def go_field_def)
  have l: "toLowerCase ''role'' = ''role''" by code_simp
  have k: "distinct (map fst [(''role'', JStr r)])" "list_all (\<lambda>e. toLowerCase (fst e) = fst e) [(''role'', JStr r)]" by (simp_all add: l)
  show "go_str (the (role_body r)) ''role'' = r"
    unfolding role_body_def go_str_def go_ptr_def option.sel go_member_wire [OF k l] by simp
qed

lemma demote_check:
  assumes "uuid t" and "t \<noteq> []" and "uuid u" and "member_role t a ts = Some ''owner''" and "member_role t u ts = Some ''owner''" and "CountOwners t ts > 1"
  shows "update_member_check uuid (Some (session a)) t u (role_body ''admin'') ts = Inr (session a)"
proof -
  obtain m where m: "GetMembership t a ts = Some m" "mb_role m = ''owner''" using assms(4) by (auto simp: member_role_def)
  obtain n where n: "GetMembership t u ts = Some n" using assms(5) by (auto simp: member_role_def)
  have "team_gate uuid (Some (session a)) t ''owner'' [''members:write''] ts = Inr (session a)"
    using assms(1,2) m by (simp add: team_gate_def parseTeamID_def CheckTeamRole_def session_def at_least_owner)
  then show ?thesis using assms(3,6) n by (simp add: update_member_check_def role_body_read)
qed

lemma two_owners:
  assumes "member_role t a ts = Some ''owner''" and "member_role t b ts = Some ''owner''" and "a \<noteq> b"
  shows "CountOwners t ts > 1"
proof -
  obtain m n where mn: "GetMembership t a ts = Some m" "mb_role m = ''owner''" "GetMembership t b ts = Some n" "mb_role n = ''owner''"
    using assms(1,2) by (auto simp: member_role_def)
  let ?os = "filter (\<lambda>m. mb_team m = t \<and> mb_role m = ''owner'') (tb_members ts)"
  from mn assms(3) have "m \<noteq> n" "{m, n} \<subseteq> set ?os" by (auto dest!: membership_in)
  with card_mono [of "set ?os" "{m, n}"] card_length [of ?os] show ?thesis by (simp add: CountOwners_def)
qed

lemma update_write_teams: "tb_teams (fst (update_member_write ac t u role ts)) = tb_teams ts"
  by (simp add: update_member_write_def UpdateMemberRole_def split: option.split)

lemma member_team: "consistent ts \<Longrightarrow> member_role t u ts = Some r \<Longrightarrow> has_team t ts"
  by (auto simp: member_role_def consistent_def list_all_iff dest!: membership_in)

lemma role_after_update:
  "role \<in> set member_roles \<Longrightarrow> member_role t' u' (fst (update_member_write ac t u role ts)) =
    (if t' = t \<and> u' = u then map_option (\<lambda>_. role) (member_role t u ts) else member_role t' u' ts)"
proof -
  let ?f = "\<lambda>m. if mb_team m = t \<and> mb_user m = u then m\<lparr>mb_role := role\<rparr> else m"
  assume "role \<in> set member_roles"
  then have m: "tb_members (fst (update_member_write ac t u role ts)) = map ?f (tb_members ts)"
    by (simp add: update_member_write_def UpdateMemberRole_def)
  have "find (\<lambda>m. mb_team m = t' \<and> mb_user m = u') (map ?f ms) = map_option ?f (find (\<lambda>m. mb_team m = t' \<and> mb_user m = u') ms)" for ms :: "membership_row list"
    by (induction ms) auto
  note f = this [of "tb_members ts"]
  show ?thesis unfolding member_role_def GetMembership_def m f
    by (cases "find (\<lambda>m. mb_team m = t' \<and> mb_user m = u') (tb_members ts)") (auto dest: find_SomeD)
qed

text \<open>
  C37: Two owners that demote each other at the same time leave the team without an owner, for good. When a team has just
  two owners and both requests pass the check before either writes, both take effect; whatever is asked of the API after
  that, one request after another, the team is never deleted and never has an owner again.
\<close>

lemma last_owner_race:
  assumes "consistent ts" and "uuid t" and "t \<noteq> []" and "uuid a" and "uuid b" and "a \<noteq> b" and "member_role t a ts = Some ''owner''"
    and "member_role t b ts = Some ''owner''" and "\<forall>u. member_role t u ts = Some ''owner'' \<longrightarrow> u \<in> {a, b}"
  shows "\<exists>s. (role_flow_step uuid hash)\<^sup>*\<^sup>* (role_flow_start ts) s \<and> has_team t (wf_tables s) \<and> wf_passed s = [] \<and>
    (\<forall>ops. has_team t (foldl (team_op_step uuid hash) (wf_tables s) ops) \<and> CountOwners t (foldl (team_op_step uuid hash) (wf_tables s) ops) = 0)"
proof -
  note c = two_owners [OF assms(7,8,6)]
  let ?s0 = "role_flow_start ts"
  let ?p = "(session a, t, b, Some ''admin'')" and ?q = "(session b, t, a, Some ''admin'')"
  let ?s1 = "\<lparr>wf_tables = ts, wf_passed = [?p]\<rparr>" and ?s2 = "\<lparr>wf_tables = ts, wf_passed = [?q, ?p]\<rparr>"
  let ?t3 = "fst (update_member_write (session a) t b ''admin'' ts)"
  let ?t4 = "fst (update_member_write (session b) t a ''admin'' ?t3)"
  let ?s3 = "\<lparr>wf_tables = ?t3, wf_passed = [?q]\<rparr>" and ?s4 = "\<lparr>wf_tables = ?t4, wf_passed = []\<rparr>"
  have s1: "role_flow_step uuid hash ?s0 ?s1"
    using update_checked [of uuid "Some (session a)" t b "role_body ''admin''" ?s0] demote_check [OF assms(2,3,5,7,8) c]
    by (simp add: role_flow_start_def role_body_read)
  have s2: "role_flow_step uuid hash ?s1 ?s2"
    using update_checked [of uuid "Some (session b)" t a "role_body ''admin''" ?s1] demote_check [OF assms(2,3,4,8,7) c]
    by (simp add: role_body_read)
  have s3: "role_flow_step uuid hash ?s2 ?s3"
    using update_written [of "session a" t b "''admin''" ?s2 uuid hash] assms(6) by (simp add: session_def)
  have s4: "role_flow_step uuid hash ?s3 ?s4"
    using update_written [of "session b" t a "''admin''" ?s3 uuid hash] by simp
  have run: "(role_flow_step uuid hash)\<^sup>*\<^sup>* ?s0 ?s4"
    using s1 s2 s3 s4 by (meson converse_rtranclp_into_rtranclp rtranclp.rtrancl_refl)
  have cons: "consistent ?t4" by (intro update_write_consistent assms(1))
  have "CountOwners t ?t4 = 0"
    unfolding no_owner_iff [OF cons] using assms(9) by (auto simp: role_after_update member_roles_def)
  moreover have "has_team t ?t4" using member_team [OF assms(1,7)] by (simp add: update_write_teams)
  ultimately show ?thesis using run ownerless_final [OF cons] by (intro exI [of _ ?s4]) simp
qed

lemma last_owner_race_witness:
  "\<exists>s. (role_flow_step (\<lambda>u. True) (\<lambda>s. s))\<^sup>*\<^sup>* (role_flow_start two_owner_team) s \<and> has_team ''t1'' (wf_tables s) \<and>
    CountOwners ''t1'' (wf_tables s) = 0"
proof -
  have o: "member_role ''t1'' ''a'' two_owner_team = Some ''owner''" "member_role ''t1'' ''b'' two_owner_team = Some ''owner''" by code_simp+
  have "\<forall>u. member_role ''t1'' u two_owner_team = Some ''owner'' \<longrightarrow> u \<in> {''a'', ''b''}"
    by (simp add: member_role_def GetMembership_def two_owner_team_def)
  from last_owner_race [OF two_owner_consistent _ _ _ _ _ o this, of "\<lambda>u. True" "\<lambda>s. s"] obtain s where
    s: "(role_flow_step (\<lambda>u. True) (\<lambda>s. s))\<^sup>*\<^sup>* (role_flow_start two_owner_team) s" "has_team ''t1'' (wf_tables s)"
    and all: "\<forall>ops. CountOwners ''t1'' (foldl (team_op_step (\<lambda>u. True) (\<lambda>s. s)) (wf_tables s) ops) = 0" by auto
  from all [rule_format, of "[]"] s show ?thesis by auto
qed

section \<open>Across teams\<close>

text \<open>The check does not look at the team a token was issued for: a token works in every team of its user.\<close>

lemma token_of_other_team: "CheckTeamRole (Some (ac\<lparr>ac_team := x\<rparr>)) t r req ts = map_sum id (\<lambda>a. a\<lparr>ac_team := x\<rparr>) (CheckTeamRole (Some ac) t r req ts)"
  by (simp add: CheckTeamRole_def split: option.split)

text \<open>Nor does cancelling an invite look at the team of the invite: an admin of any team can withdraw it.\<close>

lemma cancel_foreign_invite:
  assumes "team_gate uuid auth t ''admin'' [''invites:write''] ts = Inr ac" and "uuid i"
  shows "snd (TeamHandler_CancelInvite uuid auth t i ts) = Inr () \<and>
    tb_invites (fst (TeamHandler_CancelInvite uuid auth t i ts)) = filter (\<lambda>r. iv_id r \<noteq> i) (tb_invites ts)"
  using assms by (simp add: TeamHandler_CancelInvite_def DeleteInvite_def)

text \<open>The entry that a team was deleted names a team that is gone, so it is never written, and older entries lose their team.\<close>

lemma delete_unlogged:
  assumes "TeamHandler_Delete uuid auth t ts = (ts', Inr ())"
  shows "tb_audit ts' = map (\<lambda>a. if al_team a = Some t then a\<lparr>al_team := None\<rparr> else a) (tb_audit ts)"
proof -
  obtain ac where g: "team_gate uuid auth t ''owner'' [''teams:write''] ts = Inr ac"
    using assms by (cases rule: gate_cases [of uuid auth t "''owner''" "[''teams:write'']" ts]) (simp_all add: TeamHandler_Delete_def)
  obtain d where d: "DeleteTeam t ts = Some d" using assms g by (cases "DeleteTeam t ts") (simp_all add: TeamHandler_Delete_def)
  then have "\<not> has_team t d" by (auto simp: DeleteTeam_def list_ex_iff split: if_splits)
  then show ?thesis using assms g d by (auto simp: TeamHandler_Delete_def audit_Log_def DeleteTeam_def split: if_splits)
qed

text \<open>A team in which a terminal was opened once can not be deleted.\<close>

lemma delete_after_terminal:
  assumes "t \<in> set (tb_terminals ts)" and "team_gate uuid auth t ''owner'' [''teams:write''] ts = Inr ac"
  shows "TeamHandler_Delete uuid auth t ts = (ts, Inl (500, ''internal server error''))"
  using assms by (simp add: TeamHandler_Delete_def DeleteTeam_def)

end
