(* ===== verification/Teams_Page.thy ===== *)
theory Teams_Page
  imports Team_Store Server_Api Machines
begin

text \<open>
  Teams in the console: the members page with its menus (\<open>components/teams/MembersClient.tsx\<close>), the dialogs that invite a
  member and create a team (\<open>InviteMemberDialog.tsx\<close>, \<open>CreateTeamDialog.tsx\<close>), the settings of a team
  (\<open>TeamSettingsClient.tsx\<close>) and the page an invite leads to (\<open>components/auth/AcceptInviteClient.tsx\<close>).
\<close>

section \<open>Members\<close>

definition currentMember :: "string \<Rightarrow> TeamMember list \<Rightarrow> TeamMember option" where
  "currentMember cur members = find (\<lambda>m. TeamMember_user_id m = cur) members"

definition canManage :: "string \<Rightarrow> TeamMember list \<Rightarrow> bool" where
  "canManage cur members = (case currentMember cur members of None \<Rightarrow> False | Some m \<Rightarrow> TeamMember_role m \<in> {Role_owner, Role_admin})"

definition canChangeRoles :: "string \<Rightarrow> TeamMember list \<Rightarrow> bool" where
  "canChangeRoles cur members = (case currentMember cur members of None \<Rightarrow> False | Some m \<Rightarrow> TeamMember_role m = Role_owner)"

datatype menu_item = MakeRole Role | RemoveMember

text \<open>The menu of a row: no row of the user itself and none of an owner has one.\<close>

definition member_menu :: "string \<Rightarrow> TeamMember list \<Rightarrow> TeamMember \<Rightarrow> menu_item list" where
  "member_menu cur members m =
     (if canManage cur members \<and> TeamMember_user_id m \<noteq> cur \<and> TeamMember_role m \<noteq> Role_owner
      then (if canChangeRoles cur members then map MakeRole (filter (\<lambda>r. TeamMember_role m \<noteq> r) [Role_admin, Role_member]) else []) @ [RemoveMember]
      else [])"

fun menu_request :: "string \<Rightarrow> TeamMember \<Rightarrow> menu_item \<Rightarrow> endpoint" where
  "menu_request t m (MakeRole r) = membersApi_updateRole t (TeamMember_user_id m) r"
| "menu_request t m RemoveMember = membersApi_remove t (TeamMember_user_id m)"

definition invite_menu :: "string \<Rightarrow> string \<Rightarrow> TeamMember list \<Rightarrow> TeamInvite \<Rightarrow> endpoint list" where
  "invite_menu t cur members i = (if canManage cur members then [invitesApi_cancel t (TeamInvite_id i)] else [])"

fun ROLE_TONE :: "Role \<Rightarrow> string" where
  "ROLE_TONE Role_owner = ''signal''"
| "ROLE_TONE Role_admin = ''info''"
| "ROLE_TONE Role_member = ''neutral''"

definition mutationErrorMessage :: "failure \<Rightarrow> string" where
  "mutationErrorMessage e = (case e of ApiError st m c \<Rightarrow> m | OtherError m \<Rightarrow> m)"

section \<open>Inviting\<close>

record invite_dialog =
  nd_open :: bool
  nd_email :: string
  nd_role :: Role
  nd_error :: "string option"

datatype invite_event = NOpen bool | NEmail string | NRole Role | NSubmit | NSent | NFailed failure

definition invite_roles_offered :: "Role list" where
  "invite_roles_offered = [Role_admin, Role_member]"

definition invite_dialog_init :: invite_dialog where
  "invite_dialog_init = \<lparr>nd_open = False, nd_email = [], nd_role = Role_member, nd_error = None\<rparr>"

fun invite_dialog_step :: "string \<Rightarrow> invite_dialog \<Rightarrow> invite_event \<Rightarrow> invite_dialog \<times> endpoint option" where
  "invite_dialog_step t d (NOpen v) = ((if v then d\<lparr>nd_open := True\<rparr> else invite_dialog_init), None)"
| "invite_dialog_step t d (NEmail s) = (d\<lparr>nd_email := s\<rparr>, None)"
| "invite_dialog_step t d (NRole r) = ((if r \<in> set invite_roles_offered then d\<lparr>nd_role := r\<rparr> else d), None)"
| "invite_dialog_step t d NSubmit =
     (if trim (nd_email d) = [] then (d\<lparr>nd_error := Some ''Email is required.''\<rparr>, None)
      else (d\<lparr>nd_error := None\<rparr>, Some (invitesApi_create t (trim (nd_email d)) (nd_role d))))"
| "invite_dialog_step t d NSent = (invite_dialog_init, None)"
| "invite_dialog_step t d (NFailed e) = (d\<lparr>nd_error := Some (error_text e ''Could not send the invite. Try again.'')\<rparr>, None)"

text \<open>The page behind the link: it asks who is signed in and, for a user, accepts; leaving it cancels what is still to come.\<close>

datatype accept_state = Acc_checking | Acc_accepting | Acc_ok | Acc_needs_login | Acc_error

record accept_page =
  ap_state :: accept_state
  ap_message :: "string option"
  ap_cancelled :: bool
  ap_redirect :: "string option"

datatype accept_event = MeAnswer "js result" | AcceptAnswer "js result" | LeavePage

definition accept_init :: accept_page where
  "accept_init = \<lparr>ap_state = Acc_checking, ap_message = None, ap_cancelled = False, ap_redirect = None\<rparr>"

definition accept_request :: "string \<Rightarrow> endpoint" where
  "accept_request token = api_post ''/invites/accept'' (JObj [(''token'', JStr token)])"

fun accept_step :: "string \<Rightarrow> accept_page \<Rightarrow> accept_event \<Rightarrow> accept_page \<times> endpoint option" where
  "accept_step token p (MeAnswer r) =
     (if ap_state p \<noteq> Acc_checking \<or> ap_cancelled p then (p, None)
      else case r of
        Inr u \<Rightarrow> (p\<lparr>ap_state := Acc_accepting\<rparr>, Some (accept_request token))
      | Inl e \<Rightarrow> (p\<lparr>ap_state := Acc_needs_login,
          ap_redirect := Some (''/login?returnTo='' @ encodeURIComponent (''/invites/accept/'' @ token))\<rparr>, None))"
| "accept_step token p (AcceptAnswer r) =
     (if ap_state p \<noteq> Acc_accepting \<or> ap_cancelled p then (p, None)
      else case r of
        Inr u \<Rightarrow> (p\<lparr>ap_state := Acc_ok\<rparr>, None)
      | Inl e \<Rightarrow> (p\<lparr>ap_state := Acc_error, ap_message := Some (error_text e ''Could not accept invite. The link may have expired.'')\<rparr>, None))"
| "accept_step token p LeavePage = (p\<lparr>ap_cancelled := True\<rparr>, None)"

section \<open>Creating, renaming and deleting a team\<close>

record team_dialog =
  tg_open :: bool
  tg_name :: string
  tg_error :: "string option"

datatype team_event = GOpen bool | GName string | GSubmit | GCreated | GFailed failure

definition team_dialog_init :: team_dialog where
  "team_dialog_init = \<lparr>tg_open = False, tg_name = [], tg_error = None\<rparr>"

fun team_dialog_step :: "team_dialog \<Rightarrow> team_event \<Rightarrow> team_dialog \<times> endpoint option" where
  "team_dialog_step d (GOpen v) = ((if v then d\<lparr>tg_open := True\<rparr> else team_dialog_init), None)"
| "team_dialog_step d (GName s) = ((if length s \<le> 64 then d\<lparr>tg_name := s\<rparr> else d), None)"
| "team_dialog_step d GSubmit =
     (if trim (tg_name d) = [] then (d\<lparr>tg_error := Some ''Team name is required.''\<rparr>, None)
      else (d\<lparr>tg_error := None\<rparr>, Some (teamsApi_create (trim (tg_name d)))))"
| "team_dialog_step d GCreated = (team_dialog_init, None)"
| "team_dialog_step d (GFailed e) = (d\<lparr>tg_error := Some (error_text e ''Could not create the team. Try again.'')\<rparr>, None)"

text \<open>The cookies after the team was created, and where the console goes.\<close>

definition team_created :: "Team \<Rightarrow> (string, string) obj \<Rightarrow> (string, string) obj \<times> string" where
  "team_created tm cookies = (obj_set TEAM_COOKIE (Team_id tm) cookies, ''/teams/'' @ Team_id tm @ ''/members'')"

record team_settings =
  tz_name :: string
  tz_renameError :: "string option"
  tz_deleteError :: "string option"

datatype team_settings_event = ZName string | ZRename | ZRenameFailed failure | ZDelete | ZDeleteFailed failure

text \<open>Deleting comes from the confirmation, whose phrase is the slug.\<close>

fun team_settings_step :: "Team \<Rightarrow> team_settings \<Rightarrow> team_settings_event \<Rightarrow> team_settings \<times> endpoint option" where
  "team_settings_step tm d (ZName s) = ((if length s \<le> 64 then d\<lparr>tz_name := s\<rparr> else d), None)"
| "team_settings_step tm d ZRename =
     (let d' = d\<lparr>tz_renameError := None\<rparr> in
      if trim (tz_name d) = [] then (d\<lparr>tz_renameError := Some ''Team name is required.''\<rparr>, None)
      else if trim (tz_name d) = Team_name tm then (d', None)
      else (d', Some (teamsApi_update (Team_id tm) (trim (tz_name d)))))"
| "team_settings_step tm d (ZRenameFailed e) = (d\<lparr>tz_renameError := Some (error_text e ''Could not rename the team.'')\<rparr>, None)"
| "team_settings_step tm d ZDelete = (d, Some (teamsApi_remove (Team_id tm)))"
| "team_settings_step tm d (ZDeleteFailed e) = (d\<lparr>tz_deleteError := Some (error_text e ''Could not delete the team.'')\<rparr>, None)"

section \<open>The members page against the API\<close>

text \<open>What the API answers to an item of the menu, with the session of the user of the page.\<close>

fun menu_reply :: "(string \<Rightarrow> bool) \<Rightarrow> string \<Rightarrow> string \<Rightarrow> TeamMember \<Rightarrow> menu_item \<Rightarrow> team_tables \<Rightarrow> team_tables \<times> unit reply" where
  "menu_reply uuid cur t m (MakeRole r) ts =
     TeamHandler_UpdateMember uuid (Some (session cur)) t (TeamMember_user_id m) (fa_body (call_args (menu_request t m (MakeRole r)))) ts"
| "menu_reply uuid cur t m RemoveMember ts = TeamHandler_RemoveMember uuid (Some (session cur)) t (TeamMember_user_id m) ts"

lemma role_view_owner: "r \<in> set member_roles \<Longrightarrow> role_view r = Role_owner \<longleftrightarrow> r = ''owner''" "r \<in> set member_roles \<Longrightarrow> role_view r = Role_admin \<longleftrightarrow> r = ''admin''"
  by (auto simp: role_view_def member_roles_def)

lemma listed_member:
  assumes "consistent ts" and "TeamHandler_ListMembers uuid stamp auth t ts = Inr members" and "m \<in> set members"
  shows "\<exists>r. member_role t (TeamMember_user_id m) ts = Some r \<and> r \<in> set member_roles \<and> TeamMember_role m = role_view r"
proof -
  obtain ac where "team_gate uuid auth t ''member'' [''members:read''] ts = Inr ac"
    using assms(2) by (cases rule: gate_cases [of uuid auth t "''member''" "[''members:read'']" ts]) (simp_all add: TeamHandler_ListMembers_def)
  with assms(2,3) obtain b where b: "b \<in> set (tb_members ts)" "mb_team b = t" "TeamMember_user_id m = mb_user b" "TeamMember_role m = role_view (mb_role b)"
    by (auto simp: TeamHandler_ListMembers_def ListMembersByTeam_def)
  have "mb_role b \<in> set member_roles" using assms(1) b(1) by (auto simp: consistent_def list_all_iff)
  then show ?thesis using b membership_unique [OF assms(1) b(1)] by (auto simp: member_role_def)
qed

lemma current_role:
  assumes "consistent ts" and "TeamHandler_ListMembers uuid stamp auth t ts = Inr members" and "canManage cur members"
  shows "\<exists>r. member_role t cur ts = Some r \<and> r \<in> {''owner'', ''admin''} \<and> canChangeRoles cur members = (r = ''owner'')"
proof -
  obtain c where c: "find (\<lambda>m. TeamMember_user_id m = cur) members = Some c" "TeamMember_role c \<in> {Role_owner, Role_admin}"
    using assms(3) by (auto simp: canManage_def currentMember_def split: option.splits)
  from find_SomeD [OF c(1)] have i: "c \<in> set members" "TeamMember_user_id c = cur" by simp_all
  from listed_member [OF assms(1,2) i(1)] c(2) show ?thesis
    by (auto simp: i(2) canChangeRoles_def currentMember_def c(1) role_view_def member_roles_def split: if_splits)
qed

lemma gate_of_role:
  assumes "uuid t" and "t \<noteq> []" and "member_role t cur ts = Some r"
  shows "team_gate uuid (Some (session cur)) t need req ts = (if AtLeast r need then Inr (session cur) else Inl (403, ''insufficient permissions''))"
  using assms by (auto simp: team_gate_def parseTeamID_def CheckTeamRole_def session_def member_role_def)

lemma update_role_body: "fa_body (call_args (membersApi_updateRole t u r)) = role_body (role_str r)"
  by (simp add: wire_body membersApi_updateRole_def api_verbs role_body_def)

text \<open>
  The menus of the members page. Whatever the menu of a row offers an owner, the API does: the member has the chosen
  role afterwards, or is no longer a member. An admin is offered only the removal of members, and the API refuses it,
  always, as not permitted, without changing anything.
\<close>

lemma member_menu_effect:
  assumes "consistent ts" and "TeamHandler_ListMembers uuid stamp (Some (session cur)) t ts = Inr members" and "m \<in> set members"
    and "item \<in> set (member_menu cur members m)" and "uuid (TeamMember_user_id m)"
  shows "if member_role t cur ts = Some ''owner''
    then \<exists>ts'. menu_reply uuid cur t m item ts = (ts', Inr ()) \<and>
      member_role t (TeamMember_user_id m) ts' = (case item of MakeRole r \<Rightarrow> Some (role_str r) | RemoveMember \<Rightarrow> None)
    else member_role t cur ts = Some ''admin'' \<and> item = RemoveMember \<and>
      menu_reply uuid cur t m item ts = (ts, Inl (403, ''insufficient permissions''))"
proof -
  let ?u = "TeamMember_user_id m"
  have manage: "canManage cur members" and no: "TeamMember_role m \<noteq> Role_owner" "?u \<noteq> cur"
    and item: "item = RemoveMember \<or> canChangeRoles cur members \<and> (\<exists>r \<in> {Role_admin, Role_member}. item = MakeRole r)"
    using assms(4) by (auto simp: member_menu_def split: if_splits)
  obtain c where c: "member_role t cur ts = Some c" "c \<in> {''owner'', ''admin''}" "canChangeRoles cur members = (c = ''owner'')"
    using current_role [OF assms(1,2) manage] by blast
  obtain r where r: "member_role t ?u ts = Some r" "r \<noteq> ''owner''"
    using listed_member [OF assms(1-3)] no(1) by (auto simp: role_view_owner)
  then obtain b where b: "GetMembership t ?u ts = Some b" "mb_role b \<noteq> ''owner''" by (auto simp: member_role_def)
  have t: "uuid t" "t \<noteq> []"
    using assms(2) by (cases rule: gate_cases [of uuid "Some (session cur)" t "''member''" "[''members:read'']" ts];
        force simp: TeamHandler_ListMembers_def dest!: gate_role)+
  note gate = gate_of_role [of uuid t cur ts c, OF t c(1)]
  show ?thesis
  proof (cases "c = ''owner''")
    case False
    with c item gate show ?thesis
      by (auto simp: TeamHandler_RemoveMember_def remove_member_check_def at_least_owner)
  next
    case True
    have removed: "member_role t ?u (fst (remove_member_write (session cur) t ?u ts)) = None"
      by (auto simp: remove_member_write_def DeleteMembership_def member_role_def GetMembership_def find_None_iff)
    have up: "update_member_check uuid (Some (session cur)) t ?u (role_body (role_str q)) ts = Inr (session cur)" for q
      using gate b assms(5) by (cases q) (simp_all add: update_member_check_def True at_least_owner role_body_read)
    have w: "snd (update_member_write (session cur) t ?u (role_str q) ts) = Inr ()" "role_str q \<in> set member_roles" for q
      by (cases q; simp add: update_member_write_def UpdateMemberRole_def member_roles_def)+
    from item show ?thesis
    proof
      assume "item = RemoveMember"
      then show ?thesis using True c gate b assms(5) removed
        by (simp add: TeamHandler_RemoveMember_def remove_member_check_def at_least_owner remove_member_write_def)
    next
      assume "canChangeRoles cur members \<and> (\<exists>r \<in> {Role_admin, Role_member}. item = MakeRole r)"
      then obtain q where q: "item = MakeRole q" by blast
      show ?thesis using True c w(1) [of q] role_after_update [OF w(2), of t ?u "session cur" t ?u q ts] r
        by (simp add: q TeamHandler_UpdateMember_def update_role_body up role_body_read)
          (metis prod.collapse)
    qed
  qed
qed

definition admin_team :: team_tables where
  "admin_team = two_owner_team\<lparr>tb_members := [\<lparr>mb_id = ''m1'', mb_team = ''t1'', mb_user = ''a'', mb_role = ''admin'', mb_created = 0\<rparr>,
     \<lparr>mb_id = ''m2'', mb_team = ''t1'', mb_user = ''b'', mb_role = ''member'', mb_created = 1\<rparr>]\<rparr>"

definition row_of_b :: TeamMember where
  "row_of_b = \<lparr>TeamMember_id = ''m2'', TeamMember_team_id = ''t1'', TeamMember_user_id = ''b'', TeamMember_role = Role_member,
     TeamMember_email = ''b@x'', TeamMember_user_name = ''B'', TeamMember_created_at = []\<rparr>"

definition admin_list :: "TeamMember list" where
  "admin_list = [row_of_b\<lparr>TeamMember_id := ''m1'', TeamMember_user_id := ''a'', TeamMember_role := Role_admin, TeamMember_email := ''a@x'',
     TeamMember_user_name := ''A''\<rparr>, row_of_b]"

lemma member_menu_effect_witness:
  "menu_reply (\<lambda>u. True) ''a'' ''t1'' row_of_b RemoveMember admin_team = (admin_team, Inl (403, ''insufficient permissions''))"
proof -
  have c: "consistent admin_team" by code_simp
  have l: "TeamHandler_ListMembers (\<lambda>u. True) (\<lambda>n. []) (Some (session ''a'')) ''t1'' admin_team = Inr admin_list" by code_simp
  have m: "row_of_b \<in> set admin_list" by (simp add: admin_list_def)
  have i: "RemoveMember \<in> set (member_menu ''a'' admin_list row_of_b)" by code_simp
  have "member_role ''t1'' ''a'' admin_team = Some ''admin''" by code_simp
  with member_menu_effect [OF c l m i] show ?thesis by simp
qed

section \<open>From the invite to the membership\<close>

definition invite_guard :: "string \<Rightarrow> invite_dialog \<Rightarrow> endpoint \<Rightarrow> bool" where
  "invite_guard t d ep = (trim (nd_email d) \<noteq> [] \<and> ep = invitesApi_create t (trim (nd_email d)) (nd_role d))"

definition invite_ok :: "invite_dialog \<Rightarrow> bool" where
  "invite_ok d = (nd_role d \<in> set invite_roles_offered)"

interpretation invite_form: request_machine "invite_dialog_step t" invite_ok "invite_guard t"
proof
  fix d e r
  show "invite_ok d \<Longrightarrow> invite_ok (fst (invite_dialog_step t d e))"
    by (cases e) (auto simp: invite_ok_def invite_dialog_init_def invite_roles_offered_def)
  show "invite_ok d \<Longrightarrow> snd (invite_dialog_step t d e) = Some r \<Longrightarrow> invite_guard t d r"
    by (cases e) (auto simp: invite_guard_def split: if_splits)
qed

lemma invite_lower: "toLowerCase ''email'' = ''email''" "toLowerCase ''role'' = ''role''" "toLowerCase ''token'' = ''token''"
  by code_simp+

lemma invite_body:
  assumes "b = fa_body (call_args (invitesApi_create t email r))"
  shows "DecodeJSON uuid createInviteRequest b" "go_str (the b) ''email'' = email" "go_str (the b) ''role'' = role_str r"
proof -
  let ?kvs = "[(''email'', JStr email), (''role'', JStr (role_str r))]"
  have b: "b = Some (wire (JObj ?kvs))" unfolding assms by (simp add: wire_body invitesApi_create_def api_verbs)
  show "DecodeJSON uuid createInviteRequest b" by (simp add: b DecodeJSON_def createInviteRequest_def go_field_def)
  have k: "distinct (map fst ?kvs)" "list_all (\<lambda>e. toLowerCase (fst e) = fst e) ?kvs" by (simp_all add: invite_lower)
  show "go_str (the b) ''email'' = email" "go_str (the b) ''role'' = role_str r"
    unfolding b option.sel go_str_def go_ptr_def go_member_wire [OF k invite_lower(1)] go_member_wire [OF k invite_lower(2)] by simp_all
qed

lemma accept_body:
  assumes "b = fa_body (call_args (accept_request tok))"
  shows "DecodeJSON uuid acceptInviteRequest b" "go_str (the b) ''token'' = tok"
proof -
  have b: "b = Some (wire (JObj [(''token'', JStr tok)]))" unfolding assms by (simp add: wire_body accept_request_def api_verbs)
  show "DecodeJSON uuid acceptInviteRequest b" by (simp add: b DecodeJSON_def acceptInviteRequest_def go_field_def)
  have k: "distinct (map fst [(''token'', JStr tok)])" "list_all (\<lambda>e. toLowerCase (fst e) = fst e) [(''token'', JStr tok)]" by (simp_all add: invite_lower)
  show "go_str (the b) ''token'' = tok"
    unfolding b option.sel go_str_def go_ptr_def go_member_wire [OF k invite_lower(3)] by simp
qed

text \<open>Accepting an invite that is there, by the user it is for.\<close>

lemma accepted:
  assumes "consistent ts" and "tb_invites ts = is @ [i]" and "list_all (\<lambda>r. iv_id r \<noteq> iv_id i \<and> iv_token r \<noteq> iv_token i) is"
    and "now < iv_expires i" and "GetUserByID u ts = Some x" and "us_email x = iv_email i" and "member_role (iv_team i) u ts = None"
    and "list_all (\<lambda>m. mb_id m \<noteq> newId) (tb_members ts)"
  shows "\<exists>ts'. TeamHandler_AcceptInvite uuid now newId (Some (session u)) (fa_body (call_args (accept_request (iv_token i)))) ts = (ts', Inr ()) \<and>
    (\<forall>t' u'. member_role t' u' ts' = (if t' = iv_team i \<and> u' = u then Some (iv_role i) else member_role t' u' ts)) \<and> tb_invites ts' = is"
proof -
  let ?m = "\<lparr>mb_id = newId, mb_team = iv_team i, mb_user = u, mb_role = iv_role i, mb_created = now\<rparr>"
  note b = accept_body [OF refl [of "fa_body (call_args (accept_request (iv_token i)))"]]
  have g: "GetInviteByToken now (iv_token i) ts = Some i"
  proof -
    have "find (\<lambda>r. iv_token r = iv_token i \<and> iv_expires r > now) (js @ [i]) = Some i"
      if "list_all (\<lambda>r. iv_id r \<noteq> iv_id i \<and> iv_token r \<noteq> iv_token i) js" for js
      using that assms(4) by (induction js) auto
    then show ?thesis using assms(3) by (simp add: GetInviteByToken_def assms(2))
  qed
  from find_SomeD [OF assms(5) [unfolded GetUserByID_def]] have "has_user u ts" by (auto simp: list_ex_iff)
  moreover have "has_team (iv_team i) ts" "iv_role i \<in> set member_roles"
    using assms(1,2) by (auto simp: consistent_def invite_roles_def member_roles_def)
  moreover have "\<not> list_ex (\<lambda>r. mb_id r = newId \<or> mb_team r = iv_team i \<and> mb_user r = u) (tb_members ts)"
    using assms(7,8) by (auto simp: member_role_def GetMembership_def find_None_iff list_ex_iff list_all_iff)
  ultimately have c: "CreateMembership ?m ts = Some (ts\<lparr>tb_members := tb_members ts @ [?m]\<rparr>)" by (simp add: CreateMembership_def)
  let ?ts' = "audit_Log \<lparr>al_team = Some (iv_team i), al_actor = u, al_action = ''invite.accept'', al_resource = iv_id i\<rparr>
    (DeleteInvite (iv_id i) (ts\<lparr>tb_members := tb_members ts @ [?m]\<rparr>))"
  have "TeamHandler_AcceptInvite uuid now newId (Some (session u)) (fa_body (call_args (accept_request (iv_token i)))) ts = (?ts', Inr ())"
    using assms(5,6) c by (simp add: TeamHandler_AcceptInvite_def b g session_def)
  moreover have "member_role t' u' ?ts' = (if t' = iv_team i \<and> u' = u then Some (iv_role i) else member_role t' u' ts)" for t' u'
    using role_appended [of ?ts' ts ?m] assms(7) by (simp add: DeleteInvite_def member_role_def)
  moreover have "tb_invites ?ts' = is" using assms(3) by (simp add: DeleteInvite_def assms(2) filter_id_conv list_all_iff)
  ultimately show ?thesis by blast
qed

text \<open>
  C10: An invite leads to the membership it promises. When the dialog sends an invite for someone who may invite, the API
  e-mails the typed address a link; a user with that address that is not yet a member and opens the link in time is, after
  the page's request, a member with the role chosen in the dialog. Nobody else's role changes, and the invite is used up.
\<close>

lemma invite_accepted:
  assumes "(d, ep) \<in> set (emitted (invite_dialog_step t) invite_dialog_init es)" and "team_gate uuid auth t ''admin'' [''invites:write''] ts = Inr ac"
    and "consistent ts" and "list_all (\<lambda>r. iv_id r \<noteq> newId \<and> iv_token r \<noteq> hash tok) (tb_invites ts)"
    and "GetUserByID u ts = Some x" and "us_email x = trim (nd_email d)" and "member_role t u ts = None"
    and "list_all (\<lambda>m. mb_id m \<noteq> newMember) (tb_members ts)" and "now' < now + ttl"
  shows "\<exists>ts1 inv ts2.
    TeamHandler_CreateInvite uuid stamp hash base ttl now newId tok auth t (fa_body (call_args ep)) ts =
      (ts1, Some (us_email x, base @ ''/invites/accept/'' @ hash tok), Inr inv) \<and>
    emitted (accept_step (hash tok)) accept_init [MeAnswer (Inr me)] = [(accept_init, accept_request (hash tok))] \<and>
    TeamHandler_AcceptInvite uuid now' newMember (Some (session u)) (fa_body (call_args (accept_request (hash tok)))) ts1 = (ts2, Inr ()) \<and>
    (\<forall>t' u'. member_role t' u' ts2 = (if t' = t \<and> u' = u then Some (role_str (nd_role d)) else member_role t' u' ts)) \<and>
    tb_invites ts2 = tb_invites ts"
proof -
  have "invite_ok invite_dialog_init" by (simp add: invite_ok_def invite_dialog_init_def invite_roles_offered_def)
  from invite_form.emitted_guarded [OF this assms(1)] have role: "nd_role d \<in> set invite_roles_offered" and ne: "trim (nd_email d) \<noteq> []"
    and ep: "ep = invitesApi_create t (trim (nd_email d)) (nd_role d)" by (simp_all add: invite_guard_def invite_ok_def)
  note b = invite_body [OF refl [of "fa_body (call_args (invitesApi_create t (trim (nd_email d)) (nd_role d)))"]]
  have r: "role_str (nd_role d) \<in> set invite_roles" "role_str (nd_role d) \<noteq> []" using role by (auto simp: invite_roles_offered_def invite_roles_def)
  let ?i = "\<lparr>iv_id = newId, iv_team = t, iv_email = trim (nd_email d), iv_role = role_str (nd_role d), iv_token = hash tok, iv_by = ac_user ac,
    iv_expires = now + ttl, iv_created = now\<rparr>"
  obtain g where g: "auth = Some ac" "GetMembership t (ac_user ac) ts = Some g" using gate_role [OF assms(2)] by blast
  have "has_team t ts" "has_user (ac_user ac) ts"
    using membership_in [OF g(2)] assms(3) by (auto simp: consistent_def list_all_iff)
  then have c: "CreateInvite ?i ts = Some (ts\<lparr>tb_invites := tb_invites ts @ [?i]\<rparr>)"
    using r assms(4) by (auto simp: CreateInvite_def list_ex_iff list_all_iff)
  let ?ts1 = "audit_Log \<lparr>al_team = Some t, al_actor = ac_user ac, al_action = ''invite.create'', al_resource = newId\<rparr> (ts\<lparr>tb_invites := tb_invites ts @ [?i]\<rparr>)"
  have cr: "TeamHandler_CreateInvite uuid stamp hash base ttl now newId tok auth t (fa_body (call_args ep)) ts =
      (?ts1, Some (us_email x, base @ ''/invites/accept/'' @ hash tok), Inr (invite_view stamp (Some []) ?i))"
    using ne r c assms(2,6) unfolding ep by (simp add: TeamHandler_CreateInvite_def b Let_def inviteURL_def)
  have cons: "consistent ?ts1" using CreateInvite_kept(1) [OF c assms(3)] by simp
  have same: "member_role t' u' ?ts1 = member_role t' u' ts" "GetUserByID u ?ts1 = GetUserByID u ts" for t' u'
    by (simp_all add: member_role_def GetMembership_def GetUserByID_def)
  from accepted [OF cons, of "tb_invites ts" ?i now' u x newMember uuid] assms(4-9) same
  obtain ts2 where "TeamHandler_AcceptInvite uuid now' newMember (Some (session u)) (fa_body (call_args (accept_request (hash tok)))) ?ts1 = (ts2, Inr ())"
    "\<forall>t' u'. member_role t' u' ts2 = (if t' = t \<and> u' = u then Some (role_str (nd_role d)) else member_role t' u' ts)" "tb_invites ts2 = tb_invites ts"
    by auto
  then show ?thesis using cr by (intro exI [of _ ?ts1] exI [of _ "invite_view stamp (Some []) ?i"] exI [of _ ts2]) (simp add: accept_init_def)
qed

definition guest_team :: team_tables where
  "guest_team = two_owner_team\<lparr>tb_members := [\<lparr>mb_id = ''m1'', mb_team = ''t1'', mb_user = ''a'', mb_role = ''admin'', mb_created = 0\<rparr>]\<rparr>"

definition guest_dialog :: invite_dialog where
  "guest_dialog = \<lparr>nd_open = True, nd_email = '' b@x'', nd_role = Role_admin, nd_error = None\<rparr>"

lemma invite_accepted_witness:
  "\<exists>ts1 inv ts2.
    TeamHandler_CreateInvite (\<lambda>u. True) (\<lambda>n. []) (\<lambda>s. ''h'' @ s) ''https://c'' 10 5 ''i1'' ''k'' (Some (session ''a'')) ''t1''
      (fa_body (call_args (invitesApi_create ''t1'' ''b@x'' Role_admin))) guest_team = (ts1, Some (''b@x'', ''https://c/invites/accept/hk''), Inr inv) \<and>
    TeamHandler_AcceptInvite (\<lambda>u. True) 14 ''m2'' (Some (session ''b'')) (fa_body (call_args (accept_request ''hk''))) ts1 = (ts2, Inr ()) \<and>
    member_role ''t1'' ''b'' ts2 = Some ''admin''"
proof -
  have d: "trim (nd_email guest_dialog) = ''b@x''" "nd_role guest_dialog = Role_admin" by code_simp+
  have "invite_dialog_step ''t1'' guest_dialog NSubmit = (guest_dialog, Some (invitesApi_create ''t1'' ''b@x'' Role_admin))"
    by (simp add: d) (simp add: guest_dialog_def)
  then have e: "(guest_dialog, invitesApi_create ''t1'' ''b@x'' Role_admin) \<in>
      set (emitted (invite_dialog_step ''t1'') invite_dialog_init [NOpen True, NEmail '' b@x'', NRole Role_admin, NSubmit])"
    unfolding guest_dialog_def by (simp add: invite_dialog_init_def invite_roles_offered_def)
  have g: "team_gate (\<lambda>u. True) (Some (session ''a'')) ''t1'' ''admin'' [''invites:write''] guest_team = Inr (session ''a'')"
    "consistent guest_team" "GetUserByID ''b'' guest_team = Some \<lparr>us_id = ''b'', us_email = ''b@x'', us_name = ''B''\<rparr>"
    "member_role ''t1'' ''b'' guest_team = None" "list_all (\<lambda>m. mb_id m \<noteq> ''m2'') (tb_members guest_team)"
    "list_all (\<lambda>r. iv_id r \<noteq> ''i1'' \<and> iv_token r \<noteq> ''hk'') (tb_invites guest_team)"
    by code_simp+
  have i: "list_all (\<lambda>r. iv_id r \<noteq> ''i1'' \<and> iv_token r \<noteq> (\<lambda>s. ''h'' @ s) ''k'') (tb_invites guest_team)" using g(6) by simp
  have m: "us_email \<lparr>us_id = ''b'', us_email = ''b@x'', us_name = ''B''\<rparr> = trim (nd_email guest_dialog)" by (simp add: d)
  have lt: "(14::int) < 5 + 10" by simp
  from invite_accepted [where hash = "\<lambda>s. ''h'' @ s" and tok = "''k''" and stamp = "\<lambda>n. []" and base = "''https://c''", OF e g(1,2) i g(3) m g(4,5) lt]
  obtain ts1 inv ts2 where
    "TeamHandler_CreateInvite (\<lambda>u. True) (\<lambda>n. []) (\<lambda>s. ''h'' @ s) ''https://c'' 10 5 ''i1'' ''k'' (Some (session ''a'')) ''t1''
      (fa_body (call_args (invitesApi_create ''t1'' ''b@x'' Role_admin))) guest_team =
      (ts1, Some (us_email \<lparr>us_id = ''b'', us_email = ''b@x'', us_name = ''B''\<rparr>, ''https://c'' @ ''/invites/accept/'' @ ''h'' @ ''k''), Inr inv)"
    "TeamHandler_AcceptInvite (\<lambda>u. True) 14 ''m2'' (Some (session ''b'')) (fa_body (call_args (accept_request (''h'' @ ''k'')))) ts1 = (ts2, Inr ())"
    "\<forall>t' u'. member_role t' u' ts2 = (if t' = ''t1'' \<and> u' = ''b'' then Some (role_str (nd_role guest_dialog)) else member_role t' u' guest_team)"
    by blast
  then show ?thesis by (intro exI [of _ ts1] exI [of _ inv] exI [of _ ts2]) (simp add: d)
qed

text \<open>The page sends at most one request, and only after it was told that a user is signed in.\<close>

lemma accept_page_once: "length (emitted (accept_step token) accept_init es) \<le> 1"
proof -
  have quiet: "ap_state p \<noteq> Acc_checking \<Longrightarrow> emitted (accept_step token) p es = []" for p es
  proof (induction es arbitrary: p)
    case (Cons e es)
    then show ?case by (cases e) (auto split: sum.split)
  qed simp
  have "length (emitted (accept_step token) p es) \<le> 1" for p
  proof (induction es arbitrary: p)
    case (Cons e es)
    show ?case using Cons.IH quiet by (cases e) (auto split: sum.split)
  qed simp
  then show ?thesis .
qed

section \<open>Creating and renaming\<close>

definition team_guard :: "team_dialog \<Rightarrow> endpoint \<Rightarrow> bool" where
  "team_guard d ep = (trim (tg_name d) \<noteq> [] \<and> ep = teamsApi_create (trim (tg_name d)))"

interpretation team_form: request_machine team_dialog_step "\<lambda>d. True" team_guard
proof
  fix d e r
  show "snd (team_dialog_step d e) = Some r \<Longrightarrow> team_guard d r" by (cases e) (auto simp: team_guard_def split: if_splits)
qed simp

lemma name_body:
  assumes "b = Some (wire (JObj [(''name'', JStr n)]))"
  shows "DecodeJSON uuid createTeamRequest b" "DecodeJSON uuid updateTeamRequest b" "go_str (the b) ''name'' = n"
proof -
  show "DecodeJSON uuid createTeamRequest b" "DecodeJSON uuid updateTeamRequest b"
    by (simp_all add: assms DecodeJSON_def createTeamRequest_def updateTeamRequest_def go_field_def)
  have l: "toLowerCase ''name'' = ''name''" by code_simp
  have k: "distinct (map fst [(''name'', JStr n)])" "list_all (\<lambda>e. toLowerCase (fst e) = fst e) [(''name'', JStr n)]" by (simp_all add: l)
  show "go_str (the b) ''name'' = n" unfolding assms option.sel go_str_def go_ptr_def go_member_wire [OF k l] by simp
qed

lemma listed_active:
  assumes "r \<in> set rs" and "\<And>q. q \<in> set rs \<Longrightarrow> te_id q = te_id r \<Longrightarrow> q = r" and "te_id r \<noteq> []"
  shows "tc_activeTeam (getTeamContext (Inr (map (team_view stamp) rs)) (fst (team_created (team_view stamp r) cookies))) = Some (team_view stamp r)"
proof -
  let ?teams = "map (team_view stamp) rs"
  have v: "Team_id (team_view stamp q) = te_id q" for q by (simp add: team_view_def)
  have i: "te_id r \<in> Team_id ` set ?teams" using assms(1) by (auto simp: image_iff v intro!: bexI [of _ r])
  obtain q where q: "q \<in> set rs" "the (find (\<lambda>t. Team_id t = te_id r) ?teams) = team_view stamp q" "te_id q = te_id r"
    using find_team [OF i] by (auto simp: v)
  from q(2) assms(2) [OF q(1,3)] have "the (find (\<lambda>t. Team_id t = te_id r) ?teams) = team_view stamp r" by simp
  moreover have "?teams \<noteq> []" using assms(1) by auto
  ultimately show ?thesis using i assms(3) by (simp add: active_team_of team_created_def obj_get_set v)
qed

text \<open>
  A team created in the dialog is the one the console shows next. When no other team has its slug, the API stores the
  team under the trimmed name with its creator as owner, and with the cookie the dialog sets, the next page is rendered
  for that team.
\<close>

lemma create_team_active:
  assumes "(d, ep) \<in> set (emitted team_dialog_step team_dialog_init es)" and "consistent ts" and "has_user u ts"
    and "list_all (\<lambda>r. te_id r \<noteq> newTeam \<and> te_slug r \<noteq> slugify (trim (tg_name d))) (tb_teams ts)"
    and "list_all (\<lambda>m. mb_id m \<noteq> newMember) (tb_members ts)" and "newTeam \<noteq> []"
  shows "\<exists>ts' tm teams. TeamHandler_Create uuid stamp now newTeam newMember (Some (session u)) (fa_body (call_args ep)) ts = (ts', Inr tm) \<and>
    Team_name tm = trim (tg_name d) \<and> member_role newTeam u ts' = Some ''owner'' \<and>
    TeamHandler_List stamp (Some (session u)) ts' = Inr teams \<and>
    tc_activeTeam (getTeamContext (Inr teams) (fst (team_created tm cookies))) = Some tm"
proof -
  from team_form.emitted_guarded [OF TrueI assms(1)] have ne: "trim (tg_name d) \<noteq> []" and ep: "ep = teamsApi_create (trim (tg_name d))"
    by (simp_all add: team_guard_def)
  have "fa_body (call_args ep) = Some (wire (JObj [(''name'', JStr (trim (tg_name d)))]))"
    unfolding ep by (simp add: wire_body teamsApi_create_def api_verbs)
  note b = name_body [OF this]
  let ?r = "\<lparr>te_id = newTeam, te_name = trim (tg_name d), te_slug = slugify (trim (tg_name d)), te_created = now, te_updated = now\<rparr>"
  let ?m = "\<lparr>mb_id = newMember, mb_team = newTeam, mb_user = u, mb_role = ''owner'', mb_created = now\<rparr>"
  let ?ts1 = "ts\<lparr>tb_teams := tb_teams ts @ [?r]\<rparr>"
  have new: "\<not> has_team newTeam ts" using assms(4) by (auto simp: list_ex_iff list_all_iff)
  have c1: "CreateTeam ?r ts = Some ?ts1" using assms(4) by (auto simp: CreateTeam_def list_ex_iff list_all_iff)
  note none = new_team_memberless [OF assms(2) new]
  have "\<not> list_ex (\<lambda>m. mb_id m = newMember \<or> mb_team m = newTeam \<and> mb_user m = u) (tb_members ts)"
    using assms(5) none by (auto simp: list_ex_iff list_all_iff GetMembership_def find_None_iff)
  then have c2: "CreateMembership ?m ?ts1 = Some (?ts1\<lparr>tb_members := tb_members ts @ [?m]\<rparr>)"
    using assms(3) by (simp add: CreateMembership_def member_roles_def)
  let ?ts' = "audit_Log \<lparr>al_team = Some newTeam, al_actor = u, al_action = ''team.create'', al_resource = newTeam\<rparr> (?ts1\<lparr>tb_members := tb_members ts @ [?m]\<rparr>)"
  have h: "TeamHandler_Create uuid stamp now newTeam newMember (Some (session u)) (fa_body (call_args ep)) ts = (?ts', Inr (team_view stamp ?r))"
    unfolding TeamHandler_Create_def using b ne c1 c2 by (simp add: session_def Let_def)
  have role: "member_role newTeam u ?ts' = Some ''owner''" using role_appended [of ?ts' ts ?m newTeam u] none by simp
  let ?teams = "map (team_view stamp) (ListTeamsByUser u ?ts')"
  have l: "TeamHandler_List stamp (Some (session u)) ?ts' = Inr ?teams" by (simp add: TeamHandler_List_def session_def)
  have mem: "?r \<in> set (ListTeamsByUser u ?ts')" by (simp add: ListTeamsByUser_def)
  have only: "q = ?r" if "q \<in> set (ListTeamsByUser u ?ts')" "te_id q = te_id ?r" for q
    using that new by (auto simp: ListTeamsByUser_def list_ex_iff)
  from listed_active [OF mem only, of stamp cookies] assms(6)
  have "tc_activeTeam (getTeamContext (Inr ?teams) (fst (team_created (team_view stamp ?r) cookies))) = Some (team_view stamp ?r)" by simp
  then show ?thesis using h role l by (intro exI [of _ ?ts'] exI [of _ "team_view stamp ?r"] exI [of _ ?teams]) (simp add: team_view_def)
qed

definition atlas_dialog :: team_dialog where
  "atlas_dialog = \<lparr>tg_open = True, tg_name = ''Atlas '', tg_error = None\<rparr>"

lemma create_team_active_witness:
  "\<exists>ts' tm teams. TeamHandler_Create (\<lambda>u. True) (\<lambda>n. []) 7 ''t2'' ''m3'' (Some (session ''a'')) (fa_body (call_args (teamsApi_create ''Atlas''))) two_owner_team
      = (ts', Inr tm) \<and> Team_name tm = ''Atlas'' \<and> TeamHandler_List (\<lambda>n. []) (Some (session ''a'')) ts' = Inr teams \<and>
    tc_activeTeam (getTeamContext (Inr teams) (fst (team_created tm []))) = Some tm"
proof -
  have d: "trim (tg_name atlas_dialog) = ''Atlas''" by code_simp
  have "team_dialog_step atlas_dialog GSubmit = (atlas_dialog, Some (teamsApi_create ''Atlas''))" by (simp add: d) (simp add: atlas_dialog_def)
  then have e: "(atlas_dialog, teamsApi_create ''Atlas'') \<in> set (emitted team_dialog_step team_dialog_init [GOpen True, GName ''Atlas '', GSubmit])"
    unfolding atlas_dialog_def by (simp add: team_dialog_init_def)
  have g: "has_user ''a'' two_owner_team"
    "list_all (\<lambda>r. te_id r \<noteq> ''t2'' \<and> te_slug r \<noteq> slugify (trim (tg_name atlas_dialog))) (tb_teams two_owner_team)"
    "list_all (\<lambda>m. mb_id m \<noteq> ''m3'') (tb_members two_owner_team)" by code_simp+
  have n: "''t2'' \<noteq> []" by simp
  from create_team_active [OF e two_owner_consistent g n, of "\<lambda>u. True" "\<lambda>n. []" 7 "[]"] show ?thesis unfolding d by blast
qed

text \<open>The settings page says that the slug stays; renaming replaces it.\<close>

lemma rename_replaces_slug:
  assumes "TeamHandler_Update uuid stamp now auth t (Some (wire (JObj [(''name'', JStr n)]))) ts = (ts', Inr tm)"
  shows "Team_name tm = n \<and> Team_slug tm = slugify n"
proof -
  obtain ac where g: "team_gate uuid auth t ''admin'' [''teams:write''] ts = Inr ac"
    using assms by (cases rule: gate_cases [of uuid auth t "''admin''" "[''teams:write'']" ts]) (simp_all add: TeamHandler_Update_def)
  note b = name_body [OF refl [of "Some (wire (JObj [(''name'', JStr n)]))"]]
  have ne: "n \<noteq> []" using assms g b by (auto simp: TeamHandler_Update_def simp del: wire.simps)
  obtain ts1 r where u: "UpdateTeam now t n (slugify n) ts = Some (ts1, r)"
    using assms g b ne by (cases "UpdateTeam now t n (slugify n) ts") (auto simp: TeamHandler_Update_def Let_def simp del: wire.simps)
  then have "te_name r = n \<and> te_slug r = slugify n"
    by (auto simp: UpdateTeam_def GetTeamByID_def Let_def split: option.splits if_splits dest: find_SomeD)
  then show ?thesis using assms g b ne u by (auto simp: TeamHandler_Update_def Let_def team_view_def simp del: wire.simps)
qed

end
