(* ===== verification/Account_Store.thy ===== *)
theory Account_Store
  imports App_Store Go_Json
begin

text \<open>
  Accounts behind the API: users with their password, verification and reset links (\<open>sql/queries/users.sql\<close>), sessions
  (\<open>internal/auth/session.go\<close>) and the handlers of \<open>internal/api/handler/auth.go\<close>. Parameters are the address parser
  \<open>mail.ParseAddress\<close>, bcrypt, the key-value store of the sessions, the hash of tokens and the random bytes; \<open>bcrypt_ok\<close> and
  \<open>kv_ok\<close> state what is relied on. Instants are integers, \<open>stamp\<close> is their text. The audit log is left out.
\<close>

section \<open>Passwords and tokens\<close>

record bcrypt =
  bc_gen :: "string \<Rightarrow> string \<Rightarrow> string option"
  bc_cmp :: "string \<Rightarrow> string \<Rightarrow> bool"

text \<open>
  A hash can be made of at most 72 bytes and accepts its password; another password of at most 72 bytes is refused.
\<close>

definition bcrypt_ok :: "bcrypt \<Rightarrow> bool" where
  "bcrypt_ok bc = (\<forall>pw salt. (bc_gen bc pw salt = None \<longleftrightarrow> length pw > 72) \<and>
     (\<forall>h. bc_gen bc pw salt = Some h \<longrightarrow> (\<forall>pw'. length pw' \<le> 72 \<longrightarrow> (bc_cmp bc h pw' \<longleftrightarrow> pw' = pw))))"

definition HashPassword :: "bcrypt \<Rightarrow> string \<Rightarrow> string \<Rightarrow> string option" where
  "HashPassword bc password salt = bc_gen bc password salt"

definition CheckPassword :: "bcrypt \<Rightarrow> string \<Rightarrow> string \<Rightarrow> bool" where
  "CheckPassword bc password h = bc_cmp bc h password"

definition ValidatePasswordStrength :: "string \<Rightarrow> string option" where
  "ValidatePasswordStrength password = (if length password < 8 then Some ''password must be at least 8 characters'' else None)"

definition tokenPrefix :: string where
  "tokenPrefix = ''nxw_''"

text \<open>\<open>raw\<close> are the random bytes in base 64.\<close>

definition GenerateAPIToken :: "(string \<Rightarrow> string) \<Rightarrow> string \<Rightarrow> string \<times> string" where
  "GenerateAPIToken hash raw = (tokenPrefix @ raw, hash (tokenPrefix @ raw))"

section \<open>Sessions\<close>

record 's kv_store =
  kv_set :: "int \<Rightarrow> string \<Rightarrow> string \<Rightarrow> int \<Rightarrow> 's \<Rightarrow> 's"
  kv_get :: "int \<Rightarrow> string \<Rightarrow> 's \<Rightarrow> string option"
  kv_del :: "string \<Rightarrow> 's \<Rightarrow> 's"

text \<open>A value is found until its time to live is over or it is deleted; other keys are not touched.\<close>

definition kv_ok :: "'s kv_store \<Rightarrow> bool" where
  "kv_ok kv =
     ((\<forall>now k v ttl s now' k'. kv_get kv now' k' (kv_set kv now k v ttl s) =
         (if k' = k then if now' < now + ttl then Some v else None else kv_get kv now' k' s)) \<and>
      (\<forall>k s now' k'. kv_get kv now' k' (kv_del kv k s) = (if k' = k then None else kv_get kv now' k' s)))"

record SessionData =
  sn_user :: string
  sn_email :: string
  sn_name :: string

definition session_key :: "string \<Rightarrow> string" where
  "session_key sid = ''session:'' @ sid"

definition session_json :: "SessionData \<Rightarrow> string" where
  "session_json d = go_json_object [(''user_id'', JStr (sn_user d)), (''email'', JStr (sn_email d)), (''name'', JStr (sn_name d))]"

definition SessionManager_Create :: "'s kv_store \<Rightarrow> int \<Rightarrow> int \<Rightarrow> string \<Rightarrow> SessionData \<Rightarrow> 's \<Rightarrow> 's" where
  "SessionManager_Create kv ttl now sid d s = kv_set kv now (session_key sid) (session_json d) ttl s"

definition SessionManager_Get :: "'s kv_store \<Rightarrow> int \<Rightarrow> string \<Rightarrow> 's \<Rightarrow> SessionData option" where
  "SessionManager_Get kv now sid s =
     (case kv_get kv now (session_key sid) s of
        None \<Rightarrow> None
      | Some v \<Rightarrow>
          (case JSON_parse v of
             None \<Rightarrow> None
           | Some j \<Rightarrow> Some \<lparr>sn_user = go_str j ''user_id'', sn_email = go_str j ''email'', sn_name = go_str j ''name''\<rparr>))"

definition SessionManager_Delete :: "'s kv_store \<Rightarrow> string \<Rightarrow> 's \<Rightarrow> 's" where
  "SessionManager_Delete kv sid s = kv_del kv (session_key sid) s"

section \<open>Users\<close>

record account =
  au_id :: string
  au_email :: string
  au_hash :: string
  au_name :: string
  au_verified :: bool
  au_verify :: "(string \<times> int) option"
  au_reset :: "(string \<times> int) option"
  au_created :: int
  au_updated :: int

text \<open>The mail that was sent: address and link.\<close>

record 's accounts =
  ax_users :: "account list"
  ax_sessions :: 's
  ax_mail :: "(string \<times> string) list"

definition CreateAccount :: "account \<Rightarrow> 's accounts \<Rightarrow> 's accounts option" where
  "CreateAccount u ts =
     (if list_ex (\<lambda>r. au_id r = au_id u \<or> au_email r = au_email u) (ax_users ts) then None else Some (ts\<lparr>ax_users := ax_users ts @ [u]\<rparr>))"

definition account_by_id :: "string \<Rightarrow> 's accounts \<Rightarrow> account option" where
  "account_by_id u ts = find (\<lambda>r. au_id r = u) (ax_users ts)"

definition GetUserByEmail :: "string \<Rightarrow> 's accounts \<Rightarrow> account option" where
  "GetUserByEmail e ts = find (\<lambda>r. au_email r = e) (ax_users ts)"

text \<open>A link is good while its token is the one stored and has not expired.\<close>

definition link_good :: "int \<Rightarrow> string \<Rightarrow> (string \<times> int) option \<Rightarrow> bool" where
  "link_good now tok l = (case l of None \<Rightarrow> False | Some (t, e) \<Rightarrow> t = tok \<and> e > now)"

definition GetUserByVerifyToken :: "int \<Rightarrow> string \<Rightarrow> 's accounts \<Rightarrow> account option" where
  "GetUserByVerifyToken now tok ts = find (\<lambda>r. link_good now tok (au_verify r)) (ax_users ts)"

definition GetUserByResetToken :: "int \<Rightarrow> string \<Rightarrow> 's accounts \<Rightarrow> account option" where
  "GetUserByResetToken now tok ts = find (\<lambda>r. link_good now tok (au_reset r)) (ax_users ts)"

definition update_account :: "string \<Rightarrow> (account \<Rightarrow> account) \<Rightarrow> 's accounts \<Rightarrow> 's accounts" where
  "update_account u f ts = ts\<lparr>ax_users := map (\<lambda>r. if au_id r = u then f r else r) (ax_users ts)\<rparr>"

definition VerifyUserEmail :: "int \<Rightarrow> string \<Rightarrow> 's accounts \<Rightarrow> 's accounts" where
  "VerifyUserEmail now u = update_account u (\<lambda>r. r\<lparr>au_verified := True, au_verify := None, au_updated := now\<rparr>)"

definition SetEmailVerifyToken :: "int \<Rightarrow> string \<Rightarrow> string \<Rightarrow> int \<Rightarrow> 's accounts \<Rightarrow> 's accounts" where
  "SetEmailVerifyToken now u tok expires = update_account u (\<lambda>r. r\<lparr>au_verify := Some (tok, expires), au_updated := now\<rparr>)"

definition SetPasswordResetToken :: "int \<Rightarrow> string \<Rightarrow> string \<Rightarrow> int \<Rightarrow> 's accounts \<Rightarrow> 's accounts" where
  "SetPasswordResetToken now u tok expires = update_account u (\<lambda>r. r\<lparr>au_reset := Some (tok, expires), au_updated := now\<rparr>)"

definition UpdatePassword :: "int \<Rightarrow> string \<Rightarrow> string \<Rightarrow> 's accounts \<Rightarrow> 's accounts" where
  "UpdatePassword now u h = update_account u (\<lambda>r. r\<lparr>au_hash := h, au_reset := None, au_updated := now\<rparr>)"

definition email_Send :: "string \<Rightarrow> string \<Rightarrow> 's accounts \<Rightarrow> 's accounts" where
  "email_Send address link ts = ts\<lparr>ax_mail := ax_mail ts @ [(address, link)]\<rparr>"

section \<open>Handlers\<close>

record 's auth_config =
  cf_uuid :: "string \<Rightarrow> bool"
  cf_mail :: "string \<Rightarrow> bool"
  cf_bcrypt :: bcrypt
  cf_hash :: "string \<Rightarrow> string"
  cf_kv :: "'s kv_store"
  cf_base :: string
  cf_session_ttl :: int
  cf_verify_ttl :: int
  cf_reset_ttl :: int

definition verifyURL :: "'s auth_config \<Rightarrow> string \<Rightarrow> string" where
  "verifyURL cf tok = cf_base cf @ ''/verify-email/'' @ tok"

definition resetURL :: "'s auth_config \<Rightarrow> string \<Rightarrow> string" where
  "resetURL cf tok = cf_base cf @ ''/reset-password/'' @ tok"

definition user_view :: "(int \<Rightarrow> string) \<Rightarrow> account \<Rightarrow> User" where
  "user_view stamp r = \<lparr>User_id = au_id r, User_email = au_email r, User_name = au_name r, User_email_verified = Some (au_verified r),
     User_created_at = Some (stamp (au_created r)), User_updated_at = Some (stamp (au_updated r))\<rparr>"

definition AuthHandler_Signup ::
    "'s auth_config \<Rightarrow> (int \<Rightarrow> string) \<Rightarrow> int \<Rightarrow> string \<Rightarrow> string \<Rightarrow> string \<Rightarrow> js option \<Rightarrow> 's accounts \<Rightarrow> 's accounts \<times> User reply" where
  "AuthHandler_Signup cf stamp now newId salt raw body ts =
     (if \<not> DecodeJSON (cf_uuid cf) signupRequest body then (ts, Inl (400, ''invalid request body''))
      else let email = go_str (the body) ''email''; name = go_str (the body) ''name''; password = go_str (the body) ''password'' in
        if \<not> cf_mail cf email then (ts, Inl (400, ''invalid email address''))
        else if name = [] then (ts, Inl (400, ''name is required''))
        else case ValidatePasswordStrength password of
          Some e \<Rightarrow> (ts, Inl (400, e))
        | None \<Rightarrow>
            (case HashPassword (cf_bcrypt cf) password salt of
               None \<Rightarrow> (ts, Inl (500, ''internal server error''))
             | Some h \<Rightarrow>
                 let tok = snd (GenerateAPIToken (cf_hash cf) raw);
                     u = \<lparr>au_id = newId, au_email = email, au_hash = h, au_name = name, au_verified = False,
                       au_verify = Some (tok, now + cf_verify_ttl cf), au_reset = None, au_created = now, au_updated = now\<rparr> in
                 case CreateAccount u ts of
                   None \<Rightarrow> (ts, Inl (409, ''email already registered''))
                 | Some ts' \<Rightarrow> (email_Send email (verifyURL cf tok) ts', Inr (user_view stamp u))))"

definition AuthHandler_VerifyEmail :: "'s auth_config \<Rightarrow> int \<Rightarrow> js option \<Rightarrow> 's accounts \<Rightarrow> 's accounts \<times> unit reply" where
  "AuthHandler_VerifyEmail cf now body ts =
     (if \<not> DecodeJSON (cf_uuid cf) verifyEmailRequest body then (ts, Inl (400, ''invalid request body''))
      else case GetUserByVerifyToken now (go_str (the body) ''token'') ts of
        None \<Rightarrow> (ts, Inl (400, ''invalid or expired verification token''))
      | Some u \<Rightarrow> (VerifyUserEmail now (au_id u) ts, Inr ()))"

definition AuthHandler_ResendVerification :: "'s auth_config \<Rightarrow> int \<Rightarrow> string \<Rightarrow> js option \<Rightarrow> 's accounts \<Rightarrow> 's accounts \<times> unit reply" where
  "AuthHandler_ResendVerification cf now raw body ts =
     (if \<not> DecodeJSON (cf_uuid cf) resendVerificationRequest body then (ts, Inl (400, ''invalid request body''))
      else if \<not> cf_mail cf (go_str (the body) ''email'') then (ts, Inl (400, ''invalid email address''))
      else (case GetUserByEmail (go_str (the body) ''email'') ts of
          None \<Rightarrow> ts
        | Some u \<Rightarrow>
            if au_verified u then ts
            else let tok = snd (GenerateAPIToken (cf_hash cf) raw) in
              email_Send (au_email u) (verifyURL cf tok) (SetEmailVerifyToken now (au_id u) tok (now + cf_verify_ttl cf) ts), Inr ()))"

text \<open>The session's id goes into the cookie.\<close>

definition AuthHandler_Login ::
    "'s auth_config \<Rightarrow> (int \<Rightarrow> string) \<Rightarrow> int \<Rightarrow> string \<Rightarrow> js option \<Rightarrow> 's accounts \<Rightarrow> 's accounts \<times> (string \<times> User) reply" where
  "AuthHandler_Login cf stamp now sid body ts =
     (if \<not> DecodeJSON (cf_uuid cf) loginRequest body then (ts, Inl (400, ''invalid request body''))
      else case GetUserByEmail (go_str (the body) ''email'') ts of
        None \<Rightarrow> (ts, Inl (401, ''invalid credentials''))
      | Some u \<Rightarrow>
          if \<not> CheckPassword (cf_bcrypt cf) (go_str (the body) ''password'') (au_hash u) then (ts, Inl (401, ''invalid credentials''))
          else if \<not> au_verified u then (ts, Inl (403, ''email not verified''))
          else (ts\<lparr>ax_sessions := SessionManager_Create (cf_kv cf) (cf_session_ttl cf) now sid
                     \<lparr>sn_user = au_id u, sn_email = au_email u, sn_name = au_name u\<rparr> (ax_sessions ts)\<rparr>,
                Inr (sid, user_view stamp u)))"

definition AuthHandler_Logout :: "'s auth_config \<Rightarrow> string option \<Rightarrow> 's accounts \<Rightarrow> 's accounts" where
  "AuthHandler_Logout cf cookie ts =
     (case cookie of None \<Rightarrow> ts | Some sid \<Rightarrow> ts\<lparr>ax_sessions := SessionManager_Delete (cf_kv cf) sid (ax_sessions ts)\<rparr>)"

definition AuthHandler_ForgotPassword :: "'s auth_config \<Rightarrow> int \<Rightarrow> string \<Rightarrow> js option \<Rightarrow> 's accounts \<Rightarrow> 's accounts \<times> unit reply" where
  "AuthHandler_ForgotPassword cf now raw body ts =
     (if \<not> DecodeJSON (cf_uuid cf) forgotPasswordRequest body then (ts, Inl (400, ''invalid request body''))
      else (case GetUserByEmail (go_str (the body) ''email'') ts of
          None \<Rightarrow> ts
        | Some u \<Rightarrow>
            let tok = snd (GenerateAPIToken (cf_hash cf) raw) in
            email_Send (go_str (the body) ''email'') (resetURL cf tok) (SetPasswordResetToken now (au_id u) tok (now + cf_reset_ttl cf) ts), Inr ()))"

definition AuthHandler_ResetPassword :: "'s auth_config \<Rightarrow> int \<Rightarrow> string \<Rightarrow> js option \<Rightarrow> 's accounts \<Rightarrow> 's accounts \<times> unit reply" where
  "AuthHandler_ResetPassword cf now salt body ts =
     (if \<not> DecodeJSON (cf_uuid cf) resetPasswordRequest body then (ts, Inl (400, ''invalid request body''))
      else case ValidatePasswordStrength (go_str (the body) ''password'') of
        Some e \<Rightarrow> (ts, Inl (400, e))
      | None \<Rightarrow>
          (case GetUserByResetToken now (go_str (the body) ''token'') ts of
             None \<Rightarrow> (ts, Inl (400, ''invalid or expired reset token''))
           | Some u \<Rightarrow>
               (case HashPassword (cf_bcrypt cf) (go_str (the body) ''password'') salt of
                  None \<Rightarrow> (ts, Inl (500, ''internal server error''))
                | Some h \<Rightarrow> (UpdatePassword now (au_id u) h ts, Inr ()))))"

text \<open>Who a session cookie stands for, and what the API says of them.\<close>

definition session_user :: "'s auth_config \<Rightarrow> int \<Rightarrow> string option \<Rightarrow> 's accounts \<Rightarrow> string option" where
  "session_user cf now cookie ts =
     (case cookie of
        None \<Rightarrow> None
      | Some sid \<Rightarrow> if sid = [] then None else map_option sn_user (SessionManager_Get (cf_kv cf) now sid (ax_sessions ts)))"

definition AuthHandler_Me :: "'s auth_config \<Rightarrow> (int \<Rightarrow> string) \<Rightarrow> int \<Rightarrow> string option \<Rightarrow> 's accounts \<Rightarrow> User reply" where
  "AuthHandler_Me cf stamp now cookie ts =
     (case session_user cf now cookie ts of
        None \<Rightarrow> Inl (401, ''authentication required'')
      | Some u \<Rightarrow> (case account_by_id u ts of None \<Rightarrow> Inl (404, ''user not found'') | Some r \<Rightarrow> Inr (user_view stamp r)))"

section \<open>Requests one after another\<close>

datatype account_op =
    ASignup int string string string "js option"
  | AVerify int "js option"
  | AResend int string "js option"
  | ALogin int string "js option"
  | ALogout "string option"
  | AForgot int string "js option"
  | AReset int string "js option"

fun account_step :: "'s auth_config \<Rightarrow> 's accounts \<Rightarrow> account_op \<Rightarrow> 's accounts" where
  "account_step cf ts (ASignup now newId salt raw body) = fst (AuthHandler_Signup cf (\<lambda>_. []) now newId salt raw body ts)"
| "account_step cf ts (AVerify now body) = fst (AuthHandler_VerifyEmail cf now body ts)"
| "account_step cf ts (AResend now raw body) = fst (AuthHandler_ResendVerification cf now raw body ts)"
| "account_step cf ts (ALogin now sid body) = fst (AuthHandler_Login cf (\<lambda>_. []) now sid body ts)"
| "account_step cf ts (ALogout cookie) = AuthHandler_Logout cf cookie ts"
| "account_step cf ts (AForgot now raw body) = fst (AuthHandler_ForgotPassword cf now raw body ts)"
| "account_step cf ts (AReset now salt body) = fst (AuthHandler_ResetPassword cf now salt body ts)"

text \<open>The password a request sets, with the account it is for.\<close>

fun set_password :: "'s auth_config \<Rightarrow> 's accounts \<Rightarrow> account_op \<Rightarrow> (string \<times> string) option" where
  "set_password cf ts (ASignup now newId salt raw body) =
     (case snd (AuthHandler_Signup cf (\<lambda>_. []) now newId salt raw body ts) of Inl e \<Rightarrow> None | Inr u \<Rightarrow> Some (newId, go_str (the body) ''password''))"
| "set_password cf ts (AReset now salt body) =
     (case snd (AuthHandler_ResetPassword cf now salt body ts) of
        Inl e \<Rightarrow> None
      | Inr _ \<Rightarrow> map_option (\<lambda>u. (au_id u, go_str (the body) ''password'')) (GetUserByResetToken now (go_str (the body) ''token'') ts))"
| "set_password cf ts op = None"

definition no_accounts :: "'s \<Rightarrow> 's accounts" where
  "no_accounts s = \<lparr>ax_users = [], ax_sessions = s, ax_mail = []\<rparr>"

text \<open>Ids and addresses are unique, and every link that is stored was e-mailed to the address of its account.\<close>

definition row_mailed :: "'s auth_config \<Rightarrow> (string \<times> string) list \<Rightarrow> account \<Rightarrow> bool" where
  "row_mailed cf mail r =
     ((case au_verify r of None \<Rightarrow> True | Some (t, e) \<Rightarrow> (au_email r, verifyURL cf t) \<in> set mail) \<and>
      (case au_reset r of None \<Rightarrow> True | Some (t, e) \<Rightarrow> (au_email r, resetURL cf t) \<in> set mail))"

definition accounts_ok :: "'s auth_config \<Rightarrow> 's accounts \<Rightarrow> bool" where
  "accounts_ok cf ts =
     (distinct (map au_id (ax_users ts)) \<and> distinct (map au_email (ax_users ts)) \<and> list_all (row_mailed cf (ax_mail ts)) (ax_users ts))"

lemma row_mailed_mono: "row_mailed cf mail r \<Longrightarrow> set mail \<subseteq> set mail' \<Longrightarrow> row_mailed cf mail' r"
  by (auto simp: row_mailed_def split: option.splits)

lemma update_account_keys [simp]:
  assumes "\<And>r. au_id (f r) = au_id r" and "\<And>r. au_email (f r) = au_email r"
  shows "map au_id (ax_users (update_account u f ts)) = map au_id (ax_users ts)"
    "map au_email (ax_users (update_account u f ts)) = map au_email (ax_users ts)"
  using assms by (simp_all add: update_account_def)

lemma update_account_rest [simp]: "ax_mail (update_account u f ts) = ax_mail ts" "ax_sessions (update_account u f ts) = ax_sessions ts"
  by (simp_all add: update_account_def)

text \<open>An update with a link that is mailed to the account keeps all of it.\<close>

lemma updated_ok:
  assumes "accounts_ok cf ts" and "\<And>r. au_id (f r) = au_id r" and "\<And>r. au_email (f r) = au_email r" and "ax_mail ts' = ax_mail ts @ ms"
    and "ax_users ts' = ax_users (update_account u f ts)"
    and "\<And>r. r \<in> set (ax_users ts) \<Longrightarrow> au_id r = u \<Longrightarrow> row_mailed cf (ax_mail ts) r \<Longrightarrow> row_mailed cf (ax_mail ts @ ms) (f r)"
  shows "accounts_ok cf ts'"
proof -
  have "row_mailed cf (ax_mail ts @ ms) (if au_id r = u then f r else r)" if "r \<in> set (ax_users ts)" for r
    using assms(1,6) that by (auto simp: accounts_ok_def list_all_iff intro: row_mailed_mono)
  then have "list_all (row_mailed cf (ax_mail ts')) (ax_users ts')"
    unfolding assms(4,5) by (simp add: update_account_def list.pred_map) (simp add: list_all_iff)
  moreover have "map au_id (ax_users ts') = map au_id (ax_users ts)" "map au_email (ax_users ts') = map au_email (ax_users ts)"
    using assms(2,3) by (simp_all add: assms(5))
  ultimately show ?thesis using assms(1) by (simp add: accounts_ok_def)
qed

lemma find_by_id:
  assumes "accounts_ok cf ts" and "r \<in> set (ax_users ts)"
  shows "account_by_id (au_id r) ts = Some r"
proof -
  have "distinct (map au_id rs) \<Longrightarrow> r \<in> set rs \<Longrightarrow> find (\<lambda>q. au_id q = au_id r) rs = Some r" for rs
    by (induction rs) force+
  with assms show ?thesis by (simp add: accounts_ok_def account_by_id_def)
qed

text \<open>
  What a request does to the users: nothing, or it adds an unverified account, verifies the account of a link, stores a
  link it mails, or replaces the password of the account of a link.
\<close>

lemma account_step_cases:
  obtains (same) "ax_users (account_step cf ts op) = ax_users ts" "set (ax_mail ts) \<subseteq> set (ax_mail (account_step cf ts op))"
      "set_password cf ts op = None"
  | (added) now newId salt raw body h u where "op = ASignup now newId salt raw body"
      "HashPassword (cf_bcrypt cf) (go_str (the body) ''password'') salt = Some h"
      "u = \<lparr>au_id = newId, au_email = go_str (the body) ''email'', au_hash = h, au_name = go_str (the body) ''name'', au_verified = False,
         au_verify = Some (snd (GenerateAPIToken (cf_hash cf) raw), now + cf_verify_ttl cf), au_reset = None, au_created = now, au_updated = now\<rparr>"
      "CreateAccount u ts = Some (ts\<lparr>ax_users := ax_users ts @ [u]\<rparr>)"
      "account_step cf ts op = email_Send (au_email u) (verifyURL cf (snd (GenerateAPIToken (cf_hash cf) raw))) (ts\<lparr>ax_users := ax_users ts @ [u]\<rparr>)"
      "set_password cf ts op = Some (newId, go_str (the body) ''password'')"
  | (verified) now body r where "op = AVerify now body" "GetUserByVerifyToken now (go_str (the body) ''token'') ts = Some r"
      "account_step cf ts op = VerifyUserEmail now (au_id r) ts" "set_password cf ts op = None"
  | (linked) r f link where "r \<in> set (ax_users ts)"
      "\<And>q. au_id (f q) = au_id q \<and> au_email (f q) = au_email q \<and> au_hash (f q) = au_hash q \<and> au_verified (f q) = au_verified q"
      "\<And>q mail. row_mailed cf mail q \<Longrightarrow> (au_email q, link) \<in> set mail \<Longrightarrow> row_mailed cf mail (f q)"
      "account_step cf ts op = email_Send (au_email r) link (update_account (au_id r) f ts)" "set_password cf ts op = None"
  | (reset) now salt body r h where "op = AReset now salt body" "GetUserByResetToken now (go_str (the body) ''token'') ts = Some r"
      "HashPassword (cf_bcrypt cf) (go_str (the body) ''password'') salt = Some h"
      "account_step cf ts op = UpdatePassword now (au_id r) h ts" "set_password cf ts op = Some (au_id r, go_str (the body) ''password'')"
proof (cases op)
  case (ASignup now newId salt raw body)
  note d = AuthHandler_Signup_def Let_def
  show thesis
  proof (cases "snd (AuthHandler_Signup cf (\<lambda>_. []) now newId salt raw body ts)")
    case (Inl e)
    then have "account_step cf ts op = ts" by (auto simp: ASignup d split: if_splits option.splits)
    then show thesis using Inl by (intro same) (simp_all add: ASignup)
  next
    case (Inr v)
    have dec: "DecodeJSON (cf_uuid cf) signupRequest body" "cf_mail cf (go_str (the body) ''email'')" "go_str (the body) ''name'' \<noteq> []"
      "ValidatePasswordStrength (go_str (the body) ''password'') = None"
      using Inr by (auto simp: d split: if_splits option.splits)
    obtain h where h: "HashPassword (cf_bcrypt cf) (go_str (the body) ''password'') salt = Some h"
      using Inr dec by (cases "HashPassword (cf_bcrypt cf) (go_str (the body) ''password'') salt") (simp_all add: d)
    let ?u = "\<lparr>au_id = newId, au_email = go_str (the body) ''email'', au_hash = h, au_name = go_str (the body) ''name'', au_verified = False,
         au_verify = Some (snd (GenerateAPIToken (cf_hash cf) raw), now + cf_verify_ttl cf), au_reset = None, au_created = now, au_updated = now\<rparr>"
    have c: "CreateAccount ?u ts = Some (ts\<lparr>ax_users := ax_users ts @ [?u]\<rparr>)"
      using Inr dec h by (cases "CreateAccount ?u ts") (auto simp: d CreateAccount_def split: if_splits)
    show thesis using dec h c Inr by (intro added [OF ASignup h refl c]) (simp_all add: ASignup d)
  qed
next
  case (AVerify now body)
  show thesis
  proof (cases "account_step cf ts op = ts")
    case False
    then obtain r where "GetUserByVerifyToken now (go_str (the body) ''token'') ts = Some r" "DecodeJSON (cf_uuid cf) verifyEmailRequest body"
      by (auto simp: AVerify AuthHandler_VerifyEmail_def split: if_splits option.splits)
    then show thesis by (intro verified [OF AVerify]) (simp_all add: AVerify AuthHandler_VerifyEmail_def)
  qed (intro same, simp_all add: AVerify)
next
  case (AResend now raw body)
  show thesis
  proof (cases "account_step cf ts op = ts")
    case False
    then obtain r where r: "GetUserByEmail (go_str (the body) ''email'') ts = Some r" "\<not> au_verified r" "DecodeJSON (cf_uuid cf) resendVerificationRequest body"
      "cf_mail cf (go_str (the body) ''email'')"
      by (auto simp: AResend AuthHandler_ResendVerification_def split: if_splits option.splits)
    have "r \<in> set (ax_users ts)" using find_SomeD [OF r(1) [unfolded GetUserByEmail_def]] by simp
    then show thesis using r
      by (intro linked [where r = r and f = "\<lambda>q. q\<lparr>au_verify := Some (snd (GenerateAPIToken (cf_hash cf) raw), now + cf_verify_ttl cf), au_updated := now\<rparr>"
            and link = "verifyURL cf (snd (GenerateAPIToken (cf_hash cf) raw))"])
        (auto simp: AResend AuthHandler_ResendVerification_def SetEmailVerifyToken_def row_mailed_def Let_def split: option.splits)
  qed (intro same, simp_all add: AResend)
next
  case (AForgot now raw body)
  show thesis
  proof (cases "account_step cf ts op = ts")
    case False
    then obtain r where r: "GetUserByEmail (go_str (the body) ''email'') ts = Some r" "DecodeJSON (cf_uuid cf) forgotPasswordRequest body"
      by (auto simp: AForgot AuthHandler_ForgotPassword_def split: if_splits option.splits)
    have "r \<in> set (ax_users ts)" "au_email r = go_str (the body) ''email''"
      using find_SomeD [OF r(1) [unfolded GetUserByEmail_def]] by simp_all
    then show thesis using r
      by (intro linked [where r = r and f = "\<lambda>q. q\<lparr>au_reset := Some (snd (GenerateAPIToken (cf_hash cf) raw), now + cf_reset_ttl cf), au_updated := now\<rparr>"
            and link = "resetURL cf (snd (GenerateAPIToken (cf_hash cf) raw))"])
        (auto simp: AForgot AuthHandler_ForgotPassword_def SetPasswordResetToken_def row_mailed_def Let_def split: option.splits)
  qed (intro same, simp_all add: AForgot)
next
  case (AReset now salt body)
  show thesis
  proof (cases "snd (AuthHandler_ResetPassword cf now salt body ts)")
    case (Inl e)
    then have "account_step cf ts op = ts" by (auto simp: AReset AuthHandler_ResetPassword_def split: if_splits option.splits)
    then show thesis using Inl by (intro same) (simp_all add: AReset)
  next
    case (Inr v)
    then obtain r h where "GetUserByResetToken now (go_str (the body) ''token'') ts = Some r" "DecodeJSON (cf_uuid cf) resetPasswordRequest body"
      "ValidatePasswordStrength (go_str (the body) ''password'') = None" "HashPassword (cf_bcrypt cf) (go_str (the body) ''password'') salt = Some h"
      by (auto simp: AuthHandler_ResetPassword_def split: if_splits option.splits)
    then show thesis by (intro reset [OF AReset]) (simp_all add: AReset AuthHandler_ResetPassword_def)
  qed
next
  case (ALogin now sid body)
  then show thesis by (intro same) (auto simp: AuthHandler_Login_def split: option.splits)
next
  case (ALogout cookie)
  then show thesis by (intro same) (auto simp: AuthHandler_Logout_def split: option.splits)
qed

lemma step_accounts_ok:
  assumes "accounts_ok cf ts"
  shows "accounts_ok cf (account_step cf ts op)"
proof (cases rule: account_step_cases [of cf ts op])
  case same
  then show ?thesis using assms by (auto simp: accounts_ok_def list_all_iff intro: row_mailed_mono)
next
  case (added now newId salt raw body h u)
  have "\<not> list_ex (\<lambda>r. au_id r = au_id u \<or> au_email r = au_email u) (ax_users ts)" using added(4) by (auto simp: CreateAccount_def split: if_splits)
  moreover have "row_mailed cf (ax_mail (account_step cf ts op)) u" unfolding added(5) by (simp add: added(3) row_mailed_def email_Send_def)
  moreover have "list_all (row_mailed cf (ax_mail (account_step cf ts op))) (ax_users ts)"
    using assms unfolding added(5) by (auto simp: accounts_ok_def list_all_iff email_Send_def intro: row_mailed_mono)
  ultimately show ?thesis using assms unfolding accounts_ok_def added(5) by (auto simp: email_Send_def list_ex_iff)
next
  case (verified now body r)
  then show ?thesis by (intro updated_ok [OF assms, where ms = "[]" and u = "au_id r" and f = "\<lambda>r. r\<lparr>au_verified := True, au_verify := None, au_updated := now\<rparr>"]) (auto simp: VerifyUserEmail_def row_mailed_def split: option.splits)
next
  case (linked r f link)
  have "q = r" if "q \<in> set (ax_users ts)" "au_id q = au_id r" for q
    using find_by_id [OF assms that(1)] find_by_id [OF assms linked(1)] unfolding that(2) by (metis option.inject)
  then have "row_mailed cf (ax_mail ts @ [(au_email r, link)]) (f q)"
    if "q \<in> set (ax_users ts)" "au_id q = au_id r" "row_mailed cf (ax_mail ts) q" for q
    using that by (intro linked(3) row_mailed_mono [OF that(3)]) auto
  moreover have "ax_mail (account_step cf ts op) = ax_mail ts @ [(au_email r, link)]"
    "ax_users (account_step cf ts op) = ax_users (update_account (au_id r) f ts)"
    by (simp_all add: linked(4) email_Send_def)
  ultimately show ?thesis using linked(2) by (intro updated_ok [OF assms, where u = "au_id r" and f = f]) blast+
next
  case (reset now salt body r h)
  then show ?thesis by (intro updated_ok [OF assms, where ms = "[]" and u = "au_id r" and f = "\<lambda>r. r\<lparr>au_hash := h, au_reset := None, au_updated := now\<rparr>"]) (auto simp: UpdatePassword_def row_mailed_def split: option.splits)
qed

interpretation account_run: event_machine "account_step cf" "accounts_ok cf"
  by unfold_locales (rule step_accounts_ok)

lemma no_accounts_ok: "accounts_ok cf (no_accounts s)"
  by (simp add: accounts_ok_def no_accounts_def)

lemma account_updated:
  assumes "\<And>r. au_id (f r) = au_id r" and "account_by_id i ts = Some r" and "ax_users ts' = ax_users (update_account u f ts)"
  shows "account_by_id i ts' = Some (if i = u then f r else r)"
proof -
  have "find (\<lambda>q. au_id q = i) (map (\<lambda>q. if au_id q = u then f q else q) rs) =
      map_option (\<lambda>q. if au_id q = u then f q else q) (find (\<lambda>q. au_id q = i) rs)" for rs
    using assms(1) by (induction rs) auto
  with assms(2,3) find_SomeD [OF assms(2) [unfolded account_by_id_def]] show ?thesis
    by (simp add: account_by_id_def update_account_def)
qed

section \<open>Links\<close>

text \<open>
  C12: Accounts change only through links sent to their address. However the API was used before, when a request verifies
  an account or replaces its password, it carries the token of a link that was e-mailed to the address of that account,
  is the last one of its kind and has not expired; a verification leaves the password alone, and a new password leaves the
  verification alone.
\<close>

lemma account_links:
  assumes "ts = foldl (account_step cf) (no_accounts s) ops" and "account_by_id i ts = Some r" and "account_by_id i (account_step cf ts op) = Some r'"
    and "au_hash r' \<noteq> au_hash r \<or> au_verified r' \<noteq> au_verified r"
  shows "(\<exists>now body e. op = AVerify now body \<and> au_verify r = Some (go_str (the body) ''token'', e) \<and> now < e \<and>
       (au_email r, verifyURL cf (go_str (the body) ''token'')) \<in> set (ax_mail ts) \<and> au_verified r' \<and> au_hash r' = au_hash r) \<or>
    (\<exists>now salt body e. op = AReset now salt body \<and> au_reset r = Some (go_str (the body) ''token'', e) \<and> now < e \<and>
       (au_email r, resetURL cf (go_str (the body) ''token'')) \<in> set (ax_mail ts) \<and>
       HashPassword (cf_bcrypt cf) (go_str (the body) ''password'') salt = Some (au_hash r') \<and> au_verified r' = au_verified r)"
proof -
  have ok: "accounts_ok cf ts" unfolding assms(1) by (rule account_run.inv_run [OF no_accounts_ok])
  have i: "r \<in> set (ax_users ts)" "au_id r = i" using find_SomeD [OF assms(2) [unfolded account_by_id_def]] by simp_all
  have m: "row_mailed cf (ax_mail ts) r" using ok i(1) by (simp add: accounts_ok_def list_all_iff)
  note same_id = find_by_id [OF ok]
  show ?thesis
  proof (cases rule: account_step_cases [of cf ts op])
    case same
    then show ?thesis using assms(2-4) by (simp add: account_by_id_def)
  next
    case (added now newId salt raw body h u)
    have "find P (xs @ [y]) = Some x" if "find P xs = Some x" for P xs and x y :: account using that by (induction xs) (auto split: if_splits)
    then have "account_by_id i (account_step cf ts op) = Some r" using assms(2) unfolding added(5) by (simp add: account_by_id_def email_Send_def)
    then show ?thesis using assms(3,4) by simp
  next
    case (verified now body q)
    from find_SomeD [OF verified(2) [unfolded GetUserByVerifyToken_def]] have q: "q \<in> set (ax_users ts)" "link_good now (go_str (the body) ''token'') (au_verify q)" by auto
    have r': "r' = (if i = au_id q then r\<lparr>au_verified := True, au_verify := None, au_updated := now\<rparr> else r)"
      using account_updated [where f = "\<lambda>r. r\<lparr>au_verified := True, au_verify := None, au_updated := now\<rparr>" and u = "au_id q" and ts' = "account_step cf ts op", OF _ assms(2)] assms(3) verified(3)
      by (simp add: VerifyUserEmail_def split: if_splits)
    then have "i = au_id q" using assms(4) by (auto split: if_splits)
    then have "q = r" using same_id [OF q(1)] assms(2) by simp
    then show ?thesis using q(2) m verified(1) r' i(2) by (auto simp: link_good_def row_mailed_def split: option.splits)
  next
    case (linked q f link)
    have "account_by_id i (account_step cf ts op) = Some (if i = au_id q then f r else r)"
      using account_updated [where f = f and u = "au_id q" and ts' = "account_step cf ts op", OF _ assms(2)] linked(2,4)
      by (simp add: email_Send_def)
    then show ?thesis using assms(3,4) linked(2) by (auto split: if_splits)
  next
    case (reset now salt body q h)
    from find_SomeD [OF reset(2) [unfolded GetUserByResetToken_def]] have q: "q \<in> set (ax_users ts)" "link_good now (go_str (the body) ''token'') (au_reset q)" by auto
    have r': "r' = (if i = au_id q then r\<lparr>au_hash := h, au_reset := None, au_updated := now\<rparr> else r)"
      using account_updated [where f = "\<lambda>r. r\<lparr>au_hash := h, au_reset := None, au_updated := now\<rparr>" and u = "au_id q" and ts' = "account_step cf ts op", OF _ assms(2)] assms(3) reset(4)
      by (simp add: UpdatePassword_def split: if_splits)
    then have "i = au_id q" using assms(4) by (auto split: if_splits)
    then have "q = r" using same_id [OF q(1)] assms(2) by simp
    then show ?thesis using q(2) m reset(1,3) r' i(2) by (auto simp: link_good_def row_mailed_def split: option.splits)
  qed
qed

section \<open>The password last set\<close>

text \<open>The password last set for every account.\<close>

fun passwords :: "'s auth_config \<Rightarrow> 's accounts \<Rightarrow> (string \<rightharpoonup> string) \<Rightarrow> account_op list \<Rightarrow> (string \<rightharpoonup> string)" where
  "passwords cf ts P [] = P"
| "passwords cf ts P (op # ops) =
     passwords cf (account_step cf ts op) (case set_password cf ts op of None \<Rightarrow> P | Some (i, pw) \<Rightarrow> P(i \<mapsto> pw)) ops"

definition passwords_stored :: "'s auth_config \<Rightarrow> 's accounts \<Rightarrow> (string \<rightharpoonup> string) \<Rightarrow> bool" where
  "passwords_stored cf ts P = (\<forall>r \<in> set (ax_users ts). \<exists>pw salt. P (au_id r) = Some pw \<and> HashPassword (cf_bcrypt cf) pw salt = Some (au_hash r))"

lemma stored_update:
  assumes "passwords_stored cf ts P" and "ax_users ts' = ax_users (update_account u f ts)" and "\<And>q. au_id (f q) = au_id q \<and> au_hash (f q) = au_hash q"
  shows "passwords_stored cf ts' P"
proof -
  have "\<exists>q \<in> set (ax_users ts). au_id r = au_id q \<and> au_hash r = au_hash q" if "r \<in> set (ax_users ts')" for r
    using that assms(3) unfolding assms(2) by (auto simp: update_account_def split: if_splits)
  with assms(1) show ?thesis unfolding passwords_stored_def by metis
qed

lemma passwords_step:
  assumes "accounts_ok cf ts" and "passwords_stored cf ts P"
  shows "passwords_stored cf (account_step cf ts op) (case set_password cf ts op of None \<Rightarrow> P | Some (i, pw) \<Rightarrow> P(i \<mapsto> pw))"
proof (cases rule: account_step_cases [of cf ts op])
  case same
  then show ?thesis using assms(2) by (simp add: passwords_stored_def)
next
  case (added now newId salt raw body h u)
  have "au_id r \<noteq> newId" if "r \<in> set (ax_users ts)" for r
    using added(3,4) that by (auto simp: CreateAccount_def list_ex_iff split: if_splits)
  then show ?thesis using assms(2) added(2,3) unfolding added(5,6) by (auto simp: passwords_stored_def email_Send_def)
next
  case (verified now body r)
  then show ?thesis using stored_update [OF assms(2), where f = "\<lambda>r. r\<lparr>au_verified := True, au_verify := None, au_updated := now\<rparr>"]
    by (simp add: VerifyUserEmail_def)
next
  case (linked r f link)
  then show ?thesis using stored_update [OF assms(2), where f = f and u = "au_id r"] by (simp add: email_Send_def)
next
  case (reset now salt body r h)
  then show ?thesis using assms(2) by (auto simp: passwords_stored_def UpdatePassword_def update_account_def)
qed


section \<open>Sessions\<close>

lemma session_json_read: "JSON_parse (session_json d) = Some (JObj [(''user_id'', JStr (sn_user d)), (''email'', JStr (sn_email d)), (''name'', JStr (sn_name d))])"
  unfolding session_json_def by (rule JSON_parse_go_object) simp_all

lemma session_get:
  assumes "kv_ok kv"
  shows "SessionManager_Get kv now' sid' (SessionManager_Create kv ttl now sid d s) =
      (if sid' = sid then if now' < now + ttl then Some d else None else SessionManager_Get kv now' sid' s)"
    "SessionManager_Get kv now' sid' (SessionManager_Delete kv sid s) = (if sid' = sid then None else SessionManager_Get kv now' sid' s)"
proof -
  have g: "kv_get kv now' k' (kv_set kv now k v ttl s) = (if k' = k then if now' < now + ttl then Some v else None else kv_get kv now' k' s)"
    "kv_get kv now' k' (kv_del kv k s) = (if k' = k then None else kv_get kv now' k' s)" for k' k v
    using assms by (simp_all add: kv_ok_def)
  have k: "session_key sid' = session_key sid \<longleftrightarrow> sid' = sid" by (simp add: session_key_def)
  have m: "go_str (JObj kvs) n = (case go_member (JObj kvs) n of JStr v \<Rightarrow> v | _ \<Rightarrow> [])" for kvs n
    by (cases "go_member (JObj kvs) n") (simp_all add: go_str_def go_ptr_def)
  show "SessionManager_Get kv now' sid' (SessionManager_Create kv ttl now sid d s) =
      (if sid' = sid then if now' < now + ttl then Some d else None else SessionManager_Get kv now' sid' s)"
    by (simp add: SessionManager_Get_def SessionManager_Create_def g k session_json_read m go_member_def obj_get_def)
  show "SessionManager_Get kv now' sid' (SessionManager_Delete kv sid s) = (if sid' = sid then None else SessionManager_Get kv now' sid' s)"
    by (simp add: SessionManager_Get_def SessionManager_Delete_def g k)
qed

text \<open>A new password ends no session: whoever was signed in with the old one stays signed in.\<close>

lemma reset_keeps_sessions:
  "session_user cf now' cookie (fst (AuthHandler_ResetPassword cf now salt body ts)) = session_user cf now' cookie ts"
  by (simp add: AuthHandler_ResetPassword_def UpdatePassword_def session_user_def split: option.split)

text \<open>The answers to a reset and to a resend do not depend on which addresses have accounts.\<close>

lemma no_enumeration:
  "snd (AuthHandler_ForgotPassword cf now raw body ts) = snd (AuthHandler_ForgotPassword cf now raw body ts')"
  "snd (AuthHandler_ResendVerification cf now raw body ts) = snd (AuthHandler_ResendVerification cf now raw body ts')"
  by (simp_all add: AuthHandler_ForgotPassword_def AuthHandler_ResendVerification_def)

text \<open>A password of more than 72 bytes is accepted by the check of its strength and then fails as an internal error.\<close>

lemma long_password:
  assumes "bcrypt_ok (cf_bcrypt cf)" and "DecodeJSON (cf_uuid cf) signupRequest body" and "cf_mail cf (go_str (the body) ''email'')"
    and "go_str (the body) ''name'' \<noteq> []" and "length (go_str (the body) ''password'') > 72"
  shows "AuthHandler_Signup cf stamp now newId salt raw body ts = (ts, Inl (500, ''internal server error''))"
proof -
  have "bc_gen (cf_bcrypt cf) (go_str (the body) ''password'') salt = None" using assms(1,5) by (simp add: bcrypt_ok_def)
  with assms(2-5) show ?thesis by (simp add: AuthHandler_Signup_def ValidatePasswordStrength_def HashPassword_def)
qed

section \<open>An instance\<close>

definition clear_bcrypt :: bcrypt where
  "clear_bcrypt = \<lparr>bc_gen = (\<lambda>pw salt. if length pw > 72 then None else Some (CHR ''$'' # pw)), bc_cmp = (\<lambda>h pw. h = CHR ''$'' # pw)\<rparr>"

definition memory_kv :: "(string \<Rightarrow> (string \<times> int) option) kv_store" where
  "memory_kv = \<lparr>kv_set = (\<lambda>now k v ttl s. s(k := Some (v, now + ttl))),
     kv_get = (\<lambda>now k s. case s k of None \<Rightarrow> None | Some (v, e) \<Rightarrow> if now < e then Some v else None), kv_del = (\<lambda>k s. s(k := None))\<rparr>"

lemma instance_ok: "bcrypt_ok clear_bcrypt" "kv_ok memory_kv"
  by (auto simp: bcrypt_ok_def clear_bcrypt_def kv_ok_def memory_kv_def)

definition sample_config :: "(string \<Rightarrow> (string \<times> int) option) auth_config" where
  "sample_config = \<lparr>cf_uuid = (\<lambda>u. True), cf_mail = (\<lambda>e. e \<noteq> []), cf_bcrypt = clear_bcrypt, cf_hash = (\<lambda>s. ''h'' @ s), cf_kv = memory_kv,
     cf_base = ''https://c'', cf_session_ttl = 100, cf_verify_ttl = 50, cf_reset_ttl = 20\<rparr>"

definition signup_body :: "js option" where
  "signup_body = Some (JObj [(''name'', JStr ''B''), (''email'', JStr ''b@x''), (''password'', JStr ''password1'')])"

definition sample_start :: "account_op list" where
  "sample_start = [ASignup 1 ''u1'' ''salt'' ''r'' signup_body]"

definition verify_body :: "js option" where
  "verify_body = Some (JObj [(''token'', JStr ''hnxw_r'')])"

abbreviation sample_accounts :: "(string \<Rightarrow> (string \<times> int) option) accounts" where
  "sample_accounts \<equiv> foldl (account_step sample_config) (no_accounts (\<lambda>k. None)) sample_start"

definition sample_account :: account where
  "sample_account = \<lparr>au_id = ''u1'', au_email = ''b@x'', au_hash = ''$password1'', au_name = ''B'', au_verified = False,
     au_verify = Some (''hnxw_r'', 51), au_reset = None, au_created = 1, au_updated = 1\<rparr>"

lemma account_links_witness: "(''b@x'', verifyURL sample_config ''hnxw_r'') \<in> set (ax_mail sample_accounts)"
proof -
  have a: "account_by_id ''u1'' sample_accounts = Some sample_account"
    "account_by_id ''u1'' (account_step sample_config sample_accounts (AVerify 2 verify_body)) =
      Some (sample_account\<lparr>au_verified := True, au_verify := None, au_updated := 2\<rparr>)" by code_simp+
  have t: "go_str (the verify_body) ''token'' = ''hnxw_r''" by code_simp
  have c: "au_hash (sample_account\<lparr>au_verified := True, au_verify := None, au_updated := 2\<rparr>) \<noteq> au_hash sample_account \<or>
      au_verified (sample_account\<lparr>au_verified := True, au_verify := None, au_updated := 2\<rparr>) \<noteq> au_verified sample_account"
    by (simp add: sample_account_def)
  from account_links [OF refl a c] show ?thesis by (auto simp: t sample_account_def)
qed

definition login_body :: "js option" where
  "login_body = Some (JObj [(''email'', JStr ''b@x''), (''password'', JStr ''password1'')])"


end
