(* ===== verification/Account_Pages.thy ===== *)
theory Account_Pages
  imports Account_Store Machines
begin

text \<open>
  Signing up and in: the forms of \<open>components/auth\<close> (\<open>SignupForm\<close>, \<open>LoginForm\<close>, \<open>ForgotForm\<close>, \<open>ResetForm\<close>, \<open>VerifyClient\<close>,
  \<open>ResendVerifyClient\<close>) as machines that send requests, composed with the account handlers. \<open>goto\<close> is where the router
  was sent.
\<close>

section \<open>Forms\<close>

record login_form =
  lf_email :: string
  lf_password :: string
  lf_error :: "string option"
  lf_loading :: bool
  lf_goto :: "string option"

datatype login_event = LEmail string | LPassword string | LSubmit | LDone | LFailed failure

definition login_init :: login_form where
  "login_init = \<lparr>lf_email = [], lf_password = [], lf_error = None, lf_loading = False, lf_goto = None\<rparr>"

fun login_step :: "login_form \<Rightarrow> login_event \<Rightarrow> login_form \<times> endpoint option" where
  "login_step d (LEmail s) = (d\<lparr>lf_email := s\<rparr>, None)"
| "login_step d (LPassword s) = (d\<lparr>lf_password := s\<rparr>, None)"
| "login_step d LSubmit = (d\<lparr>lf_error := None, lf_loading := True\<rparr>, Some (authApi_login (lf_email d) (lf_password d)))"
| "login_step d LDone = (d\<lparr>lf_goto := Some ''/dashboard''\<rparr>, None)"
| "login_step d (LFailed e) =
     (d\<lparr>lf_error := Some (error_text e ''Sign-in failed. Check your credentials and try again.''), lf_loading := False\<rparr>, None)"

record signup_form =
  sf_name :: string
  sf_email :: string
  sf_password :: string
  sf_error :: "string option"
  sf_loading :: bool
  sf_goto :: "string option"

datatype signup_event = UName string | UEmail string | UPassword string | USubmit | UDone | UFailed failure

definition signup_init :: signup_form where
  "signup_init = \<lparr>sf_name = [], sf_email = [], sf_password = [], sf_error = None, sf_loading = False, sf_goto = None\<rparr>"

fun signup_step :: "signup_form \<Rightarrow> signup_event \<Rightarrow> signup_form \<times> endpoint option" where
  "signup_step d (UName s) = (d\<lparr>sf_name := s\<rparr>, None)"
| "signup_step d (UEmail s) = (d\<lparr>sf_email := s\<rparr>, None)"
| "signup_step d (UPassword s) = (d\<lparr>sf_password := s\<rparr>, None)"
| "signup_step d USubmit =
     (if length (sf_password d) < 8 then (d\<lparr>sf_error := Some ''Passphrase must be at least 8 characters.''\<rparr>, None)
      else (d\<lparr>sf_error := None, sf_loading := True\<rparr>, Some (authApi_signup (sf_name d) (sf_email d) (sf_password d))))"
| "signup_step d UDone = (d\<lparr>sf_goto := Some (''/verify-email?email='' @ encodeURIComponent (sf_email d))\<rparr>, None)"
| "signup_step d (UFailed e) =
     (d\<lparr>sf_error := Some (error_text e ''Sign-up failed. Try again or contact support.''), sf_loading := False\<rparr>, None)"

record forgot_form =
  ff_email :: string
  ff_error :: "string option"
  ff_loading :: bool
  ff_sent :: bool

datatype forgot_event = FEmail string | FSubmit | FDone | FFailed failure

definition forgot_init :: forgot_form where
  "forgot_init = \<lparr>ff_email = [], ff_error = None, ff_loading = False, ff_sent = False\<rparr>"

fun forgot_step :: "forgot_form \<Rightarrow> forgot_event \<Rightarrow> forgot_form \<times> endpoint option" where
  "forgot_step d (FEmail s) = (d\<lparr>ff_email := s\<rparr>, None)"
| "forgot_step d FSubmit =
     (if ff_sent d then (d, None) else (d\<lparr>ff_error := None, ff_loading := True\<rparr>, Some (authApi_forgotPassword (ff_email d))))"
| "forgot_step d FDone = (d\<lparr>ff_sent := True, ff_loading := False\<rparr>, None)"
| "forgot_step d (FFailed e) =
     ((case e of
         ApiError st m c \<Rightarrow> if st \<ge> 500 then d\<lparr>ff_error := Some ''Reset service is offline. Try again shortly.'', ff_loading := False\<rparr>
           else d\<lparr>ff_sent := True, ff_loading := False\<rparr>
       | OtherError m \<Rightarrow> d\<lparr>ff_sent := True, ff_loading := False\<rparr>), None)"

record reset_form =
  rm_password :: string
  rm_confirm :: string
  rm_error :: "string option"
  rm_loading :: bool
  rm_goto :: "string option"

datatype reset_event = RPassword string | RConfirm string | RSubmit | RDone | RFail failure

definition reset_init :: reset_form where
  "reset_init = \<lparr>rm_password = [], rm_confirm = [], rm_error = None, rm_loading = False, rm_goto = None\<rparr>"

fun reset_step :: "string \<Rightarrow> reset_form \<Rightarrow> reset_event \<Rightarrow> reset_form \<times> endpoint option" where
  "reset_step token d (RPassword s) = (d\<lparr>rm_password := s\<rparr>, None)"
| "reset_step token d (RConfirm s) = (d\<lparr>rm_confirm := s\<rparr>, None)"
| "reset_step token d RSubmit =
     (if length (rm_password d) < 8 then (d\<lparr>rm_error := Some ''Passphrase must be at least 8 characters.''\<rparr>, None)
      else if rm_password d \<noteq> rm_confirm d then (d\<lparr>rm_error := Some ''Passphrases don't match.''\<rparr>, None)
      else (d\<lparr>rm_error := None, rm_loading := True\<rparr>, Some (authApi_resetPassword token (rm_password d))))"
| "reset_step token d RDone = (d\<lparr>rm_goto := Some ''/login?reset=ok''\<rparr>, None)"
| "reset_step token d (RFail e) =
     (d\<lparr>rm_error := Some (error_text e ''Reset failed. The link may be expired -- request a new one.''), rm_loading := False\<rparr>, None)"

datatype verify_state = Ver_verifying | Ver_ok | Ver_error

record verify_page =
  vp_state :: verify_state
  vp_error :: "string option"
  vp_cancelled :: bool

datatype verify_event = VMount | VDone | VFailed failure | VLeave

definition verify_init :: verify_page where
  "verify_init = \<lparr>vp_state = Ver_verifying, vp_error = None, vp_cancelled = False\<rparr>"

fun verify_step :: "string \<Rightarrow> verify_page \<Rightarrow> verify_event \<Rightarrow> verify_page \<times> endpoint option" where
  "verify_step token p VMount = (p\<lparr>vp_cancelled := False\<rparr>, Some (authApi_verifyEmail token))"
| "verify_step token p VDone = ((if vp_cancelled p then p else p\<lparr>vp_state := Ver_ok\<rparr>), None)"
| "verify_step token p (VFailed e) =
     ((if vp_cancelled p then p
       else p\<lparr>vp_error := Some (error_text e ''Verification failed. The link may have expired.''), vp_state := Ver_error\<rparr>), None)"
| "verify_step token p VLeave = (p\<lparr>vp_cancelled := True\<rparr>, None)"

datatype resend_state = Re_idle | Re_loading | Re_sent | Re_error

record resend_form =
  rs_email :: string
  rs_state :: resend_state
  rs_error :: "string option"

datatype resend_event = EEmail string | ESubmit | EDone | EFailed failure

definition resend_init :: "string option \<Rightarrow> resend_form" where
  "resend_init q = \<lparr>rs_email = (case q of None \<Rightarrow> [] | Some e \<Rightarrow> e), rs_state = Re_idle, rs_error = None\<rparr>"

fun resend_step :: "resend_form \<Rightarrow> resend_event \<Rightarrow> resend_form \<times> endpoint option" where
  "resend_step d (EEmail s) = (d\<lparr>rs_email := s\<rparr>, None)"
| "resend_step d ESubmit =
     (if rs_email d = [] then (d, None)
      else (d\<lparr>rs_state := Re_loading, rs_error := None\<rparr>, Some (authApi_resendVerification (rs_email d))))"
| "resend_step d EDone = (d\<lparr>rs_state := Re_sent\<rparr>, None)"
| "resend_step d (EFailed e) = (d\<lparr>rs_error := Some (error_text e ''Could not send. Try again in a moment.''), rs_state := Re_error\<rparr>, None)"

section \<open>From the form to a session\<close>

lemma str_body:
  assumes "distinct (map fst kvs)" and "list_all (\<lambda>e. toLowerCase (fst e) = fst e) kvs" and "toLowerCase k = k" and "map_of kvs k = Some (JStr v)"
  shows "go_str (wire (JObj kvs)) k = v"
  unfolding go_str_def go_ptr_def go_member_wire [OF assms(1-3)] assms(4) by simp

lemma auth_lower: "toLowerCase ''email'' = ''email''" "toLowerCase ''name'' = ''name''" "toLowerCase ''password'' = ''password''" "toLowerCase ''token'' = ''token''"
  by code_simp+

lemmas auth_structs = DecodeJSON_def signupRequest_def loginRequest_def verifyEmailRequest_def resetPasswordRequest_def go_field_def

lemma signup_wire:
  assumes "b = fa_body (call_args (authApi_signup n e p))"
  shows "DecodeJSON uuid signupRequest b" "go_str (the b) ''name'' = n" "go_str (the b) ''email'' = e" "go_str (the b) ''password'' = p"
proof -
  have b: "b = Some (wire (JObj [(''name'', JStr n), (''email'', JStr e), (''password'', JStr p)]))"
    unfolding assms by (simp add: wire_body authApi_signup_def api_verbs)
  show "DecodeJSON uuid signupRequest b" by (simp add: b auth_structs)
  show "go_str (the b) ''name'' = n" "go_str (the b) ''email'' = e" "go_str (the b) ''password'' = p"
    unfolding b option.sel by (rule str_body; simp add: auth_lower)+
qed

lemma login_wire:
  assumes "b = fa_body (call_args (authApi_login e p))"
  shows "DecodeJSON uuid loginRequest b" "go_str (the b) ''email'' = e" "go_str (the b) ''password'' = p"
proof -
  have b: "b = Some (wire (JObj [(''email'', JStr e), (''password'', JStr p)]))"
    unfolding assms by (simp add: wire_body authApi_login_def api_verbs)
  show "DecodeJSON uuid loginRequest b" by (simp add: b auth_structs)
  show "go_str (the b) ''email'' = e" "go_str (the b) ''password'' = p"
    unfolding b option.sel by (rule str_body; simp add: auth_lower)+
qed

lemma verify_wire:
  assumes "b = fa_body (call_args (authApi_verifyEmail t))"
  shows "DecodeJSON uuid verifyEmailRequest b" "go_str (the b) ''token'' = t"
proof -
  have b: "b = Some (wire (JObj [(''token'', JStr t)]))" unfolding assms by (simp add: wire_body authApi_verifyEmail_def api_verbs)
  show "DecodeJSON uuid verifyEmailRequest b" by (simp add: b auth_structs)
  show "go_str (the b) ''token'' = t" unfolding b option.sel by (rule str_body; simp add: auth_lower)
qed

definition signup_guard :: "signup_form \<Rightarrow> endpoint \<Rightarrow> bool" where
  "signup_guard d ep = (length (sf_password d) \<ge> 8 \<and> ep = authApi_signup (sf_name d) (sf_email d) (sf_password d))"

interpretation signup_page: request_machine signup_step "\<lambda>d. True" signup_guard
proof
  fix d e r
  show "snd (signup_step d e) = Some r \<Longrightarrow> signup_guard d r" by (cases e) (auto simp: signup_guard_def split: if_splits)
qed simp

text \<open>The account a sign-up adds, and that the other accounts have neither its id, nor its address, nor its link.\<close>

definition new_account :: "'s auth_config \<Rightarrow> int \<Rightarrow> string \<Rightarrow> string \<Rightarrow> string \<Rightarrow> signup_form \<Rightarrow> account" where
  "new_account cf now newId h tok d = \<lparr>au_id = newId, au_email = sf_email d, au_hash = h, au_name = sf_name d, au_verified = False,
     au_verify = Some (tok, now + cf_verify_ttl cf), au_reset = None, au_created = now, au_updated = now\<rparr>"

definition fresh_account :: "string \<Rightarrow> string \<Rightarrow> string \<Rightarrow> 's accounts \<Rightarrow> bool" where
  "fresh_account newId email tok ts = list_all (\<lambda>r. au_id r \<noteq> newId \<and> au_email r \<noteq> email \<and> map_option fst (au_verify r) \<noteq> Some tok) (ax_users ts)"

lemma find_last: "list_all (\<lambda>r. \<not> P r) rs \<Longrightarrow> P u \<Longrightarrow> find P (rs @ [u]) = Some u"
  by (induction rs) auto

lemma link_good_token: "link_good now tok l \<Longrightarrow> map_option fst l = Some tok"
  by (auto simp: link_good_def split: option.splits)

lemma verified_users:
  assumes "ax_users ts = rs @ [u]" and "list_all (\<lambda>r. au_id r \<noteq> au_id u) rs"
  shows "ax_users (VerifyUserEmail now (au_id u) ts) = rs @ [u\<lparr>au_verified := True, au_verify := None, au_updated := now\<rparr>]"
proof -
  have "map (\<lambda>r. if au_id r = au_id u then f r else r) rs = rs" for f using assms(2) by (induction rs) auto
  then show ?thesis by (simp add: VerifyUserEmail_def update_account_def assms(1))
qed

text \<open>
  C13: Signing up leads to a session. When the form is sent for an address without an account, with a name, an address the
  API can parse and a password of at most 72 characters, the API stores the account and e-mails a link; until the link is
  opened, signing in is refused. Once the page behind the link has sent its token in time, signing in with the same address
  and password opens a session, which stands for that account until it expires or ends by signing out.
\<close>

lemma signup_to_session:
  fixes cf :: "'s auth_config"
  assumes "(d, ep) \<in> set (emitted signup_step signup_init es)" and "bcrypt_ok (cf_bcrypt cf)" and "kv_ok (cf_kv cf)"
    and "cf_mail cf (sf_email d)" and "sf_name d \<noteq> []" and "length (sf_password d) \<le> 72" and "tok = cf_hash cf (''nxw_'' @ raw)"
    and "fresh_account newId (sf_email d) tok ts" and "t1 < t0 + cf_verify_ttl cf" and "t3 < t2 + cf_session_ttl cf" and "sid \<noteq> []"
  shows "\<exists>ts1 v ts2 ts3 w.
    AuthHandler_Signup cf stamp t0 newId salt raw (fa_body (call_args ep)) ts = (ts1, Inr v) \<and> last (ax_mail ts1) = (sf_email d, verifyURL cf tok) \<and>
    AuthHandler_Login cf stamp t1 sid (fa_body (call_args (authApi_login (sf_email d) (sf_password d)))) ts1 = (ts1, Inl (403, ''email not verified'')) \<and>
    AuthHandler_VerifyEmail cf t1 (fa_body (call_args (authApi_verifyEmail tok))) ts1 = (ts2, Inr ()) \<and>
    AuthHandler_Login cf stamp t2 sid (fa_body (call_args (authApi_login (sf_email d) (sf_password d)))) ts2 = (ts3, Inr (sid, w)) \<and>
    User_email w = sf_email d \<and> User_id w = newId \<and> AuthHandler_Me cf stamp t3 (Some sid) ts3 = Inr w \<and>
    AuthHandler_Me cf stamp t4 (Some sid) (AuthHandler_Logout cf (Some sid) ts3) = Inl (401, ''authentication required'')"
proof -
  from signup_page.emitted_guarded [OF TrueI assms(1)] have g: "length (sf_password d) \<ge> 8" and ep: "ep = authApi_signup (sf_name d) (sf_email d) (sf_password d)"
    by (simp_all add: signup_guard_def)
  note b = signup_wire [OF refl [of "fa_body (call_args ep)", unfolded ep], folded ep]
  note l = login_wire [OF refl [of "fa_body (call_args (authApi_login (sf_email d) (sf_password d)))"]]
  note v = verify_wire [OF refl [of "fa_body (call_args (authApi_verifyEmail tok))"]]
  obtain h where h: "bc_gen (cf_bcrypt cf) (sf_password d) salt = Some h"
    using assms(2,6) by (cases "bc_gen (cf_bcrypt cf) (sf_password d) salt") (auto simp: bcrypt_ok_def)
  have cmp: "bc_cmp (cf_bcrypt cf) h (sf_password d)" using assms(2,6) h by (simp add: bcrypt_ok_def)
  let ?u = "new_account cf t0 newId h tok d"
  let ?u' = "?u\<lparr>au_verified := True, au_verify := None, au_updated := t1\<rparr>"
  have f: "list_all (\<lambda>r. au_id r \<noteq> newId) (ax_users ts)" "list_all (\<lambda>r. au_email r \<noteq> sf_email d) (ax_users ts)"
    "list_all (\<lambda>r. \<not> link_good t1 tok (au_verify r)) (ax_users ts)"
    using assms(8) by (auto simp: fresh_account_def list_all_iff dest: link_good_token)
  have c: "CreateAccount ?u ts = Some (ts\<lparr>ax_users := ax_users ts @ [?u]\<rparr>)"
    using f(1,2) by (auto simp: CreateAccount_def new_account_def list_ex_iff list_all_iff)
  let ?ts1 = "email_Send (sf_email d) (verifyURL cf tok) (ts\<lparr>ax_users := ax_users ts @ [?u]\<rparr>)"
  have s: "AuthHandler_Signup cf stamp t0 newId salt raw (fa_body (call_args ep)) ts = (?ts1, Inr (user_view stamp ?u))"
    using b g assms(4,5,7) h c [unfolded new_account_def]
    by (simp add: AuthHandler_Signup_def Let_def ValidatePasswordStrength_def HashPassword_def GenerateAPIToken_def tokenPrefix_def new_account_def)
  have e1: "GetUserByEmail (sf_email d) ?ts1 = Some ?u"
    using find_last [of "\<lambda>r. au_email r = sf_email d" "ax_users ts" ?u] f(2) by (simp add: GetUserByEmail_def email_Send_def new_account_def)
  have v1: "GetUserByVerifyToken t1 tok ?ts1 = Some ?u"
    using find_last [of "\<lambda>r. link_good t1 tok (au_verify r)" "ax_users ts" ?u] f(3) assms(9)
    by (simp add: GetUserByVerifyToken_def email_Send_def new_account_def link_good_def)
  let ?ts2 = "VerifyUserEmail t1 newId ?ts1"
  have u2: "ax_users ?ts2 = ax_users ts @ [?u']"
    using verified_users [of ?ts1 "ax_users ts" ?u t1] f(1) by (simp add: email_Send_def new_account_def)
  have e2: "GetUserByEmail (sf_email d) ?ts2 = Some ?u'" unfolding GetUserByEmail_def u2 by (rule find_last) (use f(2) in \<open>simp_all add: new_account_def\<close>)
  let ?ts3 = "?ts2\<lparr>ax_sessions := SessionManager_Create (cf_kv cf) (cf_session_ttl cf) t2 sid
    \<lparr>sn_user = newId, sn_email = sf_email d, sn_name = sf_name d\<rparr> (ax_sessions ?ts2)\<rparr>"
  have i3: "account_by_id newId ?ts3 = Some ?u'"
  proof -
    have "account_by_id newId ?ts2 = Some ?u'" unfolding account_by_id_def u2 by (rule find_last) (use f(1) in \<open>simp_all add: new_account_def\<close>)
    then show ?thesis by (simp add: account_by_id_def)
  qed
  have "AuthHandler_Login cf stamp t1 sid (fa_body (call_args (authApi_login (sf_email d) (sf_password d)))) ?ts1 = (?ts1, Inl (403, ''email not verified''))"
    using cmp by (simp add: AuthHandler_Login_def l e1 CheckPassword_def) (simp add: new_account_def)
  moreover have "AuthHandler_VerifyEmail cf t1 (fa_body (call_args (authApi_verifyEmail tok))) ?ts1 = (?ts2, Inr ())"
    by (simp add: AuthHandler_VerifyEmail_def v v1) (simp add: new_account_def)
  moreover have "AuthHandler_Login cf stamp t2 sid (fa_body (call_args (authApi_login (sf_email d) (sf_password d)))) ?ts2 = (?ts3, Inr (sid, user_view stamp ?u'))"
    using cmp by (simp add: AuthHandler_Login_def l e2 CheckPassword_def) (simp add: new_account_def)
  moreover have "AuthHandler_Me cf stamp t3 (Some sid) ?ts3 = Inr (user_view stamp ?u')"
    using assms(10,11) i3 by (simp add: AuthHandler_Me_def session_user_def session_get [OF assms(3)])
  moreover have "AuthHandler_Me cf stamp t4 (Some sid) (AuthHandler_Logout cf (Some sid) ?ts3) = Inl (401, ''authentication required'')"
    using assms(11) by (simp add: AuthHandler_Me_def AuthHandler_Logout_def session_user_def session_get [OF assms(3)])
  moreover have "last (ax_mail ?ts1) = (sf_email d, verifyURL cf tok)" by (simp add: email_Send_def)
  moreover have "User_email (user_view stamp ?u') = sf_email d" "User_id (user_view stamp ?u') = newId" by (simp_all add: user_view_def new_account_def)
  ultimately show ?thesis using s by blast
qed

definition sample_form :: signup_form where
  "sample_form = \<lparr>sf_name = ''B'', sf_email = ''b@x'', sf_password = ''password1'', sf_error = None, sf_loading = False, sf_goto = None\<rparr>"

lemma signup_to_session_witness:
  "\<exists>ts1 v ts2 ts3 w.
    AuthHandler_Signup sample_config (\<lambda>n. []) 1 ''u1'' ''salt'' ''r'' (fa_body (call_args (authApi_signup ''B'' ''b@x'' ''password1''))) (no_accounts (\<lambda>k. None))
      = (ts1, Inr v) \<and>
    AuthHandler_VerifyEmail sample_config 2 (fa_body (call_args (authApi_verifyEmail ''hnxw_r''))) ts1 = (ts2, Inr ()) \<and>
    AuthHandler_Login sample_config (\<lambda>n. []) 3 ''sid'' (fa_body (call_args (authApi_login ''b@x'' ''password1''))) ts2 = (ts3, Inr (''sid'', w)) \<and>
    AuthHandler_Me sample_config (\<lambda>n. []) 4 (Some ''sid'') ts3 = Inr w"
proof -
  have e: "(sample_form, authApi_signup ''B'' ''b@x'' ''password1'') \<in>
      set (emitted signup_step signup_init [UName ''B'', UEmail ''b@x'', UPassword ''password1'', USubmit])"
    by (simp add: signup_init_def sample_form_def)
  have c: "bcrypt_ok (cf_bcrypt sample_config)" "kv_ok (cf_kv sample_config)" "cf_mail sample_config (sf_email sample_form)" "sf_name sample_form \<noteq> []"
    "length (sf_password sample_form) \<le> 72" "''hnxw_r'' = cf_hash sample_config (''nxw_'' @ ''r'')"
    "fresh_account ''u1'' (sf_email sample_form) ''hnxw_r'' (no_accounts (\<lambda>k. None))"
    using instance_ok by (simp_all add: sample_config_def sample_form_def fresh_account_def no_accounts_def)
  have f: "sf_email sample_form = ''b@x''" "sf_password sample_form = ''password1''" by (simp_all add: sample_form_def)
  have t: "(2::int) < 1 + cf_verify_ttl sample_config" "(4::int) < 3 + cf_session_ttl sample_config" "''sid'' \<noteq> []" by (simp_all add: sample_config_def)
  from signup_to_session [OF e c t, of "\<lambda>n. []" "''salt''"] show ?thesis unfolding f by blast
qed

text \<open>
  The sign-in form always goes to the dashboard. The page behind an invite sends visitors that are not signed in there with
  the way back, which is never used.
\<close>

lemma login_forgets_return: "lf_goto (after login_step login_init es) \<in> {None, Some ''/dashboard''}"
proof -
  have "lf_goto d \<in> {None, Some ''/dashboard''} \<Longrightarrow> lf_goto (after login_step d es) \<in> {None, Some ''/dashboard''}" for d
  proof (induction es arbitrary: d)
    case (Cons e es)
    have "lf_goto (fst (login_step d e)) \<in> {None, Some ''/dashboard''}" using Cons.prems by (cases e) auto
    from Cons.IH [OF this] show ?case by simp
  qed simp
  then show ?thesis by (simp add: login_init_def)
qed

text \<open>A request for a reset link that never reached the API is shown as sent.\<close>

lemma forgot_offline: "ff_sent (after forgot_step forgot_init [FEmail e, FSubmit, FFailed (OtherError m)])"
  by (simp add: forgot_init_def)

text \<open>The reset form sends only a confirmed password of at least eight characters, and the account of the link then has it.\<close>

lemma reset_form_guard: "(d, ep) \<in> set (emitted (reset_step token) s es) \<Longrightarrow>
  ep = authApi_resetPassword token (rm_password d) \<and> length (rm_password d) \<ge> 8 \<and> rm_confirm d = rm_password d"
proof (induction es arbitrary: s)
  case (Cons e es)
  then show ?case by (cases e) (auto split: if_splits)
qed simp

end
