(* ===== verification/Scheduler.thy ===== *)
theory Scheduler
  imports Mesh App_Store Database_Store "HOL-Library.Char_ord" "HOL-Library.List_Lexorder"
begin

text \<open>
  The placement scheduler of the API (\<open>internal/scheduler/scheduler.go\<close>): which servers of a cluster may run a
  replica, in which order the three strategies take them, and the assignments that result. The order of the
  strategies is stated once, in the locale \<open>weak_order\<close>, and interpreted on each of them. Server names and tags
  are byte strings, compared as Go compares them.
\<close>

section \<open>Candidates and requirements\<close>

record Candidate =
  cd_ServerID :: string
  cd_ServerName :: string
  cd_Status :: string
  cd_Tags :: "(string, string) obj"
  cd_RunningReplicas :: int
  cd_CPUCapacity :: int
  cd_MemoryAvailable :: int
  cd_HasCPUData :: bool
  cd_HasMemoryData :: bool

record Requirements =
  rq_Replicas :: int
  rq_Strategy :: string
  rq_PinnedServerIDs :: "string list"
  rq_Constraints :: PlacementConstraints
  rq_MemoryLimitMB :: int
  rq_CPULimitMillicores :: int

record Assignment =
  as_ServerID :: string
  as_ServerName :: string
  as_Replicas :: int
  as_Reason :: string

text \<open>Indexing a Go map of strings: a key that is absent reads as the empty string.\<close>

definition tag_value :: "(string, string) obj \<Rightarrow> string \<Rightarrow> string" where
  "tag_value tags k = (case obj_get tags k of Some v \<Rightarrow> v | None \<Rightarrow> [])"

definition matchesConstraints :: "(string, string) obj \<Rightarrow> PlacementConstraints \<Rightarrow> bool" where
  "matchesConstraints tags c =
     (list_all (\<lambda>(k, v). tag_value tags k = v) (PlacementConstraints_must_have c) \<and>
      list_all (\<lambda>(k, v). tag_value tags k \<noteq> v) (PlacementConstraints_must_not_have c))"

definition pinnedSet :: "string list \<Rightarrow> (string, bool) obj" where
  "pinnedSet ids = foldl (\<lambda>m i. obj_set i True m) [] ids"

text \<open>The reason a candidate is passed over, or \<open>None\<close> when it is eligible. The limit in bytes fits 64 bits.\<close>

definition rejection :: "Requirements \<Rightarrow> Candidate \<Rightarrow> string option" where
  "rejection rq c =
     (if cd_Status c \<noteq> ''online'' then Some ''offline''
      else if rq_Strategy rq = ''pinned'' \<and> obj_get (pinnedSet (rq_PinnedServerIDs rq)) (cd_ServerID c) \<noteq> Some True
        then Some ''not pinned''
      else if \<not> matchesConstraints (cd_Tags c) (rq_Constraints rq) then Some ''tag constraints''
      else if rq_MemoryLimitMB rq > 0 \<and> cd_HasMemoryData c \<and> cd_MemoryAvailable c < rq_MemoryLimitMB rq * 1024 * 1024
        then Some ''memory''
      else if rq_CPULimitMillicores rq > 0 \<and> cd_HasCPUData c \<and> cd_CPUCapacity c < rq_CPULimitMillicores rq
        then Some ''cpu''
      else None)"

definition eligible :: "Requirements \<Rightarrow> Candidate list \<Rightarrow> Candidate list" where
  "eligible rq cs = filter (\<lambda>c. rejection rq c = None) cs"

definition rejections :: "Requirements \<Rightarrow> Candidate list \<Rightarrow> (string, nat) obj" where
  "rejections rq cs =
     foldl (\<lambda>m c. case rejection rq c of
                    None \<Rightarrow> m
                  | Some k \<Rightarrow> obj_set k (Suc (case obj_get m k of Some n \<Rightarrow> n | None \<Rightarrow> 0)) m) [] cs"

definition rejectionSummary :: "(string, nat) obj \<Rightarrow> string" where
  "rejectionSummary m =
     (if m = [] then ''no rejection details''
      else join '', '' (map (\<lambda>k. k @ ''='' @ show_int (int (the (obj_get m k)))) (sort (obj_keys m))))"

section \<open>Orders of the strategies\<close>

text \<open>\<open>sort.SliceStable\<close> with a less function.\<close>

definition SliceStable :: "('a \<Rightarrow> 'a \<Rightarrow> bool) \<Rightarrow> 'a list \<Rightarrow> 'a list" where
  "SliceStable lt = array_sort (\<lambda>x y. if lt y x then 1 else 0)"

definition spread_less :: "Candidate \<Rightarrow> Candidate \<Rightarrow> bool" where
  "spread_less a b =
     (if cd_RunningReplicas a = cd_RunningReplicas b then cd_ServerName a < cd_ServerName b
      else cd_RunningReplicas a < cd_RunningReplicas b)"

definition binpack_less :: "Candidate \<Rightarrow> Candidate \<Rightarrow> bool" where
  "binpack_less a b =
     (if cd_RunningReplicas a = cd_RunningReplicas b then cd_ServerName a < cd_ServerName b
      else cd_RunningReplicas a > cd_RunningReplicas b)"

text \<open>A pinned server is ranked by its last position in the list.\<close>

definition pin_order :: "string list \<Rightarrow> (string, nat) obj" where
  "pin_order ids = foldl (\<lambda>m (i, x). obj_set x i m) [] (enumerate 0 ids)"

definition pin_rank :: "string list \<Rightarrow> string \<Rightarrow> nat" where
  "pin_rank ids x = (case obj_get (pin_order ids) x of Some i \<Rightarrow> i | None \<Rightarrow> 0)"

definition pinned_less :: "string list \<Rightarrow> Candidate \<Rightarrow> Candidate \<Rightarrow> bool" where
  "pinned_less ids a b = (pin_rank ids (cd_ServerID a) < pin_rank ids (cd_ServerID b))"

definition strategy_less :: "Requirements \<Rightarrow> (Candidate \<Rightarrow> Candidate \<Rightarrow> bool) option" where
  "strategy_less rq =
     (if rq_Strategy rq = ''spread'' then Some spread_less
      else if rq_Strategy rq = ''binpack'' then Some binpack_less
      else if rq_Strategy rq = ''pinned'' then Some (pinned_less (rq_PinnedServerIDs rq))
      else None)"

definition reasonFor :: "string \<Rightarrow> Candidate \<Rightarrow> string" where
  "reasonFor strategy c =
     (if strategy = ''binpack'' then
        ''binpack selected '' @ cd_ServerName c @ '' with '' @ show_int (cd_RunningReplicas c) @ '' running replicas''
      else if strategy = ''pinned'' then ''pinned placement selected '' @ cd_ServerName c
      else ''spread selected '' @ cd_ServerName c @ '' with '' @ show_int (cd_RunningReplicas c) @ '' running replicas'')"

definition assignment :: "Requirements \<Rightarrow> Candidate \<Rightarrow> Assignment" where
  "assignment rq c = \<lparr>as_ServerID = cd_ServerID c, as_ServerName = cd_ServerName c, as_Replicas = 1,
     as_Reason = reasonFor (rq_Strategy rq) c\<rparr>"

definition default_strategy :: "Requirements \<Rightarrow> Requirements" where
  "default_strategy rq = (if rq_Strategy rq = [] then rq\<lparr>rq_Strategy := ''spread''\<rparr> else rq)"

definition Schedule :: "Requirements \<Rightarrow> Candidate list \<Rightarrow> string + Assignment list" where
  "Schedule rq0 cs =
     (if rq_Replicas rq0 \<le> 0 then Inl ''replicas must be greater than zero''
      else let rq = default_strategy rq0; el = eligible rq cs; rej = rejectionSummary (rejections rq cs) in
        if el = [] then Inl (''no eligible servers match placement strategy '' @ go_quote (rq_Strategy rq) @ '': '' @ rej)
        else if rq_Replicas rq > int (length el) then
          Inl (''insufficient eligible servers: need '' @ show_int (rq_Replicas rq) @ '', have '' @ show_int (int (length el)) @
               '' ('' @ rej @ '')'')
        else case strategy_less rq of
          None \<Rightarrow> Inl (''unknown placement strategy '' @ go_quote (rq_Strategy rq))
        | Some lt \<Rightarrow> Inr (map (assignment rq) (take (nat (rq_Replicas rq)) (SliceStable lt el))))"

section \<open>What the strategies promise\<close>

text \<open>
  A less function that a sort can use: asymmetric, with "not less" transitive. The sorted list is then in order and a
  prefix of it holds the best elements.
\<close>

locale weak_order =
  fixes lt :: "'a \<Rightarrow> 'a \<Rightarrow> bool"
  assumes asym: "lt x y \<Longrightarrow> \<not> lt y x"
    and neg_trans: "\<not> lt x y \<Longrightarrow> \<not> lt y z \<Longrightarrow> \<not> lt x z"
begin

lemma sorted_slice: "sorted_wrt (\<lambda>x y. \<not> lt y x) (SliceStable lt xs)"
proof -
  have c: "(if lt y x then 1 else 0 :: int) \<le> 0 \<longleftrightarrow> \<not> lt y x" for x y by simp
  have "sorted_wrt (\<lambda>x y. (if lt y x then 1 else 0 :: int) \<le> 0) (SliceStable lt xs)"
    unfolding SliceStable_def
  proof (rule array_sort_sorted, unfold c)
    show "\<not> lt y x \<or> \<not> lt x y" for x y using asym [of x y] by blast
    show "\<not> lt y x \<Longrightarrow> \<not> lt z y \<Longrightarrow> \<not> lt z x" for x y z using neg_trans [of z y x] by blast
  qed
  then show ?thesis unfolding c .
qed

lemma prefix_best:
  assumes "x \<in> set (take n (SliceStable lt xs))" and "y \<in> set (drop n (SliceStable lt xs))"
  shows "\<not> lt y x"
  using sorted_slice [of xs] assms
  unfolding sorted_wrt_append [of _ "take n (SliceStable lt xs)" "drop n (SliceStable lt xs)", unfolded append_take_drop_id]
  by blast

end

interpretation spread: weak_order spread_less
  by unfold_locales (auto simp: spread_less_def split: if_splits)

interpretation binpack: weak_order binpack_less
  by unfold_locales (auto simp: binpack_less_def split: if_splits)

interpretation pinned: weak_order "pinned_less ids" for ids
  by unfold_locales (auto simp: pinned_less_def)

lemma strategy_weak_order: "strategy_less rq = Some lt \<Longrightarrow> weak_order lt"
  by (auto simp: strategy_less_def spread.weak_order_axioms binpack.weak_order_axioms pinned.weak_order_axioms split: if_splits)

lemma mset_SliceStable [simp]: "mset (SliceStable lt xs) = mset xs"
  by (simp add: SliceStable_def)

lemma slice_facts [simp]:
  "set (SliceStable lt xs) = set xs" "length (SliceStable lt xs) = length xs" "distinct (SliceStable lt xs) = distinct xs"
  by (simp_all add: SliceStable_def size_mset [symmetric] del: size_mset)

lemma pinned_get: "obj_get (pinnedSet ids) x = (if x \<in> set ids then Some True else None)"
proof -
  have "obj_get (foldl (\<lambda>m i. obj_set i True m) m ids) x = (if x \<in> set ids then Some True else obj_get m x)" for m
    by (induction ids arbitrary: m) (auto simp: obj_get_set)
  then show ?thesis by (simp add: pinnedSet_def obj_get_def)
qed

section \<open>The assignments\<close>

lemma default_fields [simp]: "rq_Replicas (default_strategy rq) = rq_Replicas rq"
  by (simp add: default_strategy_def)

lemma schedule_result:
  assumes "strategy_less (default_strategy rq) = Some lt"
  shows "Schedule rq cs = Inr as \<longleftrightarrow>
    0 < rq_Replicas rq \<and> rq_Replicas rq \<le> int (length (eligible (default_strategy rq) cs)) \<and>
    as = map (assignment (default_strategy rq)) (take (nat (rq_Replicas rq)) (SliceStable lt (eligible (default_strategy rq) cs)))"
  using assms by (auto simp: Schedule_def Let_def)

lemma schedule_known: "Schedule rq cs = Inr as \<Longrightarrow> \<exists>lt. strategy_less (default_strategy rq) = Some lt"
  by (auto simp: Schedule_def Let_def split: if_splits option.splits)

lemma assignment_server [simp]: "as_ServerID (assignment rq c) = cd_ServerID c"
  by (simp add: assignment_def)

lemma schedule_distinct:
  assumes "distinct (map cd_ServerID cs)" and "Schedule rq cs = Inr as"
  shows "distinct (map as_ServerID as)"
proof -
  let ?el = "eligible (default_strategy rq) cs"
  obtain lt where lt: "strategy_less (default_strategy rq) = Some lt" using schedule_known [OF assms(2)] by blast
  have e: "distinct (map cd_ServerID ?el)" using assms(1) by (simp add: eligible_def distinct_map_filter)
  have "mset (map cd_ServerID (SliceStable lt ?el)) = mset (map cd_ServerID ?el)" by simp
  with e have "distinct (map cd_ServerID (SliceStable lt ?el))" by (metis mset_eq_imp_distinct_iff)
  then have "distinct (take (nat (rq_Replicas rq)) (map cd_ServerID (SliceStable lt ?el)))" by (rule distinct_take)
  with assms(2) show ?thesis unfolding schedule_result [OF lt] by (simp add: comp_def take_map)
qed

lemma schedule_eligible:
  assumes "Schedule rq cs = Inr as" and "a \<in> set as"
  shows "\<exists>c \<in> set cs. rejection (default_strategy rq) c = None \<and> a = assignment (default_strategy rq) c"
proof -
  obtain lt where lt: "strategy_less (default_strategy rq) = Some lt" using schedule_known [OF assms(1)] by blast
  from assms obtain c where c: "c \<in> set (take (nat (rq_Replicas rq)) (SliceStable lt (eligible (default_strategy rq) cs)))"
    and a: "a = assignment (default_strategy rq) c"
    unfolding schedule_result [OF lt] by auto
  from c have "c \<in> set (eligible (default_strategy rq) cs)" using in_set_takeD by fastforce
  with a show ?thesis by (auto simp: eligible_def)
qed

text \<open>
  C14: The scheduler places exactly the replicas asked for, each on a server of its own, and never passes over a better
  server. With a known strategy it fails just when no replica is asked for or fewer servers are eligible than replicas
  are asked for; otherwise the servers it takes and the ones it leaves are together the eligible ones, and none that is
  left comes before one that is taken in the order of the strategy: fewer running replicas first for spread, more for
  binpack, both by name where they agree, and the order of the list for pinned servers.
\<close>

lemma schedule_best:
  assumes "strategy_less (default_strategy rq) = Some lt" and "distinct (map cd_ServerID cs)"
  shows "case Schedule rq cs of
      Inl e \<Rightarrow> rq_Replicas rq \<le> 0 \<or> int (length (eligible (default_strategy rq) cs)) < rq_Replicas rq
    | Inr as \<Rightarrow>
        0 < rq_Replicas rq \<and> length as = nat (rq_Replicas rq) \<and> distinct (map as_ServerID as) \<and>
        (\<exists>taken left. as = map (assignment (default_strategy rq)) taken \<and>
           mset (taken @ left) = mset (eligible (default_strategy rq) cs) \<and>
           (\<forall>c \<in> set taken. \<forall>d \<in> set left. \<not> lt d c))"
proof (cases "Schedule rq cs")
  case (Inl e)
  let ?as = "map (assignment (default_strategy rq)) (take (nat (rq_Replicas rq)) (SliceStable lt (eligible (default_strategy rq) cs)))"
  have "Schedule rq cs \<noteq> Inr ?as" using Inl by simp
  then show ?thesis unfolding schedule_result [OF assms(1)] by (auto simp: Inl not_le)
next
  case (Inr as)
  let ?sl = "SliceStable lt (eligible (default_strategy rq) cs)" and ?n = "nat (rq_Replicas rq)"
  have r: "0 < rq_Replicas rq" "rq_Replicas rq \<le> int (length ?sl)" "as = map (assignment (default_strategy rq)) (take ?n ?sl)"
    using Inr unfolding schedule_result [OF assms(1)] by simp_all
  have best: "\<not> lt d c" if "c \<in> set (take ?n ?sl)" "d \<in> set (drop ?n ?sl)" for c d
    using weak_order.prefix_best [OF strategy_weak_order [OF assms(1)] that] .
  have "mset (take ?n ?sl @ drop ?n ?sl) = mset (eligible (default_strategy rq) cs)" unfolding append_take_drop_id by simp
  with best r(3) have "\<exists>taken left. as = map (assignment (default_strategy rq)) taken \<and>
      mset (taken @ left) = mset (eligible (default_strategy rq) cs) \<and> (\<forall>c \<in> set taken. \<forall>d \<in> set left. \<not> lt d c)"
    by blast
  then show ?thesis using r schedule_distinct [OF assms(2) Inr] by (simp add: Inr)
qed

definition sample_candidate :: "string \<Rightarrow> int \<Rightarrow> Candidate" where
  "sample_candidate n k = \<lparr>cd_ServerID = n, cd_ServerName = n, cd_Status = ''online'', cd_Tags = [], cd_RunningReplicas = k,
     cd_CPUCapacity = 0, cd_MemoryAvailable = 0, cd_HasCPUData = False, cd_HasMemoryData = False\<rparr>"

definition sample_requirements :: "int \<Rightarrow> Requirements" where
  "sample_requirements n = \<lparr>rq_Replicas = n, rq_Strategy = ''spread'', rq_PinnedServerIDs = [],
     rq_Constraints = \<lparr>PlacementConstraints_must_have = [], PlacementConstraints_must_not_have = []\<rparr>,
     rq_MemoryLimitMB = 0, rq_CPULimitMillicores = 0\<rparr>"

lemma schedule_best_witness:
  "\<exists>taken left. map as_ServerID (map (assignment (sample_requirements 2)) taken) = [''c'', ''b''] \<and>
     mset (taken @ left) = mset [sample_candidate ''a'' 4, sample_candidate ''b'' 1, sample_candidate ''c'' 0] \<and>
     (\<forall>c \<in> set taken. \<forall>d \<in> set left. \<not> spread_less d c)"
proof -
  let ?cs = "[sample_candidate ''a'' 4, sample_candidate ''b'' 1, sample_candidate ''c'' 0]" and ?rq = "sample_requirements 2"
  have d: "default_strategy ?rq = ?rq" "strategy_less ?rq = Some spread_less" "distinct (map cd_ServerID ?cs)" "eligible ?rq ?cs = ?cs"
    by (simp_all add: default_strategy_def strategy_less_def sample_requirements_def sample_candidate_def eligible_def rejection_def
        matchesConstraints_def)
  have s: "Schedule ?rq ?cs = Inr (map (assignment ?rq) [sample_candidate ''c'' 0, sample_candidate ''b'' 1])"
    by (subst schedule_result [where lt = spread_less])
      (simp_all add: d, simp_all add: sample_requirements_def SliceStable_def array_sort_def spread_less_def sample_candidate_def
        numeral_2_eq_2)
  have "case Schedule ?rq ?cs of
      Inl e \<Rightarrow> rq_Replicas ?rq \<le> 0 \<or> int (length (eligible (default_strategy ?rq) ?cs)) < rq_Replicas ?rq
    | Inr as \<Rightarrow>
        0 < rq_Replicas ?rq \<and> length as = nat (rq_Replicas ?rq) \<and> distinct (map as_ServerID as) \<and>
        (\<exists>taken left. as = map (assignment (default_strategy ?rq)) taken \<and>
           mset (taken @ left) = mset (eligible (default_strategy ?rq) ?cs) \<and>
           (\<forall>c \<in> set taken. \<forall>d \<in> set left. \<not> spread_less d c))"
    by (rule schedule_best) (simp_all only: d)
  then obtain taken left where t: "map (assignment ?rq) [sample_candidate ''c'' 0, sample_candidate ''b'' 1] = map (assignment ?rq) taken"
    and m: "mset (taken @ left) = mset ?cs" "\<forall>c \<in> set taken. \<forall>d \<in> set left. \<not> spread_less d c"
    unfolding s d sum.case by blast
  have "map as_ServerID (map (assignment ?rq) taken) = [''c'', ''b'']"
    unfolding t [symmetric] by (simp add: sample_candidate_def)
  with m show ?thesis by (intro exI conjI)
qed

end
