(* ===== verification/Scale_Store.thy ===== *)
theory Scale_Store
  imports Scheduler Scaling Alert_Store Notifications_Page
begin

text \<open>
  Scaling on the side of the API (\<open>internal/deploy/service.go\<close>, \<open>internal/api/handler/deploy.go\<close>): the rows the
  scheduler is given, the start of a deployment, manual scaling, the autoscaling rules and their evaluation. The state
  is the tables these read and write. A deployment is modelled up to the point where the commands are handed to the
  agents; its environment is modelled in \<open>Deploy_Env\<close>, and the log lines are left out. Times are integers in seconds.
\<close>

section \<open>Tables\<close>

text \<open>A member of a cluster with the columns of its server, its resources and its tags.\<close>

record member_row =
  mb_server :: string
  mb_name :: string
  mb_status :: string
  mb_cpu_cores :: "int option"
  mb_memory_available :: "int option"
  mb_tags :: "(string, string) obj"

record target_row =
  tg_server :: string
  tg_status :: string

record deploy_row =
  dp_id :: string
  dp_app :: string
  dp_env :: string
  dp_build :: string
  dp_status :: string
  dp_replicas_desired :: int
  dp_targets :: "target_row list"

record metric_row =
  mt_cpu_percent :: rat
  mt_memory_total :: int
  mt_memory_used :: int
  mt_updated :: int

record rule_row =
  ru_id :: string
  ru_app :: string
  ru_name :: string
  ru_metric_name :: string
  ru_comparison :: string
  ru_threshold :: rat
  ru_duration_seconds :: int
  ru_action_type :: string
  ru_action_value :: int
  ru_min_replicas :: int
  ru_max_replicas :: int
  ru_cooldown_up :: int
  ru_cooldown_down :: int
  ru_enabled :: bool
  ru_last_triggered :: "int option"

text \<open>Rows are kept in the order of their creation.\<close>

record scale_store =
  ss_apps :: "db_app list"
  ss_clusters :: "(string, string) obj"
  ss_members :: "(string, member_row list) obj"
  ss_envs :: "Environment list"
  ss_builds :: "string list"
  ss_deployments :: "deploy_row list"
  ss_metrics :: "(string, metric_row) obj"
  ss_rules :: "rule_row list"
  ss_events :: "ScalingEvent list"

text \<open>
  What a call takes from outside: the order of names and identifiers in the database, the identifiers it generates for a
  table from the number of rows in it, the time, the time as text, and the text of a database error.
\<close>

record scale_ctx =
  sx_collate :: "string \<Rightarrow> string \<Rightarrow> int"
  sx_ids :: "string \<Rightarrow> nat \<Rightarrow> string"
  sx_now :: int
  sx_stamp :: string
  sx_dberr :: string

definition GetApp :: "string \<Rightarrow> scale_store \<Rightarrow> db_app option" where
  "GetApp appID st = find (\<lambda>a. da_id a = appID) (ss_apps st)"

section \<open>Placement of a deployment\<close>

definition running_replicas :: "scale_store \<Rightarrow> string \<Rightarrow> int" where
  "running_replicas st server =
     int (length (filter (\<lambda>t. tg_status t = ''healthy'' \<and> tg_server t = server)
       (concat (map dp_targets (filter (\<lambda>d. dp_status d = ''healthy'') (ss_deployments st))))))"

definition members_of :: "scale_store \<Rightarrow> string \<Rightarrow> member_row list" where
  "members_of st cluster = (case obj_get (ss_members st) cluster of Some ms \<Rightarrow> ms | None \<Rightarrow> [])"

definition scheduler_candidate :: "scale_store \<Rightarrow> member_row \<Rightarrow> Candidate" where
  "scheduler_candidate st m =
     \<lparr>cd_ServerID = mb_server m, cd_ServerName = mb_name m, cd_Status = mb_status m, cd_Tags = mb_tags m,
      cd_RunningReplicas = running_replicas st (mb_server m),
      cd_CPUCapacity = (case mb_cpu_cores m of Some n \<Rightarrow> int32_of (n * 1000) | None \<Rightarrow> 0),
      cd_MemoryAvailable = (case mb_memory_available m of Some n \<Rightarrow> n | None \<Rightarrow> 0),
      cd_HasCPUData = (mb_cpu_cores m \<noteq> None), cd_HasMemoryData = (mb_memory_available m \<noteq> None)\<rparr>"

definition scheduling_rows :: "scale_ctx \<Rightarrow> scale_store \<Rightarrow> string \<Rightarrow> Candidate list" where
  "scheduling_rows cx st cluster =
     map (scheduler_candidate st) (array_sort (\<lambda>a b. sx_collate cx (mb_name a) (mb_name b)) (members_of st cluster))"

definition app_requirements :: "db_app \<Rightarrow> Requirements" where
  "app_requirements a =
     \<lparr>rq_Replicas = da_replicas a, rq_Strategy = da_placement_strategy a, rq_PinnedServerIDs = da_pinned_server_ids a,
      rq_Constraints = da_placement_constraints a, rq_MemoryLimitMB = da_memory_limit_mb a,
      rq_CPULimitMillicores = da_cpu_limit_millicores a\<rparr>"

text \<open>The servers of the targets, in order; \<open>members\<close> are the cluster's members the caller has loaded.\<close>

fun assigned_members :: "member_row list \<Rightarrow> Assignment list \<Rightarrow> string + string list" where
  "assigned_members members [] = Inr []"
| "assigned_members members (a # as) =
     (if as_ServerID a \<notin> mb_server ` set members then Inl (''scheduled server '' @ as_ServerID a @ '' is not a cluster member'')
      else case assigned_members members as of Inl e \<Rightarrow> Inl e | Inr ss \<Rightarrow> Inr (as_ServerID a # ss))"

definition scheduleTargets :: "scale_ctx \<Rightarrow> scale_store \<Rightarrow> db_app \<Rightarrow> string \<Rightarrow> member_row list \<Rightarrow> string + string list" where
  "scheduleTargets cx st app cluster members =
     (case Schedule (app_requirements app) (scheduling_rows cx st cluster) of
        Inl e \<Rightarrow> Inl e
      | Inr as \<Rightarrow> assigned_members members as)"

definition targetForSpecificServer :: "string \<Rightarrow> member_row list \<Rightarrow> string + string" where
  "targetForSpecificServer server members =
     (case find (\<lambda>m. mb_server m = server) members of
        Some m \<Rightarrow> Inr (mb_server m)
      | None \<Rightarrow> Inl ''server not found in cluster'')"

text \<open>One target per server; a second one for the same server breaks the table's constraint and ends the loop.\<close>

fun create_targets :: "string list \<Rightarrow> target_row list \<Rightarrow> target_row list \<times> bool" where
  "create_targets [] ts = (ts, True)"
| "create_targets (s # ss) ts =
     (if s \<in> tg_server ` set ts then (ts, False)
      else create_targets ss (ts @ [\<lparr>tg_server = s, tg_status = ''pending''\<rparr>]))"

definition deploy_targets ::
    "scale_ctx \<Rightarrow> scale_store \<Rightarrow> db_app \<Rightarrow> string \<Rightarrow> string option \<Rightarrow> string + string list" where
  "deploy_targets cx st app cluster specific =
     (let members = members_of st cluster in
      if members = [] then Inl ''no servers available in cluster''
      else case specific of
        Some s \<Rightarrow> (case targetForSpecificServer s members of Inl e \<Rightarrow> Inl e | Inr t \<Rightarrow> Inr [t])
      | None \<Rightarrow> scheduleTargets cx st app cluster members)"

definition TriggerDeploy ::
    "scale_ctx \<Rightarrow> string \<Rightarrow> string \<Rightarrow> string \<Rightarrow> string option \<Rightarrow> scale_store \<Rightarrow> scale_store \<times> (string + deploy_row)" where
  "TriggerDeploy cx appID envID buildID specific st =
     (case GetApp appID st of
        None \<Rightarrow> (st, Inl ''get app: no rows in result set'')
      | Some app \<Rightarrow>
          if buildID \<notin> set (ss_builds st) then (st, Inl ''get build: no rows in result set'')
          else case obj_get (ss_clusters st) (da_project_id app) of
            None \<Rightarrow> (st, Inl ''get project: no rows in result set'')
          | Some cluster \<Rightarrow>
              (case deploy_targets cx st app cluster specific of
                 Inl e \<Rightarrow> (st, Inl e)
               | Inr servers \<Rightarrow>
                   if envID \<notin> Environment_id ` set (ss_envs st) then (st, Inl ''get environment: no rows in result set'')
                   else
                     (let d = \<lparr>dp_id = sx_ids cx ''deployments'' (length (ss_deployments st)), dp_app = appID, dp_env = envID,
                               dp_build = buildID, dp_status = ''pending'', dp_replicas_desired = int32_of (int (length servers)),
                               dp_targets = []\<rparr>
                      in case create_targets servers [] of
                           (ts, False) \<Rightarrow> (st\<lparr>ss_deployments := ss_deployments st @ [d\<lparr>dp_targets := ts\<rparr>]\<rparr>,
                                           Inl (''create target: '' @ sx_dberr cx))
                         | (ts, True) \<Rightarrow> (st\<lparr>ss_deployments := ss_deployments st @ [d\<lparr>dp_targets := ts, dp_status := ''deploying''\<rparr>]\<rparr>,
                                          Inr d))))"

section \<open>Manual scaling\<close>

record ScaleRequest =
  sq_Replicas :: int
  sq_PlacementStrategy :: string
  sq_PlacementConstraints :: PlacementConstraints
  sq_PinnedServerIDs :: "string list"
  sq_ActorID :: "string option"
  sq_ActorType :: string
  sq_EventType :: string
  sq_MetricName :: "string option"
  sq_MetricValue :: "rat option"
  sq_RuleName :: "string option"

record scale_outcome =
  so_App :: db_app
  so_Event :: ScalingEvent
  so_Deployment :: "deploy_row option"

text \<open>The column's constraint on the strategy is one of \<open>app_row_ok\<close>.\<close>

definition UpdateAppScaling ::
    "string \<Rightarrow> string \<Rightarrow> int \<Rightarrow> string \<Rightarrow> PlacementConstraints \<Rightarrow> string list \<Rightarrow> db_app list \<Rightarrow> (db_app list \<times> db_app) option" where
  "UpdateAppScaling now appID replicas strategy constraints pinned apps =
     (case find (\<lambda>a. da_id a = appID) apps of
        None \<Rightarrow> None
      | Some a \<Rightarrow>
          (case checked (a\<lparr>da_replicas := replicas, da_placement_strategy := strategy, da_placement_constraints := constraints,
                          da_pinned_server_ids := pinned, da_updated_at := now\<rparr>) of
             None \<Rightarrow> None
           | Some a' \<Rightarrow> Some (map (\<lambda>b. if da_id b = appID then a' else b) apps, a')))"

definition productionEnvironment :: "scale_ctx \<Rightarrow> string \<Rightarrow> scale_store \<Rightarrow> string + string" where
  "productionEnvironment cx project st =
     (let envs = array_sort
            (\<lambda>a b. if Environment_is_production a \<noteq> Environment_is_production b then (if Environment_is_production a then - 1 else 1)
                   else sx_collate cx (Environment_name a) (Environment_name b))
            (filter (\<lambda>e. Environment_project_id e = project) (ss_envs st))
      in if envs = [] then Inl ''no environments found''
         else case find Environment_is_production envs of
           Some e \<Rightarrow> Inr (Environment_id e)
         | None \<Rightarrow> Inr (Environment_id (hd envs)))"

definition GetLastHealthyDeployment :: "string \<Rightarrow> string \<Rightarrow> scale_store \<Rightarrow> deploy_row option" where
  "GetLastHealthyDeployment appID envID st =
     find (\<lambda>d. dp_app d = appID \<and> dp_env d = envID \<and> dp_status d = ''healthy'') (rev (ss_deployments st))"

definition RedeployAppEnv :: "scale_ctx \<Rightarrow> string \<Rightarrow> string \<Rightarrow> scale_store \<Rightarrow> scale_store \<times> (string + deploy_row)" where
  "RedeployAppEnv cx appID envID st =
     (case GetLastHealthyDeployment appID envID st of
        None \<Rightarrow> (st, Inl ''no healthy deployment to redeploy: no rows in result set'')
      | Some d \<Rightarrow> TriggerDeploy cx appID envID (dp_build d) None st)"

definition RedeployAppLatest :: "scale_ctx \<Rightarrow> string \<Rightarrow> scale_store \<Rightarrow> scale_store \<times> (string + deploy_row)" where
  "RedeployAppLatest cx appID st =
     (case GetApp appID st of
        None \<Rightarrow> (st, Inl ''get app: no rows in result set'')
      | Some a \<Rightarrow>
          (case productionEnvironment cx (da_project_id a) st of
             Inl e \<Rightarrow> (st, Inl e)
           | Inr envID \<Rightarrow> RedeployAppEnv cx appID envID st))"

definition scaling_event ::
    "scale_ctx \<Rightarrow> string \<Rightarrow> string \<Rightarrow> deploy_row option \<Rightarrow> ScaleRequest \<Rightarrow> int \<Rightarrow> string \<Rightarrow> scale_store \<Rightarrow> ScalingEvent" where
  "scaling_event cx appID envID deployment rq from message st =
     \<lparr>ScalingEvent_id = sx_ids cx ''scaling_events'' (length (ss_events st)), ScalingEvent_app_id = appID,
      ScalingEvent_environment_id = Some envID, ScalingEvent_deployment_id = map_option dp_id deployment,
      ScalingEvent_actor_id = sq_ActorID rq, ScalingEvent_actor_type = sq_ActorType rq, ScalingEvent_event_type = sq_EventType rq,
      ScalingEvent_from_replicas = from, ScalingEvent_to_replicas = sq_Replicas rq,
      ScalingEvent_placement_strategy = sq_PlacementStrategy rq, ScalingEvent_metric_name = sq_MetricName rq,
      ScalingEvent_metric_value = sq_MetricValue rq, ScalingEvent_rule_name = sq_RuleName rq, ScalingEvent_message = message,
      ScalingEvent_metadata = Some (JObj []), ScalingEvent_created_at = sx_stamp cx\<rparr>"

definition scale_defaults :: "db_app \<Rightarrow> ScaleRequest \<Rightarrow> ScaleRequest" where
  "scale_defaults current rq =
     rq\<lparr>sq_PlacementStrategy := (if sq_PlacementStrategy rq = [] then da_placement_strategy current else sq_PlacementStrategy rq),
        sq_ActorType := (if sq_ActorType rq = [] then ''user'' else sq_ActorType rq),
        sq_EventType := (if sq_EventType rq = [] then ''manual_scale'' else sq_EventType rq)\<rparr>"

text \<open>The deployment that applies the new settings: the last healthy build again, when there is one.\<close>

definition scale_deploy ::
    "scale_ctx \<Rightarrow> string \<Rightarrow> string \<Rightarrow> int \<Rightarrow> int \<Rightarrow> scale_store \<Rightarrow> scale_store \<times> (string + deploy_row option \<times> string)" where
  "scale_deploy cx appID envID from to st =
     (case GetLastHealthyDeployment appID envID st of
        None \<Rightarrow> (st, Inr (None, ''Scaling settings saved; deploy a build to apply them''))
      | Some d \<Rightarrow>
          (case TriggerDeploy cx appID envID (dp_build d) None st of
             (st', Inl e) \<Rightarrow> (st', Inl e)
           | (st', Inr next) \<Rightarrow> (st', Inr (Some next, ''Scaling from '' @ show_int from @ '' to '' @ show_int to @ '' replicas''))))"

definition deploy_ScaleApp ::
    "scale_ctx \<Rightarrow> string \<Rightarrow> ScaleRequest \<Rightarrow> scale_store \<Rightarrow> scale_store \<times> (string + scale_outcome)" where
  "deploy_ScaleApp cx appID rq0 st =
     (case GetApp appID st of
        None \<Rightarrow> (st, Inl ''get app: no rows in result set'')
      | Some current \<Rightarrow>
          if sq_Replicas rq0 \<le> 0 then (st, Inl ''replicas must be greater than zero'')
          else let rq = scale_defaults current rq0 in
            if sq_PlacementStrategy rq \<notin> {''spread'', ''binpack'', ''pinned''} then
              (st, Inl (''unknown placement strategy '' @ go_quote (sq_PlacementStrategy rq)))
            else case UpdateAppScaling (sx_stamp cx) appID (sq_Replicas rq) (sq_PlacementStrategy rq) (sq_PlacementConstraints rq)
                        (sq_PinnedServerIDs rq) (ss_apps st) of
              None \<Rightarrow> (st, Inl (''update app scaling: '' @ sx_dberr cx))
            | Some (apps, updated) \<Rightarrow>
                (let st1 = st\<lparr>ss_apps := apps\<rparr> in
                 case productionEnvironment cx (da_project_id updated) st1 of
                   Inl e \<Rightarrow> (st1, Inl e)
                 | Inr envID \<Rightarrow>
                     (case scale_deploy cx appID envID (da_replicas current) (sq_Replicas rq) st1 of
                        (st2, Inl e) \<Rightarrow> (st2, Inl e)
                      | (st2, Inr (deployment, message)) \<Rightarrow>
                          (let ev = scaling_event cx appID envID deployment rq (da_replicas current) message st2
                           in (st2\<lparr>ss_events := ss_events st2 @ [ev]\<rparr>,
                               Inr \<lparr>so_App = updated, so_Event = ev, so_Deployment = deployment\<rparr>)))))"

definition parseUUIDStrings :: "(string \<Rightarrow> bool) \<Rightarrow> string list \<Rightarrow> string list option" where
  "parseUUIDStrings uuid values = (let ids = filter (\<lambda>v. v \<noteq> []) values in if list_all uuid ids then Some ids else None)"

text \<open>The constraints of a request that has one of the two members; \<open>EncodeConstraints\<close> makes an absent one empty.\<close>

definition request_constraints :: "js \<Rightarrow> PlacementConstraints \<Rightarrow> PlacementConstraints" where
  "request_constraints body saved =
     (let pc = go_member body ''placement_constraints'' in
      if go_str_map pc ''must_have'' \<noteq> None \<or> go_str_map pc ''must_not_have'' \<noteq> None then
        \<lparr>PlacementConstraints_must_have = (case go_str_map pc ''must_have'' of Some m \<Rightarrow> m | None \<Rightarrow> []),
         PlacementConstraints_must_not_have = (case go_str_map pc ''must_not_have'' of Some m \<Rightarrow> m | None \<Rightarrow> [])\<rparr>
      else saved)"

definition DeployHandler_ScaleApp ::
    "(string \<Rightarrow> bool) \<Rightarrow> scale_ctx \<Rightarrow> string \<Rightarrow> string \<Rightarrow> js option \<Rightarrow> scale_store \<Rightarrow> scale_store \<times> scale_outcome reply" where
  "DeployHandler_ScaleApp uuid cx user appID body st =
     (if \<not> uuid appID then (st, Inl (400, ''invalid app ID''))
      else case GetApp appID st of
        None \<Rightarrow> (st, Inl (404, ''app not found''))
      | Some app \<Rightarrow>
          if \<not> DecodeJSON uuid scaleAppRequest body then (st, Inl (400, ''invalid request body''))
          else let b = the body in
            if go_int b ''replicas'' \<le> 0 then (st, Inl (400, ''replicas must be greater than zero''))
            else case (case go_strs b ''pinned_server_ids'' of
                         None \<Rightarrow> Some (da_pinned_server_ids app) | Some vs \<Rightarrow> parseUUIDStrings uuid vs) of
              None \<Rightarrow> (st, Inl (400, ''invalid pinned_server_ids''))
            | Some pins \<Rightarrow>
                (case deploy_ScaleApp cx appID
                        \<lparr>sq_Replicas = go_int b ''replicas'',
                         sq_PlacementStrategy = (if go_str b ''placement_strategy'' = [] then da_placement_strategy app
                                                 else go_str b ''placement_strategy''),
                         sq_PlacementConstraints = request_constraints b (da_placement_constraints app),
                         sq_PinnedServerIDs = pins, sq_ActorID = Some user, sq_ActorType = ''user'', sq_EventType = [],
                         sq_MetricName = None, sq_MetricValue = None, sq_RuleName = None\<rparr> st of
                   (st', Inl e) \<Rightarrow> (st', Inl (400, e))
                 | (st', Inr r) \<Rightarrow> (st', Inr r)))"

section \<open>Where the replicas of a deployment run\<close>

lemma create_targets_distinct:
  "distinct (map tg_server ts @ ss) \<Longrightarrow>
    create_targets ss ts = (ts @ map (\<lambda>s. \<lparr>tg_server = s, tg_status = ''pending''\<rparr>) ss, True)"
proof (induction ss arbitrary: ts)
  case (Cons s ss)
  from Cons.prems have "s \<notin> tg_server ` set ts" by auto
  moreover have "create_targets ss (ts @ [\<lparr>tg_server = s, tg_status = ''pending''\<rparr>]) =
      ((ts @ [\<lparr>tg_server = s, tg_status = ''pending''\<rparr>]) @ map (\<lambda>s. \<lparr>tg_server = s, tg_status = ''pending''\<rparr>) ss, True)"
    by (rule Cons.IH) (use Cons.prems in auto)
  ultimately show ?case by simp
qed simp

lemma assigned_all:
  "(\<forall>a \<in> set as. as_ServerID a \<in> mb_server ` set members) \<Longrightarrow> assigned_members members as = Inr (map as_ServerID as)"
  by (induction as) auto

lemma assigned_some: "assigned_members members as = Inr ss \<Longrightarrow> ss = map as_ServerID as"
  by (induction as arbitrary: ss) (auto split: if_splits sum.splits)

lemma rows_servers: "mset (map cd_ServerID (scheduling_rows cx st cluster)) = mset (map mb_server (members_of st cluster))"
proof -
  have "map cd_ServerID (scheduling_rows cx st cluster) =
      map mb_server (array_sort (\<lambda>a b. sx_collate cx (mb_name a) (mb_name b)) (members_of st cluster))"
    by (simp add: scheduling_rows_def scheduler_candidate_def)
  then show ?thesis by simp
qed

lemma rows_members: "c \<in> set (scheduling_rows cx st cluster) \<longleftrightarrow> (\<exists>m \<in> set (members_of st cluster). c = scheduler_candidate st m)"
  by (auto simp: scheduling_rows_def)

text \<open>The members that may run a replica of the app, as the scheduler sees them.\<close>

definition can_host :: "scale_store \<Rightarrow> db_app \<Rightarrow> member_row \<Rightarrow> bool" where
  "can_host st app m = (rejection (default_strategy (app_requirements app)) (scheduler_candidate st m) = None)"

definition room :: "scale_store \<Rightarrow> string \<Rightarrow> db_app \<Rightarrow> nat" where
  "room st cluster app = length (filter (can_host st app) (members_of st cluster))"

lemma eligible_room: "length (eligible (default_strategy (app_requirements app)) (scheduling_rows cx st cluster)) = room st cluster app"
proof -
  let ?s = "array_sort (\<lambda>a b. sx_collate cx (mb_name a) (mb_name b)) (members_of st cluster)"
  have "mset (filter (can_host st app) ?s) = mset (filter (can_host st app) (members_of st cluster))"
    by (simp only: mset_filter mset_array_sort)
  then have "length (filter (can_host st app) ?s) = room st cluster app"
    unfolding room_def by (rule mset_eq_length)
  moreover have "eligible (default_strategy (app_requirements app)) (scheduling_rows cx st cluster) =
      map (scheduler_candidate st) (filter (can_host st app) ?s)"
    by (simp add: eligible_def scheduling_rows_def filter_map comp_def can_host_def [abs_def])
  ultimately show ?thesis by simp
qed

lemma schedule_full:
  assumes "da_placement_strategy app \<in> {''spread'', ''binpack'', ''pinned''}" and "int (room st cluster app) < da_replicas app"
  shows "\<exists>e. scheduleTargets cx st app cluster members = Inl e"
proof -
  have "Schedule (app_requirements app) (scheduling_rows cx st cluster) \<noteq> Inr as" for as
  proof
    assume s: "Schedule (app_requirements app) (scheduling_rows cx st cluster) = Inr as"
    obtain lt where "strategy_less (default_strategy (app_requirements app)) = Some lt" using schedule_known [OF s] by blast
    from s [unfolded schedule_result [OF this] eligible_room] assms(2) show False by (simp add: app_requirements_def)
  qed
  then show ?thesis by (cases "Schedule (app_requirements app) (scheduling_rows cx st cluster)") (auto simp: scheduleTargets_def)
qed

lemma schedule_targets:
  assumes "distinct (map mb_server (members_of st cluster))"
    and "scheduleTargets cx st app cluster (members_of st cluster) = Inr ss"
  shows "0 < da_replicas app" "length ss = nat (da_replicas app)" "distinct ss"
    and "s \<in> set ss \<Longrightarrow> \<exists>m \<in> set (members_of st cluster). mb_server m = s \<and> can_host st app m"
proof -
  from assms(2) obtain as where s: "Schedule (app_requirements app) (scheduling_rows cx st cluster) = Inr as"
    and ss: "ss = map as_ServerID as"
    by (auto simp: scheduleTargets_def split: sum.splits dest: assigned_some)
  obtain lt where lt: "strategy_less (default_strategy (app_requirements app)) = Some lt" using schedule_known [OF s] by blast
  have r: "rq_Replicas (app_requirements app) = da_replicas app" by (simp add: app_requirements_def)
  show "0 < da_replicas app" "length ss = nat (da_replicas app)"
    using s [unfolded schedule_result [OF lt]] by (auto simp: ss r)
  have "distinct (map cd_ServerID (scheduling_rows cx st cluster))"
    using assms(1) rows_servers [of cx st cluster] by (metis mset_eq_imp_distinct_iff)
  then show "distinct ss" unfolding ss using schedule_distinct [OF _ s] by blast
  show "\<exists>m \<in> set (members_of st cluster). mb_server m = s \<and> can_host st app m" if "s \<in> set ss"
  proof -
    from that obtain a where "a \<in> set as" "s = as_ServerID a" by (auto simp: ss)
    with schedule_eligible [OF s] obtain c where "c \<in> set (scheduling_rows cx st cluster)"
      and c: "rejection (default_strategy (app_requirements app)) c = None" "s = cd_ServerID c" by force
    then obtain m where m: "m \<in> set (members_of st cluster)" "c = scheduler_candidate st m" by (auto simp: rows_members)
    with c show ?thesis by (intro bexI [of _ m]) (auto simp: can_host_def scheduler_candidate_def)
  qed
qed

text \<open>A server is a member of at most one cluster, and once (the key of \<open>cluster_members\<close>); identifiers of apps are unique.\<close>

definition store_ok :: "scale_store \<Rightarrow> bool" where
  "store_ok st = ((\<forall>c. distinct (map mb_server (members_of st c))) \<and> distinct (map da_id (ss_apps st)) \<and>
     (\<forall>a \<in> set (ss_apps st). app_row_ok a))"

text \<open>A deployment that runs the app at its configured size: one replica on each of as many servers that may host it.\<close>

definition placed_for :: "scale_store \<Rightarrow> string \<Rightarrow> db_app \<Rightarrow> deploy_row \<Rightarrow> bool" where
  "placed_for st cluster app d =
     (int (length (dp_targets d)) = da_replicas app \<and> distinct (map tg_server (dp_targets d)) \<and>
      (\<forall>t \<in> set (dp_targets d). tg_status t = ''pending'' \<and>
         (\<exists>m \<in> set (members_of st cluster). mb_server m = tg_server t \<and> can_host st app m)))"

lemma can_host_online: "can_host st app m \<Longrightarrow> mb_status m = ''online''"
  by (auto simp: can_host_def rejection_def scheduler_candidate_def split: if_splits)

lemma can_host_pinned: "can_host st app m \<Longrightarrow> da_placement_strategy app = ''pinned'' \<Longrightarrow> mb_server m \<in> set (da_pinned_server_ids app)"
  by (auto simp: can_host_def rejection_def scheduler_candidate_def default_strategy_def app_requirements_def pinned_get split: if_splits)

lemma trigger_refused:
  assumes "store_ok st" and "TriggerDeploy cx appID envID buildID None st = (st', Inl e)"
  shows "st' = st"
proof -
  have "create_targets ss [] = (map (\<lambda>s. \<lparr>tg_server = s, tg_status = ''pending''\<rparr>) ss, True)"
    if "deploy_targets cx st app cluster None = Inr ss" for ss app cluster
  proof -
    from that have "scheduleTargets cx st app cluster (members_of st cluster) = Inr ss"
      by (simp add: deploy_targets_def Let_def split: if_splits)
    moreover have "distinct (map mb_server (members_of st cluster))" using assms(1) by (simp add: store_ok_def)
    ultimately have "distinct ss" by (rule schedule_targets(3) [rotated])
    then show ?thesis using create_targets_distinct [of "[]" ss] by simp
  qed
  then show ?thesis using assms(2)
    by (auto simp: TriggerDeploy_def Let_def split: option.splits if_splits sum.splits)
qed

lemma trigger_placed:
  assumes "store_ok st" and "TriggerDeploy cx appID envID buildID None st = (st', Inr d)"
  obtains app cluster d' where "GetApp appID st = Some app" "obj_get (ss_clusters st) (da_project_id app) = Some cluster"
    "st' = st\<lparr>ss_deployments := ss_deployments st @ [d']\<rparr>" "placed_for st cluster app d'"
    "dp_id d' = dp_id d" "dp_app d' = appID" "dp_env d' = envID" "dp_build d' = buildID" "dp_status d' = ''deploying''"
proof -
  obtain app cluster ss where a: "GetApp appID st = Some app" and c: "obj_get (ss_clusters st) (da_project_id app) = Some cluster"
    and s: "deploy_targets cx st app cluster None = Inr ss"
    using assms(2) by (auto simp: TriggerDeploy_def split: option.splits if_splits sum.splits)
  have s': "scheduleTargets cx st app cluster (members_of st cluster) = Inr ss"
    using s by (simp add: deploy_targets_def Let_def split: if_splits)
  have m: "distinct (map mb_server (members_of st cluster))" using assms(1) by (simp add: store_ok_def)
  note p = schedule_targets [OF m s']
  let ?ts = "map (\<lambda>s. \<lparr>tg_server = s, tg_status = ''pending''\<rparr>) ss"
  have t: "create_targets ss [] = (?ts, True)" using create_targets_distinct [of "[]" ss] p(3) by simp
  have st: "st' = st\<lparr>ss_deployments := ss_deployments st @ [d\<lparr>dp_targets := ?ts, dp_status := ''deploying''\<rparr>]\<rparr>"
    and d: "dp_app d = appID" "dp_env d = envID" "dp_build d = buildID"
    using assms(2) by (auto simp: TriggerDeploy_def a c s t Let_def split: if_splits)
  have "placed_for st cluster app (d\<lparr>dp_targets := ?ts, dp_status := ''deploying''\<rparr>)"
    using p by (auto simp: placed_for_def comp_def)
  then show ?thesis using that [OF a c st] d by simp
qed

section \<open>What scaling stores and starts\<close>

lemma GetApp_facts:
  assumes "GetApp appID st = Some a"
  shows "a \<in> set (ss_apps st)" "da_id a = appID"
  using assms by (auto simp: GetApp_def find_Some_iff)

lemma find_mapped:
  "find P xs = Some a \<Longrightarrow> P b \<Longrightarrow> find P (map (\<lambda>x. if P x then b else x) xs) = Some b"
  by (induction xs) auto

definition scaled_row :: "scale_ctx \<Rightarrow> ScaleRequest \<Rightarrow> db_app \<Rightarrow> db_app" where
  "scaled_row cx rq a = a\<lparr>da_replicas := sq_Replicas rq, da_placement_strategy := sq_PlacementStrategy (scale_defaults a rq),
     da_placement_constraints := sq_PlacementConstraints rq, da_pinned_server_ids := sq_PinnedServerIDs rq, da_updated_at := sx_stamp cx\<rparr>"

definition with_row :: "db_app \<Rightarrow> scale_store \<Rightarrow> scale_store" where
  "with_row r st = st\<lparr>ss_apps := map (\<lambda>b. if da_id b = da_id r then r else b) (ss_apps st)\<rparr>"

lemma with_row_get: "GetApp appID st = Some a \<Longrightarrow> da_id r = appID \<Longrightarrow> GetApp appID (with_row r st) = Some r"
  unfolding GetApp_def with_row_def by (simp add: find_mapped)

lemma with_row_same [simp]:
  "members_of (with_row r st) = members_of st" "ss_clusters (with_row r st) = ss_clusters st"
  "ss_deployments (with_row r st) = ss_deployments st" "ss_events (with_row r st) = ss_events st"
  "ss_envs (with_row r st) = ss_envs st" "ss_rules (with_row r st) = ss_rules st" "ss_metrics (with_row r st) = ss_metrics st"
  "running_replicas (with_row r st) = running_replicas st" "ss_builds (with_row r st) = ss_builds st"
  by (simp_all add: with_row_def members_of_def [abs_def] running_replicas_def [abs_def])

lemma with_row_host [simp]: "can_host (with_row r st) = can_host st" "placed_for (with_row r st) = placed_for st"
  by (simp_all add: can_host_def [abs_def] placed_for_def [abs_def] scheduler_candidate_def)

lemma with_row_ok: "store_ok st \<Longrightarrow> app_row_ok r \<Longrightarrow> store_ok (with_row r st)"
proof -
  assume "store_ok st" "app_row_ok r"
  moreover have "map da_id (map (\<lambda>b. if da_id b = da_id r then r else b) as) = map da_id as" for as by (induction as) auto
  ultimately show ?thesis unfolding store_ok_def with_row_same(1) unfolding with_row_def by (auto simp del: map_map)
qed

lemma scale_refuses_count: "sq_Replicas rq \<le> 0 \<Longrightarrow> GetApp appID st = Some a \<Longrightarrow> deploy_ScaleApp cx appID rq st = (st, Inl ''replicas must be greater than zero'')"
  by (simp add: deploy_ScaleApp_def)

text \<open>
  A scaling with a positive count and a known strategy first stores the settings; only then does it look for the
  environment and start the deployment, whose failure it passes on.
\<close>

lemma scaled_row_ok:
  assumes "store_ok st" and "GetApp appID st = Some a"
    and "sq_PlacementStrategy (scale_defaults a rq) \<in> {''spread'', ''binpack'', ''pinned''}"
  shows "app_row_ok (scaled_row cx rq a)"
  using assms(1,3) GetApp_facts [OF assms(2)] by (auto simp: app_row_ok_def scaled_row_def store_ok_def)

lemma scale_stores:
  assumes "store_ok st" and "GetApp appID st = Some a" and "0 < sq_Replicas rq"
    and "sq_PlacementStrategy (scale_defaults a rq) \<in> {''spread'', ''binpack'', ''pinned''}"
  shows "deploy_ScaleApp cx appID rq st =
      (let st1 = with_row (scaled_row cx rq a) st in
       case productionEnvironment cx (da_project_id a) st1 of
         Inl e \<Rightarrow> (st1, Inl e)
       | Inr envID \<Rightarrow>
           (case scale_deploy cx appID envID (da_replicas a) (sq_Replicas rq) st1 of
              (st2, Inl e) \<Rightarrow> (st2, Inl e)
            | (st2, Inr (deployment, message)) \<Rightarrow>
                (let ev = scaling_event cx appID envID deployment (scale_defaults a rq) (da_replicas a) message st2
                 in (st2\<lparr>ss_events := ss_events st2 @ [ev]\<rparr>,
                     Inr \<lparr>so_App = scaled_row cx rq a, so_Event = ev, so_Deployment = deployment\<rparr>))))"
proof -
  have d: "sq_Replicas (scale_defaults a rq) = sq_Replicas rq" "sq_PlacementConstraints (scale_defaults a rq) = sq_PlacementConstraints rq"
    "sq_PinnedServerIDs (scale_defaults a rq) = sq_PinnedServerIDs rq" by (simp_all add: scale_defaults_def)
  have f: "find (\<lambda>a. da_id a = appID) (ss_apps st) = Some a" using assms(2) by (simp add: GetApp_def)
  have u: "UpdateAppScaling (sx_stamp cx) appID (sq_Replicas rq) (sq_PlacementStrategy (scale_defaults a rq)) (sq_PlacementConstraints rq)
      (sq_PinnedServerIDs rq) (ss_apps st) = Some (ss_apps (with_row (scaled_row cx rq a) st), scaled_row cx rq a)"
    using scaled_row_ok [OF assms(1,2,4), of cx] GetApp_facts(2) [OF assms(2)]
    by (simp add: UpdateAppScaling_def f checked_def scaled_row_def with_row_def)
  have w: "st\<lparr>ss_apps := ss_apps (with_row r st)\<rparr> = with_row r st" for r by (simp add: with_row_def)
  have i: "da_project_id (scaled_row cx rq a) = da_project_id a" by (simp add: scaled_row_def)
  show ?thesis
    using assms(3,4) unfolding deploy_ScaleApp_def assms(2) option.case Let_def d u prod.case w i by simp
qed

text \<open>What a scaling leaves behind: on failure the stored settings and nothing else, on success also the event and the deployment.\<close>

definition scale_result_ok :: "scale_store \<Rightarrow> scale_store \<Rightarrow> string \<Rightarrow> db_app \<Rightarrow> db_app \<Rightarrow> scale_outcome \<Rightarrow> bool" where
  "scale_result_ok st st' appID a a' out =
     (so_App out = a' \<and> ss_events st' = ss_events st @ [so_Event out] \<and>
      ScalingEvent_from_replicas (so_Event out) = da_replicas a \<and> ScalingEvent_to_replicas (so_Event out) = da_replicas a' \<and>
      (case so_Deployment out of
         None \<Rightarrow> ss_deployments st' = ss_deployments st
       | Some d \<Rightarrow> \<exists>cluster d'. obj_get (ss_clusters st) (da_project_id a') = Some cluster \<and> placed_for st cluster a' d' \<and>
           dp_id d' = dp_id d \<and> dp_app d' = appID \<and> ss_deployments st' = ss_deployments st @ [d']))"

lemma scale_deploy_refused:
  "store_ok st \<Longrightarrow> scale_deploy cx appID envID m n st = (st', Inl e) \<Longrightarrow> st' = st"
  by (auto simp: scale_deploy_def split: option.splits prod.splits sum.splits dest: trigger_refused)

lemma scale_deploy_placed:
  assumes "store_ok st" and "scale_deploy cx appID envID m n st = (st', Inr (dep, msg))" and "GetApp appID st = Some a"
  shows "ss_apps st' = ss_apps st" and "ss_events st' = ss_events st"
    and "case dep of
        None \<Rightarrow> ss_deployments st' = ss_deployments st
      | Some d \<Rightarrow> \<exists>cluster d'. obj_get (ss_clusters st) (da_project_id a) = Some cluster \<and> placed_for st cluster a d' \<and>
          dp_id d' = dp_id d \<and> dp_app d' = appID \<and> ss_deployments st' = ss_deployments st @ [d']"
proof -
  have "ss_apps st' = ss_apps st \<and> ss_events st' = ss_events st \<and>
     (case dep of
        None \<Rightarrow> ss_deployments st' = ss_deployments st
      | Some d \<Rightarrow> \<exists>cluster d'. obj_get (ss_clusters st) (da_project_id a) = Some cluster \<and> placed_for st cluster a d' \<and>
          dp_id d' = dp_id d \<and> dp_app d' = appID \<and> ss_deployments st' = ss_deployments st @ [d'])"
  proof (cases dep)
    case None
    with assms(2) show ?thesis by (auto simp: scale_deploy_def split: option.splits prod.splits sum.splits)
  next
    case (Some d)
    with assms(2) obtain b where "TriggerDeploy cx appID envID b None st = (st', Inr d)"
      by (auto simp: scale_deploy_def split: option.splits prod.splits sum.splits)
    from trigger_placed [OF assms(1) this] obtain app cluster d' where "GetApp appID st = Some app"
      "obj_get (ss_clusters st) (da_project_id app) = Some cluster" "st' = st\<lparr>ss_deployments := ss_deployments st @ [d']\<rparr>"
      "placed_for st cluster app d'" "dp_id d' = dp_id d" "dp_app d' = appID" by metis
    then show ?thesis using assms(3) by (simp add: Some)
  qed
  then show "ss_apps st' = ss_apps st" and "ss_events st' = ss_events st"
    and "case dep of
        None \<Rightarrow> ss_deployments st' = ss_deployments st
      | Some d \<Rightarrow> \<exists>cluster d'. obj_get (ss_clusters st) (da_project_id a) = Some cluster \<and> placed_for st cluster a d' \<and>
          dp_id d' = dp_id d \<and> dp_app d' = appID \<and> ss_deployments st' = ss_deployments st @ [d']"
    by blast+
qed

lemma scale_effect:
  assumes "store_ok st" and "GetApp appID st = Some a" and "0 < sq_Replicas rq"
    and "sq_PlacementStrategy (scale_defaults a rq) \<in> {''spread'', ''binpack'', ''pinned''}"
    and run: "deploy_ScaleApp cx appID rq st = (st', r)"
  shows "GetApp appID st' = Some (scaled_row cx rq a) \<and>
    (case r of
       Inl e \<Rightarrow> st' = with_row (scaled_row cx rq a) st
     | Inr out \<Rightarrow> scale_result_ok st st' appID a (scaled_row cx rq a) out)"
proof -
  let ?r = "scaled_row cx rq a" and ?st1 = "with_row (scaled_row cx rq a) st"
  have ok: "store_ok ?st1" by (rule with_row_ok [OF assms(1) scaled_row_ok [OF assms(1,2,4)]])
  have id: "da_id ?r = appID" using GetApp_facts(2) [OF assms(2)] by (simp add: scaled_row_def)
  have g: "GetApp appID ?st1 = Some ?r" by (rule with_row_get [OF assms(2) id])
  note run' = run [unfolded scale_stores [OF assms(1-4)] Let_def]
  show ?thesis
  proof (cases "productionEnvironment cx (da_project_id a) ?st1")
    case (Inl e)
    with run' g show ?thesis by auto
  next
    case (Inr envID)
    show ?thesis
    proof (cases "scale_deploy cx appID envID (da_replicas a) (sq_Replicas rq) ?st1")
      case (Pair st2 q)
      show ?thesis
      proof (cases q)
        case (Inl e)
        with Pair have "st2 = ?st1" using scale_deploy_refused [OF ok] by blast
        with run' \<open>productionEnvironment _ _ _ = _\<close> Pair Inl g show ?thesis by auto
      next
        case (Inr res)
        obtain dep msg where res: "res = (dep, msg)" by (cases res)
        note placed = scale_deploy_placed [OF ok Pair [unfolded Inr res] g]
        have st': "st' = st2\<lparr>ss_events := ss_events st2 @ [scaling_event cx appID envID dep (scale_defaults a rq) (da_replicas a) msg st2]\<rparr>"
          and r: "r = Inr \<lparr>so_App = ?r, so_Event = scaling_event cx appID envID dep (scale_defaults a rq) (da_replicas a) msg st2,
                           so_Deployment = dep\<rparr>"
          using run' \<open>productionEnvironment _ _ _ = _\<close> Pair Inr res by auto
        have "GetApp appID st' = Some ?r" using g placed(1) by (simp add: GetApp_def st')
        moreover have "scale_result_ok st st' appID a ?r (projr r)"
          using placed by (cases dep) (auto simp: scale_result_ok_def r st' scaling_event_def scale_defaults_def scaled_row_def)
        ultimately show ?thesis by (simp add: r)
      qed
    qed
  qed
qed

section \<open>From the scale form to the servers\<close>

definition form_ok :: "App \<Rightarrow> scale_form \<Rightarrow> bool" where
  "form_ok app f = (scale_ok app f \<and> (initialStrategy app \<in> {Spread, Binpack, Pinned} \<longrightarrow> sf_strategy f \<in> {Spread, Binpack, Pinned}))"

interpretation scale_sends: request_machine "scale_step app" "form_ok app"
  "\<lambda>f ep. ep = scale_request app f \<and> scale_dirty app f \<and> \<not> needsPinnedSelection f" for app
proof
  fix f e ep
  assume ok: "form_ok app f"
  have "scale_ok app (fst (scale_step app f e))" by (rule scale_run.inv_event) (use ok in \<open>simp add: form_ok_def\<close>)
  with ok show "form_ok app (fst (scale_step app f e))" by (cases e) (auto simp: form_ok_def)
  show "snd (scale_step app f e) = Some ep \<Longrightarrow> ep = scale_request app f \<and> scale_dirty app f \<and> \<not> needsPinnedSelection f"
    by (cases e) (auto split: if_splits)
qed

lemma scale_body:
  "fa_body (call_args (scale_request app f)) = Some (JObj ([(''replicas'', jint (sf_replicas f)),
     (''placement_strategy'', JStr (strategy_str (sf_strategy f)))] @
     (if sf_strategy f = Pinned then [(''pinned_server_ids'', jstrs (sf_pinned f))] else [])))"
proof -
  have w: "wire (jint n) = jint n" "jint n \<noteq> JUndefined" "wire (jstrs ss) = jstrs ss" "jstrs ss \<noteq> JUndefined" for n ss
    by (simp_all add: jint_def jstrs_def comp_def)
  show ?thesis
    by (simp add: wire_body scale_request_def appsApi_scale_def api_verbs ScaleInput_js_def jstr_opt_def jstrs_opt_def w)
qed

lemma parse_strings_valid: "list_all (\<lambda>i. i \<noteq> [] \<and> uuid i) ids \<Longrightarrow> parseUUIDStrings uuid ids = Some ids"
  by (simp add: parseUUIDStrings_def Let_def list_all_iff filter_id_conv)

text \<open>The scaling that the form asks for.\<close>

definition form_request :: "string \<Rightarrow> db_app \<Rightarrow> scale_form \<Rightarrow> ScaleRequest" where
  "form_request user a f =
        \<lparr>sq_Replicas = sf_replicas f, sq_PlacementStrategy = strategy_str (sf_strategy f),
         sq_PlacementConstraints = da_placement_constraints a,
         sq_PinnedServerIDs = (if sf_strategy f = Pinned then sf_pinned f else da_pinned_server_ids a), sq_ActorID = Some user,
         sq_ActorType = ''user'', sq_EventType = [], sq_MetricName = None, sq_MetricValue = None, sq_RuleName = None\<rparr>"

lemma handler_scales:
  assumes "GetApp (App_id app) st = Some a" and "uuid (App_id app)" and "int32 (sf_replicas f)" and "1 \<le> sf_replicas f"
    and "strategy_str (sf_strategy f) \<noteq> []" and "sf_strategy f = Pinned \<longrightarrow> list_all (\<lambda>i. i \<noteq> [] \<and> uuid i) (sf_pinned f)"
  shows "DeployHandler_ScaleApp uuid cx user (App_id app) (fa_body (call_args (scale_request app f))) st =
    (case deploy_ScaleApp cx (App_id app) (form_request user a f) st of
       (st', Inl e) \<Rightarrow> (st', Inl (400, e)) | (st', Inr r) \<Rightarrow> (st', Inr r))"
proof -
  define b where "b = JObj ([(''replicas'', jint (sf_replicas f)), (''placement_strategy'', JStr (strategy_str (sf_strategy f)))] @
      (if sf_strategy f = Pinned then [(''pinned_server_ids'', jstrs (sf_pinned f))] else []))"
  have dec: "DecodeJSON uuid scaleAppRequest (Some b)"
    using assms(3) by (auto simp: b_def DecodeJSON_def scaleAppRequest_def go_field_def)
  have v: "go_int b ''replicas'' = sf_replicas f" "go_str b ''placement_strategy'' = strategy_str (sf_strategy f)"
    "go_strs b ''pinned_server_ids'' = (if sf_strategy f = Pinned then Some (sf_pinned f) else None)"
    "go_member b ''placement_constraints'' = JNull"
    by (simp_all add: b_def go_defs toLowerCase_def)
  have c: "request_constraints b pc = pc" for pc
    by (simp add: request_constraints_def v(4)) (simp add: go_defs)
  have p: "(case go_strs b ''pinned_server_ids'' of None \<Rightarrow> Some (da_pinned_server_ids a) | Some vs \<Rightarrow> parseUUIDStrings uuid vs) =
      Some (if sf_strategy f = Pinned then sf_pinned f else da_pinned_server_ids a)"
    using assms(6) by (simp add: v(3) parse_strings_valid)
  show ?thesis
    unfolding scale_body b_def [symmetric] DeployHandler_ScaleApp_def assms(1) option.case option.sel Let_def p v(1,2) c
    using assms(2,4,5) dec by (simp add: form_request_def)
qed


definition sample_member :: "string \<Rightarrow> member_row" where
  "sample_member n = \<lparr>mb_server = n, mb_name = n, mb_status = ''online'', mb_cpu_cores = None, mb_memory_available = None, mb_tags = []\<rparr>"

definition sample_ctx :: scale_ctx where
  "sample_ctx = \<lparr>sx_collate = (\<lambda>_ _. 0), sx_ids = (\<lambda>t n. t), sx_now = 1000, sx_stamp = ''t1'', sx_dberr = ''error''\<rparr>"

definition sample_store :: "string list \<Rightarrow> scale_store" where
  "sample_store servers =
     \<lparr>ss_apps = [sample_row\<lparr>da_id := ''app''\<rparr>], ss_clusters = [(''p1'', ''k1'')], ss_members = [(''k1'', map sample_member servers)],
      ss_envs = [\<lparr>Environment_id = ''e1'', Environment_project_id = ''p1'', Environment_name = ''prod'', Environment_slug = ''prod'',
                   Environment_is_production = True, Environment_created_at = ''t0''\<rparr>],
      ss_builds = [''b1''],
      ss_deployments = [\<lparr>dp_id = ''d1'', dp_app = ''app'', dp_env = ''e1'', dp_build = ''b1'', dp_status = ''healthy'',
                         dp_replicas_desired = 1, dp_targets = [\<lparr>tg_server = ''a'', tg_status = ''healthy''\<rparr>]\<rparr>],
      ss_metrics = [(''a'', \<lparr>mt_cpu_percent = 90, mt_memory_total = 100, mt_memory_used = 50, mt_updated = 990\<rparr>)],
      ss_rules = [], ss_events = []\<rparr>"

lemma sample_store_ok: "distinct servers \<Longrightarrow> store_ok (sample_store servers)"
proof -
  assume "distinct servers"
  then have "distinct (map mb_server (members_of (sample_store servers) c))" for c
    by (simp add: members_of_def sample_store_def obj_get_def sample_member_def comp_def)
  then show ?thesis by (simp add: store_ok_def sample_store_def sample_row_def app_row_ok_def builders_def)
qed

definition two_replicas :: scale_form where
  "two_replicas = (scale_init (sample_app 1))\<lparr>sf_replicas := 2\<rparr>"

lemma two_replicas_sent:
  "(two_replicas, scale_request (sample_app 1) two_replicas) \<in> set (emitted (scale_step (sample_app 1)) (scale_init (sample_app 1)) [SIncrement, SSubmit])"
  by (simp add: two_replicas_def scale_init_def sample_app_def initialReplicas_def initialStrategy_def scale_dirty_def
      needsPinnedSelection_def willScaleDown_def)


end
