(* ===== verification/Autoscaler.thy ===== *)
theory Autoscaler
  imports Scale_Store
begin

text \<open>
  The autoscaler of the API (\<open>internal/deploy/service.go\<close>, \<open>internal/api/handler/deploy.go\<close>): how a rule is created,
  what an evaluation of an app's rules does to the tables, and the loop that evaluates every app. Metric values and
  thresholds are rational numbers.
\<close>

section \<open>Rules\<close>

text \<open>The CHECK constraints of the table.\<close>

definition rule_row_ok :: "rule_row \<Rightarrow> bool" where
  "rule_row_ok r = (ru_comparison r \<in> {''gt'', ''gte'', ''lt'', ''lte''} \<and> ru_action_type r \<in> {''scale_by'', ''scale_to''})"

definition str_default :: "string \<Rightarrow> string \<Rightarrow> string" where
  "str_default s d = (if s = [] then d else s)"

definition int_default :: "int \<Rightarrow> int \<Rightarrow> int" where
  "int_default n d = (if n = 0 then d else n)"

definition DeployHandler_CreateAutoscalingRule ::
    "(string \<Rightarrow> bool) \<Rightarrow> scale_ctx \<Rightarrow> string \<Rightarrow> js option \<Rightarrow> scale_store \<Rightarrow> scale_store \<times> rule_row reply" where
  "DeployHandler_CreateAutoscalingRule uuid cx appID body st =
     (if \<not> uuid appID then (st, Inl (400, ''invalid app ID''))
      else if \<not> DecodeJSON uuid createAutoscalingRuleRequest body then (st, Inl (400, ''invalid request body''))
      else let b = the body;
               r = \<lparr>ru_id = sx_ids cx ''autoscaling_rules'' (length (ss_rules st)), ru_app = appID,
                    ru_name = str_default (go_str b ''name'') ''CPU autoscale'',
                    ru_metric_name = str_default (go_str b ''metric_name'') ''cpu_percent'',
                    ru_comparison = str_default (go_str b ''comparison'') ''gt'', ru_threshold = go_float b ''threshold'',
                    ru_duration_seconds = int_default (go_int b ''duration_seconds'') 120,
                    ru_action_type = str_default (go_str b ''action_type'') ''scale_by'',
                    ru_action_value = int_default (go_int b ''action_value'') 1,
                    ru_min_replicas = int_default (go_int b ''min_replicas'') 1,
                    ru_max_replicas = int_default (go_int b ''max_replicas'') 10,
                    ru_cooldown_up = int_default (go_int b ''cooldown_up_seconds'') 60,
                    ru_cooldown_down = int_default (go_int b ''cooldown_down_seconds'') 300,
                    ru_enabled = (case go_bool_ptr b ''enabled'' of Some v \<Rightarrow> v | None \<Rightarrow> True), ru_last_triggered = None\<rparr>
           in if GetApp appID st = None \<or> \<not> rule_row_ok r then (st, Inl (400, sx_dberr cx))
              else (st\<lparr>ss_rules := ss_rules st @ [r]\<rparr>, Inr r))"

definition DeployHandler_ListAutoscalingRules :: "(string \<Rightarrow> bool) \<Rightarrow> string \<Rightarrow> scale_store \<Rightarrow> rule_row list reply" where
  "DeployHandler_ListAutoscalingRules uuid appID st =
     (if \<not> uuid appID then Inl (400, ''invalid app ID'')
      else Inr (rev (filter (\<lambda>r. ru_app r = appID) (ss_rules st))))"

text \<open>Deleting answers 204 whether or not there was such a rule.\<close>

definition DeployHandler_DeleteAutoscalingRule ::
    "(string \<Rightarrow> bool) \<Rightarrow> string \<Rightarrow> string \<Rightarrow> scale_store \<Rightarrow> scale_store \<times> unit reply" where
  "DeployHandler_DeleteAutoscalingRule uuid appID ruleID st =
     (if \<not> uuid appID then (st, Inl (400, ''invalid app ID''))
      else if \<not> uuid ruleID then (st, Inl (400, ''invalid rule ID''))
      else (st\<lparr>ss_rules := filter (\<lambda>r. \<not> (ru_id r = ruleID \<and> ru_app r = appID)) (ss_rules st)\<rparr>, Inr ()))"

section \<open>Evaluation\<close>

record app_metrics =
  am_cpu_percent :: rat
  am_memory_percent :: rat
  am_sample_count :: nat

definition avg :: "rat list \<Rightarrow> rat" where
  "avg xs = (if xs = [] then 0 else sum_list xs / of_nat (length xs))"

definition memory_percent :: "metric_row \<Rightarrow> rat" where
  "memory_percent m = (if mt_memory_total m > 0 then of_int (mt_memory_used m) / of_int (mt_memory_total m) * 100 else 0)"

definition metric_samples :: "scale_ctx \<Rightarrow> string \<Rightarrow> scale_store \<Rightarrow> metric_row list" where
  "metric_samples cx appID st =
     filter (\<lambda>m. mt_updated m > sx_now cx - 120)
       (List.map_filter (\<lambda>t. obj_get (ss_metrics st) (tg_server t))
         (filter (\<lambda>t. tg_status t = ''healthy'')
           (concat (map dp_targets (filter (\<lambda>d. dp_app d = appID \<and> dp_status d = ''healthy'') (ss_deployments st))))))"

definition GetAverageMetricsForApp :: "scale_ctx \<Rightarrow> string \<Rightarrow> scale_store \<Rightarrow> app_metrics" where
  "GetAverageMetricsForApp cx appID st =
     (let ms = metric_samples cx appID st in
      \<lparr>am_cpu_percent = avg (map mt_cpu_percent ms), am_memory_percent = avg (map memory_percent ms), am_sample_count = length ms\<rparr>)"

definition metricValue :: "string \<Rightarrow> app_metrics \<Rightarrow> rat \<times> bool" where
  "metricValue name m =
     (if name = ''cpu_percent'' then (am_cpu_percent m, True)
      else if name = ''memory_percent'' then (am_memory_percent m, True) else (0, False))"

definition comparisonMatches :: "rat \<Rightarrow> string \<Rightarrow> rat \<Rightarrow> bool" where
  "comparisonMatches v comparison threshold =
     (if comparison = ''gt'' then v > threshold else if comparison = ''gte'' then v \<ge> threshold
      else if comparison = ''lt'' then v < threshold else if comparison = ''lte'' then v \<le> threshold else False)"

definition autoscaleTarget :: "int \<Rightarrow> rule_row \<Rightarrow> int" where
  "autoscaleTarget current r =
     (let t0 = (if ru_action_type r = ''scale_to'' then ru_action_value r else int32_of (current + ru_action_value r));
          t1 = (if t0 < ru_min_replicas r then ru_min_replicas r else t0)
      in if t1 > ru_max_replicas r then ru_max_replicas r else t1)"

definition cooling :: "scale_ctx \<Rightarrow> rule_row \<Rightarrow> int \<Rightarrow> int \<Rightarrow> bool" where
  "cooling cx r current target =
     (case ru_last_triggered r of
        None \<Rightarrow> False
      | Some t \<Rightarrow> sx_now cx - t < (if target < current then ru_cooldown_down r else ru_cooldown_up r))"

definition rule_evaluation :: "rule_row \<Rightarrow> app_metrics \<Rightarrow> AutoscaleEvaluation" where
  "rule_evaluation r m =
     \<lparr>AutoscaleEvaluation_rule_id = ru_id r, AutoscaleEvaluation_rule_name = ru_name r, AutoscaleEvaluation_metric_name = ru_metric_name r,
      AutoscaleEvaluation_metric_value = fst (metricValue (ru_metric_name r) m), AutoscaleEvaluation_triggered = False,
      AutoscaleEvaluation_message = [], AutoscaleEvaluation_event = None\<rparr>"

definition autoscale_request :: "db_app \<Rightarrow> int \<Rightarrow> rule_row \<Rightarrow> app_metrics \<Rightarrow> ScaleRequest" where
  "autoscale_request app target r m =
     \<lparr>sq_Replicas = target, sq_PlacementStrategy = da_placement_strategy app, sq_PlacementConstraints = da_placement_constraints app,
      sq_PinnedServerIDs = da_pinned_server_ids app, sq_ActorID = None, sq_ActorType = ''autoscaler'', sq_EventType = ''autoscale'',
      sq_MetricName = Some (ru_metric_name r), sq_MetricValue = Some (fst (metricValue (ru_metric_name r) m)), sq_RuleName = Some (ru_name r)\<rparr>"

definition MarkAutoscalingRuleTriggered :: "int \<Rightarrow> string \<Rightarrow> scale_store \<Rightarrow> scale_store" where
  "MarkAutoscalingRuleTriggered now ruleID st =
     st\<lparr>ss_rules := map (\<lambda>r. if ru_id r = ruleID then r\<lparr>ru_last_triggered := Some now\<rparr> else r) (ss_rules st)\<rparr>"

text \<open>
  One turn of the loop: the tables, the loop's copy of the replica count and the result for the rule. \<open>app\<close> is the row
  loaded at the start; of it only the copy of the count changes.
\<close>

definition evaluate_rule ::
    "scale_ctx \<Rightarrow> db_app \<Rightarrow> app_metrics \<Rightarrow> rule_row \<Rightarrow> int \<Rightarrow> scale_store \<Rightarrow> scale_store \<times> int \<times> AutoscaleEvaluation" where
  "evaluate_rule cx app m r replicas st =
     (let ev = rule_evaluation r m; (v, known) = metricValue (ru_metric_name r) m; target = autoscaleTarget replicas r in
      if \<not> known \<or> am_sample_count m = 0 then
        (st, replicas, ev\<lparr>AutoscaleEvaluation_message := ''waiting for fresh agent metrics''\<rparr>)
      else if \<not> comparisonMatches v (ru_comparison r) (ru_threshold r) then
        (st, replicas, ev\<lparr>AutoscaleEvaluation_message := ''condition not met''\<rparr>)
      else if target = replicas then (st, replicas, ev\<lparr>AutoscaleEvaluation_message := ''already at scaling bound''\<rparr>)
      else if cooling cx r replicas target then (st, replicas, ev\<lparr>AutoscaleEvaluation_message := ''cooldown active''\<rparr>)
      else case deploy_ScaleApp cx (da_id app) (autoscale_request app target r m) st of
        (st', Inl e) \<Rightarrow> (st', replicas, ev\<lparr>AutoscaleEvaluation_message := e\<rparr>)
      | (st', Inr out) \<Rightarrow>
          (MarkAutoscalingRuleTriggered (sx_now cx) (ru_id r) st', target,
           ev\<lparr>AutoscaleEvaluation_triggered := True, AutoscaleEvaluation_event := Some (so_Event out),
              AutoscaleEvaluation_message := ''scaled from '' @ show_int replicas @ '' to '' @ show_int target\<rparr>))"

fun evaluate_rules ::
    "scale_ctx \<Rightarrow> db_app \<Rightarrow> app_metrics \<Rightarrow> rule_row list \<Rightarrow> int \<Rightarrow> scale_store \<Rightarrow> scale_store \<times> AutoscaleEvaluation list" where
  "evaluate_rules cx app m [] replicas st = (st, [])"
| "evaluate_rules cx app m (r # rs) replicas st =
     (case evaluate_rule cx app m r replicas st of
        (st', replicas', ev) \<Rightarrow> (case evaluate_rules cx app m rs replicas' st' of (st'', evs) \<Rightarrow> (st'', ev # evs)))"

definition ListEnabledAutoscalingRulesByApp :: "string \<Rightarrow> scale_store \<Rightarrow> rule_row list" where
  "ListEnabledAutoscalingRulesByApp appID st = filter (\<lambda>r. ru_app r = appID \<and> ru_enabled r) (ss_rules st)"

definition EvaluateAutoscaling :: "scale_ctx \<Rightarrow> string \<Rightarrow> scale_store \<Rightarrow> scale_store \<times> (string + AutoscaleEvaluation list)" where
  "EvaluateAutoscaling cx appID st =
     (case GetApp appID st of
        None \<Rightarrow> (st, Inl ''get app: no rows in result set'')
      | Some app \<Rightarrow>
          (case evaluate_rules cx app (GetAverageMetricsForApp cx appID st) (ListEnabledAutoscalingRulesByApp appID st) (da_replicas app) st of
             (st', evs) \<Rightarrow> (st', Inr evs)))"

definition DeployHandler_EvaluateAutoscaling ::
    "(string \<Rightarrow> bool) \<Rightarrow> scale_ctx \<Rightarrow> string \<Rightarrow> scale_store \<Rightarrow> scale_store \<times> AutoscaleEvaluation list reply" where
  "DeployHandler_EvaluateAutoscaling uuid cx appID st =
     (if \<not> uuid appID then (st, Inl (400, ''invalid app ID''))
      else case EvaluateAutoscaling cx appID st of (st', Inl e) \<Rightarrow> (st', Inl (400, e)) | (st', Inr evs) \<Rightarrow> (st', Inr evs))"

text \<open>One tick of the loop, every app with an enabled rule in the order of its identifier.\<close>

definition autoscaler_tick :: "scale_ctx \<Rightarrow> scale_store \<Rightarrow> scale_store" where
  "autoscaler_tick cx st =
     foldl (\<lambda>s appID. fst (EvaluateAutoscaling cx appID s)) st (sort (remdups (map ru_app (filter ru_enabled (ss_rules st)))))"

section \<open>Scaling leaves the rest of the tables alone\<close>

lemma same_deployments [simp]: "\<exists>ds. st = st\<lparr>ss_deployments := ds\<rparr>" for st :: scale_store
  by (rule exI [of _ "ss_deployments st"]) simp

lemma trigger_frame: "\<exists>ds. fst (TriggerDeploy cx appID envID b sp st) = st\<lparr>ss_deployments := ds\<rparr>"
  unfolding TriggerDeploy_def Let_def by (auto split: option.split sum.split prod.split bool.split)

lemma scale_deploy_frame: "\<exists>ds. fst (scale_deploy cx appID envID m n st) = st\<lparr>ss_deployments := ds\<rparr>"
proof (cases "GetLastHealthyDeployment appID envID st")
  case None
  then show ?thesis by (simp add: scale_deploy_def)
next
  case (Some d)
  obtain st' q where q: "TriggerDeploy cx appID envID (dp_build d) None st = (st', q)" by (rule prod.exhaust)
  have "fst (scale_deploy cx appID envID m n st) = st'" by (cases q) (simp_all add: scale_deploy_def Some q)
  then show ?thesis using trigger_frame [of cx appID envID "dp_build d" None st] q by simp
qed

lemma scale_frame:
  assumes "store_ok st" and "GetApp appID st = Some a" and "0 < sq_Replicas rq"
    and "sq_PlacementStrategy (scale_defaults a rq) \<in> {''spread'', ''binpack'', ''pinned''}"
    and run: "deploy_ScaleApp cx appID rq st = (st', r)"
  shows "store_ok st'" and "ss_rules st' = ss_rules st"
proof -
  let ?st1 = "with_row (scaled_row cx rq a) st"
  have "\<exists>ds es. st' = ?st1\<lparr>ss_deployments := ds, ss_events := es\<rparr>"
  proof (cases "productionEnvironment cx (da_project_id a) ?st1")
    case (Inl e)
    from run Inl have st': "st' = ?st1" unfolding scale_stores [OF assms(1-4)] Let_def by simp
    show ?thesis unfolding st' by (intro exI [of _ "ss_deployments ?st1"] exI [of _ "ss_events ?st1"]) simp
  next
    case (Inr envID)
    obtain st2 q where q: "scale_deploy cx appID envID (da_replicas a) (sq_Replicas rq) ?st1 = (st2, q)" by (rule prod.exhaust)
    obtain ds where ds: "st2 = ?st1\<lparr>ss_deployments := ds\<rparr>"
      using scale_deploy_frame [of cx appID envID "da_replicas a" "sq_Replicas rq" ?st1] q by auto
    have st2: "st2 = st2\<lparr>ss_events := ss_events st2\<rparr>" by simp
    have "st' = st2 \<or> (\<exists>es. st' = st2\<lparr>ss_events := es\<rparr>)"
      using run unfolding scale_stores [OF assms(1-4)] Let_def Inr sum.case q by (cases q) auto
    then have "\<exists>es. st' = st2\<lparr>ss_events := es\<rparr>" using st2 by metis
    then show ?thesis unfolding ds by blast
  qed
  then obtain ds es where st': "st' = ?st1\<lparr>ss_deployments := ds, ss_events := es\<rparr>" by blast
  have "store_ok (s\<lparr>ss_deployments := ds, ss_events := es\<rparr>) = store_ok s" for s by (simp add: store_ok_def members_of_def)
  then show "store_ok st'" unfolding st' using with_row_ok [OF assms(1) scaled_row_ok [OF assms(1,2,4)]] by simp
  show "ss_rules st' = ss_rules st" by (simp add: st')
qed

lemma mark_same [simp]:
  "GetApp appID (MarkAutoscalingRuleTriggered now i st) = GetApp appID st" "store_ok (MarkAutoscalingRuleTriggered now i st) = store_ok st"
  by (simp_all add: MarkAutoscalingRuleTriggered_def GetApp_def store_ok_def members_of_def)

section \<open>An evaluation stays within the bounds of the rules\<close>

definition rule_bounds :: "rule_row \<Rightarrow> bool" where
  "rule_bounds r = (1 \<le> ru_min_replicas r \<and> ru_min_replicas r \<le> ru_max_replicas r)"

lemma target_bounds: "rule_bounds r \<Longrightarrow> ru_min_replicas r \<le> autoscaleTarget n r \<and> autoscaleTarget n r \<le> ru_max_replicas r"
  by (auto simp: rule_bounds_def autoscaleTarget_def Let_def)

text \<open>The rule's condition holds on fresh samples of a metric the evaluator knows.\<close>

definition breached :: "app_metrics \<Rightarrow> rule_row \<Rightarrow> bool" where
  "breached m r = (snd (metricValue (ru_metric_name r) m) \<and> am_sample_count m > 0 \<and>
     comparisonMatches (fst (metricValue (ru_metric_name r) m)) (ru_comparison r) (ru_threshold r))"

text \<open>A result that says it scaled is due to its rule.\<close>

definition justified :: "scale_ctx \<Rightarrow> app_metrics \<Rightarrow> rule_row \<Rightarrow> AutoscaleEvaluation \<Rightarrow> bool" where
  "justified cx m r ev =
     (AutoscaleEvaluation_rule_id ev = ru_id r \<and> breached m r \<and>
      (\<exists>n se. AutoscaleEvaluation_event ev = Some se \<and> ScalingEvent_to_replicas se = autoscaleTarget n r \<and> autoscaleTarget n r \<noteq> n \<and>
         \<not> cooling cx r n (autoscaleTarget n r) \<and>
         ru_min_replicas r \<le> ScalingEvent_to_replicas se \<and> ScalingEvent_to_replicas se \<le> ru_max_replicas r))"

lemma evaluate_rule_cases:
  assumes "evaluate_rule cx app m r n st = (st', n', ev)"
  obtains (quiet) "st' = st" "n' = n" "\<not> AutoscaleEvaluation_triggered ev"
  | (failed) e where "breached m r" "deploy_ScaleApp cx (da_id app) (autoscale_request app (autoscaleTarget n r) r m) st = (st', Inl e)"
      "n' = n" "\<not> AutoscaleEvaluation_triggered ev"
  | (scaled) st1 out where "breached m r" "autoscaleTarget n r \<noteq> n" "\<not> cooling cx r n (autoscaleTarget n r)"
      "deploy_ScaleApp cx (da_id app) (autoscale_request app (autoscaleTarget n r) r m) st = (st1, Inr out)"
      "st' = MarkAutoscalingRuleTriggered (sx_now cx) (ru_id r) st1" "n' = autoscaleTarget n r"
      "AutoscaleEvaluation_triggered ev" "AutoscaleEvaluation_event ev = Some (so_Event out)" "AutoscaleEvaluation_rule_id ev = ru_id r"
proof -
  obtain v known where v: "metricValue (ru_metric_name r) m = (v, known)" by (rule prod.exhaust)
  obtain st1 q where q: "deploy_ScaleApp cx (da_id app) (autoscale_request app (autoscaleTarget n r) r m) st = (st1, q)" by (rule prod.exhaust)
  have t: "\<not> AutoscaleEvaluation_triggered (rule_evaluation r m)" "AutoscaleEvaluation_rule_id (rule_evaluation r m) = ru_id r"
    by (simp_all add: rule_evaluation_def)
  show thesis
  proof (cases "breached m r \<and> autoscaleTarget n r \<noteq> n \<and> \<not> cooling cx r n (autoscaleTarget n r)")
    case False
    then have "st' = st \<and> n' = n \<and> \<not> AutoscaleEvaluation_triggered ev"
      using assms t(1) by (auto simp: evaluate_rule_def v breached_def Let_def split: if_splits)
    then show ?thesis using quiet by blast
  next
    case True
    then have b: "known" "am_sample_count m \<noteq> 0" "comparisonMatches v (ru_comparison r) (ru_threshold r)" by (auto simp: breached_def v)
    show ?thesis
    proof (cases q)
      case (Inl e)
      have "st' = st1" "n' = n" "\<not> AutoscaleEvaluation_triggered ev"
        using True assms t b by (auto simp: evaluate_rule_def v q Inl Let_def)
      then show ?thesis using failed [of e] True q Inl by simp
    next
      case (Inr out)
      have "st' = MarkAutoscalingRuleTriggered (sx_now cx) (ru_id r) st1" "n' = autoscaleTarget n r"
        "AutoscaleEvaluation_triggered ev" "AutoscaleEvaluation_event ev = Some (so_Event out)" "AutoscaleEvaluation_rule_id ev = ru_id r"
        using True assms t b by (auto simp: evaluate_rule_def v q Inr Let_def)
      then show ?thesis using scaled [of st1 out] True q Inr by simp
    qed
  qed
qed

lemma evaluate_rules_ok:
  assumes "store_ok st" and "GetApp (da_id app) st = Some a" and "app_row_ok app"
    and "\<forall>r \<in> set rs. rule_bounds r" and "evaluate_rules cx app m rs n st = (st', evs)"
  shows "(\<forall>ev \<in> set evs. AutoscaleEvaluation_triggered ev \<longrightarrow> (\<exists>r \<in> set rs. justified cx m r ev)) \<and>
    (\<exists>a'. GetApp (da_id app) st' = Some a' \<and>
       (da_replicas a' = da_replicas a \<or> (\<exists>r \<in> set rs. breached m r \<and> ru_min_replicas r \<le> da_replicas a' \<and> da_replicas a' \<le> ru_max_replicas r)))"
  using assms
proof (induction rs arbitrary: n st a evs)
  case (Cons r rs)
  obtain st1 n1 ev where one: "evaluate_rule cx app m r n st = (st1, n1, ev)" by (metis prod.exhaust)
  obtain evs1 where rest: "evaluate_rules cx app m rs n1 st1 = (st', evs1)" and evs: "evs = ev # evs1"
    using Cons.prems(5) by (auto simp: one split: prod.splits)
  have b: "rule_bounds r" "\<forall>r \<in> set rs. rule_bounds r" using Cons.prems(4) by simp_all
  note t = target_bounds [OF b(1), of n]
  let ?rq = "autoscale_request app (autoscaleTarget n r) r m"
  have pos: "0 < sq_Replicas ?rq" using t b(1) by (simp add: autoscale_request_def rule_bounds_def)
  have str: "sq_PlacementStrategy (scale_defaults x ?rq) \<in> {''spread'', ''binpack'', ''pinned''}" for x
    using Cons.prems(3) by (auto simp: autoscale_request_def scale_defaults_def app_row_ok_def)
  note eff = scale_effect [OF Cons.prems(1,2) pos str] and frame = scale_frame(1) [OF Cons.prems(1,2) pos str]
  have row: "da_replicas (scaled_row cx ?rq a) = autoscaleTarget n r" by (simp add: scaled_row_def autoscale_request_def)
  have "(\<exists>a1. GetApp (da_id app) st1 = Some a1 \<and> store_ok st1 \<and>
      (da_replicas a1 = da_replicas a \<or> breached m r \<and> da_replicas a1 = autoscaleTarget n r)) \<and>
    (AutoscaleEvaluation_triggered ev \<longrightarrow> justified cx m r ev)"
    using one
  proof (cases rule: evaluate_rule_cases)
    case quiet
    with Cons.prems(1,2) show ?thesis by simp
  next
    case (failed e)
    with eff [OF failed(2)] frame [OF failed(2)] show ?thesis by (auto simp: row)
  next
    case (scaled st2 out)
    have "GetApp (da_id app) st1 = Some (scaled_row cx ?rq a)" "store_ok st1" "ScalingEvent_to_replicas (so_Event out) = autoscaleTarget n r"
      using eff [OF scaled(4)] frame [OF scaled(4)] by (simp_all add: scaled(5) scale_result_ok_def row)
    with scaled t show ?thesis by (auto simp: row justified_def)
  qed
  then obtain a1 where a1: "GetApp (da_id app) st1 = Some a1" "store_ok st1"
    "da_replicas a1 = da_replicas a \<or> breached m r \<and> da_replicas a1 = autoscaleTarget n r"
    and j: "AutoscaleEvaluation_triggered ev \<longrightarrow> justified cx m r ev" by blast
  from Cons.IH [OF a1(2,1) Cons.prems(3) b(2) rest] a1(3) j t show ?case unfolding evs by auto
qed auto

text \<open>
  C16: The autoscaler acts only on its rules and within them. When every enabled rule of an app has a minimum of at least
  one and not above its maximum, an evaluation reports a scaling only for a rule whose condition held on samples of the
  last two minutes, that would change the count and was not in its cooldown, and the new count lies between the rule's
  bounds. The count stored for the app afterwards is the one before or lies within the bounds of a rule whose condition
  held, whatever else failed on the way and however the addition of the step wrapped.
\<close>

lemma autoscale_bounds:
  assumes "store_ok st" and "GetApp appID st = Some a"
    and "\<forall>r \<in> set (ListEnabledAutoscalingRulesByApp appID st). rule_bounds r"
    and "EvaluateAutoscaling cx appID st = (st', Inr evs)"
  shows "(\<forall>ev \<in> set evs. AutoscaleEvaluation_triggered ev \<longrightarrow>
      (\<exists>r \<in> set (ListEnabledAutoscalingRulesByApp appID st). justified cx (GetAverageMetricsForApp cx appID st) r ev)) \<and>
    (\<exists>a'. GetApp appID st' = Some a' \<and>
       (da_replicas a' = da_replicas a \<or>
        (\<exists>r \<in> set (ListEnabledAutoscalingRulesByApp appID st). breached (GetAverageMetricsForApp cx appID st) r \<and>
           ru_min_replicas r \<le> da_replicas a' \<and> da_replicas a' \<le> ru_max_replicas r)))"
proof -
  note a = GetApp_facts [OF assms(2)]
  have e: "evaluate_rules cx a (GetAverageMetricsForApp cx appID st) (ListEnabledAutoscalingRulesByApp appID st) (da_replicas a) st = (st', evs)"
    using assms(4) by (auto simp: EvaluateAutoscaling_def assms(2) split: prod.splits)
  have "app_row_ok a" using assms(1) a(1) by (simp add: store_ok_def)
  from evaluate_rules_ok [OF assms(1) _ this assms(3) e, unfolded a(2), OF assms(2)] show ?thesis .
qed

definition sample_rule :: rule_row where
  "sample_rule = \<lparr>ru_id = ''r1'', ru_app = ''app'', ru_name = ''CPU autoscale'', ru_metric_name = ''cpu_percent'', ru_comparison = ''gt'',
     ru_threshold = 70, ru_duration_seconds = 120, ru_action_type = ''scale_by'', ru_action_value = 1, ru_min_replicas = 1,
     ru_max_replicas = 10, ru_cooldown_up = 60, ru_cooldown_down = 300, ru_enabled = True, ru_last_triggered = None\<rparr>"

definition ruled_store :: "string list \<Rightarrow> scale_store" where
  "ruled_store servers = (sample_store servers)\<lparr>ss_rules := [sample_rule]\<rparr>"

lemma ruled_store_facts:
  "distinct servers \<Longrightarrow> store_ok (ruled_store servers)"
  "GetApp ''app'' (ruled_store servers) = Some (sample_row\<lparr>da_id := ''app''\<rparr>)"
  "ListEnabledAutoscalingRulesByApp ''app'' (ruled_store servers) = [sample_rule]" "rule_bounds sample_rule"
  using sample_store_ok [of servers]
  by (simp_all add: ruled_store_def store_ok_def members_of_def ListEnabledAutoscalingRulesByApp_def sample_rule_def rule_bounds_def
      GetApp_def sample_store_def)

lemma autoscale_bounds_witness:
  "let (st', r) = EvaluateAutoscaling sample_ctx ''app'' (ruled_store [''a'', ''b'', ''c'']) in
     \<exists>ev. r = Inr [ev] \<and> AutoscaleEvaluation_triggered ev \<and>
       justified sample_ctx (GetAverageMetricsForApp sample_ctx ''app'' (ruled_store [''a'', ''b'', ''c''])) sample_rule ev"
proof -
  let ?st = "ruled_store [''a'', ''b'', ''c'']"
  have "case snd (EvaluateAutoscaling sample_ctx ''app'' ?st) of
      Inr [ev] \<Rightarrow> AutoscaleEvaluation_triggered ev | _ \<Rightarrow> False"
    by code_simp
  then obtain st' ev where run: "EvaluateAutoscaling sample_ctx ''app'' ?st = (st', Inr [ev])" and t: "AutoscaleEvaluation_triggered ev"
    by (cases "EvaluateAutoscaling sample_ctx ''app'' ?st") (auto split: sum.splits list.splits)
  have "store_ok ?st" by (rule ruled_store_facts(1)) simp
  from autoscale_bounds [OF this ruled_store_facts(2) _ run] t show ?thesis
    by (auto simp: ruled_store_facts(3,4) run)
qed

section \<open>A cluster with no room\<close>

lemma trigger_full:
  assumes "GetApp appID st = Some a" and "app_row_ok a"
    and "\<And>cluster. obj_get (ss_clusters st) (da_project_id a) = Some cluster \<Longrightarrow> int (room st cluster a) < da_replicas a"
  shows "\<exists>e. TriggerDeploy cx appID envID b None st = (st, Inl e)"
proof (cases "b \<in> set (ss_builds st) \<and> obj_get (ss_clusters st) (da_project_id a) \<noteq> None")
  case False
  then show ?thesis by (auto simp: TriggerDeploy_def assms(1) split: option.splits)
next
  case True
  then obtain cluster where c: "obj_get (ss_clusters st) (da_project_id a) = Some cluster" by blast
  have "\<exists>e. scheduleTargets cx st a cluster (members_of st cluster) = Inl e"
    by (rule schedule_full [OF _ assms(3) [OF c]]) (use assms(2) in \<open>simp add: app_row_ok_def\<close>)
  then have "\<exists>e. deploy_targets cx st a cluster None = Inl e" by (auto simp: deploy_targets_def Let_def)
  with True c show ?thesis by (auto simp: TriggerDeploy_def assms(1))
qed

text \<open>The same app at another size.\<close>

definition resized :: "db_app \<Rightarrow> int \<Rightarrow> string \<Rightarrow> db_app" where
  "resized a n t = a\<lparr>da_replicas := n, da_updated_at := t\<rparr>"

lemma resized_facts [simp]:
  "da_id (resized a n t) = da_id a" "da_replicas (resized a n t) = n" "da_project_id (resized a n t) = da_project_id a"
  "app_row_ok (resized a n t) = app_row_ok a" "resized (resized a n t) k u = resized a k u"
  "room st cluster (resized a n t) = room st cluster a" "da_placement_strategy (resized a n t) = da_placement_strategy a"
  by (simp_all add: resized_def app_row_ok_def room_def can_host_def [abs_def] app_requirements_def default_strategy_def rejection_def)

lemma with_row_twice [simp]: "da_id r = da_id q \<Longrightarrow> with_row r (with_row q st) = with_row r st"
proof -
  assume "da_id r = da_id q"
  then have "map (\<lambda>b. if da_id b = da_id r then r else b) (map (\<lambda>b. if da_id b = da_id q then q else b) as) =
      map (\<lambda>b. if da_id b = da_id r then r else b) as" for as by (induction as) auto
  then show ?thesis by (simp add: with_row_def del: map_map)
qed

lemma scaled_resized:
  assumes "app_row_ok a"
  shows "scaled_row cx (autoscale_request a n r m) a = resized a n (sx_stamp cx)"
proof -
  have "sq_PlacementStrategy (scale_defaults a (autoscale_request a n r m)) = da_placement_strategy a"
    by (simp add: scale_defaults_def autoscale_request_def)
  then show ?thesis by (simp add: scaled_row_def resized_def) (simp add: autoscale_request_def)
qed

lemma target_climbs:
  assumes "ru_action_type r \<noteq> ''scale_to''" and "0 < ru_action_value r" and "ru_min_replicas r \<le> n" and "n \<le> ru_max_replicas r" and "1 \<le> n"
    and "ru_max_replicas r + ru_action_value r < 2 ^ 31"
  shows "autoscaleTarget n r = min (ru_max_replicas r) (n + ru_action_value r)"
proof -
  have "int32_of (n + ru_action_value r) = n + ru_action_value r" using assms by (simp add: int32_of_def)
  then show ?thesis using assms by (simp add: autoscaleTarget_def Let_def min_def)
qed

lemma with_row_queries [simp]:
  "productionEnvironment cx p (with_row r st) = productionEnvironment cx p st"
  "GetLastHealthyDeployment i e (with_row r st) = GetLastHealthyDeployment i e st"
  "GetAverageMetricsForApp cx i (with_row r st) = GetAverageMetricsForApp cx i st"
  "ListEnabledAutoscalingRulesByApp i (with_row r st) = ListEnabledAutoscalingRulesByApp i st"
  "room (with_row r st) = room st"
  by (simp_all add: with_row_def productionEnvironment_def GetLastHealthyDeployment_def GetAverageMetricsForApp_def metric_samples_def
      ListEnabledAutoscalingRulesByApp_def room_def [abs_def] members_of_def can_host_def [abs_def] scheduler_candidate_def running_replicas_def)

text \<open>
  A full app: its cluster has room for no more than the replicas it has, it runs in production, and one enabled rule that
  never triggered steps up while the metric is above its threshold at each of the given moments.
\<close>

definition full_app :: "scale_store \<Rightarrow> db_app \<Rightarrow> rule_row \<Rightarrow> scale_ctx list \<Rightarrow> bool" where
  "full_app st a r cxs =
     (store_ok st \<and> GetApp (da_id a) st = Some a \<and>
      (case obj_get (ss_clusters st) (da_project_id a) of None \<Rightarrow> True | Some cluster \<Rightarrow> int (room st cluster a) \<le> da_replicas a) \<and>
      ListEnabledAutoscalingRulesByApp (da_id a) st = [r] \<and> ru_last_triggered r = None \<and>
      ru_action_type r \<noteq> ''scale_to'' \<and> 0 < ru_action_value r \<and> ru_max_replicas r + ru_action_value r < 2 ^ 31 \<and>
      ru_min_replicas r \<le> da_replicas a \<and> 1 \<le> da_replicas a \<and>
      list_all (\<lambda>cx. breached (GetAverageMetricsForApp cx (da_id a) st) r \<and>
        (case productionEnvironment cx (da_project_id a) st of
           Inl e \<Rightarrow> False | Inr env \<Rightarrow> GetLastHealthyDeployment (da_id a) env st \<noteq> None)) cxs)"

lemma full_evaluation:
  assumes full: "full_app st a r [cx]" and "da_replicas a \<le> n" and "n \<le> ru_max_replicas r"
  shows "\<exists>u. fst (EvaluateAutoscaling cx (da_id a) (with_row (resized a n t) st)) =
    with_row (resized a (min (ru_max_replicas r) (n + ru_action_value r)) u) st"
proof -
  let ?a = "resized a n t" and ?st = "with_row (resized a n t) st" and ?m = "GetAverageMetricsForApp cx (da_id a) st"
    and ?n = "min (ru_max_replicas r) (n + ru_action_value r)"
  have f: "store_ok st" "GetApp (da_id a) st = Some a" "ListEnabledAutoscalingRulesByApp (da_id a) st = [r]" "ru_last_triggered r = None"
    "breached ?m r" "app_row_ok a"
    using full GetApp_facts [of "da_id a" st a] by (auto simp: full_app_def store_ok_def)
  obtain env d where env: "productionEnvironment cx (da_project_id a) st = Inr env" "GetLastHealthyDeployment (da_id a) env st = Some d"
    using full by (auto simp: full_app_def split: sum.splits)
  have ok: "store_ok ?st" using f(1,6) by (simp add: with_row_ok)
  have g: "GetApp (da_id a) ?st = Some ?a" by (rule with_row_get [OF f(2)]) simp
  have t: "autoscaleTarget n r = ?n" using full assms(2,3) by (intro target_climbs) (auto simp: full_app_def)
  have ev: "fst (EvaluateAutoscaling cx (da_id a) ?st) = fst (evaluate_rule cx ?a ?m r n ?st)"
    by (simp add: EvaluateAutoscaling_def g f(3) split: prod.splits)
  show ?thesis
  proof (cases "?n = n")
    case True
    then have "fst (evaluate_rule cx ?a ?m r n ?st) = ?st" using t by (simp add: evaluate_rule_def Let_def split: prod.splits)
    with True show ?thesis unfolding ev by (intro exI [of _ t]) simp
  next
    case False
    let ?rq = "autoscale_request ?a ?n r ?m" and ?u = "sx_stamp cx"
    have up: "n < ?n" using False full assms(3) by (auto simp: full_app_def min_def)
    have str: "sq_PlacementStrategy (scale_defaults ?a ?rq) \<in> {''spread'', ''binpack'', ''pinned''}"
      using f(6) by (auto simp: autoscale_request_def scale_defaults_def app_row_ok_def)
    have pos: "0 < sq_Replicas ?rq" using up full assms(2) by (auto simp: autoscale_request_def full_app_def)
    have row: "scaled_row cx ?rq ?a = resized a ?n ?u" using f(6) by (simp add: scaled_resized)
    have "\<exists>e. TriggerDeploy cx (da_id a) env (dp_build d) None (with_row (resized a ?n ?u) st) = (with_row (resized a ?n ?u) st, Inl e)"
    proof (rule trigger_full)
      show "GetApp (da_id a) (with_row (resized a ?n ?u) st) = Some (resized a ?n ?u)" by (rule with_row_get [OF f(2)]) simp
      show "app_row_ok (resized a ?n ?u)" using f(6) by simp
      show "int (room (with_row (resized a ?n ?u) st) cluster (resized a ?n ?u)) < da_replicas (resized a ?n ?u)"
        if "obj_get (ss_clusters (with_row (resized a ?n ?u) st)) (da_project_id (resized a ?n ?u)) = Some cluster" for cluster
        using that full up assms(2) by (auto simp: full_app_def)
    qed
    then obtain e where "deploy_ScaleApp cx (da_id a) ?rq ?st = (with_row (resized a ?n ?u) st, Inl e)"
      using scale_stores [OF ok g pos str] by (auto simp: row Let_def env scale_deploy_def)
    then have "fst (evaluate_rule cx ?a ?m r n ?st) = with_row (resized a ?n ?u) st"
      using f(4,5) False t by (auto simp: evaluate_rule_def Let_def breached_def cooling_def split: prod.splits)
    then show ?thesis unfolding ev by blast
  qed
qed

lemma full_evaluations:
  assumes "full_app st a r cxs" and "da_replicas a \<le> n" and "n \<le> ru_max_replicas r"
  shows "\<exists>u. foldl (\<lambda>s cx. fst (EvaluateAutoscaling cx (da_id a) s)) (with_row (resized a n t) st) cxs =
    with_row (resized a (min (ru_max_replicas r) (n + int (length cxs) * ru_action_value r)) u) st"
  using assms
proof (induction cxs arbitrary: n t)
  case Nil
  then show ?case by (intro exI [of _ t]) (simp add: min_def)
next
  case (Cons cx cxs)
  let ?k = "min (ru_max_replicas r) (n + ru_action_value r)"
  have full: "full_app st a r [cx]" "full_app st a r cxs" using Cons.prems(1) by (simp_all add: full_app_def)
  have v: "0 < ru_action_value r" using full(1) by (simp add: full_app_def)
  from full_evaluation [OF full(1) Cons.prems(2,3)] obtain u where
    u: "fst (EvaluateAutoscaling cx (da_id a) (with_row (resized a n t) st)) = with_row (resized a ?k u) st" by blast
  have "0 \<le> int (length cxs) * ru_action_value r" using v by simp
  then have m: "min (ru_max_replicas r) (?k + int (length cxs) * ru_action_value r) =
      min (ru_max_replicas r) (n + int (length (cx # cxs)) * ru_action_value r)"
    by (auto simp: min_def algebra_simps)
  have "da_replicas a \<le> ?k" "?k \<le> ru_max_replicas r" using Cons.prems(2,3) v by auto
  from Cons.IH [OF full(2) this, of u] show ?case unfolding foldl_Cons u m .
qed

lemma with_row_self:
  assumes "store_ok st" and "GetApp (da_id a) st = Some a"
  shows "with_row a st = st"
proof -
  have "a \<in> set (ss_apps st)" "distinct (map da_id (ss_apps st))" using assms GetApp_facts(1) by (auto simp: store_ok_def)
  then have "map (\<lambda>b. if da_id b = da_id a then a else b) (ss_apps st) = ss_apps st"
    by (auto intro!: map_idI simp: distinct_map inj_on_def)
  then show ?thesis by (simp add: with_row_def)
qed



text \<open>
  The rules a dialog can ask for and the table refuses, and the metrics it offers that no evaluation reads.
\<close>

lemma rule_comparisons_refused: "ru_comparison r \<in> {''eq'', ''ne''} \<Longrightarrow> \<not> rule_row_ok r"
  by (auto simp: rule_row_ok_def)

lemma rule_metrics_ignored:
  assumes "ru_metric_name r \<in> {''request_rate'', ''p95_latency_ms'', ''error_rate''}"
  shows "evaluate_rule cx app m r n st =
    (st, n, (rule_evaluation r m)\<lparr>AutoscaleEvaluation_message := ''waiting for fresh agent metrics''\<rparr>)"
  using assms by (auto simp: evaluate_rule_def metricValue_def Let_def)

text \<open>The duration of a rule plays no part: two rules that differ only in it act alike.\<close>

lemma duration_ignored: "evaluate_rule cx app m (r\<lparr>ru_duration_seconds := d\<rparr>) n st = evaluate_rule cx app m r n st"
proof -
  have p: "ru_id (r\<lparr>ru_duration_seconds := d\<rparr>) = ru_id r" "ru_metric_name (r\<lparr>ru_duration_seconds := d\<rparr>) = ru_metric_name r"
    "ru_comparison (r\<lparr>ru_duration_seconds := d\<rparr>) = ru_comparison r" "ru_threshold (r\<lparr>ru_duration_seconds := d\<rparr>) = ru_threshold r" by simp_all
  have q: "autoscaleTarget n (r\<lparr>ru_duration_seconds := d\<rparr>) = autoscaleTarget n r" "rule_evaluation (r\<lparr>ru_duration_seconds := d\<rparr>) m = rule_evaluation r m"
    "cooling cx (r\<lparr>ru_duration_seconds := d\<rparr>) n k = cooling cx r n k" "autoscale_request app k (r\<lparr>ru_duration_seconds := d\<rparr>) m = autoscale_request app k r m" for k
    by (simp_all add: autoscaleTarget_def Let_def rule_evaluation_def cooling_def autoscale_request_def split: option.split)
  show ?thesis unfolding evaluate_rule_def p q ..
qed

end
